(* ===== verification/Prelude.thy ===== *)
theory Prelude
  imports Main
begin

text \<open>
  What every component shares: JavaScript strings as the source uses them (character classes of
  its regular expressions, \<open>trim\<close>, length bounds), safe integers, the in-place update of the
  first matching row of a collection, and the lemma collections the component proofs draw on.

  A JavaScript string is a \<^typ>\<open>string\<close>: the list of its code units, of which this model holds
  those below 256. Lengths count code units, as \<open>value.length\<close> does.
\<close>

named_theorems rows "how an update of a collection acts on its rows"
named_theorems rowdest "what membership in an updated collection says"

section \<open>Strings\<close>

text \<open>The code units \<open>String.prototype.trim\<close> strips, below 256.\<close>

definition js_space :: "char \<Rightarrow> bool" where
  "js_space c \<longleftrightarrow> of_char c \<in> {9, 10, 11, 12, 13, 32, 160 :: nat}"

definition js_trim :: "string \<Rightarrow> string" where
  "js_trim s = rev (dropWhile js_space (rev (dropWhile js_space s)))"

definition nul :: char where
  "nul = CHR 0x00"

definition is_lower :: "char \<Rightarrow> bool" where
  "is_lower c \<longleftrightarrow> 97 \<le> (of_char c :: nat) \<and> (of_char c :: nat) \<le> 122"

definition is_upper :: "char \<Rightarrow> bool" where
  "is_upper c \<longleftrightarrow> 65 \<le> (of_char c :: nat) \<and> (of_char c :: nat) \<le> 90"

definition is_digit :: "char \<Rightarrow> bool" where
  "is_digit c \<longleftrightarrow> 48 \<le> (of_char c :: nat) \<and> (of_char c :: nat) \<le> 57"

definition is_alnum :: "char \<Rightarrow> bool" where
  "is_alnum c \<longleftrightarrow> is_lower c \<or> is_upper c \<or> is_digit c"

definition is_hex :: "char \<Rightarrow> bool" where
  "is_hex c \<longleftrightarrow> is_digit c \<or> 97 \<le> (of_char c :: nat) \<and> (of_char c :: nat) \<le> 102"

text \<open>
  The shape \<open>^H T{0,n}$\<close> of the source's reference patterns: one head character and at most
  \<open>n\<close> tail characters. (JavaScript's \<open>$\<close> without the \<open>m\<close> flag matches at the very end only.)
\<close>

definition head_tail :: "(char \<Rightarrow> bool) \<Rightarrow> (char \<Rightarrow> bool) \<Rightarrow> nat \<Rightarrow> string \<Rightarrow> bool" where
  "head_tail h t n s = (case s of [] \<Rightarrow> False
     | c # cs \<Rightarrow> h c \<and> length cs \<le> n \<and> list_all t cs)"

definition js_join :: "string \<Rightarrow> string list \<Rightarrow> string" where
  "js_join sep xs = (case xs of [] \<Rightarrow> [] | y # ys \<Rightarrow> y @ concat (map (\<lambda>z. sep @ z) ys))"

lemma head_tail_length: "head_tail h t n s \<Longrightarrow> 0 < length s \<and> length s \<le> Suc n"
  by (cases s) (auto simp: head_tail_def)

lemma head_tail_mono:
  assumes "head_tail h t n s" and "\<And>c. h c \<Longrightarrow> h' c" and "\<And>c. t c \<Longrightarrow> t' c" and "n \<le> n'"
  shows "head_tail h' t' n' s"
  using assms by (cases s) (auto simp: head_tail_def list_all_iff)

section \<open>Safe integers\<close>

definition max_safe :: int where
  "max_safe = 9007199254740991"

definition safe_int :: "int \<Rightarrow> bool" where
  "safe_int n \<longleftrightarrow> - max_safe \<le> n \<and> n \<le> max_safe"

section \<open>Errors as values\<close>

text \<open>\<open>Inl\<close> is what is thrown. A decoder is a chain of walls, the first that fails throwing.\<close>

definition require :: "bool \<Rightarrow> 'e \<Rightarrow> ('e + 'a) \<Rightarrow> 'e + 'a" where
  "require b err k = (if b then k else Inl err)"

definition sum_bind :: "'e + 'a \<Rightarrow> ('a \<Rightarrow> 'e + 'b) \<Rightarrow> 'e + 'b" where
  "sum_bind r k = (case r of Inl x \<Rightarrow> Inl x | Inr a \<Rightarrow> k a)"

lemma require_Inr [simp]: "require b err k = Inr a \<longleftrightarrow> b \<and> k = Inr a"
  by (simp add: require_def)

lemma sum_bind_Inr [simp]: "sum_bind r k = Inr b \<longleftrightarrow> (\<exists>a. r = Inr a \<and> k a = Inr b)"
  by (cases r) (simp_all add: sum_bind_def)

lemma require_True [simp]: "require True err k = k" "require False err k = Inl err"
  by (simp_all add: require_def)

lemma sum_bind_simps [simp]: "sum_bind (Inr a) k = k a" "sum_bind (Inl x) k = Inl x"
  by (simp_all add: sum_bind_def)

section \<open>Rows of a collection\<close>

text \<open>
  The code finds a row with \<open>find\<close> and assigns to it in place: what changes is the first row
  the predicate accepts.
\<close>

fun upd_first :: "('a \<Rightarrow> bool) \<Rightarrow> ('a \<Rightarrow> 'a) \<Rightarrow> 'a list \<Rightarrow> 'a list" where
  "upd_first p f [] = []"
| "upd_first p f (x # xs) = (if p x then f x # xs else x # upd_first p f xs)"

lemma length_upd_first [simp, rows]: "length (upd_first p f xs) = length xs"
  by (induction xs) auto

lemma upd_first_None: "find p xs = None \<Longrightarrow> upd_first p f xs = xs"
  by (induction xs) (auto split: if_splits)

lemma upd_first_nil_iff [simp]: "upd_first p f xs = [] \<longleftrightarrow> xs = []"
  by (cases xs) auto

lemma set_upd_firstD [rowdest]:
  "y \<in> set (upd_first p f xs) \<Longrightarrow> y \<in> set xs \<or> (\<exists>x. find p xs = Some x \<and> y = f x)"
  by (induction xs) (auto split: if_splits)

lemma find_SomeD: "find p xs = Some x \<Longrightarrow> p x \<and> x \<in> set xs"
  by (induction xs) (auto split: if_splits)

lemma find_Some_pred: "find p xs = Some x \<Longrightarrow> p x"
  by (simp add: find_SomeD)

lemma find_Some_in: "find p xs = Some x \<Longrightarrow> x \<in> set xs"
  by (simp add: find_SomeD)

lemma find_None_iff': "find p xs = None \<longleftrightarrow> (\<forall>x\<in>set xs. \<not> p x)"
  by (induction xs) auto

lemma find_append: "find p (xs @ ys) = (case find p xs of None \<Rightarrow> find p ys | Some x \<Rightarrow> Some x)"
  by (induction xs) auto

lemma list_all_upd_first:
  assumes "list_all P xs" and "\<And>x. find p xs = Some x \<Longrightarrow> P x \<Longrightarrow> P (f x)"
  shows "list_all P (upd_first p f xs)"
  using assms by (induction xs) auto

lemma map_upd_first_same:
  assumes "\<And>x. find p xs = Some x \<Longrightarrow> k (f x) = k x"
  shows "map k (upd_first p f xs) = map k xs"
  using assms by (induction xs) auto

lemma find_upd_first_hit:
  "find p xs = Some x \<Longrightarrow> p (f x) \<Longrightarrow> find p (upd_first p f xs) = Some (f x)"
  by (induction xs) (auto split: if_splits)

lemma find_upd_first_other:
  assumes "\<And>x. find p xs = Some x \<Longrightarrow> \<not> q x" and "\<And>x. find p xs = Some x \<Longrightarrow> \<not> q (f x)"
  shows "find q (upd_first p f xs) = find q xs"
  using assms by (induction xs) (auto split: if_splits)

lemma filter_upd_first_length:
  assumes "\<And>x. find p xs = Some x \<Longrightarrow> q (f x) = q x"
  shows "length (filter q (upd_first p f xs)) = length (filter q xs)"
  using assms by (induction xs) (auto split: if_splits)

lemma upd_first_split:
  assumes "find p xs = Some x"
  obtains as bs where "xs = as @ x # bs" and "upd_first p f xs = as @ f x # bs"
  using assms
proof (induction xs arbitrary: thesis)
  case (Cons y ys)
  show ?case
  proof (cases "p y")
    case True
    then show ?thesis using Cons.prems(1)[of "[]" ys] Cons.prems(2) by simp
  next
    case False
    with Cons.prems(2) have "find p ys = Some x" by simp
    then obtain as bs where "ys = as @ x # bs" "upd_first p f ys = as @ f x # bs"
      using Cons.IH by blast
    then show ?thesis using Cons.prems(1)[of "y # as" bs] False by simp
  qed
qed simp

lemma upd_first_member [rows]: "find p xs = Some x \<Longrightarrow> f x \<in> set (upd_first p f xs)"
  by (induction xs) (auto split: if_splits)

lemma upd_first_id: "upd_first p (\<lambda>x. x) xs = xs"
  by (induction xs) auto

lemma filter_filter_None: "list_all (\<lambda>x. \<not> p x) xs \<Longrightarrow> filter p xs = []"
  by (simp add: list_all_iff filter_empty_conv)

text \<open>\<open>[...new Set(xs)]\<close>: first occurrences in order, and the duplicate test the source builds on it.\<close>

definition uniq :: "'a list \<Rightarrow> 'a list" where
  "uniq xs = rev (remdups (rev xs))"

definition all_distinct :: "'a list \<Rightarrow> bool" where
  "all_distinct xs \<longleftrightarrow> length (remdups xs) = length xs"

lemma all_distinct_iff [simp]: "all_distinct xs \<longleftrightarrow> distinct xs"
  by (simp add: all_distinct_def length_remdups_eq)

lemma opt_case_NoneD: "(case x of None \<Rightarrow> a | Some y \<Rightarrow> f y) = b \<Longrightarrow> x = None \<Longrightarrow> a = b"
  by simp

end
