(* ===== verification/Lifecycles.thy ===== *)
theory Lifecycles
  imports Prelude
begin

text \<open>
  The closed state machines of the control plane: the run lifecycle of \<open>control/runLifecycle.ts\<close>
  with its semantics table, and the publication, stage, attempt and managed-session edge tables of
  \<open>control/store.ts\<close>. Each is an interpretation of one interface, \<open>edge_machine\<close>: an edge relation
  without self loops and the states it never leaves.
\<close>

section \<open>The interface\<close>

locale edge_machine =
  fixes edge :: "'s \<Rightarrow> 's \<Rightarrow> bool" and final :: "'s \<Rightarrow> bool"
  assumes no_loop: "\<not> edge s s"
    and final_no_edge: "final s \<Longrightarrow> \<not> edge s t"
begin

lemma edge_source_open: "edge s t \<Longrightarrow> \<not> final s"
  using final_no_edge by blast

lemma final_absorbing: "edge\<^sup>*\<^sup>* s t \<Longrightarrow> final s \<Longrightarrow> t = s"
  by (induction rule: converse_rtranclp_induct) (auto dest: final_no_edge)

text \<open>A compare-and-swap transition either replays or takes one edge, so a run of them is a path.\<close>

fun path :: "'s \<Rightarrow> 's list \<Rightarrow> bool" where
  "path s [] = True"
| "path s (t # ts) = ((t = s \<or> edge s t) \<and> path t ts)"

lemma path_reaches: "path s ts \<Longrightarrow> t \<in> set ts \<Longrightarrow> edge\<^sup>*\<^sup>* s t"
proof (induction ts arbitrary: s)
  case (Cons u us)
  then have u: "edge\<^sup>*\<^sup>* s u" by auto
  from Cons.prems show ?case
  proof (cases "t = u")
    case False
    with Cons.prems have "edge\<^sup>*\<^sup>* u t" using Cons.IH[of u] by simp
    with u show ?thesis by (rule rtranclp_trans)
  qed (use u in simp)
qed simp

lemma final_path: "path s ts \<Longrightarrow> final s \<Longrightarrow> t \<in> set ts \<Longrightarrow> t = s"
  using path_reaches final_absorbing by blast

end

section \<open>The run lifecycle\<close>

datatype run_kind = RPlanned | RRecovering | RRunning | RWaitingHuman | RStopping | RSucceeded
  | RFailed | RStopped | RInterrupted | RArchived | RPausedForDeploy

definition RUN_LIFECYCLE_KINDS :: "(string \<times> run_kind) list" where
  "RUN_LIFECYCLE_KINDS =
     [(''planned'', RPlanned), (''recovering'', RRecovering), (''running'', RRunning),
      (''waiting-human'', RWaitingHuman), (''stopping'', RStopping), (''succeeded'', RSucceeded),
      (''failed'', RFailed), (''stopped'', RStopped), (''interrupted'', RInterrupted),
      (''archived'', RArchived), (''paused-for-deploy'', RPausedForDeploy)]"

definition run_kind_of :: "string \<Rightarrow> run_kind option" where
  "run_kind_of = map_of RUN_LIFECYCLE_KINDS"

fun run_kind_str :: "run_kind \<Rightarrow> string" where
  "run_kind_str RPlanned = ''planned''"
| "run_kind_str RRecovering = ''recovering''"
| "run_kind_str RRunning = ''running''"
| "run_kind_str RWaitingHuman = ''waiting-human''"
| "run_kind_str RStopping = ''stopping''"
| "run_kind_str RSucceeded = ''succeeded''"
| "run_kind_str RFailed = ''failed''"
| "run_kind_str RStopped = ''stopped''"
| "run_kind_str RInterrupted = ''interrupted''"
| "run_kind_str RArchived = ''archived''"
| "run_kind_str RPausedForDeploy = ''paused-for-deploy''"

lemma run_kind_of_str: "run_kind_of (run_kind_str k) = Some k"
  by (cases k) (simp_all add: run_kind_of_def RUN_LIFECYCLE_KINDS_def)

record resume_claim =
  rc_deploymentRef :: string
  rc_bootId :: string
  rc_claimantRef :: string

record deploy_pause =
  dp_deploymentRef :: string
  dp_pausedAt :: string
  dp_priorKind :: run_kind
  dp_resumeStreak :: int
  dp_lastResumeAttemptCursor :: "int option"
  dp_resumeClaim :: "resume_claim option"

record run_lifecycle =
  lc_kind :: run_kind
  lc_deployPause :: "deploy_pause option"

datatype crash_policy = Preserve | Interrupt

record run_semantics =
  sem_terminal :: bool
  sem_quarantine :: bool
  sem_transitions :: "run_kind list"
  sem_crash :: crash_policy

definition semantics :: "bool \<Rightarrow> bool \<Rightarrow> run_kind list \<Rightarrow> crash_policy \<Rightarrow> run_semantics" where
  "semantics t q ts c =
     \<lparr>sem_terminal = t, sem_quarantine = q, sem_transitions = ts, sem_crash = c\<rparr>"

fun semanticsForKind :: "run_kind \<Rightarrow> run_semantics" where
  "semanticsForKind RPlanned = semantics False False
     [RRecovering, RRunning, RWaitingHuman, RStopping, RFailed, RStopped, RInterrupted] Preserve"
| "semanticsForKind RRecovering = semantics False False
     [RRunning, RWaitingHuman, RStopping, RFailed, RStopped, RInterrupted] Interrupt"
| "semanticsForKind RRunning = semantics False False
     [RWaitingHuman, RStopping, RSucceeded, RFailed, RStopped, RInterrupted] Interrupt"
| "semanticsForKind RWaitingHuman = semantics False False
     [RPlanned, RRecovering, RRunning, RStopping, RFailed, RStopped, RInterrupted, RArchived] Preserve"
| "semanticsForKind RStopping = semantics False False [RStopped, RFailed, RInterrupted] Interrupt"
| "semanticsForKind RSucceeded = semantics True True [RArchived] Preserve"
| "semanticsForKind RFailed = semantics True True [RArchived] Preserve"
| "semanticsForKind RStopped = semantics True True [RArchived] Preserve"
| "semanticsForKind RInterrupted = semantics False True
     [RRecovering, RRunning, RWaitingHuman, RStopping, RFailed, RStopped, RArchived] Preserve"
| "semanticsForKind RArchived = semantics True True [] Preserve"
| "semanticsForKind RPausedForDeploy = semantics False False [] Preserve"

text \<open>\<open>lifecycleForKind\<close> throws on a kind that disagrees with the pause data.\<close>

definition lifecycleForKind :: "run_kind \<Rightarrow> deploy_pause option \<Rightarrow> string + run_lifecycle" where
  "lifecycleForKind k p =
     (if k = RPausedForDeploy
      then (case p of None \<Rightarrow> Inl ''paused-for-deploy requires deploy pause data''
            | Some _ \<Rightarrow> Inr \<lparr>lc_kind = k, lc_deployPause = p\<rparr>)
      else (case p of Some _ \<Rightarrow> Inl (run_kind_str k @ '' cannot carry deploy pause data'')
            | None \<Rightarrow> Inr \<lparr>lc_kind = k, lc_deployPause = None\<rparr>))"

definition runLifecycleKind :: "run_lifecycle \<Rightarrow> run_kind" where
  "runLifecycleKind l = lc_kind l"

definition projectRunState :: "run_lifecycle \<Rightarrow> run_kind" where
  "projectRunState l = runLifecycleKind l"

definition isTerminalRun :: "run_lifecycle \<Rightarrow> bool" where
  "isTerminalRun l = sem_terminal (semanticsForKind (runLifecycleKind l))"

definition canQuarantineRun :: "run_lifecycle \<Rightarrow> bool" where
  "canQuarantineRun l = sem_quarantine (semanticsForKind (runLifecycleKind l))"

definition canTransitionRun :: "run_lifecycle \<Rightarrow> run_kind \<Rightarrow> bool" where
  "canTransitionRun l k \<longleftrightarrow> k \<in> set (sem_transitions (semanticsForKind (runLifecycleKind l)))"

definition crashNormalizedLifecycle :: "run_lifecycle \<Rightarrow> bool \<Rightarrow> string + run_lifecycle" where
  "crashNormalizedLifecycle l pendingActivation =
     (if sem_crash (semanticsForKind (runLifecycleKind l)) = Preserve then Inr l
      else lifecycleForKind (if pendingActivation then RWaitingHuman else RInterrupted) None)"

text \<open>The lifecycle of a kind that carries no pause, as every state-changing path writes it.\<close>

definition plain_lc :: "run_kind \<Rightarrow> run_lifecycle" where
  "plain_lc k = \<lparr>lc_kind = k, lc_deployPause = None\<rparr>"

definition wf_lifecycle :: "run_lifecycle \<Rightarrow> bool" where
  "wf_lifecycle l \<longleftrightarrow> (lc_kind l = RPausedForDeploy \<longleftrightarrow> lc_deployPause l \<noteq> None)"

lemma lc_kind_plain [simp]: "lc_kind (plain_lc k) = k" "lc_deployPause (plain_lc k) = None"
  by (simp_all add: plain_lc_def)

lemma lifecycleForKind_None:
  "lifecycleForKind k None =
     (if k = RPausedForDeploy then Inl ''paused-for-deploy requires deploy pause data'' else Inr (plain_lc k))"
  by (simp add: lifecycleForKind_def plain_lc_def)

lemma lifecycleForKind_wf: "lifecycleForKind k p = Inr l \<Longrightarrow> wf_lifecycle l \<and> lc_kind l = k"
  by (auto simp: lifecycleForKind_def wf_lifecycle_def split: if_splits option.splits)

text \<open>No lifecycle leads into the deploy pause: that edge is not in the table at all.\<close>

lemma canTransitionRun_not_paused: "canTransitionRun l k \<Longrightarrow> k \<noteq> RPausedForDeploy"
  by (cases "lc_kind l") (auto simp: canTransitionRun_def runLifecycleKind_def semantics_def)

definition run_final :: "run_kind \<Rightarrow> bool" where
  "run_final k \<longleftrightarrow> k = RArchived \<or> k = RPausedForDeploy"

definition run_edge :: "run_kind \<Rightarrow> run_kind \<Rightarrow> bool" where
  "run_edge k k' \<longleftrightarrow> canTransitionRun \<lparr>lc_kind = k, lc_deployPause = None\<rparr> k'"

lemma canTransitionRun_edge: "canTransitionRun l k \<longleftrightarrow> run_edge (lc_kind l) k"
  by (simp add: run_edge_def canTransitionRun_def runLifecycleKind_def)

interpretation run_machine: edge_machine run_edge run_final
proof
  fix s t
  show "\<not> run_edge s s"
    by (cases s) (simp_all add: run_edge_def canTransitionRun_def runLifecycleKind_def semantics_def)
  show "run_final s \<Longrightarrow> \<not> run_edge s t"
    by (auto simp: run_final_def run_edge_def canTransitionRun_def runLifecycleKind_def semantics_def)
qed

lemma terminal_only_to_archived:
  "isTerminalRun l \<Longrightarrow> canTransitionRun l k \<Longrightarrow> k = RArchived"
  by (cases "lc_kind l")
    (auto simp: isTerminalRun_def canTransitionRun_def runLifecycleKind_def semantics_def)

lemma terminal_kinds:
  "isTerminalRun l \<longleftrightarrow> lc_kind l \<in> {RSucceeded, RFailed, RStopped, RArchived}"
  by (cases "lc_kind l") (simp_all add: isTerminalRun_def runLifecycleKind_def semantics_def)

section \<open>Publication, stages, attempts, sessions\<close>

datatype publication_state = PubPending | PubWaitingHuman | PubPublishing | PubPublished
  | PubReconcileRequired

definition PUBLICATION_STATES :: "(string \<times> publication_state) list" where
  "PUBLICATION_STATES = [(''pending'', PubPending), (''waiting-human'', PubWaitingHuman),
     (''publishing'', PubPublishing), (''published'', PubPublished),
     (''reconcile-required'', PubReconcileRequired)]"

fun PUBLICATION_EDGES :: "publication_state \<Rightarrow> publication_state list" where
  "PUBLICATION_EDGES PubPending = [PubWaitingHuman, PubPublishing, PubReconcileRequired]"
| "PUBLICATION_EDGES PubWaitingHuman = [PubPending, PubReconcileRequired]"
| "PUBLICATION_EDGES PubPublishing = [PubPublished, PubReconcileRequired]"
| "PUBLICATION_EDGES PubPublished = []"
| "PUBLICATION_EDGES PubReconcileRequired = [PubPublishing]"

datatype stage_state = SBlocked | SReady | SRunning | SWaitingHuman | SSucceeded | SFailed
  | SStopped | SInterrupted

definition STAGE_STATES :: "(string \<times> stage_state) list" where
  "STAGE_STATES = [(''blocked'', SBlocked), (''ready'', SReady), (''running'', SRunning),
     (''waiting-human'', SWaitingHuman), (''succeeded'', SSucceeded), (''failed'', SFailed),
     (''stopped'', SStopped), (''interrupted'', SInterrupted)]"

fun STAGE_EDGES :: "stage_state \<Rightarrow> stage_state list" where
  "STAGE_EDGES SBlocked = [SReady, SWaitingHuman, SStopped, SInterrupted]"
| "STAGE_EDGES SReady = [SRunning, SWaitingHuman, SFailed, SStopped, SInterrupted]"
| "STAGE_EDGES SRunning = [SWaitingHuman, SSucceeded, SFailed, SStopped, SInterrupted]"
| "STAGE_EDGES SWaitingHuman = [SReady, SFailed, SStopped, SInterrupted]"
| "STAGE_EDGES SSucceeded = []"
| "STAGE_EDGES SFailed = []"
| "STAGE_EDGES SStopped = []"
| "STAGE_EDGES SInterrupted = [SReady, SWaitingHuman, SFailed, SStopped]"

definition TERMINAL_STAGE :: "stage_state \<Rightarrow> bool" where
  "TERMINAL_STAGE s \<longleftrightarrow> s \<in> {SSucceeded, SFailed, SStopped}"

definition SETTLED_STAGE :: "stage_state \<Rightarrow> bool" where
  "SETTLED_STAGE s \<longleftrightarrow> TERMINAL_STAGE s \<or> s = SInterrupted"

datatype attempt_state = AQueued | AStarting | ARunning | AWaitingHuman | ASucceeded | AFailed
  | AStopped | AInterrupted

definition ATTEMPT_STATES :: "(string \<times> attempt_state) list" where
  "ATTEMPT_STATES = [(''queued'', AQueued), (''starting'', AStarting), (''running'', ARunning),
     (''waiting-human'', AWaitingHuman), (''succeeded'', ASucceeded), (''failed'', AFailed),
     (''stopped'', AStopped), (''interrupted'', AInterrupted)]"

fun ATTEMPT_EDGES :: "attempt_state \<Rightarrow> attempt_state list" where
  "ATTEMPT_EDGES AQueued = [AStarting, AWaitingHuman, AFailed, AStopped, AInterrupted]"
| "ATTEMPT_EDGES AStarting = [ARunning, ASucceeded, AWaitingHuman, AFailed, AStopped, AInterrupted]"
| "ATTEMPT_EDGES ARunning = [AWaitingHuman, ASucceeded, AFailed, AStopped, AInterrupted]"
| "ATTEMPT_EDGES AWaitingHuman = [AFailed, AStopped, AInterrupted]"
| "ATTEMPT_EDGES ASucceeded = []"
| "ATTEMPT_EDGES AFailed = []"
| "ATTEMPT_EDGES AStopped = []"
| "ATTEMPT_EDGES AInterrupted = [AStopped]"

definition TERMINAL_ATTEMPT :: "attempt_state \<Rightarrow> bool" where
  "TERMINAL_ATTEMPT s \<longleftrightarrow> s \<in> {ASucceeded, AFailed, AStopped}"

definition SETTLED_ATTEMPT :: "attempt_state \<Rightarrow> bool" where
  "SETTLED_ATTEMPT s \<longleftrightarrow> TERMINAL_ATTEMPT s \<or> s = AInterrupted"

datatype session_state = MPending | MStarting | MRunning | MWaiting | MCompleted | MFailed
  | MStopped | MInterrupted

definition SESSION_STATES :: "(string \<times> session_state) list" where
  "SESSION_STATES = [(''pending'', MPending), (''starting'', MStarting), (''running'', MRunning),
     (''waiting'', MWaiting), (''completed'', MCompleted), (''failed'', MFailed),
     (''stopped'', MStopped), (''interrupted'', MInterrupted)]"

fun SESSION_EDGES :: "session_state \<Rightarrow> session_state list" where
  "SESSION_EDGES MPending = [MStarting, MFailed, MStopped, MInterrupted]"
| "SESSION_EDGES MStarting = [MRunning, MWaiting, MCompleted, MFailed, MStopped, MInterrupted]"
| "SESSION_EDGES MRunning = [MWaiting, MCompleted, MFailed, MStopped, MInterrupted]"
| "SESSION_EDGES MWaiting = [MRunning, MCompleted, MFailed, MStopped, MInterrupted]"
| "SESSION_EDGES MCompleted = []"
| "SESSION_EDGES MFailed = []"
| "SESSION_EDGES MStopped = []"
| "SESSION_EDGES MInterrupted = [MStopped]"

definition TERMINAL_SESSION :: "session_state \<Rightarrow> bool" where
  "TERMINAL_SESSION s \<longleftrightarrow> s \<in> {MCompleted, MFailed, MStopped}"

definition SETTLED_SESSION :: "session_state \<Rightarrow> bool" where
  "SETTLED_SESSION s \<longleftrightarrow> TERMINAL_SESSION s \<or> s = MInterrupted"

definition publication_edge :: "publication_state \<Rightarrow> publication_state \<Rightarrow> bool" where
  "publication_edge s t \<longleftrightarrow> t \<in> set (PUBLICATION_EDGES s)"

definition stage_edge :: "stage_state \<Rightarrow> stage_state \<Rightarrow> bool" where
  "stage_edge s t \<longleftrightarrow> t \<in> set (STAGE_EDGES s)"

definition attempt_edge :: "attempt_state \<Rightarrow> attempt_state \<Rightarrow> bool" where
  "attempt_edge s t \<longleftrightarrow> t \<in> set (ATTEMPT_EDGES s)"

definition session_edge :: "session_state \<Rightarrow> session_state \<Rightarrow> bool" where
  "session_edge s t \<longleftrightarrow> t \<in> set (SESSION_EDGES s)"

interpretation publication_machine: edge_machine publication_edge "\<lambda>s. s = PubPublished"
proof
  fix s t
  show "\<not> publication_edge s s" by (cases s) (simp_all add: publication_edge_def)
  show "s = PubPublished \<Longrightarrow> \<not> publication_edge s t" by (simp add: publication_edge_def)
qed

interpretation stage_machine: edge_machine stage_edge TERMINAL_STAGE
proof
  fix s t
  show "\<not> stage_edge s s" by (cases s) (simp_all add: stage_edge_def)
  show "TERMINAL_STAGE s \<Longrightarrow> \<not> stage_edge s t" by (auto simp: stage_edge_def TERMINAL_STAGE_def)
qed

interpretation attempt_machine: edge_machine attempt_edge TERMINAL_ATTEMPT
proof
  fix s t
  show "\<not> attempt_edge s s" by (cases s) (simp_all add: attempt_edge_def)
  show "TERMINAL_ATTEMPT s \<Longrightarrow> \<not> attempt_edge s t" by (auto simp: attempt_edge_def TERMINAL_ATTEMPT_def)
qed

interpretation session_machine: edge_machine session_edge TERMINAL_SESSION
proof
  fix s t
  show "\<not> session_edge s s" by (cases s) (simp_all add: session_edge_def)
  show "TERMINAL_SESSION s \<Longrightarrow> \<not> session_edge s t" by (auto simp: session_edge_def TERMINAL_SESSION_def)
qed

text \<open>
  No attempt is revived: the states a session or an attempt was in once it settled stay settled,
  so a retry is always a successor record.
\<close>

lemma settled_attempt_stays: "attempt_edge s t \<Longrightarrow> SETTLED_ATTEMPT s \<Longrightarrow> SETTLED_ATTEMPT t"
  by (cases s) (auto simp: attempt_edge_def SETTLED_ATTEMPT_def TERMINAL_ATTEMPT_def)

lemma settled_session_stays: "session_edge s t \<Longrightarrow> SETTLED_SESSION s \<Longrightarrow> SETTLED_SESSION t"
  by (cases s) (auto simp: session_edge_def SETTLED_SESSION_def TERMINAL_SESSION_def)

end
