(* ===== verification/Json.thy ===== *)
theory Json
  imports Prelude "HOL-Library.List_Lexorder" "HOL-Library.Char_ord" "HOL-Library.Multiset"
begin

text \<open>
  JavaScript values as the record walls see them (\<open>value: unknown\<close>), \<open>JSON.stringify\<close>, and
  \<open>canonicalJson\<close> of \<open>control/controlHashing.ts\<close>. The predicates of \<open>control/recordShape.ts\<close>
  and \<open>shared/decode.ts\<close> are here too.

  A number is \<open>JNum\<close> when it is integral, \<open>JFrac\<close> (with its printed form) when it is finite and
  not integral, \<open>JNaN\<close> otherwise. \<open>JObj\<close> is an object whose prototype is \<open>Object.prototype\<close>, its
  own properties in order; an object of another class is \<open>JInst\<close>.
\<close>

datatype js =
    JUndef
  | JNull
  | JBool bool
  | JNum int
  | JFrac string
  | JNaN
  | JStr string
  | JArr "js list"
  | JObj "(string \<times> js) list"
  | JInst "(string \<times> js) list"

section \<open>Reading\<close>

fun js_fields :: "js \<Rightarrow> (string \<times> js) list" where
  "js_fields (JObj kvs) = kvs"
| "js_fields (JInst kvs) = kvs"
| "js_fields _ = []"

definition js_keys :: "js \<Rightarrow> string list" where
  "js_keys v = map fst (js_fields v)"

definition fld :: "js \<Rightarrow> string \<Rightarrow> js" where
  "fld v k = (case map_of (js_fields v) k of None \<Rightarrow> JUndef | Some x \<Rightarrow> x)"

definition hasOwn :: "js \<Rightarrow> string \<Rightarrow> bool" where
  "hasOwn v k \<longleftrightarrow> map_of (js_fields v) k \<noteq> None"

fun isPlainRecord :: "js \<Rightarrow> bool" where
  "isPlainRecord (JObj _) = True"
| "isPlainRecord _ = False"

fun is_record :: "js \<Rightarrow> bool" where
  "is_record (JObj _) = True"
| "is_record (JInst _) = True"
| "is_record _ = False"

definition hasExactKeys :: "js \<Rightarrow> string list \<Rightarrow> bool" where
  "hasExactKeys v expected \<longleftrightarrow> sort (js_keys v) = sort expected"

definition exactKeys :: "js \<Rightarrow> string list \<Rightarrow> bool" where
  "exactKeys v ks \<longleftrightarrow> length (js_keys v) = length ks \<and> list_all (hasOwn v) ks"

fun isNonEmpty :: "js \<Rightarrow> bool" where
  "isNonEmpty (JStr s) = (0 < length (js_trim s) \<and> nul \<notin> set s)"
| "isNonEmpty _ = False"

fun js_safe_int :: "js \<Rightarrow> bool" where
  "js_safe_int (JNum n) = safe_int n"
| "js_safe_int _ = False"

fun js_int :: "js \<Rightarrow> int" where
  "js_int (JNum n) = n"
| "js_int _ = 0"

fun js_str :: "js \<Rightarrow> string" where
  "js_str (JStr s) = s"
| "js_str _ = []"

fun js_arr :: "js \<Rightarrow> js list" where
  "js_arr (JArr xs) = xs"
| "js_arr _ = []"

fun is_str :: "js \<Rightarrow> bool" where
  "is_str (JStr _) = True"
| "is_str _ = False"

fun is_arr :: "js \<Rightarrow> bool" where
  "is_arr (JArr _) = True"
| "is_arr _ = False"

text \<open>\<open>/^[a-f0-9]{n}$/\<close>\<close>

definition hex_len :: "nat \<Rightarrow> string \<Rightarrow> bool" where
  "hex_len n s \<longleftrightarrow> length s = n \<and> list_all is_hex s"

definition js_hex :: "nat \<Rightarrow> js \<Rightarrow> bool" where
  "js_hex n v = (case v of JStr s \<Rightarrow> hex_len n s | _ \<Rightarrow> False)"

section \<open>Printing\<close>

fun digits :: "nat \<Rightarrow> string" where
  "digits n = (if n < 10 then [char_of (48 + n)] else digits (n div 10) @ [char_of (48 + n mod 10)])"

declare digits.simps [simp del]

lemma digits_value: "foldl (\<lambda>v c. 10 * v + (of_char c - 48)) 0 (digits n) = n"
proof (induction n rule: digits.induct)
  case (1 n)
  show ?case by (subst digits.simps) (use 1 in simp)
qed

lemma digits_inj: "digits n = digits m \<longleftrightarrow> n = m"
  using digits_value by metis

definition int_str :: "int \<Rightarrow> string" where
  "int_str i = (if i < 0 then CHR ''-'' # digits (nat (- i)) else digits (nat i))"

definition hex_digit :: "nat \<Rightarrow> char" where
  "hex_digit n = (if n < 10 then char_of (48 + n) else char_of (87 + n))"

definition json_escape :: "char \<Rightarrow> string" where
  "json_escape c =
     (if c = CHR 0x22 then [CHR 0x5C, CHR 0x22]
      else if c = CHR 0x5C then [CHR 0x5C, CHR 0x5C]
      else if c = CHR 0x08 then [CHR 0x5C, CHR ''b'']
      else if c = CHR 0x0C then [CHR 0x5C, CHR ''f'']
      else if c = CHR 0x0A then [CHR 0x5C, CHR ''n'']
      else if c = CHR 0x0D then [CHR 0x5C, CHR ''r'']
      else if c = CHR 0x09 then [CHR 0x5C, CHR ''t'']
      else if (of_char c :: nat) < 32
        then [CHR 0x5C, CHR ''u'', CHR ''0'', CHR ''0'', hex_digit (of_char c div 16), hex_digit (of_char c mod 16)]
      else [c])"

definition json_quote :: "string \<Rightarrow> string" where
  "json_quote s = CHR 0x22 # concat (map json_escape s) @ [CHR 0x22]"

definition comma_join :: "string list \<Rightarrow> string" where
  "comma_join = js_join [CHR '','']"

text \<open>\<open>JSON.stringify\<close>: an undefined member of an object is left out, of an array is \<open>null\<close>.\<close>

fun json_stringify :: "js \<Rightarrow> string" where
  "json_stringify JUndef = ''null''"
| "json_stringify JNull = ''null''"
| "json_stringify (JBool b) = (if b then ''true'' else ''false'')"
| "json_stringify (JNum i) = int_str i"
| "json_stringify (JFrac s) = s"
| "json_stringify JNaN = ''null''"
| "json_stringify (JStr s) = json_quote s"
| "json_stringify (JArr vs) = ''['' @ comma_join (map json_stringify vs) @ '']''"
| "json_stringify (JObj kvs) =
     ''{'' @ comma_join (map (\<lambda>(k, v). json_quote k @ '':'' @ json_stringify v)
                         (filter (\<lambda>kv. snd kv \<noteq> JUndef) kvs)) @ ''}''"
| "json_stringify (JInst kvs) =
     ''{'' @ comma_join (map (\<lambda>(k, v). json_quote k @ '':'' @ json_stringify v)
                         (filter (\<lambda>kv. snd kv \<noteq> JUndef) kvs)) @ ''}''"

text \<open>
  \<open>canonicalJson\<close>: the same, with the keys of every object sorted. \<open>JSON.stringify(undefined)\<close> is
  \<open>undefined\<close>, which the template string prints.
\<close>

lemma sort_key_mem_size:
  "(k, v) \<in> set (sort_key fst kvs) \<Longrightarrow> size v < Suc (size_list (size_prod (\<lambda>x. 0) size) kvs)"
  for kvs :: "(string \<times> js) list"
  by (induction kvs) (auto simp: set_insort_key)

function canon :: "string \<Rightarrow> js \<Rightarrow> string" where
  "canon u JUndef = u"
| "canon u JNull = ''null''"
| "canon u (JBool b) = (if b then ''true'' else ''false'')"
| "canon u (JNum i) = int_str i"
| "canon u (JFrac s) = s"
| "canon u JNaN = ''null''"
| "canon u (JStr s) = json_quote s"
| "canon u (JArr vs) = ''['' @ comma_join (map (canon u) vs) @ '']''"
| "canon u (JObj kvs) =
     ''{'' @ comma_join (map (\<lambda>(k, v). json_quote k @ '':'' @ canon u v) (sort_key fst kvs)) @ ''}''"
| "canon u (JInst kvs) =
     ''{'' @ comma_join (map (\<lambda>(k, v). json_quote k @ '':'' @ canon u v) (sort_key fst kvs)) @ ''}''"
  by pat_completeness auto
termination
  by (relation "measure (\<lambda>(u, v). size v)") (auto dest: sort_key_mem_size size_list_estimation [where y = 0]
      simp: less_Suc_eq_le size_list_estimation' dest!: sort_key_mem_size)

definition canonicalJson :: "js \<Rightarrow> string" where
  "canonicalJson = canon ''undefined''"

text \<open>\<open>String(value)\<close>.\<close>

fun js_String :: "js \<Rightarrow> string" where
  "js_String JUndef = ''undefined''"
| "js_String JNull = ''null''"
| "js_String (JBool b) = (if b then ''true'' else ''false'')"
| "js_String (JNum i) = int_str i"
| "js_String (JFrac s) = s"
| "js_String JNaN = ''NaN''"
| "js_String (JStr s) = s"
| "js_String (JArr vs) =
     comma_join (map (\<lambda>v. case v of JNull \<Rightarrow> [] | JUndef \<Rightarrow> [] | _ \<Rightarrow> js_String v) vs)"
| "js_String (JObj _) = ''[object Object]''"
| "js_String (JInst _) = ''[object Object]''"

lemma hasExactKeys_mset: "hasExactKeys v ks \<longleftrightarrow> mset (js_keys v) = mset ks"
  by (simp add: hasExactKeys_def) (metis mset_sort properties_for_sort sorted_sort)

lemma hasExactKeys_refl [simp]: "js_keys v = ks \<Longrightarrow> hasExactKeys v ks"
  by (simp add: hasExactKeys_def)

text \<open>The two exact-key walls of the source agree on objects, whose keys are distinct.\<close>

lemma exactKeys_hasExactKeys:
  assumes "distinct (js_keys v)" and "distinct ks"
  shows "exactKeys v ks \<longleftrightarrow> hasExactKeys v ks"
proof -
  have own: "hasOwn v k \<longleftrightarrow> k \<in> set (js_keys v)" for k
    by (auto simp: hasOwn_def js_keys_def map_of_eq_None_iff)
  show ?thesis
  proof
    assume e: "exactKeys v ks"
    then have sub: "set ks \<subseteq> set (js_keys v)" and len: "length (js_keys v) = length ks"
      by (auto simp: exactKeys_def own list_all_iff)
    have "card (set ks) = card (set (js_keys v))"
      using assms len by (simp add: distinct_card)
    with sub have "set ks = set (js_keys v)"
      by (simp add: card_subset_eq)
    with assms show "hasExactKeys v ks"
      by (simp add: hasExactKeys_mset set_eq_iff_mset_eq_distinct)
  next
    assume "hasExactKeys v ks"
    then have "mset (js_keys v) = mset ks" by (simp add: hasExactKeys_mset)
    then show "exactKeys v ks"
      by (metis (no_types, lifting) exactKeys_def list_all_iff own set_mset_mset size_mset)
  qed
qed

lemma fld_JObj [simp]: "fld (JObj ((k, x) # kvs)) k' = (if k = k' then x else fld (JObj kvs) k')"
  by (simp add: fld_def)

lemma fld_JObj_Nil [simp]: "fld (JObj []) k = JUndef"
  by (simp add: fld_def)

lemma js_keys_JObj [simp]: "js_keys (JObj kvs) = map fst kvs"
  by (simp add: js_keys_def)

lemma hasOwn_JObj [simp]:
  "hasOwn (JObj []) k' = False"
  "hasOwn (JObj ((k, x) # kvs)) k' = (k = k' \<or> hasOwn (JObj kvs) k')"
  by (simp_all add: hasOwn_def)

lemma isNonEmpty_js_str: "isNonEmpty v \<Longrightarrow> v = JStr (js_str v)"
  by (cases v) auto

lemma is_str_js_str: "is_str v \<Longrightarrow> JStr (js_str v) = v"
  by (cases v) auto

lemma js_hex_js_str: "js_hex n v \<Longrightarrow> v = JStr (js_str v) \<and> hex_len n (js_str v)"
  by (auto simp: js_hex_def split: js.splits)

end
