(* ===== verification/IsoTime.thy ===== *)
theory IsoTime
  imports Json
begin

text \<open>
  The part of JavaScript's \<open>Date\<close> the source relies on: \<open>new Date(ms).toISOString()\<close> (\<open>iso\<close>),
  \<open>Date.parse\<close> on canonical stamps (\<open>iso_parse\<close>), and the walls \<open>isCanonicalTimestamp\<close>
  (\<open>control/recordShape.ts\<close>), \<open>isoUtc\<close> (\<open>shared/decode.ts\<close>), \<open>iso\<close> and \<open>isoOrNull\<close>
  (\<open>control/p2Decoders.ts\<close>), which all accept exactly the strings \<open>toISOString\<close> prints.

  Years 0 to 9999 are modelled, the ones printed with four digits; \<open>iso_parse_iso\<close> is the round
  trip over that whole range.
\<close>

section \<open>The proleptic Gregorian calendar\<close>

definition leap :: "int \<Rightarrow> bool" where
  "leap y \<longleftrightarrow> 4 dvd y \<and> (\<not> 100 dvd y \<or> 400 dvd y)"

text \<open>Days from the first of January of year 0 to the first of January of year \<open>y\<close>.\<close>

definition ydays :: "int \<Rightarrow> int" where
  "ydays y = 365 * y + (y + 3) div 4 - (y + 99) div 100 + (y + 399) div 400"

definition year_of :: "int \<Rightarrow> int" where
  "year_of n = (let y = n * 400 div 146097 in
     if n < ydays y then y - 1 else if ydays (y + 1) \<le> n then y + 1 else y)"

text \<open>Days of the year before month \<open>m\<close> (1 to 12; 13 gives the length of the year).\<close>

definition mdays :: "bool \<Rightarrow> int \<Rightarrow> int" where
  "mdays l m = (if m \<le> 1 then 0 else if m = 2 then 31 else (if l then 1 else 0) +
     (if m = 3 then 59 else if m = 4 then 90 else if m = 5 then 120 else if m = 6 then 151
      else if m = 7 then 181 else if m = 8 then 212 else if m = 9 then 243 else if m = 10 then 273
      else if m = 11 then 304 else if m = 12 then 334 else 365))"

definition month_of :: "bool \<Rightarrow> int \<Rightarrow> int" where
  "month_of l d = (if d < mdays l 2 then 1 else if d < mdays l 3 then 2 else if d < mdays l 4 then 3
     else if d < mdays l 5 then 4 else if d < mdays l 6 then 5 else if d < mdays l 7 then 6
     else if d < mdays l 8 then 7 else if d < mdays l 9 then 8 else if d < mdays l 10 then 9
     else if d < mdays l 11 then 10 else if d < mdays l 12 then 11 else 12)"

lemma div_bounds: "0 < k \<Longrightarrow> k * (a div k) \<le> a \<and> a < k * (a div k) + k" for a k :: int
  using mult_div_mod_eq[of k a] pos_mod_bound[of k a] pos_mod_sign[of k a] by linarith

text \<open>The next multiple of \<open>k\<close> is passed exactly at the multiples of \<open>k\<close>.\<close>

lemma div_step:
  fixes y k :: int
  assumes k: "0 < k"
  shows "(y + k) div k - (y + (k - 1)) div k = (if k dvd y then 1 else 0)"
proof -
  have b: "0 \<le> y mod k" "y mod k < k" using k by auto
  have "(y + (k - 1)) div k = (y mod k + (k - 1) + k * (y div k)) div k"
    using mult_div_mod_eq[of k y] by (metis add.assoc add.commute)
  also have "\<dots> = (y mod k + (k - 1)) div k + y div k"
    using k div_mult_self2[of k "y mod k + (k - 1)" "y div k"] by simp
  also have "(y mod k + (k - 1)) div k = (if y mod k = 0 then 0 else 1)"
  proof (cases "y mod k = 0")
    case True
    then show ?thesis using k by (simp add: div_pos_pos_trivial)
  next
    case False
    have "(y mod k - 1 + k) div k = 1 + (y mod k - 1) div k" using k by (simp add: div_add_self2)
    also have "(y mod k - 1) div k = 0" using False b by (simp add: div_pos_pos_trivial)
    finally show ?thesis using False by (simp add: algebra_simps)
  qed
  moreover have "(y + k) div k = y div k + 1" using k by (simp add: div_add_self2)
  ultimately show ?thesis by (auto simp: dvd_eq_mod_eq_0)
qed

lemma ydays_step: "ydays (y + 1) - ydays y = (if leap y then 366 else 365)"
proof -
  have d: "100 dvd y \<Longrightarrow> 4 dvd y" "400 dvd y \<Longrightarrow> 100 dvd y"
    using dvd_trans[of 4 100 y] dvd_trans[of 100 400 y] by simp_all
  have "ydays (y + 1) - ydays y = 365 + ((y + 4) div 4 - (y + 3) div 4)
      - ((y + 100) div 100 - (y + 99) div 100) + ((y + 400) div 400 - (y + 399) div 400)"
    by (simp add: ydays_def add.assoc)
  also have "\<dots> = 365 + (if 4 dvd y then 1 else 0) - (if 100 dvd y then 1 else 0) + (if 400 dvd y then 1 else 0)"
    using div_step[of 4 y] div_step[of 100 y] div_step[of 400 y] by simp
  finally have e: "ydays (y + 1) - ydays y = 365 + (if 4 dvd y then 1 else 0)
      - (if 100 dvd y then 1 else 0) + (if 400 dvd y then 1 else 0)" .
  define a b c where abc: "a \<longleftrightarrow> 4 dvd y" "b \<longleftrightarrow> 100 dvd y" "c \<longleftrightarrow> 400 dvd y"
  show ?thesis
    using e d unfolding leap_def abc[symmetric] by (cases a; cases b; cases c) simp_all
qed

lemma ydays_bounds: "146097 * y - 400 < 400 * ydays y" "400 * ydays y < 146097 * y + 700"
  using div_bounds[of 4 "y + 3"] div_bounds[of 100 "y + 99"] div_bounds[of 400 "y + 399"]
  by (simp_all add: ydays_def)

lemma ydays_mono: "y \<le> z \<Longrightarrow> ydays y \<le> ydays z"
proof (induction z rule: int_ge_induct)
  case (step i)
  then show ?case using ydays_step[of i] by (simp split: if_splits)
qed simp

lemma year_of_bounds: "ydays (year_of n) \<le> n \<and> n < ydays (year_of n + 1)"
proof -
  define y where "y = n * 400 div 146097"
  have b: "146097 * y \<le> n * 400" "n * 400 < 146097 * y + 146097"
    using div_bounds[of 146097 "n * 400"] by (simp_all add: y_def)
  have lo: "ydays (y - 1) \<le> n" using ydays_bounds(2)[of "y - 1"] b by simp
  have hi: "n < ydays (y + 2)" using ydays_bounds(1)[of "y + 2"] b by simp
  show ?thesis
    using lo hi by (auto simp: year_of_def y_def[symmetric] Let_def add.assoc)
qed

lemma year_of_unique:
  assumes "ydays y \<le> n" and "n < ydays (y + 1)"
  shows "year_of n = y"
proof (rule ccontr)
  assume "year_of n \<noteq> y"
  then consider "year_of n + 1 \<le> y" | "y + 1 \<le> year_of n" by linarith
  then show False
  proof cases
    case 1
    then have "ydays (year_of n + 1) \<le> ydays y" by (rule ydays_mono)
    with year_of_bounds[of n] assms show False by linarith
  next
    case 2
    then have "ydays (y + 1) \<le> ydays (year_of n)" by (rule ydays_mono)
    with year_of_bounds[of n] assms show False by linarith
  qed
qed

lemma month_of_bounds:
  assumes "0 \<le> d" and "d < (if l then 366 else 365)"
  shows "1 \<le> month_of l d \<and> month_of l d \<le> 12
    \<and> mdays l (month_of l d) \<le> d \<and> d < mdays l (month_of l d + 1)"
  using assms by (auto simp: month_of_def mdays_def)

section \<open>Printing and parsing\<close>

definition epoch_days :: int where
  "epoch_days = 719528"

definition dig :: "int \<Rightarrow> char" where
  "dig n = char_of (48 + nat n)"

definition pad2 :: "int \<Rightarrow> string" where
  "pad2 n = [dig (n div 10), dig (n mod 10)]"

definition pad3 :: "int \<Rightarrow> string" where
  "pad3 n = [dig (n div 100), dig (n div 10 mod 10), dig (n mod 10)]"

definition pad4 :: "int \<Rightarrow> string" where
  "pad4 n = [dig (n div 1000), dig (n div 100 mod 10), dig (n div 10 mod 10), dig (n mod 10)]"

definition iso :: "int \<Rightarrow> string" where
  "iso ms = (let n = ms div 86400000 + epoch_days; t = ms mod 86400000;
       y = year_of n; l = leap y; d = n - ydays y; m = month_of l d in
     pad4 y @ ''-'' @ pad2 m @ ''-'' @ pad2 (d - mdays l m + 1) @ ''T'' @ pad2 (t div 3600000)
       @ '':'' @ pad2 (t div 60000 mod 60) @ '':'' @ pad2 (t div 1000 mod 60)
       @ ''.'' @ pad3 (t mod 1000) @ ''Z'')"

definition val :: "char \<Rightarrow> int" where
  "val c = int (of_char c) - 48"

fun nums :: "string \<Rightarrow> int option" where
  "nums [] = Some 0"
| "nums cs = (if list_all is_digit cs then Some (foldl (\<lambda>a c. 10 * a + val c) 0 cs) else None)"

text \<open>
  \<open>Date.parse\<close> on the canonical shape \<open>YYYY-MM-DDTHH:mm:ss.sssZ\<close> with fields in range; every other
  string is refused, as the walls refuse it (\<open>toISOString\<close> would not print it back).
\<close>

definition iso_parse :: "string \<Rightarrow> int option" where
  "iso_parse s = (case s of
     [y1, y2, y3, y4, s1, m1, m2, s2, d1, d2, s3, h1, h2, s4, i1, i2, s5, x1, x2, s6, z1, z2, z3, s7] \<Rightarrow>
       if [s1, s2, s3, s4, s5, s6, s7] \<noteq> ''--T::.Z'' then None
       else (case (nums [y1, y2, y3, y4], nums [m1, m2], nums [d1, d2], nums [h1, h2], nums [i1, i2],
                   nums [x1, x2], nums [z1, z2, z3]) of
         (Some y, Some m, Some d, Some h, Some i, Some x, Some z) \<Rightarrow>
           if 1 \<le> m \<and> m \<le> 12 \<and> 1 \<le> d \<and> d \<le> mdays (leap y) (m + 1) - mdays (leap y) m
              \<and> h < 24 \<and> i < 60 \<and> x < 60
           then Some ((ydays y + mdays (leap y) m + d - 1 - epoch_days) * 86400000
             + h * 3600000 + i * 60000 + x * 1000 + z)
           else None
       | _ \<Rightarrow> None)
   | _ \<Rightarrow> None)"

definition is_iso :: "string \<Rightarrow> bool" where
  "is_iso s \<longleftrightarrow> iso_parse s \<noteq> None"

definition date_ms :: "string \<Rightarrow> int" where
  "date_ms s = (case iso_parse s of None \<Rightarrow> 0 | Some ms \<Rightarrow> ms)"

fun isCanonicalTimestamp :: "js \<Rightarrow> bool" where
  "isCanonicalTimestamp (JStr s) = is_iso s"
| "isCanonicalTimestamp _ = False"

lemma of_char_dig: "0 \<le> n \<Longrightarrow> n < 10 \<Longrightarrow> of_char (dig n) = (48 + nat n :: nat)"
  by (simp add: dig_def)

lemma val_dig [simp]: "0 \<le> n \<Longrightarrow> n < 10 \<Longrightarrow> val (dig n) = n"
  by (simp add: val_def of_char_dig)

lemma is_digit_dig [simp]: "0 \<le> n \<Longrightarrow> n < 10 \<Longrightarrow> is_digit (dig n)"
  by (simp add: is_digit_def of_char_dig)

lemma digit_sum:
  fixes n :: int
  shows "10 * (n div 10) + n mod 10 = n"
    and "10 * (n div 100) + n div 10 mod 10 = n div 10"
    and "10 * (n div 1000) + n div 100 mod 10 = n div 100"
proof -
  show "10 * (n div 10) + n mod 10 = n" by (rule mult_div_mod_eq)
  have e: "n div 10 div 10 = n div 100" "n div 100 div 10 = n div 1000"
    using zdiv_zmult2_eq[of 10 n 10] zdiv_zmult2_eq[of 10 n 100] by simp_all
  show "10 * (n div 100) + n div 10 mod 10 = n div 10"
    using mult_div_mod_eq[of 10 "n div 10"] unfolding e .
  show "10 * (n div 1000) + n div 100 mod 10 = n div 100"
    using mult_div_mod_eq[of 10 "n div 100"] unfolding e .
qed

lemma nums_pad2: "0 \<le> n \<Longrightarrow> n < 100 \<Longrightarrow> nums (pad2 n) = Some n"
  by (simp add: pad2_def)

lemma nums_pad3: "0 \<le> n \<Longrightarrow> n < 1000 \<Longrightarrow> nums (pad3 n) = Some n"
proof -
  assume a: "0 \<le> n" "n < 1000"
  define p q r where pq: "p = n div 100" "q = n div 10 mod 10" "r = n mod 10"
  have bounds: "0 \<le> p" "p < 10" "0 \<le> q" "q < 10" "0 \<le> r" "r < 10"
    using a by (auto simp: pq)
  have sum: "10 * (10 * p + q) + r = n"
    unfolding pq by (simp only: digit_sum)
  have "nums (pad3 n) = Some (10 * (10 * p + q) + r)"
    unfolding pad3_def pq[symmetric] using bounds by simp
  then show ?thesis by (simp only: sum)
qed

lemma nums_pad4: "0 \<le> n \<Longrightarrow> n < 10000 \<Longrightarrow> nums (pad4 n) = Some n"
proof -
  assume a: "0 \<le> n" "n < 10000"
  define p q r s where pq: "p = n div 1000" "q = n div 100 mod 10" "r = n div 10 mod 10" "s = n mod 10"
  have bounds: "0 \<le> p" "p < 10" "0 \<le> q" "q < 10" "0 \<le> r" "r < 10" "0 \<le> s" "s < 10"
    using a by (auto simp: pq)
  have sum: "10 * (10 * (10 * p + q) + r) + s = n"
    unfolding pq by (simp only: digit_sum)
  have "nums (pad4 n) = Some (10 * (10 * (10 * p + q) + r) + s)"
    unfolding pad4_def pq[symmetric] using bounds by simp
  then show ?thesis by (simp only: sum)
qed

lemma iso_parse_fields:
  assumes "nums (pad4 y) = Some y" "nums (pad2 m) = Some m" "nums (pad2 d) = Some d"
    "nums (pad2 h) = Some h" "nums (pad2 i) = Some i" "nums (pad2 x) = Some x" "nums (pad3 z) = Some z"
    and "1 \<le> m" "m \<le> 12" "1 \<le> d" "d \<le> mdays (leap y) (m + 1) - mdays (leap y) m" "h < 24" "i < 60" "x < 60"
  shows "iso_parse (pad4 y @ ''-'' @ pad2 m @ ''-'' @ pad2 d @ ''T'' @ pad2 h @ '':'' @ pad2 i
       @ '':'' @ pad2 x @ ''.'' @ pad3 z @ ''Z'')
     = Some ((ydays y + mdays (leap y) m + d - 1 - epoch_days) * 86400000
             + h * 3600000 + i * 60000 + x * 1000 + z)"
  using assms unfolding pad4_def pad3_def pad2_def
  by (simp add: iso_parse_def del: nums.simps)

text \<open>Midnight of 0000-01-01 and of 10000-01-01, in milliseconds.\<close>

definition iso_lo :: int where "iso_lo = - 62167219200000"
definition iso_hi :: int where "iso_hi = 253402300800000"

lemma iso_parse_iso:
  assumes "iso_lo \<le> ms" and "ms < iso_hi"
  shows "iso_parse (iso ms) = Some ms"
proof -
  define n where "n = ms div 86400000 + epoch_days"
  define t where "t = ms mod 86400000"
  define y where "y = year_of n"
  define d where "d = n - ydays y"
  define m where "m = month_of (leap y) d"
  have n: "0 \<le> n" "n < 3652425"
    using assms by (auto simp: n_def epoch_days_def iso_lo_def iso_hi_def)
  have yb: "ydays y \<le> n" "n < ydays (y + 1)" using year_of_bounds[of n] by (auto simp: y_def)
  have y0: "ydays 0 = 0" "ydays 10000 = 3652425" by (simp_all add: ydays_def)
  have "\<not> y + 1 \<le> 0" using ydays_mono[of "y + 1" 0] yb n y0 by linarith
  moreover have "\<not> 10000 \<le> y" using ydays_mono[of 10000 y] yb n y0 by linarith
  ultimately have y: "0 \<le> y" "y < 10000" by auto
  have d: "0 \<le> d" "d < (if leap y then 366 else 365)"
    using yb ydays_step[of y] by (auto simp: d_def)
  note m = month_of_bounds[OF d, folded m_def]
  have dm: "1 \<le> d - mdays (leap y) m + 1" "d - mdays (leap y) m + 1 \<le> mdays (leap y) (m + 1) - mdays (leap y) m"
    using m by auto
  have md: "mdays (leap y) (m + 1) - mdays (leap y) m < 100" using m by (auto simp: mdays_def)
  have t: "0 \<le> t" "t < 86400000" by (simp_all add: t_def)
  have tsum: "t div 3600000 * 3600000 + t div 60000 mod 60 * 60000 + t div 1000 mod 60 * 1000 + t mod 1000 = t"
  proof -
    have "t div 60000 div 60 = t div 3600000" "t div 1000 div 60 = t div 60000"
      by (simp_all add: div_mult2_eq[symmetric] zdiv_zmult2_eq[symmetric])
    with mult_div_mod_eq[of 60 "t div 60000"] mult_div_mod_eq[of 60 "t div 1000"] mult_div_mod_eq[of 1000 t]
    show ?thesis by linarith
  qed
  have ms: "(n - epoch_days) * 86400000 + t = ms" by (simp add: n_def t_def)
  have "iso_parse (iso ms) = Some ((ydays y + mdays (leap y) m + (d - mdays (leap y) m + 1) - 1 - epoch_days) * 86400000
             + t div 3600000 * 3600000 + t div 60000 mod 60 * 60000 + t div 1000 mod 60 * 1000 + t mod 1000)"
    unfolding iso_def Let_def n_def[symmetric] t_def[symmetric] y_def[symmetric] d_def[symmetric] m_def[symmetric]
    using y m dm md t
    by (intro iso_parse_fields nums_pad4 nums_pad2 nums_pad3) auto
  also have "\<dots> = Some ms" using tsum ms by (simp add: d_def algebra_simps)
  finally show ?thesis .
qed

lemma is_iso_iso: "iso_lo \<le> ms \<Longrightarrow> ms < iso_hi \<Longrightarrow> is_iso (iso ms)"
  by (simp add: is_iso_def iso_parse_iso)

lemma date_ms_iso: "iso_lo \<le> ms \<Longrightarrow> ms < iso_hi \<Longrightarrow> date_ms (iso ms) = ms"
  by (simp add: date_ms_def iso_parse_iso)

lemma canonical_js_str: "isCanonicalTimestamp v \<Longrightarrow> v = JStr (js_str v) \<and> is_iso (js_str v)"
  by (cases v) auto

end
