(* ===== verification/StoreTypes.thy ===== *)
theory StoreTypes
  imports Lifecycles IsoTime
begin

text \<open>
  The persisted data of the control plane: the interfaces of \<open>control/types.ts\<close>,
  \<open>control/storeTypes.ts\<close>, \<open>control/p2Contracts.ts\<close> and \<open>control/proposal.ts\<close> as records, in the
  order the source declares them. A field \<open>T | null\<close> or an optional field is an \<open>option\<close>; where the
  code tells \<open>null\<close> from absent the record says so. A stored row extends the public record, so the
  projection that hides the private fields is \<open>truncate\<close>.
\<close>

section \<open>Provenance\<close>

record assignment =
  as_agentId :: string
  as_declarationPath :: string
  as_declarationHash :: string
  as_profileId :: string
  as_runtime :: string
  as_model :: string

record workspace_launch =
  wl_composerRef :: string
  wl_agentId :: string
  wl_declarationPath :: string
  wl_declarationHash :: string

record criterion =
  cr_id :: string
  cr_description :: string

record review =
  rv_subjectStageId :: string
  rv_maxCreatorReworks :: int
  rv_criteria :: "criterion list"

record completion_gate =
  cg_id :: string
  cg_kind :: string
  cg_prompt :: string
  cg_requiresReview :: string

datatype runnable_ref = AgentRef (rr_id: string) (rr_sourcePath: string)
  | WorkflowRef (rr_id: string) (rr_project: string) (rr_sourcePath: string)

datatype host_kind = Vm | Desktop

datatype run_outcome = OutOk | OutFailed | OutStopped | OutInterrupted | OutAbandoned

section \<open>Proposals\<close>

datatype proposal_decision = PdApproved | PdRejected | PdChangesRequested

record proposal_approval =
  ap_revision :: int
  ap_decision :: proposal_decision
  ap_decidedBy :: string
  ap_idempotencyKey :: string
  ap_decidedAt :: string
  ap_note :: "string option"

text \<open>A stored proposal names its owner in \<open>subject\<close>; the public revision carries it as \<open>ownerSubject\<close>.\<close>

record proposal =
  pr_subject :: string
  pr_proposalRef :: string
  pr_sourceComposerRef :: string
  pr_sourceTurnId :: string
  pr_revision :: int
  pr_hash :: string
  pr_previousHash :: "string option"
  pr_title :: string
  pr_createdAt :: string
  pr_snapshot :: js
  pr_approval :: "proposal_approval option"

section \<open>Runs\<close>

datatype activation_phase = Claimed | RootsActivated | Dispatched | ActivationFailed

record activation_receipt =
  ac_idempotencyKey :: string
  ac_fingerprint :: string
  ac_phase :: activation_phase
  ac_claimedAt :: string
  ac_updatedAt :: string

datatype reconciliation_phase = RecClaimed | RecCommitted

record failed_reconciliation =
  fr_idempotencyKey :: string
  fr_fingerprint :: string
  fr_phase :: reconciliation_phase
  fr_claimedAt :: string
  fr_updatedAt :: string
  fr_canonicalCommit :: "string option"
  fr_eventCursor :: "int option"

record run =
  r_runRef :: string
  r_predecessorRunRef :: "string option"
  r_title :: string
  r_proposalRef :: string
  r_proposalRevision :: int
  r_proposalHash :: string
  r_publicationState :: publication_state
  r_lifecycle :: run_lifecycle
  r_owner :: runnable_ref
  r_executionHost :: host_kind
  r_workflowTags :: "string list option"
  r_terminalOutcome :: "run_outcome option"
  r_completedAt :: "string option"
  r_archivedFrom :: "run_kind option"
  r_version :: int
  r_managerSessionRef :: string
  r_managerGeneration :: int
  r_managerAssignment :: "assignment option"
  r_agentWorkspaceLaunch :: "workspace_launch option"
  r_createdAt :: string
  r_updatedAt :: string

record stored_run = run +
  r_subject :: string
  r_launchOperationKey :: "string option"
  r_launchOperationFingerprint :: "string option"
  r_archiveOperationKey :: "string option"
  r_archiveOperationFingerprint :: "string option"
  r_activationReceipts :: "activation_receipt list option"
  r_failedReconciliation :: "failed_reconciliation option"

section \<open>Stages, attempts, sessions\<close>

record stage =
  st_stageRef :: string
  st_runRef :: string
  st_stageId :: string
  st_title :: string
  st_dependsOn :: "string list"
  st_canonicalCardRef :: "string option"
  st_state :: stage_state
  st_version :: int
  st_currentAttemptRef :: "string option"
  st_assignment :: "assignment option"
  st_workflowProfile :: "string option"
  st_review :: "review option"
  st_completionGate :: "completion_gate option"
  st_currentGeneration :: int
  st_currentGenerationRef :: "string option"
  st_acceptedGenerationRef :: "string option"
  st_createdAt :: string
  st_updatedAt :: string

record stored_stage = stage +
  st_subject :: string

datatype generation_state = GenQueued | GenCommitted

record stage_generation =
  sg_generationRef :: string
  sg_runRef :: string
  sg_logicalStageRef :: string
  sg_logicalStageId :: string
  sg_generation :: int
  sg_predecessorGenerationRef :: "string option"
  sg_attemptRef :: string
  sg_canonicalResultOperationKey :: "string option"
  sg_resultHash :: "string option"
  sg_resultCardRef :: "string option"
  sg_baseCommit :: "string option"
  sg_canonicalCommit :: "string option"
  sg_state :: generation_state
  sg_createdAt :: string
  sg_updatedAt :: string

record stored_generation = stage_generation +
  sg_subject :: string
  sg_operationFingerprint :: string

record supersession =
  su_runRef :: string
  su_predecessorGenerationRef :: string
  su_successorGenerationRef :: string
  su_triggerReceiptRef :: string
  su_operationKey :: string
  su_createdAt :: string
  su_subject :: string
  su_operationFingerprint :: string

record attempt =
  at_attemptRef :: string
  at_runRef :: string
  at_stageRef :: string
  at_generation :: int
  at_predecessorAttemptRef :: "string option"
  at_runtime :: string
  at_model :: string
  at_state :: attempt_state
  at_version :: int
  at_managedSessionRef :: "string option"
  at_logicalGeneration :: "int option"
  at_baseGenerationRef :: "string option"
  at_baseCommit :: "string option"
  at_createdAt :: string
  at_updatedAt :: string
  at_rerouteOperationKey :: "string option"
  at_rerouteOperationFingerprint :: "string option"

text \<open>
  The public projection of an attempt drops \<open>subject\<close> and the iteration fields; the reroute keys are
  not in its destructuring, so they stay on the object it returns.
\<close>

record stored_attempt = attempt +
  at_subject :: string
  at_iterationAdvanceOperationKey :: "string option"
  at_iterationAdvanceOperationFingerprint :: "string option"
  at_iterationAdvanceReceiptRef :: "string option"

datatype session_role = Manager | Worker

record session =
  ms_sessionRef :: string
  ms_attemptOperationKey :: "string option"
  ms_runRef :: string
  ms_stageRef :: "string option"
  ms_attemptRef :: "string option"
  ms_role :: session_role
  ms_generation :: int
  ms_predecessorSessionRef :: "string option"
  ms_runtime :: string
  ms_model :: string
  ms_state :: session_state
  ms_version :: int
  ms_createdAt :: string
  ms_updatedAt :: string

record steering_instruction =
  si_instructionRef :: string
  si_instruction :: string
  si_checkpoint :: "string option"
  si_enqueuedAt :: string

datatype broker_kind = BkStart | BkEvent | BkComplete | BkStop | BkEnqueue | BkConsume | BkInterrupt

datatype broker_status = BsReserved | BsAlreadyActive | BsApplied | BsInactive | BsConflict

record broker_receipt =
  br_kind :: broker_kind
  br_idempotencyKey :: string
  br_fingerprint :: string
  br_revision :: int
  br_status :: broker_status
  br_instructions :: "string list"
  br_createdAt :: string

text \<open>
  \<open>brokerState\<close> fills the three optional broker fields with \<open>[]\<close>, \<open>[]\<close> and \<open>false\<close> before any use,
  so an absent one is held as that value.
\<close>

record stored_session = session +
  ms_subject :: string
  ms_operationKey :: "string option"
  ms_operationFingerprint :: "string option"
  ms_brokerProfileId :: "string option"
  ms_brokerApprovedPromptHash :: "string option"
  ms_brokerStopRequested :: bool
  ms_brokerSteering :: "steering_instruction list"
  ms_brokerReceipts :: "broker_receipt list"

section \<open>Human requests\<close>

datatype request_kind = HkInput | HkApproval | HkReview | HkIntervention | HkGovernanceRefusal

definition HUMAN_REQUEST_KINDS :: "(string \<times> request_kind) list" where
  "HUMAN_REQUEST_KINDS = [(''input'', HkInput), (''approval'', HkApproval), (''review'', HkReview),
     (''intervention'', HkIntervention), (''governance-refusal'', HkGovernanceRefusal)]"

datatype human_decision = HdResponded | HdApproved | HdRejected | HdChangesRequested | HdAutoClosed

text \<open>\<open>'auto-closed'\<close> is not in the set: only the engine writes it.\<close>

definition HUMAN_DECISIONS :: "(string \<times> human_decision) list" where
  "HUMAN_DECISIONS = [(''responded'', HdResponded), (''approved'', HdApproved),
     (''rejected'', HdRejected), (''changes-requested'', HdChangesRequested)]"

record resolved_by =
  rb_actor :: string
  rb_tailnetIdentity :: "string option"
  rb_at :: string
  rb_reason :: string

record human_response =
  hr_requestRevision :: int
  hr_decision :: human_decision
  hr_respondedBy :: string
  hr_idempotencyKey :: string
  hr_response :: "string option"
  hr_respondedAt :: string
  hr_resolvedBy :: "resolved_by option"

record human_request =
  hq_requestRef :: string
  hq_runRef :: string
  hq_stageRef :: "string option"
  hq_kind :: request_kind
  hq_iterationPark :: bool
  hq_revision :: int
  hq_open :: bool
  hq_title :: string
  hq_prompt :: string
  hq_response :: "human_response option"
  hq_createdAt :: string
  hq_updatedAt :: string

record stored_request = human_request +
  hq_subject :: string
  hq_operationKey :: "string option"
  hq_operationFingerprint :: "string option"
  hq_resolutionOperationFingerprint :: "string option"
  hq_legacyRecoveryOperationKey :: "string option"
  hq_legacyRecoveryOperationFingerprint :: "string option"
  hq_legacyRecoveryEventCursor :: "int option"

section \<open>Operational events\<close>

datatype event_kind = EkMessage | EkCommand | EkTool | EkFile | EkDiff | EkCheckpoint | EkLifecycle
  | EkSessionLink | EkGovernance

definition EVENT_KINDS :: "(string \<times> event_kind) list" where
  "EVENT_KINDS = [(''message'', EkMessage), (''command'', EkCommand), (''tool'', EkTool),
     (''file'', EkFile), (''diff'', EkDiff), (''checkpoint'', EkCheckpoint),
     (''lifecycle'', EkLifecycle), (''session-link'', EkSessionLink), (''governance'', EkGovernance)]"

datatype event_source = EsSystem | EsManager | EsWorker | EsHuman

definition EVENT_SOURCES :: "(string \<times> event_source) list" where
  "EVENT_SOURCES = [(''system'', EsSystem), (''manager'', EsManager), (''worker'', EsWorker),
     (''human'', EsHuman)]"

datatype event_status = EvPending | EvRunning | EvSuccess | EvFailure | EvStopped | EvInterrupted
  | EvWaiting

definition EVENT_STATUSES :: "(string \<times> event_status) list" where
  "EVENT_STATUSES = [(''pending'', EvPending), (''running'', EvRunning), (''success'', EvSuccess),
     (''failure'', EvFailure), (''stopped'', EvStopped), (''interrupted'', EvInterrupted),
     (''waiting'', EvWaiting)]"

record event =
  ev_cursor :: int
  ev_runRef :: string
  ev_kind :: event_kind
  ev_source :: event_source
  ev_stageRef :: "string option"
  ev_attemptRef :: "string option"
  ev_sessionRef :: "string option"
  ev_status :: "event_status option"
  ev_summary :: "string option"
  ev_command :: "string option"
  ev_toolName :: "string option"
  ev_path :: "string option"
  ev_diff :: "string option"
  ev_checkpoint :: "string option"
  ev_createdAt :: string

record stored_event = event +
  ev_subject :: string
  ev_operationKey :: "string option"
  ev_operationFingerprint :: "string option"

end
