(* ===== verification/StoreDocument.thy ===== *)
theory StoreDocument
  imports StoreTypes
begin

text \<open>
  The remaining collections and the document itself: iteration loops with their requests and
  receipts, deployments, asset-pull intents, the placement collections, schedules with their
  occurrence claims, quarantined bundles, and \<open>StoreDocument\<close> (\<open>control/storeTypes.ts\<close>). Then the
  shape of a store method: what it may answer, and how its answer reaches the persisted document.
\<close>

section \<open>Iteration loops\<close>

record participant =
  pt_participantId :: string
  pt_stageRef :: string
  pt_role :: string
  pt_perspective :: string
  pt_mandate :: string
  pt_goal :: "string option"

datatype iteration_request_kind = IkReview | IkRework | IkPosition | IkReply | IkDelegate | IkCheck

definition ARTIFACT_PRODUCING_REQUEST_KINDS :: "iteration_request_kind \<Rightarrow> bool" where
  "ARTIFACT_PRODUCING_REQUEST_KINDS k \<longleftrightarrow> k = IkRework \<or> k = IkDelegate"

datatype loop_state = AwaitingSeed | AwaitingTurn | RunningTurn | LoopFailed | ReworkQueued
  | Exhausted | Parked | AwaitingCompletionGate | AwaitingParkGate | Passed | Declined

record iteration_route =
  ro_routeId :: string
  ro_senderParticipantId :: string
  ro_recipientParticipantId :: string
  ro_requestKinds :: "string list"
  ro_baseResolutionStageIds :: "string list"

record schedule_after =
  sf_stepId :: string
  sf_participantId :: string
  sf_verdict :: string

record schedule_step =
  sp_stepId :: string
  sp_routeId :: string
  sp_after :: "schedule_after option"
  sp_cycle :: string

record terminal_authority =
  ta_participantId :: string
  ta_verdict :: string

text \<open>The outcome of a turn: what a participant answers, and what the receipt of the turn extends.\<close>

record criterion_outcome =
  co_criterionId :: string
  co_verdict :: string
  co_findingIds :: "string list"

record iteration_finding =
  fi_findingId :: string
  fi_criterionId :: string
  fi_severity :: string
  fi_summary :: string
  fi_evidencePaths :: "string list"

record iteration_position =
  po_positionId :: string
  po_participantId :: string
  po_summary :: string
  po_generationRefs :: "string list"

record iteration_dissent =
  ds_dissentId :: string
  ds_participantId :: string
  ds_positionId :: string
  ds_summary :: string

record iteration_outcome =
  oc_requestRef :: string
  oc_iterationLoopRef :: string
  oc_participantId :: string
  oc_cycle :: int
  oc_verdict :: string
  oc_inputGenerationRefs :: "string list"
  oc_criteria :: "criterion_outcome list"
  oc_findings :: "iteration_finding list"
  oc_resolvedFindingRefs :: "string list option"
  oc_positions :: "iteration_position list"
  oc_recordedDissent :: "iteration_dissent list"
  oc_summary :: string

record iteration_receipt = iteration_outcome +
  ir_receiptRef :: string
  ir_outcomeHash :: string
  ir_outputGenerationRefs :: "string list"
  ir_baseCommit :: string
  ir_canonicalCommit :: string
  ir_participantAttemptRef :: string
  ir_createdAt :: string
  ir_version :: int

record stored_receipt = iteration_receipt +
  ir_subject :: string
  ir_runRef :: string
  ir_routeId :: string
  ir_operationKey :: string
  ir_operationFingerprint :: string

record iteration_request =
  iq_requestRef :: string
  iq_iterationLoopRef :: string
  iq_stepId :: string
  iq_routeId :: string
  iq_senderParticipantId :: string
  iq_recipientParticipantId :: string
  iq_kind :: iteration_request_kind
  iq_cycle :: int
  iq_inputGenerationRefs :: "string list"
  iq_baseCommit :: string
  iq_artifactHashes :: "(string \<times> string) list"
  iq_criteria :: "criterion list"
  iq_unresolvedFindingRefs :: "string list"
  iq_preservedInvariants :: "string list"
  iq_nextAcceptanceCheck :: string
  iq_instructions :: string

record stored_turn_request = iteration_request +
  iq_subject :: string
  iq_runRef :: string
  iq_operationKey :: string
  iq_operationFingerprint :: string

text \<open>What a parked loop leaves open; the last part only when a turn parks before it is integrated.\<close>

record artifact_snapshot =
  sn_path :: string
  sn_regularFile :: bool
  sn_size :: "int option"
  sn_sha256 :: "string option"
  sn_afterRegularFile :: bool
  sn_afterSize :: "int option"
  sn_afterSha256 :: "string option"
  sn_byteIdentical :: bool

record attempted_turn =
  tn_attemptedRequestRef :: string
  tn_attemptedOutcome :: iteration_outcome
  tn_artifactSnapshots :: "artifact_snapshot list"
  tn_failureReason :: string

record iteration_residue =
  rz_unresolvedFindings :: "iteration_finding list"
  rz_positions :: "iteration_position list"
  rz_recordedDissent :: "iteration_dissent list"
  rz_requestRefs :: "string list"
  rz_receiptRefs :: "string list"
  rz_activeGenerationRefs :: "string list"
  rz_acceptedGenerationRefs :: "string list"
  rz_nextRouteId :: string
  rz_cycleUnit :: string
  rz_cyclesUsed :: int
  rz_maxCycles :: int
  rz_attempted :: "attempted_turn option"

record iteration_loop =
  il_iterationLoopRef :: string
  il_runRef :: string
  il_iterationGroupId :: string
  il_goal :: "string option"
  il_participants :: "participant list"
  il_routes :: "iteration_route list"
  il_seedParticipantId :: string
  il_seedArtifactIds :: "string list"
  il_initialStepId :: string
  il_schedule :: "schedule_step list"
  il_artifacts :: "string list"
  il_criteria :: "criterion list"
  il_maxCycles :: int
  il_cycleUnit :: string
  il_terminalAuthorities :: "terminal_authority list"
  il_completionGate :: "completion_gate option"
  il_definitionHash :: string
  il_cyclesUsed :: int
  il_state :: loop_state
  il_turnOwnerParticipantId :: "string option"
  il_currentStepId :: "string option"
  il_activeGenerationRefs :: "string list"
  il_acceptedGenerationRefs :: "string list option"
  il_lastReceiptRef :: "string option"
  il_completionGateRef :: "string option"
  il_interventionRef :: "string option"
  il_parkReason :: "string option"
  il_unresolvedResidue :: "iteration_residue option"
  il_version :: int
  il_createdAt :: string
  il_updatedAt :: string

record stored_loop = iteration_loop +
  il_subject :: string
  il_advanceOperationKey :: "string option"
  il_advanceOperationFingerprint :: "string option"
  il_definition :: js

section \<open>Deployments and asset pulls\<close>

datatype deployment_state = DWaitingConfirmation | DRequested | DParked | DSwapping | DResuming
  | DSucceeded | DAborted | DFailed | DAcknowledged

text \<open>
  The wall of the progress record compares \<open>String(value.kind)\<close> with the five kinds, which a value
  that is not a string can pass, so the kind is held as the value it is.
\<close>

record deployment_progress =
  pg_kind :: js
  pg_attemptRef :: "string option"
  pg_since :: "string option"
  pg_detail :: "string option"

datatype outcome_kind = OkSucceeded | OkAborted | OkFailed

record terminal_outcome =
  to_kind :: outcome_kind
  to_at :: string
  to_by :: string

record acknowledgement =
  ak_subject :: string
  ak_at :: string

record drain_ack =
  da_fenceRevision :: int
  da_acknowledgedAt :: string

record deployment =
  d_deploymentRef :: string
  d_revision :: int
  d_targetCommit :: string
  d_previousCommit :: string
  d_state :: deployment_state
  d_requestedAt :: string
  d_parkWarnAt :: string
  d_swapDeadlineAt :: "string option"
  d_fenceRevision :: int
  d_drainAcks :: "(string \<times> drain_ack) list"
  d_blockers :: "string list"
  d_progress :: deployment_progress
  d_abortRequestedAt :: "string option"
  d_error :: "string option"
  d_terminalOutcome :: "terminal_outcome option"
  d_acknowledgedBy :: "acknowledgement option"

datatype deployment_operation = OpCreate | OpTransition

record deployment_receipt =
  dr_key :: string
  dr_fingerprint :: string
  dr_operation :: deployment_operation
  dr_deploymentRevision :: int
  dr_result :: deployment
  dr_recordedAt :: string

record stored_deployment = deployment +
  d_operationReceipts :: "deployment_receipt list"

datatype pull_state = PullPending | PullInFlight | PullSucceeded | PullFailed | PullOffline

datatype pull_error = PeUnavailable | PeTimeout | PeDigestMismatch | PeRefused | PeInvalid

datatype pull_outcome = PoSucceeded | PoFailed

record pull_result =
  pu_outcome :: pull_outcome
  pu_receiptAt :: string
  pu_errorCode :: "pull_error option"

record pull_intent =
  pi_intentRef :: string
  pi_runRef :: string
  pi_manifestDigest :: string
  pi_state :: pull_state
  pi_requestedAt :: string
  pi_attempts :: int
  pi_result :: "pull_result option"

section \<open>Placement\<close>

datatype cli_status = CliReady | CliMissing | CliLoginRequired

record connector =
  cn_server :: string
  cn_tools :: "string list"

record host_advertisement =
  ha_hostId :: host_kind
  ha_daemonVersion :: string
  ha_reportedAt :: string
  ha_connectors :: "connector list"
  ha_skills :: "string list"
  ha_filesystemRoots :: "string list"
  ha_pty :: bool
  ha_gpu :: bool
  ha_claude :: cli_status
  ha_codex :: cli_status

record stored_advertisement = host_advertisement +
  ha_version :: int

record placement_lease =
  pl_runRef :: string
  pl_hostId :: host_kind
  pl_capabilityHash :: string
  pl_revision :: int
  pl_expiresAt :: string
  pl_lastReportSequence :: int

datatype http_method = MPost | MPut | MDelete

record v1_idempotency =
  vi_actorOrNodeId :: string
  vi_method :: http_method
  vi_uri :: string
  vi_key :: string
  vi_bodyHash :: string
  vi_status :: int
  vi_responseBody :: string
  vi_createdAt :: string

section \<open>Schedules\<close>

text \<open>
  Of a stored schedule, the fields its public projection shows; of an occurrence claim, the ones that
  the completion of an occurrence reads and writes.
\<close>

record schedule =
  sd_id :: string
  sd_owner :: runnable_ref
  sd_cadence :: js
  sd_nextAt :: "string option"
  sd_lastOutcome :: "run_outcome option"
  sd_armed :: bool
  sd_origin :: string
  sd_mirroredAt :: "string option"
  sd_mirrorPath :: string
  sd_version :: int
  sd_workflowProfile :: "string option"

record completion_receipt =
  cp_idempotencyKey :: string
  cp_fingerprint :: string
  cp_schedule :: schedule
  cp_collectionRevision :: int

datatype claim_phase = OcClaimed | OcCardSaved | OcLedgerAppended

record occurrence_claim =
  oc_scheduleId :: string
  oc_scheduledFor :: string
  oc_nextAt :: string
  oc_phase :: claim_phase
  oc_runRef :: "string option"
  oc_completionReceipt :: "completion_receipt option"

section \<open>The document\<close>

record run_bundle =
  qb_subject :: string
  qb_quarantinedAt :: "string option"
  qb_run :: stored_run
  qb_stages :: "stored_stage list"
  qb_attempts :: "stored_attempt list"
  qb_sessions :: "stored_session list"
  qb_humanRequests :: "stored_request list"
  qb_events :: "stored_event list"
  qb_stageGenerations :: "stored_generation list"
  qb_iterationLoops :: "stored_loop list"
  qb_iterationRequests :: "stored_turn_request list"
  qb_iterationReceipts :: "stored_receipt list"
  qb_generationSupersessions :: "supersession list"

record document =
  documentRevision :: int
  nextEventCursor :: int
  scheduleCollectionRevision :: int
  proposals :: "proposal list"
  runs :: "stored_run list"
  stages :: "stored_stage list"
  attempts :: "stored_attempt list"
  sessions :: "stored_session list"
  humanRequests :: "stored_request list"
  events :: "stored_event list"
  stageGenerations :: "stored_generation list"
  iterationLoops :: "stored_loop list"
  iterationRequests :: "stored_turn_request list"
  iterationReceipts :: "stored_receipt list"
  generationSupersessions :: "supersession list"
  quarantine :: "run_bundle list"
  deployments :: "stored_deployment list"
  assetPullIntents :: "pull_intent list"
  schedules :: "schedule list"
  scheduleOccurrenceClaims :: "occurrence_claim list"
  hostAdvertisements :: "stored_advertisement list"
  placementLeases :: "placement_lease list"
  v1Idempotency :: "v1_idempotency list"
  cursorSecret :: "string option"

definition emptyStoreDocument :: document where
  "emptyStoreDocument = \<lparr>documentRevision = 0, nextEventCursor = 1, scheduleCollectionRevision = 0,
     proposals = [], runs = [], stages = [], attempts = [], sessions = [], humanRequests = [],
     events = [], stageGenerations = [], iterationLoops = [], iterationRequests = [],
     iterationReceipts = [], generationSupersessions = [], quarantine = [], deployments = [],
     assetPullIntents = [], schedules = [], scheduleOccurrenceClaims = [], hostAdvertisements = [],
     placementLeases = [], v1Idempotency = [], cursorSecret = None\<rparr>"

end
