(* ===== verification/StoreCore.thy ===== *)
theory StoreCore
  imports StoreDocument
begin

text \<open>
  The frame of a store method (\<open>makeStore\<close> of \<open>control/store.ts\<close>). Every method loads a private copy
  of the document, decides, and either returns without saving or mutates the copy and commits it.
  An \<open>outcome\<close> is that decision; \<open>exec\<close> is what the caller and the persisted document see of it.

  The environment holds what the method takes from outside: the clock (\<open>stamp()\<close>, by call), the
  generator behind \<open>ref(prefix)\<close>, \<open>sha256\<close> (node:crypto), \<open>redactSensitiveText\<close>
  (\<open>composer/publicTimeline.ts\<close>), the size of the encoded document with its limit, the event limit
  of \<open>options.maxEventsPerRun\<close>, the canonical JSON text and the byte size of a run bundle, and the
  iteration wall \<open>validateGenericIterationBundle\<close> on a bundle and on a document, whose error text is
  \<open>Some\<close> when it throws.
\<close>

section \<open>Environment, outcomes, execution\<close>

record env =
  e_stamp :: "nat \<Rightarrow> string"
  e_newId :: "nat \<Rightarrow> string"
  e_sha256 :: "string \<Rightarrow> string"
  e_redact :: "string \<Rightarrow> string"
  e_docBytes :: "document \<Rightarrow> int"
  e_maxBytes :: int
  e_maxEvents :: nat
  e_bundleText :: "run_bundle \<Rightarrow> string"
  e_bundleBytes :: "run_bundle \<Rightarrow> int"

text \<open>
  What is relied on: \<open>stamp()\<close> is \<open>new Date().toISOString()\<close> in a four-digit year, and \<open>sha256\<close> is
  a digest in lower-case hex. \<open>sample_env\<close> is an environment of that kind, for concrete runs.
\<close>

definition env_ok :: "env \<Rightarrow> bool" where
  "env_ok e \<longleftrightarrow> (\<forall>n. is_iso (e_stamp e n)) \<and> (\<forall>s. hex_len 64 (e_sha256 e s))"

definition sample_env :: env where
  "sample_env = \<lparr>e_stamp = (\<lambda>_. ''2026-01-01T00:00:00.000Z''), e_newId = (\<lambda>n. int_str (int n)),
     e_sha256 = (\<lambda>s. replicate 64 CHR ''a''), e_redact = (\<lambda>s. s), e_docBytes = (\<lambda>_. 0),
     e_maxBytes = 16777216, e_maxEvents = 100, e_bundleText = qb_subject, e_bundleBytes = (\<lambda>_. 0)\<rparr>"

definition ref :: "env \<Rightarrow> string \<Rightarrow> nat \<Rightarrow> string" where
  "ref e prefix n = prefix @ ''-'' @ e_newId e n"

definition sha256_json :: "env \<Rightarrow> js \<Rightarrow> string" where
  "sha256_json e v = e_sha256 e (json_stringify v)"

lemma sample_env_ok: "env_ok sample_env"
proof -
  have "is_iso ''2026-01-01T00:00:00.000Z''" by code_simp
  moreover have "hex_len 64 (replicate 64 CHR ''a'')" by code_simp
  ultimately show ?thesis by (simp add: env_ok_def sample_env_def)
qed

datatype fail_reason = NotFound | Conflict | Invalid | NotApproved | Limit | Ineligible
  | IdempotencyConflict

text \<open>
  \<open>Value\<close> and \<open>Replay\<close> answer without saving. \<open>CommitRaise\<close> is a commit whose answer then throws
  while it is built; \<open>CommitReplay\<close> is a commit answered as a replay; \<open>Save\<close> saves without advancing
  the document revision.
\<close>

datatype 'a outcome =
    Refuse fail_reason string
  | Value 'a
  | Replay 'a
  | Raise string
  | Commit document 'a
  | CommitReplay document 'a
  | CommitRaise document string
  | Save document 'a

datatype 'a result = Ok 'a bool | Fail fail_reason string | Threw string

definition dt_store_limit :: string where
  "dt_store_limit = ''control-plane store exceeds its byte limit''"

definition save_doc :: "env \<Rightarrow> document \<Rightarrow> document \<Rightarrow> 'a result \<Rightarrow> 'a result \<times> document" where
  "save_doc e d d' r = (if e_docBytes e d' > e_maxBytes e then (Threw dt_store_limit, d) else (r, d'))"

definition bump :: "document \<Rightarrow> document" where
  "bump d = d\<lparr>documentRevision := documentRevision d + 1\<rparr>"

fun exec :: "env \<Rightarrow> (document \<Rightarrow> 'a outcome) \<Rightarrow> document \<Rightarrow> 'a result \<times> document" where
  "exec e m d = (case m d of
     Refuse r x \<Rightarrow> (Fail r x, d)
   | Value a \<Rightarrow> (Ok a False, d)
   | Replay a \<Rightarrow> (Ok a True, d)
   | Raise x \<Rightarrow> (Threw x, d)
   | Commit d' a \<Rightarrow> save_doc e d (bump d') (Ok a False)
   | CommitReplay d' a \<Rightarrow> save_doc e d (bump d') (Ok a True)
   | CommitRaise d' x \<Rightarrow> save_doc e d (bump d') (Threw x)
   | Save d' a \<Rightarrow> save_doc e d d' (Ok a False))"

text \<open>The document a method hands to \<open>save\<close>, before the revision advances.\<close>

fun next_doc :: "'a outcome \<Rightarrow> document option" where
  "next_doc (Commit d _) = Some d"
| "next_doc (CommitReplay d _) = Some d"
| "next_doc (CommitRaise d _) = Some d"
| "next_doc (Save d _) = Some d"
| "next_doc _ = None"

text \<open>
  Reading a commit off a handler: each guard that answers without saving is false, each lookup succeeded.
\<close>

named_theorems committed "what a handler that saves has passed"

lemma next_doc_guard [committed]:
  "next_doc (if b then Refuse r x else m) = Some d \<longleftrightarrow> \<not> b \<and> next_doc m = Some d"
  "next_doc (if b then Replay a else m) = Some d \<longleftrightarrow> \<not> b \<and> next_doc m = Some d"
  "next_doc (if b then Value a else m) = Some d \<longleftrightarrow> \<not> b \<and> next_doc m = Some d"
  "next_doc (if b then Raise x else m) = Some d \<longleftrightarrow> \<not> b \<and> next_doc m = Some d"
  "next_doc (if b then m else Value a) = Some d \<longleftrightarrow> b \<and> next_doc m = Some d"
  by simp_all

lemma next_doc_found [committed]:
  "next_doc (case x of None \<Rightarrow> Refuse r t | Some y \<Rightarrow> f y) = Some d \<longleftrightarrow> (\<exists>y. x = Some y \<and> next_doc (f y) = Some d)"
  "next_doc (case x of None \<Rightarrow> Raise t | Some y \<Rightarrow> f y) = Some d \<longleftrightarrow> (\<exists>y. x = Some y \<and> next_doc (f y) = Some d)"
  "next_doc (case x of Some e \<Rightarrow> Refuse r (g e) | None \<Rightarrow> m) = Some d \<longleftrightarrow> x = None \<and> next_doc m = Some d"
  "next_doc (case x of Some e \<Rightarrow> Raise (g e) | None \<Rightarrow> m) = Some d \<longleftrightarrow> x = None \<and> next_doc m = Some d"
  "next_doc (case s of Inl e \<Rightarrow> Raise (h e) | Inr y \<Rightarrow> k y) = Some d \<longleftrightarrow> (\<exists>y. s = Inr y \<and> next_doc (k y) = Some d)"
  by (auto split: option.splits sum.splits)

lemma next_doc_answers [committed]:
  "next_doc (Refuse r x) = Some d \<longleftrightarrow> False" "next_doc (Value a) = Some d \<longleftrightarrow> False"
  "next_doc (Replay a) = Some d \<longleftrightarrow> False" "next_doc (Raise x) = Some d \<longleftrightarrow> False"
  "next_doc (Commit d' a) = Some d \<longleftrightarrow> d = d'" "next_doc (CommitRaise d' x) = Some d \<longleftrightarrow> d = d'"
  "next_doc (Save d' a) = Some d \<longleftrightarrow> d = d'" "next_doc (CommitReplay d' a) = Some d \<longleftrightarrow> d = d'"
  by auto

lemma exec_document:
  assumes "exec e m d = (r, d')" and "d' \<noteq> d"
  obtains d'' where "next_doc (m d) = Some d''" and "d' = d'' \<or> d' = bump d''"
  using assms by (cases "m d") (auto simp: save_doc_def split: if_splits)

lemma exec_idle: "next_doc (m d) = None \<Longrightarrow> snd (exec e m d) = d"
  by (cases "m d") simp_all

lemma exec_refused_unchanged: "exec e m d = (Fail r x, d') \<Longrightarrow> d' = d"
  by (cases "m d") (auto simp: save_doc_def split: if_splits)

lemma exec_replay_unchanged:
  "exec e m d = (Ok a True, d') \<Longrightarrow> (\<And>d''. m d \<noteq> CommitReplay d'' a) \<Longrightarrow> d' = d \<and> m d = Replay a"
  by (cases "m d") (auto simp: save_doc_def split: if_splits)

section \<open>Document invariants\<close>

text \<open>
  A property of the collections that every method keeps. \<open>keeps I m\<close> is the provider's law for one
  method; the interface gives what holds of any sequence of executions.
\<close>

definition keeps :: "(document \<Rightarrow> bool) \<Rightarrow> (document \<Rightarrow> 'a outcome) \<Rightarrow> bool" where
  "keeps I m \<longleftrightarrow> (\<forall>d d'. I d \<longrightarrow> next_doc (m d) = Some d' \<longrightarrow> I d')"

lemma keepsI: "(\<And>d d'. I d \<Longrightarrow> next_doc (m d) = Some d' \<Longrightarrow> I d') \<Longrightarrow> keeps I m"
  by (simp add: keeps_def)

lemma keepsD: "keeps I m \<Longrightarrow> I d \<Longrightarrow> next_doc (m d) = Some d' \<Longrightarrow> I d'"
  by (simp add: keeps_def)

locale store_invariant =
  fixes I :: "document \<Rightarrow> bool"
  assumes I_revision: "I (d\<lparr>documentRevision := n\<rparr>) = I d"
begin

lemma I_bump: "I (bump d) = I d"
  by (simp add: bump_def I_revision)

lemma exec_keeps:
  assumes "keeps I m" and "I d" and "exec e m d = (r, d')"
  shows "I d'"
proof (cases "d' = d")
  case False
  with assms(3) obtain d'' where "next_doc (m d) = Some d''" "d' = d'' \<or> d' = bump d''"
    by (rule exec_document)
  then show ?thesis using keepsD[OF assms(1,2)] I_bump by auto
qed (use assms in simp)

fun exec_all :: "env \<Rightarrow> (document \<Rightarrow> 'a outcome) list \<Rightarrow> document \<Rightarrow> document" where
  "exec_all e [] d = d"
| "exec_all e (m # ms) d = exec_all e ms (snd (exec e m d))"

lemma exec_all_keeps:
  "(\<And>m. m \<in> set ms \<Longrightarrow> keeps I m) \<Longrightarrow> I d \<Longrightarrow> I (exec_all e ms d)"
proof (induction ms arbitrary: d)
  case (Cons m ms)
  have "keeps I m" using Cons.prems by simp
  then have "I (snd (exec e m d))"
    by (rule exec_keeps[OF _ Cons.prems(2) prod.collapse[symmetric]])
  then show ?case using Cons.IH Cons.prems by (simp del: exec.simps)
qed simp

end

section \<open>Limits and text\<close>

definition MAX_TITLE :: int where "MAX_TITLE = 240"
definition MAX_SHORT_TEXT :: int where "MAX_SHORT_TEXT = 512"
definition MAX_LONG_TEXT :: int where "MAX_LONG_TEXT = 65536"
definition MAX_EVENT_PAGE :: int where "MAX_EVENT_PAGE = 1000"
definition MAX_HUMAN_REQUESTS_PER_RUN :: nat where "MAX_HUMAN_REQUESTS_PER_RUN = 1024"
definition MAX_BROKER_RECEIPTS_PER_SESSION :: nat where "MAX_BROKER_RECEIPTS_PER_SESSION = 4096"
definition MAX_STEERING_INSTRUCTIONS_PER_SESSION :: nat where
  "MAX_STEERING_INSTRUCTIONS_PER_SESSION = 256"
definition MAX_ACTIVATION_RECEIPTS_PER_RUN :: nat where "MAX_ACTIVATION_RECEIPTS_PER_RUN = 64"
definition MAX_DEPLOYMENT_OPERATION_RECEIPTS :: nat where "MAX_DEPLOYMENT_OPERATION_RECEIPTS = 64"

definition validNonEmpty :: "string \<Rightarrow> int \<Rightarrow> bool" where
  "validNonEmpty s n \<longleftrightarrow> 0 < length (js_trim s) \<and> int (length s) \<le> n \<and> nul \<notin> set s"

text \<open>\<open>value.slice(0, n)\<close>.\<close>

definition js_slice :: "int \<Rightarrow> string \<Rightarrow> string" where
  "js_slice n s = (if int (length s) \<le> n then s else take (nat n) s)"

definition cleanText :: "env \<Rightarrow> string \<Rightarrow> int \<Rightarrow> string" where
  "cleanText e s n = js_slice n (e_redact e (filter (\<lambda>c. c \<noteq> nul) s))"

definition HASH_RE :: "string \<Rightarrow> bool" where
  "HASH_RE = hex_len 64"

definition SAFE_REF_RE :: "string \<Rightarrow> bool" where
  "SAFE_REF_RE = head_tail is_alnum (\<lambda>c. is_alnum c \<or> c \<in> set ''._:-'') 127"

definition SAFE_STAGE_ID_RE :: "string \<Rightarrow> bool" where
  "SAFE_STAGE_ID_RE = head_tail is_alnum (\<lambda>c. is_alnum c \<or> c \<in> set ''._-'') 63"

definition opt_str :: "string option \<Rightarrow> js" where
  "opt_str x = (case x of None \<Rightarrow> JNull | Some s \<Rightarrow> JStr s)"

lemma length_js_slice: "0 \<le> n \<Longrightarrow> int (length (js_slice n s)) \<le> n"
  by (simp add: js_slice_def)

lemma length_cleanText: "0 \<le> n \<Longrightarrow> int (length (cleanText e s n)) \<le> n"
  by (simp add: cleanText_def length_js_slice)

section \<open>Finding rows\<close>

datatype read_scope = OwnSubject | AllSubjects

definition is_run :: "string \<Rightarrow> string \<Rightarrow> read_scope \<Rightarrow> stored_run \<Rightarrow> bool" where
  "is_run subject runRef scope r \<longleftrightarrow> r_runRef r = runRef \<and> (scope = AllSubjects \<or> r_subject r = subject)"

definition findRun :: "document \<Rightarrow> string \<Rightarrow> string \<Rightarrow> read_scope \<Rightarrow> stored_run option" where
  "findRun d subject runRef scope = find (is_run subject runRef scope) (runs d)"

definition is_request :: "string \<Rightarrow> string \<Rightarrow> read_scope \<Rightarrow> stored_request \<Rightarrow> bool" where
  "is_request subject requestRef scope q \<longleftrightarrow>
     hq_requestRef q = requestRef \<and> (scope = AllSubjects \<or> hq_subject q = subject)"

definition findHumanRequest :: "document \<Rightarrow> string \<Rightarrow> string \<Rightarrow> read_scope \<Rightarrow> stored_request option" where
  "findHumanRequest d subject requestRef scope = find (is_request subject requestRef scope) (humanRequests d)"

definition is_session :: "string \<Rightarrow> string \<Rightarrow> string \<Rightarrow> stored_session \<Rightarrow> bool" where
  "is_session subject runRef sessionRef s \<longleftrightarrow>
     ms_subject s = subject \<and> ms_runRef s = runRef \<and> ms_sessionRef s = sessionRef"

definition findSession :: "document \<Rightarrow> string \<Rightarrow> string \<Rightarrow> string \<Rightarrow> stored_session option" where
  "findSession d subject runRef sessionRef = find (is_session subject runRef sessionRef) (sessions d)"

definition run_request :: "string \<Rightarrow> string \<Rightarrow> stored_request \<Rightarrow> bool" where
  "run_request subject runRef q \<longleftrightarrow> hq_subject q = subject \<and> hq_runRef q = runRef"

definition run_event :: "string \<Rightarrow> string \<Rightarrow> stored_event \<Rightarrow> bool" where
  "run_event subject runRef v \<longleftrightarrow> ev_subject v = subject \<and> ev_runRef v = runRef"

definition event_count :: "document \<Rightarrow> string \<Rightarrow> string \<Rightarrow> nat" where
  "event_count d subject runRef = length (filter (run_event subject runRef) (events d))"

lemma findRun_SomeD: "findRun d s r sc = Some x \<Longrightarrow> x \<in> set (runs d) \<and> is_run s r sc x"
  by (auto simp: findRun_def dest: find_SomeD)

lemma findRun_runRef: "findRun d s r sc = Some x \<Longrightarrow> r_runRef x = r"
  by (auto dest!: findRun_SomeD simp: is_run_def)

lemma findRun_own_subject: "findRun d s r OwnSubject = Some x \<Longrightarrow> r_subject x = s"
  by (auto dest!: findRun_SomeD simp: is_run_def)

section \<open>The decision of a human\<close>

definition boundaryAccepted :: "stored_request \<Rightarrow> bool" where
  "boundaryAccepted q = (case (hq_open q, hq_response q) of
     (False, Some r) \<Rightarrow>
       if hq_kind q = HkGovernanceRefusal then False
       else if hq_kind q = HkApproval \<or> hq_kind q = HkReview then hr_decision r = HdApproved
       else hr_decision r = HdApproved \<or> hr_decision r = HdResponded
   | _ \<Rightarrow> False)"

definition boundariesAccepted :: "document \<Rightarrow> string \<Rightarrow> string \<Rightarrow> string option \<Rightarrow> bool" where
  "boundariesAccepted d subject runRef stageRef =
     list_all boundaryAccepted
       (filter (\<lambda>q. run_request subject runRef q \<and> (stageRef = None \<or> hq_stageRef q = stageRef))
         (humanRequests d))"

text \<open>An engine's auto-close never accepts a boundary.\<close>

lemma auto_close_never_accepts:
  "hq_response q = Some r \<Longrightarrow> hr_decision r = HdAutoClosed \<Longrightarrow> \<not> boundaryAccepted q"
  by (cases "hq_open q") (auto simp: boundaryAccepted_def)

lemma boundaryAccepted_resolved: "boundaryAccepted q \<Longrightarrow> \<not> hq_open q \<and> hq_response q \<noteq> None"
  by (auto simp: boundaryAccepted_def split: bool.splits option.splits)

end
