(* ===== verification/Decoders.thy ===== *)
theory Decoders
  imports StoreCore
begin

text \<open>
  The closed decoders of a run (\<open>control/p2Decoders.ts\<close>), read off raw values, and \<open>internalRun\<close> of
  \<open>control/store.ts\<close>, which refuses to hand out a run they do not accept. \<open>run_js\<close> is a run as it is
  persisted and \<open>run_valid\<close> says which runs the decoder accepts.
\<close>

section \<open>Value walls\<close>

definition SAFE_ID :: "string \<Rightarrow> bool" where
  "SAFE_ID = head_tail is_alnum (\<lambda>c. is_alnum c \<or> c \<in> set ''._-'') 127"

definition OUTCOMES :: "(string \<times> run_outcome) list" where
  "OUTCOMES = [(''ok'', OutOk), (''failed'', OutFailed), (''stopped'', OutStopped),
     (''interrupted'', OutInterrupted), (''abandoned'', OutAbandoned)]"

definition ARCHIVED_FROM :: "run_kind list" where
  "ARCHIVED_FROM = [RSucceeded, RFailed, RStopped, RInterrupted, RWaitingHuman]"

definition RUN_KEYS :: "string list" where
  "RUN_KEYS = [''owner'', ''executionHost'', ''terminalOutcome'', ''completedAt'', ''archivedFrom'',
     ''runRef'', ''predecessorRunRef'', ''title'', ''proposalRef'', ''proposalRevision'', ''proposalHash'',
     ''publicationState'', ''lifecycle'', ''version'', ''managerSessionRef'', ''managerGeneration'',
     ''managerAssignment'', ''agentWorkspaceLaunch'', ''createdAt'', ''updatedAt'']"

definition RUN_OPTIONAL_KEYS :: "string list" where
  "RUN_OPTIONAL_KEYS = [''workflowTags'']"

definition STORED_RUN_REQUIRED_KEYS :: "string list" where
  "STORED_RUN_REQUIRED_KEYS = RUN_KEYS @ [''subject'']"

definition STORED_RUN_OPTIONAL_KEYS :: "string list" where
  "STORED_RUN_OPTIONAL_KEYS = RUN_OPTIONAL_KEYS @ [''launchOperationKey'', ''launchOperationFingerprint'',
     ''archiveOperationKey'', ''archiveOperationFingerprint'', ''activationReceipts'',
     ''authorizedFailedRunReconciliation'']"

fun safeId :: "js \<Rightarrow> bool" where
  "safeId (JStr s) = SAFE_ID s"
| "safeId _ = False"

definition isoOrNull :: "js \<Rightarrow> bool" where
  "isoOrNull v \<longleftrightarrow> v = JNull \<or> isCanonicalTimestamp v"

definition nullableSafeId :: "js \<Rightarrow> bool" where
  "nullableSafeId v \<longleftrightarrow> v = JNull \<or> safeId v"

definition nullableText :: "js \<Rightarrow> bool" where
  "nullableText v \<longleftrightarrow> v = JNull \<or> is_str v \<and> 0 < length (js_str v) \<and> length (js_str v) \<le> 512 \<and> nul \<notin> set (js_str v)"

definition nullableHash :: "js \<Rightarrow> bool" where
  "nullableHash v \<longleftrightarrow> v = JNull \<or> js_hex 64 v"

definition agent_path :: "js \<Rightarrow> js" where
  "agent_path agentId = JStr (''agents/'' @ js_String agentId @ ''.md'')"

text \<open>\<open>decodeAssignment\<close> and \<open>decodeWorkspaceLaunch\<close> answer \<open>undefined\<close> for a value they refuse.\<close>

definition decodeAssignment :: "js \<Rightarrow> bool" where
  "decodeAssignment v \<longleftrightarrow> v = JNull \<or>
     is_record v
     \<and> exactKeys v [''agentId'', ''declarationPath'', ''declarationHash'', ''profileId'', ''runtime'', ''model'']
     \<and> safeId (fld v ''agentId'') \<and> fld v ''declarationPath'' = agent_path (fld v ''agentId'')
     \<and> js_hex 64 (fld v ''declarationHash'')
     \<and> is_str (fld v ''profileId'') \<and> js_str (fld v ''profileId'') \<noteq> []
     \<and> (fld v ''runtime'' = JStr ''claude'' \<or> fld v ''runtime'' = JStr ''codex'')
     \<and> is_str (fld v ''model'') \<and> js_str (fld v ''model'') \<noteq> []"

definition decodeWorkspaceLaunch :: "js \<Rightarrow> bool" where
  "decodeWorkspaceLaunch v \<longleftrightarrow> v = JNull \<or>
     is_record v
     \<and> exactKeys v [''composerRef'', ''agentId'', ''declarationPath'', ''declarationHash'']
     \<and> is_str (fld v ''composerRef'') \<and> js_str (fld v ''composerRef'') \<noteq> []
     \<and> nul \<notin> set (js_str (fld v ''composerRef'')) \<and> safeId (fld v ''agentId'')
     \<and> fld v ''declarationPath'' = agent_path (fld v ''agentId'')
     \<and> js_hex 64 (fld v ''declarationHash'')"

fun js_run_kind :: "js \<Rightarrow> run_kind option" where
  "js_run_kind (JStr s) = run_kind_of s"
| "js_run_kind _ = None"

definition validResumeClaim :: "js \<Rightarrow> js \<Rightarrow> bool" where
  "validResumeClaim deploymentRef v \<longleftrightarrow> is_record v
     \<and> exactKeys v [''deploymentRef'', ''bootId'', ''claimantRef'']
     \<and> fld v ''deploymentRef'' = deploymentRef
     \<and> is_str (fld v ''bootId'') \<and> js_str (fld v ''bootId'') \<noteq> [] \<and> nul \<notin> set (js_str (fld v ''bootId''))
     \<and> is_str (fld v ''claimantRef'') \<and> js_str (fld v ''claimantRef'') \<noteq> []
     \<and> nul \<notin> set (js_str (fld v ''claimantRef''))"

definition validLifecycle :: "js \<Rightarrow> bool" where
  "validLifecycle v \<longleftrightarrow> is_record v \<and> exactKeys v [''kind'', ''deployPause'']
     \<and> (case js_run_kind (fld v ''kind'') of
          None \<Rightarrow> False
        | Some k \<Rightarrow>
            let pause = fld v ''deployPause'' in
            if k \<noteq> RPausedForDeploy then pause = JNull
            else is_record pause
              \<and> exactKeys pause [''deploymentRef'', ''pausedAt'', ''priorKind'', ''resumeStreak'',
                   ''lastResumeAttemptCursor'', ''resumeClaim'']
              \<and> safeId (fld pause ''deploymentRef'') \<and> isCanonicalTimestamp (fld pause ''pausedAt'')
              \<and> js_run_kind (fld pause ''priorKind'') \<noteq> None
              \<and> js_run_kind (fld pause ''priorKind'') \<noteq> Some RPausedForDeploy
              \<and> js_safe_int (fld pause ''resumeStreak'') \<and> 0 \<le> js_int (fld pause ''resumeStreak'')
              \<and> (fld pause ''lastResumeAttemptCursor'' = JNull
                 \<or> js_safe_int (fld pause ''lastResumeAttemptCursor'')
                   \<and> 0 \<le> js_int (fld pause ''lastResumeAttemptCursor''))
              \<and> (fld pause ''resumeClaim'' = JNull
                 \<or> validResumeClaim (fld pause ''deploymentRef'') (fld pause ''resumeClaim'')))"

definition decodeRunnableRef :: "js \<Rightarrow> runnable_ref option" where
  "decodeRunnableRef v =
     (if \<not> is_record v \<or> \<not> safeId (fld v ''id'') then None
      else let i = js_str (fld v ''id'') in
        if fld v ''type'' = JStr ''agent''
        then (if exactKeys v [''type'', ''id'', ''sourcePath'']
                \<and> fld v ''sourcePath'' = JStr (''agents/'' @ i @ ''.md'')
              then Some (AgentRef i (js_str (fld v ''sourcePath''))) else None)
        else if fld v ''type'' = JStr ''workflow''
        then (if exactKeys v [''type'', ''id'', ''project'', ''sourcePath''] \<and> safeId (fld v ''project'')
                \<and> fld v ''sourcePath'' =
                    JStr (''orgs/'' @ js_str (fld v ''project'') @ ''/workflows/'' @ i @ ''.md'')
              then Some (WorkflowRef i (js_str (fld v ''project'')) (js_str (fld v ''sourcePath''))) else None)
        else None)"

definition decodeHostKind :: "js \<Rightarrow> host_kind option" where
  "decodeHostKind v = (if v = JStr ''vm'' then Some Vm else if v = JStr ''desktop'' then Some Desktop else None)"

text \<open>
  \<open>OUTCOMES.has(String(x))\<close> and \<open>ARCHIVED_FROM.has(String(x))\<close> read the text of any value.
\<close>

definition outcome_admitted :: "js \<Rightarrow> bool" where
  "outcome_admitted v \<longleftrightarrow> v = JNull \<or> map_of OUTCOMES (js_String v) \<noteq> None"

definition archivedFrom_admitted :: "js \<Rightarrow> bool" where
  "archivedFrom_admitted v \<longleftrightarrow> v = JNull \<or> (\<exists>k\<in>set ARCHIVED_FROM. js_String v = run_kind_str k)"

definition identityFieldsFromRun :: "js \<Rightarrow> bool" where
  "identityFieldsFromRun v \<longleftrightarrow>
     decodeRunnableRef (fld v ''owner'') \<noteq> None \<and> decodeHostKind (fld v ''executionHost'') \<noteq> None
     \<and> outcome_admitted (fld v ''terminalOutcome'') \<and> archivedFrom_admitted (fld v ''archivedFrom'')
     \<and> isoOrNull (fld v ''completedAt'')
     \<and> (fld v ''terminalOutcome'' = JNull \<longleftrightarrow> fld v ''completedAt'' = JNull)
     \<and> (fld v ''archivedFrom'' \<noteq> JNull \<longrightarrow> fld v ''terminalOutcome'' \<noteq> JNull)"

definition KNOWN_RUN_TAGS :: "string list" where
  "KNOWN_RUN_TAGS = [''publish'', ''spend'']"

definition validWorkflowTags :: "js \<Rightarrow> bool" where
  "validWorkflowTags v \<longleftrightarrow> (\<not> hasOwn v ''workflowTags'') \<or>
     (let tags = fld v ''workflowTags'' in
      is_arr tags \<and> list_all (\<lambda>t. is_str t \<and> js_str t \<in> set KNOWN_RUN_TAGS) (js_arr tags)
      \<and> all_distinct (js_arr tags))"

definition validRunValues :: "js \<Rightarrow> bool" where
  "validRunValues v \<longleftrightarrow> identityFieldsFromRun v
     \<and> safeId (fld v ''runRef'') \<and> nullableSafeId (fld v ''predecessorRunRef'')
     \<and> is_str (fld v ''title'') \<and> js_str (fld v ''title'') \<noteq> []
     \<and> safeId (fld v ''proposalRef'')
     \<and> js_safe_int (fld v ''proposalRevision'') \<and> 1 \<le> js_int (fld v ''proposalRevision'')
     \<and> js_hex 64 (fld v ''proposalHash'')
     \<and> map_of PUBLICATION_STATES (js_String (fld v ''publicationState'')) \<noteq> None
     \<and> validLifecycle (fld v ''lifecycle'')
     \<and> js_safe_int (fld v ''version'') \<and> 1 \<le> js_int (fld v ''version'')
     \<and> safeId (fld v ''managerSessionRef'')
     \<and> js_safe_int (fld v ''managerGeneration'') \<and> 0 \<le> js_int (fld v ''managerGeneration'')
     \<and> decodeAssignment (fld v ''managerAssignment'')
     \<and> decodeWorkspaceLaunch (fld v ''agentWorkspaceLaunch'')
     \<and> isCanonicalTimestamp (fld v ''createdAt'') \<and> isCanonicalTimestamp (fld v ''updatedAt'')
     \<and> validWorkflowTags v"

definition validActivationReceipts :: "js \<Rightarrow> bool" where
  "validActivationReceipts v \<longleftrightarrow> is_arr v \<and> list_all (\<lambda>x. is_record x
     \<and> exactKeys x [''idempotencyKey'', ''fingerprint'', ''phase'', ''claimedAt'', ''updatedAt'']
     \<and> is_str (fld x ''idempotencyKey'') \<and> js_str (fld x ''idempotencyKey'') \<noteq> []
     \<and> js_hex 64 (fld x ''fingerprint'')
     \<and> js_String (fld x ''phase'') \<in> set [''claimed'', ''roots-activated'', ''dispatched'', ''failed'']
     \<and> isCanonicalTimestamp (fld x ''claimedAt'') \<and> isCanonicalTimestamp (fld x ''updatedAt'')) (js_arr v)"

definition commit_hex :: "js \<Rightarrow> bool" where
  "commit_hex v \<longleftrightarrow> is_str v \<and> 40 \<le> length (js_str v) \<and> length (js_str v) \<le> 64 \<and> list_all is_hex (js_str v)"

definition validFailedReconciliation :: "js \<Rightarrow> bool" where
  "validFailedReconciliation v \<longleftrightarrow> v = JNull \<or> is_record v
     \<and> exactKeys v [''idempotencyKey'', ''fingerprint'', ''phase'', ''claimedAt'', ''updatedAt'',
          ''canonicalCommit'', ''eventCursor'']
     \<and> is_str (fld v ''idempotencyKey'') \<and> js_str (fld v ''idempotencyKey'') \<noteq> []
     \<and> js_hex 64 (fld v ''fingerprint'')
     \<and> js_String (fld v ''phase'') \<in> set [''claimed'', ''committed'']
     \<and> isCanonicalTimestamp (fld v ''claimedAt'') \<and> isCanonicalTimestamp (fld v ''updatedAt'')
     \<and> (fld v ''canonicalCommit'' = JNull \<or> commit_hex (fld v ''canonicalCommit''))
     \<and> (fld v ''eventCursor'' = JNull
        \<or> js_safe_int (fld v ''eventCursor'') \<and> 1 \<le> js_int (fld v ''eventCursor''))"

definition decodeRun :: "js \<Rightarrow> js option" where
  "decodeRun v =
     (if is_record v \<and> list_all (hasOwn v) RUN_KEYS
        \<and> \<not> list_ex (\<lambda>k. k \<notin> set (RUN_KEYS @ RUN_OPTIONAL_KEYS)) (js_keys v) \<and> validRunValues v
      then Some v else None)"

definition decodeStoredRun :: "js \<Rightarrow> js option" where
  "decodeStoredRun v =
     (if is_record v \<and> list_all (hasOwn v) STORED_RUN_REQUIRED_KEYS
        \<and> \<not> list_ex (\<lambda>k. k \<notin> set (STORED_RUN_REQUIRED_KEYS @ STORED_RUN_OPTIONAL_KEYS)) (js_keys v)
        \<and> safeId (fld v ''subject'') \<and> validRunValues v
        \<and> list_all (\<lambda>k. hasOwn v k \<longrightarrow> nullableText (fld v k)) [''launchOperationKey'', ''archiveOperationKey'']
        \<and> list_all (\<lambda>k. hasOwn v k \<longrightarrow> nullableHash (fld v k))
            [''launchOperationFingerprint'', ''archiveOperationFingerprint'']
        \<and> (hasOwn v ''activationReceipts'' \<longrightarrow> validActivationReceipts (fld v ''activationReceipts''))
        \<and> (hasOwn v ''authorizedFailedRunReconciliation'' \<longrightarrow>
             validFailedReconciliation (fld v ''authorizedFailedRunReconciliation''))
      then Some v else None)"

section \<open>Runs as they are persisted\<close>

fun outcome_str :: "run_outcome \<Rightarrow> string" where
  "outcome_str OutOk = ''ok''"
| "outcome_str OutFailed = ''failed''"
| "outcome_str OutStopped = ''stopped''"
| "outcome_str OutInterrupted = ''interrupted''"
| "outcome_str OutAbandoned = ''abandoned''"

fun publication_str :: "publication_state \<Rightarrow> string" where
  "publication_str PubPending = ''pending''"
| "publication_str PubWaitingHuman = ''waiting-human''"
| "publication_str PubPublishing = ''publishing''"
| "publication_str PubPublished = ''published''"
| "publication_str PubReconcileRequired = ''reconcile-required''"

fun host_kind_str :: "host_kind \<Rightarrow> string" where
  "host_kind_str Vm = ''vm''"
| "host_kind_str Desktop = ''desktop''"

definition opt_int :: "int option \<Rightarrow> js" where
  "opt_int x = (case x of None \<Rightarrow> JNull | Some n \<Rightarrow> JNum n)"

definition claim_js :: "resume_claim option \<Rightarrow> js" where
  "claim_js x = (case x of None \<Rightarrow> JNull | Some c \<Rightarrow> JObj [(''deploymentRef'', JStr (rc_deploymentRef c)),
     (''bootId'', JStr (rc_bootId c)), (''claimantRef'', JStr (rc_claimantRef c))])"

definition pause_js :: "deploy_pause option \<Rightarrow> js" where
  "pause_js x = (case x of None \<Rightarrow> JNull | Some p \<Rightarrow> JObj [(''deploymentRef'', JStr (dp_deploymentRef p)),
     (''pausedAt'', JStr (dp_pausedAt p)), (''priorKind'', JStr (run_kind_str (dp_priorKind p))),
     (''resumeStreak'', JNum (dp_resumeStreak p)),
     (''lastResumeAttemptCursor'', opt_int (dp_lastResumeAttemptCursor p)),
     (''resumeClaim'', claim_js (dp_resumeClaim p))])"

definition lifecycle_js :: "run_lifecycle \<Rightarrow> js" where
  "lifecycle_js l = JObj [(''kind'', JStr (run_kind_str (lc_kind l))), (''deployPause'', pause_js (lc_deployPause l))]"

definition runnable_js :: "runnable_ref \<Rightarrow> js" where
  "runnable_js r = (case r of
     AgentRef i p \<Rightarrow> JObj [(''type'', JStr ''agent''), (''id'', JStr i), (''sourcePath'', JStr p)]
   | WorkflowRef i pr p \<Rightarrow> JObj [(''type'', JStr ''workflow''), (''id'', JStr i), (''project'', JStr pr),
       (''sourcePath'', JStr p)])"

definition assignment_js :: "assignment option \<Rightarrow> js" where
  "assignment_js x = (case x of None \<Rightarrow> JNull | Some a \<Rightarrow> JObj [(''agentId'', JStr (as_agentId a)),
     (''declarationPath'', JStr (as_declarationPath a)), (''declarationHash'', JStr (as_declarationHash a)),
     (''profileId'', JStr (as_profileId a)), (''runtime'', JStr (as_runtime a)), (''model'', JStr (as_model a))])"

definition launch_js :: "workspace_launch option \<Rightarrow> js" where
  "launch_js x = (case x of None \<Rightarrow> JNull | Some l \<Rightarrow> JObj [(''composerRef'', JStr (wl_composerRef l)),
     (''agentId'', JStr (wl_agentId l)), (''declarationPath'', JStr (wl_declarationPath l)),
     (''declarationHash'', JStr (wl_declarationHash l))])"

definition run_fields :: "'a run_scheme \<Rightarrow> (string \<times> js) list" where
  "run_fields r =
     [(''owner'', runnable_js (r_owner r)), (''executionHost'', JStr (host_kind_str (r_executionHost r))),
      (''terminalOutcome'', opt_str (map_option outcome_str (r_terminalOutcome r))),
      (''completedAt'', opt_str (r_completedAt r)),
      (''archivedFrom'', opt_str (map_option run_kind_str (r_archivedFrom r))),
      (''runRef'', JStr (r_runRef r)), (''predecessorRunRef'', opt_str (r_predecessorRunRef r)),
      (''title'', JStr (r_title r)), (''proposalRef'', JStr (r_proposalRef r)),
      (''proposalRevision'', JNum (r_proposalRevision r)), (''proposalHash'', JStr (r_proposalHash r)),
      (''publicationState'', JStr (publication_str (r_publicationState r))),
      (''lifecycle'', lifecycle_js (r_lifecycle r)), (''version'', JNum (r_version r)),
      (''managerSessionRef'', JStr (r_managerSessionRef r)), (''managerGeneration'', JNum (r_managerGeneration r)),
      (''managerAssignment'', assignment_js (r_managerAssignment r)),
      (''agentWorkspaceLaunch'', launch_js (r_agentWorkspaceLaunch r)),
      (''createdAt'', JStr (r_createdAt r)), (''updatedAt'', JStr (r_updatedAt r))]
     @ (case r_workflowTags r of None \<Rightarrow> [] | Some ts \<Rightarrow> [(''workflowTags'', JArr (map JStr ts))])"

definition run_js :: "'a run_scheme \<Rightarrow> js" where
  "run_js r = JObj (run_fields r)"

definition dt_invalid_run :: string where
  "dt_invalid_run = ''invalid control-plane Run transport payload''"

definition internalRun :: "stored_run \<Rightarrow> string + run" where
  "internalRun r = (case decodeRun (run_js (run.truncate r)) of
     None \<Rightarrow> Inl dt_invalid_run | Some _ \<Rightarrow> Inr (run.truncate r))"

section \<open>What the decoder accepts of a persisted run\<close>

definition tags_ok :: "string list option \<Rightarrow> bool" where
  "tags_ok x = (case x of None \<Rightarrow> True | Some ts \<Rightarrow> set ts \<subseteq> set KNOWN_RUN_TAGS \<and> distinct ts)"

text \<open>The closing rule of a run's outcome: it is stamped exactly when the run has one.\<close>

definition outcome_closed :: "'a run_scheme \<Rightarrow> bool" where
  "outcome_closed r \<longleftrightarrow> (r_terminalOutcome r = None \<longleftrightarrow> r_completedAt r = None)
     \<and> (r_archivedFrom r \<noteq> None \<longrightarrow> r_terminalOutcome r \<noteq> None)
     \<and> (case r_archivedFrom r of None \<Rightarrow> True | Some k \<Rightarrow> k \<in> set ARCHIVED_FROM)"

definition run_valid :: "'a run_scheme \<Rightarrow> bool" where
  "run_valid r \<longleftrightarrow> decodeRunnableRef (runnable_js (r_owner r)) \<noteq> None
     \<and> outcome_closed r \<and> (case r_completedAt r of None \<Rightarrow> True | Some t \<Rightarrow> is_iso t)
     \<and> SAFE_ID (r_runRef r) \<and> (case r_predecessorRunRef r of None \<Rightarrow> True | Some p \<Rightarrow> SAFE_ID p)
     \<and> r_title r \<noteq> [] \<and> SAFE_ID (r_proposalRef r)
     \<and> safe_int (r_proposalRevision r) \<and> 1 \<le> r_proposalRevision r
     \<and> hex_len 64 (r_proposalHash r)
     \<and> validLifecycle (lifecycle_js (r_lifecycle r))
     \<and> safe_int (r_version r) \<and> 1 \<le> r_version r
     \<and> SAFE_ID (r_managerSessionRef r)
     \<and> safe_int (r_managerGeneration r) \<and> 0 \<le> r_managerGeneration r
     \<and> decodeAssignment (assignment_js (r_managerAssignment r))
     \<and> decodeWorkspaceLaunch (launch_js (r_agentWorkspaceLaunch r))
     \<and> is_iso (r_createdAt r) \<and> is_iso (r_updatedAt r) \<and> tags_ok (r_workflowTags r)"

lemma opt_str_JNull [simp]: "opt_str x = JNull \<longleftrightarrow> x = None"
  by (simp add: opt_str_def split: option.splits)

lemma map_of_outcome_str [simp]: "map_of OUTCOMES (outcome_str x) = Some x"
  by (cases x) (simp_all add: OUTCOMES_def)

lemma map_of_publication_str [simp]: "map_of PUBLICATION_STATES (publication_str x) = Some x"
  by (cases x) (simp_all add: PUBLICATION_STATES_def)

lemma run_kind_str_inj [simp]: "run_kind_str a = run_kind_str b \<longleftrightarrow> a = b"
  by (metis run_kind_of_str option.inject)

lemma run_flds:
  "fld (run_js r) ''owner'' = runnable_js (r_owner r)"
  "fld (run_js r) ''executionHost'' = JStr (host_kind_str (r_executionHost r))"
  "fld (run_js r) ''terminalOutcome'' = opt_str (map_option outcome_str (r_terminalOutcome r))"
  "fld (run_js r) ''completedAt'' = opt_str (r_completedAt r)"
  "fld (run_js r) ''archivedFrom'' = opt_str (map_option run_kind_str (r_archivedFrom r))"
  "fld (run_js r) ''runRef'' = JStr (r_runRef r)"
  "fld (run_js r) ''predecessorRunRef'' = opt_str (r_predecessorRunRef r)"
  "fld (run_js r) ''title'' = JStr (r_title r)"
  "fld (run_js r) ''proposalRef'' = JStr (r_proposalRef r)"
  "fld (run_js r) ''proposalRevision'' = JNum (r_proposalRevision r)"
  "fld (run_js r) ''proposalHash'' = JStr (r_proposalHash r)"
  "fld (run_js r) ''publicationState'' = JStr (publication_str (r_publicationState r))"
  "fld (run_js r) ''lifecycle'' = lifecycle_js (r_lifecycle r)"
  "fld (run_js r) ''version'' = JNum (r_version r)"
  "fld (run_js r) ''managerSessionRef'' = JStr (r_managerSessionRef r)"
  "fld (run_js r) ''managerGeneration'' = JNum (r_managerGeneration r)"
  "fld (run_js r) ''managerAssignment'' = assignment_js (r_managerAssignment r)"
  "fld (run_js r) ''agentWorkspaceLaunch'' = launch_js (r_agentWorkspaceLaunch r)"
  "fld (run_js r) ''createdAt'' = JStr (r_createdAt r)"
  "fld (run_js r) ''updatedAt'' = JStr (r_updatedAt r)"
  by (simp_all add: run_js_def run_fields_def fld_def)

lemma run_tags:
  "validWorkflowTags (run_js r) \<longleftrightarrow> tags_ok (r_workflowTags r)"
proof -
  have h: "hasOwn (run_js r) ''workflowTags'' \<longleftrightarrow> r_workflowTags r \<noteq> None"
    by (cases "r_workflowTags r") (simp_all add: hasOwn_def run_js_def run_fields_def)
  have f: "r_workflowTags r = Some ts \<Longrightarrow> fld (run_js r) ''workflowTags'' = JArr (map JStr ts)" for ts
    by (simp add: fld_def run_js_def run_fields_def)
  show ?thesis
    by (cases "r_workflowTags r")
      (auto simp: validWorkflowTags_def h f tags_ok_def list_all_iff distinct_map inj_on_def)
qed

lemma run_shape:
  "is_record (run_js r)" "list_all (hasOwn (run_js r)) RUN_KEYS"
  "\<not> list_ex (\<lambda>k. k \<notin> set (RUN_KEYS @ RUN_OPTIONAL_KEYS)) (js_keys (run_js r))"
proof -
  show "is_record (run_js r)" by (simp add: run_js_def)
  have "set RUN_KEYS \<subseteq> set (js_keys (run_js r))"
    by (simp add: run_js_def run_fields_def RUN_KEYS_def)
  then show "list_all (hasOwn (run_js r)) RUN_KEYS"
    by (auto simp: list_all_iff hasOwn_def js_keys_def map_of_eq_None_iff)
  show "\<not> list_ex (\<lambda>k. k \<notin> set (RUN_KEYS @ RUN_OPTIONAL_KEYS)) (js_keys (run_js r))"
    by (simp add: run_js_def run_fields_def RUN_KEYS_def RUN_OPTIONAL_KEYS_def split: option.splits)
qed

lemma identity_run:
  "identityFieldsFromRun (run_js r) \<longleftrightarrow> decodeRunnableRef (runnable_js (r_owner r)) \<noteq> None
     \<and> outcome_closed r \<and> (case r_completedAt r of None \<Rightarrow> True | Some t \<Rightarrow> is_iso t)"
proof -
  have h: "decodeHostKind (JStr (host_kind_str h)) \<noteq> None" for h by (cases h) (simp_all add: decodeHostKind_def)
  have o: "outcome_admitted (opt_str (map_option outcome_str x))" for x
    by (cases x) (simp_all add: outcome_admitted_def opt_str_def)
  have a: "archivedFrom_admitted (opt_str (map_option run_kind_str x)) \<longleftrightarrow>
      (case x of None \<Rightarrow> True | Some k \<Rightarrow> k \<in> set ARCHIVED_FROM)" for x
    by (cases x) (auto simp: archivedFrom_admitted_def opt_str_def)
  have i: "isoOrNull (opt_str x) \<longleftrightarrow> (case x of None \<Rightarrow> True | Some t \<Rightarrow> is_iso t)" for x
    by (cases x) (simp_all add: isoOrNull_def opt_str_def)
  show ?thesis
    unfolding identityFieldsFromRun_def run_flds outcome_closed_def a i using h o by auto
qed

lemma decodeRun_run_js: "decodeRun (run_js r) = (if run_valid r then Some (run_js r) else None)"
proof -
  have p: "nullableSafeId (opt_str x) \<longleftrightarrow> (case x of None \<Rightarrow> True | Some p \<Rightarrow> SAFE_ID p)" for x
    by (cases x) (simp_all add: nullableSafeId_def opt_str_def)
  have "validRunValues (run_js r) \<longleftrightarrow> run_valid r"
    unfolding validRunValues_def identity_run run_tags run_flds run_valid_def p
    by (auto simp: js_hex_def)
  then show ?thesis using run_shape[of r] by (simp add: decodeRun_def)
qed

lemma run_js_truncate: "run_js (run.truncate r) = run_js r"
  by (simp add: run_js_def run_fields_def run.defs)

lemma internalRun_iff: "internalRun r = (if run_valid r then Inr (run.truncate r) else Inl dt_invalid_run)"
  by (simp add: internalRun_def run_js_truncate decodeRun_run_js)

lemma validLifecycle_plain: "validLifecycle (lifecycle_js (plain_lc k)) \<longleftrightarrow> k \<noteq> RPausedForDeploy"
proof -
  have "exactKeys (lifecycle_js (plain_lc k)) [''kind'', ''deployPause'']"
    by (simp add: exactKeys_def lifecycle_js_def)
  then show ?thesis
    by (auto simp: validLifecycle_def lifecycle_js_def pause_js_def run_kind_of_str Let_def)
qed

end
