(* ===== verification/Events.thy ===== *)
theory Events
  imports Decoders
begin

text \<open>
  The operational timeline (\<open>control/store.ts\<close>): \<open>appendEvent\<close> with \<open>validateRefs\<close>, \<open>listEvents\<close>, and
  the invariant every writer of an event keeps: cursors are handed out once, in order, over the active
  and the quarantined events together, so a reader that pages by cursor misses and repeats nothing.
\<close>

section \<open>Cursors\<close>

definition quarantined_events :: "document \<Rightarrow> stored_event list" where
  "quarantined_events d = concat (map qb_events (quarantine d))"

definition events_inv :: "document \<Rightarrow> bool" where
  "events_inv d \<longleftrightarrow> sorted_wrt (<) (map ev_cursor (events d))
     \<and> distinct (map ev_cursor (events d @ quarantined_events d))
     \<and> (\<forall>v\<in>set (events d @ quarantined_events d). ev_cursor v < nextEventCursor d)"

interpretation events_inv: store_invariant events_inv
  by unfold_locales (simp add: events_inv_def quarantined_events_def)

text \<open>Events numbered on from a cursor, as every writer appends them.\<close>

fun numbered :: "int \<Rightarrow> stored_event list \<Rightarrow> bool" where
  "numbered n [] = True"
| "numbered n (v # vs) = (ev_cursor v = n \<and> numbered (n + 1) vs)"

definition push_events :: "stored_event list \<Rightarrow> document \<Rightarrow> document" where
  "push_events vs d = d\<lparr>events := events d @ vs, nextEventCursor := nextEventCursor d + int (length vs)\<rparr>"

lemma numbered_bounds: "numbered n vs \<Longrightarrow> v \<in> set vs \<Longrightarrow> n \<le> ev_cursor v \<and> ev_cursor v < n + int (length vs)"
  by (induction vs arbitrary: n) force+

lemma numbered_sorted: "numbered n vs \<Longrightarrow> sorted_wrt (<) (map ev_cursor vs)"
proof (induction vs arbitrary: n)
  case (Cons v vs)
  then have "\<forall>w\<in>set vs. n + 1 \<le> ev_cursor w" using numbered_bounds by fastforce
  then have "\<forall>w\<in>set vs. ev_cursor v < ev_cursor w" using Cons.prems by fastforce
  with Cons show ?case by auto
qed simp

lemma strict_sorted_distinct: "sorted_wrt (<) (xs :: int list) \<Longrightarrow> distinct xs"
  by (induction xs) auto

lemma events_inv_push:
  assumes "events_inv d" and "numbered (nextEventCursor d) vs"
    and "events d' = events d @ vs" and "nextEventCursor d' = nextEventCursor d + int (length vs)"
    and "quarantine d' = quarantine d"
  shows "events_inv d'"
proof -
  have old: "\<forall>v\<in>set (events d @ quarantined_events d). ev_cursor v < nextEventCursor d"
    and s: "sorted_wrt (<) (map ev_cursor (events d))"
    and dst: "distinct (map ev_cursor (events d @ quarantined_events d))"
    using assms(1) by (auto simp: events_inv_def)
  have new: "\<forall>v\<in>set vs. nextEventCursor d \<le> ev_cursor v \<and> ev_cursor v < nextEventCursor d'"
    using numbered_bounds[OF assms(2)] assms(4) by auto
  have q: "quarantined_events d' = quarantined_events d" by (simp add: quarantined_events_def assms(5))
  have lt: "\<forall>a\<in>set (events d @ quarantined_events d). \<forall>b\<in>set vs. ev_cursor a < ev_cursor b"
    using old new by fastforce
  have s': "sorted_wrt (<) (map ev_cursor (events d @ vs))"
    using s numbered_sorted[OF assms(2)] lt by (auto simp: sorted_wrt_append)
  moreover have "distinct (map ev_cursor (events d') @ map ev_cursor (quarantined_events d'))"
  proof -
    have "ev_cursor ` set vs \<inter> ev_cursor ` set (quarantined_events d) = {}" using lt by fastforce
    moreover have "distinct (map ev_cursor (events d'))"
      using strict_sorted_distinct[OF s'] by (simp add: assms(3))
    ultimately show ?thesis using dst by (auto simp: q assms(3))
  qed
  moreover have "\<forall>v\<in>set (events d' @ quarantined_events d'). ev_cursor v < nextEventCursor d'"
    using old new assms(4) by (auto simp: q assms(3) intro: less_le_trans)
  ultimately show ?thesis by (simp add: events_inv_def assms(3))
qed

text \<open>Operations that leave the timeline alone.\<close>

definition same_timeline :: "document \<Rightarrow> document \<Rightarrow> bool" where
  "same_timeline d d' \<longleftrightarrow> events d' = events d \<and> nextEventCursor d' = nextEventCursor d \<and> quarantine d' = quarantine d"

lemma same_timeline_inv: "same_timeline d d' \<Longrightarrow> events_inv d \<Longrightarrow> events_inv d'"
  by (simp add: same_timeline_def events_inv_def quarantined_events_def)

section \<open>Appending\<close>

definition EVENT_FIELDS :: "string list" where
  "EVENT_FIELDS = [''kind'', ''source'', ''stageRef'', ''attemptRef'', ''sessionRef'', ''status'', ''summary'',
     ''command'', ''toolName'', ''path'', ''diff'', ''checkpoint'']"

fun js_lookup :: "(string \<times> 'a) list \<Rightarrow> js \<Rightarrow> 'a option" where
  "js_lookup tab (JStr s) = map_of tab s"
| "js_lookup tab _ = None"

definition js_nullish :: "js \<Rightarrow> bool" where
  "js_nullish v \<longleftrightarrow> v = JUndef \<or> v = JNull"

fun js_truthy :: "js \<Rightarrow> bool" where
  "js_truthy JUndef = False"
| "js_truthy JNull = False"
| "js_truthy (JBool b) = b"
| "js_truthy (JNum n) = (n \<noteq> 0)"
| "js_truthy JNaN = False"
| "js_truthy (JStr s) = (s \<noteq> [])"
| "js_truthy _ = True"

definition validOptionalEventText :: "js \<Rightarrow> bool" where
  "validOptionalEventText input = list_all
     (\<lambda>field. js_nullish (fld input field) \<or> is_str (fld input field) \<and> nul \<notin> set (js_str (fld input field)))
     [''summary'', ''command'', ''toolName'', ''path'', ''diff'', ''checkpoint'']"

definition validateRefs :: "document \<Rightarrow> string \<Rightarrow> string \<Rightarrow> js \<Rightarrow> string option" where
  "validateRefs d subject runRef input =
     (if js_truthy (fld input ''stageRef'') \<and> \<not> list_ex (\<lambda>s. st_subject s = subject \<and> st_runRef s = runRef
          \<and> JStr (st_stageRef s) = fld input ''stageRef'') (stages d)
      then Some ''event stageRef does not belong to this run''
      else if js_truthy (fld input ''attemptRef'') \<and> \<not> list_ex (\<lambda>a. at_subject a = subject \<and> at_runRef a = runRef
          \<and> JStr (at_attemptRef a) = fld input ''attemptRef'') (attempts d)
      then Some ''event attemptRef does not belong to this run''
      else if js_truthy (fld input ''sessionRef'') \<and> \<not> list_ex (\<lambda>s. ms_subject s = subject \<and> ms_runRef s = runRef
          \<and> JStr (ms_sessionRef s) = fld input ''sessionRef'') (sessions d)
      then Some ''event sessionRef does not belong to this run''
      else None)"

text \<open>A reference or text of the input, read as the type it is declared with: a string or null.\<close>

definition js_text :: "js \<Rightarrow> string option" where
  "js_text v = (case v of JStr s \<Rightarrow> Some s | _ \<Rightarrow> None)"

definition clean_opt :: "env \<Rightarrow> int \<Rightarrow> js \<Rightarrow> string option" where
  "clean_opt e n v = map_option (\<lambda>s. cleanText e s n) (js_text v)"

definition input_event :: "env \<Rightarrow> string \<Rightarrow> string \<Rightarrow> js \<Rightarrow> int \<Rightarrow> stored_event" where
  "input_event e owner runRef input cursor =
     \<lparr>ev_cursor = cursor, ev_runRef = runRef, ev_kind = the (js_lookup EVENT_KINDS (fld input ''kind'')),
      ev_source = the (js_lookup EVENT_SOURCES (fld input ''source'')),
      ev_stageRef = js_text (fld input ''stageRef''), ev_attemptRef = js_text (fld input ''attemptRef''),
      ev_sessionRef = js_text (fld input ''sessionRef''),
      ev_status = js_lookup EVENT_STATUSES (fld input ''status''),
      ev_summary = clean_opt e MAX_LONG_TEXT (fld input ''summary''),
      ev_command = clean_opt e MAX_LONG_TEXT (fld input ''command''),
      ev_toolName = clean_opt e MAX_SHORT_TEXT (fld input ''toolName''),
      ev_path = clean_opt e MAX_LONG_TEXT (fld input ''path''),
      ev_diff = clean_opt e MAX_LONG_TEXT (fld input ''diff''),
      ev_checkpoint = clean_opt e MAX_LONG_TEXT (fld input ''checkpoint''),
      ev_createdAt = e_stamp e 0, ev_subject = owner, ev_operationKey = None, ev_operationFingerprint = None\<rparr>"

definition publicEvent :: "stored_event \<Rightarrow> event" where
  "publicEvent v = event.truncate v"

definition dt_run_not_found :: string where "dt_run_not_found = ''run was not found''"
definition dt_event_field :: string where "dt_event_field = ''operational event contains an unknown field''"
definition dt_event_kind :: string where
  "dt_event_kind = ''operational event kind, source, or status is invalid''"
definition dt_event_text :: string where
  "dt_event_text = ''operational event text fields must be strings without NUL bytes''"
definition dt_event_limit :: string where "dt_event_limit = ''run has reached the operational event limit''"
definition dt_event_page :: string where
  "dt_event_page = ''event cursor must be non-negative and limit must be 1-'' @ int_str MAX_EVENT_PAGE"

definition appendEvent :: "env \<Rightarrow> string \<Rightarrow> string \<Rightarrow> js \<Rightarrow> read_scope \<Rightarrow> document \<Rightarrow> event outcome" where
  "appendEvent e subject runRef input scope d =
     (case findRun d subject runRef scope of
        None \<Rightarrow> Refuse NotFound dt_run_not_found
      | Some r \<Rightarrow>
          let owner = r_subject r in
          if list_ex (\<lambda>k. k \<notin> set EVENT_FIELDS) (js_keys input) then Refuse Invalid dt_event_field
          else if js_lookup EVENT_KINDS (fld input ''kind'') = None
            \<or> js_lookup EVENT_SOURCES (fld input ''source'') = None
            \<or> \<not> js_nullish (fld input ''status'') \<and> js_lookup EVENT_STATUSES (fld input ''status'') = None
          then Refuse Invalid dt_event_kind
          else if \<not> validOptionalEventText input then Refuse Invalid dt_event_text
          else if event_count d owner runRef \<ge> e_maxEvents e then Refuse Limit dt_event_limit
          else (case validateRefs d owner runRef input of
                  Some err \<Rightarrow> Refuse Invalid err
                | None \<Rightarrow>
                    let v = input_event e owner runRef input (nextEventCursor d) in
                    Commit (push_events [v] d) (publicEvent v)))"

definition events_after :: "string \<Rightarrow> string \<Rightarrow> int \<Rightarrow> document \<Rightarrow> stored_event list" where
  "events_after subject runRef cursor d =
     filter (\<lambda>v. run_event subject runRef v \<and> ev_cursor v > cursor) (events d)"

definition listEvents ::
  "string \<Rightarrow> string \<Rightarrow> int \<Rightarrow> int \<Rightarrow> read_scope \<Rightarrow> document \<Rightarrow> event list outcome" where
  "listEvents subject runRef afterCursor limit scope d =
     (case findRun d subject runRef scope of
        None \<Rightarrow> Refuse NotFound dt_run_not_found
      | Some r \<Rightarrow>
          if \<not> safe_int afterCursor \<or> afterCursor < 0 \<or> \<not> safe_int limit \<or> limit < 1 \<or> limit > MAX_EVENT_PAGE
          then Refuse Invalid dt_event_page
          else Value (map publicEvent (take (nat limit) (events_after (r_subject r) runRef afterCursor d))))"

section \<open>What a reader and a writer see\<close>

lemma appendEvent_commit:
  assumes "next_doc (appendEvent e subject runRef input scope d) = Some d'"
  obtains r where "findRun d subject runRef scope = Some r"
    and "event_count d (r_subject r) runRef < e_maxEvents e"
    and "d' = push_events [input_event e (r_subject r) runRef input (nextEventCursor d)] d"
  using assms unfolding appendEvent_def Let_def committed not_le by (elim exE conjE) (rule that)

lemma appendEvent_keeps: "keeps events_inv (appendEvent e subject runRef input scope)"
proof (rule keepsI)
  fix d d' assume i: "events_inv d" and n: "next_doc (appendEvent e subject runRef input scope d) = Some d'"
  obtain r :: stored_run where d': "d' = push_events [input_event e (r_subject r) runRef input (nextEventCursor d)] d"
    by (rule appendEvent_commit[OF n]) blast
  show "events_inv d'"
    by (rule events_inv_push[OF i, of "[input_event e (r_subject r) runRef input (nextEventCursor d)]"])
      (simp_all add: d' push_events_def input_event_def)
qed

lemma sorted_after_take:
  assumes "sorted_wrt (<) (map f xs)" and "0 < n" and "n \<le> length xs"
  shows "filter (\<lambda>v. (f v :: int) > f (xs ! (n - 1))) xs = drop n xs"
  using assms
proof (induction xs arbitrary: n)
  case (Cons x xs)
  show ?case
  proof (cases "n = 1")
    case True
    then have "filter (\<lambda>v. f v > f x) xs = xs" using Cons.prems(1) by (simp add: filter_id_conv)
    with True show ?thesis by simp
  next
    case False
    then obtain m where m: "n = Suc m" "0 < m" using Cons.prems(2) by (cases n) auto
    then have lt: "m - 1 < length xs" "m \<le> length xs" using Cons.prems(3) by auto
    then have "f x < f (xs ! (m - 1))" using Cons.prems(1) by simp
    then have "\<not> f (xs ! (m - 1)) < f x" by simp
    then show ?thesis using Cons.IH[of m] Cons.prems(1) m lt by simp
  qed
qed simp

text \<open>Reading on from the last cursor of a page yields the events after that page, and no others.\<close>

lemma next_page:
  assumes i: "events_inv d" and n: "0 < n" and le: "n \<le> length (events_after subject runRef c d)"
  shows "events_after subject runRef (ev_cursor (events_after subject runRef c d ! (n - 1))) d
     = drop n (events_after subject runRef c d)"
proof -
  let ?xs = "events_after subject runRef c d"
  have s: "sorted_wrt (<) (map ev_cursor ?xs)"
    using i by (auto simp: events_inv_def events_after_def sorted_wrt_map intro: sorted_wrt_filter)
  have last: "?xs ! (n - 1) \<in> set ?xs" using n le by simp
  then have "ev_cursor (?xs ! (n - 1)) > c" by (auto simp: events_after_def)
  then have "events_after subject runRef (ev_cursor (?xs ! (n - 1))) d =
      filter (\<lambda>v. ev_cursor v > ev_cursor (?xs ! (n - 1))) ?xs"
    unfolding events_after_def by (auto intro!: filter_cong)
  then show ?thesis using sorted_after_take[OF s n le] by simp
qed

end
