(* ===== verification/HumanRequests.thy ===== *)
theory HumanRequests
  imports Events
begin

text \<open>
  Human Requests (\<open>control/store.ts\<close>): \<open>getHumanRequest\<close>, \<open>createHumanRequest\<close>, \<open>createHumanRequests\<close>,
  \<open>reviseHumanRequest\<close>, \<open>respondHumanRequest\<close>, the one writer of a response, the engine's auto-close of
  a run's open requests and the sweep \<open>closeOrphanedHumanRequests\<close>. A request is open exactly when it
  has no response, and a response, once written, stays.
\<close>

section \<open>The writer of a response\<close>

definition publicRequest :: "stored_request \<Rightarrow> human_request" where
  "publicRequest q = human_request.truncate q"

definition isIterationGateRequest :: "document \<Rightarrow> string \<Rightarrow> bool" where
  "isIterationGateRequest d requestRef =
     (if map_option hq_kind (find (\<lambda>q. hq_requestRef q = requestRef) (humanRequests d)) = Some HkIntervention
      then False
      else list_ex (\<lambda>l. il_completionGateRef l = Some requestRef \<or> il_interventionRef l = Some requestRef)
        (iterationLoops d))"

definition archiveResponseKey :: "string \<Rightarrow> string \<Rightarrow> string" where
  "archiveResponseKey archiveKey requestRef = js_slice MAX_SHORT_TEXT (''archive:'' @ archiveKey @ '':'' @ requestRef)"

definition recordHumanResponse ::
  "string \<Rightarrow> human_decision \<Rightarrow> string \<Rightarrow> string option \<Rightarrow> resolved_by option \<Rightarrow> string
     \<Rightarrow> stored_request \<Rightarrow> stored_request" where
  "recordHumanResponse subject decision key response resolvedBy at q = q
     \<lparr>hq_response := Some \<lparr>hr_requestRevision = hq_revision q, hr_decision = decision, hr_respondedBy = subject,
        hr_idempotencyKey = key, hr_response = response, hr_respondedAt = at, hr_resolvedBy = resolvedBy\<rparr>,
      hq_open := False, hq_updatedAt := at\<rparr>"

definition autoCloseResponseKey :: "string \<Rightarrow> string \<Rightarrow> string \<Rightarrow> string" where
  "autoCloseResponseKey tag runRef requestRef =
     js_slice MAX_SHORT_TEXT (''auto-close:'' @ tag @ '':'' @ runRef @ '':'' @ requestRef)"

section \<open>The auto-close of a run's open requests\<close>

definition auto_closes :: "(string \<Rightarrow> bool) \<Rightarrow> string \<Rightarrow> string \<Rightarrow> stored_request \<Rightarrow> bool" where
  "auto_closes gate subject runRef q \<longleftrightarrow> run_request subject runRef q \<and> hq_open q
     \<and> \<not> gate (hq_requestRef q) \<and> hq_kind q \<noteq> HkReview"

definition auto_event :: "string \<Rightarrow> string \<Rightarrow> string \<Rightarrow> string \<Rightarrow> string \<Rightarrow> int \<Rightarrow> stored_request \<Rightarrow> stored_event" where
  "auto_event subject runRef at tag reason cursor q =
     \<lparr>ev_cursor = cursor, ev_runRef = runRef, ev_kind = EkGovernance, ev_source = EsSystem,
      ev_stageRef = hq_stageRef q, ev_attemptRef = None, ev_sessionRef = None, ev_status = Some EvStopped,
      ev_summary = Some (''Human Request auto-closed without an answer ('' @ tag @ ''): '' @ reason),
      ev_command = None, ev_toolName = None, ev_path = None, ev_diff = None, ev_checkpoint = None,
      ev_createdAt = at, ev_subject = subject, ev_operationKey = None, ev_operationFingerprint = None\<rparr>"

text \<open>
  The loop over the requests, with the run's event count and the next cursor. \<open>gate\<close> is
  \<open>isIterationGateRequest\<close> of the document: it reads kinds and loops, which the loop never changes.
\<close>

fun auto_close_loop ::
  "(string \<Rightarrow> bool) \<Rightarrow> string \<Rightarrow> string \<Rightarrow> string \<Rightarrow> string \<Rightarrow> string \<Rightarrow> nat \<Rightarrow> nat \<Rightarrow> int
     \<Rightarrow> stored_request list \<Rightarrow> stored_request list \<times> stored_request list \<times> stored_event list" where
  "auto_close_loop gate subject runRef at tag reason maxEvents cnt cursor [] = ([], [], [])"
| "auto_close_loop gate subject runRef at tag reason maxEvents cnt cursor (q # qs) =
     (if \<not> auto_closes gate subject runRef q
      then (case auto_close_loop gate subject runRef at tag reason maxEvents cnt cursor qs of
              (rows, closed, evs) \<Rightarrow> (q # rows, closed, evs))
      else let q' = recordHumanResponse subject HdAutoClosed
                      (autoCloseResponseKey tag runRef (hq_requestRef q)) (Some reason) None at q in
        if cnt \<ge> maxEvents
        then (case auto_close_loop gate subject runRef at tag reason maxEvents cnt cursor qs of
                (rows, closed, evs) \<Rightarrow> (q' # rows, q' # closed, evs))
        else (case auto_close_loop gate subject runRef at tag reason maxEvents (cnt + 1) (cursor + 1) qs of
                (rows, closed, evs) \<Rightarrow>
                  (q' # rows, q' # closed, auto_event subject runRef at tag reason cursor q # evs)))"

definition autoCloseOpenHumanRequestsForRun ::
  "string \<Rightarrow> string \<Rightarrow> string \<Rightarrow> string \<Rightarrow> string \<Rightarrow> nat \<Rightarrow> document \<Rightarrow> stored_request list \<times> document" where
  "autoCloseOpenHumanRequestsForRun subject runRef at tag reason maxEvents d =
     (case auto_close_loop (isIterationGateRequest d) subject runRef at tag reason maxEvents
             (event_count d subject runRef) (nextEventCursor d) (humanRequests d) of
        (rows, closed, evs) \<Rightarrow>
          (closed, d\<lparr>humanRequests := rows, events := events d @ evs,
                     nextEventCursor := nextEventCursor d + int (length evs)\<rparr>))"

text \<open>The dash of the reason is U+2014, written here as its three UTF-8 bytes.\<close>

definition orphan_reason :: "run_kind \<Rightarrow> string" where
  "orphan_reason k = ''Automatically closed '' @ [CHR 0xE2, CHR 0x80, CHR 0x94]
     @ '' the run reached its terminal state ('' @ [CHR 0x27] @ run_kind_str k @ [CHR 0x27]
     @ '') without this being answered.''"

definition terminal_tag :: "run_kind \<Rightarrow> string" where
  "terminal_tag k = ''terminal:'' @ run_kind_str k"

fun close_orphans :: "string \<Rightarrow> nat \<Rightarrow> stored_run list \<Rightarrow> document \<Rightarrow> stored_request list \<times> document" where
  "close_orphans at maxEvents [] d = ([], d)"
| "close_orphans at maxEvents (r # rs) d =
     (if \<not> isTerminalRun (r_lifecycle r) then close_orphans at maxEvents rs d
      else let k = runLifecycleKind (r_lifecycle r) in
        (case autoCloseOpenHumanRequestsForRun (r_subject r) (r_runRef r) at (terminal_tag k)
                (orphan_reason k) maxEvents d of
           (closed, d1) \<Rightarrow>
             (case close_orphans at maxEvents rs d1 of (closed2, d2) \<Rightarrow> (closed @ closed2, d2))))"

definition closeOrphanedHumanRequests :: "env \<Rightarrow> int \<Rightarrow> document \<Rightarrow> human_request list outcome" where
  "closeOrphanedHumanRequests e nowMs d =
     (case close_orphans (iso nowMs) (e_maxEvents e) (runs d) d of
        (closed, d') \<Rightarrow> if closed \<noteq> [] then Commit d' (map publicRequest closed) else Value [])"

section \<open>Asking\<close>

definition dt_request_limit :: string where "dt_request_limit = ''run has reached the Human Request limit''"
definition dt_request_text :: string where "dt_request_text = ''Human Request title and prompt are required''"
definition dt_request_stage :: string where
  "dt_request_stage = ''Human Request stageRef does not belong to this run''"
definition dt_request_kind :: string where "dt_request_kind = ''Human Request kind is invalid''"
definition dt_batch_required :: string where
  "dt_batch_required = ''idempotencyKey and a non-empty Human Request batch are required''"
definition dt_batch_reserved :: string where
  "dt_batch_reserved = ''iteration request operation namespaces are reserved''"
definition dt_batch_reused :: string where
  "dt_batch_reused = ''idempotencyKey was reused with different Human Request content''"
definition dt_batch_member :: string where
  "dt_batch_member = ''every Human Request requires a valid kind, title, and prompt''"
definition dt_request_not_found :: string where "dt_request_not_found = ''Human Request was not found''"
definition dt_request_gate :: string where
  "dt_request_gate = ''review-linked Human Requests are resolved only by the review gate resolver''"
definition dt_request_recovery :: string where
  "dt_request_recovery = ''the authorized legacy recovery receipt is immutable''"
definition dt_request_revision :: string where "dt_request_revision = ''Human Request revision changed''"
definition dt_request_immutable :: string where "dt_request_immutable = ''resolved Human Requests are immutable''"
definition dt_key_required :: string where "dt_key_required = ''idempotencyKey is required''"
definition dt_request_decision :: string where "dt_request_decision = ''Human Request decision is invalid''"
definition dt_request_resolved :: string where "dt_request_resolved = ''Human Request is already resolved''"
definition dt_response_reused :: string where
  "dt_response_reused = ''idempotencyKey was reused with different response content''"

definition getHumanRequest :: "string \<Rightarrow> string \<Rightarrow> read_scope \<Rightarrow> document \<Rightarrow> human_request outcome" where
  "getHumanRequest subject requestRef scope d = (case findHumanRequest d subject requestRef scope of
     None \<Rightarrow> Refuse NotFound dt_request_not_found | Some q \<Rightarrow> Value (publicRequest q))"

record request_input =
  rq_kind :: string
  rq_title :: string
  rq_prompt :: string
  rq_stageRef :: "string option"

definition owns_stage :: "document \<Rightarrow> string \<Rightarrow> string \<Rightarrow> string \<Rightarrow> bool" where
  "owns_stage d subject runRef stageRef = list_ex (\<lambda>s. st_subject s = subject \<and> st_runRef s = runRef
     \<and> st_stageRef s = stageRef) (stages d)"

text \<open>\<open>if (stageRef && !...)\<close>: an empty reference is falsy and is not checked.\<close>

definition stage_ref_ok :: "document \<Rightarrow> string \<Rightarrow> string \<Rightarrow> string option \<Rightarrow> bool" where
  "stage_ref_ok d subject runRef stageRef =
     (case stageRef of None \<Rightarrow> True | Some s \<Rightarrow> s = [] \<or> owns_stage d subject runRef s)"

definition new_request ::
  "env \<Rightarrow> string \<Rightarrow> string \<Rightarrow> string option \<Rightarrow> string option \<Rightarrow> request_input \<Rightarrow> nat \<Rightarrow> stored_request" where
  "new_request e owner runRef operationKey operationFingerprint input n =
     \<lparr>hq_requestRef = ref e ''request'' n, hq_runRef = runRef, hq_stageRef = rq_stageRef input,
      hq_kind = the (map_of HUMAN_REQUEST_KINDS (rq_kind input)), hq_iterationPark = False, hq_revision = 1,
      hq_open = True, hq_title = cleanText e (rq_title input) MAX_TITLE,
      hq_prompt = cleanText e (rq_prompt input) MAX_LONG_TEXT, hq_response = None,
      hq_createdAt = e_stamp e 0, hq_updatedAt = e_stamp e 0, hq_subject = owner,
      hq_operationKey = operationKey, hq_operationFingerprint = operationFingerprint,
      hq_resolutionOperationFingerprint = None, hq_legacyRecoveryOperationKey = None,
      hq_legacyRecoveryOperationFingerprint = None, hq_legacyRecoveryEventCursor = None\<rparr>"

definition request_count :: "document \<Rightarrow> string \<Rightarrow> string \<Rightarrow> nat" where
  "request_count d subject runRef = length (filter (run_request subject runRef) (humanRequests d))"

definition createHumanRequest ::
  "env \<Rightarrow> string \<Rightarrow> string \<Rightarrow> request_input \<Rightarrow> read_scope \<Rightarrow> document \<Rightarrow> human_request outcome" where
  "createHumanRequest e subject runRef input scope d =
     (case findRun d subject runRef scope of
        None \<Rightarrow> Refuse NotFound dt_run_not_found
      | Some r \<Rightarrow>
          let owner = r_subject r in
          if request_count d owner runRef \<ge> MAX_HUMAN_REQUESTS_PER_RUN then Refuse Limit dt_request_limit
          else if \<not> validNonEmpty (rq_title input) MAX_TITLE \<or> \<not> validNonEmpty (rq_prompt input) MAX_LONG_TEXT
          then Refuse Invalid dt_request_text
          else if \<not> stage_ref_ok d owner runRef (rq_stageRef input) then Refuse Invalid dt_request_stage
          else if map_of HUMAN_REQUEST_KINDS (rq_kind input) = None then Refuse Invalid dt_request_kind
          else let q = new_request e owner runRef None None input 0 in
            Commit (d\<lparr>humanRequests := humanRequests d @ [q]\<rparr>) (publicRequest q))"

text \<open>\<open>JSON.stringify(input.requests)\<close> over the batch as it was sent, in \<open>js\<close>.\<close>

definition js_opt_ref :: "js \<Rightarrow> string option" where
  "js_opt_ref v = (case v of JStr s \<Rightarrow> Some s | _ \<Rightarrow> None)"

definition js_request :: "js \<Rightarrow> request_input" where
  "js_request v = \<lparr>rq_kind = js_str (fld v ''kind''), rq_title = js_str (fld v ''title''),
     rq_prompt = js_str (fld v ''prompt''), rq_stageRef = js_opt_ref (fld v ''stageRef'')\<rparr>"

definition RESERVED_NAMESPACES :: "string list" where
  "RESERVED_NAMESPACES = [''iteration-parked:'', ''iteration-completion:'', ''iteration-intervention:'']"

definition starts_with :: "string \<Rightarrow> string \<Rightarrow> bool" where
  "starts_with p s \<longleftrightarrow> take (length p) s = p"

definition member_error :: "document \<Rightarrow> string \<Rightarrow> string \<Rightarrow> request_input \<Rightarrow> string option" where
  "member_error d subject runRef input =
     (if \<not> validNonEmpty (rq_title input) MAX_TITLE \<or> \<not> validNonEmpty (rq_prompt input) MAX_LONG_TEXT
        \<or> map_of HUMAN_REQUEST_KINDS (rq_kind input) = None then Some dt_batch_member
      else if \<not> stage_ref_ok d subject runRef (rq_stageRef input) then Some dt_request_stage
      else None)"

fun first_member_error :: "document \<Rightarrow> string \<Rightarrow> string \<Rightarrow> request_input list \<Rightarrow> string option" where
  "first_member_error d subject runRef [] = None"
| "first_member_error d subject runRef (x # xs) = (case member_error d subject runRef x of
     Some err \<Rightarrow> Some err | None \<Rightarrow> first_member_error d subject runRef xs)"

fun new_requests :: "env \<Rightarrow> string \<Rightarrow> string \<Rightarrow> string \<Rightarrow> string \<Rightarrow> nat \<Rightarrow> request_input list \<Rightarrow> stored_request list" where
  "new_requests e subject runRef key fingerprint n [] = []"
| "new_requests e subject runRef key fingerprint n (x # xs) =
     new_request e subject runRef (Some key) (Some fingerprint) x n
       # new_requests e subject runRef key fingerprint (Suc n) xs"

definition createHumanRequests ::
  "env \<Rightarrow> string \<Rightarrow> string \<Rightarrow> string \<Rightarrow> js list \<Rightarrow> document \<Rightarrow> human_request list outcome" where
  "createHumanRequests e subject runRef key requests d =
     (case findRun d subject runRef OwnSubject of
        None \<Rightarrow> Refuse NotFound dt_run_not_found
      | Some r \<Rightarrow>
          if \<not> validNonEmpty key MAX_SHORT_TEXT \<or> requests = [] then Refuse Invalid dt_batch_required
          else if list_ex (\<lambda>p. starts_with p key) RESERVED_NAMESPACES then Refuse Invalid dt_batch_reserved
          else let fingerprint = sha256_json e (JArr requests);
                   replay = filter (\<lambda>q. run_request subject runRef q \<and> hq_operationKey q = Some key) (humanRequests d) in
            if replay \<noteq> []
            then if list_ex (\<lambda>q. hq_operationFingerprint q \<noteq> Some fingerprint) replay \<or> length replay \<noteq> length requests
                 then Refuse IdempotencyConflict dt_batch_reused
                 else Replay (map publicRequest replay)
            else if request_count d subject runRef + length requests > MAX_HUMAN_REQUESTS_PER_RUN
            then Refuse Limit dt_request_limit
            else (case first_member_error d subject runRef (map js_request requests) of
                    Some err \<Rightarrow> Refuse Invalid err
                  | None \<Rightarrow>
                      let qs = new_requests e subject runRef key fingerprint 0 (map js_request requests) in
                      Commit (d\<lparr>humanRequests := humanRequests d @ qs\<rparr>) (map publicRequest qs)))"

section \<open>Revising and answering\<close>

definition revised :: "env \<Rightarrow> string \<Rightarrow> string \<Rightarrow> stored_request \<Rightarrow> stored_request" where
  "revised e title prompt q = q\<lparr>hq_title := cleanText e title MAX_TITLE,
     hq_prompt := cleanText e prompt MAX_LONG_TEXT, hq_revision := hq_revision q + 1,
     hq_updatedAt := e_stamp e 0\<rparr>"

definition reviseHumanRequest ::
  "env \<Rightarrow> string \<Rightarrow> string \<Rightarrow> int \<Rightarrow> string \<Rightarrow> string \<Rightarrow> document \<Rightarrow> human_request outcome" where
  "reviseHumanRequest e subject requestRef expectedRevision title prompt d =
     (case findHumanRequest d subject requestRef OwnSubject of
        None \<Rightarrow> Refuse NotFound dt_request_not_found
      | Some q \<Rightarrow>
          if isIterationGateRequest d requestRef then Refuse Invalid dt_request_gate
          else if hq_legacyRecoveryOperationKey q \<noteq> None then Refuse Invalid dt_request_recovery
          else if hq_revision q \<noteq> expectedRevision then Refuse Conflict dt_request_revision
          else if \<not> hq_open q \<or> hq_response q \<noteq> None then Refuse Conflict dt_request_immutable
          else if \<not> validNonEmpty title MAX_TITLE \<or> \<not> validNonEmpty prompt MAX_LONG_TEXT
          then Refuse Invalid dt_request_text
          else Commit (d\<lparr>humanRequests := upd_first (is_request subject requestRef OwnSubject)
                         (revised e title prompt) (humanRequests d)\<rparr>)
                 (publicRequest (revised e title prompt q)))"

record respond_input =
  rs_expectedRevision :: int
  rs_decision :: string
  rs_idempotencyKey :: string
  rs_response :: "string option"
  rs_resolvedBy :: "resolved_by option"

definition respondHumanRequest ::
  "env \<Rightarrow> string \<Rightarrow> string \<Rightarrow> respond_input \<Rightarrow> read_scope \<Rightarrow> document \<Rightarrow> human_request outcome" where
  "respondHumanRequest e subject requestRef input scope d =
     (case findHumanRequest d subject requestRef scope of
        None \<Rightarrow> Refuse NotFound dt_request_not_found
      | Some q \<Rightarrow>
          if isIterationGateRequest d requestRef then Refuse Invalid dt_request_gate
          else if \<not> validNonEmpty (rs_idempotencyKey input) MAX_SHORT_TEXT then Refuse Invalid dt_key_required
          else (case map_of HUMAN_DECISIONS (rs_decision input) of
            None \<Rightarrow> Refuse Invalid dt_request_decision
          | Some decision \<Rightarrow>
            let response = map_option (\<lambda>s. cleanText e s MAX_LONG_TEXT) (rs_response input) in
            (case hq_response q of
               Some r \<Rightarrow>
                 if hr_idempotencyKey r \<noteq> rs_idempotencyKey input then Refuse Conflict dt_request_resolved
                 else if hr_requestRevision r \<noteq> rs_expectedRevision input \<or> hr_decision r \<noteq> decision
                   \<or> hr_response r \<noteq> response then Refuse IdempotencyConflict dt_response_reused
                 else Replay (publicRequest q)
             | None \<Rightarrow>
                 if hq_revision q \<noteq> rs_expectedRevision input \<or> \<not> hq_open q
                 then Refuse Conflict dt_request_revision
                 else let answer = recordHumanResponse subject decision (rs_idempotencyKey input) response
                                     (rs_resolvedBy input) (e_stamp e 0) in
                   Commit (d\<lparr>humanRequests := upd_first (is_request subject requestRef scope) answer
                              (humanRequests d)\<rparr>) (publicRequest (answer q)))))"

section \<open>Rows that keep their answer\<close>

definition request_closed :: "stored_request \<Rightarrow> bool" where
  "request_closed q \<longleftrightarrow> (hq_open q \<longleftrightarrow> hq_response q = None)"

definition requests_inv :: "document \<Rightarrow> bool" where
  "requests_inv d \<longleftrightarrow> list_all request_closed (humanRequests d)
     \<and> list_all (\<lambda>b. list_all request_closed (qb_humanRequests b)) (quarantine d)"

interpretation requests_inv: store_invariant requests_inv
  by unfold_locales (simp add: requests_inv_def)

text \<open>The same ask, and the same record once it is answered.\<close>

definition row_kept :: "stored_request \<Rightarrow> stored_request \<Rightarrow> bool" where
  "row_kept q q' \<longleftrightarrow> hq_requestRef q' = hq_requestRef q \<and> hq_runRef q' = hq_runRef q
     \<and> hq_subject q' = hq_subject q \<and> hq_kind q' = hq_kind q \<and> hq_stageRef q' = hq_stageRef q
     \<and> (hq_response q \<noteq> None \<longrightarrow> q' = q)"

definition rows_kept :: "stored_request list \<Rightarrow> stored_request list \<Rightarrow> bool" where
  "rows_kept qs qs' \<longleftrightarrow> length qs \<le> length qs' \<and> list_all2 row_kept qs (take (length qs) qs')"

lemma row_kept_refl [simp]: "row_kept q q"
  by (simp add: row_kept_def)

lemma row_kept_trans: "row_kept a b \<Longrightarrow> row_kept b c \<Longrightarrow> row_kept a c"
  by (auto simp: row_kept_def)

lemma list_all2_kept_refl [simp]: "list_all2 row_kept qs qs"
  by (simp add: list_all2_refl)

lemma list_all2_kept_trans: "list_all2 row_kept as bs \<Longrightarrow> list_all2 row_kept bs cs \<Longrightarrow> list_all2 row_kept as cs"
  by (rule list_all2_trans[of row_kept row_kept row_kept]) (auto intro: row_kept_trans)

lemma rows_kept_append: "rows_kept qs (qs @ xs)"
  by (simp add: rows_kept_def)

lemma rows_kept_list_all2: "list_all2 row_kept qs qs' \<Longrightarrow> rows_kept qs qs'"
  by (simp add: rows_kept_def list_all2_lengthD[symmetric])

lemma rows_kept_upd: 
  assumes "\<And>q. find p qs = Some q \<Longrightarrow> row_kept q (f q)"
  shows "list_all2 row_kept qs (upd_first p f qs)"
  using assms by (induction qs) auto

lemma rows_kept_answer:
  assumes "rows_kept qs qs'" and "q \<in> set qs" and "hq_response q = Some r"
  shows "q \<in> set qs'"
proof -
  obtain i where i: "i < length qs" "qs ! i = q" using assms(2) by (auto simp: in_set_conv_nth)
  then have "row_kept q (take (length qs) qs' ! i)"
    using assms(1) by (auto simp: rows_kept_def list_all2_conv_all_nth)
  then have "qs' ! i = q" using assms(3) i by (simp add: row_kept_def)
  moreover have "i < length qs'" using i assms(1) by (simp add: rows_kept_def)
  ultimately show ?thesis using i nth_mem by metis
qed

lemma recorded_kept:
  "hq_response q = None \<Longrightarrow> row_kept q (recordHumanResponse subject dec key resp by' at q)"
  by (simp add: row_kept_def recordHumanResponse_def)

lemma recorded_closed [simp]: "request_closed (recordHumanResponse subject dec key resp by' at q)"
  by (simp add: request_closed_def recordHumanResponse_def)

section \<open>What the auto-close does\<close>

definition auto_closed :: "string \<Rightarrow> string \<Rightarrow> string \<Rightarrow> string \<Rightarrow> string \<Rightarrow> stored_request \<Rightarrow> stored_request" where
  "auto_closed subject runRef at tag reason q = recordHumanResponse subject HdAutoClosed
     (autoCloseResponseKey tag runRef (hq_requestRef q)) (Some reason) None at q"

abbreviation loop_rows where "loop_rows \<equiv> fst"
abbreviation loop_closed where "loop_closed x \<equiv> fst (snd x)"
abbreviation loop_events where "loop_events x \<equiv> snd (snd x)"

lemma auto_close_loop_rows:
  "loop_rows (auto_close_loop gate subject runRef at tag reason m n c qs) =
     map (\<lambda>q. if auto_closes gate subject runRef q then auto_closed subject runRef at tag reason q else q) qs"
  by (induction qs arbitrary: n c) (simp_all add: auto_closed_def Let_def case_prod_beta)

lemma auto_close_loop_closed:
  "loop_closed (auto_close_loop gate subject runRef at tag reason m n c qs) =
     map (auto_closed subject runRef at tag reason) (filter (auto_closes gate subject runRef) qs)"
  by (induction qs arbitrary: n c) (simp_all add: auto_closed_def Let_def case_prod_beta)

lemma auto_close_loop_events:
  "length (loop_events (auto_close_loop gate subject runRef at tag reason m n c qs)) =
     min (length (filter (auto_closes gate subject runRef) qs)) (m - n)
   \<and> numbered c (loop_events (auto_close_loop gate subject runRef at tag reason m n c qs))
   \<and> list_all (run_event subject runRef) (loop_events (auto_close_loop gate subject runRef at tag reason m n c qs))"
proof (induction qs arbitrary: n c)
  case (Cons q qs)
  show ?case
    using Cons.IH[of n c] Cons.IH[of "n + 1" "c + 1"]
    by (auto simp: Let_def case_prod_beta auto_event_def run_event_def)
qed simp

text \<open>The auto-close as one update of the document.\<close>

lemma autoClose_document:
  fixes subject runRef at tag reason m d defines "x \<equiv> autoCloseOpenHumanRequestsForRun subject runRef at tag reason m d"
  obtains vs where "snd x = (push_events vs d)\<lparr>humanRequests := map (\<lambda>q.
        if auto_closes (isIterationGateRequest d) subject runRef q then auto_closed subject runRef at tag reason q else q)
        (humanRequests d)\<rparr>"
    and "fst x = map (auto_closed subject runRef at tag reason)
        (filter (auto_closes (isIterationGateRequest d) subject runRef) (humanRequests d))"
    and "numbered (nextEventCursor d) vs" and "list_all (run_event subject runRef) vs"
    and "length vs = min (length (fst x)) (m - event_count d subject runRef)"
proof -
  let ?l = "auto_close_loop (isIterationGateRequest d) subject runRef at tag reason m (event_count d subject runRef)
      (nextEventCursor d) (humanRequests d)"
  have "snd x = (push_events (loop_events ?l) d)\<lparr>humanRequests := loop_rows ?l\<rparr>" "fst x = loop_closed ?l"
    by (simp_all add: x_def autoCloseOpenHumanRequestsForRun_def push_events_def case_prod_beta)
  then show thesis
    using that[of "loop_events ?l"] auto_close_loop_events[of "isIterationGateRequest d" subject runRef at tag reason m
        "event_count d subject runRef" "nextEventCursor d" "humanRequests d"]
    by (simp add: auto_close_loop_rows auto_close_loop_closed)
qed

lemma auto_closed_kept: "auto_closes gate subject runRef q \<Longrightarrow> request_closed q \<Longrightarrow>
    row_kept q (auto_closed subject runRef at tag reason q)"
  by (simp add: auto_closed_def recorded_kept auto_closes_def request_closed_def)

text \<open>What the auto-close keeps: the invariants, every answer, the event budget; it never accepts a boundary.\<close>

lemma autoClose_keeps:
  fixes subject runRef at tag reason m d defines "d' \<equiv> snd (autoCloseOpenHumanRequestsForRun subject runRef at tag reason m d)"
  shows "events_inv d \<Longrightarrow> events_inv d'"
    and "requests_inv d \<Longrightarrow> requests_inv d' \<and> list_all2 row_kept (humanRequests d) (humanRequests d')"
    and "event_count d subject runRef \<le> m \<Longrightarrow> event_count d' subject runRef \<le> m"
    and "runs d' = runs d" and "quarantine d' = quarantine d"
    and "list_all2 (\<lambda>q q'. q' = q \<or> \<not> boundaryAccepted q') (humanRequests d) (humanRequests d')"
proof -
  obtain vs where x: "d' = (push_events vs d)\<lparr>humanRequests := map (\<lambda>q.
        if auto_closes (isIterationGateRequest d) subject runRef q then auto_closed subject runRef at tag reason q else q)
        (humanRequests d)\<rparr>"
    and vs: "numbered (nextEventCursor d) vs" "list_all (run_event subject runRef) vs"
      "length vs \<le> m - event_count d subject runRef"
    unfolding d'_def by (rule autoClose_document[of subject runRef at tag reason m d]) auto
  show "events_inv d \<Longrightarrow> events_inv d'"
    by (rule events_inv_push[OF _ vs(1)]) (simp_all add: x push_events_def)
  show "requests_inv d \<Longrightarrow> requests_inv d' \<and> list_all2 row_kept (humanRequests d) (humanRequests d')"
    by (auto simp: x requests_inv_def push_events_def list_all_iff list_all2_map2 auto_closed_def[of subject runRef at tag]
        list_all2_conv_all_nth auto_closed_kept[unfolded auto_closed_def])
  have "filter (run_event subject runRef) vs = vs" using vs(2) by (simp add: filter_id_conv list_all_iff)
  then show "event_count d subject runRef \<le> m \<Longrightarrow> event_count d' subject runRef \<le> m"
    using vs(3) by (simp add: x event_count_def push_events_def)
  show "runs d' = runs d" "quarantine d' = quarantine d" by (simp_all add: x push_events_def)
  have "\<not> boundaryAccepted (auto_closed subject runRef at tag reason q)" for q
    by (simp add: boundaryAccepted_def auto_closed_def recordHumanResponse_def)
  then show "list_all2 (\<lambda>q q'. q' = q \<or> \<not> boundaryAccepted q') (humanRequests d) (humanRequests d')"
    by (auto simp: x list_all2_map2 intro!: list_all2_refl)
qed

section \<open>The operations, as updates\<close>

lemma createHumanRequest_commit:
  assumes "next_doc (createHumanRequest e subject runRef input scope d) = Some d'"
  obtains r :: stored_run where "findRun d subject runRef scope = Some r"
    and "request_count d (r_subject r) runRef < MAX_HUMAN_REQUESTS_PER_RUN"
    and "d' = d\<lparr>humanRequests := humanRequests d @ [new_request e (r_subject r) runRef None None input 0]\<rparr>"
  using assms unfolding createHumanRequest_def Let_def committed not_le by (elim exE conjE) (rule that)

lemma new_request_closed [simp]: "request_closed (new_request e owner runRef k f input n)"
  by (simp add: request_closed_def new_request_def)

lemma new_request_run: "run_request owner runRef (new_request e owner runRef k f input n)"
  by (simp add: run_request_def new_request_def)

lemma new_requests_closed: "q \<in> set (new_requests e subject runRef k f n xs) \<Longrightarrow>
    request_closed q \<and> run_request subject runRef q"
  by (induction xs arbitrary: n) (auto simp: new_request_run)

lemma length_new_requests [simp]: "length (new_requests e subject runRef k f n xs) = length xs"
  by (induction xs arbitrary: n) auto

lemma createHumanRequests_commit:
  assumes "next_doc (createHumanRequests e subject runRef key requests d) = Some d'"
  obtains f where "request_count d subject runRef + length requests \<le> MAX_HUMAN_REQUESTS_PER_RUN"
    and "d' = d\<lparr>humanRequests := humanRequests d @ new_requests e subject runRef key f 0 (map js_request requests)\<rparr>"
proof -
  have s: "next_doc (if b then (if c then Refuse r x else Replay y) else m) = Some d'' \<longleftrightarrow> \<not> b \<and> next_doc m = Some d''"
    for b c r x m d'' and y :: "human_request list" by simp
  show thesis
    using assms unfolding createHumanRequests_def Let_def s committed not_less by (elim exE conjE) (rule that)
qed

lemma reviseHumanRequest_commit:
  assumes "next_doc (reviseHumanRequest e subject requestRef n title prompt d) = Some d'"
  obtains q where "findHumanRequest d subject requestRef OwnSubject = Some q"
    and "\<not> isIterationGateRequest d requestRef" and "hq_revision q = n" and "hq_open q" and "hq_response q = None"
    and "d' = d\<lparr>humanRequests := upd_first (is_request subject requestRef OwnSubject) (revised e title prompt) (humanRequests d)\<rparr>"
proof -
  from assms obtain q where "findHumanRequest d subject requestRef OwnSubject = Some q"
    "\<not> isIterationGateRequest d requestRef" "\<not> hq_revision q \<noteq> n" "\<not> (\<not> hq_open q \<or> hq_response q \<noteq> None)"
    "d' = d\<lparr>humanRequests := upd_first (is_request subject requestRef OwnSubject) (revised e title prompt) (humanRequests d)\<rparr>"
    unfolding reviseHumanRequest_def committed by blast
  then show thesis using that by blast
qed

lemma respondHumanRequest_commit:
  assumes "next_doc (respondHumanRequest e subject requestRef input scope d) = Some d'"
  obtains q dec where "findHumanRequest d subject requestRef scope = Some q"
    and "\<not> isIterationGateRequest d requestRef" and "map_of HUMAN_DECISIONS (rs_decision input) = Some dec"
    and "hq_response q = None" and "hq_open q" and "hq_revision q = rs_expectedRevision input"
    and "d' = d\<lparr>humanRequests := upd_first (is_request subject requestRef scope)
      (recordHumanResponse subject dec (rs_idempotencyKey input)
        (map_option (\<lambda>s. cleanText e s MAX_LONG_TEXT) (rs_response input)) (rs_resolvedBy input) (e_stamp e 0))
      (humanRequests d)\<rparr>"
proof -
  have s: "next_doc (case x of Some a \<Rightarrow> (if b a then Refuse r t else if c a then Refuse r' t' else Replay (y a)) | None \<Rightarrow> m) = Some d''
      \<longleftrightarrow> x = None \<and> next_doc m = Some d''" for x b r t c r' t' m d'' and y :: "human_response \<Rightarrow> human_request"
    by (cases x) auto
  from assms obtain q dec where "findHumanRequest d subject requestRef scope = Some q"
    "\<not> isIterationGateRequest d requestRef" "map_of HUMAN_DECISIONS (rs_decision input) = Some dec"
    "hq_response q = None" "\<not> (hq_revision q \<noteq> rs_expectedRevision input \<or> \<not> hq_open q)"
    "d' = d\<lparr>humanRequests := upd_first (is_request subject requestRef scope)
      (recordHumanResponse subject dec (rs_idempotencyKey input)
        (map_option (\<lambda>s. cleanText e s MAX_LONG_TEXT) (rs_response input)) (rs_resolvedBy input) (e_stamp e 0))
      (humanRequests d)\<rparr>"
    unfolding respondHumanRequest_def Let_def s committed by blast
  then show thesis using that by blast
qed

section \<open>Invariants\<close>

text \<open>Both invariants at once, with every answer kept.\<close>

definition asks_step :: "document \<Rightarrow> document \<Rightarrow> bool" where
  "asks_step d d' \<longleftrightarrow> requests_inv d' \<and> rows_kept (humanRequests d) (humanRequests d')"

lemma asks_step_append:
  assumes "requests_inv d" and "list_all request_closed qs" and "humanRequests d' = humanRequests d @ qs"
    and "quarantine d' = quarantine d"
  shows "asks_step d d'"
  using assms by (simp add: asks_step_def requests_inv_def rows_kept_append)

lemma asks_step_upd:
  assumes "requests_inv d" and "humanRequests d' = upd_first p f (humanRequests d)"
    and "quarantine d' = quarantine d"
    and "\<And>q. find p (humanRequests d) = Some q \<Longrightarrow> request_closed q \<Longrightarrow> row_kept q (f q) \<and> request_closed (f q)"
  shows "asks_step d d'"
proof -
  have c: "find p (humanRequests d) = Some q \<Longrightarrow> request_closed q" for q
    using assms(1) by (auto simp: requests_inv_def list_all_iff dest: find_Some_in)
  have "list_all request_closed (upd_first p f (humanRequests d))"
    using assms(1,4) c by (intro list_all_upd_first) (auto simp: requests_inv_def)
  moreover have "list_all2 row_kept (humanRequests d) (upd_first p f (humanRequests d))"
    using assms(4) c by (intro rows_kept_upd) blast
  ultimately show ?thesis
    using assms(1-3) by (simp add: asks_step_def requests_inv_def rows_kept_list_all2)
qed

lemma createHumanRequest_step:
  "requests_inv d \<Longrightarrow> next_doc (createHumanRequest e subject runRef input scope d) = Some d' \<Longrightarrow> asks_step d d'"
  by (erule createHumanRequest_commit) (auto intro!: asks_step_append[where qs = "[new_request e _ runRef None None input 0]"])

lemma createHumanRequests_step:
  "requests_inv d \<Longrightarrow> next_doc (createHumanRequests e subject runRef key requests d) = Some d' \<Longrightarrow> asks_step d d'"
  by (erule createHumanRequests_commit) (rule asks_step_append, auto simp: list_all_iff dest: new_requests_closed)

lemma reviseHumanRequest_step:
  assumes "requests_inv d" and "next_doc (reviseHumanRequest e subject requestRef n title prompt d) = Some d'"
  shows "asks_step d d'"
proof (rule reviseHumanRequest_commit[OF assms(2)])
  fix q assume q: "findHumanRequest d subject requestRef OwnSubject = Some q" "hq_open q" "hq_response q = None"
    and d': "d' = d\<lparr>humanRequests := upd_first (is_request subject requestRef OwnSubject) (revised e title prompt) (humanRequests d)\<rparr>"
  show "asks_step d d'"
    by (rule asks_step_upd[OF assms(1), of _ "is_request subject requestRef OwnSubject" "revised e title prompt"])
      (use q in \<open>auto simp: d' findHumanRequest_def row_kept_def revised_def request_closed_def\<close>)
qed

lemma respondHumanRequest_step:
  assumes "requests_inv d" and "next_doc (respondHumanRequest e subject requestRef input scope d) = Some d'"
  shows "asks_step d d'"
proof (rule respondHumanRequest_commit[OF assms(2)])
  fix q dec assume q: "findHumanRequest d subject requestRef scope = Some q" "hq_response q = None"
    and d': "d' = d\<lparr>humanRequests := upd_first (is_request subject requestRef scope)
      (recordHumanResponse subject dec (rs_idempotencyKey input)
        (map_option (\<lambda>s. cleanText e s MAX_LONG_TEXT) (rs_response input)) (rs_resolvedBy input) (e_stamp e 0))
      (humanRequests d)\<rparr>"
  show "asks_step d d'"
    by (rule asks_step_upd[OF assms(1), of _ "is_request subject requestRef scope"])
      (use q in \<open>auto simp: d' findHumanRequest_def intro!: recorded_kept\<close>)
qed

lemma close_orphans_keeps:
  assumes "close_orphans at m rs d = (closed, d')"
  shows "(events_inv d \<longrightarrow> events_inv d')
    \<and> (requests_inv d \<longrightarrow> requests_inv d' \<and> list_all2 row_kept (humanRequests d) (humanRequests d'))
    \<and> quarantine d' = quarantine d"
  using assms
proof (induction at m rs d arbitrary: closed d' rule: close_orphans.induct)
  case (2 at m r rs d)
  show ?case
  proof (cases "isTerminalRun (r_lifecycle r)")
    case False
    with 2 show ?thesis by simp
  next
    case True
    let ?k = "runLifecycleKind (r_lifecycle r)"
    obtain c1 d1 where a: "autoCloseOpenHumanRequestsForRun (r_subject r) (r_runRef r) at (terminal_tag ?k)
        (orphan_reason ?k) m d = (c1, d1)" by fastforce
    obtain c2 where b: "close_orphans at m rs d1 = (c2, d')"
      using 2(3) True a by (auto simp: Let_def split: prod.splits)
    have ih: "(events_inv d1 \<longrightarrow> events_inv d')
      \<and> (requests_inv d1 \<longrightarrow> requests_inv d' \<and> list_all2 row_kept (humanRequests d1) (humanRequests d'))
      \<and> quarantine d' = quarantine d1"
      using 2(2)[OF _ refl a[symmetric] b] True by simp
    have k: "events_inv d \<Longrightarrow> events_inv d1" "quarantine d1 = quarantine d"
      "requests_inv d \<Longrightarrow> requests_inv d1 \<and> list_all2 row_kept (humanRequests d) (humanRequests d1)"
      using autoClose_keeps[where subject = "r_subject r" and runRef = "r_runRef r" and at = at
          and tag = "terminal_tag ?k" and reason = "orphan_reason ?k" and m = m and d = d] a by auto
    show ?thesis
    proof (intro conjI impI)
      show "events_inv d \<Longrightarrow> events_inv d'" using ih k(1) by simp
      show "quarantine d' = quarantine d" using ih k(2) by simp
      assume r: "requests_inv d"
      show "requests_inv d'" using ih k(3)[OF r] by simp
      show "list_all2 row_kept (humanRequests d) (humanRequests d')"
        using ih k(3)[OF r] by (auto intro: list_all2_kept_trans)
    qed
  qed
qed simp

lemma closeOrphaned_step:
  assumes "next_doc (closeOrphanedHumanRequests e nowMs d) = Some d'"
  shows "(events_inv d \<longrightarrow> events_inv d') \<and> (requests_inv d \<longrightarrow> asks_step d d')"
proof -
  obtain closed where c: "close_orphans (iso nowMs) (e_maxEvents e) (runs d) d = (closed, d')"
    using assms by (cases "close_orphans (iso nowMs) (e_maxEvents e) (runs d) d")
      (auto simp: closeOrphanedHumanRequests_def split: if_splits)
  show ?thesis using close_orphans_keeps[OF c] by (auto simp: asks_step_def rows_kept_list_all2)
qed

text \<open>The same answer sent again is a replay; another answer under the same key is refused.\<close>

lemma findHumanRequest_upd:
  assumes "findHumanRequest d subject requestRef scope = Some q"
    and "hq_requestRef (f q) = hq_requestRef q" and "hq_subject (f q) = hq_subject q"
  shows "findHumanRequest (d\<lparr>humanRequests := upd_first (is_request subject requestRef scope) f (humanRequests d)\<rparr>)
      subject requestRef scope = Some (f q)"
  using assms find_Some_pred[of "is_request subject requestRef scope" "humanRequests d" q]
  by (auto simp: findHumanRequest_def is_request_def intro: find_upd_first_hit)

end
