(* ===== verification/StageGates.thy ===== *)
theory StageGates
  imports HumanRequests
begin

text \<open>
  The predicates that hold a run or a stage back (\<open>control/store.ts\<close>): the iteration loop a stage takes
  part in, when a stage may be recorded as succeeded, when its dependencies release it, and when a run
  may succeed. They read the document and never change it.
\<close>

section \<open>Loops and generations of a stage\<close>

definition stage_row :: "string \<Rightarrow> string \<Rightarrow> stored_stage \<Rightarrow> bool" where
  "stage_row subject runRef s \<longleftrightarrow> st_subject s = subject \<and> st_runRef s = runRef"

definition iterationLoopForStage :: "document \<Rightarrow> stored_stage \<Rightarrow> stored_loop option" where
  "iterationLoopForStage d s = find (\<lambda>l. il_subject l = st_subject s \<and> il_runRef l = st_runRef s
     \<and> list_ex (\<lambda>p. pt_stageRef p = st_stageId s) (il_participants l)) (iterationLoops d)"

definition iterationGenerationOperationKey :: "string \<Rightarrow> string \<Rightarrow> string \<Rightarrow> string" where
  "iterationGenerationOperationKey runRef stageId requestRef =
     ''iteration-result:'' @ runRef @ '':'' @ stageId @ '':'' @ requestRef"

definition current_generation :: "document \<Rightarrow> stored_stage \<Rightarrow> stored_generation option" where
  "current_generation d s = (case st_currentGenerationRef s of
     None \<Rightarrow> None
   | Some g \<Rightarrow> find (\<lambda>x. sg_subject x = st_subject s \<and> sg_generationRef x = g) (stageGenerations d))"

definition is_committed :: "stored_generation option \<Rightarrow> bool" where
  "is_committed g \<longleftrightarrow> map_option sg_state g = Some GenCommitted"

definition open_turn_request :: "document \<Rightarrow> stored_stage \<Rightarrow> stored_loop \<Rightarrow> string \<Rightarrow> stored_turn_request option" where
  "open_turn_request d s l participantId = find (\<lambda>q. iq_subject q = st_subject s
     \<and> iq_iterationLoopRef q = il_iterationLoopRef l \<and> Some (iq_stepId q) = il_currentStepId l
     \<and> iq_recipientParticipantId q = participantId
     \<and> \<not> list_ex (\<lambda>r. ir_subject r = st_subject s \<and> oc_requestRef r = iq_requestRef q) (iterationReceipts d))
     (iterationRequests d)"

section \<open>A stage that may succeed\<close>

definition turn_may_succeed :: "document \<Rightarrow> stored_stage \<Rightarrow> stored_loop \<Rightarrow> participant \<Rightarrow> bool" where
  "turn_may_succeed d s l p =
     (case st_currentAttemptRef s of
        None \<Rightarrow> False
      | Some attemptRef \<Rightarrow>
          if attemptRef = [] then False
          else (case open_turn_request d s l (pt_participantId p) of
             None \<Rightarrow> False
           | Some q \<Rightarrow>
               if map_option at_state (find (\<lambda>a. at_subject a = st_subject s \<and> at_attemptRef a = attemptRef)
                    (attempts d)) \<noteq> Some ASucceeded then False
               else if \<not> ARTIFACT_PRODUCING_REQUEST_KINDS (iq_kind q) then True
               else let g = current_generation d s in
                 is_committed g \<and> (case g of None \<Rightarrow> False | Some x \<Rightarrow>
                   sg_canonicalResultOperationKey x =
                     Some (iterationGenerationOperationKey (st_runRef s) (st_stageId s) (iq_requestRef q)))))"

definition stageMaySucceed :: "document \<Rightarrow> stored_stage \<Rightarrow> bool" where
  "stageMaySucceed d s =
     (case iterationLoopForStage d s of
        None \<Rightarrow> True
      | Some l \<Rightarrow>
          if il_state l = Passed then True
          else (case find (\<lambda>p. pt_stageRef p = st_stageId s) (il_participants l) of
             None \<Rightarrow> False
           | Some p \<Rightarrow>
               if il_state l = AwaitingSeed
               then (if pt_participantId p \<noteq> il_seedParticipantId l then False
                     else is_committed (current_generation d s))
               else if il_state l \<noteq> RunningTurn then False
               else turn_may_succeed d s l p))"

section \<open>Dependencies\<close>

text \<open>The code indexes the stages of the run by id in a \<open>Map\<close>, where a later stage replaces an earlier one.\<close>

definition stage_by_id :: "document \<Rightarrow> stored_stage \<Rightarrow> string \<Rightarrow> stored_stage option" where
  "stage_by_id d s i =
     find (\<lambda>c. st_stageId c = i) (rev (filter (stage_row (st_subject s) (st_runRef s)) (stages d)))"

definition loop_releases :: "document \<Rightarrow> stored_stage \<Rightarrow> stored_stage \<Rightarrow> bool" where
  "loop_releases d s dep = (case iterationLoopForStage d dep of
     None \<Rightarrow> True
   | Some l \<Rightarrow> map_option il_iterationLoopRef (iterationLoopForStage d s) = Some (il_iterationLoopRef l)
       \<or> il_state l = Passed)"

definition dependenciesSucceeded :: "document \<Rightarrow> stored_stage \<Rightarrow> bool" where
  "dependenciesSucceeded d s = list_all (\<lambda>i. case stage_by_id d s i of
     None \<Rightarrow> False
   | Some dep \<Rightarrow> st_state dep = SSucceeded \<and> loop_releases d s dep) (st_dependsOn s)"

definition dependenciesAcceptedForAttempt :: "document \<Rightarrow> stored_stage \<Rightarrow> bool" where
  "dependenciesAcceptedForAttempt d s = list_all (\<lambda>i. case stage_by_id d s i of
     None \<Rightarrow> False
   | Some dep \<Rightarrow> loop_releases d s dep) (st_dependsOn s)"

definition runCanSucceed :: "document \<Rightarrow> stored_run \<Rightarrow> bool" where
  "runCanSucceed d r \<longleftrightarrow>
     list_all (\<lambda>s. st_state s = SSucceeded) (filter (stage_row (r_subject r) (r_runRef r)) (stages d))
     \<and> list_all (\<lambda>l. il_state l = Passed)
         (filter (\<lambda>l. il_subject l = r_subject r \<and> il_runRef l = r_runRef r) (iterationLoops d))
     \<and> list_all (\<lambda>a. SETTLED_ATTEMPT (at_state a))
         (filter (\<lambda>a. at_subject a = r_subject r \<and> at_runRef a = r_runRef r) (attempts d))
     \<and> list_all (\<lambda>s. SETTLED_SESSION (ms_state s))
         (filter (\<lambda>s. ms_subject s = r_subject r \<and> ms_runRef s = r_runRef r) (sessions d))"

lemma dependencies_succeeded_accepted: "dependenciesSucceeded d s \<Longrightarrow> dependenciesAcceptedForAttempt d s"
  by (auto simp: dependenciesSucceeded_def dependenciesAcceptedForAttempt_def list_all_iff split: option.splits)

text \<open>A stage that other stages of its run depend on: none of them is released while it is not succeeded.\<close>

lemma stage_by_id_row: "stage_by_id d s i = Some c \<Longrightarrow>
    st_stageId c = i \<and> c \<in> set (stages d) \<and> stage_row (st_subject s) (st_runRef s) c"
  by (auto simp: stage_by_id_def dest!: find_SomeD)

lemma dependency_not_succeeded:
  assumes "i \<in> set (st_dependsOn s)" and "stage_by_id d s i = Some c" and "st_state c \<noteq> SSucceeded"
  shows "\<not> dependenciesSucceeded d s"
  using assms by (auto simp: dependenciesSucceeded_def list_all_iff intro!: bexI[of _ i])

text \<open>A run that succeeded left nothing running under it.\<close>

lemma runCanSucceed_stage:
  "runCanSucceed d r \<Longrightarrow> s \<in> set (stages d) \<Longrightarrow> stage_row (r_subject r) (r_runRef r) s \<Longrightarrow> st_state s = SSucceeded"
  by (auto simp: runCanSucceed_def list_all_iff)

end
