(* ===== verification/Runs.thy ===== *)
theory Runs
  imports StageGates
begin

text \<open>
  Runs in the store (\<open>control/store.ts\<close>): \<open>listRuns\<close>' metadata and \<open>getRun\<close>'s detail, the bare
  transition with the completion of the run's schedule occurrence, the publication machine and
  \<open>archiveRun\<close>. The activation of a run and the canonical reconciliation build on it.
\<close>

section \<open>Answers that hand out a run\<close>

text \<open>\<open>internalRun\<close> throws on a run its decoder refuses: before a commit, or after it.\<close>

definition replay_run :: "stored_run \<Rightarrow> (run \<Rightarrow> 'a) \<Rightarrow> 'a outcome" where
  "replay_run r f = (case internalRun r of Inl x \<Rightarrow> Raise x | Inr v \<Rightarrow> Replay (f v))"

definition value_run :: "stored_run \<Rightarrow> (run \<Rightarrow> 'a) \<Rightarrow> 'a outcome" where
  "value_run r f = (case internalRun r of Inl x \<Rightarrow> Raise x | Inr v \<Rightarrow> Value (f v))"

definition commit_run :: "document \<Rightarrow> stored_run \<Rightarrow> (run \<Rightarrow> 'a) \<Rightarrow> 'a outcome" where
  "commit_run d r f = (case internalRun r of Inl x \<Rightarrow> CommitRaise d x | Inr v \<Rightarrow> Commit d (f v))"

definition recommit_run :: "document \<Rightarrow> stored_run \<Rightarrow> (run \<Rightarrow> 'a) \<Rightarrow> 'a outcome" where
  "recommit_run d r f = (case internalRun r of Inl x \<Rightarrow> CommitRaise d x | Inr v \<Rightarrow> CommitReplay d (f v))"

lemma next_doc_run [committed]:
  "next_doc (replay_run r f) = Some d \<longleftrightarrow> False" "next_doc (value_run r f) = Some d \<longleftrightarrow> False"
  "next_doc (commit_run d' r f) = Some d \<longleftrightarrow> d = d'" "next_doc (recommit_run d' r f) = Some d \<longleftrightarrow> d = d'"
  by (auto simp: replay_run_def value_run_def commit_run_def recommit_run_def split: sum.splits)

lemma next_doc_run_guard [committed]:
  "next_doc (if b then replay_run r f else m) = Some d \<longleftrightarrow> \<not> b \<and> next_doc m = Some d"
  "next_doc (if b then value_run r f else m) = Some d \<longleftrightarrow> \<not> b \<and> next_doc m = Some d"
  by (simp_all add: committed)

section \<open>Reading\<close>

definition publicSession :: "stored_session \<Rightarrow> session" where
  "publicSession s = (session.truncate s)
     \<lparr>ms_attemptOperationKey := (if ms_role s = Worker then ms_operationKey s else None)\<rparr>"

definition publicStage :: "stored_stage \<Rightarrow> stage" where
  "publicStage s = stage.truncate s"

definition publicAttempt :: "stored_attempt \<Rightarrow> attempt" where
  "publicAttempt a = attempt.truncate a"

text \<open>The answer of \<open>getRun\<close>, without the iteration collections.\<close>

record run_detail =
  rd_run :: run
  rd_ownerSubject :: string
  rd_stages :: "stage list"
  rd_attempts :: "attempt list"
  rd_sessions :: "session list"
  rd_humanRequests :: "human_request list"

definition attempt_row :: "string \<Rightarrow> string \<Rightarrow> stored_attempt \<Rightarrow> bool" where
  "attempt_row subject runRef a \<longleftrightarrow> at_subject a = subject \<and> at_runRef a = runRef"

definition session_row :: "string \<Rightarrow> string \<Rightarrow> stored_session \<Rightarrow> bool" where
  "session_row subject runRef s \<longleftrightarrow> ms_subject s = subject \<and> ms_runRef s = runRef"

definition detail_of :: "document \<Rightarrow> string \<Rightarrow> stored_run \<Rightarrow> run \<Rightarrow> run_detail" where
  "detail_of d subject r v = \<lparr>rd_run = v, rd_ownerSubject = r_subject r,
     rd_stages = map publicStage (filter (stage_row subject (r_runRef r)) (stages d)),
     rd_attempts = map publicAttempt (filter (attempt_row subject (r_runRef r)) (attempts d)),
     rd_sessions = map publicSession (filter (session_row subject (r_runRef r)) (sessions d)),
     rd_humanRequests = map publicRequest (filter (run_request subject (r_runRef r)) (humanRequests d))\<rparr>"

record run_metadata = run +
  rm_ownerSubject :: string
  rm_stageCount :: nat
  rm_attemptCount :: nat
  rm_sessionCount :: nat
  rm_openHumanRequestCount :: nat
  rm_eventCount :: nat

definition metadata :: "document \<Rightarrow> string \<Rightarrow> stored_run \<Rightarrow> string + run_metadata" where
  "metadata d subject r = sum_bind (internalRun r) (\<lambda>v. Inr (run.extend v
     \<lparr>rm_ownerSubject = r_subject r,
      rm_stageCount = length (filter (stage_row subject (r_runRef r)) (stages d)),
      rm_attemptCount = length (filter (attempt_row subject (r_runRef r)) (attempts d)),
      rm_sessionCount = length (filter (session_row subject (r_runRef r)) (sessions d)),
      rm_openHumanRequestCount =
        length (filter (\<lambda>q. run_request subject (r_runRef r) q \<and> hq_open q) (humanRequests d)),
      rm_eventCount = event_count d subject (r_runRef r)\<rparr>))"

definition getRun :: "string \<Rightarrow> string \<Rightarrow> read_scope \<Rightarrow> document \<Rightarrow> run_detail outcome" where
  "getRun subject runRef scope d = (case findRun d subject runRef scope of
     None \<Rightarrow> Refuse NotFound dt_run_not_found
   | Some r \<Rightarrow> value_run r (detail_of d (r_subject r) r))"

definition active_for_revision :: "string \<Rightarrow> string \<Rightarrow> int \<Rightarrow> string \<Rightarrow> stored_run \<Rightarrow> bool" where
  "active_for_revision subject proposalRef revision launchOperationKey r \<longleftrightarrow>
     r_subject r = subject \<and> r_proposalRef r = proposalRef \<and> r_proposalRevision r = revision
     \<and> r_launchOperationKey r \<noteq> Some launchOperationKey \<and> \<not> isTerminalRun (r_lifecycle r)"

definition findActiveRunForRevision ::
  "string \<Rightarrow> string \<Rightarrow> int \<Rightarrow> string \<Rightarrow> document \<Rightarrow> run_metadata option outcome" where
  "findActiveRunForRevision subject proposalRef revision launchOperationKey d =
     (case find (active_for_revision subject proposalRef revision launchOperationKey) (runs d) of
        None \<Rightarrow> Value None
      | Some r \<Rightarrow> (case metadata d subject r of Inl x \<Rightarrow> Raise x | Inr m \<Rightarrow> Value (Some m)))"

section \<open>The completion of a schedule occurrence\<close>

record completion_input =
  ci_scheduleId :: string
  ci_scheduledFor :: string
  ci_runRef :: string
  ci_lastOutcome :: run_outcome
  ci_nextAt :: "string option"
  ci_idempotencyKey :: string

definition completion_js :: "completion_input \<Rightarrow> js" where
  "completion_js i = JObj [(''scheduleId'', JStr (ci_scheduleId i)), (''scheduledFor'', JStr (ci_scheduledFor i)),
     (''runRef'', JStr (ci_runRef i)), (''lastOutcome'', JStr (outcome_str (ci_lastOutcome i))),
     (''nextAt'', opt_str (ci_nextAt i)), (''idempotencyKey'', JStr (ci_idempotencyKey i))]"

definition occurrence_of :: "completion_input \<Rightarrow> occurrence_claim \<Rightarrow> bool" where
  "occurrence_of i c \<longleftrightarrow> oc_scheduleId c = ci_scheduleId i \<and> oc_scheduledFor c = ci_scheduledFor i"

definition completed_schedule :: "completion_input \<Rightarrow> schedule \<Rightarrow> schedule" where
  "completed_schedule i s =
     s\<lparr>sd_lastOutcome := Some (ci_lastOutcome i), sd_nextAt := ci_nextAt i, sd_version := sd_version s + 1\<rparr>"

definition dt_occurrence_conflict :: string where "dt_occurrence_conflict = ''schedule-occurrence-conflict''"
definition dt_idempotency_conflict :: string where "dt_idempotency_conflict = ''idempotency-conflict''"

definition completeStoredScheduleOccurrence ::
  "env \<Rightarrow> completion_input \<Rightarrow> document \<Rightarrow> string + document" where
  "completeStoredScheduleOccurrence e i d =
     (case (find (occurrence_of i) (scheduleOccurrenceClaims d), find (\<lambda>s. sd_id s = ci_scheduleId i) (schedules d)) of
        (Some c, Some s) \<Rightarrow>
          if oc_phase c \<noteq> OcLedgerAppended \<or> oc_runRef c \<noteq> Some (ci_runRef i) then Inl dt_occurrence_conflict
          else let fingerprint = e_sha256 e (canonicalJson (completion_js i)) in
            (case oc_completionReceipt c of
               Some p \<Rightarrow>
                 if cp_idempotencyKey p \<noteq> ci_idempotencyKey i \<or> cp_fingerprint p \<noteq> fingerprint
                 then Inl dt_idempotency_conflict else Inr d
             | None \<Rightarrow>
                 let n = scheduleCollectionRevision d + 1;
                     receipt = \<lparr>cp_idempotencyKey = ci_idempotencyKey i, cp_fingerprint = fingerprint,
                       cp_schedule = completed_schedule i s, cp_collectionRevision = n\<rparr> in
                 Inr (d\<lparr>schedules := upd_first (\<lambda>s. sd_id s = ci_scheduleId i) (completed_schedule i) (schedules d),
                        scheduleCollectionRevision := n,
                        scheduleOccurrenceClaims := upd_first (occurrence_of i)
                          (\<lambda>c. c\<lparr>oc_completionReceipt := Some receipt\<rparr>) (scheduleOccurrenceClaims d)\<rparr>))
      | _ \<Rightarrow> Inl dt_occurrence_conflict)"

text \<open>What a terminal run completes: the one claim that names it, unless it is already completed.\<close>

definition complete_claim_of :: "env \<Rightarrow> string \<Rightarrow> run_outcome \<Rightarrow> document \<Rightarrow> string + document" where
  "complete_claim_of e runRef out d =
     (case filter (\<lambda>c. oc_runRef c = Some runRef) (scheduleOccurrenceClaims d) of
        [] \<Rightarrow> Inr d
      | [c] \<Rightarrow>
          if oc_completionReceipt c \<noteq> None then Inr d
          else completeStoredScheduleOccurrence e
            \<lparr>ci_scheduleId = oc_scheduleId c, ci_scheduledFor = oc_scheduledFor c, ci_runRef = runRef,
             ci_lastOutcome = out, ci_nextAt = Some (oc_nextAt c),
             ci_idempotencyKey = ''terminal-run:'' @ runRef\<rparr> d
      | _ \<Rightarrow> Inl dt_occurrence_conflict)"

section \<open>The bare transition\<close>

definition final_outcome :: "run_kind \<Rightarrow> run_outcome option" where
  "final_outcome k = map_of [(RSucceeded, OutOk), (RFailed, OutFailed), (RStopped, OutStopped)] k"

definition moved_run :: "run_kind \<Rightarrow> run_lifecycle \<Rightarrow> string \<Rightarrow> stored_run \<Rightarrow> stored_run" where
  "moved_run k l at r =
     (let r1 = r\<lparr>r_lifecycle := l, r_version := r_version r + 1, r_updatedAt := at\<rparr> in
      case final_outcome k of
        None \<Rightarrow> r1
      | Some out \<Rightarrow> r1\<lparr>r_terminalOutcome := Some out,
          r_completedAt := Some (case r_completedAt r of None \<Rightarrow> at | Some t \<Rightarrow> t), r_archivedFrom := None\<rparr>)"

definition dt_run_state :: string where "dt_run_state = ''run state is invalid''"
definition dt_run_archive_bare :: string where
  "dt_run_archive_bare = ''archiving a run goes through archiveRun, not a bare transition''"
definition dt_run_version :: string where "dt_run_version = ''run version changed''"
definition dt_run_boundaries :: string where
  "dt_run_boundaries = ''waiting-human run boundaries are unresolved or not accepted''"
definition dt_run_descendant :: string where
  "dt_run_descendant = ''run cannot succeed while a descendant is nonterminal or a stage is incomplete''"
definition dt_run_edge :: "run_kind \<Rightarrow> run_kind \<Rightarrow> string" where
  "dt_run_edge k k' = ''run transition '' @ run_kind_str k @ ''->'' @ run_kind_str k' @ '' is not allowed''"

definition transitionRun :: "env \<Rightarrow> string \<Rightarrow> string \<Rightarrow> int \<Rightarrow> string \<Rightarrow> document \<Rightarrow> run outcome" where
  "transitionRun e subject runRef expectedVersion state d =
     (case findRun d subject runRef OwnSubject of
        None \<Rightarrow> Refuse NotFound dt_run_not_found
      | Some r \<Rightarrow>
       (case run_kind_of state of
          None \<Rightarrow> Refuse Invalid dt_run_state
        | Some k \<Rightarrow>
          if k = RArchived then Refuse Invalid dt_run_archive_bare
          else if r_version r \<noteq> expectedVersion then Refuse Conflict dt_run_version
          else let prior = runLifecycleKind (r_lifecycle r) in
          if prior = k then replay_run r id
          else if \<not> canTransitionRun (r_lifecycle r) k then Refuse Invalid (dt_run_edge prior k)
          else if prior = RWaitingHuman \<and> k \<in> {RPlanned, RRecovering, RRunning}
            \<and> \<not> boundariesAccepted d subject runRef None then Refuse Invalid dt_run_boundaries
          else if k = RSucceeded \<and> \<not> runCanSucceed d r then Refuse Invalid dt_run_descendant
          else (case lifecycleForKind k None of
             Inl x \<Rightarrow> Raise x
           | Inr l \<Rightarrow>
             let at = e_stamp e 0;
                 r' = moved_run k l at r;
                 d1 = d\<lparr>runs := upd_first (is_run subject runRef OwnSubject) (moved_run k l at) (runs d)\<rparr>;
                 d2 = (if isTerminalRun l
                       then snd (autoCloseOpenHumanRequestsForRun subject runRef at (terminal_tag k)
                              (orphan_reason k) (e_maxEvents e) d1)
                       else d1) in
             (case (case final_outcome k of None \<Rightarrow> Inr d2 | Some out \<Rightarrow> complete_claim_of e runRef out d2) of
                Inl x \<Rightarrow> Raise x
              | Inr d3 \<Rightarrow> commit_run d3 r' id))))"

section \<open>Publication\<close>

definition dt_publication_state :: string where "dt_publication_state = ''publication state is invalid''"
definition dt_publication_boundaries :: string where
  "dt_publication_boundaries = ''publication boundaries are unresolved or not accepted''"
definition dt_publication_edge :: "publication_state \<Rightarrow> publication_state \<Rightarrow> string" where
  "dt_publication_edge p p' =
     ''publication transition '' @ publication_str p @ ''->'' @ publication_str p' @ '' is not allowed''"

definition published_run :: "publication_state \<Rightarrow> string \<Rightarrow> stored_run \<Rightarrow> stored_run" where
  "published_run p at r = r\<lparr>r_publicationState := p, r_version := r_version r + 1, r_updatedAt := at\<rparr>"

definition transitionPublication :: "env \<Rightarrow> string \<Rightarrow> string \<Rightarrow> int \<Rightarrow> string \<Rightarrow> document \<Rightarrow> run outcome" where
  "transitionPublication e subject runRef expectedVersion state d =
     (case findRun d subject runRef OwnSubject of
        None \<Rightarrow> Refuse NotFound dt_run_not_found
      | Some r \<Rightarrow>
       (case map_of PUBLICATION_STATES state of
          None \<Rightarrow> Refuse Invalid dt_publication_state
        | Some p \<Rightarrow>
          if r_version r \<noteq> expectedVersion then Refuse Conflict dt_run_version
          else if r_publicationState r = p then replay_run r id
          else if \<not> publication_edge (r_publicationState r) p
          then Refuse Invalid (dt_publication_edge (r_publicationState r) p)
          else if r_publicationState r = PubWaitingHuman \<and> p = PubPending
            \<and> \<not> boundariesAccepted d subject runRef None then Refuse Invalid dt_publication_boundaries
          else let f = published_run p (e_stamp e 0) in
            commit_run (d\<lparr>runs := upd_first (is_run subject runRef OwnSubject) f (runs d)\<rparr>) (f r) id))"

section \<open>Archiving\<close>

record archive_result =
  ar_run :: run
  ar_resolvedRequests :: "human_request list"
  ar_pinnedRequestRefs :: "string list"

record archive_input =
  ai_idempotencyKey :: string
  ai_reason :: "string option"
  ai_force :: bool

definition archive_fingerprint :: "env \<Rightarrow> string \<Rightarrow> string option \<Rightarrow> bool \<Rightarrow> string" where
  "archive_fingerprint e runRef reason force = e_sha256 e
     (runRef @ [nul] @ (case reason of None \<Rightarrow> [] | Some s \<Rightarrow> s) @ [nul] @ (if force then ''1'' else ''0''))"

definition archive_answer :: "document \<Rightarrow> string \<Rightarrow> string \<Rightarrow> string \<Rightarrow> run \<Rightarrow> archive_result" where
  "archive_answer d owner runRef key v = \<lparr>ar_run = v,
     ar_resolvedRequests = map publicRequest (filter (\<lambda>q. run_request owner runRef q
        \<and> map_option hr_idempotencyKey (hq_response q) = Some (archiveResponseKey key (hq_requestRef q)))
        (humanRequests d)),
     ar_pinnedRequestRefs = map hq_requestRef
        (filter (\<lambda>q. run_request owner runRef q \<and> hq_open q) (humanRequests d))\<rparr>"

definition archived_run :: "string \<Rightarrow> string \<Rightarrow> run_lifecycle \<Rightarrow> string \<Rightarrow> stored_run \<Rightarrow> stored_run" where
  "archived_run key fingerprint l at r =
     (let prior = runLifecycleKind (r_lifecycle r);
          r1 = r\<lparr>r_lifecycle := l, r_version := r_version r + 1, r_updatedAt := at, r_archivedFrom := Some prior,
                 r_archiveOperationKey := Some key, r_archiveOperationFingerprint := Some fingerprint\<rparr> in
      if prior = RInterrupted then r1\<lparr>r_terminalOutcome := Some OutInterrupted, r_completedAt := Some at\<rparr>
      else if prior = RWaitingHuman then r1\<lparr>r_terminalOutcome := Some OutAbandoned, r_completedAt := Some at\<rparr>
      else r1)"

definition archive_response :: "string \<Rightarrow> string \<Rightarrow> string option \<Rightarrow> string \<Rightarrow> stored_request \<Rightarrow> stored_request" where
  "archive_response subject key reason at q =
     recordHumanResponse subject HdResponded (archiveResponseKey key (hq_requestRef q)) reason None at q"

definition archive_resolves :: "document \<Rightarrow> string \<Rightarrow> string \<Rightarrow> stored_request \<Rightarrow> bool" where
  "archive_resolves d owner runRef q \<longleftrightarrow> run_request owner runRef q \<and> hq_open q
     \<and> \<not> isIterationGateRequest d (hq_requestRef q)"

definition dt_archived_already :: string where "dt_archived_already = ''run is already archived''"
definition dt_archive_reused :: string where
  "dt_archive_reused = ''archive idempotencyKey was reused with different content''"
definition dt_archive_edge :: string where
  "dt_archive_edge = ''only a finished, stopped, interrupted, or waiting-human run can be archived''"
definition dt_archive_open :: "string \<Rightarrow> string list \<Rightarrow> string" where
  "dt_archive_open runRef refs = ''run-archive-open-requests: run '' @ runRef @ '' has ''
     @ int_str (int (length refs)) @ '' open human request(s): '' @ js_join '', '' refs"

definition archiveRun ::
  "env \<Rightarrow> string \<Rightarrow> string \<Rightarrow> archive_input \<Rightarrow> read_scope \<Rightarrow> document \<Rightarrow> archive_result outcome" where
  "archiveRun e subject runRef input scope d =
     (case findRun d subject runRef scope of
        None \<Rightarrow> Refuse NotFound dt_run_not_found
      | Some r \<Rightarrow>
        let owner = r_subject r; key = ai_idempotencyKey input in
        if \<not> validNonEmpty key MAX_SHORT_TEXT then Refuse Invalid dt_key_required
        else let reason = map_option (\<lambda>s. cleanText e s MAX_LONG_TEXT) (ai_reason input);
                 force = ai_force input;
                 fingerprint = archive_fingerprint e runRef reason force in
        if r_archiveOperationKey r \<noteq> None \<and> r_archiveOperationKey r \<noteq> Some []
        then (if r_archiveOperationKey r \<noteq> Some key then Refuse Conflict dt_archived_already
              else if r_archiveOperationFingerprint r \<noteq> Some fingerprint
              then Refuse IdempotencyConflict dt_archive_reused
              else replay_run r (archive_answer d owner runRef key))
        else if \<not> canTransitionRun (r_lifecycle r) RArchived then Refuse Invalid dt_archive_edge
        else let open_before = map hq_requestRef
                   (filter (\<lambda>q. run_request owner runRef q \<and> hq_open q) (humanRequests d)) in
        if open_before \<noteq> [] \<and> \<not> force then Refuse Conflict (dt_archive_open runRef open_before)
        else (case lifecycleForKind RArchived None of
           Inl x \<Rightarrow> Raise x
         | Inr l \<Rightarrow>
           let at = e_stamp e 0;
               f = archived_run key fingerprint l at;
               d' = d\<lparr>humanRequests := map (\<lambda>q. if archive_resolves d owner runRef q
                         then archive_response subject key reason at q else q) (humanRequests d),
                      runs := upd_first (is_run subject runRef scope) f (runs d)\<rparr> in
           commit_run d' (f r) (archive_answer d' owner runRef key)))"

end
