(* ===== verification/Provenance.thy ===== *)
theory Provenance
  imports Runs
begin

text \<open>
  Provenance of a launch (\<open>control/store.ts\<close>): the closed shapes of an agent assignment, a workspace
  launch, workflow tags and a checker contract, read off raw values, what the approved proposal snapshot
  binds for every stage, and when a run may have a retry successor.

  A normalizer answers \<open>undefined\<close> for a value it refuses and \<open>null\<close> for one that states nothing:
  \<open>None\<close> and \<open>Some None\<close>.
\<close>

section \<open>Shapes\<close>

definition MAX_REVIEW_CRITERIA :: nat where "MAX_REVIEW_CRITERIA = 16"
definition MAX_REVIEW_REWORKS :: int where "MAX_REVIEW_REWORKS = 2"
definition MAX_REVIEW_CRITERION_DESCRIPTION :: int where "MAX_REVIEW_CRITERION_DESCRIPTION = 200"
definition MAX_COMPLETION_GATE_PROMPT :: int where "MAX_COMPLETION_GATE_PROMPT = 2000"

definition AGENT_ID_RE :: "string \<Rightarrow> bool" where
  "AGENT_ID_RE = head_tail (\<lambda>c. is_lower c \<or> is_digit c) (\<lambda>c. is_lower c \<or> is_digit c \<or> c = CHR ''-'') 63"

definition PROFILE_ID_RE :: "string \<Rightarrow> bool" where
  "PROFILE_ID_RE = head_tail (\<lambda>c. is_lower c \<or> is_digit c) (\<lambda>c. is_lower c \<or> is_digit c \<or> c \<in> set '':._-'') 127"

definition MODEL_ID_RE :: "string \<Rightarrow> bool" where
  "MODEL_ID_RE = head_tail is_alnum (\<lambda>c. is_alnum c \<or> c \<in> set ''._-'') 127"

definition js_text :: "(string \<Rightarrow> bool) \<Rightarrow> js \<Rightarrow> bool" where
  "js_text p v = (case v of JStr s \<Rightarrow> p s | _ \<Rightarrow> False)"

abbreviation js_nonEmpty :: "js \<Rightarrow> int \<Rightarrow> bool" where
  "js_nonEmpty v n \<equiv> js_text (\<lambda>s. validNonEmpty s n) v"

definition normalizeAssignment :: "js \<Rightarrow> assignment option option" where
  "normalizeAssignment v =
     (if v = JUndef \<or> v = JNull then Some None
      else if \<not> isPlainRecord v then None
      else if sort (js_keys v) \<noteq> [''agentId'', ''declarationHash'', ''declarationPath'', ''model'', ''profileId'', ''runtime'']
      then None
      else if \<not> js_text AGENT_ID_RE (fld v ''agentId'')
        \<or> fld v ''declarationPath'' \<noteq> JStr (''agents/'' @ js_str (fld v ''agentId'') @ ''.md'')
        \<or> \<not> js_text HASH_RE (fld v ''declarationHash'') \<or> \<not> js_text PROFILE_ID_RE (fld v ''profileId'')
        \<or> (fld v ''runtime'' \<noteq> JStr ''claude'' \<and> fld v ''runtime'' \<noteq> JStr ''codex'')
        \<or> \<not> js_text MODEL_ID_RE (fld v ''model'')
      then None
      else Some (Some \<lparr>as_agentId = js_str (fld v ''agentId''), as_declarationPath = js_str (fld v ''declarationPath''),
        as_declarationHash = js_str (fld v ''declarationHash''), as_profileId = js_str (fld v ''profileId''),
        as_runtime = js_str (fld v ''runtime''), as_model = js_str (fld v ''model'')\<rparr>))"

text \<open>\<open>left === right\<close> for two values that are not null is identity of objects, which field equality covers.\<close>

definition sameAssignment :: "assignment option \<Rightarrow> assignment option \<Rightarrow> bool" where
  "sameAssignment l r = (case (l, r) of
     (None, None) \<Rightarrow> True
   | (Some a, Some b) \<Rightarrow> as_agentId a = as_agentId b \<and> as_declarationPath a = as_declarationPath b
       \<and> as_declarationHash a = as_declarationHash b \<and> as_profileId a = as_profileId b
       \<and> as_runtime a = as_runtime b \<and> as_model a = as_model b
   | _ \<Rightarrow> False)"

definition normalizeAgentWorkspaceLaunch :: "js \<Rightarrow> workspace_launch option option" where
  "normalizeAgentWorkspaceLaunch v =
     (if v = JUndef \<or> v = JNull then Some None
      else if \<not> isPlainRecord v then None
      else if sort (js_keys v) \<noteq> [''agentId'', ''composerRef'', ''declarationHash'', ''declarationPath''] then None
      else if \<not> js_text SAFE_REF_RE (fld v ''composerRef'') \<or> \<not> js_text AGENT_ID_RE (fld v ''agentId'')
        \<or> fld v ''declarationPath'' \<noteq> JStr (''agents/'' @ js_str (fld v ''agentId'') @ ''.md'')
        \<or> \<not> js_text HASH_RE (fld v ''declarationHash'')
      then None
      else Some (Some \<lparr>wl_composerRef = js_str (fld v ''composerRef''), wl_agentId = js_str (fld v ''agentId''),
        wl_declarationPath = js_str (fld v ''declarationPath''),
        wl_declarationHash = js_str (fld v ''declarationHash'')\<rparr>))"

text \<open>Every element is a string once it is one of the known tags, so the set is over their texts.\<close>

definition normalizeWorkflowTags :: "js \<Rightarrow> string list option option" where
  "normalizeWorkflowTags v =
     (if v = JUndef then Some None
      else if \<not> is_arr v then None
      else if list_ex (\<lambda>t. \<not> is_str t \<or> js_str t \<notin> set KNOWN_RUN_TAGS) (js_arr v) then None
      else let unique = sort (uniq (map js_str (js_arr v))) in
        if length unique \<noteq> length (js_arr v) then None else Some (Some unique))"

section \<open>Checker contracts\<close>

record checker_contract =
  ck_workflowProfile :: "string option"
  ck_review :: "review option"
  ck_completionGate :: "completion_gate option"

definition normalizeWorkflowProfile :: "js \<Rightarrow> string option option" where
  "normalizeWorkflowProfile v =
     (if v = JUndef \<or> v = JNull then Some None
      else if js_text SAFE_STAGE_ID_RE v then Some (Some (js_str v)) else None)"

fun normalize_criteria :: "string list \<Rightarrow> js list \<Rightarrow> criterion list option" where
  "normalize_criteria ids [] = Some []"
| "normalize_criteria ids (c # cs) =
     (if \<not> isPlainRecord c \<or> \<not> hasExactKeys c [''id'', ''description'']
        \<or> \<not> js_text SAFE_STAGE_ID_RE (fld c ''id'')
        \<or> \<not> js_nonEmpty (fld c ''description'') MAX_REVIEW_CRITERION_DESCRIPTION \<or> js_str (fld c ''id'') \<in> set ids
      then None
      else map_option ((#) \<lparr>cr_id = js_str (fld c ''id''), cr_description = js_str (fld c ''description'')\<rparr>)
        (normalize_criteria (js_str (fld c ''id'') # ids) cs))"

definition normalizeReview :: "js \<Rightarrow> string list \<Rightarrow> review option option" where
  "normalizeReview v dependsOn =
     (if v = JUndef \<or> v = JNull then Some None
      else if \<not> isPlainRecord v \<or> \<not> hasExactKeys v [''subjectStageId'', ''maxCreatorReworks'', ''criteria''] then None
      else if \<not> js_text SAFE_STAGE_ID_RE (fld v ''subjectStageId'') \<or> js_str (fld v ''subjectStageId'') \<notin> set dependsOn
        \<or> \<not> js_safe_int (fld v ''maxCreatorReworks'') \<or> js_int (fld v ''maxCreatorReworks'') < 0
        \<or> MAX_REVIEW_REWORKS < js_int (fld v ''maxCreatorReworks'')
        \<or> \<not> is_arr (fld v ''criteria'') \<or> length (js_arr (fld v ''criteria'')) < 1
        \<or> MAX_REVIEW_CRITERIA < length (js_arr (fld v ''criteria''))
      then None
      else (case normalize_criteria [] (js_arr (fld v ''criteria'')) of
          None \<Rightarrow> None
        | Some cs \<Rightarrow> Some (Some \<lparr>rv_subjectStageId = js_str (fld v ''subjectStageId''),
            rv_maxCreatorReworks = js_int (fld v ''maxCreatorReworks''), rv_criteria = cs\<rparr>)))"

definition normalizeCompletionGate :: "js \<Rightarrow> completion_gate option option" where
  "normalizeCompletionGate v =
     (if v = JUndef \<or> v = JNull then Some None
      else if \<not> isPlainRecord v \<or> \<not> hasExactKeys v [''id'', ''kind'', ''prompt'', ''requiresReview''] then None
      else if \<not> js_text SAFE_STAGE_ID_RE (fld v ''id'') \<or> fld v ''kind'' \<noteq> JStr ''approval''
        \<or> fld v ''requiresReview'' \<noteq> JStr ''pass'' \<or> \<not> js_nonEmpty (fld v ''prompt'') MAX_COMPLETION_GATE_PROMPT
      then None
      else Some (Some \<lparr>cg_id = js_str (fld v ''id''), cg_kind = ''approval'', cg_prompt = js_str (fld v ''prompt''),
        cg_requiresReview = ''pass''\<rparr>))"

definition normalizeCheckerContract :: "js \<Rightarrow> js \<Rightarrow> js \<Rightarrow> string list \<Rightarrow> checker_contract option" where
  "normalizeCheckerContract profile review gate dependsOn =
     (case (normalizeWorkflowProfile profile, normalizeReview review dependsOn, normalizeCompletionGate gate) of
        (Some p, Some r, Some g) \<Rightarrow>
          if r \<noteq> None \<and> p \<noteq> Some ''checker-readonly'' then None
          else if g \<noteq> None \<and> r = None then None
          else Some \<lparr>ck_workflowProfile = p, ck_review = r, ck_completionGate = g\<rparr>
      | _ \<Rightarrow> None)"

definition criterion_js :: "criterion \<Rightarrow> js" where
  "criterion_js c = JObj [(''id'', JStr (cr_id c)), (''description'', JStr (cr_description c))]"

definition review_js :: "review option \<Rightarrow> js" where
  "review_js x = (case x of None \<Rightarrow> JNull | Some r \<Rightarrow> JObj [(''subjectStageId'', JStr (rv_subjectStageId r)),
     (''maxCreatorReworks'', JNum (rv_maxCreatorReworks r)), (''criteria'', JArr (map criterion_js (rv_criteria r)))])"

definition gate_js :: "completion_gate option \<Rightarrow> js" where
  "gate_js x = (case x of None \<Rightarrow> JNull | Some g \<Rightarrow> JObj [(''id'', JStr (cg_id g)), (''kind'', JStr (cg_kind g)),
     (''prompt'', JStr (cg_prompt g)), (''requiresReview'', JStr (cg_requiresReview g))])"

definition contract_fields :: "checker_contract \<Rightarrow> (string \<times> js) list" where
  "contract_fields c = [(''workflowProfile'', opt_str (ck_workflowProfile c)), (''review'', review_js (ck_review c)),
     (''completionGate'', gate_js (ck_completionGate c))]"

definition sameCheckerContract :: "checker_contract \<Rightarrow> checker_contract \<Rightarrow> bool" where
  "sameCheckerContract l r \<longleftrightarrow> canonicalJson (JObj (contract_fields l)) = canonicalJson (JObj (contract_fields r))"

definition stage_contract :: "stored_stage \<Rightarrow> checker_contract option" where
  "stage_contract s = normalizeCheckerContract (opt_str (st_workflowProfile s)) (review_js (st_review s))
     (gate_js (st_completionGate s)) (st_dependsOn s)"

section \<open>What an approved snapshot binds\<close>

text \<open>A requested stage is the object the caller sent; these read its members.\<close>

definition stage_id :: "js \<Rightarrow> string" where
  "stage_id s = js_str (fld s ''stageId'')"

definition stage_deps :: "js \<Rightarrow> string list" where
  "stage_deps s = map js_str (js_arr (fld s ''dependsOn''))"

definition sameStringArray :: "string list \<Rightarrow> js \<Rightarrow> bool" where
  "sameStringArray left right \<longleftrightarrow> is_arr right \<and> js_arr right = map JStr left"

definition approvedAssignment :: "js \<Rightarrow> assignment option option" where
  "approvedAssignment v =
     (if \<not> isPlainRecord v \<or> \<not> hasOwn v ''assignment'' then Some None else normalizeAssignment (fld v ''assignment''))"

fun snapshot_index :: "js list \<Rightarrow> (string \<times> js) list \<Rightarrow> (string \<times> js) list option" where
  "snapshot_index [] m = Some m"
| "snapshot_index (s # ss) m =
     (if \<not> isPlainRecord s \<or> \<not> is_str (fld s ''id'') \<or> js_str (fld s ''id'') \<in> set (map fst m) then None
      else snapshot_index ss ((js_str (fld s ''id''), s) # m))"

record stage_binding =
  sb_assignment :: "assignment option"
  sb_checkerContract :: checker_contract

definition approved_stage :: "(string \<times> js) list \<Rightarrow> js \<Rightarrow> stage_binding option" where
  "approved_stage index stage =
     (case map_of index (stage_id stage) of
        None \<Rightarrow> None
      | Some snap \<Rightarrow>
        if fld snap ''title'' \<noteq> JStr (js_trim (js_str (fld stage ''title'')))
          \<or> \<not> sameStringArray (stage_deps stage) (fld snap ''dependsOn'') then None
        else (case (approvedAssignment snap, normalizeCheckerContract (fld snap ''workflowProfile'') (fld snap ''review'')
                     (fld snap ''completionGate'') (stage_deps stage)) of
           (Some a, Some c) \<Rightarrow>
             if ck_review c \<noteq> None \<and> (a = None \<or> \<not> js_text (\<lambda>s. take 7 s = ''review:'') (fld snap ''action''))
             then None else Some \<lparr>sb_assignment = a, sb_checkerContract = c\<rparr>
         | _ \<Rightarrow> None))"

fun approved_stages :: "(string \<times> js) list \<Rightarrow> js list \<Rightarrow> (string \<times> stage_binding) list option" where
  "approved_stages index [] = Some []"
| "approved_stages index (s # ss) = (case approved_stage index s of
     None \<Rightarrow> None
   | Some b \<Rightarrow> map_option ((#) (stage_id s, b)) (approved_stages index ss))"

definition approvedRunAssignments ::
  "js \<Rightarrow> js list \<Rightarrow> (assignment option \<times> (string \<times> stage_binding) list) option" where
  "approvedRunAssignments snapshot requested =
     (if \<not> isPlainRecord (fld snapshot ''manager'') \<or> \<not> is_arr (fld snapshot ''stages'')
        \<or> length (js_arr (fld snapshot ''stages'')) \<noteq> length requested then None
      else (case (approvedAssignment (fld snapshot ''manager''), snapshot_index (js_arr (fld snapshot ''stages'')) []) of
          (Some m, Some index) \<Rightarrow> map_option (Pair m) (approved_stages index requested)
        | _ \<Rightarrow> None))"

section \<open>Retry\<close>

definition dt_retry_settled :: string where
  "dt_retry_settled = ''Retry predecessor is the authorized 2026-08-01 settled failed run, whose settlement is final and can never have a successor''"
definition dt_retry_publication :: string where
  "dt_retry_publication = ''Retry predecessor canonical publication is not reconciled and published''"
definition dt_retry_card :: string where
  "dt_retry_card = ''Retry predecessor has an unresolved canonical card link''"
definition dt_retry_stage :: string where
  "dt_retry_stage = ''Retry predecessor still has active or unresolved canonical stage work''"
definition dt_retry_attempt :: string where
  "dt_retry_attempt = ''Retry predecessor still has an active or unresolved attempt''"
definition dt_retry_session :: string where
  "dt_retry_session = ''Retry predecessor still has an active or unresolved managed session''"
definition dt_retry_request :: string where
  "dt_retry_request = ''Retry predecessor still has an unresolved Human Request''"

definition retryPredecessorRefusal :: "document \<Rightarrow> stored_run \<Rightarrow> string option" where
  "retryPredecessorRefusal d p =
     (let ss = filter (stage_row (r_subject p) (r_runRef p)) (stages d) in
      if r_failedReconciliation p \<noteq> None then Some dt_retry_settled
      else if r_publicationState p \<noteq> PubPublished then Some dt_retry_publication
      else if list_ex (\<lambda>s. st_canonicalCardRef s = None) ss then Some dt_retry_card
      else if list_ex (\<lambda>s. \<not> SETTLED_STAGE (st_state s)) ss then Some dt_retry_stage
      else if list_ex (\<lambda>a. attempt_row (r_subject p) (r_runRef p) a \<and> \<not> SETTLED_ATTEMPT (at_state a)) (attempts d)
      then Some dt_retry_attempt
      else if list_ex (\<lambda>s. session_row (r_subject p) (r_runRef p) s \<and> \<not> SETTLED_SESSION (ms_state s)) (sessions d)
      then Some dt_retry_session
      else if list_ex (\<lambda>q. run_request (r_subject p) (r_runRef p) q \<and> hq_open q) (humanRequests d)
      then Some dt_retry_request
      else None)"

text \<open>A predecessor that is not refused has nothing of its own left in motion.\<close>

lemma retry_accepts_settled:
  assumes "retryPredecessorRefusal d p = None"
  shows "r_failedReconciliation p = None" and "r_publicationState p = PubPublished"
    and "s \<in> set (stages d) \<Longrightarrow> stage_row (r_subject p) (r_runRef p) s
      \<Longrightarrow> st_canonicalCardRef s \<noteq> None \<and> SETTLED_STAGE (st_state s)"
    and "a \<in> set (attempts d) \<Longrightarrow> attempt_row (r_subject p) (r_runRef p) a \<Longrightarrow> SETTLED_ATTEMPT (at_state a)"
    and "m \<in> set (sessions d) \<Longrightarrow> session_row (r_subject p) (r_runRef p) m \<Longrightarrow> SETTLED_SESSION (ms_state m)"
    and "q \<in> set (humanRequests d) \<Longrightarrow> run_request (r_subject p) (r_runRef p) q \<Longrightarrow> \<not> hq_open q"
  using assms by (auto simp: retryPredecessorRefusal_def Let_def list_ex_iff split: if_splits)

section \<open>What the normalizers accept, the persisted wall accepts\<close>

lemma AGENT_ID_SAFE: "AGENT_ID_RE s \<Longrightarrow> SAFE_ID s"
  unfolding AGENT_ID_RE_def SAFE_ID_def by (erule head_tail_mono) (auto simp: is_alnum_def)

lemma js_textD: "js_text p v \<Longrightarrow> p (js_str v)"
  by (simp add: js_text_def split: js.splits)

lemma head_tail_text: "head_tail h t n s \<Longrightarrow> s \<noteq> []"
  by (auto simp: head_tail_def)

lemma normalizeAssignment_shape:
  assumes "normalizeAssignment v = Some (Some a)"
  shows "AGENT_ID_RE (as_agentId a)" and "as_declarationPath a = ''agents/'' @ as_agentId a @ ''.md''"
    and "HASH_RE (as_declarationHash a)" and "PROFILE_ID_RE (as_profileId a)"
    and "as_runtime a = ''claude'' \<or> as_runtime a = ''codex''" and "MODEL_ID_RE (as_model a)"
  using assms by (auto simp: normalizeAssignment_def dest: js_textD split: if_splits)

lemma normalizeAssignment_decodes:
  assumes "normalizeAssignment v = Some x"
  shows "decodeAssignment (assignment_js x)"
proof (cases x)
  case (Some a)
  note n = normalizeAssignment_shape[OF assms[unfolded Some]]
  have "SAFE_ID (as_agentId a)" "as_profileId a \<noteq> []" "as_model a \<noteq> []"
    using n(1,4,6) by (auto simp: AGENT_ID_SAFE PROFILE_ID_RE_def MODEL_ID_RE_def dest: head_tail_text)
  then show ?thesis
    using n(2,3,5) by (simp add: Some decodeAssignment_def assignment_js_def exactKeys_def agent_path_def js_hex_def HASH_RE_def)
qed (simp add: decodeAssignment_def assignment_js_def)

lemma normalizeLaunch_shape:
  assumes "normalizeAgentWorkspaceLaunch v = Some (Some l)"
  shows "SAFE_REF_RE (wl_composerRef l)" and "AGENT_ID_RE (wl_agentId l)"
    and "wl_declarationPath l = ''agents/'' @ wl_agentId l @ ''.md''" and "HASH_RE (wl_declarationHash l)"
  using assms by (auto simp: normalizeAgentWorkspaceLaunch_def dest: js_textD split: if_splits)

lemma safe_ref_text: "SAFE_REF_RE s \<Longrightarrow> s \<noteq> [] \<and> nul \<notin> set s"
  by (cases s) (auto simp: SAFE_REF_RE_def head_tail_def list_all_iff is_alnum_def is_lower_def is_upper_def is_digit_def nul_def)

lemma normalizeLaunch_decodes:
  assumes "normalizeAgentWorkspaceLaunch v = Some x"
  shows "decodeWorkspaceLaunch (launch_js x)"
proof (cases x)
  case (Some l)
  note n = normalizeLaunch_shape[OF assms[unfolded Some]]
  show ?thesis
    using n(3,4) safe_ref_text[OF n(1)] AGENT_ID_SAFE[OF n(2)]
    by (simp add: Some decodeWorkspaceLaunch_def launch_js_def exactKeys_def agent_path_def js_hex_def HASH_RE_def)
qed (simp add: decodeWorkspaceLaunch_def launch_js_def)

lemma safeId_text: "safeId v \<longleftrightarrow> js_text SAFE_ID v"
  by (cases v) (simp_all add: js_text_def)

lemma normalizeWorkflowTags_ok: "normalizeWorkflowTags v = Some t \<Longrightarrow> tags_ok t"
  by (auto simp: normalizeWorkflowTags_def tags_ok_def Let_def list_ex_iff uniq_def split: if_splits)

lemma decodeRunnableRef_shape:
  assumes "decodeRunnableRef v = Some r"
  shows "SAFE_ID (rr_id r)" and "case r of AgentRef i p \<Rightarrow> p = ''agents/'' @ i @ ''.md''
    | WorkflowRef i pr p \<Rightarrow> SAFE_ID pr \<and> p = ''orgs/'' @ pr @ ''/workflows/'' @ i @ ''.md''"
  using assms
  by (auto simp: decodeRunnableRef_def Let_def safeId_text dest: js_textD split: if_splits)

lemma decodeRunnableRef_stable: "decodeRunnableRef v = Some r \<Longrightarrow> decodeRunnableRef (runnable_js r) = Some r"
proof (cases r)
  case (AgentRef i p)
  assume "decodeRunnableRef v = Some r"
  from decodeRunnableRef_shape[OF this] show ?thesis
    by (simp add: AgentRef decodeRunnableRef_def exactKeys_def runnable_js_def)
next
  case (WorkflowRef i pr p)
  assume "decodeRunnableRef v = Some r"
  from decodeRunnableRef_shape[OF this] show ?thesis
    by (simp add: WorkflowRef decodeRunnableRef_def exactKeys_def runnable_js_def)
qed

end
