(* ===== verification/Proposals.thy ===== *)
theory Proposals
  imports Provenance
begin

text \<open>
  Proposal revisions of the store (\<open>control/store.ts\<close>): import of a snapshot as the next revision of its
  proposal, the one decision a revision takes, and the reads. Every proposal is a hash chain.
\<close>

section \<open>Snapshots\<close>

definition MAX_PROPOSAL_SNAPSHOT_BYTES :: int where "MAX_PROPOSAL_SNAPSHOT_BYTES = 524288"

fun isJsonValue :: "js \<Rightarrow> bool" where
  "isJsonValue JUndef = False"
| "isJsonValue JNull = True"
| "isJsonValue (JBool b) = True"
| "isJsonValue (JNum i) = True"
| "isJsonValue (JFrac s) = True"
| "isJsonValue JNaN = False"
| "isJsonValue (JStr s) = True"
| "isJsonValue (JArr vs) = list_all isJsonValue vs"
| "isJsonValue (JObj kvs) = list_all (\<lambda>(k, v). isJsonValue v) kvs"
| "isJsonValue (JInst kvs) = False"

fun containsRecognizedSecret :: "env \<Rightarrow> js \<Rightarrow> bool" where
  "containsRecognizedSecret e (JStr s) = (e_redact e s \<noteq> s)"
| "containsRecognizedSecret e (JArr vs) = list_ex (containsRecognizedSecret e) vs"
| "containsRecognizedSecret e (JObj kvs) = list_ex (\<lambda>(k, v). containsRecognizedSecret e v) kvs"
| "containsRecognizedSecret e (JInst kvs) = list_ex (\<lambda>(k, v). containsRecognizedSecret e v) kvs"
| "containsRecognizedSecret e _ = False"

definition proposalSnapshotHash :: "env \<Rightarrow> js \<Rightarrow> string" where
  "proposalSnapshotHash e snapshot = e_sha256 e (canonicalJson snapshot)"

text \<open>\<open>Buffer.byteLength(text, 'utf8')\<close>, for the code points below 256 a character holds here.\<close>

definition utf8_length :: "string \<Rightarrow> nat" where
  "utf8_length s = sum_list (map (\<lambda>c. if (of_char c :: nat) < 128 then 1 else 2) s)"

section \<open>Operations\<close>

record revision_input =
  pi_proposalRef :: "string option"
  pi_expectedPreviousHash :: "string option"
  pi_sourceComposerRef :: string
  pi_sourceTurnId :: string
  pi_title :: string
  pi_snapshot :: js

record decision_input =
  di_expectedHash :: string
  di_expectedApprovalRevision :: int
  di_decision :: string
  di_idempotencyKey :: string
  di_note :: "string option"

definition PROPOSAL_DECISIONS :: "(string \<times> proposal_decision) list" where
  "PROPOSAL_DECISIONS = [(''approved'', PdApproved), (''rejected'', PdRejected), (''changes-requested'', PdChangesRequested)]"

definition dt_proposal_subject :: string where "dt_proposal_subject = ''subject and title are required''"
definition dt_proposal_source :: string where
  "dt_proposal_source = ''sourceComposerRef and sourceTurnId must be safe opaque references''"
definition dt_proposal_object :: string where "dt_proposal_object = ''snapshot must be a JSON object''"
definition dt_proposal_limit :: string where "dt_proposal_limit = ''proposal snapshot exceeds the storage limit''"
definition dt_proposal_secret :: string where
  "dt_proposal_secret = ''proposal snapshot contains a recognizable credential''"
definition dt_proposal_not_found :: string where "dt_proposal_not_found = ''proposal was not found''"
definition dt_proposal_composer :: string where
  "dt_proposal_composer = ''a different Composer workspace must import as a fresh proposal''"
definition dt_proposal_head :: string where "dt_proposal_head = ''proposal head changed''"
definition dt_revision_not_found :: string where "dt_revision_not_found = ''proposal revision was not found''"
definition dt_decision_changed :: string where "dt_decision_changed = ''proposal hash or approval revision changed''"
definition dt_decision_invalid :: string where "dt_decision_invalid = ''proposal decision is invalid''"
definition dt_decision_key :: string where "dt_decision_key = ''idempotencyKey is required''"
definition dt_decision_taken :: string where "dt_decision_taken = ''proposal revision already has a decision''"
definition dt_decision_reused :: string where
  "dt_decision_reused = ''idempotencyKey was reused with different decision content''"

definition proposal_row :: "string \<Rightarrow> string \<Rightarrow> proposal \<Rightarrow> bool" where
  "proposal_row subject proposalRef p \<longleftrightarrow> pr_subject p = subject \<and> pr_proposalRef p = proposalRef"

definition is_revision :: "string \<Rightarrow> string \<Rightarrow> int \<Rightarrow> read_scope \<Rightarrow> proposal \<Rightarrow> bool" where
  "is_revision subject proposalRef revision scope p \<longleftrightarrow>
     (scope = AllSubjects \<or> pr_subject p = subject) \<and> pr_proposalRef p = proposalRef \<and> pr_revision p = revision"

text \<open>An empty \<open>proposalRef\<close> is falsy: it starts a fresh proposal, as an absent one does.\<close>

definition stated_ref :: "revision_input \<Rightarrow> string option" where
  "stated_ref i = (if pi_proposalRef i = Some [] then None else pi_proposalRef i)"

definition existing_revisions :: "string \<Rightarrow> revision_input \<Rightarrow> document \<Rightarrow> proposal list" where
  "existing_revisions subject i d = (case stated_ref i of
     None \<Rightarrow> [] | Some p \<Rightarrow> sort_key (\<lambda>x. - pr_revision x) (filter (proposal_row subject p) (proposals d)))"

definition new_revision :: "env \<Rightarrow> string \<Rightarrow> revision_input \<Rightarrow> proposal option \<Rightarrow> proposal" where
  "new_revision e subject i latest =
     \<lparr>pr_subject = subject,
      pr_proposalRef = (case latest of None \<Rightarrow> ref e ''proposal'' 0 | Some p \<Rightarrow> pr_proposalRef p),
      pr_sourceComposerRef = pi_sourceComposerRef i, pr_sourceTurnId = pi_sourceTurnId i,
      pr_revision = (case latest of None \<Rightarrow> 0 | Some p \<Rightarrow> pr_revision p) + 1,
      pr_hash = proposalSnapshotHash e (pi_snapshot i), pr_previousHash = map_option pr_hash latest,
      pr_title = js_trim (pi_title i), pr_createdAt = e_stamp e 0, pr_snapshot = pi_snapshot i, pr_approval = None\<rparr>"

definition createProposalRevision :: "env \<Rightarrow> string \<Rightarrow> revision_input \<Rightarrow> document \<Rightarrow> proposal outcome" where
  "createProposalRevision e subject i d =
     (if \<not> validNonEmpty subject MAX_SHORT_TEXT \<or> \<not> validNonEmpty (pi_title i) MAX_TITLE
      then Refuse Invalid dt_proposal_subject
      else if \<not> SAFE_REF_RE (pi_sourceComposerRef i) \<or> \<not> SAFE_REF_RE (pi_sourceTurnId i)
      then Refuse Invalid dt_proposal_source
      else if \<not> isJsonValue (pi_snapshot i) \<or> \<not> is_record (pi_snapshot i) then Refuse Invalid dt_proposal_object
      else if int (utf8_length (canonicalJson (pi_snapshot i))) > MAX_PROPOSAL_SNAPSHOT_BYTES
      then Refuse Limit dt_proposal_limit
      else if containsRecognizedSecret e (pi_snapshot i) then Refuse Invalid dt_proposal_secret
      else let existing = existing_revisions subject i d; latest = (case existing of [] \<Rightarrow> None | p # _ \<Rightarrow> Some p) in
        if stated_ref i \<noteq> None \<and> existing = [] then Refuse NotFound dt_proposal_not_found
        else if (case latest of None \<Rightarrow> False | Some p \<Rightarrow> pr_sourceComposerRef p \<noteq> pi_sourceComposerRef i)
        then Refuse Conflict dt_proposal_composer
        else if map_option pr_hash latest \<noteq> pi_expectedPreviousHash i then Refuse Conflict dt_proposal_head
        else let p = new_revision e subject i latest in
          Commit (d\<lparr>proposals := proposals d @ [p]\<rparr>) p)"

definition decided :: "string \<Rightarrow> decision_input \<Rightarrow> proposal_decision \<Rightarrow> string option \<Rightarrow> string \<Rightarrow> proposal \<Rightarrow> proposal" where
  "decided subject i dec note at p = p\<lparr>pr_approval := Some \<lparr>ap_revision = 1, ap_decision = dec, ap_decidedBy = subject,
     ap_idempotencyKey = di_idempotencyKey i, ap_decidedAt = at, ap_note = note\<rparr>\<rparr>"

definition decideProposal ::
  "env \<Rightarrow> string \<Rightarrow> string \<Rightarrow> int \<Rightarrow> decision_input \<Rightarrow> document \<Rightarrow> proposal outcome" where
  "decideProposal e subject proposalRef revision i d =
     (case find (is_revision subject proposalRef revision OwnSubject) (proposals d) of
        None \<Rightarrow> Refuse NotFound dt_revision_not_found
      | Some p \<Rightarrow>
        if \<not> HASH_RE (di_expectedHash i) \<or> di_expectedHash i \<noteq> pr_hash p \<or> di_expectedApprovalRevision i \<noteq> 0
        then Refuse Conflict dt_decision_changed
        else (case map_of PROPOSAL_DECISIONS (di_decision i) of
          None \<Rightarrow> Refuse Invalid dt_decision_invalid
        | Some dec \<Rightarrow>
          if \<not> validNonEmpty (di_idempotencyKey i) MAX_SHORT_TEXT then Refuse Invalid dt_decision_key
          else let note = map_option (\<lambda>s. cleanText e s MAX_LONG_TEXT) (di_note i) in
           (case pr_approval p of
              Some a \<Rightarrow>
                if ap_idempotencyKey a \<noteq> di_idempotencyKey i then Refuse Conflict dt_decision_taken
                else if ap_decision a \<noteq> dec \<or> ap_note a \<noteq> note then Refuse IdempotencyConflict dt_decision_reused
                else Replay p
            | None \<Rightarrow>
                let f = decided subject i dec note (e_stamp e 0) in
                Commit (d\<lparr>proposals := upd_first (is_revision subject proposalRef revision OwnSubject) f (proposals d)\<rparr>) (f p))))"

definition getProposalRevision :: "string \<Rightarrow> string \<Rightarrow> int \<Rightarrow> read_scope \<Rightarrow> document \<Rightarrow> proposal outcome" where
  "getProposalRevision subject proposalRef revision scope d =
     (case find (is_revision subject proposalRef revision scope) (proposals d) of
        None \<Rightarrow> Refuse NotFound dt_revision_not_found | Some p \<Rightarrow> Value p)"

section \<open>The hash chain of a proposal\<close>

text \<open>
  The revisions of one proposal, in the order they were stored: numbered from 1, each pointing at the hash
  of the one before and imported from the same workspace.
\<close>

fun chained :: "int \<Rightarrow> proposal option \<Rightarrow> proposal list \<Rightarrow> bool" where
  "chained n prior [] = True"
| "chained n prior (p # ps) = (pr_revision p = n \<and> pr_previousHash p = map_option pr_hash prior
     \<and> (case prior of None \<Rightarrow> True | Some q \<Rightarrow> pr_sourceComposerRef p = pr_sourceComposerRef q)
     \<and> chained (n + 1) (Some p) ps)"

definition proposal_sound :: "proposal \<Rightarrow> bool" where
  "proposal_sound p \<longleftrightarrow> SAFE_ID (pr_proposalRef p) \<and> hex_len 64 (pr_hash p) \<and> 1 \<le> pr_revision p
     \<and> (case pr_approval p of None \<Rightarrow> True | Some a \<Rightarrow> ap_revision a = 1)"

definition proposals_inv :: "document \<Rightarrow> bool" where
  "proposals_inv d \<longleftrightarrow> list_all proposal_sound (proposals d)
     \<and> (\<forall>u r. chained 1 None (filter (proposal_row u r) (proposals d)))"

interpretation proposals_inv: store_invariant proposals_inv
  by unfold_locales (simp add: proposals_inv_def)

lemma chained_append:
  "chained n prior (ps @ [p]) \<longleftrightarrow> chained n prior ps \<and> pr_revision p = n + int (length ps)
     \<and> (let q = (if ps = [] then prior else Some (last ps)) in pr_previousHash p = map_option pr_hash q
          \<and> (case q of None \<Rightarrow> True | Some q \<Rightarrow> pr_sourceComposerRef p = pr_sourceComposerRef q))"
  by (induction n prior ps rule: chained.induct) (auto simp: Let_def split: option.splits)

lemma chained_revisions: "chained n prior ps \<Longrightarrow> map pr_revision ps = map (\<lambda>i. n + int i) [0..<length ps]"
proof (induction n prior ps rule: chained.induct)
  case (2 n prior p ps)
  then show ?case by (simp del: upt_Suc add: upt_conv_Cons map_Suc_upt[symmetric] o_def add.assoc)
qed simp

lemma chained_nth:
  assumes "chained n prior ps" and "k < length ps"
  shows "pr_revision (ps ! k) = n + int k
    \<and> pr_previousHash (ps ! k) = (if k = 0 then map_option pr_hash prior else Some (pr_hash (ps ! (k - 1))))"
  using assms
proof (induction n prior ps arbitrary: k rule: chained.induct)
  case (2 n prior p ps)
  then show ?case by (cases k) (auto simp: nth_Cons')
qed simp

lemma sorted_descending_hd:
  assumes "chained 1 None ps" and "sort_key (\<lambda>x. - pr_revision x) ps = p # qs"
  shows "ps \<noteq> [] \<and> p = last ps"
proof -
  have ps: "ps \<noteq> []" using assms(2) by auto
  have rev: "map pr_revision ps = map (\<lambda>i. 1 + int i) [0..<length ps]" by (rule chained_revisions[OF assms(1)])
  have s: "sort_key (\<lambda>x. - pr_revision x) ps = rev ps"
  proof (rule sort_key_inj_key_eq)
    have "sorted_wrt (<) (map pr_revision ps)"
      unfolding rev by (simp add: sorted_wrt_map)
    then have "sorted_wrt (\<lambda>x y. pr_revision x < pr_revision y) ps" by (simp add: sorted_wrt_map)
    then have "sorted_wrt (\<lambda>x y. - pr_revision y \<le> - pr_revision x) ps" by (rule sorted_wrt_mono_rel[rotated]) simp
    then show "sorted (map (\<lambda>x. - pr_revision x) (rev ps))" by (simp add: sorted_wrt_map sorted_wrt_rev)
    show "mset ps = mset (rev ps)" by simp
    have "distinct (map pr_revision ps)" by (simp add: rev distinct_map inj_on_def)
    then show "inj_on (\<lambda>x. - pr_revision x) (set ps)" by (auto simp: distinct_map inj_on_def)
  qed
  show ?thesis using ps assms(2) by (metis s hd_rev list.sel(1))
qed

lemma createProposalRevision_commit:
  assumes "next_doc (createProposalRevision e subject i d) = Some d'"
  obtains latest where "d' = d\<lparr>proposals := proposals d @ [new_revision e subject i latest]\<rparr>"
    and "latest = (case existing_revisions subject i d of [] \<Rightarrow> None | p # _ \<Rightarrow> Some p)"
    and "stated_ref i = None \<longleftrightarrow> latest = None"
    and "map_option pr_hash latest = pi_expectedPreviousHash i"
    and "case latest of None \<Rightarrow> True | Some p \<Rightarrow> pr_sourceComposerRef p = pi_sourceComposerRef i"
    and "isJsonValue (pi_snapshot i)" and "is_record (pi_snapshot i)" and "\<not> containsRecognizedSecret e (pi_snapshot i)"
proof -
  let ?l = "case existing_revisions subject i d of [] \<Rightarrow> None | p # _ \<Rightarrow> Some p"
  from assms have a: "isJsonValue (pi_snapshot i)" "is_record (pi_snapshot i)" "\<not> containsRecognizedSecret e (pi_snapshot i)"
      "\<not> (stated_ref i \<noteq> None \<and> existing_revisions subject i d = [])"
      "\<not> (case ?l of None \<Rightarrow> False | Some p \<Rightarrow> pr_sourceComposerRef p \<noteq> pi_sourceComposerRef i)"
      "map_option pr_hash ?l = pi_expectedPreviousHash i" "d' = d\<lparr>proposals := proposals d @ [new_revision e subject i ?l]\<rparr>"
    unfolding createProposalRevision_def Let_def committed by blast+
  have "stated_ref i = None \<longleftrightarrow> ?l = None"
    using a(4) by (auto simp: existing_revisions_def split: list.splits option.splits)
  then show thesis by (rule that[OF a(7) refl _ a(6) _ a(1-3)]) (use a(5) in \<open>auto split: option.splits\<close>)
qed

lemma decideProposal_commit:
  assumes "next_doc (decideProposal e subject proposalRef revision i d) = Some d'"
  obtains p dec nt where "find (is_revision subject proposalRef revision OwnSubject) (proposals d) = Some p"
    and "pr_approval p = None" and "di_expectedHash i = pr_hash p"
    and "d' = d\<lparr>proposals := upd_first (is_revision subject proposalRef revision OwnSubject)
        (decided subject i dec nt (e_stamp e 0)) (proposals d)\<rparr>"
proof -
  from assms obtain p dec where p: "find (is_revision subject proposalRef revision OwnSubject) (proposals d) = Some p"
      "di_expectedHash i = pr_hash p"
      and n: "next_doc (case pr_approval p of
              Some a \<Rightarrow>
                if ap_idempotencyKey a \<noteq> di_idempotencyKey i then Refuse Conflict dt_decision_taken
                else if ap_decision a \<noteq> dec \<or> ap_note a \<noteq> map_option (\<lambda>s. cleanText e s MAX_LONG_TEXT) (di_note i)
                then Refuse IdempotencyConflict dt_decision_reused
                else Replay p
            | None \<Rightarrow>
                Commit (d\<lparr>proposals := upd_first (is_revision subject proposalRef revision OwnSubject)
                  (decided subject i dec (map_option (\<lambda>s. cleanText e s MAX_LONG_TEXT) (di_note i)) (e_stamp e 0)) (proposals d)\<rparr>)
                  (decided subject i dec (map_option (\<lambda>s. cleanText e s MAX_LONG_TEXT) (di_note i)) (e_stamp e 0) p)) = Some d'"
    unfolding decideProposal_def Let_def committed by blast
  show thesis
  proof (cases "pr_approval p")
    case None
    then have "d' = d\<lparr>proposals := upd_first (is_revision subject proposalRef revision OwnSubject)
        (decided subject i dec (map_option (\<lambda>s. cleanText e s MAX_LONG_TEXT) (di_note i)) (e_stamp e 0)) (proposals d)\<rparr>"
      using n by (simp add: committed)
    then show thesis by (rule that[OF p(1) None p(2)])
  next
    case (Some a)
    then show thesis using n by (simp add: committed split: if_splits)
  qed
qed

text \<open>The reference of a fresh proposal is a random UUID: it names no proposal the document holds.\<close>

definition proposal_ref_fresh :: "env \<Rightarrow> document \<Rightarrow> bool" where
  "proposal_ref_fresh e d \<longleftrightarrow> SAFE_ID (ref e ''proposal'' 0) \<and> ref e ''proposal'' 0 \<notin> set (map pr_proposalRef (proposals d))"

lemma createProposalRevision_inv:
  assumes i: "proposals_inv d" and e: "env_ok e" "proposal_ref_fresh e d"
    and n: "next_doc (createProposalRevision e subject i d) = Some d'"
  shows "proposals_inv d'"
proof (rule createProposalRevision_commit[OF n])
  fix latest
  let ?p = "new_revision e subject i latest"
  assume d': "d' = d\<lparr>proposals := proposals d @ [?p]\<rparr>"
    and l: "latest = (case existing_revisions subject i d of [] \<Rightarrow> None | p # _ \<Rightarrow> Some p)"
    and st: "stated_ref i = None \<longleftrightarrow> latest = None"
    and c: "case latest of None \<Rightarrow> True | Some p \<Rightarrow> pr_sourceComposerRef p = pi_sourceComposerRef i"
  have ch: "chained 1 None (filter (proposal_row u r) (proposals d))" for u r using i by (simp add: proposals_inv_def)
  have h: "hex_len 64 (pr_hash ?p)" using e(1) by (simp add: new_revision_def proposalSnapshotHash_def env_ok_def)
  show "proposals_inv d'"
  proof (cases latest)
    case None
    have "pr_proposalRef x \<noteq> ref e ''proposal'' 0" if "x \<in> set (proposals d)" for x
      using e(2) that by (auto simp: proposal_ref_fresh_def image_iff)
    then have "filter (proposal_row subject (pr_proposalRef ?p)) (proposals d) = []"
      using None by (auto simp: new_revision_def proposal_row_def filter_empty_conv)
    moreover have "proposal_sound ?p" using h e(2) None by (simp add: proposal_sound_def new_revision_def proposal_ref_fresh_def)
    moreover have "pr_revision ?p = 1 \<and> pr_previousHash ?p = None \<and> pr_subject ?p = subject" using None by (simp add: new_revision_def)
    ultimately show ?thesis using i ch by (auto simp: proposals_inv_def d' proposal_row_def)
  next
    case (Some q)
    then obtain r qs where r: "stated_ref i = Some r"
        and s: "sort_key (\<lambda>x. - pr_revision x) (filter (proposal_row subject r) (proposals d)) = q # qs"
      using l st by (cases "stated_ref i") (auto simp: existing_revisions_def split: list.splits)
    note q = sorted_descending_hd[OF ch s]
    have qin: "q \<in> set (proposals d)" "pr_proposalRef q = r" "pr_subject q = subject"
      using q last_in_set[of "filter (proposal_row subject r) (proposals d)"] by (auto simp: proposal_row_def)
    have "pr_revision q = int (length (filter (proposal_row subject r) (proposals d)))"
    proof -
      have "pr_revision q = last (map pr_revision (filter (proposal_row subject r) (proposals d)))"
        using q by (simp add: last_map)
      moreover have "0 < length (filter (proposal_row subject r) (proposals d))" using q by simp
      ultimately show ?thesis using q chained_revisions[OF ch, of subject r] by (simp add: last_map of_nat_diff Suc_leI)
    qed
    then have "chained 1 None (filter (proposal_row subject r) (proposals d) @ [?p])"
      using ch[of subject r] q c Some by (simp add: chained_append new_revision_def Let_def)
    moreover have "proposal_sound ?p" using h i qin(1,2) Some
      by (auto simp: proposal_sound_def new_revision_def proposals_inv_def list_all_iff)
    moreover have "pr_proposalRef ?p = r \<and> pr_subject ?p = subject" using Some qin by (simp add: new_revision_def)
    ultimately show ?thesis using i ch by (auto simp: proposals_inv_def d' proposal_row_def)
  qed
qed

lemma chained_update:
  assumes "\<And>p. pr_revision (f p) = pr_revision p \<and> pr_hash (f p) = pr_hash p \<and> pr_previousHash (f p) = pr_previousHash p
      \<and> pr_sourceComposerRef (f p) = pr_sourceComposerRef p"
  shows "chained n prior (upd_first P f ps) \<longleftrightarrow> chained n prior ps"
proof -
  have cong: "chained n (Some (f p)) qs \<longleftrightarrow> chained n (Some p) qs" for n p qs
    using assms by (cases qs) auto
  show ?thesis by (induction n prior ps rule: chained.induct) (auto simp: assms cong split: option.splits)
qed

lemma filter_upd_first:
  "(\<And>x. Q (f x) = Q x) \<Longrightarrow> filter Q (upd_first P f xs) = filter Q xs
    \<or> filter Q (upd_first P f xs) = upd_first P f (filter Q xs)"
  by (induction xs) auto

lemma decideProposal_inv:
  assumes i: "proposals_inv d" and n: "next_doc (decideProposal e subject proposalRef revision i d) = Some d'"
  shows "proposals_inv d'"
proof (rule decideProposal_commit[OF n])
  fix p dec nt
  let ?f = "decided subject i dec nt (e_stamp e 0)" and ?P = "is_revision subject proposalRef revision OwnSubject"
  assume d': "d' = d\<lparr>proposals := upd_first ?P ?f (proposals d)\<rparr>"
  have ch: "chained 1 None (filter (proposal_row u r) (upd_first ?P ?f (proposals d)))" for u r
  proof -
    have "chained 1 None (upd_first ?P ?f (filter (proposal_row u r) (proposals d)))"
      using i by (subst chained_update) (simp_all add: decided_def proposals_inv_def)
    then show ?thesis
      using filter_upd_first[of "proposal_row u r" ?f ?P "proposals d"] i
      by (auto simp: proposals_inv_def decided_def proposal_row_def)
  qed
  moreover have "list_all proposal_sound (upd_first ?P ?f (proposals d))"
    by (rule list_all_upd_first) (use i in \<open>auto simp: proposals_inv_def proposal_sound_def decided_def\<close>)
  ultimately show "proposals_inv d'" by (simp add: proposals_inv_def d')
qed

section \<open>A decision is taken once\<close>

lemma find_upd_first_kept:
  assumes "find P xs = Some x" and "P (f x)"
  shows "find P (upd_first P f xs) = Some (f x)"
  using assms by (induction xs) (auto split: if_splits)

lemma decision_committed:
  assumes "decideProposal e subject proposalRef revision i d = Commit d' v"
  shows "find (is_revision subject proposalRef revision OwnSubject) (proposals d') = Some v"
    and "pr_approval v \<noteq> None" and "pr_hash v = di_expectedHash i"
    and "decideProposal e subject proposalRef revision i d' = Replay v"
proof -
  let ?P = "is_revision subject proposalRef revision OwnSubject" and ?n = "map_option (\<lambda>s. cleanText e s MAX_LONG_TEXT) (di_note i)"
  from assms obtain p dec where p: "find ?P (proposals d) = Some p"
      and g: "HASH_RE (di_expectedHash i)" "di_expectedHash i = pr_hash p" "di_expectedApprovalRevision i = 0"
        "map_of PROPOSAL_DECISIONS (di_decision i) = Some dec" "validNonEmpty (di_idempotencyKey i) MAX_SHORT_TEXT"
      and d': "d' = d\<lparr>proposals := upd_first ?P (decided subject i dec ?n (e_stamp e 0)) (proposals d)\<rparr>"
        "v = decided subject i dec ?n (e_stamp e 0) p"
    by (auto simp: decideProposal_def Let_def split: option.splits if_splits)
  have "?P (decided subject i dec ?n (e_stamp e 0) p)"
    using find_Some_pred[OF p] by (simp add: is_revision_def decided_def)
  then show f: "find ?P (proposals d') = Some v" using find_upd_first_kept[OF p] by (simp add: d')
  show "pr_approval v \<noteq> None" "pr_hash v = di_expectedHash i" by (simp_all add: d'(2) decided_def g(2))
  show "decideProposal e subject proposalRef revision i d' = Replay v"
    using g by (simp add: decideProposal_def f Let_def) (simp add: d'(2) decided_def)
qed

text \<open>A revision that was stored keeps its content, and a decision it took stays: \<open>revision_kept\<close>.\<close>

definition revision_kept :: "proposal \<Rightarrow> proposal \<Rightarrow> bool" where
  "revision_kept p q \<longleftrightarrow> q\<lparr>pr_approval := pr_approval p\<rparr> = p \<and> (pr_approval p \<noteq> None \<longrightarrow> q = p)"

definition revisions_kept :: "document \<Rightarrow> document \<Rightarrow> bool" where
  "revisions_kept d d' \<longleftrightarrow> length (proposals d) \<le> length (proposals d')
     \<and> list_all2 revision_kept (proposals d) (take (length (proposals d)) (proposals d'))"

lemma revision_kept_refl: "revision_kept p p"
  by (simp add: revision_kept_def)

lemma createProposalRevision_kept:
  "next_doc (createProposalRevision e subject i d) = Some d' \<Longrightarrow> revisions_kept d d'"
  by (erule createProposalRevision_commit) (simp add: revisions_kept_def revision_kept_refl list_all2_refl)

lemma list_all2_upd_first_same:
  assumes "\<And>x. find P xs = Some x \<Longrightarrow> R x (f x)" and "\<And>x. R x x"
  shows "list_all2 R xs (upd_first P f xs)"
  using assms(1) by (induction xs) (auto simp: assms(2) intro!: list_all2_refl)

lemma decideProposal_kept:
  assumes "next_doc (decideProposal e subject proposalRef revision i d) = Some d'"
  shows "revisions_kept d d'"
proof (rule decideProposal_commit[OF assms])
  fix p dec nt
  let ?P = "is_revision subject proposalRef revision OwnSubject"
  assume p: "find ?P (proposals d) = Some p" "pr_approval p = None"
    and d': "d' = d\<lparr>proposals := upd_first ?P (decided subject i dec nt (e_stamp e 0)) (proposals d)\<rparr>"
  have "list_all2 revision_kept (proposals d) (upd_first ?P (decided subject i dec nt (e_stamp e 0)) (proposals d))"
    by (rule list_all2_upd_first_same) (use p in \<open>auto simp: revision_kept_def decided_def\<close>)
  then show "revisions_kept d d'" by (simp add: revisions_kept_def d')
qed

end
