(* ===== verification/StageGraph.thy ===== *)
theory StageGraph
  imports Prelude "HOL-Library.AList"
begin

text \<open>
  The cycle check of \<open>createRun\<close> (\<open>control/store.ts\<close>): Kahn's algorithm over the requested stages and
  their dependencies. It terminates on any input, and on the graphs the earlier checks let through it
  visits every stage exactly when the dependency relation is acyclic.
\<close>

type_synonym graph = "(string \<times> string list) list"

section \<open>The loop\<close>

text \<open>What \<open>children.get(x)\<close> holds once every stage has been pushed under its dependencies.\<close>

definition children_of :: "graph \<Rightarrow> string \<Rightarrow> string list" where
  "children_of g x = concat (map (\<lambda>(s, ds). map (\<lambda>_. s) (filter (\<lambda>d. d = x) ds)) g)"

definition count_down :: "string \<Rightarrow> (string \<times> int) list \<times> string list \<Rightarrow> (string \<times> int) list \<times> string list" where
  "count_down child st =
     (let n = (case map_of (fst st) child of None \<Rightarrow> 0 | Some k \<Rightarrow> k) - 1 in
      (AList.update child n (fst st), if n = 0 then snd st @ [child] else snd st))"

definition positives :: "(string \<times> int) list \<Rightarrow> nat" where
  "positives remaining = length (filter (\<lambda>kv. 0 < snd kv) remaining)"

lemma positives_update:
  "map_of m k = Some n \<Longrightarrow> 0 < n \<Longrightarrow> positives (AList.update k (n - 1) m) + (if n = 1 then 1 else 0) = positives m"
  by (induction m) (auto simp: positives_def split: if_splits)

lemma positives_update_le:
  "map_of m k = None \<or> (\<exists>n. map_of m k = Some n \<and> n \<le> 0) \<Longrightarrow> i \<le> 0 \<Longrightarrow> positives (AList.update k i m) = positives m"
  by (induction m) (auto simp: positives_def split: if_splits)

lemma count_down_measure:
  "length (snd (count_down c st)) + positives (fst (count_down c st)) \<le> length (snd st) + positives (fst st)"
proof (cases "map_of (fst st) c")
  case None
  then show ?thesis using positives_update_le[of "fst st" c "-1"] by (simp add: count_down_def)
next
  case (Some n)
  show ?thesis
  proof (cases "0 < n")
    case True
    then show ?thesis using positives_update[OF Some] Some by (auto simp: count_down_def split: if_splits)
  next
    case False
    then show ?thesis using positives_update_le[of "fst st" c "n - 1"] Some by (simp add: count_down_def)
  qed
qed

lemma count_downs_measure:
  "length (snd (fold count_down cs st)) + positives (fst (fold count_down cs st)) \<le> length (snd st) + positives (fst st)"
proof (induction cs arbitrary: st)
  case (Cons c cs)
  then show ?case using count_down_measure[of c st] order_trans by fastforce
qed simp

function kahn_loop :: "graph \<Rightarrow> (string \<times> int) list \<Rightarrow> string list \<Rightarrow> nat \<Rightarrow> nat" where
  "kahn_loop g remaining ready visited =
     (if ready = [] then visited
      else let st = fold count_down (children_of g (last ready)) (remaining, butlast ready) in
        kahn_loop g (fst st) (snd st) (visited + 1))"
  by pat_completeness auto
termination
proof (relation "measure (\<lambda>(g, remaining, ready, visited). length ready + positives remaining)")
  fix g remaining ready and visited :: nat and st
  assume "ready \<noteq> []" and st: "st = fold count_down (children_of g (last ready)) (remaining, butlast ready)"
  then have "length (butlast ready) < length ready" by simp
  then show "((g, fst st, snd st, visited + 1), (g, remaining, ready, visited))
      \<in> measure (\<lambda>(g, remaining, ready, visited). length ready + positives remaining)"
    using count_downs_measure[of "children_of g (last ready)" "(remaining, butlast ready)"] by (simp add: st)
qed simp

declare kahn_loop.simps [simp del]

definition initial_counts :: "graph \<Rightarrow> (string \<times> int) list" where
  "initial_counts g = map (\<lambda>(s, ds). (s, int (length ds))) g"

definition initial_ready :: "graph \<Rightarrow> string list" where
  "initial_ready g = map fst (filter (\<lambda>kv. snd kv = 0) (initial_counts g))"

definition visited_stages :: "graph \<Rightarrow> nat" where
  "visited_stages g = kahn_loop g (initial_counts g) (initial_ready g) 0"

section \<open>The dependency relation\<close>

definition edges :: "graph \<Rightarrow> (string \<times> string) set" where
  "edges g = {(d, s). \<exists>ds. (s, ds) \<in> set g \<and> d \<in> set ds}"

definition graph_ok :: "graph \<Rightarrow> bool" where
  "graph_ok g \<longleftrightarrow> distinct (map fst g) \<and> (\<forall>(s, ds)\<in>set g. distinct ds \<and> set ds \<subseteq> set (map fst g))"

lemma graph_stage: "graph_ok g \<Longrightarrow> (s, ds) \<in> set g \<Longrightarrow> (s, es) \<in> set g \<Longrightarrow> ds = es"
  by (auto simp: graph_ok_def dest: eq_key_imp_eq_value)

lemma graph_deps: "graph_ok g \<Longrightarrow> (s, ds) \<in> set g \<Longrightarrow> distinct ds \<and> set ds \<subseteq> set (map fst g)"
  by (auto simp: graph_ok_def)

lemma children_of_Cons: "children_of ((s, ds) # g) x = map (\<lambda>_. s) (filter (\<lambda>d. d = x) ds) @ children_of g x"
  by (simp add: children_of_def)

lemma set_children: "set (children_of g x) = {s. (x, s) \<in> edges g}"
proof (induction g)
  case (Cons p g)
  obtain s ds where p: "p = (s, ds)" by force
  show ?case using Cons by (auto simp: p children_of_Cons edges_def)
qed (simp add: children_of_def edges_def)

lemma distinct_children:
  assumes "graph_ok g"
  shows "distinct (children_of g x)"
proof -
  have "distinct (map fst h) \<Longrightarrow> (\<And>s ds. (s, ds) \<in> set h \<Longrightarrow> distinct ds) \<Longrightarrow> distinct (children_of h x)" for h
  proof (induction h)
    case (Cons p h)
    obtain s ds where p: "p = (s, ds)" by force
    have "distinct ds" using Cons.prems(2) p by force
    then have "length (filter (\<lambda>d. d = x) ds) \<le> 1"
      by (induction ds) (auto simp: filter_empty_conv)
    then have "distinct (map (\<lambda>_. s) (filter (\<lambda>d. d = x) ds))"
      by (cases "filter (\<lambda>d. d = x) ds") auto
    moreover have "distinct (children_of h x)" using Cons by force
    moreover have "s \<notin> set (children_of h x)" using Cons.prems(1) by (auto simp: p set_children edges_def image_iff)
    ultimately show ?case by (auto simp: p children_of_Cons)
  qed (simp add: children_of_def)
  then show ?thesis using assms by (auto simp: graph_ok_def)
qed

section \<open>What the loop keeps\<close>

text \<open>
  \<open>vs\<close> are the stages popped so far, the latest first: each was popped after its dependencies. The
  counts are the dependencies not popped yet, and the stages at zero are exactly the popped and the ready.
\<close>

fun settled_order :: "graph \<Rightarrow> string list \<Rightarrow> bool" where
  "settled_order g [] = True"
| "settled_order g (v # vs) = ((\<forall>ds. (v, ds) \<in> set g \<longrightarrow> set ds \<subseteq> set vs) \<and> settled_order g vs)"

definition open_deps :: "string list \<Rightarrow> string list \<Rightarrow> int" where
  "open_deps vs ds = int (length (filter (\<lambda>d. d \<notin> set vs) ds))"

definition kahn_inv :: "graph \<Rightarrow> string list \<Rightarrow> (string \<times> int) list \<Rightarrow> string list \<Rightarrow> bool" where
  "kahn_inv g vs remaining ready \<longleftrightarrow> distinct (vs @ ready) \<and> set (vs @ ready) \<subseteq> set (map fst g) \<and> settled_order g vs
     \<and> (\<forall>(s, ds)\<in>set g. map_of remaining s = Some (open_deps vs ds) \<and> (s \<in> set (vs @ ready) \<longleftrightarrow> set ds \<subseteq> set vs))"

lemma open_deps_0: "open_deps vs ds = 0 \<longleftrightarrow> set ds \<subseteq> set vs"
  by (auto simp: open_deps_def filter_empty_conv)

lemma open_deps_Cons:
  "distinct ds \<Longrightarrow> v \<notin> set vs \<Longrightarrow> open_deps (v # vs) ds = open_deps vs ds - (if v \<in> set ds then 1 else 0)"
  by (induction ds) (auto simp: open_deps_def)

lemma count_downs:
  assumes "distinct cs" and "\<And>c. c \<in> set cs \<Longrightarrow> map_of m c \<noteq> None"
  shows "snd (fold count_down cs (m, rs)) = rs @ filter (\<lambda>c. map_of m c = Some 1) cs
    \<and> map_of (fst (fold count_down cs (m, rs))) = (\<lambda>x. if x \<in> set cs then map_option (\<lambda>n. n - 1) (map_of m x) else map_of m x)"
  using assms
proof (induction cs arbitrary: m rs)
  case (Cons c cs)
  obtain n where n: "map_of m c = Some n" using Cons.prems(2)[of c] by auto
  let ?m = "AList.update c (n - 1) m"
  have st: "count_down c (m, rs) = (?m, rs @ (if n = 1 then [c] else []))"
    by (simp add: count_down_def n)
  have m: "map_of ?m = (map_of m)(c \<mapsto> n - 1)" by (simp add: update_conv')
  have "filter (\<lambda>x. map_of ?m x = Some 1) cs = filter (\<lambda>x. map_of m x = Some 1) cs"
    using Cons.prems(1) by (auto simp: m intro!: filter_cong)
  moreover have "\<And>x. x \<in> set cs \<Longrightarrow> map_of ?m x \<noteq> None" using Cons.prems(2) by (simp add: m)
  note Cons.IH[OF _ this, of "rs @ (if n = 1 then [c] else [])"]
  ultimately show ?case using Cons.prems(1) n by (auto simp: st m fun_eq_iff)
qed simp

lemma kahn_step:
  assumes ok: "graph_ok g" and i: "kahn_inv g vs remaining ready" and r: "ready \<noteq> []"
    and st: "st = fold count_down (children_of g (last ready)) (remaining, butlast ready)"
  shows "kahn_inv g (last ready # vs) (fst st) (snd st)"
proof -
  let ?v = "last ready"
  define cs where "cs = children_of g ?v"
  have rd: "ready = butlast ready @ [?v]" using r by simp
  have d: "distinct vs" "distinct (butlast ready)" "?v \<notin> set vs" "?v \<notin> set (butlast ready)"
      "set vs \<inter> set (butlast ready) = {}"
    using i unfolding kahn_inv_def by (subst (asm) rd, auto)+
  have known: "map_of remaining c \<noteq> None" if "c \<in> set cs" for c
    using that i by (force simp: cs_def set_children edges_def kahn_inv_def)
  note f = count_downs[OF distinct_children[OF ok, of ?v, folded cs_def], OF known, of "butlast ready", folded st[folded cs_def]]
  have counts: "map_of remaining s = Some (open_deps vs ds)" and mem: "s \<in> set (vs @ ready) \<longleftrightarrow> set ds \<subseteq> set vs"
    if "(s, ds) \<in> set g" for s ds using i that by (auto simp: kahn_inv_def)
  have child: "s \<in> set cs \<longleftrightarrow> ?v \<in> set ds" if "(s, ds) \<in> set g" for s ds
  proof -
    have "s \<in> set cs \<longleftrightarrow> (\<exists>es. (s, es) \<in> set g \<and> ?v \<in> set es)" by (simp add: cs_def set_children edges_def)
    then show ?thesis using graph_stage[OF ok that] that by blast
  qed
  have next_count: "map_of (fst st) s = Some (open_deps (?v # vs) ds)" if g: "(s, ds) \<in> set g" for s ds
    using f counts[OF g] child[OF g] graph_deps[OF ok g] d(3) by (simp add: open_deps_Cons)
  have new: "filter (\<lambda>c. map_of remaining c = Some 1) cs = filter (\<lambda>c. c \<notin> set (vs @ ready) \<and> map_of (fst st) c = Some 0) cs"
  proof (rule filter_cong[OF refl])
    fix c assume c: "c \<in> set cs"
    then obtain ds where g: "(c, ds) \<in> set g" by (auto simp: cs_def set_children edges_def)
    have "?v \<in> set ds" using c child[OF g] by simp
    then have "\<not> set ds \<subseteq> set vs" using d(3) by auto
    moreover have "map_of (fst st) c = map_option (\<lambda>n. n - 1) (map_of remaining c)" using f c by simp
    ultimately show "map_of remaining c = Some 1 \<longleftrightarrow> c \<notin> set (vs @ ready) \<and> map_of (fst st) c = Some 0"
      using counts[OF g] mem[OF g] by auto
  qed
  have sub: "set (snd st) \<subseteq> set (butlast ready) \<union> set cs" using f by auto
  have csin: "set cs \<subseteq> set (map fst g)" by (force simp: cs_def set_children edges_def)
  have rin: "set vs \<subseteq> set (map fst g)" "set (butlast ready) \<subseteq> set (map fst g)" "?v \<in> set (map fst g)"
    using i last_in_set[OF r] unfolding kahn_inv_def by (auto dest: in_set_butlastD)
  have "distinct ((?v # vs) @ snd st)"
    using f d new distinct_children[OF ok, of ?v, folded cs_def] rd last_in_set[OF r] by (auto dest: in_set_butlastD)
  moreover have "set ((?v # vs) @ snd st) \<subseteq> set (map fst g)"
    using rin sub csin by auto
  moreover have "settled_order g (?v # vs)"
    using i mem r unfolding kahn_inv_def by (metis in_set_conv_decomp last_in_set settled_order.simps(2) Un_iff set_append)
  moreover have "s \<in> set ((?v # vs) @ snd st) \<longleftrightarrow> set ds \<subseteq> set (?v # vs)" if g: "(s, ds) \<in> set g" for s ds
  proof -
    have "set ds \<subseteq> set (?v # vs) \<longleftrightarrow> map_of (fst st) s = Some 0"
      using next_count[OF g] open_deps_0[of "?v # vs" ds] by auto
    moreover have "s \<in> set (snd st) \<longleftrightarrow> s \<in> set (butlast ready) \<or> (s \<in> set cs \<and> s \<notin> set (vs @ ready) \<and> map_of (fst st) s = Some 0)"
      using f new by auto
    moreover have "s \<in> set (vs @ ready) \<longleftrightarrow> s = ?v \<or> s \<in> set vs \<or> s \<in> set (butlast ready)"
      by (subst rd) auto
    moreover have "s \<in> set (vs @ ready) \<Longrightarrow> set ds \<subseteq> set (?v # vs)" using mem[OF g] by auto
    moreover have "s \<notin> set cs \<Longrightarrow> set ds \<subseteq> set (?v # vs) \<Longrightarrow> s \<in> set (vs @ ready)"
      using child[OF g] mem[OF g] by auto
    ultimately show ?thesis by auto
  qed
  ultimately show ?thesis using next_count by (auto simp: kahn_inv_def)
qed

lemma kahn_runs:
  assumes "graph_ok g" and "kahn_inv g vs remaining ready"
  shows "\<exists>vs' remaining'. kahn_loop g remaining ready (length vs) = length vs' \<and> kahn_inv g vs' remaining' []"
  using assms
proof (induction g remaining ready "length vs" arbitrary: vs rule: kahn_loop.induct)
  case (1 g remaining ready)
  show ?case
  proof (cases "ready = []")
    case True
    then show ?thesis using 1(3) by (subst kahn_loop.simps) auto
  next
    case False
    define st where "st = fold count_down (children_of g (last ready)) (remaining, butlast ready)"
    have k: "kahn_inv g (last ready # vs) (fst st) (snd st)" by (rule kahn_step[OF 1(2,3) False st_def])
    have "\<exists>vs' remaining'. kahn_loop g (fst st) (snd st) (length (last ready # vs)) = length vs' \<and> kahn_inv g vs' remaining' []"
      by (rule 1(1)[OF False st_def _ 1(2) k]) simp
    then show ?thesis using False by (subst kahn_loop.simps) (simp add: st_def[symmetric] Let_def)
  qed
qed

lemma kahn_start: "graph_ok g \<Longrightarrow> kahn_inv g [] (initial_counts g) (initial_ready g)"
proof -
  assume ok: "graph_ok g"
  have keys: "map fst (initial_counts g) = map fst g" by (simp add: initial_counts_def case_prod_beta comp_def)
  have "map_of (initial_counts g) s = Some (int (length ds))" if "(s, ds) \<in> set g" for s ds
  proof (rule map_of_is_SomeI)
    show "distinct (map fst (initial_counts g))" using ok by (simp only: keys graph_ok_def)
    show "(s, int (length ds)) \<in> set (initial_counts g)" using that by (force simp: initial_counts_def)
  qed
  moreover have "distinct (initial_ready g)"
    unfolding initial_ready_def using ok keys by (metis distinct_map_filter graph_ok_def)
  moreover have "s \<in> set (initial_ready g) \<longleftrightarrow> ds = []" if "(s, ds) \<in> set g" for s ds
  proof -
    have "s \<in> set (initial_ready g) \<longleftrightarrow> (\<exists>es. (s, es) \<in> set g \<and> es = [])"
      by (force simp: initial_ready_def initial_counts_def)
    then show ?thesis using graph_stage[OF ok that] that by blast
  qed
  moreover have "set (initial_ready g) \<subseteq> set (map fst g)" by (force simp: initial_ready_def initial_counts_def)
  ultimately show ?thesis by (auto simp: kahn_inv_def open_deps_def)
qed

section \<open>Visiting every stage is acyclicity\<close>

lemma settled_rank:
  "settled_order g vs \<Longrightarrow> distinct vs \<Longrightarrow> (a, b) \<in> edges g \<Longrightarrow> b \<in> set vs
    \<Longrightarrow> a \<in> set vs \<and> length (dropWhile (\<lambda>y. y \<noteq> a) vs) < length (dropWhile (\<lambda>y. y \<noteq> b) vs)"
proof (induction vs)
  case (Cons v vs)
  show ?case
  proof (cases "b = v")
    case True
    then have "a \<in> set vs" using Cons.prems by (auto simp: edges_def)
    moreover have "length (dropWhile (\<lambda>y. y \<noteq> a) vs) \<le> length vs" by (rule length_dropWhile_le)
    ultimately show ?thesis using True Cons.prems(2) by auto
  qed (use Cons in auto)
qed simp

lemma settled_acyclic:
  assumes "settled_order g vs" and "distinct vs" and "set vs = set (map fst g)"
  shows "acyclic (edges g)"
proof -
  have "edges g \<subseteq> measure (\<lambda>x. length (dropWhile (\<lambda>y. y \<noteq> x) vs))"
  proof
    fix p assume p: "p \<in> edges g"
    obtain a b where ab: "p = (a, b)" by force
    have "b \<in> set vs" using p assms(3) by (force simp: ab edges_def)
    then show "p \<in> measure (\<lambda>x. length (dropWhile (\<lambda>y. y \<noteq> x) vs))"
      using settled_rank[OF assms(1,2)] p by (simp add: ab)
  qed
  then show ?thesis by (meson acyclic_subset wf_acyclic wf_measure)
qed

lemma finite_edges: "finite (edges g)"
proof (rule finite_subset)
  show "edges g \<subseteq> (\<Union>(s, ds)\<in>set g. set ds \<times> {s})" by (force simp: edges_def)
qed auto

lemma visited_all_iff_acyclic:
  assumes ok: "graph_ok g"
  shows "visited_stages g = length g \<longleftrightarrow> acyclic (edges g)"
proof -
  obtain vs m where v: "visited_stages g = length vs" and i: "kahn_inv g vs m []"
    using kahn_runs[OF ok kahn_start[OF ok]] by (auto simp: visited_stages_def)
  have d: "distinct vs" "set vs \<subseteq> set (map fst g)" "settled_order g vs"
    and rest: "\<And>s ds. (s, ds) \<in> set g \<Longrightarrow> s \<in> set vs \<longleftrightarrow> set ds \<subseteq> set vs"
    using i by (auto simp: kahn_inv_def)
  have n: "card (set (map fst g)) = length g"
    using ok distinct_card[of "map fst g"] by (simp add: graph_ok_def)
  have all: "length vs = length g \<longleftrightarrow> set vs = set (map fst g)"
  proof
    assume "length vs = length g"
    then have "card (set vs) = card (set (map fst g))" using d(1) n by (simp add: distinct_card)
    then show "set vs = set (map fst g)" using d(2) by (simp add: card_subset_eq)
  next
    assume "set vs = set (map fst g)"
    then have "card (set vs) = card (set (map fst g))" by simp
    then show "length vs = length g" using n d(1) by (simp only: distinct_card)
  qed
  show ?thesis
  proof
    assume "visited_stages g = length g"
    then show "acyclic (edges g)" using settled_acyclic d all v by simp
  next
    assume "acyclic (edges g)"
    then have wf: "wf (edges g)" by (rule finite_acyclic_wf[OF finite_edges])
    have "set (map fst g) - set vs = {}"
    proof (rule ccontr)
      assume "set (map fst g) - set vs \<noteq> {}"
      then obtain z where z: "z \<in> set (map fst g) - set vs" "\<And>y. (y, z) \<in> edges g \<Longrightarrow> y \<notin> set (map fst g) - set vs"
        using wfE_min'[OF wf] by metis
      then obtain ds where g: "(z, ds) \<in> set g" by auto
      then obtain y where "y \<in> set ds" "y \<notin> set vs" using rest z(1) by blast
      then show False using z(2)[of y] g graph_deps[OF ok g] by (auto simp: edges_def)
    qed
    then show "visited_stages g = length g" using all v d(2) by auto
  qed
qed

end
