(* ===== verification/Stages.thy ===== *)
theory Stages
  imports Runs
begin

text \<open>
  Stages, attempts and worker sessions in the store (\<open>control/store.ts\<close>): \<open>transitionStage\<close>,
  \<open>linkStageCard\<close>, \<open>createAttempt\<close>, \<open>rerouteStage\<close>, \<open>transitionAttempt\<close>, \<open>createWorkerSession\<close>
  and \<open>transitionSession\<close>. Every transition is a compare-and-swap on the version of its row.
\<close>

section \<open>Rows\<close>

definition is_stage :: "string \<Rightarrow> string \<Rightarrow> stored_stage \<Rightarrow> bool" where
  "is_stage subject stageRef s \<longleftrightarrow> st_subject s = subject \<and> st_stageRef s = stageRef"

definition is_attempt :: "string \<Rightarrow> string \<Rightarrow> stored_attempt \<Rightarrow> bool" where
  "is_attempt subject attemptRef a \<longleftrightarrow> at_subject a = subject \<and> at_attemptRef a = attemptRef"

definition owns_session :: "string \<Rightarrow> string \<Rightarrow> stored_session \<Rightarrow> bool" where
  "owns_session subject sessionRef s \<longleftrightarrow> ms_subject s = subject \<and> ms_sessionRef s = sessionRef"

definition moved_stage :: "stage_state \<Rightarrow> string \<Rightarrow> stored_stage \<Rightarrow> stored_stage" where
  "moved_stage st at s = s\<lparr>st_state := st, st_version := st_version s + 1, st_updatedAt := at\<rparr>"

definition moved_attempt :: "attempt_state \<Rightarrow> string \<Rightarrow> stored_attempt \<Rightarrow> stored_attempt" where
  "moved_attempt st at a = a\<lparr>at_state := st, at_version := at_version a + 1, at_updatedAt := at\<rparr>"

definition moved_session :: "session_state \<Rightarrow> string \<Rightarrow> stored_session \<Rightarrow> stored_session" where
  "moved_session st at s = s\<lparr>ms_state := st, ms_version := ms_version s + 1, ms_updatedAt := at\<rparr>"

definition pointed_stage :: "string \<Rightarrow> string \<Rightarrow> stored_stage \<Rightarrow> stored_stage" where
  "pointed_stage attemptRef at s =
     s\<lparr>st_currentAttemptRef := Some attemptRef, st_version := st_version s + 1, st_updatedAt := at\<rparr>"

fun stage_state_str :: "stage_state \<Rightarrow> string" where
  "stage_state_str SBlocked = ''blocked''" | "stage_state_str SReady = ''ready''"
| "stage_state_str SRunning = ''running''" | "stage_state_str SWaitingHuman = ''waiting-human''"
| "stage_state_str SSucceeded = ''succeeded''" | "stage_state_str SFailed = ''failed''"
| "stage_state_str SStopped = ''stopped''" | "stage_state_str SInterrupted = ''interrupted''"

fun attempt_state_str :: "attempt_state \<Rightarrow> string" where
  "attempt_state_str AQueued = ''queued''" | "attempt_state_str AStarting = ''starting''"
| "attempt_state_str ARunning = ''running''" | "attempt_state_str AWaitingHuman = ''waiting-human''"
| "attempt_state_str ASucceeded = ''succeeded''" | "attempt_state_str AFailed = ''failed''"
| "attempt_state_str AStopped = ''stopped''" | "attempt_state_str AInterrupted = ''interrupted''"

fun session_state_str :: "session_state \<Rightarrow> string" where
  "session_state_str MPending = ''pending''" | "session_state_str MStarting = ''starting''"
| "session_state_str MRunning = ''running''" | "session_state_str MWaiting = ''waiting''"
| "session_state_str MCompleted = ''completed''" | "session_state_str MFailed = ''failed''"
| "session_state_str MStopped = ''stopped''" | "session_state_str MInterrupted = ''interrupted''"

definition dt_stage_not_found :: string where "dt_stage_not_found = ''stage was not found''"
definition dt_stage_state :: string where "dt_stage_state = ''stage state is invalid''"
definition dt_stage_version :: string where "dt_stage_version = ''stage version changed''"
definition dt_stage_edge :: "stage_state \<Rightarrow> stage_state \<Rightarrow> string" where
  "dt_stage_edge s t = ''stage transition '' @ stage_state_str s @ ''->'' @ stage_state_str t @ '' is not allowed''"
definition dt_stage_dependencies :: string where
  "dt_stage_dependencies = ''stage dependencies are not succeeded''"
definition dt_stage_lineage :: string where
  "dt_stage_lineage = ''stage review lineage is not committed or accepted''"
definition dt_stage_boundaries :: string where
  "dt_stage_boundaries = ''waiting-human stage boundaries are unresolved or not accepted''"
definition dt_card_ref :: string where
  "dt_card_ref = ''canonicalCardRef must be a safe opaque reference''"
definition dt_card_linked :: string where "dt_card_linked = ''stage is already linked to a canonical cardRef''"

section \<open>Stages\<close>

definition transitionStage :: "env \<Rightarrow> string \<Rightarrow> string \<Rightarrow> int \<Rightarrow> string \<Rightarrow> document \<Rightarrow> stage outcome" where
  "transitionStage e subject stageRef expectedVersion state d =
     (case find (is_stage subject stageRef) (stages d) of
        None \<Rightarrow> Refuse NotFound dt_stage_not_found
      | Some s \<Rightarrow>
       (case map_of STAGE_STATES state of
          None \<Rightarrow> Refuse Invalid dt_stage_state
        | Some t \<Rightarrow>
          if st_version s \<noteq> expectedVersion then Refuse Conflict dt_stage_version
          else if st_state s = t then Replay (publicStage s)
          else if \<not> stage_edge (st_state s) t then Refuse Invalid (dt_stage_edge (st_state s) t)
          else if t \<in> {SReady, SRunning, SSucceeded} \<and> \<not> dependenciesSucceeded d s
          then Refuse Invalid dt_stage_dependencies
          else if t = SSucceeded \<and> \<not> stageMaySucceed d s then Refuse Invalid dt_stage_lineage
          else if st_state s = SWaitingHuman \<and> t = SReady
            \<and> \<not> boundariesAccepted d subject (st_runRef s) (Some (st_stageRef s))
          then Refuse Invalid dt_stage_boundaries
          else let f = moved_stage t (e_stamp e 0) in
            Commit (d\<lparr>stages := upd_first (is_stage subject stageRef) f (stages d)\<rparr>) (publicStage (f s))))"

definition linked_stage :: "string \<Rightarrow> string \<Rightarrow> stored_stage \<Rightarrow> stored_stage" where
  "linked_stage cardRef at s = s\<lparr>st_canonicalCardRef := Some cardRef, st_version := st_version s + 1, st_updatedAt := at\<rparr>"

definition linkStageCard :: "env \<Rightarrow> string \<Rightarrow> string \<Rightarrow> int \<Rightarrow> string \<Rightarrow> document \<Rightarrow> stage outcome" where
  "linkStageCard e subject stageRef expectedVersion cardRef d =
     (case find (is_stage subject stageRef) (stages d) of
        None \<Rightarrow> Refuse NotFound dt_stage_not_found
      | Some s \<Rightarrow>
        if st_version s \<noteq> expectedVersion then Refuse Conflict dt_stage_version
        else if \<not> validNonEmpty cardRef MAX_SHORT_TEXT \<or> \<not> SAFE_REF_RE cardRef then Refuse Invalid dt_card_ref
        else if st_canonicalCardRef s \<noteq> None then Refuse Conflict dt_card_linked
        else let f = linked_stage cardRef (e_stamp e 0) in
          Commit (d\<lparr>stages := upd_first (is_stage subject stageRef) f (stages d)\<rparr>) (publicStage (f s)))"

section \<open>Attempts\<close>

record attempt_input =
  an_expectedStageVersion :: int
  an_runtime :: string
  an_model :: string

definition dt_attempt_routing :: string where "dt_attempt_routing = ''attempt routing is required''"
definition dt_attempt_provenance :: string where
  "dt_attempt_provenance = ''attempt routing does not match assigned stage provenance''"
definition dt_attempt_turn :: string where
  "dt_attempt_turn = ''iteration attempt is not the active turn owner''"
definition dt_attempt_dependencies :: string where
  "dt_attempt_dependencies = ''stage dependencies are not accepted''"
definition dt_attempt_active :: string where "dt_attempt_active = ''current attempt is still active''"

definition pending_loop_request :: "document \<Rightarrow> string \<Rightarrow> stored_loop \<Rightarrow> stored_turn_request option" where
  "pending_loop_request d subject l = find (\<lambda>q. iq_subject q = subject
     \<and> iq_iterationLoopRef q = il_iterationLoopRef l \<and> Some (iq_stepId q) = il_currentStepId l
     \<and> \<not> list_ex (\<lambda>r. ir_subject r = subject \<and> oc_requestRef r = iq_requestRef q) (iterationReceipts d))
     (iterationRequests d)"

definition owns_turn :: "document \<Rightarrow> string \<Rightarrow> stored_stage \<Rightarrow> stored_loop \<Rightarrow> bool" where
  "owns_turn d subject s l =
     (let p = find (\<lambda>c. pt_stageRef c = st_stageId s) (il_participants l);
          q = pending_loop_request d subject l;
          seed = (il_state l = AwaitingSeed \<and> map_option pt_participantId p = Some (il_seedParticipantId l)
                  \<and> st_currentGenerationRef s = None) in
      seed \<or> (il_state l = RunningTurn \<and> p \<noteq> None
        \<and> map_option iq_recipientParticipantId q = map_option pt_participantId p))"

definition attempt_allowed :: "document \<Rightarrow> string \<Rightarrow> stored_stage \<Rightarrow> (fail_reason \<times> string) option" where
  "attempt_allowed d subject s = (case iterationLoopForStage d s of
     Some l \<Rightarrow> if owns_turn d subject s l then None else Some (Conflict, dt_attempt_turn)
   | None \<Rightarrow> if dependenciesAcceptedForAttempt d s then None else Some (Invalid, dt_attempt_dependencies))"

definition previous_attempt :: "document \<Rightarrow> string \<Rightarrow> stored_stage \<Rightarrow> stored_attempt option" where
  "previous_attempt d subject s = (case st_currentAttemptRef s of
     None \<Rightarrow> None
   | Some a \<Rightarrow> if a = [] then None else find (is_attempt subject a) (attempts d))"

definition queued_attempt :: "string \<Rightarrow> string \<Rightarrow> string \<Rightarrow> string \<Rightarrow> int \<Rightarrow> string option \<Rightarrow> string \<Rightarrow> string
    \<Rightarrow> string \<Rightarrow> stored_attempt" where
  "queued_attempt subject attemptRef runRef stageRef generation predecessor runtime model at =
     \<lparr>at_attemptRef = attemptRef, at_runRef = runRef, at_stageRef = stageRef, at_generation = generation,
      at_predecessorAttemptRef = predecessor, at_runtime = runtime, at_model = model, at_state = AQueued,
      at_version = 1, at_managedSessionRef = None, at_logicalGeneration = None, at_baseGenerationRef = None,
      at_baseCommit = None, at_createdAt = at, at_updatedAt = at, at_rerouteOperationKey = None,
      at_rerouteOperationFingerprint = None, at_subject = subject, at_iterationAdvanceOperationKey = None,
      at_iterationAdvanceOperationFingerprint = None, at_iterationAdvanceReceiptRef = None\<rparr>"

definition new_attempt :: "env \<Rightarrow> document \<Rightarrow> string \<Rightarrow> stored_stage \<Rightarrow> string \<Rightarrow> attempt_input \<Rightarrow> stored_attempt" where
  "new_attempt e d subject s stageRef i =
     (let previous = previous_attempt d subject s in
      queued_attempt subject (ref e ''attempt'' 0) (st_runRef s) stageRef
        ((case previous of None \<Rightarrow> 0 | Some p \<Rightarrow> at_generation p) + 1) (map_option at_attemptRef previous)
        (an_runtime i) (an_model i) (e_stamp e 0))"

definition createAttempt :: "env \<Rightarrow> string \<Rightarrow> string \<Rightarrow> attempt_input \<Rightarrow> document \<Rightarrow> attempt outcome" where
  "createAttempt e subject stageRef i d =
     (case find (is_stage subject stageRef) (stages d) of
        None \<Rightarrow> Refuse NotFound dt_stage_not_found
      | Some s \<Rightarrow>
        if st_version s \<noteq> an_expectedStageVersion i then Refuse Conflict dt_stage_version
        else if \<not> validNonEmpty (an_runtime i) MAX_SHORT_TEXT \<or> \<not> validNonEmpty (an_model i) MAX_SHORT_TEXT
        then Refuse Invalid dt_attempt_routing
        else if (case st_assignment s of None \<Rightarrow> False
                 | Some a \<Rightarrow> an_runtime i \<noteq> as_runtime a \<or> an_model i \<noteq> as_model a)
        then Refuse Invalid dt_attempt_provenance
        else (case attempt_allowed d subject s of
          Some x \<Rightarrow> Refuse (fst x) (snd x)
        | None \<Rightarrow>
          if (case previous_attempt d subject s of None \<Rightarrow> False
              | Some p \<Rightarrow> \<not> TERMINAL_ATTEMPT (at_state p) \<and> at_state p \<noteq> AInterrupted)
          then Refuse Conflict dt_attempt_active
          else let a = new_attempt e d subject s stageRef i in
            Commit (d\<lparr>stages := upd_first (is_stage subject stageRef)
                        (pointed_stage (at_attemptRef a) (e_stamp e 0)) (stages d),
                      attempts := attempts d @ [a]\<rparr>) (publicAttempt a)))"

definition dt_attempt_not_found :: string where "dt_attempt_not_found = ''attempt was not found''"
definition dt_attempt_state :: string where "dt_attempt_state = ''attempt state is invalid''"
definition dt_attempt_version :: string where "dt_attempt_version = ''attempt version changed''"
definition dt_attempt_edge :: "attempt_state \<Rightarrow> attempt_state \<Rightarrow> string" where
  "dt_attempt_edge s t = ''attempt transition '' @ attempt_state_str s @ ''->'' @ attempt_state_str t
     @ '' is not allowed; create a successor attempt when required''"

definition transitionAttempt :: "env \<Rightarrow> string \<Rightarrow> string \<Rightarrow> int \<Rightarrow> string \<Rightarrow> document \<Rightarrow> attempt outcome" where
  "transitionAttempt e subject attemptRef expectedVersion state d =
     (case find (is_attempt subject attemptRef) (attempts d) of
        None \<Rightarrow> Refuse NotFound dt_attempt_not_found
      | Some a \<Rightarrow>
       (case map_of ATTEMPT_STATES state of
          None \<Rightarrow> Refuse Invalid dt_attempt_state
        | Some t \<Rightarrow>
          if at_version a \<noteq> expectedVersion then Refuse Conflict dt_attempt_version
          else if at_state a = t then Replay (publicAttempt a)
          else if \<not> attempt_edge (at_state a) t then Refuse Invalid (dt_attempt_edge (at_state a) t)
          else let f = moved_attempt t (e_stamp e 0) in
            Commit (d\<lparr>attempts := upd_first (is_attempt subject attemptRef) f (attempts d)\<rparr>)
              (publicAttempt (f a))))"

section \<open>Worker sessions\<close>

definition pending_session :: "string \<Rightarrow> string \<Rightarrow> string \<Rightarrow> string option \<Rightarrow> string option \<Rightarrow> session_role \<Rightarrow> int
    \<Rightarrow> string option \<Rightarrow> string \<Rightarrow> string \<Rightarrow> string option \<Rightarrow> string option \<Rightarrow> string \<Rightarrow> stored_session" where
  "pending_session subject sessionRef runRef stageRef attemptRef role generation predecessor runtime model key
     fingerprint at =
     \<lparr>ms_sessionRef = sessionRef, ms_attemptOperationKey = None, ms_runRef = runRef, ms_stageRef = stageRef,
      ms_attemptRef = attemptRef, ms_role = role, ms_generation = generation,
      ms_predecessorSessionRef = predecessor, ms_runtime = runtime, ms_model = model, ms_state = MPending,
      ms_version = 1, ms_createdAt = at, ms_updatedAt = at, ms_subject = subject, ms_operationKey = key,
      ms_operationFingerprint = fingerprint, ms_brokerProfileId = None, ms_brokerApprovedPromptHash = None,
      ms_brokerStopRequested = False, ms_brokerSteering = [], ms_brokerReceipts = []\<rparr>"

record worker_input =
  wi_expectedAttemptVersion :: int
  wi_attemptOperationKey :: "string option"

definition managed_attempt :: "string \<Rightarrow> string \<Rightarrow> stored_attempt \<Rightarrow> stored_attempt" where
  "managed_attempt sessionRef at a =
     a\<lparr>at_managedSessionRef := Some sessionRef, at_version := at_version a + 1, at_updatedAt := at\<rparr>"

definition worker_session :: "env \<Rightarrow> string \<Rightarrow> worker_input \<Rightarrow> stored_attempt \<Rightarrow> stored_session" where
  "worker_session e subject i a = pending_session subject (ref e ''session'' 0) (at_runRef a) (Some (at_stageRef a))
     (Some (at_attemptRef a)) Worker (at_generation a) None (at_runtime a) (at_model a)
     (wi_attemptOperationKey i) None (e_stamp e 0)"

definition dt_worker_queued :: string where
  "dt_worker_queued = ''only a queued attempt can create a managed session''"
definition dt_worker_managed :: string where "dt_worker_managed = ''attempt already has a managed session''"
definition dt_worker_key :: string where "dt_worker_key = ''attempt operation key is invalid''"

definition createWorkerSession :: "env \<Rightarrow> string \<Rightarrow> string \<Rightarrow> worker_input \<Rightarrow> document \<Rightarrow> session outcome" where
  "createWorkerSession e subject attemptRef i d =
     (case find (is_attempt subject attemptRef) (attempts d) of
        None \<Rightarrow> Refuse NotFound dt_attempt_not_found
      | Some a \<Rightarrow>
        if at_version a \<noteq> wi_expectedAttemptVersion i then Refuse Conflict dt_attempt_version
        else if at_state a \<noteq> AQueued then Refuse Invalid dt_worker_queued
        else if at_managedSessionRef a \<noteq> None \<and> at_managedSessionRef a \<noteq> Some []
        then Refuse Conflict dt_worker_managed
        else if (case wi_attemptOperationKey i of None \<Rightarrow> False | Some k \<Rightarrow> \<not> validNonEmpty k MAX_SHORT_TEXT)
        then Refuse Invalid dt_worker_key
        else let s = worker_session e subject i a in
          Commit (d\<lparr>attempts := upd_first (is_attempt subject attemptRef)
                      (managed_attempt (ms_sessionRef s) (e_stamp e 0)) (attempts d),
                    sessions := sessions d @ [s]\<rparr>) (publicSession s))"

definition dt_session_not_found :: string where "dt_session_not_found = ''managed session was not found''"
definition dt_session_state :: string where "dt_session_state = ''managed session state is invalid''"
definition dt_session_version :: string where "dt_session_version = ''managed session version changed''"
definition dt_session_key :: string where "dt_session_key = ''worker attempt operation key is invalid''"
definition dt_session_key_changed :: string where
  "dt_session_key_changed = ''worker attempt operation key changed''"
definition dt_session_edge :: "session_state \<Rightarrow> session_state \<Rightarrow> string" where
  "dt_session_edge s t = ''managed session transition '' @ session_state_str s @ ''->'' @ session_state_str t
     @ '' is not allowed''"
definition dt_session_boundaries :: string where
  "dt_session_boundaries = ''waiting managed-session boundaries are unresolved or not accepted''"

definition bound_session :: "string option \<Rightarrow> session_state \<Rightarrow> string \<Rightarrow> stored_session \<Rightarrow> stored_session" where
  "bound_session key t at s =
     moved_session t at (if key \<noteq> None \<and> ms_operationKey s = None then s\<lparr>ms_operationKey := key\<rparr> else s)"

definition transitionSession ::
  "env \<Rightarrow> string \<Rightarrow> string \<Rightarrow> int \<Rightarrow> string \<Rightarrow> string option \<Rightarrow> document \<Rightarrow> session outcome" where
  "transitionSession e subject sessionRef expectedVersion state key d =
     (case find (owns_session subject sessionRef) (sessions d) of
        None \<Rightarrow> Refuse NotFound dt_session_not_found
      | Some s \<Rightarrow>
       (case map_of SESSION_STATES state of
          None \<Rightarrow> Refuse Invalid dt_session_state
        | Some t \<Rightarrow>
          if ms_version s \<noteq> expectedVersion then Refuse Conflict dt_session_version
          else if (case key of None \<Rightarrow> False | Some k \<Rightarrow> ms_role s \<noteq> Worker \<or> \<not> validNonEmpty k MAX_SHORT_TEXT)
          then Refuse Invalid dt_session_key
          else if key \<noteq> None \<and> ms_operationKey s \<noteq> None \<and> ms_operationKey s \<noteq> key
          then Refuse Conflict dt_session_key_changed
          else let changed = (key \<noteq> None \<and> ms_operationKey s = None) in
          if ms_state s = t \<and> \<not> changed then Replay (publicSession s)
          else if ms_state s \<noteq> t \<and> \<not> session_edge (ms_state s) t
          then Refuse Invalid (dt_session_edge (ms_state s) t)
          else if ms_state s = MWaiting \<and> t = MRunning
            \<and> \<not> boundariesAccepted d subject (ms_runRef s) (ms_stageRef s)
          then Refuse Invalid dt_session_boundaries
          else let f = bound_session key t (e_stamp e 0) in
            Commit (d\<lparr>sessions := upd_first (owns_session subject sessionRef) f (sessions d)\<rparr>)
              (publicSession (f s))))"

section \<open>Rerouting\<close>

record reroute_input =
  ri_expectedStageVersion :: int
  ri_expectedAttemptRef :: string
  ri_expectedAttemptVersion :: int
  ri_runtime :: string
  ri_model :: string
  ri_idempotencyKey :: string

record reroute_result =
  rr_stage :: stage
  rr_attempt :: attempt
  rr_session :: session

definition dt_reroute_identity :: string where
  "dt_reroute_identity = ''reroute identity, runtime, model, and idempotencyKey are required''"
definition dt_reroute_reused :: string where
  "dt_reroute_reused = ''idempotencyKey was reused with different reroute content''"
definition dt_reroute_projection :: string where
  "dt_reroute_projection = ''reroute replay projection is incomplete''"
definition dt_reroute_assigned :: string where
  "dt_reroute_assigned = ''assigned stages cannot reroute; assignment provenance is immutable''"
definition dt_reroute_loop :: string where
  "dt_reroute_loop = ''loop-managed participant stages cannot reroute outside their iteration transaction''"
definition dt_reroute_version :: string where
  "dt_reroute_version = ''stage version or current attempt changed''"
definition dt_reroute_ready :: string where
  "dt_reroute_ready = ''only a ready or blocked stage can reroute before execution''"
definition dt_reroute_run :: string where
  "dt_reroute_run = ''run is not in a published reroutable state''"
definition dt_reroute_gated :: string where
  "dt_reroute_gated = ''human-gated stages require a plan amendment before rerouting''"
definition dt_reroute_started :: string where
  "dt_reroute_started = ''only a never-started queued attempt can reroute''"
definition dt_reroute_same :: string where "dt_reroute_same = ''reroute must change runtime or model''"
definition dt_reroute_session :: string where
  "dt_reroute_session = ''queued attempt session is no longer safely reroutable''"

definition reroute_fingerprint :: "env \<Rightarrow> string \<Rightarrow> reroute_input \<Rightarrow> string" where
  "reroute_fingerprint e stageRef i = sha256_json e (JObj [(''stageRef'', JStr stageRef),
     (''expectedStageVersion'', JNum (ri_expectedStageVersion i)),
     (''expectedAttemptRef'', JStr (ri_expectedAttemptRef i)),
     (''expectedAttemptVersion'', JNum (ri_expectedAttemptVersion i)),
     (''runtime'', JStr (ri_runtime i)), (''model'', JStr (ri_model i))])"

definition is_reroute :: "string \<Rightarrow> string \<Rightarrow> string \<Rightarrow> stored_attempt \<Rightarrow> bool" where
  "is_reroute subject stageRef key a \<longleftrightarrow> at_subject a = subject \<and> at_stageRef a = stageRef
     \<and> at_rerouteOperationKey a = Some key"

definition is_stage_attempt :: "string \<Rightarrow> string \<Rightarrow> string \<Rightarrow> stored_attempt \<Rightarrow> bool" where
  "is_stage_attempt subject attemptRef stageRef a \<longleftrightarrow> is_attempt subject attemptRef a \<and> at_stageRef a = stageRef"

definition is_attempt_session :: "string \<Rightarrow> stored_attempt \<Rightarrow> stored_session \<Rightarrow> bool" where
  "is_attempt_session subject a s \<longleftrightarrow> ms_subject s = subject \<and> Some (ms_sessionRef s) = at_managedSessionRef a
     \<and> ms_attemptRef s = Some (at_attemptRef a)"

definition rerouted_attempt ::
  "env \<Rightarrow> string \<Rightarrow> string \<Rightarrow> reroute_input \<Rightarrow> stored_stage \<Rightarrow> stored_attempt \<Rightarrow> stored_attempt" where
  "rerouted_attempt e subject stageRef i s current =
     (queued_attempt subject (ref e ''attempt'' 0) (st_runRef s) stageRef (at_generation current + 1)
        (Some (at_attemptRef current)) (ri_runtime i) (ri_model i) (e_stamp e 0))
     \<lparr>at_managedSessionRef := Some (ref e ''session'' 1), at_logicalGeneration := at_logicalGeneration current,
      at_baseGenerationRef := at_baseGenerationRef current, at_baseCommit := at_baseCommit current,
      at_rerouteOperationKey := Some (ri_idempotencyKey i),
      at_rerouteOperationFingerprint := Some (reroute_fingerprint e stageRef i)\<rparr>"

definition rerouted_session ::
  "env \<Rightarrow> string \<Rightarrow> string \<Rightarrow> reroute_input \<Rightarrow> stored_stage \<Rightarrow> stored_attempt \<Rightarrow> stored_session \<Rightarrow> stored_session" where
  "rerouted_session e subject stageRef i s a prior =
     pending_session subject (ref e ''session'' 1) (st_runRef s) (Some stageRef) (Some (at_attemptRef a)) Worker
       (at_generation a) (Some (ms_sessionRef prior)) (ri_runtime i) (ri_model i) None None (e_stamp e 0)"

definition reroute_run_error :: "document \<Rightarrow> string \<Rightarrow> stored_stage \<Rightarrow> bool" where
  "reroute_run_error d subject s = (case findRun d subject (st_runRef s) OwnSubject of
     None \<Rightarrow> True
   | Some r \<Rightarrow> r_publicationState r \<noteq> PubPublished \<or> isTerminalRun (r_lifecycle r)
       \<or> runLifecycleKind (r_lifecycle r) = RStopping)"

definition reroute_replay :: "document \<Rightarrow> string \<Rightarrow> string \<Rightarrow> stored_attempt \<Rightarrow> reroute_result outcome" where
  "reroute_replay d subject stageRef a =
     (case (find (is_stage subject stageRef) (stages d),
            find (\<lambda>s. ms_subject s = subject \<and> Some (ms_sessionRef s) = at_managedSessionRef a) (sessions d)) of
        (Some s, Some m) \<Rightarrow> Replay \<lparr>rr_stage = publicStage s, rr_attempt = publicAttempt a, rr_session = publicSession m\<rparr>
      | _ \<Rightarrow> Refuse Conflict dt_reroute_projection)"

definition rerouteStage :: "env \<Rightarrow> string \<Rightarrow> string \<Rightarrow> reroute_input \<Rightarrow> document \<Rightarrow> reroute_result outcome" where
  "rerouteStage e subject stageRef i d =
     (if \<not> validNonEmpty (ri_idempotencyKey i) MAX_SHORT_TEXT \<or> \<not> validNonEmpty (ri_runtime i) MAX_SHORT_TEXT
        \<or> \<not> validNonEmpty (ri_model i) MAX_SHORT_TEXT \<or> \<not> SAFE_REF_RE (ri_expectedAttemptRef i)
        \<or> \<not> safe_int (ri_expectedStageVersion i) \<or> ri_expectedStageVersion i < 1
        \<or> \<not> safe_int (ri_expectedAttemptVersion i) \<or> ri_expectedAttemptVersion i < 1
      then Refuse Invalid dt_reroute_identity
      else case find (is_reroute subject stageRef (ri_idempotencyKey i)) (attempts d) of
        Some a \<Rightarrow>
          if at_rerouteOperationFingerprint a \<noteq> Some (reroute_fingerprint e stageRef i)
          then Refuse IdempotencyConflict dt_reroute_reused
          else reroute_replay d subject stageRef a
      | None \<Rightarrow>
       (case find (is_stage subject stageRef) (stages d) of
          None \<Rightarrow> Refuse NotFound dt_stage_not_found
        | Some s \<Rightarrow>
          if st_assignment s \<noteq> None then Refuse Invalid dt_reroute_assigned
          else if iterationLoopForStage d s \<noteq> None then Refuse Invalid dt_reroute_loop
          else if st_version s \<noteq> ri_expectedStageVersion i \<or> st_currentAttemptRef s \<noteq> Some (ri_expectedAttemptRef i)
          then Refuse Conflict dt_reroute_version
          else if st_state s \<noteq> SReady \<and> st_state s \<noteq> SBlocked then Refuse Invalid dt_reroute_ready
          else if reroute_run_error d subject s then Refuse Invalid dt_reroute_run
          else if list_ex (\<lambda>q. hq_subject q = subject \<and> hq_stageRef q = Some stageRef) (humanRequests d)
          then Refuse Invalid dt_reroute_gated
          else (case find (is_stage_attempt subject (ri_expectedAttemptRef i) stageRef) (attempts d) of
            None \<Rightarrow> Refuse Conflict dt_attempt_version
          | Some current \<Rightarrow>
            if at_version current \<noteq> ri_expectedAttemptVersion i then Refuse Conflict dt_attempt_version
            else if at_state current \<noteq> AQueued then Refuse Invalid dt_reroute_started
            else if at_runtime current = ri_runtime i \<and> at_model current = ri_model i
            then Refuse Invalid dt_reroute_same
            else (case find (is_attempt_session subject current) (sessions d) of
              None \<Rightarrow> Refuse Invalid dt_reroute_session
            | Some prior \<Rightarrow>
              if ms_state prior \<noteq> MPending then Refuse Invalid dt_reroute_session
              else let at = e_stamp e 0;
                       a = rerouted_attempt e subject stageRef i s current;
                       m = rerouted_session e subject stageRef i s a prior;
                       point = pointed_stage (at_attemptRef a) at in
                Commit (d\<lparr>stages := upd_first (is_stage subject stageRef) point (stages d),
                          attempts := upd_first (is_stage_attempt subject (ri_expectedAttemptRef i) stageRef)
                            (moved_attempt AStopped at) (attempts d) @ [a],
                          sessions := upd_first (is_attempt_session subject current)
                            (moved_session MStopped at) (sessions d) @ [m]\<rparr>)
                  \<lparr>rr_stage = publicStage (point s), rr_attempt = publicAttempt a, rr_session = publicSession m\<rparr>))))"

end
