(* ===== verification/IterationOutcome.thy ===== *)
theory IterationOutcome
  imports StoreCore
begin

text \<open>
  The outcome of an iteration turn (\<open>control/iterationOutcome.ts\<close>): the closed-shape parser that binds a
  participant's answer to its request, its authority and the authored criteria. The store parses the JSON
  text of the value it was handed, so the value, as JSON carries it, is what the parser sees here; the
  extraction of a payload from the prose of a model is left out.
\<close>

section \<open>The value JSON carries\<close>

fun json_value :: "js \<Rightarrow> js" where
  "json_value (JArr vs) = JArr (map (\<lambda>v. if v = JUndef then JNull else json_value v) vs)"
| "json_value (JObj kvs) = JObj (map (\<lambda>(k, v). (k, json_value v)) (filter (\<lambda>kv. snd kv \<noteq> JUndef) kvs))"
| "json_value (JInst kvs) = JObj (map (\<lambda>(k, v). (k, json_value v)) (filter (\<lambda>kv. snd kv \<noteq> JUndef) kvs))"
| "json_value JNaN = JNull"
| "json_value v = v"

section \<open>Bounds and words\<close>

definition MAX_SUMMARY_CHARS :: int where "MAX_SUMMARY_CHARS = 4000"
definition MAX_FINDING_SUMMARY_CHARS :: int where "MAX_FINDING_SUMMARY_CHARS = 2000"
definition MAX_CRITERIA :: nat where "MAX_CRITERIA = 16"
definition MAX_FINDINGS :: nat where "MAX_FINDINGS = 256"
definition MAX_FINDINGS_PER_CRITERION :: nat where "MAX_FINDINGS_PER_CRITERION = 32"
definition MAX_EVIDENCE_PATHS :: nat where "MAX_EVIDENCE_PATHS = 16"
definition MAX_POSITIONS :: nat where "MAX_POSITIONS = 256"
definition MAX_DISSENTS :: nat where "MAX_DISSENTS = 256"
definition MAX_GENERATION_REFS :: nat where "MAX_GENERATION_REFS = 256"
definition MAX_ITERATION_OUTCOME_CHARS :: int where "MAX_ITERATION_OUTCOME_CHARS = 5000000"
definition MAX_PATH_CHARS :: int where "MAX_PATH_CHARS = 512"

definition ITERATION_OUTCOME_REQUIRED_FIELDS :: "string list" where
  "ITERATION_OUTCOME_REQUIRED_FIELDS = [''schema'', ''requestRef'', ''iterationLoopRef'', ''participantId'',
     ''cycle'', ''verdict'', ''inputGenerationRefs'', ''criteria'', ''findings'', ''positions'',
     ''recordedDissent'', ''summary'']"

definition ITERATION_OUTCOME_FIELDS :: "string list" where
  "ITERATION_OUTCOME_FIELDS = ITERATION_OUTCOME_REQUIRED_FIELDS @ [''resolvedFindingRefs'']"

definition ITERATION_VERDICTS :: "string list" where
  "ITERATION_VERDICTS = [''fulfilled'', ''accept'', ''rework'', ''pass'', ''fail'', ''consensus'', ''continue'',
     ''complete'', ''parked'']"

definition TERMINAL_VERDICTS :: "string list" where
  "TERMINAL_VERDICTS = [''accept'', ''pass'', ''consensus'', ''complete'']"

definition NEGATIVE_VERDICTS :: "string list" where
  "NEGATIVE_VERDICTS = [''rework'', ''fail'']"

fun turn_kind_str :: "iteration_request_kind \<Rightarrow> string" where
  "turn_kind_str IkReview = ''review''"
| "turn_kind_str IkRework = ''rework''"
| "turn_kind_str IkPosition = ''position''"
| "turn_kind_str IkReply = ''reply''"
| "turn_kind_str IkDelegate = ''delegate''"
| "turn_kind_str IkCheck = ''check''"

definition exactFields :: "js \<Rightarrow> string list \<Rightarrow> bool" where
  "exactFields v names \<longleftrightarrow> list_all (\<lambda>k. k \<in> set names) (js_keys v) \<and> list_all (hasOwn v) names"

definition safeText :: "env \<Rightarrow> js \<Rightarrow> int \<Rightarrow> bool" where
  "safeText e v n \<longleftrightarrow> is_str v \<and> 1 \<le> length (js_str v) \<and> int (length (js_str v)) \<le> n \<and> nul \<notin> set (js_str v)
     \<and> e_redact e (js_str v) = js_str v"

definition outcome_id :: "js \<Rightarrow> bool" where
  "outcome_id v \<longleftrightarrow> is_str v \<and> SAFE_REF_RE (js_str v)"

definition outcome_ids :: "js \<Rightarrow> nat \<Rightarrow> bool" where
  "outcome_ids v n \<longleftrightarrow> is_arr v \<and> length (js_arr v) \<le> n \<and> list_all outcome_id (js_arr v)"

definition strs :: "js \<Rightarrow> string list" where
  "strs v = map js_str (js_arr v)"

definition invalidIteration :: "string \<Rightarrow> string" where
  "invalidIteration detail = ''invalid iteration outcome: '' @ detail"

definition at_index :: "string \<Rightarrow> nat \<Rightarrow> string \<Rightarrow> string" where
  "at_index field n detail = invalidIteration (field @ ''['' @ digits n @ '']'' @ detail)"

section \<open>Repository paths\<close>

fun js_split :: "char \<Rightarrow> string \<Rightarrow> string list" where
  "js_split c [] = [[]]"
| "js_split c (x # s) = (if x = c then [] # js_split c s
     else (case js_split c s of [] \<Rightarrow> [[x]] | w # ws \<Rightarrow> (x # w) # ws))"

definition ascii_lower :: "char \<Rightarrow> char" where
  "ascii_lower c = (if is_upper c then char_of ((of_char c :: nat) + 32) else c)"

definition device_name :: "string \<Rightarrow> bool" where
  "device_name s \<longleftrightarrow> s \<in> {''con'', ''prn'', ''aux'', ''nul''}
     \<or> length s = 4 \<and> take 3 s \<in> {''com'', ''lpt''} \<and> s ! 3 \<in> set ''123456789''"

definition WINDOWS_DEVICE_SEGMENT_RE :: "string \<Rightarrow> bool" where
  "WINDOWS_DEVICE_SEGMENT_RE s \<longleftrightarrow> device_name (map ascii_lower (takeWhile (\<lambda>c. c \<noteq> CHR ''.'') s))"

definition safe_segment :: "string \<Rightarrow> bool" where
  "safe_segment s \<longleftrightarrow> s \<noteq> ''.'' \<and> s \<noteq> ''..'' \<and> map ascii_lower s \<noteq> ''.git'' \<and> (s = [] \<or> last s \<noteq> CHR ''.'')
     \<and> \<not> WINDOWS_DEVICE_SEGMENT_RE s \<and> s \<noteq> [] \<and> list_all (\<lambda>c. is_alnum c \<or> c \<in> set ''._-'') s"

definition drive_prefix :: "string \<Rightarrow> bool" where
  "drive_prefix s = (case s of a # b # t \<Rightarrow> (is_lower a \<or> is_upper a) \<and> b = CHR '':'' | _ \<Rightarrow> False)"

definition isSafeRepoRelativePath :: "js \<Rightarrow> bool" where
  "isSafeRepoRelativePath v \<longleftrightarrow> is_str v \<and> (let s = js_str v in
     s \<noteq> [] \<and> int (length s) \<le> MAX_PATH_CHARS \<and> nul \<notin> set s \<and> CHR 0x5C \<notin> set s
     \<and> hd s \<noteq> CHR ''/'' \<and> last s \<noteq> CHR ''/'' \<and> \<not> drive_prefix s
     \<and> \<not> list_ex (\<lambda>i. take 2 (drop i s) = ''//'') [0..<length s]
     \<and> list_all safe_segment (js_split (CHR ''/'') s))"

section \<open>Authority\<close>

definition isLegalIterationVerdict :: "('l) iteration_loop_scheme \<Rightarrow> ('q) iteration_request_scheme \<Rightarrow> string \<Rightarrow> string \<Rightarrow> bool" where
  "isLegalIterationVerdict l q participantId verdict =
     (if verdict = ''parked'' then True
      else if verdict = ''fulfilled'' then ARTIFACT_PRODUCING_REQUEST_KINDS (iq_kind q)
      else if verdict \<in> set TERMINAL_VERDICTS
      then list_ex (\<lambda>t. ta_participantId t = participantId \<and> ta_verdict t = verdict) (il_terminalAuthorities l)
      else list_ex (\<lambda>s. case sp_after s of None \<Rightarrow> False
             | Some a \<Rightarrow> sf_participantId a = participantId \<and> sf_verdict a = verdict) (il_schedule l))"

text \<open>The contract of the turn: its criteria, its route and its own identity.\<close>

definition contract_error :: "('l) iteration_loop_scheme \<Rightarrow> ('q) iteration_request_scheme \<Rightarrow> string option" where
  "contract_error l q =
     (let ids = map cr_id (il_criteria l) in
      if length (il_criteria l) < 1 \<or> length (il_criteria l) > MAX_CRITERIA
        \<or> list_ex (\<lambda>i. \<not> SAFE_REF_RE i) ids \<or> \<not> all_distinct ids
        \<or> length (iq_criteria q) \<noteq> length (il_criteria l)
        \<or> \<not> list_all2 (\<lambda>a b. cr_id a = cr_id b \<and> cr_description a = cr_description b) (iq_criteria q) (il_criteria l)
      then Some (invalidIteration ''iteration contract criteria are invalid'')
      else (case (find (\<lambda>p. pt_participantId p = iq_recipientParticipantId q) (il_participants l),
                  find (\<lambda>r. ro_routeId r = iq_routeId q) (il_routes l)) of
        (Some p, Some r) \<Rightarrow>
          if ro_senderParticipantId r \<noteq> iq_senderParticipantId q
            \<or> ro_recipientParticipantId r \<noteq> iq_recipientParticipantId q
            \<or> turn_kind_str (iq_kind q) \<notin> set (ro_requestKinds r)
          then Some (invalidIteration ''iteration request route or participant is outside the declared group'')
          else if \<not> SAFE_REF_RE (iq_requestRef q) \<or> \<not> SAFE_REF_RE (iq_iterationLoopRef q)
            \<or> \<not> SAFE_REF_RE (iq_recipientParticipantId q) \<or> \<not> safe_int (iq_cycle q) \<or> iq_cycle q < 1
            \<or> length (iq_inputGenerationRefs q) < 1 \<or> length (iq_inputGenerationRefs q) > MAX_GENERATION_REFS
            \<or> \<not> list_all SAFE_REF_RE (iq_inputGenerationRefs q) \<or> \<not> all_distinct (iq_inputGenerationRefs q)
            \<or> length (iq_unresolvedFindingRefs q) > MAX_FINDINGS
            \<or> \<not> list_all SAFE_REF_RE (iq_unresolvedFindingRefs q) \<or> \<not> all_distinct (iq_unresolvedFindingRefs q)
          then Some (invalidIteration ''iteration request identity or generation lineage is invalid'')
          else None
      | _ \<Rightarrow> Some (invalidIteration ''iteration request route or participant is outside the declared group'')))"

section \<open>The parts of an outcome\<close>

definition resolved_refs :: "js \<Rightarrow> string \<Rightarrow> string list \<Rightarrow> string + string list option" where
  "resolved_refs raw verdict unresolved =
     (let v = fld raw ''resolvedFindingRefs'' in
      if \<not> hasOwn raw ''resolvedFindingRefs'' \<or> v = JArr [] then Inr None
      else require (verdict = ''complete'' \<or> verdict = ''consensus'')
             (invalidIteration ''resolvedFindingRefs are allowed only for complete and consensus'')
          (require (outcome_ids v MAX_FINDINGS \<and> all_distinct (strs v))
             (invalidIteration ''resolvedFindingRefs are invalid or duplicate'')
          (require (list_all (\<lambda>x. x \<in> set unresolved) (strs v))
             (invalidIteration ''resolvedFindingRefs must reference unresolved findings from the request'')
          (Inr (Some (sort (strs v)))))))"

fun parse_criteria :: "nat \<Rightarrow> string list \<Rightarrow> js list \<Rightarrow> string + criterion_outcome list" where
  "parse_criteria n ids [] = Inr []"
| "parse_criteria n ids (v # vs) =
     require (is_record v \<and> exactFields v [''criterionId'', ''verdict'', ''findingIds''])
       (at_index ''criteria'' n '' has an invalid shape'')
    (require (ids \<noteq> [] \<and> fld v ''criterionId'' = JStr (hd ids))
       (invalidIteration ''criteria must use authored order and ids exactly once'')
    (require (js_str (fld v ''verdict'') \<in> {''pass'', ''fail'', ''unverified''} \<and> is_str (fld v ''verdict''))
       (at_index ''criteria'' n ''.verdict is invalid'')
    (require (outcome_ids (fld v ''findingIds'') MAX_FINDINGS_PER_CRITERION)
       (at_index ''criteria'' n ''.findingIds are invalid'')
    (require (all_distinct (strs (fld v ''findingIds'')))
       (at_index ''criteria'' n ''.findingIds must be unique'')
    (sum_bind (parse_criteria (Suc n) (tl ids) vs) (\<lambda>rest.
       Inr (\<lparr>co_criterionId = hd ids, co_verdict = js_str (fld v ''verdict''),
             co_findingIds = strs (fld v ''findingIds'')\<rparr> # rest)))))))"

definition safe_evidence :: "env \<Rightarrow> js \<Rightarrow> bool" where
  "safe_evidence e v \<longleftrightarrow> isSafeRepoRelativePath v \<and> e_redact e (js_str v) = js_str v"

fun parse_findings :: "env \<Rightarrow> nat \<Rightarrow> string list \<Rightarrow> string list \<Rightarrow> js list \<Rightarrow> string + iteration_finding list" where
  "parse_findings e n seen criterionIds [] = Inr []"
| "parse_findings e n seen criterionIds (v # vs) =
     require (is_record v \<and> exactFields v [''findingId'', ''criterionId'', ''severity'', ''summary'', ''evidencePaths''])
       (at_index ''findings'' n '' has an invalid shape'')
    (let i = js_str (fld v ''findingId'') in
     require (outcome_id (fld v ''findingId'') \<and> i \<notin> set seen)
       (at_index ''findings'' n ''.findingId is invalid or duplicate'')
    (require (outcome_id (fld v ''criterionId'') \<and> js_str (fld v ''criterionId'') \<in> set criterionIds)
       (at_index ''findings'' n ''.criterionId is unknown'')
    (require (fld v ''severity'' = JStr ''blocking'' \<or> fld v ''severity'' = JStr ''advisory'')
       (at_index ''findings'' n ''.severity is invalid'')
    (require (safeText e (fld v ''summary'') MAX_FINDING_SUMMARY_CHARS)
       (at_index ''findings'' n ''.summary is unsafe or out of bounds'')
    (require (is_arr (fld v ''evidencePaths'') \<and> length (js_arr (fld v ''evidencePaths'')) \<le> MAX_EVIDENCE_PATHS
        \<and> list_all (safe_evidence e) (js_arr (fld v ''evidencePaths'')))
       (at_index ''findings'' n ''.evidencePaths are invalid'')
    (require (all_distinct (strs (fld v ''evidencePaths'')))
       (at_index ''findings'' n ''.evidencePaths must be unique'')
    (sum_bind (parse_findings e (Suc n) (i # seen) criterionIds vs) (\<lambda>rest.
       Inr (\<lparr>fi_findingId = i, fi_criterionId = js_str (fld v ''criterionId''),
             fi_severity = js_str (fld v ''severity''), fi_summary = js_str (fld v ''summary''),
             fi_evidencePaths = strs (fld v ''evidencePaths'')\<rparr> # rest)))))))))"

definition links_error :: "criterion_outcome list \<Rightarrow> iteration_finding list \<Rightarrow> string option" where
  "links_error cs fs =
     (if \<not> list_all (\<lambda>c. list_all (\<lambda>i. list_ex (\<lambda>f. fi_findingId f = i \<and> fi_criterionId f = co_criterionId c) fs)
          (co_findingIds c)) cs
      then Some (invalidIteration ''criterion findingIds must link to matching findings exactly once'')
      else if \<not> list_all (\<lambda>f. list_ex (\<lambda>c. co_criterionId c = fi_criterionId f \<and> fi_findingId f \<in> set (co_findingIds c)) cs) fs
      then Some (invalidIteration ''every finding must be linked by its criterion'')
      else None)"

fun parse_positions :: "env \<Rightarrow> nat \<Rightarrow> string list \<Rightarrow> string list \<Rightarrow> string list \<Rightarrow> js list \<Rightarrow> string + iteration_position list" where
  "parse_positions e n seen participantIds inputs [] = Inr []"
| "parse_positions e n seen participantIds inputs (v # vs) =
     require (is_record v \<and> exactFields v [''positionId'', ''participantId'', ''summary'', ''generationRefs''])
       (at_index ''positions'' n '' has an invalid shape'')
    (let i = js_str (fld v ''positionId''); gs = fld v ''generationRefs'' in
     require (outcome_id (fld v ''positionId'') \<and> i \<notin> set seen)
       (at_index ''positions'' n ''.positionId is invalid or duplicate'')
    (require (outcome_id (fld v ''participantId'') \<and> js_str (fld v ''participantId'') \<in> set participantIds)
       (at_index ''positions'' n ''.participantId is unknown'')
    (require (safeText e (fld v ''summary'') MAX_FINDING_SUMMARY_CHARS)
       (at_index ''positions'' n ''.summary is unsafe or out of bounds'')
    (require (outcome_ids gs MAX_GENERATION_REFS \<and> js_arr gs \<noteq> [] \<and> all_distinct (strs gs)
        \<and> list_all (\<lambda>g. g \<in> set inputs) (strs gs))
       (at_index ''positions'' n ''.generationRefs are stale or invalid'')
    (sum_bind (parse_positions e (Suc n) (i # seen) participantIds inputs vs) (\<lambda>rest.
       Inr (\<lparr>po_positionId = i, po_participantId = js_str (fld v ''participantId''),
             po_summary = js_str (fld v ''summary''), po_generationRefs = strs gs\<rparr> # rest)))))))"

fun current_positions_ok :: "env \<Rightarrow> string list \<Rightarrow> string list \<Rightarrow> string list \<Rightarrow> iteration_position list \<Rightarrow> bool" where
  "current_positions_ok e seen participantIds inputs [] = True"
| "current_positions_ok e seen participantIds inputs (p # ps) \<longleftrightarrow>
     SAFE_REF_RE (po_positionId p) \<and> po_positionId p \<notin> set seen \<and> po_participantId p \<in> set participantIds
     \<and> safeText e (JStr (po_summary p)) MAX_FINDING_SUMMARY_CHARS
     \<and> po_generationRefs p \<noteq> [] \<and> length (po_generationRefs p) \<le> MAX_GENERATION_REFS
     \<and> list_all (\<lambda>g. SAFE_REF_RE g \<and> g \<in> set inputs) (po_generationRefs p)
     \<and> current_positions_ok e (po_positionId p # seen) participantIds inputs ps"

fun parse_dissents :: "env \<Rightarrow> nat \<Rightarrow> string list \<Rightarrow> string list \<Rightarrow> iteration_position list \<Rightarrow> js list
    \<Rightarrow> string + iteration_dissent list" where
  "parse_dissents e n ids dissented current [] = Inr []"
| "parse_dissents e n ids dissented current (v # vs) =
     require (is_record v \<and> exactFields v [''dissentId'', ''participantId'', ''positionId'', ''summary''])
       (at_index ''recordedDissent'' n '' has an invalid shape'')
    (let i = js_str (fld v ''dissentId''); x = js_str (fld v ''positionId'') in
     require (outcome_id (fld v ''dissentId'') \<and> i \<notin> set ids)
       (at_index ''recordedDissent'' n ''.dissentId is invalid or duplicate'')
    (case (if outcome_id (fld v ''positionId'') then find (\<lambda>p. po_positionId p = x) current else None) of
       None \<Rightarrow> Inl (at_index ''recordedDissent'' n ''.positionId is unknown'')
     | Some p \<Rightarrow>
     require (fld v ''participantId'' = JStr (po_participantId p))
       (at_index ''recordedDissent'' n ''.participantId does not own the position'')
    (require (safeText e (fld v ''summary'') MAX_FINDING_SUMMARY_CHARS)
       (at_index ''recordedDissent'' n ''.summary is unsafe or out of bounds'')
    (require (x \<notin> set dissented) (at_index ''recordedDissent'' n ''.positionId is duplicated'')
    (sum_bind (parse_dissents e (Suc n) (i # ids) (x # dissented) current vs) (\<lambda>rest.
       Inr (\<lparr>ds_dissentId = i, ds_participantId = po_participantId p, ds_positionId = x,
             ds_summary = js_str (fld v ''summary'')\<rparr> # rest)))))))"

section \<open>What a verdict demands\<close>

definition failed_criteria :: "criterion_outcome list \<Rightarrow> criterion_outcome list" where
  "failed_criteria cs = filter (\<lambda>c. co_verdict c = ''fail'') cs"

definition unverified_criteria :: "criterion_outcome list \<Rightarrow> criterion_outcome list" where
  "unverified_criteria cs = filter (\<lambda>c. co_verdict c = ''unverified'') cs"

definition blocking :: "iteration_finding \<Rightarrow> bool" where
  "blocking f \<longleftrightarrow> fi_severity f = ''blocking''"

definition blocks_criterion :: "iteration_finding list \<Rightarrow> criterion_outcome \<Rightarrow> bool" where
  "blocks_criterion fs c \<longleftrightarrow> list_ex (\<lambda>i. list_ex (\<lambda>f. fi_findingId f = i \<and> blocking f) fs) (co_findingIds c)"

fun unresolved_error :: "string \<Rightarrow> string list \<Rightarrow> iteration_finding list \<Rightarrow> string list \<Rightarrow> string option" where
  "unresolved_error verdict resolved fs [] = None"
| "unresolved_error verdict resolved fs (x # xs) =
     (let restated = find (\<lambda>f. fi_findingId f = x) fs in
      if map_option fi_severity restated = Some ''blocking''
      then Some (invalidIteration (verdict @ '' cannot restate unresolved finding '' @ [CHR 0x27] @ x @ [CHR 0x27] @ '' as blocking''))
      else if x \<notin> set resolved \<and> map_option fi_severity restated \<noteq> Some ''advisory''
      then Some (invalidIteration (verdict @ '' must resolve or restate unresolved finding '' @ [CHR 0x27] @ x @ [CHR 0x27]
             @ '' as advisory residue''))
      else unresolved_error verdict resolved fs xs)"

definition unbound_position :: "iteration_position list \<Rightarrow> iteration_position \<Rightarrow> bool" where
  "unbound_position current p \<longleftrightarrow> find (\<lambda>c. po_positionId c = po_positionId p) current \<noteq> Some p"

definition unincorporated :: "iteration_position list \<Rightarrow> string list \<Rightarrow> iteration_position \<Rightarrow> bool" where
  "unincorporated ps dissented c =
     (let incorporated = find (\<lambda>p. po_positionId p = po_positionId c) ps in
      (case incorporated of None \<Rightarrow> False | Some p \<Rightarrow> p \<noteq> c)
      \<or> ((incorporated \<noteq> None) = (po_positionId c \<in> set dissented)))"

definition verdict_error :: "string \<Rightarrow> criterion_outcome list \<Rightarrow> iteration_finding list \<Rightarrow> string list option
    \<Rightarrow> iteration_position list \<Rightarrow> iteration_dissent list \<Rightarrow> iteration_position list \<Rightarrow> string list \<Rightarrow> string option" where
  "verdict_error verdict cs fs resolved ps ds current unresolved =
     (let deliberates = (verdict = ''consensus'' \<or> verdict = ''continue'') in
      if \<not> deliberates \<and> (ps \<noteq> [] \<or> ds \<noteq> [])
      then Some (invalidIteration (verdict @ '' must carry no positions or recorded dissent''))
      else if deliberates \<and> list_ex (unbound_position current) ps
      then Some (invalidIteration (verdict @ '' position '' @ [CHR 0x27]
             @ (case find (unbound_position current) ps of None \<Rightarrow> [] | Some p \<Rightarrow> po_positionId p) @ [CHR 0x27]
             @ '' is not bound to the current server position set''))
      else if verdict \<in> set TERMINAL_VERDICTS
        \<and> (failed_criteria cs \<noteq> [] \<or> unverified_criteria cs \<noteq> [] \<or> list_ex blocking fs)
      then Some (invalidIteration (verdict @ '' requires all criteria to pass and no blocking findings''))
      else if verdict \<in> set NEGATIVE_VERDICTS \<and> (unverified_criteria cs \<noteq> [] \<or> failed_criteria cs = [])
      then Some (invalidIteration (verdict
             @ '' requires structured findings, failed criteria, and no unverified criteria''))
      else if verdict \<in> set NEGATIVE_VERDICTS \<and> list_ex (\<lambda>c. \<not> blocks_criterion fs c) (failed_criteria cs)
      then Some (invalidIteration (''every criterion failed by '' @ verdict @ '' requires a linked blocking finding''))
      else if verdict = ''continue'' \<and> fs = []
      then Some (invalidIteration ''continue requires at least one linked disagreement or evidence-gap finding'')
      else if verdict = ''parked'' \<and> unverified_criteria cs = []
      then Some (invalidIteration ''parked requires an unverified criterion'')
      else (case (if verdict = ''complete'' \<or> verdict = ''consensus''
                  then unresolved_error verdict (case resolved of None \<Rightarrow> [] | Some xs \<Rightarrow> xs) fs unresolved else None) of
        Some err \<Rightarrow> Some err
      | None \<Rightarrow>
          if verdict = ''consensus'' \<and> list_ex (unincorporated ps (map ds_positionId ds)) current
          then Some (invalidIteration (''consensus must incorporate position '' @ [CHR 0x27]
             @ (case find (unincorporated ps (map ds_positionId ds)) current of None \<Rightarrow> [] | Some p \<Rightarrow> po_positionId p)
             @ [CHR 0x27] @ '' or record it as dissent exactly once''))
          else None))"

section \<open>The parser\<close>

definition criteria_count_ok :: "string \<Rightarrow> js \<Rightarrow> nat \<Rightarrow> (string + 'a) \<Rightarrow> string + 'a" where
  "criteria_count_ok verdict v n k =
     require (is_arr v) (invalidIteration ''criteria are invalid'')
    (if verdict = ''fulfilled''
     then require (js_arr v = []) (invalidIteration ''fulfilled must carry no criteria verdicts'') k
     else require (length (js_arr v) = n) (invalidIteration ''criteria must contain every authored criterion exactly once'') k)"

definition none_or :: "string option \<Rightarrow> (string + 'a) \<Rightarrow> string + 'a" where
  "none_or x k = (case x of Some err \<Rightarrow> Inl err | None \<Rightarrow> k)"

definition iteration_outcome_of :: "env \<Rightarrow> js \<Rightarrow> ('l) iteration_loop_scheme \<Rightarrow> ('q) iteration_request_scheme
    \<Rightarrow> iteration_position list \<Rightarrow> string + iteration_outcome" where
  "iteration_outcome_of e raw l q current =
     (let verdict = js_str (fld raw ''verdict''); inputs = iq_inputGenerationRefs q;
          people = map pt_participantId (il_participants l) in
     require (is_record raw \<and> list_all (\<lambda>k. k \<in> set ITERATION_OUTCOME_FIELDS) (js_keys raw)
        \<and> list_all (hasOwn raw) ITERATION_OUTCOME_REQUIRED_FIELDS)
       (invalidIteration (''top-level shape must contain exactly ''
          @ js_join '', '' ITERATION_OUTCOME_REQUIRED_FIELDS @ '', with optional resolvedFindingRefs''))
    (require (fld raw ''schema'' = JStr ''kb.iteration-outcome/v1'')
       (invalidIteration ''schema must be kb.iteration-outcome/v1'')
    (require (safeText e (fld raw ''summary'') MAX_SUMMARY_CHARS)
       (invalidIteration ''summary is unsafe or out of bounds'')
    (none_or (contract_error l q)
    (require (fld raw ''requestRef'' = JStr (iq_requestRef q) \<and> fld raw ''iterationLoopRef'' = JStr (iq_iterationLoopRef q)
        \<and> fld raw ''participantId'' = JStr (iq_recipientParticipantId q) \<and> fld raw ''cycle'' = JNum (iq_cycle q))
       (invalidIteration ''outcome identity does not match the exact request and participant'')
    (require (is_arr (fld raw ''inputGenerationRefs'') \<and> list_all outcome_id (js_arr (fld raw ''inputGenerationRefs''))
        \<and> strs (fld raw ''inputGenerationRefs'') = inputs)
       (invalidIteration ''input generation refs do not match the exact request generations'')
    (require (is_str (fld raw ''verdict'') \<and> verdict \<in> set ITERATION_VERDICTS) (invalidIteration ''verdict is invalid'')
    (require (isLegalIterationVerdict l q (iq_recipientParticipantId q) verdict)
       (invalidIteration (''participant '' @ [CHR 0x27] @ iq_recipientParticipantId q @ [CHR 0x27]
          @ '' is not authorized to issue verdict '' @ [CHR 0x27] @ verdict @ [CHR 0x27]))
    (sum_bind (resolved_refs raw verdict (iq_unresolvedFindingRefs q)) (\<lambda>resolved.
     criteria_count_ok verdict (fld raw ''criteria'') (length (il_criteria l))
    (sum_bind (parse_criteria 0 (map cr_id (il_criteria l)) (js_arr (fld raw ''criteria''))) (\<lambda>cs.
     require (is_arr (fld raw ''findings'') \<and> length (js_arr (fld raw ''findings'')) \<le> MAX_FINDINGS)
       (invalidIteration ''findings are out of bounds'')
    (sum_bind (parse_findings e 0 [] (map co_criterionId cs) (js_arr (fld raw ''findings''))) (\<lambda>fs.
     none_or (links_error cs fs)
    (require (is_arr (fld raw ''positions'') \<and> length (js_arr (fld raw ''positions'')) \<le> MAX_POSITIONS)
       (invalidIteration ''positions are out of bounds'')
    (sum_bind (parse_positions e 0 [] people inputs (js_arr (fld raw ''positions''))) (\<lambda>ps.
     require (current_positions_ok e [] people inputs current)
       (invalidIteration ''iteration contract current positions are invalid'')
    (require (is_arr (fld raw ''recordedDissent'') \<and> length (js_arr (fld raw ''recordedDissent'')) \<le> MAX_DISSENTS)
       (invalidIteration ''recorded dissent is out of bounds'')
    (sum_bind (parse_dissents e 0 [] [] current (js_arr (fld raw ''recordedDissent''))) (\<lambda>ds.
     none_or (verdict_error verdict cs fs resolved ps ds current (iq_unresolvedFindingRefs q))
    (Inr \<lparr>oc_requestRef = iq_requestRef q, oc_iterationLoopRef = iq_iterationLoopRef q,
         oc_participantId = iq_recipientParticipantId q, oc_cycle = iq_cycle q, oc_verdict = verdict,
         oc_inputGenerationRefs = inputs, oc_criteria = cs, oc_findings = fs, oc_resolvedFindingRefs = resolved,
         oc_positions = ps, oc_recordedDissent = ds, oc_summary = js_str (fld raw ''summary'')\<rparr>)))))))))))))))))))))"

text \<open>The parser on the JSON text of a value.\<close>

definition parseIterationOutcome :: "env \<Rightarrow> js \<Rightarrow> ('l) iteration_loop_scheme \<Rightarrow> ('q) iteration_request_scheme
    \<Rightarrow> iteration_position list \<Rightarrow> string + iteration_outcome" where
  "parseIterationOutcome e v l q current =
     (if int (length (json_stringify v)) > MAX_ITERATION_OUTCOME_CHARS
      then Inl (invalidIteration ''payload exceeds the iteration outcome bound'')
      else iteration_outcome_of e (json_value v) l q current)"

end
