(* ===== verification/IterationWall.thy ===== *)
theory IterationWall
  imports Runs IterationOutcome
begin

text \<open>
  The wall of the iteration rows (\<open>validateIterationDurability\<close> of \<open>control/store.ts\<close>): what a document, a
  quarantined bundle or the rows of one run must satisfy before they are used or saved. It reads nine
  collections in order and throws at the first row that breaks a rule. The hashes and fingerprints it
  recomputes (\<open>control/controlHashing.ts\<close>) are here too.

  Rows are typed here, so the tests of their JSON types have nothing left to say. A \<open>Map\<close> built from rows
  answers with the last row of a key; a \<open>Set\<close> is a list asked for membership.
\<close>

section \<open>Lookups\<close>

definition find_by :: "('r \<Rightarrow> 'a \<Rightarrow> bool) \<Rightarrow> 'r option \<Rightarrow> 'a list \<Rightarrow> 'a option" where
  "find_by p x rows = (case x of None \<Rightarrow> None | Some r \<Rightarrow> find (p r) rows)"

definition first_some :: "'a option \<Rightarrow> 'a option \<Rightarrow> 'a option" where
  "first_some x y = (case x of None \<Rightarrow> y | Some a \<Rightarrow> Some a)"

definition last_by :: "('a \<Rightarrow> bool) \<Rightarrow> 'a list \<Rightarrow> 'a option" where
  "last_by p xs = find p (rev xs)"

fun first_error :: "string option list \<Rightarrow> string option" where
  "first_error [] = None"
| "first_error (x # xs) = (case x of None \<Rightarrow> first_error xs | Some err \<Rightarrow> Some err)"

definition wall :: "bool \<Rightarrow> string \<Rightarrow> string option" where
  "wall b err = (if b then None else Some err)"

definition given :: "('a \<Rightarrow> bool) \<Rightarrow> 'a option \<Rightarrow> bool" where
  "given p x = (case x of None \<Rightarrow> False | Some a \<Rightarrow> p a)"

definition if_given :: "('a \<Rightarrow> bool) \<Rightarrow> 'a option \<Rightarrow> bool" where
  "if_given p x = (case x of None \<Rightarrow> True | Some a \<Rightarrow> p a)"

definition stage_id_key :: "string \<Rightarrow> string \<Rightarrow> string \<Rightarrow> string" where
  "stage_id_key subject runRef stageId = subject @ [nul] @ runRef @ [nul] @ stageId"

definition stage_by_id :: "document \<Rightarrow> string \<Rightarrow> stored_stage option" where
  "stage_by_id d k = last_by (\<lambda>s. stage_id_key (st_subject s) (st_runRef s) (st_stageId s) = k) (stages d)"

definition stage_by_ref :: "document \<Rightarrow> string \<Rightarrow> stored_stage option" where
  "stage_by_ref d r = last_by (\<lambda>s. st_stageRef s = r) (stages d)"

definition attempt_by_ref :: "document \<Rightarrow> string \<Rightarrow> stored_attempt option" where
  "attempt_by_ref d r = last_by (\<lambda>a. at_attemptRef a = r) (attempts d)"

definition generation_by_ref :: "document \<Rightarrow> string \<Rightarrow> stored_generation option" where
  "generation_by_ref d r = last_by (\<lambda>g. sg_generationRef g = r) (stageGenerations d)"

definition loop_by_ref :: "document \<Rightarrow> string \<Rightarrow> stored_loop option" where
  "loop_by_ref d r = last_by (\<lambda>l. il_iterationLoopRef l = r) (iterationLoops d)"

definition turn_by_ref :: "document \<Rightarrow> string \<Rightarrow> stored_turn_request option" where
  "turn_by_ref d r = last_by (\<lambda>q. iq_requestRef q = r) (iterationRequests d)"

definition human_by_ref :: "document \<Rightarrow> string \<Rightarrow> stored_request option" where
  "human_by_ref d r = last_by (\<lambda>q. hq_requestRef q = r) (humanRequests d)"

definition answered_turn :: "document \<Rightarrow> string \<Rightarrow> bool" where
  "answered_turn d requestRef = list_ex (\<lambda>r. oc_requestRef r = requestRef) (iterationReceipts d)"

definition participant_of_loop :: "('l) iteration_loop_scheme \<Rightarrow> string \<Rightarrow> participant option" where
  "participant_of_loop l participantId = find (\<lambda>p. pt_participantId p = participantId) (il_participants l)"

section \<open>Hashes and keys\<close>

definition CANONICAL_COMMIT_RE :: "string \<Rightarrow> bool" where
  "CANONICAL_COMMIT_RE s \<longleftrightarrow> hex_len 40 s \<or> hex_len 64 s"

definition strs_js :: "string list \<Rightarrow> js" where
  "strs_js xs = JArr (map JStr xs)"

definition criterion_outcome_js :: "criterion_outcome \<Rightarrow> js" where
  "criterion_outcome_js c = JObj [(''criterionId'', JStr (co_criterionId c)), (''verdict'', JStr (co_verdict c)),
     (''findingIds'', strs_js (co_findingIds c))]"

definition finding_js :: "iteration_finding \<Rightarrow> js" where
  "finding_js f = JObj [(''findingId'', JStr (fi_findingId f)), (''criterionId'', JStr (fi_criterionId f)),
     (''severity'', JStr (fi_severity f)), (''summary'', JStr (fi_summary f)),
     (''evidencePaths'', strs_js (fi_evidencePaths f))]"

definition position_js :: "iteration_position \<Rightarrow> js" where
  "position_js p = JObj [(''positionId'', JStr (po_positionId p)), (''participantId'', JStr (po_participantId p)),
     (''summary'', JStr (po_summary p)), (''generationRefs'', strs_js (po_generationRefs p))]"

definition dissent_js :: "iteration_dissent \<Rightarrow> js" where
  "dissent_js x = JObj [(''dissentId'', JStr (ds_dissentId x)), (''participantId'', JStr (ds_participantId x)),
     (''positionId'', JStr (ds_positionId x)), (''summary'', JStr (ds_summary x))]"

definition outcome_fields :: "('o) iteration_outcome_scheme \<Rightarrow> (string \<times> js) list" where
  "outcome_fields x = [(''requestRef'', JStr (oc_requestRef x)), (''iterationLoopRef'', JStr (oc_iterationLoopRef x)),
     (''participantId'', JStr (oc_participantId x)), (''cycle'', JNum (oc_cycle x)), (''verdict'', JStr (oc_verdict x)),
     (''inputGenerationRefs'', strs_js (oc_inputGenerationRefs x)),
     (''criteria'', JArr (map criterion_outcome_js (oc_criteria x))),
     (''findings'', JArr (map finding_js (oc_findings x)))]
     @ (case oc_resolvedFindingRefs x of None \<Rightarrow> [] | Some rs \<Rightarrow> [(''resolvedFindingRefs'', strs_js rs)])
     @ [(''positions'', JArr (map position_js (oc_positions x))),
     (''recordedDissent'', JArr (map dissent_js (oc_recordedDissent x))), (''summary'', JStr (oc_summary x))]"

definition hashes_js :: "(string \<times> string) list \<Rightarrow> js" where
  "hashes_js m = JObj (map (\<lambda>(k, v). (k, JStr v)) m)"

definition iterationRequestBody :: "('q) iteration_request_scheme \<Rightarrow> js" where
  "iterationRequestBody q = JObj [(''schema'', JStr ''kb.iteration-request/v1''), (''requestRef'', JStr (iq_requestRef q)),
     (''iterationLoopRef'', JStr (iq_iterationLoopRef q)), (''stepId'', JStr (iq_stepId q)),
     (''routeId'', JStr (iq_routeId q)), (''senderParticipantId'', JStr (iq_senderParticipantId q)),
     (''recipientParticipantId'', JStr (iq_recipientParticipantId q)), (''kind'', JStr (turn_kind_str (iq_kind q))),
     (''cycle'', JNum (iq_cycle q)), (''inputGenerationRefs'', strs_js (iq_inputGenerationRefs q)),
     (''baseCommit'', JStr (iq_baseCommit q)), (''artifactHashes'', hashes_js (iq_artifactHashes q)),
     (''criteria'', JArr (map (\<lambda>c. JObj [(''id'', JStr (cr_id c)), (''description'', JStr (cr_description c))]) (iq_criteria q))),
     (''unresolvedFindingRefs'', strs_js (iq_unresolvedFindingRefs q)),
     (''preservedInvariants'', strs_js (iq_preservedInvariants q)),
     (''nextAcceptanceCheck'', JStr (iq_nextAcceptanceCheck q)), (''instructions'', JStr (iq_instructions q))]"

definition iterationRequestFingerprint :: "env \<Rightarrow> ('q) iteration_request_scheme \<Rightarrow> string" where
  "iterationRequestFingerprint e q = e_sha256 e (canonicalJson (iterationRequestBody q))"

definition iterationDefinitionHash :: "env \<Rightarrow> js \<Rightarrow> string" where
  "iterationDefinitionHash e g = e_sha256 e (canonicalJson g)"

definition generationOperationKey :: "string \<Rightarrow> string \<Rightarrow> int \<Rightarrow> string" where
  "generationOperationKey runRef stageId generation = ''result:'' @ runRef @ '':'' @ stageId
     @ (if generation = 1 then [] else '':g'' @ int_str generation)"

section \<open>Artifact snapshots\<close>

definition snapshot_side_ok :: "bool \<Rightarrow> int option \<Rightarrow> string option \<Rightarrow> bool" where
  "snapshot_side_ok regular sz hash \<longleftrightarrow>
     (case sz of None \<Rightarrow> True | Some n \<Rightarrow> safe_int n \<and> 0 \<le> n) \<and> (case hash of None \<Rightarrow> True | Some h \<Rightarrow> HASH_RE h)
     \<and> (if regular then sz \<noteq> None \<and> hash \<noteq> None else sz = None \<and> hash = None)"

definition validIterationArtifactSnapshot :: "artifact_snapshot \<Rightarrow> bool" where
  "validIterationArtifactSnapshot x \<longleftrightarrow>
     (let path = sn_path x;
          segments = js_split (CHR ''/'') (map (\<lambda>c. if c = CHR 0x5C then CHR ''/'' else c) path) in
      validNonEmpty path MAX_LONG_TEXT \<and> \<not> drive_prefix path \<and> take 1 path \<noteq> ''/''
      \<and> list_all (\<lambda>s. s \<noteq> [] \<and> s \<noteq> ''..'') segments
      \<and> snapshot_side_ok (sn_regularFile x) (sn_size x) (sn_sha256 x)
      \<and> snapshot_side_ok (sn_afterRegularFile x) (sn_afterSize x) (sn_afterSha256 x)
      \<and> sn_byteIdentical x = (sn_regularFile x \<and> sn_afterRegularFile x \<and> sn_size x = sn_afterSize x
          \<and> sn_sha256 x = sn_afterSha256 x))"

section \<open>Generations\<close>

definition dw_generation :: string where "dw_generation = ''invalid control-plane stage generation''"
definition dw_predecessor :: string where "dw_predecessor = ''invalid control-plane stage generation predecessor''"

definition stored_generation_fingerprint :: "env \<Rightarrow> string \<Rightarrow> int \<Rightarrow> int \<Rightarrow> stored_generation \<Rightarrow> string" where
  "stored_generation_fingerprint e stageRef stageVersion attemptVersion g = sha256_json e (JObj
     [(''stageRef'', JStr stageRef), (''expectedStageVersion'', JNum stageVersion),
      (''expectedAttemptVersion'', JNum attemptVersion), (''expectedGeneration'', JNum (sg_generation g)),
      (''operationKey'', opt_str (sg_canonicalResultOperationKey g)), (''resultHash'', opt_str (sg_resultHash g)),
      (''resultCardRef'', opt_str (sg_resultCardRef g)), (''baseCommit'', opt_str (sg_baseCommit g)),
      (''canonicalCommit'', opt_str (sg_canonicalCommit g))])"

text \<open>The fingerprint is looked for under every version the stage has had.\<close>

definition generationFingerprintMatches :: "env \<Rightarrow> stored_generation \<Rightarrow> stored_stage \<Rightarrow> stored_attempt \<Rightarrow> bool" where
  "generationFingerprintMatches e g s a = list_ex (\<lambda>v.
     stored_generation_fingerprint e (st_stageRef s) v (at_version a) g = sg_operationFingerprint g) [1..st_version s]"

definition iteration_operation :: "document \<Rightarrow> stored_generation \<Rightarrow> bool" where
  "iteration_operation d g = list_ex (\<lambda>q.
     let l = find (\<lambda>l. il_iterationLoopRef l = iq_iterationLoopRef q) (iterationLoops d) in
     iq_subject q = sg_subject g \<and> iq_runRef q = sg_runRef g
     \<and> given (\<lambda>l. given (\<lambda>p. pt_stageRef p = sg_logicalStageId g) (participant_of_loop l (iq_recipientParticipantId q))) l
     \<and> sg_canonicalResultOperationKey g
         = Some (iterationGenerationOperationKey (sg_runRef g) (sg_logicalStageId g) (iq_requestRef q)))
     (iterationRequests d)"

definition queued_shape :: "stored_generation \<Rightarrow> bool" where
  "queued_shape g \<longleftrightarrow> sg_canonicalResultOperationKey g = None \<and> sg_resultHash g = None \<and> sg_resultCardRef g = None
     \<and> sg_baseCommit g = None \<and> sg_canonicalCommit g = None"

definition committed_shape :: "env \<Rightarrow> document \<Rightarrow> stored_stage \<Rightarrow> stored_attempt \<Rightarrow> stored_generation \<Rightarrow> bool" where
  "committed_shape e d s a g \<longleftrightarrow>
     (let turn = iteration_operation d g in
      sg_state g = GenCommitted
      \<and> (turn \<or> sg_canonicalResultOperationKey g
            = Some (generationOperationKey (sg_runRef g) (sg_logicalStageId g) (sg_generation g)))
      \<and> given HASH_RE (sg_resultHash g) \<and> generationFingerprintMatches e g s a \<and> if_given SAFE_REF_RE (sg_resultCardRef g)
      \<and> (if turn \<or> sg_generation g > 1 then sg_resultCardRef g = None
         else st_canonicalCardRef s \<noteq> None \<and> sg_resultCardRef g = st_canonicalCardRef s)
      \<and> given CANONICAL_COMMIT_RE (sg_baseCommit g) \<and> given CANONICAL_COMMIT_RE (sg_canonicalCommit g))"

definition generation_key :: "stored_generation \<Rightarrow> string" where
  "generation_key g = sg_logicalStageRef g @ '':'' @ int_str (sg_generation g)"

definition generation_row_ok :: "env \<Rightarrow> document \<Rightarrow> stored_generation list \<Rightarrow> stored_generation \<Rightarrow> bool" where
  "generation_row_ok e d seen g \<longleftrightarrow>
     (case (stage_by_ref d (sg_logicalStageRef g), attempt_by_ref d (sg_attemptRef g)) of
        (Some s, Some a) \<Rightarrow>
          sg_subject g = st_subject s \<and> sg_subject g = at_subject a \<and> sg_runRef g = st_runRef s
          \<and> sg_runRef g = at_runRef a \<and> at_stageRef a = st_stageRef s \<and> sg_logicalStageId g = st_stageId s
          \<and> safe_int (sg_generation g) \<and> 1 \<le> sg_generation g \<and> SAFE_REF_RE (sg_generationRef g)
          \<and> SAFE_REF_RE (sg_attemptRef g) \<and> HASH_RE (sg_operationFingerprint g)
          \<and> sg_generationRef g \<notin> set (map sg_generationRef seen) \<and> generation_key g \<notin> set (map generation_key seen)
          \<and> if_given (\<lambda>k. Some k \<notin> set (map sg_canonicalResultOperationKey seen)) (sg_canonicalResultOperationKey g)
          \<and> (if sg_state g = GenQueued then queued_shape g else committed_shape e d s a g)
      | _ \<Rightarrow> False)"

fun generations_error :: "env \<Rightarrow> document \<Rightarrow> stored_generation list \<Rightarrow> stored_generation list \<Rightarrow> string option" where
  "generations_error e d seen [] = None"
| "generations_error e d seen (g # gs) =
     (if generation_row_ok e d seen g then generations_error e d (g # seen) gs else Some dw_generation)"

definition predecessor_ok :: "document \<Rightarrow> stored_generation \<Rightarrow> bool" where
  "predecessor_ok d g = (if sg_generation g = 1 then sg_predecessorGenerationRef g = None
     else if sg_generation g > 1 then given (\<lambda>r. given (\<lambda>p. sg_logicalStageRef p = sg_logicalStageRef g
            \<and> sg_generation p = sg_generation g - 1) (generation_by_ref d r)) (sg_predecessorGenerationRef g)
     else True)"

section \<open>Loops\<close>

definition dw_loop :: string where "dw_loop = ''invalid control-plane iteration loop''"
definition dw_participant :: string where "dw_participant = ''invalid control-plane iteration participant''"
definition dw_route :: string where "dw_route = ''invalid control-plane iteration route''"
definition dw_schedule :: string where "dw_schedule = ''invalid control-plane iteration schedule''"
definition dw_projection :: string where "dw_projection = ''invalid control-plane iteration loop projection''"
definition dw_loop_state :: string where "dw_loop_state = ''invalid control-plane iteration loop state''"

definition participant_ids :: "('l) iteration_loop_scheme \<Rightarrow> string list" where
  "participant_ids l = map pt_participantId (il_participants l)"

definition step_ids :: "('l) iteration_loop_scheme \<Rightarrow> string list" where
  "step_ids l = map sp_stepId (il_schedule l)"

definition loop_shape_ok :: "env \<Rightarrow> stored_loop list \<Rightarrow> stored_loop \<Rightarrow> bool" where
  "loop_shape_ok e seen l \<longleftrightarrow>
     SAFE_REF_RE (il_iterationLoopRef l) \<and> il_iterationLoopRef l \<notin> set (map il_iterationLoopRef seen)
     \<and> SAFE_STAGE_ID_RE (il_iterationGroupId l) \<and> il_definitionHash l = iterationDefinitionHash e (il_definition l)
     \<and> safe_int (il_version l) \<and> 0 \<le> il_version l
     \<and> safe_int (il_cyclesUsed l) \<and> 0 \<le> il_cyclesUsed l \<and> il_cyclesUsed l \<le> il_maxCycles l
     \<and> safe_int (il_maxCycles l) \<and> 1 \<le> il_maxCycles l \<and> validNonEmpty (il_cycleUnit l) MAX_LONG_TEXT
     \<and> 2 \<le> length (il_participants l) \<and> all_distinct (participant_ids l)
     \<and> 1 \<le> length (il_routes l) \<and> all_distinct (map ro_routeId (il_routes l))
     \<and> 1 \<le> length (il_schedule l) \<and> all_distinct (step_ids l) \<and> il_initialStepId l \<in> set (step_ids l)
     \<and> il_seedParticipantId l \<in> set (participant_ids l) \<and> list_all (\<lambda>a. a \<in> set (il_artifacts l)) (il_seedArtifactIds l)
     \<and> if_given SAFE_REF_RE (il_completionGateRef l) \<and> if_given SAFE_REF_RE (il_interventionRef l)
     \<and> (il_advanceOperationKey l = None) = (il_advanceOperationFingerprint l = None)
     \<and> if_given (\<lambda>k. validNonEmpty k MAX_SHORT_TEXT \<and> given HASH_RE (il_advanceOperationFingerprint l)) (il_advanceOperationKey l)"

definition loop_stage_key :: "stored_loop \<Rightarrow> string \<Rightarrow> string" where
  "loop_stage_key l stageId = stage_id_key (il_subject l) (il_runRef l) stageId"

text \<open>A stage takes part in one loop, under one participant; \<open>seen\<close> is the set the wall fills.\<close>

fun participants_ok :: "document \<Rightarrow> stored_loop \<Rightarrow> string list \<Rightarrow> participant list \<Rightarrow> bool" where
  "participants_ok d l seen [] = True"
| "participants_ok d l seen (p # ps) \<longleftrightarrow>
     stage_by_id d (loop_stage_key l (pt_stageRef p)) \<noteq> None \<and> loop_stage_key l (pt_stageRef p) \<notin> set seen
     \<and> SAFE_REF_RE (pt_participantId p) \<and> validNonEmpty (pt_mandate p) MAX_LONG_TEXT
     \<and> validNonEmpty (pt_perspective p) MAX_LONG_TEXT
     \<and> participants_ok d l (loop_stage_key l (pt_stageRef p) # seen) ps"

definition route_ok :: "document \<Rightarrow> stored_loop \<Rightarrow> iteration_route \<Rightarrow> bool" where
  "route_ok d l r \<longleftrightarrow> ro_senderParticipantId r \<in> set (participant_ids l) \<and> ro_recipientParticipantId r \<in> set (participant_ids l)
     \<and> ro_senderParticipantId r \<noteq> ro_recipientParticipantId r \<and> 1 \<le> length (ro_requestKinds r)
     \<and> list_all (\<lambda>i. stage_by_id d (loop_stage_key l i) \<noteq> None) (ro_baseResolutionStageIds r)"

definition step_ok :: "stored_loop \<Rightarrow> schedule_step \<Rightarrow> bool" where
  "step_ok l s \<longleftrightarrow> sp_routeId s \<in> set (map ro_routeId (il_routes l))
     \<and> if_given (\<lambda>a. sf_stepId a \<in> set (step_ids l) \<and> sf_participantId a \<in> set (participant_ids l)) (sp_after s)"

definition loop_projection_ok :: "document \<Rightarrow> stored_loop \<Rightarrow> bool" where
  "loop_projection_ok d l \<longleftrightarrow> if_given (\<lambda>p. p \<in> set (participant_ids l)) (il_turnOwnerParticipantId l)
     \<and> if_given (\<lambda>s. s \<in> set (step_ids l)) (il_currentStepId l)
     \<and> list_all (\<lambda>r. map_option sg_runRef (generation_by_ref d r) = Some (il_runRef l)) (il_activeGenerationRefs l)
     \<and> if_given (list_all (\<lambda>r. r \<in> set (il_activeGenerationRefs l))) (il_acceptedGenerationRefs l)"

definition open_turn :: "document \<Rightarrow> stored_loop \<Rightarrow> stored_turn_request option" where
  "open_turn d l = last_by (\<lambda>q. iq_iterationLoopRef q = il_iterationLoopRef l \<and> Some (iq_stepId q) = il_currentStepId l
     \<and> \<not> answered_turn d (iq_requestRef q)) (iterationRequests d)"

definition owner_stage :: "document \<Rightarrow> stored_loop \<Rightarrow> stored_stage option" where
  "owner_stage d l = (case find_by (\<lambda>x p. pt_participantId p = x) (il_turnOwnerParticipantId l) (il_participants l) of
     None \<Rightarrow> None | Some p \<Rightarrow> stage_by_id d (loop_stage_key l (pt_stageRef p)))"

definition owner_attempt :: "document \<Rightarrow> stored_loop \<Rightarrow> stored_attempt option" where
  "owner_attempt d l = (case owner_stage d l of
     None \<Rightarrow> attempt_by_ref d []
   | Some s \<Rightarrow> (case st_currentAttemptRef s of None \<Rightarrow> None | Some r \<Rightarrow> attempt_by_ref d r))"

definition all_committed :: "document \<Rightarrow> stored_loop \<Rightarrow> bool" where
  "all_committed d l = list_all (\<lambda>r. is_committed (generation_by_ref d r)) (il_activeGenerationRefs l)"

definition queued_producer_turn :: "document \<Rightarrow> stored_loop \<Rightarrow> bool" where
  "queued_producer_turn d l \<longleftrightarrow> il_state l = RunningTurn
     \<and> given (\<lambda>q. ARTIFACT_PRODUCING_REQUEST_KINDS (iq_kind q)) (open_turn d l)
     \<and> given (\<lambda>a. at_state a \<in> {AQueued, AStarting, ARunning, ASucceeded}) (owner_attempt d l) \<and> all_committed d l"

text \<open>
  The producer of a loop whose rework is queued: queued, or dead, which is a fact of liveness the wall
  admits, or interrupted behind an open request of its stage.
\<close>

definition queued_producer_attempt :: "document \<Rightarrow> stored_loop \<Rightarrow> bool" where
  "queued_producer_attempt d l \<longleftrightarrow> il_state l = ReworkQueued
     \<and> given (\<lambda>a. given (\<lambda>s.
         (at_state a = AQueued \<or> at_state a \<in> {AStopped, AInterrupted, AFailed}
          \<or> at_state a = AInterrupted \<and> st_state s = SWaitingHuman
            \<and> list_ex (\<lambda>q. hq_subject q = il_subject l \<and> hq_runRef q = il_runRef l
                \<and> hq_stageRef q = Some (st_stageRef s) \<and> hq_open q \<and> \<not> hq_iterationPark q) (humanRequests d))
         \<and> at_logicalGeneration a = Some (if st_currentGenerationRef s = None then 1 else st_currentGeneration s + 1)
         \<and> at_baseGenerationRef a = st_currentGenerationRef s) (owner_stage d l)) (owner_attempt d l)"

definition loop_state_ok :: "document \<Rightarrow> stored_loop \<Rightarrow> bool" where
  "loop_state_ok d l \<longleftrightarrow>
     (let owns = (il_turnOwnerParticipantId l \<noteq> None \<and> il_currentStepId l \<noteq> None);
          any = (il_turnOwnerParticipantId l \<noteq> None \<or> il_currentStepId l \<noteq> None) in
      (case il_state l of
         AwaitingSeed \<Rightarrow> \<not> any \<and> il_activeGenerationRefs l = [] \<and> il_lastReceiptRef l = None
       | AwaitingTurn \<Rightarrow> owns \<and> il_activeGenerationRefs l \<noteq> [] \<and> all_committed d l \<and> open_turn d l = None
       | RunningTurn \<Rightarrow> owns \<and> il_activeGenerationRefs l \<noteq> [] \<and> (queued_producer_turn d l \<or> all_committed d l)
           \<and> open_turn d l \<noteq> None
       | ReworkQueued \<Rightarrow> owns \<and> queued_producer_attempt d l \<and> all_committed d l
       | _ \<Rightarrow> \<not> any))"

fun loops_error :: "env \<Rightarrow> document \<Rightarrow> stored_loop list \<Rightarrow> string list \<Rightarrow> stored_loop list \<Rightarrow> string option" where
  "loops_error e d seen keys [] = None"
| "loops_error e d seen keys (l # ls) = first_error
     [wall (loop_shape_ok e seen l) dw_loop, wall (participants_ok d l keys (il_participants l)) dw_participant,
      wall (list_all (route_ok d l) (il_routes l)) dw_route, wall (list_all (step_ok l) (il_schedule l)) dw_schedule,
      wall (loop_projection_ok d l) dw_projection, wall (loop_state_ok d l) dw_loop_state,
      loops_error e d (l # seen) (map (\<lambda>p. loop_stage_key l (pt_stageRef p)) (il_participants l) @ keys) ls]"

section \<open>Requests and receipts\<close>

definition dw_request :: string where "dw_request = ''invalid control-plane iteration request''"
definition dw_request_hash :: string where
  "dw_request_hash = ''invalid control-plane iteration request fingerprint''"
definition dw_rework :: string where
  "dw_rework = ''invalid control-plane iteration request rework instructions''"
definition dw_receipt :: string where "dw_receipt = ''invalid control-plane iteration receipt''"
definition dw_finding :: string where "dw_finding = ''invalid control-plane iteration finding reference''"
definition dw_request_finding :: string where
  "dw_request_finding = ''invalid control-plane iteration request finding reference''"

definition turn_row_ok :: "document \<Rightarrow> stored_turn_request list \<Rightarrow> stored_turn_request \<Rightarrow> bool" where
  "turn_row_ok d seen q \<longleftrightarrow>
     (case loop_by_ref d (iq_iterationLoopRef q) of
        None \<Rightarrow> False
      | Some l \<Rightarrow>
       (case (find (\<lambda>s. sp_stepId s = iq_stepId q) (il_schedule l), find (\<lambda>r. ro_routeId r = iq_routeId q) (il_routes l)) of
          (Some s, Some r) \<Rightarrow>
            iq_subject q = il_subject l \<and> iq_runRef q = il_runRef l \<and> SAFE_REF_RE (iq_requestRef q)
            \<and> iq_requestRef q \<notin> set (map iq_requestRef seen) \<and> sp_routeId s = iq_routeId q
            \<and> ro_senderParticipantId r = iq_senderParticipantId q \<and> ro_recipientParticipantId r = iq_recipientParticipantId q
            \<and> turn_kind_str (iq_kind q) \<in> set (ro_requestKinds r)
            \<and> safe_int (iq_cycle q) \<and> 1 \<le> iq_cycle q \<and> iq_cycle q \<le> il_maxCycles l
            \<and> list_all (\<lambda>g. map_option sg_runRef (generation_by_ref d g) = Some (il_runRef l)) (iq_inputGenerationRefs q)
            \<and> CANONICAL_COMMIT_RE (iq_baseCommit q) \<and> HASH_RE (iq_operationFingerprint q)
            \<and> list_all (\<lambda>(k, h). HASH_RE h) (iq_artifactHashes q)
        | _ \<Rightarrow> False))"

definition rework_text_ok :: "stored_turn_request \<Rightarrow> bool" where
  "rework_text_ok q \<longleftrightarrow> (iq_kind q = IkRework
     \<longrightarrow> validNonEmpty (iq_instructions q) MAX_LONG_TEXT \<and> validNonEmpty (iq_nextAcceptanceCheck q) MAX_LONG_TEXT)"

fun turns_error :: "env \<Rightarrow> document \<Rightarrow> stored_turn_request list \<Rightarrow> stored_turn_request list \<Rightarrow> string option" where
  "turns_error e d seen [] = None"
| "turns_error e d seen (q # qs) = first_error
     [wall (turn_row_ok d seen q) dw_request,
      wall (iq_operationFingerprint q = iterationRequestFingerprint e q) dw_request_hash,
      wall (rework_text_ok q) dw_rework, turns_error e d (q # seen) qs]"

definition receipt_output_ok :: "stored_receipt \<Rightarrow> string option \<Rightarrow> stored_generation option \<Rightarrow> bool" where
  "receipt_output_ok r stageId g = given (\<lambda>g. sg_state g = GenCommitted \<and> sg_baseCommit g = Some (ir_baseCommit r)
     \<and> sg_canonicalCommit g = Some (ir_canonicalCommit r) \<and> Some (sg_logicalStageId g) = stageId
     \<and> sg_attemptRef g = ir_participantAttemptRef r) g"

definition receipt_commits_ok :: "document \<Rightarrow> stored_receipt \<Rightarrow> string option \<Rightarrow> bool" where
  "receipt_commits_ok d r stageId =
     (let inputs = map (generation_by_ref d) (oc_inputGenerationRefs r);
          outputs = map (generation_by_ref d) (ir_outputGenerationRefs r) in
      list_all is_committed inputs
      \<and> (if oc_verdict r = ''fulfilled''
         then length outputs = 1 \<and> list_all (receipt_output_ok r stageId) outputs
         else outputs = [] \<and> (case inputs of
           Some p # _ \<Rightarrow> sg_baseCommit p = Some (ir_baseCommit r) \<and> sg_canonicalCommit p = Some (ir_canonicalCommit r)
         | _ \<Rightarrow> False)))"

definition receipt_attempt_ok :: "document \<Rightarrow> stored_receipt \<Rightarrow> string option \<Rightarrow> bool" where
  "receipt_attempt_ok d r stageId =
     (case (stageId, attempt_by_ref d (ir_participantAttemptRef r)) of
        (Some i, Some a) \<Rightarrow> given (\<lambda>s. at_subject a = ir_subject r \<and> at_runRef a = ir_runRef r
          \<and> at_stageRef a = st_stageRef s \<and> at_state a = ASucceeded)
          (stage_by_id d (stage_id_key (ir_subject r) (ir_runRef r) i))
      | _ \<Rightarrow> False)"

definition receipt_row_ok :: "env \<Rightarrow> document \<Rightarrow> stored_receipt list \<Rightarrow> stored_receipt \<Rightarrow> bool" where
  "receipt_row_ok e d seen r \<longleftrightarrow>
     (case (loop_by_ref d (oc_iterationLoopRef r), turn_by_ref d (oc_requestRef r)) of
        (Some l, Some q) \<Rightarrow>
          let stageId = map_option pt_stageRef (participant_of_loop l (iq_recipientParticipantId q)) in
          ir_subject r = il_subject l \<and> ir_runRef r = il_runRef l \<and> SAFE_REF_RE (ir_receiptRef r)
          \<and> ir_receiptRef r \<notin> set (map ir_receiptRef seen) \<and> oc_participantId r = iq_recipientParticipantId q
          \<and> oc_cycle r = iq_cycle q
          \<and> canonicalJson (strs_js (oc_inputGenerationRefs r)) = canonicalJson (strs_js (iq_inputGenerationRefs q))
          \<and> receipt_attempt_ok d r stageId \<and> receipt_commits_ok d r stageId
          \<and> ir_outcomeHash r = e_sha256 e (canonicalJson (JObj (outcome_fields r)))
          \<and> CANONICAL_COMMIT_RE (ir_baseCommit r) \<and> CANONICAL_COMMIT_RE (ir_canonicalCommit r)
          \<and> HASH_RE (ir_operationFingerprint r) \<and> safe_int (ir_version r) \<and> 1 \<le> ir_version r
          \<and> list_all (\<lambda>f. SAFE_REF_RE (fi_findingId f)) (oc_findings r)
      | _ \<Rightarrow> False)"

fun receipts_error :: "env \<Rightarrow> document \<Rightarrow> stored_receipt list \<Rightarrow> stored_receipt list \<Rightarrow> string option" where
  "receipts_error e d seen [] = None"
| "receipts_error e d seen (r # rs) = first_error
     [wall (receipt_row_ok e d seen r) dw_receipt, wall (all_distinct (map fi_findingId (oc_findings r))) dw_finding,
      receipts_error e d (r # seen) rs]"

definition loop_findings :: "document \<Rightarrow> string \<Rightarrow> string list" where
  "loop_findings d loopRef = concat (map (\<lambda>r. map fi_findingId (oc_findings r))
     (filter (\<lambda>r. oc_iterationLoopRef r = loopRef) (iterationReceipts d)))"

definition turn_findings_ok :: "document \<Rightarrow> stored_turn_request \<Rightarrow> bool" where
  "turn_findings_ok d q \<longleftrightarrow> list_all (\<lambda>f. f \<in> set (loop_findings d (iq_iterationLoopRef q))) (iq_unresolvedFindingRefs q)"

section \<open>Attempts and supersessions\<close>

definition dw_advance :: string where "dw_advance = ''invalid control-plane iteration advance attempt''"
definition dw_provenance :: string where
  "dw_provenance = ''invalid control-plane creator attempt generation provenance''"
definition dw_attempt_provenance :: string where
  "dw_attempt_provenance = ''invalid control-plane iteration attempt generation provenance''"
definition dw_supersession :: string where
  "dw_supersession = ''invalid control-plane generation supersession receipt''"
definition dw_completeness :: string where
  "dw_completeness = ''invalid control-plane generation supersession completeness''"

definition has_receipt :: "document \<Rightarrow> string \<Rightarrow> bool" where
  "has_receipt d x = list_ex (\<lambda>r. ir_receiptRef r = x) (iterationReceipts d)"

text \<open>A receipt reference of \<open>null\<close>, which comes with a key, and an absent one are both \<open>None\<close>.\<close>

definition advance_fields_ok :: "document \<Rightarrow> stored_attempt \<Rightarrow> bool" where
  "advance_fields_ok d a \<longleftrightarrow>
     at_iterationAdvanceOperationKey a = None \<and> at_iterationAdvanceOperationFingerprint a = None
       \<and> at_iterationAdvanceReceiptRef a = None
     \<or> given (\<lambda>k. validNonEmpty k MAX_SHORT_TEXT) (at_iterationAdvanceOperationKey a)
       \<and> given HASH_RE (at_iterationAdvanceOperationFingerprint a) \<and> if_given (has_receipt d) (at_iterationAdvanceReceiptRef a)"

definition pending_turn :: "document \<Rightarrow> stored_attempt \<Rightarrow> stored_turn_request option" where
  "pending_turn d a = find (\<lambda>q. iq_subject q = at_subject a \<and> iq_runRef q = at_runRef a
     \<and> \<not> answered_turn d (iq_requestRef q)
     \<and> (case loop_by_ref d (iq_iterationLoopRef q) of None \<Rightarrow> None
        | Some l \<Rightarrow> map_option pt_stageRef (participant_of_loop l (iq_recipientParticipantId q)))
       = map_option st_stageId (stage_by_ref d (at_stageRef a))
     \<and> ARTIFACT_PRODUCING_REQUEST_KINDS (iq_kind q)) (iterationRequests d)"

definition generation_of_attempt :: "document \<Rightarrow> string \<Rightarrow> stored_generation option" where
  "generation_of_attempt d x = last_by (\<lambda>g. sg_attemptRef g = x) (stageGenerations d)"

definition named_generation :: "document \<Rightarrow> string option \<Rightarrow> stored_generation option" where
  "named_generation d x = (case x of None \<Rightarrow> None | Some r \<Rightarrow> if r = [] then None else generation_by_ref d r)"

definition provenance_ok :: "document \<Rightarrow> stored_attempt \<Rightarrow> int \<Rightarrow> bool" where
  "provenance_ok d a n =
     (let pending = (case at_baseGenerationRef a of None \<Rightarrow> None | Some r \<Rightarrow> generation_by_ref d r);
          turnBase = map_option iq_baseCommit (pending_turn d a);
          pendingBase = first_some turnBase (case pending of None \<Rightarrow> None | Some p \<Rightarrow> sg_canonicalCommit p) in
      case generation_of_attempt d (at_attemptRef a) of
        None \<Rightarrow>
          if n = 1 then at_baseGenerationRef a = None \<and> at_baseCommit a = turnBase
          else given (\<lambda>p. sg_logicalStageRef p = at_stageRef a \<and> sg_generation p = n - 1) pending
            \<and> at_baseCommit a = pendingBase
      | Some g \<Rightarrow>
          sg_logicalStageRef g = at_stageRef a \<and> n = sg_generation g
          \<and> (if sg_generation g = 1
             then at_baseGenerationRef a = None \<and> (at_baseCommit a = None \<or> at_baseCommit a = sg_baseCommit g)
             else given (\<lambda>p. at_baseGenerationRef a = Some (sg_generationRef p)) (named_generation d (sg_predecessorGenerationRef g))
               \<and> at_baseCommit a = (if sg_state g = GenQueued then pendingBase else sg_baseCommit g)))"

definition attempt_error :: "document \<Rightarrow> stored_attempt \<Rightarrow> string option" where
  "attempt_error d a = first_error [wall (advance_fields_ok d a) dw_advance,
     (case at_logicalGeneration a of
        Some n \<Rightarrow> wall (provenance_ok d a n) dw_provenance
      | None \<Rightarrow> wall (at_baseGenerationRef a = None \<and> at_baseCommit a = None) dw_attempt_provenance)]"

definition supersession_ok :: "document \<Rightarrow> supersession \<Rightarrow> bool" where
  "supersession_ok d x \<longleftrightarrow>
     (case (generation_by_ref d (su_predecessorGenerationRef x), generation_by_ref d (su_successorGenerationRef x)) of
        (Some p, Some g) \<Rightarrow>
          su_subject x = sg_subject p \<and> su_subject x = sg_subject g \<and> su_runRef x = sg_runRef p \<and> su_runRef x = sg_runRef g
          \<and> sg_logicalStageRef g = sg_logicalStageRef p \<and> sg_generation g = sg_generation p + 1
          \<and> sg_predecessorGenerationRef g = Some (sg_generationRef p)
          \<and> SAFE_REF_RE (su_triggerReceiptRef x) \<and> has_receipt d (su_triggerReceiptRef x)
      | _ \<Rightarrow> False)"

definition superseded_once :: "document \<Rightarrow> stored_generation \<Rightarrow> bool" where
  "superseded_once d g \<longleftrightarrow> sg_generation g < 2
     \<or> (case filter (\<lambda>x. su_successorGenerationRef x = sg_generationRef g) (generationSupersessions d) of
          [x] \<Rightarrow> Some (su_predecessorGenerationRef x) = sg_predecessorGenerationRef g
        | _ \<Rightarrow> False)"

section \<open>Gates, residue and cycles of a loop\<close>

definition dw_last_receipt :: string where "dw_last_receipt = ''invalid control-plane iteration loop receipt''"
definition dw_gate :: string where "dw_gate = ''invalid control-plane iteration gate''"
definition dw_passed :: string where "dw_passed = ''invalid control-plane iteration passed intervention''"
definition dw_accepted :: string where "dw_accepted = ''invalid control-plane iteration accepted artifacts''"
definition dw_completion_gate :: string where
  "dw_completion_gate = ''invalid control-plane iteration completion gate''"
definition dw_park_gate :: string where "dw_park_gate = ''invalid control-plane iteration park gate''"
definition dw_declined :: string where "dw_declined = ''invalid control-plane declined iteration gate''"
definition dw_approved_park :: string where
  "dw_approved_park = ''invalid control-plane approved iteration park gate''"
definition dw_residue :: string where "dw_residue = ''invalid control-plane iteration residue''"
definition dw_no_progress :: string where
  "dw_no_progress = ''invalid control-plane iteration no-progress residue''"
definition dw_cycles :: string where "dw_cycles = ''invalid control-plane iteration cycle evidence''"

definition gate_of_loop :: "document \<Rightarrow> string option \<Rightarrow> stored_request option" where
  "gate_of_loop d x = (case x of None \<Rightarrow> None | Some r \<Rightarrow> human_by_ref d r)"

definition loop_gate_ok :: "document \<Rightarrow> stored_loop \<Rightarrow> string option \<Rightarrow> bool" where
  "loop_gate_ok d l x \<longleftrightarrow> if_given (\<lambda>r. given (\<lambda>q. hq_runRef q = il_runRef l \<and> hq_subject q = il_subject l) (human_by_ref d r)) x"

definition park_decided :: "human_decision \<Rightarrow> stored_request option \<Rightarrow> bool" where
  "park_decided dec g \<longleftrightarrow> given (\<lambda>q. hq_iterationPark q \<and> \<not> hq_open q \<and> map_option hr_decision (hq_response q) = Some dec) g"

definition accepted_count :: "stored_loop \<Rightarrow> nat" where
  "accepted_count l = (case il_acceptedGenerationRefs l of None \<Rightarrow> 0 | Some xs \<Rightarrow> length xs)"

definition open_approval :: "bool \<Rightarrow> stored_request option \<Rightarrow> bool" where
  "open_approval park g \<longleftrightarrow> given (\<lambda>q. hq_kind q = HkApproval \<and> hq_iterationPark q = park \<and> hq_open q \<and> hq_response q = None) g"

definition outcome_js :: "('o) iteration_outcome_scheme \<Rightarrow> js" where
  "outcome_js x = JObj ((''schema'', JStr ''kb.iteration-outcome/v1'') # outcome_fields x)"

definition attempted_ok :: "env \<Rightarrow> document \<Rightarrow> stored_loop \<Rightarrow> attempted_turn \<Rightarrow> bool" where
  "attempted_ok e d l t \<longleftrightarrow> il_parkReason l = Some ''no-progress''
     \<and> (case turn_by_ref d (tn_attemptedRequestRef t) of
        None \<Rightarrow> False
      | Some q \<Rightarrow> iq_iterationLoopRef q = il_iterationLoopRef l
          \<and> (case parseIterationOutcome e (outcome_js (tn_attemptedOutcome t)) l q [] of
               Inl x \<Rightarrow> False
             | Inr y \<Rightarrow> canonicalJson (outcome_js y) = canonicalJson (outcome_js (tn_attemptedOutcome t)))
          \<and> ARTIFACT_PRODUCING_REQUEST_KINDS (iq_kind q))
     \<and> 1 \<le> length (tn_artifactSnapshots t) \<and> all_distinct (map sn_path (tn_artifactSnapshots t))
     \<and> list_all validIterationArtifactSnapshot (tn_artifactSnapshots t) \<and> validNonEmpty (tn_failureReason t) MAX_LONG_TEXT"

definition residue_error :: "env \<Rightarrow> document \<Rightarrow> stored_loop \<Rightarrow> string option" where
  "residue_error e d l = (case il_unresolvedResidue l of
     None \<Rightarrow> None
   | Some z \<Rightarrow> first_error
      [wall (rz_cyclesUsed z = il_cyclesUsed l \<and> rz_maxCycles z = il_maxCycles l \<and> rz_cycleUnit z = il_cycleUnit l) dw_residue,
       wall (case rz_attempted z of None \<Rightarrow> il_parkReason l \<noteq> Some ''no-progress'' | Some t \<Rightarrow> attempted_ok e d l t)
         dw_no_progress])"

definition receipt_cycles :: "document \<Rightarrow> string \<Rightarrow> int list" where
  "receipt_cycles d loopRef = map oc_cycle (filter (\<lambda>r. oc_iterationLoopRef r = loopRef) (iterationReceipts d))"

definition max_of :: "int \<Rightarrow> int list \<Rightarrow> int" where
  "max_of n xs = foldl max n xs"

definition cycle_in_flight :: "stored_loop \<Rightarrow> bool" where
  "cycle_in_flight l \<longleftrightarrow> il_state l \<in> {AwaitingTurn, RunningTurn, ReworkQueued}
     \<or> il_state l = AwaitingParkGate \<and> il_parkReason l = Some ''no-progress''"

definition cycles_ok :: "document \<Rightarrow> stored_loop \<Rightarrow> bool" where
  "cycles_ok d l \<longleftrightarrow>
     (let greatest = max_of 0 (receipt_cycles d (il_iterationLoopRef l)) in
      (if il_state l = AwaitingSeed then 0 else max 1 greatest) \<le> il_cyclesUsed l
      \<and> il_cyclesUsed l \<le> (if il_state l = AwaitingSeed then 0 else greatest + (if cycle_in_flight l then 1 else 0)))"

definition loop_gates_error :: "env \<Rightarrow> document \<Rightarrow> stored_loop \<Rightarrow> string option" where
  "loop_gates_error e d l =
     (let completion = gate_of_loop d (il_completionGateRef l); park = gate_of_loop d (il_interventionRef l) in
      first_error
       [wall (if_given (has_receipt d) (il_lastReceiptRef l)) dw_last_receipt,
        wall (loop_gate_ok d l (il_completionGateRef l) \<and> loop_gate_ok d l (il_interventionRef l)) dw_gate,
        wall (il_state l = Passed \<and> il_interventionRef l \<noteq> None \<longrightarrow> park_decided HdApproved park) dw_passed,
        wall (il_state l = Passed \<longrightarrow> 1 \<le> accepted_count l) dw_accepted,
        wall (il_state l = AwaitingCompletionGate \<longrightarrow> open_approval False completion) dw_completion_gate,
        wall (il_state l = AwaitingParkGate \<longrightarrow> open_approval True park \<and> il_parkReason l \<noteq> None
          \<and> il_unresolvedResidue l \<noteq> None) dw_park_gate,
        wall (il_state l = Declined \<longrightarrow> park_decided HdRejected park \<and> accepted_count l = 0) dw_declined,
        wall (il_parkReason l \<noteq> None \<and> il_state l = Passed \<longrightarrow> park_decided HdApproved park
          \<and> il_unresolvedResidue l \<noteq> None) dw_approved_park,
        residue_error e d l, wall (cycles_ok d l) dw_cycles])"

section \<open>The wall\<close>

definition dw_current_generation :: string where
  "dw_current_generation = ''invalid control-plane stage current generation reference''"
definition dw_accepted_generation :: string where
  "dw_accepted_generation = ''invalid control-plane stage accepted generation reference''"

definition stage_generation_error :: "document \<Rightarrow> stored_stage \<Rightarrow> string option" where
  "stage_generation_error d s = first_error
     [wall (if_given (\<lambda>r. given (\<lambda>g. sg_logicalStageRef g = st_stageRef s \<and> sg_generation g = st_currentGeneration s)
        (generation_by_ref d r)) (st_currentGenerationRef s)) dw_current_generation,
      wall (if_given (\<lambda>r. map_option sg_logicalStageRef (generation_by_ref d r) = Some (st_stageRef s))
        (st_acceptedGenerationRef s)) dw_accepted_generation]"

definition all_walls :: "('a \<Rightarrow> string option) \<Rightarrow> 'a list \<Rightarrow> string option" where
  "all_walls f xs = first_error (map f xs)"

definition iterationError :: "env \<Rightarrow> document \<Rightarrow> string option" where
  "iterationError e d = first_error
     [generations_error e d [] (stageGenerations d),
      all_walls (\<lambda>g. wall (predecessor_ok d g) dw_predecessor) (stageGenerations d),
      loops_error e d [] [] (iterationLoops d), turns_error e d [] (iterationRequests d),
      receipts_error e d [] (iterationReceipts d),
      all_walls (\<lambda>q. wall (turn_findings_ok d q) dw_request_finding) (iterationRequests d),
      all_walls (attempt_error d) (attempts d),
      all_walls (\<lambda>x. wall (supersession_ok d x) dw_supersession) (generationSupersessions d),
      all_walls (\<lambda>g. wall (superseded_once d g) dw_completeness) (stageGenerations d),
      all_walls (loop_gates_error e d) (iterationLoops d), all_walls (stage_generation_error d) (stages d)]"

section \<open>The rows it is shown\<close>

text \<open>The rows of one run that the iteration wall reads.\<close>

definition iterationBundleForRun :: "document \<Rightarrow> string \<Rightarrow> string \<Rightarrow> document" where
  "iterationBundleForRun d subject runRef = emptyStoreDocument
     \<lparr>stages := filter (stage_row subject runRef) (stages d), attempts := filter (attempt_row subject runRef) (attempts d),
      sessions := filter (session_row subject runRef) (sessions d),
      stageGenerations := filter (\<lambda>x. sg_subject x = subject \<and> sg_runRef x = runRef) (stageGenerations d),
      generationSupersessions := filter (\<lambda>x. su_subject x = subject \<and> su_runRef x = runRef) (generationSupersessions d),
      iterationLoops := filter (\<lambda>x. il_subject x = subject \<and> il_runRef x = runRef) (iterationLoops d),
      iterationRequests := filter (\<lambda>x. iq_subject x = subject \<and> iq_runRef x = runRef) (iterationRequests d),
      iterationReceipts := filter (\<lambda>x. ir_subject x = subject \<and> ir_runRef x = runRef) (iterationReceipts d),
      humanRequests := filter (run_request subject runRef) (humanRequests d)\<rparr>"

definition bundle_rows :: "run_bundle \<Rightarrow> document" where
  "bundle_rows b = emptyStoreDocument
     \<lparr>stages := qb_stages b, attempts := qb_attempts b, sessions := qb_sessions b,
      stageGenerations := qb_stageGenerations b, generationSupersessions := qb_generationSupersessions b,
      iterationLoops := qb_iterationLoops b, iterationRequests := qb_iterationRequests b,
      iterationReceipts := qb_iterationReceipts b, humanRequests := qb_humanRequests b\<rparr>"

end
