(* ===== verification/Launch.thy ===== *)
theory Launch
  imports Proposals StageGraph Stages IterationWall
begin

text \<open>
  The launch of a run (\<open>createRun\<close> of \<open>control/store.ts\<close>): admission of the requested stages, the cycle
  check, the launch fingerprint and its replay, the approved proposal with its iteration groups and
  provenance, the retry predecessor, and the rows the launch stores. The group a legacy review stage
  implies is \<open>legacyGroupForStages\<close> of \<open>control/migrations.ts\<close>.

  A refusal is a result that fails; a \<open>Thrown\<close> is a JavaScript exception on the way.
\<close>

section \<open>Refusals\<close>

datatype refusal = Refused fail_reason string | Thrown string

definition admit :: "refusal + 'a \<Rightarrow> ('a \<Rightarrow> 'b outcome) \<Rightarrow> 'b outcome" where
  "admit x k = (case x of Inl (Refused r t) \<Rightarrow> Refuse r t | Inl (Thrown t) \<Rightarrow> Raise t | Inr y \<Rightarrow> k y)"

lemma next_doc_admit [committed]: "next_doc (admit x k) = Some d \<longleftrightarrow> (\<exists>y. x = Inr y \<and> next_doc (k y) = Some d)"
  by (auto simp: admit_def split: sum.splits refusal.splits)

definition MAX_STAGES_PER_RUN :: nat where "MAX_STAGES_PER_RUN = 128"

definition dt_type_error :: string where "dt_type_error = ''Cannot read properties of null''"
definition dt_launch_routing :: string where "dt_launch_routing = ''run title and manager routing are required''"
definition dt_launch_manager :: string where "dt_launch_manager = ''manager assignment provenance is invalid''"
definition dt_launch_owner :: string where "dt_launch_owner = ''runnable-owner-required''"
definition dt_launch_host :: string where "dt_launch_host = ''execution host is invalid''"
definition dt_launch_workspace :: string where "dt_launch_workspace = ''agent workspace launch provenance is invalid''"
definition dt_launch_tags :: string where "dt_launch_tags = ''run workflow tags are invalid''"
definition dt_launch_stages :: string where "dt_launch_stages = ''run must contain 1-128 stages''"
definition dt_launch_stage_ids :: string where
  "dt_launch_stage_ids = ''stage ids and titles must be non-empty and stage ids must be unique''"
definition dt_launch_stage_assignment :: string where
  "dt_launch_stage_assignment = ''stage assignment provenance is invalid''"
definition dt_launch_stage_contract :: string where
  "dt_launch_stage_contract = ''stage checker contract provenance is invalid''"
definition dt_launch_dependencies :: string where
  "dt_launch_dependencies = ''stage dependencies must reference a different stage in the same run''"
definition dt_launch_cycle :: string where "dt_launch_cycle = ''stage dependency graph contains a cycle''"
definition dt_launch_reused :: string where
  "dt_launch_reused = ''idempotencyKey was reused with different launch content''"
definition dt_launch_hash :: string where "dt_launch_hash = ''proposal hash changed''"
definition dt_launch_approval :: string where "dt_launch_approval = ''proposal revision is not approved''"
definition dt_launch_groups :: string where
  "dt_launch_groups = ''iteration groups do not match the approved proposal snapshot''"
definition dt_group_shape :: string where "dt_group_shape = ''iteration group shape is invalid''"
definition dt_group_participant :: string where "dt_group_participant = ''iteration group participant shape is invalid''"
definition dt_group_references :: string where
  "dt_group_references = ''iteration group references must stay inside the approved run snapshot''"
definition dt_group_snapshot :: string where "dt_group_snapshot = ''approved iteration stage snapshot is invalid''"
definition dt_group_seed :: string where
  "dt_group_seed = ''iteration activation artifacts must belong to the approved seed stage''"
definition dt_launch_approved :: string where
  "dt_launch_approved = ''approved proposal assignment provenance is invalid''"
definition dt_launch_provenance :: string where
  "dt_launch_provenance = ''stage provenance does not match the approved proposal snapshot''"
definition dt_launch_manager_routing :: string where
  "dt_launch_manager_routing = ''manager routing does not match its approved assignment provenance''"
definition dt_predecessor_missing :: string where "dt_predecessor_missing = ''predecessor run was not found''"
definition dt_predecessor_version :: string where "dt_predecessor_version = ''predecessor run version changed''"
definition dt_predecessor_state :: string where
  "dt_predecessor_state = ''only a terminal or interrupted run can have a Retry successor''"
definition dt_predecessor_hash :: string where
  "dt_predecessor_hash = ''Retry successor must bind the same approved proposal hash''"
definition dt_predecessor_owner :: string where
  "dt_predecessor_owner = ''Retry successor must preserve immutable runnable owner and execution host''"
definition dt_predecessor_tags :: string where
  "dt_predecessor_tags = ''Retry successor must not drop a governing workflow tag''"
definition dt_predecessor_stages :: string where
  "dt_predecessor_stages = ''Retry successor must preserve stage provenance''"
definition dt_launch_reviews :: string where
  "dt_launch_reviews = ''review stages must bind exactly one distinct subject stage''"

section \<open>Raw values\<close>

fun js_object :: "js \<Rightarrow> bool" where
  "js_object (JArr _) = True"
| "js_object (JObj _) = True"
| "js_object (JInst _) = True"
| "js_object _ = False"

text \<open>
  Strict equality and membership in a \<open>Set\<close>: primitives by value, where only the set takes \<open>NaN\<close> for
  itself. Two objects read from a request or a snapshot are two identities.
\<close>

definition js_same :: "js \<Rightarrow> js \<Rightarrow> bool" where
  "js_same a b \<longleftrightarrow> \<not> js_object a \<and> a \<noteq> JNaN \<and> a = b"

definition js_set_has :: "js list \<Rightarrow> js \<Rightarrow> bool" where
  "js_set_has xs v \<longleftrightarrow> \<not> js_object v \<and> v \<in> set xs"

definition js_set_full :: "js list \<Rightarrow> bool" where
  "js_set_full xs \<longleftrightarrow> distinct (filter (\<lambda>v. \<not> js_object v) xs)"

definition nullish :: "js \<Rightarrow> bool" where
  "nullish v \<longleftrightarrow> v = JUndef \<or> v = JNull"

text \<open>\<open>{...object, key: value}\<close>: a key the object has keeps its place.\<close>

fun js_put :: "string \<Rightarrow> js \<Rightarrow> (string \<times> js) list \<Rightarrow> (string \<times> js) list" where
  "js_put k v [] = [(k, v)]"
| "js_put k v ((k', v') # kvs) = (if k' = k then (k, v) # kvs else (k', v') # js_put k v kvs)"

section \<open>The requested stages\<close>

definition stage_shape_ok :: "string list \<Rightarrow> js \<Rightarrow> bool" where
  "stage_shape_ok ids s \<longleftrightarrow> js_nonEmpty (fld s ''stageId'') MAX_SHORT_TEXT \<and> js_nonEmpty (fld s ''title'') MAX_TITLE
     \<and> stage_id s \<notin> set ids \<and> is_arr (fld s ''dependsOn'') \<and> list_all is_str (js_arr (fld s ''dependsOn''))
     \<and> distinct (stage_deps s) \<and> nullish (fld s ''canonicalCardRef'')"

fun admit_stages :: "string list \<Rightarrow> js list \<Rightarrow> refusal + (string \<times> stage_binding) list" where
  "admit_stages ids [] = Inr []"
| "admit_stages ids (s # ss) =
     (if nullish s then Inl (Thrown dt_type_error)
      else if \<not> stage_shape_ok ids s then Inl (Refused Invalid dt_launch_stage_ids)
      else (case normalizeAssignment (fld s ''assignment'') of
         None \<Rightarrow> Inl (Refused Invalid dt_launch_stage_assignment)
       | Some a \<Rightarrow>
        (case normalizeCheckerContract (fld s ''workflowProfile'') (fld s ''review'') (fld s ''completionGate'') (stage_deps s) of
           None \<Rightarrow> Inl (Refused Invalid dt_launch_stage_contract)
         | Some c \<Rightarrow> sum_bind (admit_stages (stage_id s # ids) ss)
             (\<lambda>bs. Inr ((stage_id s, \<lparr>sb_assignment = a, sb_checkerContract = c\<rparr>) # bs)))))"

definition stage_graph :: "js list \<Rightarrow> graph" where
  "stage_graph ss = map (\<lambda>s. (stage_id s, stage_deps s)) ss"

definition dependencies_known :: "js list \<Rightarrow> bool" where
  "dependencies_known ss \<longleftrightarrow>
     list_all (\<lambda>s. list_all (\<lambda>d. d \<in> set (map stage_id ss) \<and> d \<noteq> stage_id s) (stage_deps s)) ss"

definition admitStages :: "js list \<Rightarrow> refusal + (string \<times> stage_binding) list" where
  "admitStages ss =
     (if ss = [] \<or> length ss > MAX_STAGES_PER_RUN then Inl (Refused Limit dt_launch_stages)
      else sum_bind (admit_stages [] ss) (\<lambda>bs.
        if \<not> dependencies_known ss then Inl (Refused Invalid dt_launch_dependencies)
        else if visited_stages (stage_graph ss) \<noteq> length ss then Inl (Refused Invalid dt_launch_cycle)
        else Inr bs))"

section \<open>The launch input and its fingerprint\<close>

record launch_input =
  ri_title :: string
  ri_proposalRef :: string
  ri_proposalRevision :: int
  ri_expectedProposalHash :: string
  ri_managerRuntime :: string
  ri_managerModel :: string
  ri_owner :: js
  ri_executionHost :: js
  ri_workflowTags :: js
  ri_managerAssignment :: js
  ri_idempotencyKey :: string
  ri_predecessorRunRef :: "string option"
  ri_expectedPredecessorVersion :: "int option"
  ri_agentWorkspaceLaunch :: js
  ri_iterationGroups :: "js list"
  ri_stages :: "js list"

text \<open>What the first checks make of the input, before the document is read.\<close>

record launch =
  la_managerAssignment :: "assignment option"
  la_owner :: runnable_ref
  la_executionHost :: host_kind
  la_agentWorkspaceLaunch :: "workspace_launch option"
  la_workflowTags :: "string list option"
  la_bindings :: "(string \<times> stage_binding) list"

definition refuse_none :: "'a option \<Rightarrow> string \<Rightarrow> refusal + 'a" where
  "refuse_none x t = (case x of None \<Rightarrow> Inl (Refused Invalid t) | Some y \<Rightarrow> Inr y)"

definition admitLaunch :: "launch_input \<Rightarrow> refusal + launch" where
  "admitLaunch i =
     (if \<not> validNonEmpty (ri_title i) MAX_TITLE \<or> \<not> validNonEmpty (ri_managerRuntime i) MAX_SHORT_TEXT
        \<or> \<not> validNonEmpty (ri_managerModel i) MAX_SHORT_TEXT then Inl (Refused Invalid dt_launch_routing)
      else if \<not> validNonEmpty (ri_idempotencyKey i) MAX_SHORT_TEXT then Inl (Refused Invalid dt_decision_key)
      else sum_bind (refuse_none (normalizeAssignment (ri_managerAssignment i)) dt_launch_manager) (\<lambda>m.
        sum_bind (refuse_none (decodeRunnableRef (ri_owner i)) dt_launch_owner) (\<lambda>ow.
        sum_bind (refuse_none (decodeHostKind (ri_executionHost i)) dt_launch_host) (\<lambda>h.
        sum_bind (refuse_none (normalizeAgentWorkspaceLaunch (ri_agentWorkspaceLaunch i)) dt_launch_workspace) (\<lambda>w.
        sum_bind (refuse_none (normalizeWorkflowTags (ri_workflowTags i)) dt_launch_tags) (\<lambda>t.
        sum_bind (admitStages (ri_stages i)) (\<lambda>bs.
          Inr \<lparr>la_managerAssignment = m, la_owner = ow, la_executionHost = h, la_agentWorkspaceLaunch = w,
            la_workflowTags = t, la_bindings = bs\<rparr>)))))))"

definition binding_of :: "launch \<Rightarrow> string \<Rightarrow> stage_binding" where
  "binding_of a k = (case map_of (la_bindings a) k of
     None \<Rightarrow> \<lparr>sb_assignment = None, sb_checkerContract = \<lparr>ck_workflowProfile = None, ck_review = None, ck_completionGate = None\<rparr>\<rparr>
   | Some b \<Rightarrow> b)"

definition fingerprint_stage :: "launch \<Rightarrow> js \<Rightarrow> js" where
  "fingerprint_stage a s =
     (let b = binding_of a (stage_id s) in
      JObj (fold (\<lambda>(k, v). js_put k v)
        ((''assignment'', assignment_js (sb_assignment b)) # contract_fields (sb_checkerContract b)) (js_fields s)))"

definition launch_js_text :: "launch_input \<Rightarrow> launch \<Rightarrow> js" where
  "launch_js_text i a = JObj [(''proposalRef'', JStr (ri_proposalRef i)), (''proposalRevision'', JNum (ri_proposalRevision i)),
     (''expectedProposalHash'', JStr (ri_expectedProposalHash i)), (''title'', JStr (js_trim (ri_title i))),
     (''managerRuntime'', JStr (ri_managerRuntime i)), (''managerModel'', JStr (ri_managerModel i)),
     (''managerAssignment'', assignment_js (la_managerAssignment a)), (''owner'', runnable_js (la_owner a)),
     (''executionHost'', JStr (host_kind_str (la_executionHost a))),
     (''agentWorkspaceLaunch'', launch_js (la_agentWorkspaceLaunch a)),
     (''predecessorRunRef'', opt_str (ri_predecessorRunRef i)),
     (''expectedPredecessorVersion'', opt_int (ri_expectedPredecessorVersion i)),
     (''iterationGroups'', JArr (ri_iterationGroups i)), (''stages'', JArr (map (fingerprint_stage a) (ri_stages i)))]"

definition launch_fingerprint :: "env \<Rightarrow> launch_input \<Rightarrow> launch \<Rightarrow> string" where
  "launch_fingerprint e i a = sha256_json e (launch_js_text i a)"

section \<open>The iteration groups of the snapshot\<close>

definition snapshot_groups :: "js \<Rightarrow> js list" where
  "snapshot_groups snapshot = js_arr (fld snapshot ''iterationGroups'')"

definition group_shape_ok :: "js \<Rightarrow> bool" where
  "group_shape_ok g \<longleftrightarrow> js_object g \<and> is_arr (fld g ''participants'') \<and> 2 \<le> length (js_arr (fld g ''participants''))
     \<and> list_all (\<lambda>k. is_arr (fld g k)) [''routes'', ''schedule'', ''artifacts'', ''criteria'', ''terminalAuthorities'']
     \<and> js_object (fld g ''activation'') \<and> is_arr (fld (fld g ''activation'') ''seedArtifactIds'')"

definition group_route_ok :: "string list \<Rightarrow> js list \<Rightarrow> js \<Rightarrow> bool" where
  "group_route_ok ids participantIds r \<longleftrightarrow> is_arr (fld r ''baseResolutionStageIds'') \<and> is_arr (fld r ''requestKinds'')
     \<and> is_str (fld r ''senderParticipantId'') \<and> is_str (fld r ''recipientParticipantId'') \<and> is_str (fld r ''routeId'')
     \<and> js_set_has participantIds (fld r ''senderParticipantId'') \<and> js_set_has participantIds (fld r ''recipientParticipantId'')
     \<and> list_all (\<lambda>v. v \<in> JStr ` set ids) (js_arr (fld r ''baseResolutionStageIds''))"

definition group_references_ok :: "string list \<Rightarrow> js \<Rightarrow> bool" where
  "group_references_ok ids g \<longleftrightarrow>
     (let ps = js_arr (fld g ''participants''); participantIds = map (\<lambda>p. fld p ''participantId'') ps in
      js_set_full participantIds \<and> list_all (\<lambda>p. fld p ''stageRef'' \<in> JStr ` set ids) ps
      \<and> list_all (group_route_ok ids participantIds) (js_arr (fld g ''routes'')))"

text \<open>\<open>find((stage) => stage.id === id)\<close> throws on a null element it meets before the match.\<close>

fun find_by_id :: "js \<Rightarrow> js list \<Rightarrow> refusal + js option" where
  "find_by_id v [] = Inr None"
| "find_by_id v (s # ss) =
     (if nullish s then Inl (Thrown dt_type_error) else if js_same (fld s ''id'') v then Inr (Some s) else find_by_id v ss)"

definition artifact_ids :: "js option \<Rightarrow> js list" where
  "artifact_ids s = (case s of None \<Rightarrow> [] | Some x \<Rightarrow>
     map (\<lambda>a. if isPlainRecord a then fld a ''id'' else JUndef) (js_arr (fld x ''artifacts'')))"

definition group_seed :: "js \<Rightarrow> js option" where
  "group_seed g = find (\<lambda>p. js_same (fld p ''participantId'') (fld (fld g ''activation'') ''seedParticipantId''))
     (js_arr (fld g ''participants''))"

definition check_group :: "string list \<Rightarrow> js \<Rightarrow> js \<Rightarrow> refusal + unit" where
  "check_group ids snapshot g =
     (if \<not> group_shape_ok g then Inl (Refused Invalid dt_group_shape)
      else if \<not> list_all js_object (js_arr (fld g ''participants'')) then Inl (Refused Invalid dt_group_participant)
      else if \<not> group_references_ok ids g then Inl (Refused Invalid dt_group_references)
      else if \<not> is_arr (fld snapshot ''stages'') then Inl (Refused Invalid dt_group_snapshot)
      else (case group_seed g of
          None \<Rightarrow> Inl (Refused Invalid dt_group_seed)
        | Some seed \<Rightarrow> sum_bind (find_by_id (fld seed ''stageRef'') (js_arr (fld snapshot ''stages''))) (\<lambda>stage.
            if list_all (js_set_has (artifact_ids stage)) (js_arr (fld (fld g ''activation'') ''seedArtifactIds''))
            then Inr () else Inl (Refused Invalid dt_group_seed))))"

fun check_groups :: "string list \<Rightarrow> js \<Rightarrow> js list \<Rightarrow> refusal + unit" where
  "check_groups ids snapshot [] = Inr ()"
| "check_groups ids snapshot (g # gs) = sum_bind (check_group ids snapshot g) (\<lambda>_. check_groups ids snapshot gs)"

section \<open>The approved proposal\<close>

definition binding_matches :: "launch \<Rightarrow> (string \<times> stage_binding) list \<Rightarrow> js \<Rightarrow> bool" where
  "binding_matches a approved s \<longleftrightarrow> (case (map_of approved (stage_id s), map_of (la_bindings a) (stage_id s)) of
     (Some x, Some b) \<Rightarrow> sameAssignment (sb_assignment b) (sb_assignment x)
       \<and> sameCheckerContract (sb_checkerContract b) (sb_checkerContract x)
   | _ \<Rightarrow> False)"

definition approve :: "string \<Rightarrow> launch_input \<Rightarrow> launch \<Rightarrow> document \<Rightarrow> refusal + proposal" where
  "approve subject i a d =
     (case find (is_revision subject (ri_proposalRef i) (ri_proposalRevision i) OwnSubject) (proposals d) of
        None \<Rightarrow> Inl (Refused NotFound dt_revision_not_found)
      | Some p \<Rightarrow>
        if pr_hash p \<noteq> ri_expectedProposalHash i then Inl (Refused Conflict dt_launch_hash)
        else if map_option ap_decision (pr_approval p) \<noteq> Some PdApproved then Inl (Refused NotApproved dt_launch_approval)
        else if canonicalJson (JArr (ri_iterationGroups i)) \<noteq> canonicalJson (JArr (snapshot_groups (pr_snapshot p)))
        then Inl (Refused Conflict dt_launch_groups)
        else sum_bind (check_groups (map stage_id (ri_stages i)) (pr_snapshot p) (ri_iterationGroups i)) (\<lambda>_.
         (case approvedRunAssignments (pr_snapshot p) (ri_stages i) of
            None \<Rightarrow> Inl (Refused Invalid dt_launch_approved)
          | Some (m, bs) \<Rightarrow>
            if \<not> sameAssignment (la_managerAssignment a) m \<or> \<not> list_all (binding_matches a bs) (ri_stages i)
            then Inl (Refused Conflict dt_launch_provenance)
            else if (case la_managerAssignment a of None \<Rightarrow> False
                     | Some x \<Rightarrow> ri_managerRuntime i \<noteq> as_runtime x \<or> ri_managerModel i \<noteq> as_model x)
            then Inl (Refused Conflict dt_launch_manager_routing)
            else Inr p)))"

section \<open>The retry predecessor\<close>

definition predecessor_stage_matches :: "document \<Rightarrow> string \<Rightarrow> stored_run \<Rightarrow> launch \<Rightarrow> js \<Rightarrow> bool" where
  "predecessor_stage_matches d subject p a s \<longleftrightarrow>
     (case find (\<lambda>x. stage_row subject (r_runRef p) x \<and> st_stageId x = stage_id s) (stages d) of
        None \<Rightarrow> False
      | Some x \<Rightarrow> (case (map_of (la_bindings a) (stage_id s), stage_contract x) of
          (Some b, Some c) \<Rightarrow> sameAssignment (st_assignment x) (sb_assignment b) \<and> sameCheckerContract c (sb_checkerContract b)
        | _ \<Rightarrow> False))"

definition check_predecessor :: "string \<Rightarrow> launch_input \<Rightarrow> launch \<Rightarrow> proposal \<Rightarrow> document \<Rightarrow> refusal + unit" where
  "check_predecessor subject i a proposal d =
     (case ri_predecessorRunRef i of
        None \<Rightarrow> Inr ()
      | Some [] \<Rightarrow> Inr ()
      | Some pref \<Rightarrow>
       (case findRun d subject pref OwnSubject of
          None \<Rightarrow> Inl (Refused NotFound dt_predecessor_missing)
        | Some p \<Rightarrow>
          if ri_expectedPredecessorVersion i \<noteq> Some (r_version p) then Inl (Refused Conflict dt_predecessor_version)
          else if \<not> isTerminalRun (r_lifecycle p) \<and> runLifecycleKind (r_lifecycle p) \<noteq> RInterrupted
          then Inl (Refused Invalid dt_predecessor_state)
          else if r_proposalHash p \<noteq> pr_hash proposal then Inl (Refused Conflict dt_predecessor_hash)
          else if json_stringify (runnable_js (r_owner p)) \<noteq> json_stringify (runnable_js (la_owner a))
            \<or> r_executionHost p \<noteq> la_executionHost a then Inl (Refused Conflict dt_predecessor_owner)
          else if (case (la_workflowTags a, r_workflowTags p) of
              (Some ts, Some ps) \<Rightarrow> \<not> set ps \<subseteq> set ts | _ \<Rightarrow> False)
          then Inl (Refused Conflict dt_predecessor_tags)
          else if \<not> sameAssignment (r_managerAssignment p) (la_managerAssignment a)
            \<or> \<not> list_all (predecessor_stage_matches d subject p a) (ri_stages i)
          then Inl (Refused Conflict dt_predecessor_stages)
          else (case retryPredecessorRefusal d p of Some t \<Rightarrow> Inl (Refused Invalid t) | None \<Rightarrow> Inr ())))"

section \<open>The rows of a new run\<close>

definition launched_run ::
  "env \<Rightarrow> string \<Rightarrow> launch_input \<Rightarrow> launch \<Rightarrow> proposal \<Rightarrow> run_lifecycle \<Rightarrow> stored_run" where
  "launched_run e subject i a p l =
     \<lparr>r_runRef = ref e ''run'' 0, r_predecessorRunRef = ri_predecessorRunRef i, r_title = js_trim (ri_title i),
      r_proposalRef = pr_proposalRef p, r_proposalRevision = pr_revision p, r_proposalHash = pr_hash p,
      r_publicationState = PubPending, r_lifecycle = l, r_owner = la_owner a, r_executionHost = la_executionHost a,
      r_workflowTags = la_workflowTags a, r_terminalOutcome = None, r_completedAt = None, r_archivedFrom = None,
      r_version = 1, r_managerSessionRef = ref e ''session'' 1, r_managerGeneration = 1,
      r_managerAssignment = la_managerAssignment a, r_agentWorkspaceLaunch = la_agentWorkspaceLaunch a,
      r_createdAt = e_stamp e 0, r_updatedAt = e_stamp e 0, r_subject = subject,
      r_launchOperationKey = Some (ri_idempotencyKey i), r_launchOperationFingerprint = Some (launch_fingerprint e i a),
      r_archiveOperationKey = None, r_archiveOperationFingerprint = None, r_activationReceipts = Some [],
      r_failedReconciliation = None\<rparr>"

definition launched_stage :: "env \<Rightarrow> string \<Rightarrow> launch \<Rightarrow> nat \<Rightarrow> js \<Rightarrow> stored_stage" where
  "launched_stage e subject a n s =
     (let b = binding_of a (stage_id s) in
      \<lparr>st_stageRef = ref e ''stage'' n, st_runRef = ref e ''run'' 0, st_stageId = stage_id s,
       st_title = js_trim (js_str (fld s ''title'')), st_dependsOn = stage_deps s, st_canonicalCardRef = None,
       st_state = (if stage_deps s = [] then SReady else SBlocked), st_version = 1, st_currentAttemptRef = None,
       st_assignment = sb_assignment b, st_workflowProfile = ck_workflowProfile (sb_checkerContract b),
       st_review = ck_review (sb_checkerContract b), st_completionGate = ck_completionGate (sb_checkerContract b),
       st_currentGeneration = 1, st_currentGenerationRef = None, st_acceptedGenerationRef = None,
       st_createdAt = e_stamp e 0, st_updatedAt = e_stamp e 0, st_subject = subject\<rparr>)"

text \<open>The generator is called for the run, the manager session, then each stage, then each loop.\<close>

fun launched_stages :: "env \<Rightarrow> string \<Rightarrow> launch \<Rightarrow> nat \<Rightarrow> js list \<Rightarrow> stored_stage list" where
  "launched_stages e subject a n [] = []"
| "launched_stages e subject a n (s # ss) = launched_stage e subject a n s # launched_stages e subject a (Suc n) ss"

definition squoted :: "string \<Rightarrow> string" where
  "squoted s = CHR 0x27 # s @ [CHR 0x27]"

definition names_stage :: "string \<Rightarrow> js \<Rightarrow> bool" where
  "names_stage stageId g \<longleftrightarrow> list_ex (\<lambda>p. fld p ''stageRef'' = JStr stageId) (js_arr (fld g ''participants''))"

definition legacy_artifacts :: "js \<Rightarrow> string \<Rightarrow> string list" where
  "legacy_artifacts snapshot stageId =
     (case find (\<lambda>s. fld s ''id'' = JStr stageId) (js_arr (fld snapshot ''stages'')) of
        None \<Rightarrow> []
      | Some s \<Rightarrow> filter (\<lambda>x. x \<noteq> [])
          (map (\<lambda>a. if isPlainRecord a \<and> is_str (fld a ''id'') then js_str (fld a ''id'') else []) (js_arr (fld s ''artifacts''))))"

definition legacyGroupForStages :: "stored_stage \<Rightarrow> stored_stage \<Rightarrow> review \<Rightarrow> js \<Rightarrow> js" where
  "legacyGroupForStages subjectStage reviewStage rv snapshot =
     (case find (\<lambda>g. is_arr (fld g ''participants'') \<and> names_stage (st_stageId subjectStage) g
              \<and> names_stage (st_stageId reviewStage) g) (snapshot_groups snapshot) of
        Some g \<Rightarrow> g
      | None \<Rightarrow>
        let sid = st_stageId subjectStage; rid = st_stageId reviewStage;
            artifacts = legacy_artifacts snapshot sid;
            artifactIds = JArr (map JStr (if artifacts \<noteq> [] then artifacts else [sid @ ''-artifact'']));
            producerId = JStr (sid @ ''-manager''); judgeId = JStr (rid @ ''-judge'');
            reviewStep = JStr (rid @ ''-review''); reworkStep = JStr (rid @ ''-rework'') in
        JObj ([(''iterationGroupId'', JStr (rid @ ''-iteration'')),
          (''goal'', JStr (''Accept '' @ squoted (st_title subjectStage) @ '' against the declared review criteria.'')),
          (''participants'', JArr [
             JObj [(''participantId'', producerId), (''stageRef'', JStr sid), (''role'', JStr ''manager''),
               (''perspective'', JStr (''Own stage '' @ squoted sid @ ''.'')), (''mandate'', JStr (st_title subjectStage))],
             JObj [(''participantId'', judgeId), (''stageRef'', JStr rid), (''role'', JStr ''judge''),
               (''perspective'', JStr (''Review stage '' @ squoted sid @ ''.'')), (''mandate'', JStr (st_title reviewStage))]]),
          (''routes'', JArr [
             JObj [(''routeId'', JStr (rid @ ''-to-judge'')), (''senderParticipantId'', producerId),
               (''recipientParticipantId'', judgeId), (''requestKinds'', JArr [JStr ''review'']),
               (''baseResolutionStageIds'', JArr [JStr sid])],
             JObj [(''routeId'', JStr (rid @ ''-to-manager'')), (''senderParticipantId'', judgeId),
               (''recipientParticipantId'', producerId), (''requestKinds'', JArr [JStr ''rework'']),
               (''baseResolutionStageIds'', JArr [JStr rid])]]),
          (''activation'', JObj [(''seedParticipantId'', producerId), (''seedArtifactIds'', artifactIds)]),
          (''initialStepId'', reviewStep),
          (''schedule'', JArr [
             JObj [(''stepId'', reviewStep), (''routeId'', JStr (rid @ ''-to-judge'')),
               (''after'', JObj [(''stepId'', reworkStep), (''participantId'', producerId), (''verdict'', JStr ''fulfilled'')]),
               (''cycle'', JStr ''next'')],
             JObj [(''stepId'', reworkStep), (''routeId'', JStr (rid @ ''-to-manager'')),
               (''after'', JObj [(''stepId'', reviewStep), (''participantId'', judgeId), (''verdict'', JStr ''fail'')]),
               (''cycle'', JStr ''current'')]]),
          (''artifacts'', artifactIds), (''criteria'', JArr (map criterion_js (rv_criteria rv))),
          (''maxCycles'', JNum (rv_maxCreatorReworks rv + 1)),
          (''cycleUnit'', JStr (''One '' @ squoted sid @ '' generation followed by one '' @ squoted rid @ '' verdict.'')),
          (''terminalAuthorities'', JArr [JObj [(''participantId'', judgeId), (''verdict'', JStr ''pass'')]])]
         @ (case st_completionGate reviewStage of None \<Rightarrow> [] | Some g \<Rightarrow> [(''completionGate'', gate_js (Some g))])))"

fun legacy_groups :: "stored_stage list \<Rightarrow> js \<Rightarrow> string list \<Rightarrow> stored_stage list \<Rightarrow> refusal + js list" where
  "legacy_groups all snapshot reviewed [] = Inr []"
| "legacy_groups all snapshot reviewed (s # ss) =
     (case st_review s of
        None \<Rightarrow> legacy_groups all snapshot reviewed ss
      | Some rv \<Rightarrow>
       (case find (\<lambda>x. st_stageId x = rv_subjectStageId rv) all of
          None \<Rightarrow> Inl (Refused Invalid dt_launch_reviews)
        | Some x \<Rightarrow>
          if st_stageRef x \<in> set reviewed then Inl (Refused Invalid dt_launch_reviews)
          else sum_bind (legacy_groups all snapshot (st_stageRef x # reviewed) ss)
            (\<lambda>gs. Inr (legacyGroupForStages x s rv snapshot # gs))))"

section \<open>The loops of a new run\<close>

text \<open>A group is stored as the object it is; the model reads its members at the types the source declares.\<close>

definition opt_text :: "js \<Rightarrow> string option" where
  "opt_text v = (if is_str v then Some (js_str v) else None)"

definition texts_of :: "js \<Rightarrow> string list" where
  "texts_of v = map js_str (js_arr v)"

definition participant_of :: "js \<Rightarrow> participant" where
  "participant_of p = \<lparr>pt_participantId = js_str (fld p ''participantId''), pt_stageRef = js_str (fld p ''stageRef''),
     pt_role = js_str (fld p ''role''), pt_perspective = js_str (fld p ''perspective''),
     pt_mandate = js_str (fld p ''mandate''), pt_goal = opt_text (fld p ''goal'')\<rparr>"

definition route_of :: "js \<Rightarrow> iteration_route" where
  "route_of r = \<lparr>ro_routeId = js_str (fld r ''routeId''), ro_senderParticipantId = js_str (fld r ''senderParticipantId''),
     ro_recipientParticipantId = js_str (fld r ''recipientParticipantId''), ro_requestKinds = texts_of (fld r ''requestKinds''),
     ro_baseResolutionStageIds = texts_of (fld r ''baseResolutionStageIds'')\<rparr>"

definition step_of :: "js \<Rightarrow> schedule_step" where
  "step_of s = \<lparr>sp_stepId = js_str (fld s ''stepId''), sp_routeId = js_str (fld s ''routeId''),
     sp_after = (let x = fld s ''after'' in if nullish x then None
       else Some \<lparr>sf_stepId = js_str (fld x ''stepId''), sf_participantId = js_str (fld x ''participantId''),
         sf_verdict = js_str (fld x ''verdict'')\<rparr>),
     sp_cycle = js_str (fld s ''cycle'')\<rparr>"

definition authority_of :: "js \<Rightarrow> terminal_authority" where
  "authority_of t = \<lparr>ta_participantId = js_str (fld t ''participantId''), ta_verdict = js_str (fld t ''verdict'')\<rparr>"

definition criterion_of :: "js \<Rightarrow> criterion" where
  "criterion_of c = \<lparr>cr_id = js_str (fld c ''id''), cr_description = js_str (fld c ''description'')\<rparr>"

definition gate_of :: "js \<Rightarrow> completion_gate option" where
  "gate_of g = (if nullish g then None else Some \<lparr>cg_id = js_str (fld g ''id''), cg_kind = js_str (fld g ''kind''),
     cg_prompt = js_str (fld g ''prompt''), cg_requiresReview = js_str (fld g ''requiresReview'')\<rparr>)"

definition launched_loop :: "env \<Rightarrow> string \<Rightarrow> nat \<Rightarrow> js \<Rightarrow> stored_loop" where
  "launched_loop e subject n g =
     \<lparr>il_iterationLoopRef = ref e ''iteration-loop'' n, il_runRef = ref e ''run'' 0,
      il_iterationGroupId = js_str (fld g ''iterationGroupId''), il_goal = opt_text (fld g ''goal''),
      il_participants = map participant_of (js_arr (fld g ''participants'')),
      il_routes = map route_of (js_arr (fld g ''routes'')),
      il_seedParticipantId = js_str (fld (fld g ''activation'') ''seedParticipantId''),
      il_seedArtifactIds = texts_of (fld (fld g ''activation'') ''seedArtifactIds''),
      il_initialStepId = js_str (fld g ''initialStepId''), il_schedule = map step_of (js_arr (fld g ''schedule'')),
      il_artifacts = texts_of (fld g ''artifacts''), il_criteria = map criterion_of (js_arr (fld g ''criteria'')),
      il_maxCycles = js_int (fld g ''maxCycles''), il_cycleUnit = js_str (fld g ''cycleUnit''),
      il_terminalAuthorities = map authority_of (js_arr (fld g ''terminalAuthorities'')),
      il_completionGate = gate_of (fld g ''completionGate''), il_definitionHash = iterationDefinitionHash e g,
      il_cyclesUsed = 0, il_state = AwaitingSeed, il_turnOwnerParticipantId = None, il_currentStepId = None,
      il_activeGenerationRefs = [], il_acceptedGenerationRefs = None, il_lastReceiptRef = None,
      il_completionGateRef = None, il_interventionRef = None, il_parkReason = None, il_unresolvedResidue = None,
      il_version = 0, il_createdAt = e_stamp e 0, il_updatedAt = e_stamp e 0, il_subject = subject, il_advanceOperationKey = None,
      il_advanceOperationFingerprint = None, il_definition = g\<rparr>"

fun launched_loops :: "env \<Rightarrow> string \<Rightarrow> nat \<Rightarrow> js list \<Rightarrow> stored_loop list" where
  "launched_loops e subject n [] = []"
| "launched_loops e subject n (g # gs) = launched_loop e subject n g # launched_loops e subject (Suc n) gs"

definition launched_manager :: "env \<Rightarrow> string \<Rightarrow> launch_input \<Rightarrow> stored_session" where
  "launched_manager e subject i = pending_session subject (ref e ''session'' 1) (ref e ''run'' 0) None None Manager 1 None
     (ri_managerRuntime i) (ri_managerModel i) None None (e_stamp e 0)"

section \<open>The launch\<close>

definition is_launch :: "string \<Rightarrow> string \<Rightarrow> stored_run \<Rightarrow> bool" where
  "is_launch subject key r \<longleftrightarrow> r_subject r = subject \<and> r_launchOperationKey r = Some key"

definition launched_document :: "env \<Rightarrow> string \<Rightarrow> launch_input \<Rightarrow> launch \<Rightarrow> stored_run \<Rightarrow> js list \<Rightarrow> document \<Rightarrow> document" where
  "launched_document e subject i a r groups d =
     d\<lparr>runs := runs d @ [r], stages := stages d @ launched_stages e subject a 2 (ri_stages i),
       sessions := sessions d @ [launched_manager e subject i],
       iterationLoops := iterationLoops d @ launched_loops e subject (2 + length (ri_stages i)) groups\<rparr>"

definition createRun :: "env \<Rightarrow> string \<Rightarrow> launch_input \<Rightarrow> document \<Rightarrow> run_detail outcome" where
  "createRun e subject i d =
     admit (admitLaunch i) (\<lambda>a.
       (case find (is_launch subject (ri_idempotencyKey i)) (runs d) of
          Some r \<Rightarrow>
            if r_launchOperationFingerprint r \<noteq> Some (launch_fingerprint e i a)
            then Refuse IdempotencyConflict dt_launch_reused
            else replay_run r (detail_of d subject r)
        | None \<Rightarrow>
          admit (approve subject i a d) (\<lambda>p.
          admit (check_predecessor subject i a p d) (\<lambda>_.
           (case lifecycleForKind RPlanned None of
              Inl x \<Rightarrow> Raise x
            | Inr l \<Rightarrow>
              let r = launched_run e subject i a p l; ss = launched_stages e subject a 2 (ri_stages i) in
              admit (legacy_groups ss (pr_snapshot p) [] ss) (\<lambda>legacy.
                let groups = (if ri_iterationGroups i \<noteq> [] then ri_iterationGroups i else legacy);
                    d' = launched_document e subject i a r groups d in
               (case iterationError e (iterationBundleForRun d' subject (r_runRef r)) of
                  Some t \<Rightarrow> Raise t
                | None \<Rightarrow> commit_run d' r (detail_of d' subject r))))))))"

end
