(* ===== verification/Iteration.thy ===== *)
theory Iteration
  imports Launch
begin

text \<open>
  The turns of an iteration loop (\<open>control/store.ts\<close>): the generation a participant commits, the activation
  of a loop over its seed, the request of a turn, its receipt, the advance to the next step, the park of a
  loop that cannot go on, and the gate a human resolves. Each operation reads the document, decides, and
  hands one change to \<open>transitionIterationState\<close>, the only writer: it finds the loop again, compares the
  versions the caller expects, applies the change and runs the iteration wall over the run's rows.
\<close>

section \<open>Rows\<close>

definition is_loop :: "string \<Rightarrow> string \<Rightarrow> stored_loop \<Rightarrow> bool" where
  "is_loop subject loopRef l \<longleftrightarrow> il_subject l = subject \<and> il_iterationLoopRef l = loopRef"

definition is_turn_request :: "string \<Rightarrow> string \<Rightarrow> stored_turn_request \<Rightarrow> bool" where
  "is_turn_request subject requestRef q \<longleftrightarrow> iq_subject q = subject \<and> iq_requestRef q = requestRef"

definition is_receipt :: "string \<Rightarrow> string \<Rightarrow> stored_receipt \<Rightarrow> bool" where
  "is_receipt subject receiptRef r \<longleftrightarrow> ir_subject r = subject \<and> ir_receiptRef r = receiptRef"

definition is_generation :: "string \<Rightarrow> string \<Rightarrow> string \<Rightarrow> stored_generation \<Rightarrow> bool" where
  "is_generation subject runRef generationRef g \<longleftrightarrow>
     sg_subject g = subject \<and> sg_runRef g = runRef \<and> sg_generationRef g = generationRef"

definition is_run_stage :: "string \<Rightarrow> string \<Rightarrow> string \<Rightarrow> stored_stage \<Rightarrow> bool" where
  "is_run_stage subject runRef stageId s \<longleftrightarrow> stage_row subject runRef s \<and> st_stageId s = stageId"

definition participant_stage_id :: "('l) iteration_loop_scheme \<Rightarrow> string \<Rightarrow> string option" where
  "participant_stage_id l participantId =
     map_option pt_stageRef (find (\<lambda>p. pt_participantId p = participantId) (il_participants l))"

definition participant_stage :: "document \<Rightarrow> string \<Rightarrow> stored_loop \<Rightarrow> string \<Rightarrow> stored_stage option" where
  "participant_stage d subject l participantId =
     find_by (is_run_stage subject (il_runRef l)) (participant_stage_id l participantId) (stages d)"

definition current_attempt :: "document \<Rightarrow> string \<Rightarrow> stored_stage \<Rightarrow> stored_attempt option" where
  "current_attempt d subject s = find_by (is_attempt subject) (st_currentAttemptRef s) (attempts d)"

definition producing_kind :: "string \<Rightarrow> bool" where
  "producing_kind k \<longleftrightarrow> k = ''rework'' \<or> k = ''delegate''"

definition producer_route :: "iteration_route \<Rightarrow> bool" where
  "producer_route r \<longleftrightarrow> list_ex producing_kind (ro_requestKinds r)"

text \<open>\<open>canonicalJson\<close> of two sorted arrays of references.\<close>

definition same_refs :: "string list \<Rightarrow> string list \<Rightarrow> bool" where
  "same_refs xs ys \<longleftrightarrow> canonicalJson (JArr (map JStr (sort xs))) = canonicalJson (JArr (map JStr (sort ys)))"

section \<open>Public projections\<close>

definition publicStageGeneration :: "stored_generation \<Rightarrow> stage_generation" where
  "publicStageGeneration = stage_generation.truncate"

definition publicIterationLoop :: "stored_loop \<Rightarrow> iteration_loop" where
  "publicIterationLoop = iteration_loop.truncate"

definition publicIterationRequest :: "stored_turn_request \<Rightarrow> iteration_request" where
  "publicIterationRequest = iteration_request.truncate"

definition publicIterationReceipt :: "stored_receipt \<Rightarrow> iteration_receipt" where
  "publicIterationReceipt = iteration_receipt.truncate"

section \<open>The one writer\<close>

record transition_target =
  tt_subject :: string
  tt_loopRef :: "string option"
  tt_requestRef :: "string option"
  tt_receiptRef :: "string option"
  tt_gateRef :: "string option"
  tt_loopVersion :: "int option"
  tt_receiptVersion :: "int option option"
  tt_missing :: string
  tt_conflict :: string

definition gate_loop :: "string \<Rightarrow> string \<Rightarrow> stored_loop \<Rightarrow> bool" where
  "gate_loop subject gateRef l \<longleftrightarrow> il_subject l = subject
     \<and> (il_completionGateRef l = Some gateRef \<or> il_interventionRef l = Some gateRef)"

definition target_receipt :: "document \<Rightarrow> transition_target \<Rightarrow> stored_receipt option" where
  "target_receipt d t = find_by (is_receipt (tt_subject t)) (tt_receiptRef t) (iterationReceipts d)"

definition target_request :: "document \<Rightarrow> transition_target \<Rightarrow> stored_turn_request option" where
  "target_request d t = (case tt_requestRef t of
     Some q \<Rightarrow> find (is_turn_request (tt_subject t) q) (iterationRequests d)
   | None \<Rightarrow> find_by (is_turn_request (tt_subject t)) (map_option oc_requestRef (target_receipt d t)) (iterationRequests d))"

definition target_loop :: "document \<Rightarrow> transition_target \<Rightarrow> stored_loop option" where
  "target_loop d t = (case target_receipt d t of
     Some r \<Rightarrow> find (is_loop (tt_subject t) (oc_iterationLoopRef r)) (iterationLoops d)
   | None \<Rightarrow> (case target_request d t of
       Some q \<Rightarrow> find (is_loop (tt_subject t) (iq_iterationLoopRef q)) (iterationLoops d)
     | None \<Rightarrow> (case tt_loopRef t of
         Some l \<Rightarrow> find (is_loop (tt_subject t) l) (iterationLoops d)
       | None \<Rightarrow> find_by (gate_loop (tt_subject t)) (tt_gateRef t) (iterationLoops d))))"

definition last_receipt :: "document \<Rightarrow> string \<Rightarrow> ('l) iteration_loop_scheme \<Rightarrow> stored_receipt option" where
  "last_receipt d subject l = find_by (is_receipt subject) (il_lastReceiptRef l) (iterationReceipts d)"

text \<open>
  What a change returns: a refusal, or the changed document with the answer. The wall's text, when it
  refuses the changed rows, is thrown; nothing is saved then.
\<close>

type_synonym 'a change = "(fail_reason \<times> string) + (document \<times> 'a)"

definition transitionIterationState :: "env \<Rightarrow> transition_target
    \<Rightarrow> (stored_loop \<Rightarrow> stored_receipt option \<Rightarrow> 'a change) \<Rightarrow> document \<Rightarrow> 'a outcome" where
  "transitionIterationState e t mutate d =
     (case target_loop d t of
        None \<Rightarrow> Refuse Conflict (tt_missing t)
      | Some l \<Rightarrow>
        let receipt = (if target_receipt d t = None \<and> tt_gateRef t \<noteq> None then last_receipt d (tt_subject t) l
                       else target_receipt d t) in
        if tt_receiptRef t \<noteq> None \<and> receipt = None then Refuse Conflict (tt_missing t)
        else if (case tt_loopVersion t of None \<Rightarrow> False | Some n \<Rightarrow> il_version l \<noteq> n)
          \<or> (case tt_receiptVersion t of None \<Rightarrow> False | Some v \<Rightarrow> map_option ir_version receipt \<noteq> v)
        then Refuse Conflict (tt_conflict t)
        else (case mutate l receipt of
          Inl (r, x) \<Rightarrow> Refuse r x
        | Inr (d', a) \<Rightarrow>
           (case iterationError e (iterationBundleForRun d' (il_subject l) (il_runRef l)) of
              Some x \<Rightarrow> Raise x
            | None \<Rightarrow> Commit d' a)))"

definition on_loop :: "string \<Rightarrow> string \<Rightarrow> string \<Rightarrow> string \<Rightarrow> transition_target" where
  "on_loop subject loopRef missing conflict = \<lparr>tt_subject = subject, tt_loopRef = Some loopRef, tt_requestRef = None,
     tt_receiptRef = None, tt_gateRef = None, tt_loopVersion = None, tt_receiptVersion = None,
     tt_missing = missing, tt_conflict = conflict\<rparr>"

definition set_loop :: "string \<Rightarrow> string \<Rightarrow> (stored_loop \<Rightarrow> stored_loop) \<Rightarrow> document \<Rightarrow> document" where
  "set_loop subject loopRef f d = d\<lparr>iterationLoops := upd_first (is_loop subject loopRef) f (iterationLoops d)\<rparr>"

definition touched_loop :: "string \<Rightarrow> stored_loop \<Rightarrow> stored_loop" where
  "touched_loop at l = l\<lparr>il_version := il_version l + 1, il_updatedAt := at\<rparr>"

definition cleared_loop :: "stored_loop \<Rightarrow> stored_loop" where
  "cleared_loop l = l\<lparr>il_acceptedGenerationRefs := None, il_completionGateRef := None, il_interventionRef := None,
     il_parkReason := None, il_unresolvedResidue := None\<rparr>"

text \<open>The index of the next \<open>stamp()\<close> of an operation, after one that is taken only sometimes.\<close>

definition step_if :: "bool \<Rightarrow> nat" where
  "step_if b = (if b then 1 else 0)"

section \<open>The generation a participant commits\<close>

record generation_input =
  gi_expectedStageVersion :: int
  gi_expectedAttemptVersion :: int
  gi_expectedGeneration :: int
  gi_operationKey :: string
  gi_resultHash :: string
  gi_resultCardRef :: "string option"
  gi_baseCommit :: string
  gi_canonicalCommit :: string

definition generation_fingerprint :: "env \<Rightarrow> string \<Rightarrow> generation_input \<Rightarrow> string" where
  "generation_fingerprint e stageRef i = sha256_json e (JObj [(''stageRef'', JStr stageRef),
     (''expectedStageVersion'', JNum (gi_expectedStageVersion i)),
     (''expectedAttemptVersion'', JNum (gi_expectedAttemptVersion i)),
     (''expectedGeneration'', JNum (gi_expectedGeneration i)), (''operationKey'', JStr (gi_operationKey i)),
     (''resultHash'', JStr (gi_resultHash i)), (''resultCardRef'', opt_str (gi_resultCardRef i)),
     (''baseCommit'', JStr (gi_baseCommit i)), (''canonicalCommit'', JStr (gi_canonicalCommit i))])"

definition dt_generation_lineage :: string where "dt_generation_lineage = ''stage generation lineage is invalid''"
definition dt_generation_no_loop :: string where "dt_generation_no_loop = ''stage has no iteration loop''"
definition dt_generation_key :: string where
  "dt_generation_key = ''stage generation operationKey is not canonical''"
definition dt_generation_card :: string where
  "dt_generation_card = ''stage generation result card does not match immutable generation policy''"
definition dt_generation_reused :: string where
  "dt_generation_reused = ''operationKey was reused with different generation content''"
definition dt_generation_no_attempt :: string where "dt_generation_no_attempt = ''stage has no current attempt''"
definition dt_generation_attempt :: string where
  "dt_generation_attempt = ''current attempt does not match the committed generation''"
definition dt_generation_projection :: string where
  "dt_generation_projection = ''stage generation projection changed''"
definition dt_generation_prior :: string where "dt_generation_prior = ''prior generation is missing''"
definition dt_generation_queued :: string where
  "dt_generation_queued = ''queued generation projection changed''"
definition dt_generation_base :: string where
  "dt_generation_base = ''queued creator attempt base lineage changed''"
definition dt_producer_lineage :: string where
  "dt_producer_lineage = ''iteration producer commit lineage changed''"
definition dt_producer_trigger :: string where
  "dt_producer_trigger = ''iteration producer supersession trigger is missing''"
definition dt_projection_changed :: string where "dt_projection_changed = ''iteration projection changed''"

text \<open>The last request to the participant of the stage that has no receipt yet.\<close>

definition active_request :: "document \<Rightarrow> string \<Rightarrow> stored_stage \<Rightarrow> stored_loop \<Rightarrow> stored_turn_request option" where
  "active_request d subject s l =
     (let p = find (\<lambda>p. pt_stageRef p = st_stageId s) (il_participants l) in
      find (\<lambda>q. iq_subject q = subject \<and> iq_runRef q = st_runRef s \<and> iq_iterationLoopRef q = il_iterationLoopRef l
        \<and> Some (iq_recipientParticipantId q) = map_option pt_participantId p
        \<and> \<not> list_ex (\<lambda>r. oc_requestRef r = iq_requestRef q) (iterationReceipts d)) (rev (iterationRequests d)))"

definition generation_key_ok :: "stored_stage \<Rightarrow> stored_turn_request option \<Rightarrow> generation_input \<Rightarrow> bool" where
  "generation_key_ok s active i \<longleftrightarrow> gi_operationKey i = (case active of
     Some q \<Rightarrow> iterationGenerationOperationKey (st_runRef s) (st_stageId s) (iq_requestRef q)
   | None \<Rightarrow> generationOperationKey (st_runRef s) (st_stageId s) (gi_expectedGeneration i))"

definition generation_card_ok :: "stored_stage \<Rightarrow> stored_turn_request option \<Rightarrow> generation_input \<Rightarrow> bool" where
  "generation_card_ok s active i \<longleftrightarrow>
     \<not> (active \<noteq> None \<and> gi_resultCardRef i \<noteq> None
        \<or> active = None \<and> gi_expectedGeneration i = 1
          \<and> (st_canonicalCardRef s = None \<or> gi_resultCardRef i \<noteq> st_canonicalCardRef s)
        \<or> active = None \<and> gi_expectedGeneration i > 1 \<and> gi_resultCardRef i \<noteq> None)"

definition producer_commit :: "stored_turn_request option \<Rightarrow> bool" where
  "producer_commit active \<longleftrightarrow> (case active of None \<Rightarrow> False | Some q \<Rightarrow> ARTIFACT_PRODUCING_REQUEST_KINDS (iq_kind q))"

definition prior_generation :: "document \<Rightarrow> string \<Rightarrow> stored_stage \<Rightarrow> int \<Rightarrow> stored_generation option" where
  "prior_generation d subject s n = (if n = 1 then None
     else find (\<lambda>g. sg_subject g = subject \<and> sg_runRef g = st_runRef s \<and> sg_logicalStageRef g = st_stageRef s
       \<and> sg_generation g = n - 1) (stageGenerations d))"

definition projected_generation :: "document \<Rightarrow> stored_stage \<Rightarrow> stored_generation option" where
  "projected_generation d s =
     find_by (\<lambda>r g. sg_generationRef g = r) (st_currentGenerationRef s) (stageGenerations d)"

definition queued_generation :: "document \<Rightarrow> stored_stage \<Rightarrow> int \<Rightarrow> stored_generation option" where
  "queued_generation d s n = (case projected_generation d s of
     Some g \<Rightarrow> if sg_state g = GenQueued \<and> sg_generation g = n then Some g else None | None \<Rightarrow> None)"

definition fresh_generation :: "env \<Rightarrow> string \<Rightarrow> stored_stage \<Rightarrow> stored_attempt \<Rightarrow> stored_generation option
    \<Rightarrow> string \<Rightarrow> int \<Rightarrow> stored_generation" where
  "fresh_generation e subject s a predecessor fingerprint n =
     \<lparr>sg_generationRef = ref e ''generation'' 0, sg_runRef = st_runRef s, sg_logicalStageRef = st_stageRef s,
      sg_logicalStageId = st_stageId s, sg_generation = n,
      sg_predecessorGenerationRef = map_option sg_generationRef predecessor, sg_attemptRef = at_attemptRef a,
      sg_canonicalResultOperationKey = None, sg_resultHash = None, sg_resultCardRef = None, sg_baseCommit = None,
      sg_canonicalCommit = None, sg_state = GenQueued, sg_createdAt = e_stamp e 0, sg_updatedAt = e_stamp e 0,
      sg_subject = subject, sg_operationFingerprint = fingerprint\<rparr>"

definition committed_generation :: "generation_input \<Rightarrow> string \<Rightarrow> string \<Rightarrow> stored_generation \<Rightarrow> stored_generation" where
  "committed_generation i fingerprint at g = g\<lparr>sg_operationFingerprint := fingerprint,
     sg_canonicalResultOperationKey := Some (gi_operationKey i), sg_resultHash := Some (gi_resultHash i),
     sg_resultCardRef := gi_resultCardRef i, sg_baseCommit := Some (gi_baseCommit i),
     sg_canonicalCommit := Some (gi_canonicalCommit i), sg_state := GenCommitted, sg_updatedAt := at\<rparr>"

text \<open>What a producer's commit does to its loop: supersede the generation it reworks, or join the active set.\<close>

definition supersession_of :: "env \<Rightarrow> string \<Rightarrow> stored_loop \<Rightarrow> stored_generation \<Rightarrow> stored_generation \<Rightarrow> string \<Rightarrow> supersession" where
  "supersession_of e subject l predecessor g trigger =
     (let key = ''rework:'' @ il_runRef l @ '':'' @ sg_logicalStageId g @ '':g'' @ int_str (sg_generation g) in
      \<lparr>su_runRef = il_runRef l, su_predecessorGenerationRef = sg_generationRef predecessor,
       su_successorGenerationRef = sg_generationRef g, su_triggerReceiptRef = trigger, su_operationKey = key,
       su_createdAt = e_stamp e 0, su_subject = subject,
       su_operationFingerprint = e_sha256 e (canonicalJson (JObj [(''runRef'', JStr (il_runRef l)),
         (''predecessorGenerationRef'', JStr (sg_generationRef predecessor)),
         (''successorGenerationRef'', JStr (sg_generationRef g)), (''triggerReceiptRef'', JStr trigger),
         (''operationKey'', JStr key)]))\<rparr>)"

definition produce :: "env \<Rightarrow> string \<Rightarrow> stored_loop \<Rightarrow> stored_turn_request \<Rightarrow> stored_attempt \<Rightarrow> stored_generation option
    \<Rightarrow> stored_generation \<Rightarrow> document \<Rightarrow> (fail_reason \<times> string) + document" where
  "produce e subject l q a predecessor g d =
     (if at_baseGenerationRef a \<noteq> map_option sg_generationRef predecessor
        \<or> \<not> list_all (\<lambda>r. r \<in> set (il_activeGenerationRefs l)) (iq_inputGenerationRefs q)
      then Inl (Conflict, dt_producer_lineage)
      else (case predecessor of
        Some p \<Rightarrow>
         (case last_receipt d subject l of
            None \<Rightarrow> Inl (Conflict, dt_producer_trigger)
          | Some r \<Rightarrow>
            if sg_generationRef p \<notin> set (iq_inputGenerationRefs q) then Inl (Conflict, dt_producer_trigger)
            else Inr (set_loop subject (il_iterationLoopRef l) (\<lambda>l. touched_loop (e_stamp e 0) (l\<lparr>il_activeGenerationRefs :=
                map (\<lambda>x. if x = sg_generationRef p then sg_generationRef g else x) (il_activeGenerationRefs l)\<rparr>))
              (d\<lparr>generationSupersessions := generationSupersessions d
                 @ [supersession_of e subject l p g (ir_receiptRef r)]\<rparr>)))
      | None \<Rightarrow>
          Inr (set_loop subject (il_iterationLoopRef l) (\<lambda>l. touched_loop (e_stamp e 0) (l\<lparr>il_activeGenerationRefs :=
              il_activeGenerationRefs l @ (if sg_generationRef g \<in> set (il_activeGenerationRefs l) then []
                else [sg_generationRef g])\<rparr>)) d)))"

definition generated_stage :: "stored_generation \<Rightarrow> string \<Rightarrow> stored_stage \<Rightarrow> stored_stage" where
  "generated_stage g at s = s\<lparr>st_currentGeneration := sg_generation g,
     st_currentGenerationRef := Some (sg_generationRef g), st_version := st_version s + 1, st_updatedAt := at\<rparr>"

definition store_generation :: "stored_generation option \<Rightarrow> stored_generation \<Rightarrow> document \<Rightarrow> document" where
  "store_generation queued g d = d\<lparr>stageGenerations := (case queued of
     Some x \<Rightarrow> upd_first (\<lambda>y. sg_generationRef y = sg_generationRef x) (\<lambda>_. g) (stageGenerations d)
   | None \<Rightarrow> stageGenerations d @ [g])\<rparr>"

definition generation_invalid :: "generation_input \<Rightarrow> bool" where
  "generation_invalid i \<longleftrightarrow> \<not> validNonEmpty (gi_operationKey i) MAX_SHORT_TEXT \<or> \<not> HASH_RE (gi_resultHash i)
     \<or> (case gi_resultCardRef i of None \<Rightarrow> False | Some c \<Rightarrow> \<not> SAFE_REF_RE c)
     \<or> \<not> CANONICAL_COMMIT_RE (gi_baseCommit i) \<or> \<not> CANONICAL_COMMIT_RE (gi_canonicalCommit i)
     \<or> \<not> safe_int (gi_expectedGeneration i) \<or> gi_expectedGeneration i < 1"

definition commit_generation :: "env \<Rightarrow> string \<Rightarrow> stored_stage \<Rightarrow> stored_loop \<Rightarrow> stored_turn_request option \<Rightarrow> stored_attempt
    \<Rightarrow> generation_input \<Rightarrow> document \<Rightarrow> stage_generation outcome" where
  "commit_generation e subject s l active a i d =
     (let n = gi_expectedGeneration i; fingerprint = generation_fingerprint e (st_stageRef s) i;
          predecessor = prior_generation d subject s n; queued = queued_generation d s n in
      if n > 1 \<and> predecessor = None then Refuse Conflict dt_generation_prior
      else if map_option sg_generation (projected_generation d s) = Some n
        \<and> map_option sg_attemptRef queued \<noteq> Some (at_attemptRef a)
      then Refuse Conflict dt_generation_queued
      else if (case queued of None \<Rightarrow> False | Some x \<Rightarrow> at_logicalGeneration a \<noteq> Some (sg_generation x)
          \<or> at_baseGenerationRef a \<noteq> map_option sg_generationRef predecessor
          \<or> Some (gi_baseCommit i) \<noteq> at_baseCommit a)
      then Refuse Conflict dt_generation_base
      else let g = committed_generation i fingerprint (e_stamp e 0)
                     (case queued of Some x \<Rightarrow> x | None \<Rightarrow> fresh_generation e subject s a predecessor fingerprint n) in
        transitionIterationState e (on_loop subject (il_iterationLoopRef l) dt_generation_no_loop dt_projection_changed)
          (\<lambda>cur _. sum_bind
             (case active of
                Some q \<Rightarrow> if producer_commit active then produce e subject cur q a predecessor g (store_generation queued g d)
                          else Inr (store_generation queued g d)
              | None \<Rightarrow> Inr (store_generation queued g d))
             (\<lambda>d1. Inr (d1\<lparr>stages := upd_first (is_stage subject (st_stageRef s)) (generated_stage g (e_stamp e 0)) (stages d1)\<rparr>,
                publicStageGeneration g))) d)"

definition recordStageGeneration :: "env \<Rightarrow> string \<Rightarrow> string \<Rightarrow> generation_input \<Rightarrow> document \<Rightarrow> stage_generation outcome" where
  "recordStageGeneration e subject stageRef i d =
     (if generation_invalid i then Refuse Invalid dt_generation_lineage
      else (case find (is_stage subject stageRef) (stages d) of
        None \<Rightarrow> Refuse NotFound dt_stage_not_found
      | Some s \<Rightarrow>
       (case iterationLoopForStage d s of
          None \<Rightarrow> Refuse Invalid dt_generation_no_loop
        | Some l \<Rightarrow>
          let active = active_request d subject s l in
          if \<not> generation_key_ok s active i then Refuse Invalid dt_generation_key
          else if \<not> generation_card_ok s active i then Refuse Invalid dt_generation_card
          else (case find (\<lambda>g. sg_subject g = subject \<and> sg_runRef g = st_runRef s
                  \<and> sg_canonicalResultOperationKey g = Some (gi_operationKey i)) (stageGenerations d) of
            Some g \<Rightarrow>
              if sg_operationFingerprint g \<noteq> generation_fingerprint e stageRef i
              then Refuse IdempotencyConflict dt_generation_reused else Replay (publicStageGeneration g)
          | None \<Rightarrow>
            if st_version s \<noteq> gi_expectedStageVersion i then Refuse Conflict dt_stage_version
            else if st_currentAttemptRef s = None \<or> st_currentAttemptRef s = Some []
            then Refuse Invalid dt_generation_no_attempt
            else (case current_attempt d subject s of
               None \<Rightarrow> Refuse Conflict dt_generation_attempt
             | Some a \<Rightarrow>
               if at_stageRef a \<noteq> st_stageRef s \<or> at_version a \<noteq> gi_expectedAttemptVersion i \<or> at_state a \<noteq> ASucceeded
               then Refuse Conflict dt_generation_attempt
               else if (if producer_commit active then at_logicalGeneration a else Some (st_currentGeneration s))
                 \<noteq> Some (gi_expectedGeneration i)
               then Refuse Conflict dt_generation_projection
               else commit_generation e subject s l active a i d)))))"

section \<open>Activation\<close>

record activate_input =
  ac_expectedLoopVersion :: int
  ac_seedGenerationRefs :: "string list"
  ac_artifactGenerationRefs :: "(string \<times> string) list"
  ac_operationKey :: string
  ac_successorRuntime :: "string option"
  ac_successorModel :: "string option"

definition dt_activation_identity :: string where
  "dt_activation_identity = ''iteration activation identity is invalid''"
definition dt_loop_not_found :: string where "dt_loop_not_found = ''iteration loop was not found''"
definition dt_activation_key :: string where
  "dt_activation_key = ''iteration activation operationKey is not canonical''"
definition dt_activation_artifacts :: string where
  "dt_activation_artifacts = ''iteration activation artifacts do not match the declared seed set''"
definition dt_activation_changed :: string where
  "dt_activation_changed = ''iteration loop activation changed''"
definition dt_activation_seed :: string where
  "dt_activation_seed = ''iteration seed generation lineage changed''"
definition dt_activation_routing :: string where
  "dt_activation_routing = ''initial iteration producer routing is unavailable''"

text \<open>The routing of a producer is given whole or not at all.\<close>

definition successor_invalid :: "string option \<Rightarrow> string option \<Rightarrow> bool" where
  "successor_invalid runtime model \<longleftrightarrow> (runtime = None) \<noteq> (model = None)
     \<or> (case (runtime, model) of (Some r, Some m) \<Rightarrow> \<not> validNonEmpty r MAX_SHORT_TEXT \<or> \<not> validNonEmpty m MAX_SHORT_TEXT
        | _ \<Rightarrow> False)"

definition activation_invalid :: "string \<Rightarrow> activate_input \<Rightarrow> bool" where
  "activation_invalid loopRef i \<longleftrightarrow> \<not> SAFE_REF_RE loopRef \<or> \<not> validNonEmpty (ac_operationKey i) MAX_SHORT_TEXT
     \<or> \<not> safe_int (ac_expectedLoopVersion i) \<or> ac_expectedLoopVersion i < 0
     \<or> length (ac_seedGenerationRefs i) < 1 \<or> list_ex (\<lambda>x. \<not> SAFE_REF_RE x) (ac_seedGenerationRefs i)
     \<or> successor_invalid (ac_successorRuntime i) (ac_successorModel i)"

definition seed_refs :: "activate_input \<Rightarrow> string list" where
  "seed_refs i = sort (uniq (ac_seedGenerationRefs i))"

definition initial_step :: "stored_loop \<Rightarrow> schedule_step option" where
  "initial_step l = find (\<lambda>s. sp_stepId s = il_initialStepId l) (il_schedule l)"

definition step_route :: "stored_loop \<Rightarrow> schedule_step option \<Rightarrow> iteration_route option" where
  "step_route l s = find_by (\<lambda>x r. ro_routeId r = x) (map_option sp_routeId s) (il_routes l)"

definition loop_attempt :: "string \<Rightarrow> string \<Rightarrow> string \<Rightarrow> string \<Rightarrow> int \<Rightarrow> string option \<Rightarrow> string \<Rightarrow> string \<Rightarrow> int
    \<Rightarrow> string option \<Rightarrow> string option \<Rightarrow> string \<Rightarrow> string \<Rightarrow> string option \<Rightarrow> string \<Rightarrow> stored_attempt" where
  "loop_attempt subject attemptRef runRef stageRef generation predecessor runtime model logical base commit key
     fingerprint receiptRef at =
     (queued_attempt subject attemptRef runRef stageRef generation predecessor runtime model at)
     \<lparr>at_logicalGeneration := Some logical, at_baseGenerationRef := base, at_baseCommit := commit,
      at_iterationAdvanceOperationKey := Some key, at_iterationAdvanceOperationFingerprint := Some fingerprint,
      at_iterationAdvanceReceiptRef := receiptRef\<rparr>"

definition initial_attempt :: "env \<Rightarrow> string \<Rightarrow> stored_loop \<Rightarrow> stored_stage \<Rightarrow> activate_input \<Rightarrow> string \<Rightarrow> string \<Rightarrow> stored_attempt" where
  "initial_attempt e subject l s i runtime model =
     loop_attempt subject (ref e ''attempt'' 0) (il_runRef l) (st_stageRef s) 1 None runtime model 1 None None
       (ac_operationKey i) (e_sha256 e (canonicalJson (JObj [(''operationKey'', JStr (ac_operationKey i)),
         (''successorRuntime'', JStr runtime), (''successorModel'', JStr model)]))) None (e_stamp e 0)"

text \<open>A stage whose current attempt becomes a producer's, held back from the DAG.\<close>

definition fenced_stage :: "string \<Rightarrow> string \<Rightarrow> stored_stage \<Rightarrow> stored_stage" where
  "fenced_stage attemptRef at s = s\<lparr>st_currentAttemptRef := Some attemptRef, st_acceptedGenerationRef := None,
     st_state := SBlocked, st_version := st_version s + 1, st_updatedAt := at\<rparr>"

definition enqueue_producer :: "stored_attempt option \<Rightarrow> (stored_stage \<Rightarrow> bool) \<Rightarrow> string \<Rightarrow> document \<Rightarrow> document" where
  "enqueue_producer x p at d = (case x of None \<Rightarrow> d
     | Some a \<Rightarrow> d\<lparr>attempts := attempts d @ [a],
                   stages := upd_first p (fenced_stage (at_attemptRef a) at) (stages d)\<rparr>)"

definition activated_loop :: "bool \<Rightarrow> schedule_step \<Rightarrow> iteration_route \<Rightarrow> string list \<Rightarrow> string \<Rightarrow> stored_loop \<Rightarrow> stored_loop" where
  "activated_loop producing step route seeds at l = touched_loop at ((cleared_loop l)
     \<lparr>il_cyclesUsed := 1, il_state := (if producing then ReworkQueued else AwaitingTurn),
      il_currentStepId := Some (sp_stepId step), il_turnOwnerParticipantId := Some (ro_recipientParticipantId route),
      il_activeGenerationRefs := seeds, il_lastReceiptRef := None\<rparr>)"

definition reactivate :: "string \<Rightarrow> stored_loop \<Rightarrow> iteration_route option \<Rightarrow> activate_input \<Rightarrow> document \<Rightarrow> iteration_loop outcome" where
  "reactivate subject l route i d =
     (let producing = (case route of None \<Rightarrow> False | Some r \<Rightarrow> producer_route r);
          stage = (case route of None \<Rightarrow> None | Some r \<Rightarrow> participant_stage d subject l (ro_recipientParticipantId r));
          attempt = (case stage of None \<Rightarrow> None | Some s \<Rightarrow> find_by
            (\<lambda>x a. is_attempt subject x a \<and> at_iterationAdvanceOperationKey a = Some (ac_operationKey i))
            (st_currentAttemptRef s) (attempts d)) in
      if il_cyclesUsed l = 1 \<and> il_currentStepId l = Some (il_initialStepId l)
        \<and> same_refs (il_activeGenerationRefs l) (seed_refs i)
        \<and> (if producing then map_option at_state attempt = Some AQueued else il_state l = AwaitingTurn)
      then Replay (publicIterationLoop l) else Refuse Conflict dt_activation_changed)"

definition seed_committed :: "document \<Rightarrow> string \<Rightarrow> stored_loop \<Rightarrow> participant \<Rightarrow> string \<Rightarrow> bool" where
  "seed_committed d subject l seed r = (case find (is_generation subject (il_runRef l) r) (stageGenerations d) of
     None \<Rightarrow> False | Some g \<Rightarrow> sg_state g = GenCommitted \<and> sg_logicalStageId g = pt_stageRef seed)"

text \<open>The producer a loop that starts with work asks for: \<open>None\<close> when its routing is not available.\<close>

definition initial_producer :: "document \<Rightarrow> string \<Rightarrow> stored_loop \<Rightarrow> iteration_route \<Rightarrow> activate_input
    \<Rightarrow> (stored_stage \<times> string \<times> string) option" where
  "initial_producer d subject l route i =
     (case (participant_stage d subject l (ro_recipientParticipantId route), ac_successorRuntime i, ac_successorModel i) of
        (Some s, Some runtime, Some model) \<Rightarrow>
          if runtime = [] \<or> model = [] \<or> st_currentGenerationRef s \<noteq> None \<or> st_currentAttemptRef s \<noteq> None
            \<or> (st_state s \<noteq> SBlocked \<and> st_state s \<noteq> SReady) then None else Some (s, runtime, model)
      | _ \<Rightarrow> None)"

definition activate :: "env \<Rightarrow> string \<Rightarrow> stored_loop \<Rightarrow> activate_input \<Rightarrow> schedule_step \<Rightarrow> iteration_route
    \<Rightarrow> stored_attempt option \<Rightarrow> (stored_stage \<Rightarrow> bool) \<Rightarrow> document \<Rightarrow> iteration_loop outcome" where
  "activate e subject l i step route producer p d =
     (let at = e_stamp e (step_if (producer \<noteq> None)); f = activated_loop (producer \<noteq> None) step route (seed_refs i) at in
      transitionIterationState e
        ((on_loop subject (il_iterationLoopRef l) dt_loop_not_found dt_activation_changed)
          \<lparr>tt_loopVersion := Some (ac_expectedLoopVersion i)\<rparr>)
        (\<lambda>cur _. Inr (set_loop subject (il_iterationLoopRef l) f (enqueue_producer producer p at d),
           publicIterationLoop (f cur))) d)"

definition activateIterationLoop :: "env \<Rightarrow> string \<Rightarrow> string \<Rightarrow> activate_input \<Rightarrow> document \<Rightarrow> iteration_loop outcome" where
  "activateIterationLoop e subject loopRef i d =
     (if activation_invalid loopRef i then Refuse Invalid dt_activation_identity
      else (case find (is_loop subject loopRef) (iterationLoops d) of
        None \<Rightarrow> Refuse NotFound dt_loop_not_found
      | Some l \<Rightarrow>
        if ac_operationKey i \<noteq> ''iteration-activate:'' @ il_runRef l @ '':'' @ il_iterationGroupId l @ '':c1''
        then Refuse Invalid dt_activation_key
        else if \<not> same_refs (map fst (ac_artifactGenerationRefs i)) (il_seedArtifactIds l)
          \<or> \<not> same_refs (uniq (map snd (ac_artifactGenerationRefs i))) (uniq (ac_seedGenerationRefs i))
        then Refuse Invalid dt_activation_artifacts
        else let step = initial_step l; route = step_route l step in
          if il_state l \<noteq> AwaitingSeed then reactivate subject l route i d
          else (case (find (\<lambda>p. pt_participantId p = il_seedParticipantId l) (il_participants l), step, route) of
            (Some seed, Some st, Some ro) \<Rightarrow>
              if ro_senderParticipantId ro \<noteq> pt_participantId seed
                \<or> \<not> list_all (seed_committed d subject l seed) (seed_refs i)
              then Refuse Conflict dt_activation_seed
              else if producer_route ro
              then (case initial_producer d subject l ro i of
                 None \<Rightarrow> Refuse Conflict dt_activation_routing
               | Some (s, runtime, model) \<Rightarrow>
                   activate e subject l i st ro (Some (initial_attempt e subject l s i runtime model))
                     (is_run_stage subject (il_runRef l) (st_stageId s)) d)
              else activate e subject l i st ro None (\<lambda>_. False) d
          | _ \<Rightarrow> Refuse Conflict dt_activation_seed)))"

section \<open>The request of a turn\<close>

record turn_input =
  tu_expectedLoopVersion :: int
  tu_routeId :: string
  tu_kind :: iteration_request_kind
  tu_inputGenerationRefs :: "string list"
  tu_baseCommit :: string
  tu_artifactHashes :: "(string \<times> string) list"
  tu_unresolvedFindingRefs :: "string list"
  tu_preservedInvariants :: "string list"
  tu_nextAcceptanceCheck :: string
  tu_instructions :: string
  tu_operationKey :: string

definition dt_turn_content :: string where "dt_turn_content = ''iteration request content is invalid''"
definition dt_turn_reused :: string where
  "dt_turn_reused = ''operationKey was reused with different iteration request content''"
definition dt_turn_owner :: string where "dt_turn_owner = ''iteration turn owner or declared route changed''"
definition dt_turn_blocked :: string where
  "dt_turn_blocked = ''iteration turn is blocked by an open gate or intervention''"
definition dt_turn_generations :: string where "dt_turn_generations = ''iteration request generations changed''"
definition dt_turn_lineage :: string where "dt_turn_lineage = ''iteration request lineage changed''"
definition dt_cycle_bound :: string where "dt_cycle_bound = ''iteration cycle bound is exhausted''"
definition dt_turn_stage :: string where "dt_turn_stage = ''iteration participant stage is not schedulable''"
definition dt_turn_attempt :: string where
  "dt_turn_attempt = ''iteration producer successor attempt changed''"

definition turn_invalid :: "string \<Rightarrow> turn_input \<Rightarrow> bool" where
  "turn_invalid loopRef i \<longleftrightarrow> \<not> SAFE_REF_RE loopRef \<or> \<not> validNonEmpty (tu_operationKey i) MAX_SHORT_TEXT
     \<or> \<not> SAFE_REF_RE (tu_routeId i) \<or> length (tu_inputGenerationRefs i) < 1
     \<or> list_ex (\<lambda>x. \<not> SAFE_REF_RE x) (tu_inputGenerationRefs i) \<or> \<not> CANONICAL_COMMIT_RE (tu_baseCommit i)
     \<or> list_ex (\<lambda>(k, h). \<not> HASH_RE h) (tu_artifactHashes i)
     \<or> \<not> validNonEmpty (tu_nextAcceptanceCheck i) MAX_LONG_TEXT \<or> \<not> validNonEmpty (tu_instructions i) MAX_LONG_TEXT"

definition same_turn :: "string \<Rightarrow> turn_input \<Rightarrow> stored_turn_request \<Rightarrow> bool" where
  "same_turn loopRef i q \<longleftrightarrow> iq_iterationLoopRef q = loopRef \<and> iq_routeId q = tu_routeId i \<and> iq_kind q = tu_kind i
     \<and> iq_baseCommit q = tu_baseCommit i
     \<and> canonicalJson (strs_js (iq_inputGenerationRefs q)) = canonicalJson (strs_js (tu_inputGenerationRefs i))
     \<and> canonicalJson (hashes_js (iq_artifactHashes q)) = canonicalJson (hashes_js (tu_artifactHashes i))
     \<and> canonicalJson (strs_js (iq_unresolvedFindingRefs q)) = canonicalJson (strs_js (tu_unresolvedFindingRefs i))
     \<and> canonicalJson (strs_js (iq_preservedInvariants q)) = canonicalJson (strs_js (tu_preservedInvariants i))
     \<and> iq_nextAcceptanceCheck q = tu_nextAcceptanceCheck i \<and> iq_instructions q = tu_instructions i"

definition gate_blocks :: "document \<Rightarrow> ('l) stored_loop_scheme \<Rightarrow> stored_request \<Rightarrow> bool" where
  "gate_blocks d l q \<longleftrightarrow> hq_subject q = il_subject l \<and> hq_runRef q = il_runRef l \<and> hq_open q
     \<and> (Some (hq_requestRef q) = il_completionGateRef l \<or> Some (hq_requestRef q) = il_interventionRef l
        \<or> ((hq_kind q = HkApproval \<or> hq_kind q = HkIntervention) \<and> \<not> isIterationGateRequest d (hq_requestRef q)
          \<and> (case (case hq_stageRef q of None \<Rightarrow> None | Some s \<Rightarrow>
               find (\<lambda>c. il_subject c = hq_subject q \<and> il_runRef c = hq_runRef q
                 \<and> list_ex (\<lambda>p. list_ex (\<lambda>t. is_run_stage (il_subject c) (il_runRef c) (pt_stageRef p) t
                     \<and> st_stageRef t = s) (stages d)) (il_participants c)) (iterationLoops d)) of
             None \<Rightarrow> True | Some c \<Rightarrow> il_iterationLoopRef c = il_iterationLoopRef l)))"

definition hasBlockingIterationRequest :: "document \<Rightarrow> ('l) stored_loop_scheme \<Rightarrow> bool" where
  "hasBlockingIterationRequest d l = list_ex (gate_blocks d l) (humanRequests d)"

text \<open>The attempt a producer entry continues: queued, for the next generation of its stage.\<close>

definition producer_ready :: "stored_stage \<Rightarrow> stored_attempt \<Rightarrow> bool" where
  "producer_ready s a \<longleftrightarrow> at_state a = AQueued
     \<and> at_logicalGeneration a = Some (if st_currentGenerationRef s = None then 1 else st_currentGeneration s + 1)
     \<and> at_baseGenerationRef a = st_currentGenerationRef s"

definition producer_entry_ok :: "document \<Rightarrow> string \<Rightarrow> stored_stage option \<Rightarrow> bool" where
  "producer_entry_ok d subject s = (case s of None \<Rightarrow> False
     | Some s \<Rightarrow> (case current_attempt d subject s of None \<Rightarrow> False | Some a \<Rightarrow> producer_ready s a))"

definition turn_cycle :: "document \<Rightarrow> string \<Rightarrow> stored_loop \<Rightarrow> schedule_step \<Rightarrow> int" where
  "turn_cycle d subject l step = (case last_receipt d subject l of None \<Rightarrow> 1
     | Some r \<Rightarrow> if sp_cycle step = ''next'' then oc_cycle r + 1 else oc_cycle r)"

definition new_turn :: "env \<Rightarrow> string \<Rightarrow> stored_loop \<Rightarrow> schedule_step \<Rightarrow> iteration_route \<Rightarrow> turn_input \<Rightarrow> int \<Rightarrow> stored_turn_request" where
  "new_turn e subject l step route i cycle =
     (let q = \<lparr>iq_requestRef = ref e ''iteration-request'' 0, iq_iterationLoopRef = il_iterationLoopRef l,
        iq_stepId = sp_stepId step, iq_routeId = ro_routeId route, iq_senderParticipantId = ro_senderParticipantId route,
        iq_recipientParticipantId = ro_recipientParticipantId route, iq_kind = tu_kind i, iq_cycle = cycle,
        iq_inputGenerationRefs = tu_inputGenerationRefs i, iq_baseCommit = tu_baseCommit i,
        iq_artifactHashes = tu_artifactHashes i, iq_criteria = il_criteria l,
        iq_unresolvedFindingRefs = tu_unresolvedFindingRefs i, iq_preservedInvariants = tu_preservedInvariants i,
        iq_nextAcceptanceCheck = tu_nextAcceptanceCheck i, iq_instructions = tu_instructions i,
        iq_subject = subject, iq_runRef = il_runRef l, iq_operationKey = tu_operationKey i,
        iq_operationFingerprint = []\<rparr> in
      q\<lparr>iq_operationFingerprint := iterationRequestFingerprint e q\<rparr>)"

definition readied_stage :: "string \<Rightarrow> stored_stage \<Rightarrow> stored_stage" where
  "readied_stage at s = s\<lparr>st_state := SReady, st_version := st_version s + 1, st_updatedAt := at\<rparr>"

definition rebased_attempt :: "string \<Rightarrow> string \<Rightarrow> stored_attempt \<Rightarrow> stored_attempt" where
  "rebased_attempt commit at a = a\<lparr>at_baseCommit := Some commit, at_version := at_version a + 1, at_updatedAt := at\<rparr>"

definition running_loop :: "int \<Rightarrow> string \<Rightarrow> stored_loop \<Rightarrow> stored_loop" where
  "running_loop cycle at l = touched_loop at (l\<lparr>il_state := RunningTurn, il_cyclesUsed := cycle\<rparr>)"

definition start_turn :: "env \<Rightarrow> string \<Rightarrow> stored_turn_request \<Rightarrow> bool \<Rightarrow> turn_input \<Rightarrow> document \<Rightarrow> stored_loop
    \<Rightarrow> iteration_request change" where
  "start_turn e subject q entry i d cur =
     (case participant_stage d subject cur (iq_recipientParticipantId q) of
        None \<Rightarrow> Inl (Conflict, dt_turn_stage)
      | Some s \<Rightarrow>
        if \<not> dependenciesSucceeded d s \<or> st_state s \<notin> {SBlocked, SReady, SSucceeded} then Inl (Conflict, dt_turn_stage)
        else if entry \<and> (case current_attempt d subject s of None \<Rightarrow> True | Some a \<Rightarrow> \<not> producer_ready s a)
        then Inl (Conflict, dt_turn_attempt)
        else let n = step_if (st_state s \<noteq> SReady);
                 d1 = (if st_state s \<noteq> SReady then d\<lparr>stages := upd_first (is_run_stage subject (il_runRef cur) (st_stageId s))
                         (readied_stage (e_stamp e 0)) (stages d)\<rparr> else d);
                 d2 = (case (entry, st_currentAttemptRef s) of
                         (True, Some a) \<Rightarrow> d1\<lparr>attempts := upd_first (is_attempt subject a)
                           (rebased_attempt (tu_baseCommit i) (e_stamp e n)) (attempts d1)\<rparr>
                       | _ \<Rightarrow> d1);
                 d3 = set_loop subject (il_iterationLoopRef cur) (running_loop (iq_cycle q) (e_stamp e (n + step_if entry))) d2 in
             Inr (d3\<lparr>iterationRequests := iterationRequests d3 @ [q]\<rparr>, publicIterationRequest q))"

definition recordIterationRequest :: "env \<Rightarrow> string \<Rightarrow> string \<Rightarrow> turn_input \<Rightarrow> document \<Rightarrow> iteration_request outcome" where
  "recordIterationRequest e subject loopRef i d =
     (if turn_invalid loopRef i then Refuse Invalid dt_turn_content
      else (case find (\<lambda>q. iq_subject q = subject \<and> iq_operationKey q = tu_operationKey i) (iterationRequests d) of
        Some q \<Rightarrow> if \<not> same_turn loopRef i q then Refuse IdempotencyConflict dt_turn_reused
                  else Replay (publicIterationRequest q)
      | None \<Rightarrow>
       (case find (is_loop subject loopRef) (iterationLoops d) of
          None \<Rightarrow> Refuse NotFound dt_loop_not_found
        | Some l \<Rightarrow>
          let step = find_by (\<lambda>x s. sp_stepId s = x) (il_currentStepId l) (il_schedule l);
              entry = (il_state l = ReworkQueued \<and> ARTIFACT_PRODUCING_REQUEST_KINDS (tu_kind i)) in
         (case (step, step_route l step) of
            (Some st, Some ro) \<Rightarrow>
              if (il_state l \<noteq> AwaitingTurn \<and> \<not> entry) \<or> ro_routeId ro \<noteq> tu_routeId i
                \<or> Some (ro_recipientParticipantId ro) \<noteq> il_turnOwnerParticipantId l
                \<or> turn_kind_str (tu_kind i) \<notin> set (ro_requestKinds ro)
              then Refuse Conflict dt_turn_owner
              else if hasBlockingIterationRequest d l then Refuse Ineligible dt_turn_blocked
              else if \<not> same_refs (tu_inputGenerationRefs i) (il_activeGenerationRefs l)
              then Refuse Conflict dt_turn_generations
              else if \<not> list_all (\<lambda>r. is_committed (find (is_generation subject (il_runRef l) r) (stageGenerations d)))
                  (tu_inputGenerationRefs i)
                \<or> entry \<and> \<not> producer_entry_ok d subject (participant_stage d subject l (ro_recipientParticipantId ro))
                \<or> js_join [nul] (sort (map fst (tu_artifactHashes i))) \<noteq> js_join [nul] (sort (il_artifacts l))
              then Refuse Conflict dt_turn_lineage
              else let cycle = turn_cycle d subject l st in
                if cycle > il_maxCycles l then Refuse Ineligible dt_cycle_bound
                else transitionIterationState e
                  ((on_loop subject loopRef dt_loop_not_found dt_turn_owner)
                    \<lparr>tt_loopVersion := Some (tu_expectedLoopVersion i)\<rparr>)
                  (\<lambda>cur _. start_turn e subject (new_turn e subject l st ro i cycle) entry i d cur) d
          | _ \<Rightarrow> Refuse Conflict dt_turn_owner))))"

section \<open>The receipt of a turn\<close>

record receipt_input =
  rc_expectedLoopVersion :: int
  rc_requestRef :: string
  rc_outcome :: js
  rc_outputGenerationRefs :: "string list"
  rc_baseCommit :: string
  rc_canonicalCommit :: string
  rc_participantAttemptRef :: string
  rc_operationKey :: string

definition dt_receipt_content :: string where "dt_receipt_content = ''iteration receipt content is invalid''"
definition dt_turn_not_found :: string where "dt_turn_not_found = ''iteration request was not found''"
definition dt_receipt_reused :: string where
  "dt_receipt_reused = ''operationKey was reused with different iteration receipt content''"
definition dt_receipt_exists :: string where
  "dt_receipt_exists = ''an iteration receipt already exists for this request''"
definition dt_receipt_lineage :: string where
  "dt_receipt_lineage = ''iteration receipt lineage or turn owner changed''"
definition dt_accepted_stage :: string where
  "dt_accepted_stage = ''iteration accepted stage projection is incomplete''"

definition receipt_invalid :: "string \<Rightarrow> receipt_input \<Rightarrow> bool" where
  "receipt_invalid loopRef i \<longleftrightarrow> \<not> SAFE_REF_RE loopRef \<or> \<not> SAFE_REF_RE (rc_requestRef i)
     \<or> \<not> validNonEmpty (rc_operationKey i) MAX_SHORT_TEXT \<or> \<not> SAFE_REF_RE (rc_participantAttemptRef i)
     \<or> list_ex (\<lambda>x. \<not> SAFE_REF_RE x) (rc_outputGenerationRefs i)
     \<or> \<not> CANONICAL_COMMIT_RE (rc_baseCommit i) \<or> \<not> CANONICAL_COMMIT_RE (rc_canonicalCommit i)"

definition receipt_fingerprint :: "env \<Rightarrow> string \<Rightarrow> receipt_input \<Rightarrow> iteration_outcome \<Rightarrow> string" where
  "receipt_fingerprint e loopRef i x = e_sha256 e (canonicalJson (JObj [(''iterationLoopRef'', JStr loopRef),
     (''requestRef'', JStr (rc_requestRef i)),
     (''outcome'', JObj ((''schema'', JStr ''kb.iteration-outcome/v1'') # outcome_fields x)),
     (''outputGenerationRefs'', strs_js (rc_outputGenerationRefs i)), (''baseCommit'', JStr (rc_baseCommit i)),
     (''canonicalCommit'', JStr (rc_canonicalCommit i)),
     (''participantAttemptRef'', JStr (rc_participantAttemptRef i)), (''operationKey'', JStr (rc_operationKey i))]))"

definition generations_of :: "document \<Rightarrow> string \<Rightarrow> stored_loop \<Rightarrow> string list \<Rightarrow> stored_generation option list" where
  "generations_of d subject l refs =
     map (\<lambda>r. find (is_generation subject (il_runRef l) r) (stageGenerations d)) refs"

text \<open>The active set a fulfilled turn must have left: each input replaced by the output that supersedes it.\<close>

definition expected_active :: "bool \<Rightarrow> string list \<Rightarrow> stored_generation option list \<Rightarrow> string list" where
  "expected_active fulfilled inputs outputs =
     (if \<not> fulfilled then inputs
      else map (\<lambda>r. case find (\<lambda>g. case g of None \<Rightarrow> False | Some x \<Rightarrow> sg_predecessorGenerationRef x = Some r) outputs of
                 Some (Some x) \<Rightarrow> sg_generationRef x | _ \<Rightarrow> r) inputs
        @ map sg_generationRef (filter (\<lambda>x. sg_predecessorGenerationRef x = None) (List.map_filter id outputs)))"

definition primary_generation :: "bool \<Rightarrow> string list \<Rightarrow> stored_generation option list \<Rightarrow> stored_generation option list
    \<Rightarrow> stored_generation option" where
  "primary_generation fulfilled active inputs outputs =
     (if fulfilled then (case outputs of [] \<Rightarrow> None | g # gs \<Rightarrow> g)
      else (case find (\<lambda>g. case g of None \<Rightarrow> False | Some x \<Rightarrow> sg_generationRef x \<in> set active) inputs of
         Some g \<Rightarrow> g | None \<Rightarrow> None))"

definition output_ok :: "receipt_input \<Rightarrow> string option \<Rightarrow> stored_generation option \<Rightarrow> bool" where
  "output_ok i stageId g = (case g of None \<Rightarrow> False
     | Some x \<Rightarrow> sg_state x = GenCommitted \<and> sg_baseCommit x = Some (rc_baseCommit i)
         \<and> sg_canonicalCommit x = Some (rc_canonicalCommit i) \<and> Some (sg_logicalStageId x) = stageId
         \<and> sg_attemptRef x = rc_participantAttemptRef i)"

definition receipt_lineage_ok :: "document \<Rightarrow> string \<Rightarrow> stored_loop \<Rightarrow> stored_turn_request \<Rightarrow> bool \<Rightarrow> receipt_input \<Rightarrow> bool" where
  "receipt_lineage_ok d subject l q fulfilled i =
     (let inputs = generations_of d subject l (iq_inputGenerationRefs q);
          outputs = generations_of d subject l (rc_outputGenerationRefs i);
          stageId = participant_stage_id l (iq_recipientParticipantId q) in
      il_state l = RunningTurn \<and> il_turnOwnerParticipantId l = Some (iq_recipientParticipantId q)
      \<and> il_currentStepId l = Some (iq_stepId q) \<and> list_all is_committed inputs
      \<and> (case primary_generation fulfilled (il_activeGenerationRefs l) inputs outputs of None \<Rightarrow> False
         | Some p \<Rightarrow>
             (if fulfilled then list_all (output_ok i stageId) outputs \<and> length (rc_outputGenerationRefs i) = 1
              else rc_outputGenerationRefs i = [] \<and> sg_baseCommit p = Some (rc_baseCommit i)
                \<and> sg_canonicalCommit p = Some (rc_canonicalCommit i)))
      \<and> same_refs (il_activeGenerationRefs l) (expected_active fulfilled (iq_inputGenerationRefs q) outputs))"

definition is_terminal :: "('l) iteration_loop_scheme \<Rightarrow> ('o) iteration_outcome_scheme \<Rightarrow> bool" where
  "is_terminal l x \<longleftrightarrow>
     list_ex (\<lambda>t. ta_participantId t = oc_participantId x \<and> ta_verdict t = oc_verdict x) (il_terminalAuthorities l)"

definition open_gate :: "env \<Rightarrow> string \<Rightarrow> stored_loop \<Rightarrow> string option \<Rightarrow> request_kind \<Rightarrow> bool \<Rightarrow> string \<Rightarrow> string \<Rightarrow> string \<Rightarrow> string
    \<Rightarrow> string \<Rightarrow> stored_request" where
  "open_gate e subject l stageRef kind park key fingerprint title prompt at =
     \<lparr>hq_requestRef = ref e ''request'' 0, hq_runRef = il_runRef l, hq_stageRef = stageRef, hq_kind = kind,
      hq_iterationPark = park, hq_revision = 1, hq_open = True, hq_title = cleanText e title MAX_TITLE,
      hq_prompt = cleanText e prompt MAX_LONG_TEXT, hq_response = None, hq_createdAt = at, hq_updatedAt = at,
      hq_subject = subject, hq_operationKey = Some key, hq_operationFingerprint = Some fingerprint,
      hq_resolutionOperationFingerprint = None, hq_legacyRecoveryOperationKey = None,
      hq_legacyRecoveryOperationFingerprint = None, hq_legacyRecoveryEventCursor = None\<rparr>"

definition receipt_gate :: "env \<Rightarrow> document \<Rightarrow> string \<Rightarrow> stored_loop \<Rightarrow> receipt_input \<Rightarrow> iteration_outcome \<Rightarrow> stored_request" where
  "receipt_gate e d subject l i x =
     (let stageRef = map_option st_stageRef (participant_stage d subject l (oc_participantId x));
          key = rc_operationKey i; loopRef = il_iterationLoopRef l; nl = [CHR 0x0A] in
      if oc_verdict x = ''parked''
      then open_gate e subject l stageRef HkApproval True (''iteration-parked:'' @ key)
        (e_sha256 e (loopRef @ [nul] @ ''parked'' @ [nul] @ key)) (''Iteration parked: '' @ il_iterationGroupId l)
        (''Participant explicitly parked; approve the exact parked generation set or decline. '' @ oc_summary x) (e_stamp e 0)
      else open_gate e subject l stageRef HkApproval False (''iteration-completion:'' @ key)
        (e_sha256 e (loopRef @ [nul] @ key)) (''Iteration completion: '' @ il_iterationGroupId l)
        ((case il_completionGate l of None \<Rightarrow> [] | Some g \<Rightarrow> cg_prompt g) @ nl @ nl @ ''Iteration summary: '' @ oc_summary x)
        (e_stamp e 0))"

definition new_receipt :: "env \<Rightarrow> string \<Rightarrow> stored_loop \<Rightarrow> stored_turn_request \<Rightarrow> receipt_input \<Rightarrow> iteration_outcome \<Rightarrow> nat
    \<Rightarrow> stored_receipt" where
  "new_receipt e subject l q i x n = iteration_receipt.extend
     (iteration_outcome.extend x
       \<lparr>ir_receiptRef = ref e ''iteration-receipt'' n,
        ir_outcomeHash = e_sha256 e (canonicalJson (JObj (outcome_fields x))),
        ir_outputGenerationRefs = rc_outputGenerationRefs i, ir_baseCommit = rc_baseCommit i,
        ir_canonicalCommit = rc_canonicalCommit i, ir_participantAttemptRef = rc_participantAttemptRef i,
        ir_createdAt = e_stamp e 0, ir_version = 1\<rparr>)
     \<lparr>ir_subject = subject, ir_runRef = il_runRef l, ir_routeId = iq_routeId q, ir_operationKey = rc_operationKey i,
      ir_operationFingerprint = receipt_fingerprint e (il_iterationLoopRef l) i x\<rparr>"

section \<open>What a parked loop leaves open\<close>

text \<open>\<open>map.set(key, row)\<close>: a row of the same key is replaced where it stands.\<close>

fun set_row :: "('a \<Rightarrow> string) \<Rightarrow> 'a \<Rightarrow> 'a list \<Rightarrow> 'a list" where
  "set_row k x [] = [x]"
| "set_row k x (y # ys) = (if k y = k x then x # ys else y # set_row k x ys)"

definition rows_by :: "('a \<Rightarrow> string) \<Rightarrow> 'a list \<Rightarrow> 'a list" where
  "rows_by k xs = foldl (\<lambda>m x. set_row k x m) [] xs"

definition iterationResidue :: "('l) iteration_loop_scheme \<Rightarrow> stored_turn_request list \<Rightarrow> stored_receipt list \<Rightarrow> string list
    \<Rightarrow> string \<Rightarrow> (attempted_turn \<times> int) option \<Rightarrow> iteration_residue" where
  "iterationResidue l requests receipts active nextRouteId pre =
     (let resolved = concat (map (\<lambda>r. case oc_resolvedFindingRefs r of None \<Rightarrow> [] | Some xs \<Rightarrow> xs) receipts) in
      \<lparr>rz_unresolvedFindings = rows_by fi_findingId
         (filter (\<lambda>f. fi_findingId f \<notin> set resolved) (concat (map oc_findings receipts))),
       rz_positions = rows_by po_positionId (concat (map oc_positions receipts)),
       rz_recordedDissent = rows_by ds_dissentId (concat (map oc_recordedDissent receipts)),
       rz_requestRefs = map iq_requestRef requests, rz_receiptRefs = map ir_receiptRef receipts,
       rz_activeGenerationRefs = active,
       rz_acceptedGenerationRefs = (case find (is_terminal l) (rev receipts) of
          None \<Rightarrow> [] | Some r \<Rightarrow> oc_inputGenerationRefs r),
       rz_nextRouteId = nextRouteId, rz_cycleUnit = il_cycleUnit l,
       rz_cyclesUsed = (case pre of Some (t, n) \<Rightarrow> n
          | None \<Rightarrow> max_of 1 (map iq_cycle requests @ map oc_cycle receipts)),
       rz_maxCycles = il_maxCycles l, rz_attempted = map_option fst pre\<rparr>)"

definition loop_requests :: "document \<Rightarrow> string \<Rightarrow> string \<Rightarrow> stored_turn_request list" where
  "loop_requests d subject loopRef =
     filter (\<lambda>q. iq_subject q = subject \<and> iq_iterationLoopRef q = loopRef) (iterationRequests d)"

definition loop_receipts :: "document \<Rightarrow> string \<Rightarrow> string \<Rightarrow> stored_receipt list" where
  "loop_receipts d subject loopRef =
     filter (\<lambda>r. ir_subject r = subject \<and> oc_iterationLoopRef r = loopRef) (iterationReceipts d)"

section \<open>Recording a receipt\<close>

definition decided_stage :: "string option \<Rightarrow> string \<Rightarrow> stored_stage \<Rightarrow> stored_stage" where
  "decided_stage accepted at s =
     s\<lparr>st_acceptedGenerationRef := accepted, st_version := st_version s + 1, st_updatedAt := at\<rparr>"

text \<open>The loop over the active generations that writes the decision on the stage of each.\<close>

fun decide_stages :: "string \<Rightarrow> string \<Rightarrow> bool \<Rightarrow> string \<Rightarrow> string \<Rightarrow> string list \<Rightarrow> document
    \<Rightarrow> (fail_reason \<times> string) + document" where
  "decide_stages subject runRef accepted at missing [] d = Inr d"
| "decide_stages subject runRef accepted at missing (r # rs) d =
     (case find (is_generation subject runRef r) (stageGenerations d) of
        None \<Rightarrow> Inl (Conflict, missing)
      | Some g \<Rightarrow>
       (case find (\<lambda>s. stage_row subject runRef s \<and> st_stageRef s = sg_logicalStageRef g) (stages d) of
          None \<Rightarrow> Inl (Conflict, missing)
        | Some s \<Rightarrow> decide_stages subject runRef accepted at missing rs
            (d\<lparr>stages := upd_first (\<lambda>s. stage_row subject runRef s \<and> st_stageRef s = sg_logicalStageRef g)
               (decided_stage (if accepted then Some r else None) at) (stages d)\<rparr>)))"

definition ended_turn :: "stored_receipt \<Rightarrow> loop_state \<Rightarrow> stored_loop \<Rightarrow> stored_loop" where
  "ended_turn r st l = l\<lparr>il_lastReceiptRef := Some (ir_receiptRef r), il_state := st,
     il_turnOwnerParticipantId := None, il_currentStepId := None\<rparr>"

definition parked_loop :: "string \<Rightarrow> string \<Rightarrow> iteration_residue \<Rightarrow> stored_loop \<Rightarrow> stored_loop" where
  "parked_loop gateRef reason residue l = l\<lparr>il_interventionRef := Some gateRef, il_parkReason := Some reason,
     il_unresolvedResidue := Some residue, il_cyclesUsed := rz_cyclesUsed residue\<rparr>"

definition receipt_state :: "stored_loop \<Rightarrow> iteration_outcome \<Rightarrow> loop_state" where
  "receipt_state l x = (if oc_verdict x = ''parked'' then AwaitingParkGate
     else if is_terminal l x then (if il_completionGate l \<noteq> None then AwaitingCompletionGate else Passed)
     else LoopFailed)"

definition settle_turn :: "env \<Rightarrow> string \<Rightarrow> stored_turn_request \<Rightarrow> iteration_outcome \<Rightarrow> stored_request option \<Rightarrow> stored_receipt
    \<Rightarrow> document \<Rightarrow> stored_loop \<Rightarrow> iteration_receipt change" where
  "settle_turn e subject q x gate r d cur =
     (let at = e_stamp e 0; loopRef = il_iterationLoopRef cur;
          ended = ended_turn r (receipt_state cur x) cur;
          save = (\<lambda>l d. set_loop subject loopRef (\<lambda>_. touched_loop at l) (d\<lparr>iterationReceipts := iterationReceipts d @ [r]\<rparr>)) in
      case gate of
        Some g \<Rightarrow>
          let d1 = d\<lparr>humanRequests := humanRequests d @ [g]\<rparr> in
          if oc_verdict x = ''parked''
          then let residue = iterationResidue ended (loop_requests d subject loopRef)
                 (loop_receipts d subject loopRef @ [r]) (il_activeGenerationRefs cur) (iq_routeId q) None in
            Inr (save ((parked_loop (hq_requestRef g) ''parked'' residue ended)
                \<lparr>il_acceptedGenerationRefs := None, il_completionGateRef := None\<rparr>) d1, publicIterationReceipt r)
          else Inr (save ((cleared_loop ended)\<lparr>il_completionGateRef := Some (hq_requestRef g)\<rparr>) d1, publicIterationReceipt r)
      | None \<Rightarrow>
          if is_terminal cur x
          then sum_bind (decide_stages subject (il_runRef cur) True at dt_accepted_stage (il_activeGenerationRefs cur) d)
            (\<lambda>d1. Inr (save ((cleared_loop ended)\<lparr>il_acceptedGenerationRefs := Some (il_activeGenerationRefs cur)\<rparr>) d1,
               publicIterationReceipt r))
          else Inr (save (cleared_loop ended) d, publicIterationReceipt r))"

definition recordIterationReceipt :: "env \<Rightarrow> string \<Rightarrow> string \<Rightarrow> receipt_input \<Rightarrow> document \<Rightarrow> iteration_receipt outcome" where
  "recordIterationReceipt e subject loopRef i d =
     (if receipt_invalid loopRef i then Refuse Invalid dt_receipt_content
      else (case (find (is_turn_request subject (rc_requestRef i)) (iterationRequests d),
                  find (is_loop subject loopRef) (iterationLoops d)) of
        (Some q, Some l) \<Rightarrow>
          if iq_iterationLoopRef q \<noteq> il_iterationLoopRef l then Refuse NotFound dt_turn_not_found
          else (case parseIterationOutcome e (rc_outcome i) l q [] of
            Inl x \<Rightarrow> Refuse Invalid x
          | Inr x \<Rightarrow>
           (case find (\<lambda>r. ir_subject r = subject \<and> ir_operationKey r = rc_operationKey i) (iterationReceipts d) of
              Some r \<Rightarrow> if ir_operationFingerprint r \<noteq> receipt_fingerprint e loopRef i x
                then Refuse IdempotencyConflict dt_receipt_reused else Replay (publicIterationReceipt r)
            | None \<Rightarrow>
              if list_ex (\<lambda>r. ir_subject r = subject \<and> oc_requestRef r = iq_requestRef q) (iterationReceipts d)
              then Refuse Conflict dt_receipt_exists
              else if \<not> receipt_lineage_ok d subject l q (oc_verdict x = ''fulfilled'') i
              then Refuse Conflict dt_receipt_lineage
              else let gated = (is_terminal l x \<and> il_completionGate l \<noteq> None) \<or> oc_verdict x = ''parked'' in
                if gated \<and> request_count d subject (il_runRef l) \<ge> MAX_HUMAN_REQUESTS_PER_RUN
                then Refuse Limit dt_request_limit
                else transitionIterationState e
                  ((on_loop subject loopRef dt_turn_not_found dt_receipt_lineage)
                    \<lparr>tt_requestRef := Some (iq_requestRef q), tt_loopVersion := Some (rc_expectedLoopVersion i)\<rparr>)
                  (\<lambda>cur _. settle_turn e subject q x (if gated then Some (receipt_gate e d subject l i x) else None)
                     (new_receipt e subject l q i x (step_if gated)) d cur) d))
      | _ \<Rightarrow> Refuse NotFound dt_turn_not_found))"

section \<open>The next turn\<close>

record advance_input =
  av_expectedLoopVersion :: int
  av_expectedReceiptRef :: string
  av_expectedActiveGenerationRefs :: "string list"
  av_nextStepId :: string
  av_operationKey :: string
  av_successorRuntime :: "string option"
  av_successorModel :: "string option"

definition dt_advance_identity :: string where "dt_advance_identity = ''iteration advance identity is invalid''"
definition dt_receipt_not_found :: string where "dt_receipt_not_found = ''iteration receipt was not found''"
definition dt_advance_undeclared :: string where
  "dt_advance_undeclared = ''iteration successor is not declared by the schedule''"
definition dt_advance_stage :: string where
  "dt_advance_stage = ''iteration successor participant stage is missing''"
definition dt_advance_reused :: string where
  "dt_advance_reused = ''operationKey was reused with different iteration advance content''"
definition dt_advance_replay :: string where
  "dt_advance_replay = ''iteration advance replay lineage is incomplete''"
definition dt_advance_lineage :: string where "dt_advance_lineage = ''iteration advance lineage changed''"
definition dt_advance_predecessor :: string where
  "dt_advance_predecessor = ''iteration producer predecessor is not committed''"
definition dt_advance_active :: string where
  "dt_advance_active = ''iteration producer attempt is still active''"
definition dt_advance_routing :: string where
  "dt_advance_routing = ''iteration producer routing is unavailable''"

definition advance_invalid :: "string \<Rightarrow> advance_input \<Rightarrow> bool" where
  "advance_invalid loopRef i \<longleftrightarrow> \<not> SAFE_REF_RE loopRef \<or> \<not> SAFE_REF_RE (av_expectedReceiptRef i)
     \<or> \<not> SAFE_REF_RE (av_nextStepId i) \<or> \<not> validNonEmpty (av_operationKey i) MAX_SHORT_TEXT
     \<or> list_ex (\<lambda>x. \<not> SAFE_REF_RE x) (av_expectedActiveGenerationRefs i)
     \<or> successor_invalid (av_successorRuntime i) (av_successorModel i)"

definition opt_field :: "string \<Rightarrow> string option \<Rightarrow> (string \<times> js) list" where
  "opt_field k x = (case x of None \<Rightarrow> [] | Some s \<Rightarrow> [(k, JStr s)])"

definition advance_fingerprint :: "env \<Rightarrow> string \<Rightarrow> advance_input \<Rightarrow> string" where
  "advance_fingerprint e loopRef i = e_sha256 e (canonicalJson (JObj ([(''iterationLoopRef'', JStr loopRef),
     (''expectedLoopVersion'', JNum (av_expectedLoopVersion i)), (''expectedReceiptRef'', JStr (av_expectedReceiptRef i)),
     (''expectedActiveGenerationRefs'', strs_js (av_expectedActiveGenerationRefs i)),
     (''nextStepId'', JStr (av_nextStepId i)), (''operationKey'', JStr (av_operationKey i))]
     @ opt_field ''successorRuntime'' (av_successorRuntime i) @ opt_field ''successorModel'' (av_successorModel i))))"

definition step_after :: "schedule_step \<Rightarrow> ('r) iteration_receipt_scheme \<Rightarrow> schedule_step \<Rightarrow> bool" where
  "step_after cur r s = (case sp_after s of None \<Rightarrow> False
     | Some a \<Rightarrow> sf_stepId a = sp_stepId cur \<and> sf_participantId a = oc_participantId r \<and> sf_verdict a = oc_verdict r)"

text \<open>The step of the request a receipt answers.\<close>

definition receipt_step :: "document \<Rightarrow> string \<Rightarrow> stored_loop \<Rightarrow> stored_turn_request option \<Rightarrow> schedule_step option" where
  "receipt_step d subject l q = find_by (\<lambda>x s. sp_stepId s = x) (map_option iq_stepId q) (il_schedule l)"

definition next_cycle :: "schedule_step \<Rightarrow> ('r) iteration_receipt_scheme \<Rightarrow> int" where
  "next_cycle s r = (if sp_cycle s = ''next'' then oc_cycle r + 1 else oc_cycle r)"

text \<open>The producer the advance mints: behind its committed predecessor and a settled attempt, with its routing.\<close>

definition next_producer :: "env \<Rightarrow> document \<Rightarrow> string \<Rightarrow> stored_loop \<Rightarrow> stored_stage \<Rightarrow> stored_receipt \<Rightarrow> advance_input
    \<Rightarrow> (fail_reason \<times> string) + stored_attempt" where
  "next_producer e d subject l s r i =
     (let predecessor = find_by (is_generation subject (il_runRef l)) (st_currentGenerationRef s) (stageGenerations d);
          prior = find_by (\<lambda>x a. is_attempt subject x a \<and> at_runRef a = il_runRef l) (st_currentAttemptRef s) (attempts d);
          runtime = first_some (map_option as_runtime (st_assignment s))
            (first_some (map_option at_runtime prior) (av_successorRuntime i));
          model = first_some (map_option as_model (st_assignment s))
            (first_some (map_option at_model prior) (av_successorModel i)) in
      if (case predecessor of None \<Rightarrow> False | Some g \<Rightarrow> sg_state g \<noteq> GenCommitted)
      then Inl (Conflict, dt_advance_predecessor)
      else if (case prior of None \<Rightarrow> False | Some a \<Rightarrow> \<not> TERMINAL_ATTEMPT (at_state a) \<and> at_state a \<noteq> AInterrupted)
      then Inl (Conflict, dt_advance_active)
      else (case (runtime, model) of
        (Some rt, Some md) \<Rightarrow>
          if rt = [] \<or> md = [] then Inl (Conflict, dt_advance_routing)
          else Inr (loop_attempt subject (ref e ''attempt'' 0) (il_runRef l) (st_stageRef s)
            (max_of 0 (map at_generation (filter (\<lambda>a. at_subject a = subject \<and> at_stageRef a = st_stageRef s)
               (attempts d))) + 1)
            (map_option at_attemptRef prior) rt md (case predecessor of None \<Rightarrow> 1 | Some g \<Rightarrow> sg_generation g + 1)
            (map_option sg_generationRef predecessor) (case predecessor of None \<Rightarrow> None | Some g \<Rightarrow> sg_canonicalCommit g)
            (av_operationKey i) (advance_fingerprint e (il_iterationLoopRef l) i) (Some (ir_receiptRef r)) (e_stamp e 0))
      | _ \<Rightarrow> Inl (Conflict, dt_advance_routing)))"

definition advanced_loop :: "bool \<Rightarrow> schedule_step \<Rightarrow> iteration_route \<Rightarrow> string \<Rightarrow> string \<Rightarrow> string \<Rightarrow> stored_loop \<Rightarrow> stored_loop" where
  "advanced_loop producing step route key fingerprint at l = touched_loop at ((cleared_loop l)
     \<lparr>il_state := (if producing then ReworkQueued else AwaitingTurn), il_currentStepId := Some (sp_stepId step),
      il_turnOwnerParticipantId := Some (ro_recipientParticipantId route),
      il_advanceOperationKey := Some key, il_advanceOperationFingerprint := Some fingerprint\<rparr>)"

definition advance_replay_ok :: "document \<Rightarrow> string \<Rightarrow> stored_loop \<Rightarrow> stored_stage \<Rightarrow> stored_receipt \<Rightarrow> schedule_step
    \<Rightarrow> iteration_route \<Rightarrow> advance_input \<Rightarrow> bool" where
  "advance_replay_ok d subject l s r step ro i \<longleftrightarrow> il_lastReceiptRef l = Some (ir_receiptRef r)
     \<and> il_currentStepId l = Some (sp_stepId step) \<and> il_turnOwnerParticipantId l = Some (ro_recipientParticipantId ro)
     \<and> (if producer_route ro then il_state l = ReworkQueued
          \<and> find_by (\<lambda>x a. is_attempt subject x a \<and> at_iterationAdvanceOperationKey a = Some (av_operationKey i))
              (st_currentAttemptRef s) (attempts d) \<noteq> None
        else il_state l = AwaitingTurn)"

definition advance :: "env \<Rightarrow> string \<Rightarrow> stored_loop \<Rightarrow> stored_receipt \<Rightarrow> schedule_step \<Rightarrow> iteration_route \<Rightarrow> stored_stage
    \<Rightarrow> stored_attempt option \<Rightarrow> advance_input \<Rightarrow> document \<Rightarrow> iteration_loop outcome" where
  "advance e subject l r step ro s producer i d =
     (let f = advanced_loop (producer \<noteq> None) step ro (av_operationKey i)
            (advance_fingerprint e (il_iterationLoopRef l) i) (e_stamp e (step_if (producer \<noteq> None))) in
      transitionIterationState e
        ((on_loop subject (il_iterationLoopRef l) dt_receipt_not_found dt_advance_lineage)
          \<lparr>tt_receiptRef := Some (ir_receiptRef r), tt_loopVersion := Some (av_expectedLoopVersion i)\<rparr>)
        (\<lambda>cur _. Inr (set_loop subject (il_iterationLoopRef cur) f
           (enqueue_producer producer (is_run_stage subject (il_runRef l) (st_stageId s)) (e_stamp e 0) d),
           publicIterationLoop (f cur))) d)"

definition advanceIterationTurn :: "env \<Rightarrow> string \<Rightarrow> string \<Rightarrow> advance_input \<Rightarrow> document \<Rightarrow> iteration_loop outcome" where
  "advanceIterationTurn e subject loopRef i d =
     (if advance_invalid loopRef i then Refuse Invalid dt_advance_identity
      else (case (find (is_loop subject loopRef) (iterationLoops d),
                  find (is_receipt subject (av_expectedReceiptRef i)) (iterationReceipts d)) of
        (Some l, Some r) \<Rightarrow>
          if oc_iterationLoopRef r \<noteq> il_iterationLoopRef l then Refuse NotFound dt_receipt_not_found
          else let q = find (is_turn_request subject (oc_requestRef r)) (iterationRequests d);
                   cur = receipt_step d subject l q;
                   step = (case cur of None \<Rightarrow> None
                     | Some c \<Rightarrow> find (\<lambda>s. sp_stepId s = av_nextStepId i \<and> step_after c r s) (il_schedule l)) in
           (case (step, step_route l step) of
              (Some st, Some ro) \<Rightarrow>
               (case participant_stage d subject l (ro_recipientParticipantId ro) of
                  None \<Rightarrow> Refuse Conflict dt_advance_stage
                | Some s \<Rightarrow>
                  if il_advanceOperationKey l = Some (av_operationKey i)
                  then (if il_advanceOperationFingerprint l \<noteq> Some (advance_fingerprint e loopRef i)
                        then Refuse IdempotencyConflict dt_advance_reused
                        else if advance_replay_ok d subject l s r st ro i then Replay (publicIterationLoop l)
                        else Refuse Conflict dt_advance_replay)
                  else if il_state l \<noteq> LoopFailed \<or> il_lastReceiptRef l \<noteq> Some (ir_receiptRef r)
                    \<or> \<not> same_refs (il_activeGenerationRefs l) (av_expectedActiveGenerationRefs i)
                  then Refuse Conflict dt_advance_lineage
                  else if hasBlockingIterationRequest d l then Refuse Ineligible dt_turn_blocked
                  else if next_cycle st r > il_maxCycles l then Refuse Ineligible dt_cycle_bound
                  else if producer_route ro
                  then (case next_producer e d subject l s r i of
                      Inl (x, t) \<Rightarrow> Refuse x t
                    | Inr a \<Rightarrow> advance e subject l r st ro s (Some a) i d)
                  else advance e subject l r st ro s None i d)
            | _ \<Rightarrow> Refuse Invalid dt_advance_undeclared)
      | _ \<Rightarrow> Refuse NotFound dt_receipt_not_found))"

section \<open>Parking\<close>

record park_input =
  pk_expectedLoopVersion :: int
  pk_expectedReceiptRef :: "string option"
  pk_expectedActiveGenerationRefs :: "string list"
  pk_reason :: string
  pk_nextRouteId :: string
  pk_attemptedRequestRef :: "string option"
  pk_attemptedOutcome :: "js option"
  pk_artifactSnapshots :: "artifact_snapshot list option"
  pk_failureReason :: "string option"
  pk_operationKey :: string

record park_result =
  pa_loop :: iteration_loop
  pa_receipt :: "iteration_receipt option"
  pa_receiptVersion :: "int option"
  pa_gate :: human_request

definition dt_park_identity :: string where "dt_park_identity = ''iteration park identity is invalid''"
definition dt_park_reused :: string where
  "dt_park_reused = ''operationKey was reused with different iteration park content''"
definition dt_park_route :: string where
  "dt_park_route = ''iteration park next route is not declared by the schedule''"
definition dt_park_lineage :: string where "dt_park_lineage = ''iteration park lineage changed''"
definition dt_park_bound :: string where "dt_park_bound = ''iteration cycle bound is not exhausted''"
definition dt_park_producer :: string where
  "dt_park_producer = ''no-progress requires an artifact-producing turn''"
definition dt_park_attempt :: string where "dt_park_attempt = ''no-progress attempt lineage changed''"

definition no_progress :: "park_input \<Rightarrow> bool" where
  "no_progress i \<longleftrightarrow> pk_reason i = ''no-progress''"

definition opt_ref_ok :: "string option \<Rightarrow> bool" where
  "opt_ref_ok x = (case x of None \<Rightarrow> False | Some r \<Rightarrow> SAFE_REF_RE r)"

definition park_invalid :: "string \<Rightarrow> park_input \<Rightarrow> bool" where
  "park_invalid loopRef i \<longleftrightarrow> \<not> SAFE_REF_RE loopRef
     \<or> (if no_progress i then pk_expectedReceiptRef i \<noteq> None else \<not> opt_ref_ok (pk_expectedReceiptRef i))
     \<or> (\<not> no_progress i \<and> (pk_attemptedRequestRef i \<noteq> None \<or> pk_attemptedOutcome i \<noteq> None
          \<or> pk_artifactSnapshots i \<noteq> None \<or> pk_failureReason i \<noteq> None))
     \<or> (no_progress i \<and> (\<not> opt_ref_ok (pk_attemptedRequestRef i) \<or> pk_attemptedOutcome i = None
          \<or> (case pk_artifactSnapshots i of None \<Rightarrow> True
             | Some xs \<Rightarrow> xs = [] \<or> list_ex (\<lambda>x. \<not> validIterationArtifactSnapshot x) xs)
          \<or> (case pk_failureReason i of None \<Rightarrow> True | Some t \<Rightarrow> \<not> validNonEmpty t MAX_LONG_TEXT)))
     \<or> \<not> SAFE_REF_RE (pk_nextRouteId i) \<or> \<not> validNonEmpty (pk_operationKey i) MAX_SHORT_TEXT
     \<or> pk_reason i \<notin> {''exhausted'', ''no-progress'', ''parked''}
     \<or> list_ex (\<lambda>x. \<not> SAFE_REF_RE x) (pk_expectedActiveGenerationRefs i)"

definition opt_int :: "int option \<Rightarrow> js" where
  "opt_int x = (case x of None \<Rightarrow> JNull | Some n \<Rightarrow> JNum n)"

definition snapshot_js :: "artifact_snapshot \<Rightarrow> js" where
  "snapshot_js x = JObj [(''path'', JStr (sn_path x)), (''regularFile'', JBool (sn_regularFile x)),
     (''size'', opt_int (sn_size x)), (''sha256'', opt_str (sn_sha256 x)),
     (''afterRegularFile'', JBool (sn_afterRegularFile x)), (''afterSize'', opt_int (sn_afterSize x)),
     (''afterSha256'', opt_str (sn_afterSha256 x)), (''byteIdentical'', JBool (sn_byteIdentical x))]"

definition park_fingerprint :: "env \<Rightarrow> string \<Rightarrow> park_input \<Rightarrow> string" where
  "park_fingerprint e loopRef i = e_sha256 e (canonicalJson (JObj ([(''iterationLoopRef'', JStr loopRef),
     (''expectedLoopVersion'', JNum (pk_expectedLoopVersion i))]
     @ opt_field ''expectedReceiptRef'' (pk_expectedReceiptRef i)
     @ [(''expectedActiveGenerationRefs'', strs_js (pk_expectedActiveGenerationRefs i)),
        (''reason'', JStr (pk_reason i)), (''nextRouteId'', JStr (pk_nextRouteId i))]
     @ opt_field ''attemptedRequestRef'' (pk_attemptedRequestRef i)
     @ (case pk_attemptedOutcome i of None \<Rightarrow> [] | Some v \<Rightarrow> [(''attemptedOutcome'', v)])
     @ (case pk_artifactSnapshots i of None \<Rightarrow> [] | Some xs \<Rightarrow> [(''artifactSnapshots'', JArr (map snapshot_js xs))])
     @ opt_field ''failureReason'' (pk_failureReason i) @ [(''operationKey'', JStr (pk_operationKey i))])))"

definition park_answer :: "stored_loop \<Rightarrow> stored_receipt option \<Rightarrow> stored_request \<Rightarrow> park_result" where
  "park_answer l r g = \<lparr>pa_loop = publicIterationLoop l, pa_receipt = map_option publicIterationReceipt r,
     pa_receiptVersion = map_option ir_version r, pa_gate = publicRequest g\<rparr>"

definition dropped_attempt :: "string \<Rightarrow> stored_attempt \<Rightarrow> stored_attempt" where
  "dropped_attempt at a = a\<lparr>at_state := AInterrupted, at_version := at_version a + 1, at_updatedAt := at\<rparr>"

definition dropped_session :: "string \<Rightarrow> stored_session \<Rightarrow> stored_session" where
  "dropped_session at s = s\<lparr>ms_state := MInterrupted, ms_version := ms_version s + 1, ms_updatedAt := at\<rparr>"

definition restored_stage :: "stored_generation option \<Rightarrow> string \<Rightarrow> stored_stage \<Rightarrow> stored_stage" where
  "restored_stage predecessor at s = s\<lparr>st_currentAttemptRef := map_option sg_attemptRef predecessor,
     st_currentGeneration := (case predecessor of None \<Rightarrow> 1 | Some g \<Rightarrow> sg_generation g),
     st_currentGenerationRef := map_option sg_generationRef predecessor,
     st_state := (if predecessor \<noteq> None then SSucceeded else SBlocked),
     st_version := st_version s + 1, st_updatedAt := at\<rparr>"

text \<open>A turn that made no progress gives its stage back to the generation it started from.\<close>

definition drop_turn :: "string \<Rightarrow> string \<Rightarrow> stored_stage \<Rightarrow> stored_attempt \<Rightarrow> document \<Rightarrow> document" where
  "drop_turn subject at s a d =
     (let session = find_by (\<lambda>x m. ms_subject m = subject \<and> ms_sessionRef m = x) (at_managedSessionRef a) (sessions d);
          predecessor = find_by (\<lambda>x g. sg_subject g = subject \<and> sg_generationRef g = x) (at_baseGenerationRef a)
            (stageGenerations d) in
      d\<lparr>attempts := upd_first (is_attempt subject (at_attemptRef a)) (dropped_attempt at) (attempts d),
        sessions := (case session of None \<Rightarrow> sessions d
          | Some m \<Rightarrow> if ms_state m \<in> {MPending, MStarting, MRunning}
              then upd_first (\<lambda>x. ms_subject x = subject \<and> ms_sessionRef x = ms_sessionRef m) (dropped_session at) (sessions d)
              else sessions d),
        stages := upd_first (is_run_stage subject (st_runRef s) (st_stageId s)) (restored_stage predecessor at) (stages d)\<rparr>)"

definition settle_park :: "env \<Rightarrow> string \<Rightarrow> park_input \<Rightarrow> stored_turn_request \<Rightarrow> stored_receipt option \<Rightarrow> iteration_residue
    \<Rightarrow> stored_request \<Rightarrow> document \<Rightarrow> stored_loop \<Rightarrow> stored_receipt option \<Rightarrow> park_result change" where
  "settle_park e subject i q linked residue g d cur r =
     (let at = e_stamp e 0;
          f = (\<lambda>l. touched_loop at ((parked_loop (hq_requestRef g) (pk_reason i) residue l)
            \<lparr>il_state := AwaitingParkGate, il_turnOwnerParticipantId := None, il_currentStepId := None\<rparr>));
          finish = (\<lambda>d. Inr (set_loop subject (il_iterationLoopRef cur) f (d\<lparr>humanRequests := humanRequests d @ [g]\<rparr>),
            park_answer (f cur) (first_some r linked) g)) in
      if \<not> no_progress i
      then (if r = None then Inl (Conflict, dt_receipt_not_found) else finish d)
      else (case participant_stage d subject cur (iq_recipientParticipantId q) of
        None \<Rightarrow> Inl (Conflict, dt_park_attempt)
      | Some s \<Rightarrow>
       (case current_attempt d subject s of
          None \<Rightarrow> Inl (Conflict, dt_park_attempt)
        | Some a \<Rightarrow> if at_state a \<noteq> ARunning then Inl (Conflict, dt_park_attempt)
                    else finish (drop_turn subject at s a d))))"

definition park_turn :: "park_input \<Rightarrow> stored_receipt option \<Rightarrow> string option" where
  "park_turn i r = (if no_progress i then pk_attemptedRequestRef i else map_option oc_requestRef r)"

text \<open>The step after the receipt, and the route the park names.\<close>

definition park_next_step :: "park_input \<Rightarrow> stored_loop \<Rightarrow> schedule_step option \<Rightarrow> stored_receipt option \<Rightarrow> schedule_step option" where
  "park_next_step i l cur r = (case (no_progress i, cur, r) of
     (False, Some c, Some x) \<Rightarrow> find (step_after c x) (il_schedule l) | _ \<Rightarrow> None)"

definition park_lineage_ok :: "park_input \<Rightarrow> stored_loop \<Rightarrow> stored_turn_request \<Rightarrow> stored_receipt option \<Rightarrow> bool" where
  "park_lineage_ok i l q r \<longleftrightarrow>
     (if no_progress i then il_state l = RunningTurn \<and> il_currentStepId l = Some (iq_stepId q)
        \<and> il_turnOwnerParticipantId l = Some (iq_recipientParticipantId q)
      else il_state l = LoopFailed \<and> il_lastReceiptRef l = map_option ir_receiptRef r)
     \<and> same_refs (il_activeGenerationRefs l) (pk_expectedActiveGenerationRefs i)"

definition park_outcome :: "env \<Rightarrow> park_input \<Rightarrow> stored_loop \<Rightarrow> stored_turn_request \<Rightarrow> string + iteration_outcome option" where
  "park_outcome e i l q =
     (if \<not> no_progress i then Inr None
      else (case parseIterationOutcome e (case pk_attemptedOutcome i of None \<Rightarrow> JUndef | Some v \<Rightarrow> v) l q [] of
        Inl x \<Rightarrow> Inl x
      | Inr x \<Rightarrow> if ARTIFACT_PRODUCING_REQUEST_KINDS (iq_kind q) then Inr (Some x) else Inl dt_park_producer))"

definition park_residue :: "park_input \<Rightarrow> stored_loop \<Rightarrow> stored_turn_request \<Rightarrow> iteration_outcome option \<Rightarrow> document \<Rightarrow> string
    \<Rightarrow> iteration_residue" where
  "park_residue i l q x d subject =
     (let rs = loop_receipts d subject (il_iterationLoopRef l) in
      iterationResidue l (loop_requests d subject (il_iterationLoopRef l)) rs (il_activeGenerationRefs l) (pk_nextRouteId i)
        (map_option (\<lambda>y. (\<lparr>tn_attemptedRequestRef = iq_requestRef q, tn_attemptedOutcome = y,
           tn_artifactSnapshots = (case pk_artifactSnapshots i of None \<Rightarrow> [] | Some xs \<Rightarrow> xs),
           tn_failureReason = (case pk_failureReason i of None \<Rightarrow> [] | Some t \<Rightarrow> t)\<rparr>,
           max_of 1 (map oc_cycle rs))) x))"

definition park_gate :: "env \<Rightarrow> document \<Rightarrow> string \<Rightarrow> string \<Rightarrow> stored_loop \<Rightarrow> park_input \<Rightarrow> string \<Rightarrow> string \<Rightarrow> stored_request" where
  "park_gate e d subject loopRef l i participantId summary =
     open_gate e subject l (map_option st_stageRef (participant_stage d subject l participantId)) HkApproval True
       (pk_operationKey i) (park_fingerprint e loopRef i) (''Iteration parked: '' @ il_iterationGroupId l)
       (''Iteration '' @ pk_reason i @ ''; approve the exact parked generation set or decline. '' @ summary) (e_stamp e 0)"

definition park :: "env \<Rightarrow> string \<Rightarrow> string \<Rightarrow> park_input \<Rightarrow> stored_loop \<Rightarrow> stored_turn_request \<Rightarrow> stored_receipt option
    \<Rightarrow> stored_receipt option \<Rightarrow> document \<Rightarrow> park_result outcome" where
  "park e subject loopRef i l q r linked d =
     (case park_outcome e i l q of
        Inl x \<Rightarrow> Refuse Invalid x
      | Inr x \<Rightarrow>
        let participantId = (case r of Some y \<Rightarrow> oc_participantId y | None \<Rightarrow> iq_recipientParticipantId q);
            summary = (case x of Some y \<Rightarrow> oc_summary y | None \<Rightarrow> (case r of Some y \<Rightarrow> oc_summary y | None \<Rightarrow> []));
            g = park_gate e d subject loopRef l i participantId summary;
            target = (on_loop subject loopRef dt_receipt_not_found dt_park_lineage)
              \<lparr>tt_loopVersion := Some (pk_expectedLoopVersion i)\<rparr> in
        transitionIterationState e
          (if no_progress i then target\<lparr>tt_requestRef := Some (iq_requestRef q)\<rparr>
           else target\<lparr>tt_receiptRef := map_option ir_receiptRef r\<rparr>)
          (settle_park e subject i q linked (park_residue i l q x d subject) g d) d)"

definition parkIterationLoop :: "env \<Rightarrow> string \<Rightarrow> string \<Rightarrow> park_input \<Rightarrow> document \<Rightarrow> park_result outcome" where
  "parkIterationLoop e subject loopRef i d =
     (if park_invalid loopRef i then Refuse Invalid dt_park_identity
      else let r = find_by (is_receipt subject) (pk_expectedReceiptRef i) (iterationReceipts d) in
       (case find (is_loop subject loopRef) (iterationLoops d) of
          None \<Rightarrow> Refuse NotFound dt_receipt_not_found
        | Some l \<Rightarrow>
          if \<not> no_progress i \<and> map_option oc_iterationLoopRef r \<noteq> Some (il_iterationLoopRef l)
          then Refuse NotFound dt_receipt_not_found
          else let linked = first_some r (if no_progress i then last_receipt d subject l else None) in
           (case find (\<lambda>q. hq_subject q = subject \<and> hq_operationKey q = Some (pk_operationKey i)) (humanRequests d) of
              Some g \<Rightarrow>
                if hq_operationFingerprint g \<noteq> Some (park_fingerprint e loopRef i)
                  \<or> il_interventionRef l \<noteq> Some (hq_requestRef g)
                then Refuse IdempotencyConflict dt_park_reused else Replay (park_answer l linked g)
            | None \<Rightarrow>
              let q = find_by (is_turn_request subject) (park_turn i r) (iterationRequests d);
                  cur = receipt_step d subject l q; step = park_next_step i l cur r;
                  ro = step_route l (if no_progress i then cur else step) in
             (case (q, cur, ro) of
                (Some q, Some c, Some ro) \<Rightarrow>
                  if ro_routeId ro \<noteq> pk_nextRouteId i \<or> (\<not> no_progress i \<and> step = None)
                  then Refuse Invalid dt_park_route
                  else if \<not> park_lineage_ok i l q r then Refuse Conflict dt_park_lineage
                  else if pk_reason i = ''exhausted'' \<and> (case (r, step) of
                      (Some x, Some s) \<Rightarrow> next_cycle s x \<le> il_maxCycles l | _ \<Rightarrow> True)
                  then Refuse Ineligible dt_park_bound
                  else if request_count d subject (il_runRef l) \<ge> MAX_HUMAN_REQUESTS_PER_RUN
                  then Refuse Limit dt_request_limit
                  else park e subject loopRef i l q r linked d
              | _ \<Rightarrow> Refuse Invalid dt_park_route))))"

section \<open>The gate a human resolves\<close>

record gate_input =
  gt_expectedRequestRevision :: int
  gt_expectedLoopVersion :: int
  gt_expectedReceiptVersion :: "int option"
  gt_decision :: string
  gt_operationKey :: string
  gt_response :: "string option"
  gt_resolvedBy :: "resolved_by option"

record gate_result = park_result +
  pa_interventionRequest :: "human_request option"

definition dt_gate_invalid :: string where "dt_gate_invalid = ''iteration gate resolution is invalid''"
definition dt_gate_not_found :: string where "dt_gate_not_found = ''iteration gate was not found''"
definition dt_gate_linkage :: string where "dt_gate_linkage = ''iteration gate linkage is incomplete''"
definition dt_gate_cycle :: string where
  "dt_gate_cycle = ''iteration-park gates cannot add an in-place cycle''"
definition dt_gate_reused :: string where
  "dt_gate_reused = ''iteration gate response was reused with different content''"
definition dt_gate_changed :: string where "dt_gate_changed = ''iteration gate resolution changed''"
definition dt_gate_receipt :: string where "dt_gate_receipt = ''iteration completion receipt is missing''"
definition dt_gate_stage :: string where
  "dt_gate_stage = ''iteration gate stage projection is incomplete''"

definition gate_response :: "env \<Rightarrow> gate_input \<Rightarrow> string option" where
  "gate_response e i = map_option (\<lambda>s. cleanText e s MAX_LONG_TEXT) (gt_response i)"

definition gate_fingerprint :: "env \<Rightarrow> string \<Rightarrow> gate_input \<Rightarrow> string" where
  "gate_fingerprint e requestRef i = e_sha256 e (canonicalJson (JObj [(''requestRef'', JStr requestRef),
     (''expectedRequestRevision'', JNum (gt_expectedRequestRevision i)),
     (''expectedLoopVersion'', JNum (gt_expectedLoopVersion i)),
     (''expectedReceiptVersion'', opt_int (gt_expectedReceiptVersion i)), (''decision'', JStr (gt_decision i)),
     (''operationKey'', JStr (gt_operationKey i)), (''response'', opt_str (gate_response e i)),
     (''resolvedBy'', case gt_resolvedBy i of None \<Rightarrow> JNull
        | Some b \<Rightarrow> JObj [(''actor'', JStr (rb_actor b)), (''tailnetIdentity'', opt_str (rb_tailnetIdentity b)),
            (''reason'', JStr (rb_reason b))])]))"

definition gate_answer :: "stored_loop \<Rightarrow> stored_receipt option \<Rightarrow> stored_request \<Rightarrow> stored_request option \<Rightarrow> gate_result" where
  "gate_answer l r g x = park_result.extend (park_answer l r g) \<lparr>pa_interventionRequest = map_option publicRequest x\<rparr>"

definition gate_intervention :: "env \<Rightarrow> string \<Rightarrow> string \<Rightarrow> stored_loop \<Rightarrow> stored_request \<Rightarrow> stored_receipt \<Rightarrow> gate_input
    \<Rightarrow> stored_request" where
  "gate_intervention e owner requestRef l g r i =
     open_gate e owner l (hq_stageRef g) HkIntervention False (''iteration-intervention:'' @ gt_operationKey i)
       (e_sha256 e (requestRef @ [nul] @ gt_operationKey i)) (''Iteration intervention: '' @ il_iterationGroupId l)
       (''Completion gate '' @ gt_decision i @ '': '' @ oc_summary r) (e_stamp e 0)"

definition resolved_gate :: "env \<Rightarrow> string \<Rightarrow> string \<Rightarrow> gate_input \<Rightarrow> stored_request \<Rightarrow> stored_request" where
  "resolved_gate e subject requestRef i g =
     (recordHumanResponse subject (if gt_decision i = ''approved'' then HdApproved else HdRejected) (gt_operationKey i)
        (gate_response e i) (gt_resolvedBy i) (e_stamp e 0) g)
     \<lparr>hq_resolutionOperationFingerprint := Some (gate_fingerprint e requestRef i)\<rparr>"

definition decided_loop :: "bool \<Rightarrow> bool \<Rightarrow> stored_request option \<Rightarrow> string \<Rightarrow> stored_loop \<Rightarrow> stored_loop" where
  "decided_loop parked approved intervention requestRef l =
     l\<lparr>il_state := (if approved then Passed else if parked then Declined else Parked),
       il_acceptedGenerationRefs := Some (if approved then il_activeGenerationRefs l else []),
       il_interventionRef := (if parked then Some requestRef else map_option hq_requestRef intervention)\<rparr>"

definition settle_gate :: "env \<Rightarrow> string \<Rightarrow> string \<Rightarrow> read_scope \<Rightarrow> string \<Rightarrow> gate_input \<Rightarrow> stored_request \<Rightarrow> stored_request option
    \<Rightarrow> document \<Rightarrow> stored_loop \<Rightarrow> stored_receipt option \<Rightarrow> gate_result change" where
  "settle_gate e subject owner scope requestRef i g intervention d cur r =
     (let approved = (gt_decision i = ''approved''); parked = hq_iterationPark g; at = e_stamp e 0;
          f = (\<lambda>l. touched_loop at (decided_loop parked approved intervention requestRef l));
          r' = map_option (\<lambda>x. x\<lparr>ir_version := ir_version x + 1\<rparr>) r;
          d1 = d\<lparr>humanRequests := upd_first (is_request subject requestRef scope) (resolved_gate e subject requestRef i)
                   (humanRequests d) @ (case intervention of Some x \<Rightarrow> if parked then [] else [x] | None \<Rightarrow> []),
                 iterationReceipts := (case r of None \<Rightarrow> iterationReceipts d
                   | Some x \<Rightarrow> upd_first (is_receipt owner (ir_receiptRef x)) (\<lambda>x. x\<lparr>ir_version := ir_version x + 1\<rparr>)
                       (iterationReceipts d))\<rparr> in
      if \<not> parked \<and> r = None then Inl (Conflict, dt_gate_linkage)
      else sum_bind (decide_stages owner (il_runRef cur) approved at dt_gate_stage (il_activeGenerationRefs cur) d1)
        (\<lambda>d2. Inr (set_loop owner (il_iterationLoopRef cur) f d2,
           gate_answer (f cur) r' (resolved_gate e subject requestRef i g) intervention)))"

definition gate_changed :: "stored_request \<Rightarrow> stored_loop \<Rightarrow> stored_receipt option \<Rightarrow> gate_input \<Rightarrow> bool" where
  "gate_changed g l r i \<longleftrightarrow> (\<not> hq_iterationPark g \<and> hq_kind g \<noteq> HkApproval) \<or> \<not> hq_open g
     \<or> hq_revision g \<noteq> gt_expectedRequestRevision i \<or> il_version l \<noteq> gt_expectedLoopVersion i
     \<or> map_option ir_version r \<noteq> gt_expectedReceiptVersion i
     \<or> (if hq_iterationPark g then il_state l \<noteq> AwaitingParkGate \<or> il_interventionRef l \<noteq> Some (hq_requestRef g)
        else il_state l \<noteq> AwaitingCompletionGate \<or> il_completionGateRef l \<noteq> Some (hq_requestRef g))"

definition gate_linked :: "stored_request \<Rightarrow> stored_loop \<Rightarrow> stored_receipt option \<Rightarrow> bool" where
  "gate_linked g l r \<longleftrightarrow> r \<noteq> None \<or> hq_iterationPark g
     \<and> (case il_unresolvedResidue l of None \<Rightarrow> False | Some z \<Rightarrow> rz_attempted z \<noteq> None)"

definition replay_gate :: "env \<Rightarrow> string \<Rightarrow> gate_input \<Rightarrow> stored_request \<Rightarrow> human_response \<Rightarrow> stored_loop \<Rightarrow> stored_receipt option
    \<Rightarrow> document \<Rightarrow> gate_result outcome" where
  "replay_gate e requestRef i g a l r d =
     (if hr_idempotencyKey a \<noteq> gt_operationKey i
        \<or> hq_resolutionOperationFingerprint g \<noteq> Some (gate_fingerprint e requestRef i)
      then Refuse IdempotencyConflict dt_gate_reused
      else Replay (gate_answer l r g (case il_interventionRef l of None \<Rightarrow> None
        | Some x \<Rightarrow> if x = [] \<or> x = hq_requestRef g then None
            else find (is_request (hq_subject g) x OwnSubject) (humanRequests d))))"

definition resolveIterationGate :: "env \<Rightarrow> string \<Rightarrow> string \<Rightarrow> gate_input \<Rightarrow> read_scope \<Rightarrow> document \<Rightarrow> gate_result outcome" where
  "resolveIterationGate e subject requestRef i scope d =
     (if \<not> SAFE_REF_RE requestRef \<or> \<not> validNonEmpty (gt_operationKey i) MAX_SHORT_TEXT
        \<or> gt_decision i \<notin> {''approved'', ''declined'', ''rejected'', ''changes-requested''}
      then Refuse Invalid dt_gate_invalid
      else (case findHumanRequest d subject requestRef scope of
        None \<Rightarrow> Refuse NotFound dt_gate_not_found
      | Some g \<Rightarrow>
       (case find (gate_loop (hq_subject g) requestRef) (iterationLoops d) of
          None \<Rightarrow> Refuse Conflict dt_gate_linkage
        | Some l \<Rightarrow>
          let owner = hq_subject g; r = last_receipt d owner l in
          if \<not> gate_linked g l r then Refuse Conflict dt_gate_linkage
          else if hq_iterationPark g \<and> gt_decision i = ''changes-requested'' then Refuse Invalid dt_gate_cycle
          else (case hq_response g of
            Some a \<Rightarrow> replay_gate e requestRef i g a l r d
          | None \<Rightarrow>
            if gate_changed g l r i then Refuse Conflict dt_gate_changed
            else let rejects = (\<not> hq_iterationPark g \<and> gt_decision i \<noteq> ''approved'') in
              if rejects \<and> r = None then Refuse Conflict dt_gate_receipt
              else if rejects \<and> request_count d owner (il_runRef l) \<ge> MAX_HUMAN_REQUESTS_PER_RUN
              then Refuse Limit dt_request_limit
              else transitionIterationState e
                ((on_loop owner (il_iterationLoopRef l) dt_gate_linkage dt_gate_changed)
                  \<lparr>tt_gateRef := Some requestRef, tt_loopVersion := Some (gt_expectedLoopVersion i),
                   tt_receiptVersion := Some (gt_expectedReceiptVersion i)\<rparr>)
                (settle_gate e subject owner scope requestRef i g
                  (case r of Some x \<Rightarrow> if rejects then Some (gate_intervention e owner requestRef l g x i) else None
                   | None \<Rightarrow> None) d) d))))"

end
