(* ===== verification/RunWall.thy ===== *)
theory RunWall
  imports Runs
begin

text \<open>
  The wall a persisted run has to pass when the document is loaded: \<open>decodeStoredRun\<close> of
  \<open>control/p2Decoders.ts\<close> on the row as it is written, and \<open>assertActivationReceipts\<close> of
  \<open>control/store.ts\<close>. \<open>run_sound\<close> is what every operation keeps of a row; with a version number that is
  still a safe integer it is all the wall asks for.
\<close>

section \<open>The row as it is persisted\<close>

fun phase_str :: "activation_phase \<Rightarrow> string" where
  "phase_str Claimed = ''claimed''"
| "phase_str RootsActivated = ''roots-activated''"
| "phase_str Dispatched = ''dispatched''"
| "phase_str ActivationFailed = ''failed''"

definition activation_js :: "activation_receipt \<Rightarrow> js" where
  "activation_js a = JObj [(''idempotencyKey'', JStr (ac_idempotencyKey a)), (''fingerprint'', JStr (ac_fingerprint a)),
     (''phase'', JStr (phase_str (ac_phase a))), (''claimedAt'', JStr (ac_claimedAt a)),
     (''updatedAt'', JStr (ac_updatedAt a))]"

definition reconciliation_js :: "failed_reconciliation option \<Rightarrow> js" where
  "reconciliation_js x = (case x of None \<Rightarrow> JNull | Some f \<Rightarrow> JObj
     [(''idempotencyKey'', JStr (fr_idempotencyKey f)), (''fingerprint'', JStr (fr_fingerprint f)),
      (''phase'', JStr (if fr_phase f = RecClaimed then ''claimed'' else ''committed'')),
      (''claimedAt'', JStr (fr_claimedAt f)), (''updatedAt'', JStr (fr_updatedAt f)),
      (''canonicalCommit'', opt_str (fr_canonicalCommit f)), (''eventCursor'', opt_int (fr_eventCursor f))])"

definition stored_fields :: "stored_run \<Rightarrow> (string \<times> js) list" where
  "stored_fields r =
     [(''subject'', JStr (r_subject r)), (''launchOperationKey'', opt_str (r_launchOperationKey r)),
      (''launchOperationFingerprint'', opt_str (r_launchOperationFingerprint r)),
      (''archiveOperationKey'', opt_str (r_archiveOperationKey r)),
      (''archiveOperationFingerprint'', opt_str (r_archiveOperationFingerprint r)),
      (''authorizedFailedRunReconciliation'', reconciliation_js (r_failedReconciliation r))]
     @ (case r_activationReceipts r of None \<Rightarrow> [] | Some as \<Rightarrow>
          [(''activationReceipts'', JArr (map activation_js as))])"

definition stored_run_js :: "stored_run \<Rightarrow> js" where
  "stored_run_js r = JObj (run_fields r @ stored_fields r)"

section \<open>Activation receipts\<close>

definition pending_phase :: "activation_receipt \<Rightarrow> bool" where
  "pending_phase a \<longleftrightarrow> ac_phase a = Claimed \<or> ac_phase a = RootsActivated"

definition receipt_text_ok :: "activation_receipt \<Rightarrow> bool" where
  "receipt_text_ok a \<longleftrightarrow> validNonEmpty (ac_idempotencyKey a) MAX_SHORT_TEXT \<and> HASH_RE (ac_fingerprint a)
     \<and> validNonEmpty (ac_claimedAt a) MAX_SHORT_TEXT \<and> validNonEmpty (ac_updatedAt a) MAX_SHORT_TEXT"

definition assertActivationReceipts :: "stored_run \<Rightarrow> string option" where
  "assertActivationReceipts r = (case r_activationReceipts r of
     None \<Rightarrow> None
   | Some as \<Rightarrow>
       if length as > MAX_ACTIVATION_RECEIPTS_PER_RUN
         \<or> \<not> (list_all receipt_text_ok as \<and> distinct (map ac_idempotencyKey as))
       then Some ''invalid control-plane run activation receipt''
       else if length (filter pending_phase as) > 1
       then Some ''invalid control-plane pending run activation receipts''
       else None)"

definition receipts_sound :: "activation_receipt list option \<Rightarrow> bool" where
  "receipts_sound x = (case x of None \<Rightarrow> True | Some as \<Rightarrow>
     length as \<le> MAX_ACTIVATION_RECEIPTS_PER_RUN \<and> distinct (map ac_idempotencyKey as)
     \<and> length (filter pending_phase as) \<le> 1
     \<and> list_all (\<lambda>a. validNonEmpty (ac_idempotencyKey a) MAX_SHORT_TEXT \<and> hex_len 64 (ac_fingerprint a)
         \<and> is_iso (ac_claimedAt a) \<and> is_iso (ac_updatedAt a)) as)"

lemma js_trim_not_empty:
  assumes "c \<in> set s" and "\<not> js_space c"
  shows "js_trim s \<noteq> []"
proof
  assume "js_trim s = []"
  then have "\<forall>x\<in>set (dropWhile js_space s). js_space x"
    by (simp add: js_trim_def dropWhile_eq_Nil_conv)
  moreover have "\<forall>x\<in>set (takeWhile js_space s). js_space x" by (auto dest: set_takeWhileD)
  moreover have "set s = set (takeWhile js_space s) \<union> set (dropWhile js_space s)"
    by (simp flip: set_append)
  ultimately show False using assms by auto
qed

lemma nums_digits: "nums cs = Some n \<Longrightarrow> list_all is_digit cs"
  by (induction cs arbitrary: n) (auto split: if_splits option.splits)

lemma is_iso_text: "is_iso s \<Longrightarrow> validNonEmpty s MAX_SHORT_TEXT"
proof -
  assume "is_iso s"
  then have s: "length s = 24 \<and> is_digit (hd s) \<and> nul \<notin> set s"
    by (auto simp: is_iso_def iso_parse_def nul_def is_digit_def dest!: nums_digits
        split: list.splits if_splits option.splits)
  then have "\<not> js_space (hd s)" "hd s \<in> set s"
    by (auto simp: is_digit_def js_space_def intro!: hd_in_set)
  then show ?thesis using s js_trim_not_empty by (auto simp: validNonEmpty_def MAX_SHORT_TEXT_def)
qed

lemma receipts_sound_assert: "receipts_sound (r_activationReceipts r) \<Longrightarrow> assertActivationReceipts r = None"
  by (auto simp: receipts_sound_def assertActivationReceipts_def receipt_text_ok_def HASH_RE_def list_all_iff is_iso_text
      split: option.splits)

section \<open>Runs the wall accepts\<close>

definition key_sound :: "string option \<Rightarrow> bool" where
  "key_sound x = (case x of None \<Rightarrow> True | Some s \<Rightarrow> 0 < length s \<and> length s \<le> 512 \<and> nul \<notin> set s)"

definition hash_sound :: "string option \<Rightarrow> bool" where
  "hash_sound x = (case x of None \<Rightarrow> True | Some s \<Rightarrow> hex_len 64 s)"

definition stored_extras_sound :: "stored_run \<Rightarrow> bool" where
  "stored_extras_sound r \<longleftrightarrow> SAFE_ID (r_subject r) \<and> key_sound (r_launchOperationKey r)
     \<and> hash_sound (r_launchOperationFingerprint r) \<and> key_sound (r_archiveOperationKey r)
     \<and> hash_sound (r_archiveOperationFingerprint r) \<and> receipts_sound (r_activationReceipts r)
     \<and> validFailedReconciliation (reconciliation_js (r_failedReconciliation r))"

text \<open>A run that succeeded, failed or stopped carries its outcome: archiving it rests on that.\<close>

definition outcome_stamped :: "stored_run \<Rightarrow> bool" where
  "outcome_stamped r \<longleftrightarrow> (final_outcome (lc_kind (r_lifecycle r)) \<noteq> None \<longrightarrow> r_terminalOutcome r \<noteq> None)"

definition run_sound :: "stored_run \<Rightarrow> bool" where
  "run_sound r \<longleftrightarrow> run_valid (r\<lparr>r_version := 1\<rparr>) \<and> 1 \<le> r_version r \<and> stored_extras_sound r \<and> outcome_stamped r"

lemma run_valid_version:
  "run_valid r \<longleftrightarrow> run_valid (r\<lparr>r_version := 1\<rparr>) \<and> safe_int (r_version r) \<and> 1 \<le> r_version r"
proof -
  have "safe_int 1" by (simp add: safe_int_def max_safe_def)
  then show ?thesis by (auto simp: run_valid_def outcome_closed_def)
qed

lemma run_sound_valid: "run_sound r \<Longrightarrow> r_version r \<le> max_safe \<Longrightarrow> run_valid r"
  by (subst run_valid_version) (auto simp: run_sound_def safe_int_def)

definition STORED_KEYS :: "string list" where
  "STORED_KEYS = [''subject'', ''launchOperationKey'', ''launchOperationFingerprint'', ''archiveOperationKey'',
     ''archiveOperationFingerprint'', ''authorizedFailedRunReconciliation'', ''activationReceipts'']"

lemma stored_run_other:
  assumes "k \<notin> set STORED_KEYS"
  shows "fld (stored_run_js r) k = fld (run_js r) k" and "hasOwn (stored_run_js r) k = hasOwn (run_js r) k"
proof -
  have "map_of (stored_fields r) k = None"
    using assms by (auto simp: stored_fields_def STORED_KEYS_def split: option.splits)
  then have "map_of (run_fields r @ stored_fields r) k = map_of (run_fields r) k"
    by (simp add: map_add_def split: option.splits)
  then show "fld (stored_run_js r) k = fld (run_js r) k" "hasOwn (stored_run_js r) k = hasOwn (run_js r) k"
    by (simp_all add: fld_def hasOwn_def stored_run_js_def run_js_def)
qed

lemma run_fields_keys: "k \<in> set STORED_KEYS \<Longrightarrow> map_of (run_fields r) k = None"
proof -
  assume k: "k \<in> set STORED_KEYS"
  have "list_all (\<lambda>k. k \<notin> set (RUN_KEYS @ RUN_OPTIONAL_KEYS)) STORED_KEYS" by code_simp
  moreover have "set (map fst (run_fields r)) \<subseteq> set (RUN_KEYS @ RUN_OPTIONAL_KEYS)"
    by (cases "r_workflowTags r") (simp_all add: run_fields_def RUN_KEYS_def RUN_OPTIONAL_KEYS_def)
  ultimately show ?thesis using k by (auto simp: map_of_eq_None_iff list_all_iff)
qed

lemma stored_run_own:
  assumes "k \<in> set STORED_KEYS"
  shows "fld (stored_run_js r) k = fld (JObj (stored_fields r)) k"
    and "hasOwn (stored_run_js r) k = hasOwn (JObj (stored_fields r)) k"
proof -
  have "map_of (run_fields r @ stored_fields r) k = map_of (stored_fields r) k"
    using run_fields_keys[OF assms, of r] by (simp add: map_add_def)
  then show "fld (stored_run_js r) k = fld (JObj (stored_fields r)) k"
      "hasOwn (stored_run_js r) k = hasOwn (JObj (stored_fields r)) k"
    by (simp_all add: fld_def hasOwn_def stored_run_js_def)
qed

lemma stored_run_values: "validRunValues (stored_run_js r) \<longleftrightarrow> run_valid r"
proof -
  have "validRunValues (stored_run_js r) \<longleftrightarrow> validRunValues (run_js r)"
    unfolding validRunValues_def identityFieldsFromRun_def validWorkflowTags_def
    by (simp add: stored_run_other STORED_KEYS_def)
  also have "\<dots> \<longleftrightarrow> run_valid r"
    using decodeRun_run_js[of r] run_shape[of r] by (simp add: decodeRun_def split: if_splits)
  finally show ?thesis .
qed

lemma stored_run_keys:
  "is_record (stored_run_js r)" "list_all (hasOwn (stored_run_js r)) STORED_RUN_REQUIRED_KEYS"
  "\<not> list_ex (\<lambda>k. k \<notin> set (STORED_RUN_REQUIRED_KEYS @ STORED_RUN_OPTIONAL_KEYS)) (js_keys (stored_run_js r))"
proof -
  show "is_record (stored_run_js r)" by (simp add: stored_run_js_def)
  have "hasOwn (stored_run_js r) ''subject''" by (simp add: stored_run_own STORED_KEYS_def stored_fields_def)
  moreover have "list_all (hasOwn (stored_run_js r)) RUN_KEYS"
    using run_shape(2)[of r] by (simp add: stored_run_other STORED_KEYS_def RUN_KEYS_def)
  ultimately show "list_all (hasOwn (stored_run_js r)) STORED_RUN_REQUIRED_KEYS"
    by (simp add: STORED_RUN_REQUIRED_KEYS_def)
  show "\<not> list_ex (\<lambda>k. k \<notin> set (STORED_RUN_REQUIRED_KEYS @ STORED_RUN_OPTIONAL_KEYS)) (js_keys (stored_run_js r))"
    by (simp add: stored_run_js_def run_fields_def stored_fields_def RUN_KEYS_def RUN_OPTIONAL_KEYS_def
        STORED_RUN_REQUIRED_KEYS_def STORED_RUN_OPTIONAL_KEYS_def split: option.split)
qed

lemma phase_str_known: "phase_str p \<in> set [''claimed'', ''roots-activated'', ''dispatched'', ''failed'']"
  by (cases p) simp_all

lemma activation_sound_js: "receipts_sound (Some as) \<Longrightarrow> validActivationReceipts (JArr (map activation_js as))"
proof -
  assume "receipts_sound (Some as)"
  then have a: "a \<in> set as \<Longrightarrow> validNonEmpty (ac_idempotencyKey a) MAX_SHORT_TEXT \<and> hex_len 64 (ac_fingerprint a)
         \<and> is_iso (ac_claimedAt a) \<and> is_iso (ac_updatedAt a)" for a
    by (auto simp: receipts_sound_def list_all_iff)
  have k: "exactKeys (activation_js a) [''idempotencyKey'', ''fingerprint'', ''phase'', ''claimedAt'', ''updatedAt'']"
      "is_record (activation_js a)" for a
    by (simp_all add: exactKeys_def activation_js_def)
  have n: "validNonEmpty s n \<Longrightarrow> s \<noteq> []" for s n by (auto simp: validNonEmpty_def js_trim_def)
  show ?thesis
    using a k n phase_str_known
    by (auto simp: validActivationReceipts_def list_all_iff activation_js_def js_hex_def)
qed

text \<open>The whole wall: a sound run with a safe version decodes, and its receipts are accepted.\<close>

lemma run_sound_decodes:
  assumes "run_sound r" and "r_version r \<le> max_safe"
  shows "decodeStoredRun (stored_run_js r) = Some (stored_run_js r)" and "assertActivationReceipts r = None"
proof -
  have x: "stored_extras_sound r" using assms(1) by (simp add: run_sound_def)
  have t: "nullableText (opt_str y) \<longleftrightarrow> key_sound y" "nullableHash (opt_str y) \<longleftrightarrow> hash_sound y" for y
    by (cases y; simp add: nullableText_def nullableHash_def key_sound_def hash_sound_def opt_str_def js_hex_def)+
  have own: "fld (JObj (stored_fields r)) ''subject'' = JStr (r_subject r)"
      "fld (JObj (stored_fields r)) ''launchOperationKey'' = opt_str (r_launchOperationKey r)"
      "fld (JObj (stored_fields r)) ''archiveOperationKey'' = opt_str (r_archiveOperationKey r)"
      "fld (JObj (stored_fields r)) ''launchOperationFingerprint'' = opt_str (r_launchOperationFingerprint r)"
      "fld (JObj (stored_fields r)) ''archiveOperationFingerprint'' = opt_str (r_archiveOperationFingerprint r)"
      "fld (JObj (stored_fields r)) ''authorizedFailedRunReconciliation'' = reconciliation_js (r_failedReconciliation r)"
    by (simp_all add: stored_fields_def)
  have act: "hasOwn (JObj (stored_fields r)) ''activationReceipts'' \<longrightarrow>
      validActivationReceipts (fld (JObj (stored_fields r)) ''activationReceipts'')"
    using x activation_sound_js
    by (cases "r_activationReceipts r") (auto simp: stored_fields_def hasOwn_def fld_def stored_extras_sound_def)
  have v: "run_valid r" by (rule run_sound_valid[OF assms])
  show "decodeStoredRun (stored_run_js r) = Some (stored_run_js r)"
    using stored_run_keys[of r] v x act
    by (simp add: decodeStoredRun_def stored_run_values stored_run_own STORED_KEYS_def own t stored_extras_sound_def)
  show "assertActivationReceipts r = None"
    using x by (simp add: stored_extras_sound_def receipts_sound_assert)
qed

section \<open>The invariant of the run collection\<close>

definition runs_inv :: "document \<Rightarrow> bool" where
  "runs_inv d \<longleftrightarrow> list_all run_sound (runs d) \<and> list_all (\<lambda>b. run_sound (qb_run b)) (quarantine d)"

interpretation runs_inv: store_invariant runs_inv
  by unfold_locales (simp add: runs_inv_def)

lemma runs_inv_upd:
  assumes "runs_inv d" and "runs d' = upd_first p f (runs d)" and "quarantine d' = quarantine d"
    and "\<And>r. find p (runs d) = Some r \<Longrightarrow> run_sound r \<Longrightarrow> run_sound (f r)"
  shows "runs_inv d'"
  using assms by (simp add: runs_inv_def list_all_upd_first)

lemma runs_inv_same: "runs d' = runs d \<Longrightarrow> quarantine d' = quarantine d \<Longrightarrow> runs_inv d \<Longrightarrow> runs_inv d'"
  by (simp add: runs_inv_def)

text \<open>The moves of a row that keep it sound.\<close>

definition closed_fields :: "run_outcome option \<Rightarrow> string option \<Rightarrow> run_kind option \<Rightarrow> bool" where
  "closed_fields t c a \<longleftrightarrow> (t = None \<longleftrightarrow> c = None) \<and> (a \<noteq> None \<longrightarrow> t \<noteq> None)
     \<and> (case a of None \<Rightarrow> True | Some k \<Rightarrow> k \<in> set ARCHIVED_FROM)"

lemma outcome_closed_fields:
  "outcome_closed r \<longleftrightarrow> closed_fields (r_terminalOutcome r) (r_completedAt r) (r_archivedFrom r)"
  by (simp add: outcome_closed_def closed_fields_def)

lemma closed_fields_simps [simp]:
  "closed_fields (Some out) (Some at) None" "closed_fields None None None"
  "closed_fields (Some out) (Some at) (Some k) \<longleftrightarrow> k \<in> set ARCHIVED_FROM"
  by (simp_all add: closed_fields_def)

lemma closed_fields_archived: "closed_fields t c a \<Longrightarrow> t \<noteq> None \<Longrightarrow> k \<in> set ARCHIVED_FROM \<Longrightarrow> closed_fields t c (Some k)"
  by (auto simp: closed_fields_def)

lemmas sound_defs = run_sound_def run_valid_def stored_extras_sound_def validLifecycle_plain outcome_stamped_def
  outcome_closed_fields

lemma run_sound_move:
  assumes "run_sound r" and "k \<noteq> RPausedForDeploy" and "is_iso at" and "final_outcome k = None"
  shows "run_sound (r\<lparr>r_lifecycle := plain_lc k, r_version := r_version r + 1, r_updatedAt := at\<rparr>)"
  using assms by (simp add: sound_defs)

lemma run_sound_final:
  assumes "run_sound r" and "k \<noteq> RPausedForDeploy" and "is_iso at" and "is_iso t"
  shows "run_sound (r\<lparr>r_lifecycle := plain_lc k, r_version := r_version r + 1, r_updatedAt := at,
      r_terminalOutcome := Some out, r_completedAt := Some t, r_archivedFrom := None\<rparr>)"
  using assms by (simp add: sound_defs)

lemma run_sound_completed: "run_sound r \<Longrightarrow> r_completedAt r = Some t \<Longrightarrow> is_iso t"
  by (simp add: run_sound_def run_valid_def)

lemma moved_run_sound:
  assumes "run_sound r" and "lifecycleForKind k None = Inr l" and "is_iso at"
  shows "run_sound (moved_run k l at r)"
proof -
  have l: "k \<noteq> RPausedForDeploy" "l = plain_lc k"
    using assms(2) by (auto simp: lifecycleForKind_None split: if_splits)
  have t: "is_iso (case r_completedAt r of None \<Rightarrow> at | Some t \<Rightarrow> t)"
    using run_sound_completed[OF assms(1)] assms(3) by (simp split: option.split)
  show ?thesis
    using run_sound_final[OF assms(1) l(1) assms(3) t] run_sound_move[OF assms(1) l(1) assms(3)]
    by (simp add: moved_run_def Let_def l(2) split: option.split)
qed

text \<open>An archived run keeps the outcome it had; an interrupted or waiting one gets the outcome it ended with.\<close>

lemma validNonEmpty_key: "validNonEmpty s n \<Longrightarrow> n \<le> 512 \<Longrightarrow> key_sound (Some s)"
  by (auto simp: validNonEmpty_def key_sound_def js_trim_def)

lemma archived_run_sound:
  assumes "run_sound r" and "canTransitionRun (r_lifecycle r) RArchived" and "lifecycleForKind RArchived None = Inr l"
    and "is_iso at" and "hex_len 64 fingerprint" and "validNonEmpty key MAX_SHORT_TEXT"
  shows "run_sound (archived_run key fingerprint l at r)"
proof -
  let ?k = "lc_kind (r_lifecycle r)"
  have l: "l = plain_lc RArchived" using assms(3) by (simp add: lifecycleForKind_None)
  have k: "?k \<in> set ARCHIVED_FROM"
    using assms(2) by (cases ?k) (simp_all add: canTransitionRun_def runLifecycleKind_def semantics_def ARCHIVED_FROM_def)
  have key: "key_sound (Some key)" using assms(6) validNonEmpty_key by (simp add: MAX_SHORT_TEXT_def)
  have out: "?k \<noteq> RInterrupted \<Longrightarrow> ?k \<noteq> RWaitingHuman \<Longrightarrow> r_terminalOutcome r \<noteq> None"
    using assms(1) k by (auto simp: run_sound_def outcome_stamped_def final_outcome_def ARCHIVED_FROM_def)
  have f: "final_outcome RArchived = None" by (simp add: final_outcome_def)
  have c: "closed_fields (r_terminalOutcome r) (r_completedAt r) (r_archivedFrom r)"
    using assms(1) by (simp add: sound_defs)
  have h: "hash_sound (Some fingerprint)" using assms(5) by (simp add: hash_sound_def)
  consider "?k = RInterrupted" | "?k = RWaitingHuman" | "?k \<noteq> RInterrupted" "?k \<noteq> RWaitingHuman" by blast
  then show ?thesis
  proof cases
    case 3
    then show ?thesis using assms(1,4) key h closed_fields_archived[OF c out k] f
      by (simp add: archived_run_def runLifecycleKind_def Let_def l sound_defs)
  qed (use assms(1,4) k key h f in \<open>simp add: archived_run_def runLifecycleKind_def Let_def l sound_defs\<close>)+
qed

end
