(* ===== verification/CoreInv.thy ===== *)
theory CoreInv
  imports RunWall
begin

text \<open>
  The three invariants the operations on runs share, as one step relation: the timeline numbers its
  events once and in order, an answered request keeps its answer, and the wall accepts every run.
\<close>

definition core_inv :: "document \<Rightarrow> bool" where
  "core_inv d \<longleftrightarrow> events_inv d \<and> requests_inv d \<and> runs_inv d"

interpretation core_inv: store_invariant core_inv
  by unfold_locales (simp add: core_inv_def events_inv.I_revision requests_inv.I_revision runs_inv.I_revision)

definition core_step :: "document \<Rightarrow> document \<Rightarrow> bool" where
  "core_step d d' \<longleftrightarrow> (core_inv d \<longrightarrow> core_inv d' \<and> rows_kept (humanRequests d) (humanRequests d'))"

lemma core_stepD: "core_step d d' \<Longrightarrow> core_inv d \<Longrightarrow> core_inv d' \<and> rows_kept (humanRequests d) (humanRequests d')"
  by (simp add: core_step_def)

text \<open>What an operation has to leave alone.\<close>

definition same_log :: "document \<Rightarrow> document \<Rightarrow> bool" where
  "same_log d d' \<longleftrightarrow> events d' = events d \<and> nextEventCursor d' = nextEventCursor d \<and> quarantine d' = quarantine d
     \<and> humanRequests d' = humanRequests d"

lemma core_step_same: "same_log d d' \<Longrightarrow> runs d' = runs d \<Longrightarrow> core_step d d'"
  by (simp add: core_step_def core_inv_def same_log_def events_inv_def quarantined_events_def requests_inv_def
      runs_inv_def rows_kept_list_all2)

lemma core_step_run:
  assumes "same_log d d'" and "runs d' = upd_first p f (runs d)"
    and "\<And>r. find p (runs d) = Some r \<Longrightarrow> run_sound r \<Longrightarrow> run_sound (f r)"
  shows "core_step d d'"
  using assms runs_inv_upd[of d d' p f]
  by (auto simp: core_step_def core_inv_def same_log_def events_inv_def quarantined_events_def requests_inv_def
      rows_kept_list_all2)

lemma core_step_events:
  assumes "numbered (nextEventCursor d) vs" and "events d' = events d @ vs"
    and "nextEventCursor d' = nextEventCursor d + int (length vs)"
    and "quarantine d' = quarantine d" and "humanRequests d' = humanRequests d"
    and "runs d' = upd_first p f (runs d)"
    and "\<And>r. find p (runs d) = Some r \<Longrightarrow> run_sound r \<Longrightarrow> run_sound (f r)"
  shows "core_step d d'"
  using assms(4,5) events_inv_push[OF _ assms(1-4)] runs_inv_upd[OF _ assms(6,4,7)]
  by (auto simp: core_step_def core_inv_def requests_inv_def rows_kept_list_all2)

lemma core_step_asks:
  assumes "requests_inv d \<Longrightarrow> asks_step d d'" and "events_inv d \<Longrightarrow> events_inv d'" and "runs d' = runs d"
    and "quarantine d' = quarantine d"
  shows "core_step d d'"
  using assms by (auto simp: core_step_def core_inv_def asks_step_def runs_inv_def)

lemma rows_kept_trans:
  assumes "rows_kept as bs" and "rows_kept bs cs"
  shows "rows_kept as cs"
proof -
  have l: "length as \<le> length bs" "length bs \<le> length cs" using assms by (simp_all add: rows_kept_def)
  have "list_all2 row_kept as (take (length as) bs)" using assms(1) by (simp add: rows_kept_def)
  moreover have "list_all2 row_kept (take (length as) bs) (take (length as) cs)"
    using assms(2) l list_all2_takeI[of row_kept bs "take (length bs) cs" "length as"]
    by (simp add: rows_kept_def min_def)
  ultimately show ?thesis using l by (auto simp: rows_kept_def intro: list_all2_kept_trans)
qed

lemma core_step_trans: "core_step a b \<Longrightarrow> core_step b c \<Longrightarrow> core_step a c"
  by (auto simp: core_step_def intro: rows_kept_trans)

lemma autoClose_core:
  "core_step d (snd (autoCloseOpenHumanRequestsForRun subject runRef at tag reason m d))"
proof (rule core_step_asks)
  note k = autoClose_keeps[where subject = subject and runRef = runRef and at = at and tag = tag and reason = reason
    and m = m and d = d]
  show "requests_inv d \<Longrightarrow> asks_step d (snd (autoCloseOpenHumanRequestsForRun subject runRef at tag reason m d))"
    using k(2) by (simp add: asks_step_def rows_kept_list_all2)
  show "events_inv d \<Longrightarrow> events_inv (snd (autoCloseOpenHumanRequestsForRun subject runRef at tag reason m d))"
    using k(1) by simp
qed (use autoClose_keeps(4,5) in auto)

lemma moved_sound:
  "lifecycleForKind k None = Inr l \<Longrightarrow> final_outcome k = None \<Longrightarrow> is_iso at \<Longrightarrow> run_sound r
    \<Longrightarrow> run_sound (r\<lparr>r_lifecycle := l, r_version := r_version r + 1, r_updatedAt := at\<rparr>)"
  using run_sound_move[of r k at] by (auto simp: lifecycleForKind_None split: if_splits)

lemma env_ok_iso: "env_ok e \<Longrightarrow> is_iso (e_stamp e n)"
  by (simp add: env_ok_def)

lemma env_ok_hex: "env_ok e \<Longrightarrow> hex_len 64 (e_sha256 e s)"
  by (simp add: env_ok_def)

end
