(* ===== verification/Quarantine.thy ===== *)
theory Quarantine
  imports CoreInv IterationWall
begin

text \<open>
  Quarantine (\<open>control/store.ts\<close>): \<open>dryRunQuarantine\<close>'s plan, \<open>quarantineRuns\<close>, which moves every record
  of a settled run into one bundle, and \<open>restoreRun\<close>, which puts the bundle back where it came from. The
  plan hash a reviewer confirms binds every record that will move.
\<close>

section \<open>Bundles\<close>

definition activeBundle :: "document \<Rightarrow> string \<Rightarrow> stored_run \<Rightarrow> run_bundle" where
  "activeBundle d subject r = (let runRef = r_runRef r in
     \<lparr>qb_subject = subject, qb_quarantinedAt = None, qb_run = r,
      qb_stages = filter (stage_row subject runRef) (stages d),
      qb_attempts = filter (attempt_row subject runRef) (attempts d),
      qb_sessions = filter (session_row subject runRef) (sessions d),
      qb_humanRequests = filter (run_request subject runRef) (humanRequests d),
      qb_events = filter (run_event subject runRef) (events d),
      qb_stageGenerations = filter (\<lambda>g. sg_subject g = subject \<and> sg_runRef g = runRef) (stageGenerations d),
      qb_iterationLoops = filter (\<lambda>l. il_subject l = subject \<and> il_runRef l = runRef) (iterationLoops d),
      qb_iterationRequests = filter (\<lambda>q. iq_subject q = subject \<and> iq_runRef q = runRef) (iterationRequests d),
      qb_iterationReceipts = filter (\<lambda>q. ir_subject q = subject \<and> ir_runRef q = runRef) (iterationReceipts d),
      qb_generationSupersessions =
        filter (\<lambda>x. su_subject x = subject \<and> su_runRef x = runRef) (generationSupersessions d)\<rparr>)"

record inventory_item =
  ii_runRef :: string
  ii_title :: string
  ii_state :: run_kind
  ii_updatedAt :: string
  ii_eventCount :: nat
  ii_estimatedBytes :: int
  ii_quarantinedAt :: "string option"
  ii_ownerSubject :: string

record plan_item = inventory_item +
  ii_eligible :: bool

definition inventoryItem :: "env \<Rightarrow> run_bundle \<Rightarrow> inventory_item" where
  "inventoryItem e b = \<lparr>ii_runRef = r_runRef (qb_run b), ii_title = r_title (qb_run b),
     ii_state = projectRunState (r_lifecycle (qb_run b)), ii_updatedAt = r_updatedAt (qb_run b),
     ii_eventCount = length (qb_events b), ii_estimatedBytes = e_bundleBytes e b,
     ii_quarantinedAt = qb_quarantinedAt b, ii_ownerSubject = qb_subject b\<rparr>"

definition bundleIsQuarantineEligible :: "run_bundle \<Rightarrow> bool" where
  "bundleIsQuarantineEligible b \<longleftrightarrow> canQuarantineRun (r_lifecycle (qb_run b))
     \<and> list_all (\<lambda>s. SETTLED_STAGE (st_state s)) (qb_stages b)
     \<and> list_all (\<lambda>a. SETTLED_ATTEMPT (at_state a)) (qb_attempts b)
     \<and> list_all (\<lambda>s. SETTLED_SESSION (ms_state s)) (qb_sessions b)
     \<and> list_all (\<lambda>q. \<not> hq_open q \<and> hq_response q \<noteq> None) (qb_humanRequests b)
     \<and> list_all (\<lambda>l. il_state l = Passed) (qb_iterationLoops b)"

definition quarantineBundleHash :: "env \<Rightarrow> run_bundle \<Rightarrow> string" where
  "quarantineBundleHash e b = e_sha256 e (e_bundleText e b)"

section \<open>The plan\<close>

record quarantine_plan =
  qp_planHash :: string
  qp_createdAt :: string
  qp_items :: "plan_item list"
  qp_estimatedBytes :: int

definition dt_quarantine_refs :: string where
  "dt_quarantine_refs = ''runRefs must be a non-empty array without duplicates''"
definition dt_quarantine_run :: "string \<Rightarrow> string" where
  "dt_quarantine_run runRef = ''run '' @ [CHR 0x27] @ runRef @ [CHR 0x27] @ '' was not found''"
definition dt_quarantine_changed :: string where
  "dt_quarantine_changed = ''quarantine plan changed; review a fresh dry-run''"
definition dt_quarantine_ineligible :: string where
  "dt_quarantine_ineligible =
     ''only quiescent terminal or interrupted run bundles without open Human Requests can be quarantined''"
definition dt_quarantine_lost :: string where "dt_quarantine_lost = ''quarantine plan changed''"
definition dt_restore_active :: string where
  "dt_restore_active = ''an active run already has this reference''"
definition dt_restore_missing :: string where "dt_restore_missing = ''quarantined run was not found''"

fun plan_bundles :: "document \<Rightarrow> string \<Rightarrow> read_scope \<Rightarrow> string list \<Rightarrow> string + run_bundle list" where
  "plan_bundles d subject scope [] = Inr []"
| "plan_bundles d subject scope (x # xs) = (case findRun d subject x scope of
     None \<Rightarrow> Inl x
   | Some r \<Rightarrow> sum_bind (plan_bundles d subject scope xs) (\<lambda>bs. Inr (activeBundle d (r_subject r) r # bs)))"

definition plan_item_of :: "env \<Rightarrow> run_bundle \<Rightarrow> plan_item" where
  "plan_item_of e b = inventory_item.extend (inventoryItem e b) \<lparr>ii_eligible = bundleIsQuarantineEligible b\<rparr>"

definition plan_of :: "env \<Rightarrow> string \<Rightarrow> string list \<Rightarrow> string \<Rightarrow> run_bundle list \<Rightarrow> quarantine_plan" where
  "plan_of e subject refs at bs =
     (let items = map (plan_item_of e) bs;
          body = JObj [(''runs'', JArr (map (\<lambda>(x, b). JObj [(''runRef'', JStr x),
            (''bundleHash'', JStr (quarantineBundleHash e b))]) (zip refs bs)))] in
      \<lparr>qp_planHash = e_sha256 e (subject @ [CHR 0x0A] @ canonicalJson body), qp_createdAt = at, qp_items = items,
       qp_estimatedBytes = sum_list (map ii_estimatedBytes items)\<rparr>)"

definition quarantinePlan ::
  "env \<Rightarrow> document \<Rightarrow> string \<Rightarrow> string list \<Rightarrow> string \<Rightarrow> read_scope \<Rightarrow> (fail_reason \<times> string) + quarantine_plan" where
  "quarantinePlan e d subject runRefs at scope =
     (let refs = sort (uniq runRefs) in
      if refs = [] \<or> length refs \<noteq> length runRefs then Inl (Invalid, dt_quarantine_refs)
      else case plan_bundles d subject scope refs of
        Inl x \<Rightarrow> Inl (NotFound, dt_quarantine_run x)
      | Inr bs \<Rightarrow> Inr (plan_of e subject refs at bs))"

definition dryRunQuarantine ::
  "env \<Rightarrow> string \<Rightarrow> string list \<Rightarrow> read_scope \<Rightarrow> document \<Rightarrow> quarantine_plan outcome" where
  "dryRunQuarantine e subject runRefs scope d =
     (case quarantinePlan e d subject runRefs (e_stamp e 0) scope of
        Inl x \<Rightarrow> Refuse (fst x) (snd x)
      | Inr p \<Rightarrow> Value p)"

section \<open>Moving\<close>

text \<open>\<open>document.runs.filter((value) => value !== run)\<close>, of the row that was found.\<close>

fun remove_first :: "('a \<Rightarrow> bool) \<Rightarrow> 'a list \<Rightarrow> 'a list" where
  "remove_first p [] = []"
| "remove_first p (x # xs) = (if p x then xs else x # remove_first p xs)"

definition sweep_run :: "string \<Rightarrow> string \<Rightarrow> document \<Rightarrow> document" where
  "sweep_run subject runRef d = d\<lparr>
     stages := filter (\<lambda>x. \<not> stage_row subject runRef x) (stages d),
     attempts := filter (\<lambda>x. \<not> attempt_row subject runRef x) (attempts d),
     sessions := filter (\<lambda>x. \<not> session_row subject runRef x) (sessions d),
     humanRequests := filter (\<lambda>x. \<not> run_request subject runRef x) (humanRequests d),
     events := filter (\<lambda>x. \<not> run_event subject runRef x) (events d),
     stageGenerations := filter (\<lambda>g. \<not> (sg_subject g = subject \<and> sg_runRef g = runRef)) (stageGenerations d),
     iterationLoops := filter (\<lambda>l. \<not> (il_subject l = subject \<and> il_runRef l = runRef)) (iterationLoops d),
     iterationRequests := filter (\<lambda>q. \<not> (iq_subject q = subject \<and> iq_runRef q = runRef)) (iterationRequests d),
     iterationReceipts := filter (\<lambda>q. \<not> (ir_subject q = subject \<and> ir_runRef q = runRef)) (iterationReceipts d),
     generationSupersessions :=
       filter (\<lambda>x. \<not> (su_subject x = subject \<and> su_runRef x = runRef)) (generationSupersessions d)\<rparr>"

definition quarantined_bundle :: "document \<Rightarrow> stored_run \<Rightarrow> string \<Rightarrow> run_bundle" where
  "quarantined_bundle d r at = (activeBundle d (r_subject r) r)\<lparr>qb_quarantinedAt := Some at\<rparr>"

definition move_run :: "string \<Rightarrow> read_scope \<Rightarrow> string \<Rightarrow> string \<Rightarrow> stored_run \<Rightarrow> document \<Rightarrow> document" where
  "move_run subject scope runRef at r d =
     sweep_run (r_subject r) (r_runRef r) (d\<lparr>quarantine := quarantine d @ [quarantined_bundle d r at],
       runs := remove_first (is_run subject runRef scope) (runs d)\<rparr>)"

fun move_runs :: "env \<Rightarrow> string \<Rightarrow> read_scope \<Rightarrow> string \<Rightarrow> string list \<Rightarrow> document \<Rightarrow> (inventory_item list \<times> document) option" where
  "move_runs e subject scope at [] d = Some ([], d)"
| "move_runs e subject scope at (x # xs) d = (case findRun d subject x scope of
     None \<Rightarrow> None
   | Some r \<Rightarrow> map_option (\<lambda>(items, d'). (inventoryItem e (quarantined_bundle d r at) # items, d'))
       (move_runs e subject scope at xs (move_run subject scope x at r d)))"

definition quarantineRuns ::
  "env \<Rightarrow> string \<Rightarrow> string list \<Rightarrow> string \<Rightarrow> read_scope \<Rightarrow> document \<Rightarrow> inventory_item list outcome" where
  "quarantineRuns e subject runRefs expectedPlanHash scope d =
     (case iterationError e d of
        Some x \<Rightarrow> Raise x
      | None \<Rightarrow>
       (case quarantinePlan e d subject runRefs (e_stamp e 0) scope of
          Inl x \<Rightarrow> Refuse (fst x) (snd x)
        | Inr p \<Rightarrow>
          if qp_planHash p \<noteq> expectedPlanHash then Refuse Conflict dt_quarantine_changed
          else if list_ex (\<lambda>i. \<not> ii_eligible i) (qp_items p) then Refuse Ineligible dt_quarantine_ineligible
          else (case move_runs e subject scope (e_stamp e 1) (map ii_runRef (qp_items p)) d of
            None \<Rightarrow> Refuse Conflict dt_quarantine_lost
          | Some x \<Rightarrow> Commit (snd x) (fst x))))"

section \<open>Restoring\<close>

definition is_bundle :: "string \<Rightarrow> string \<Rightarrow> read_scope \<Rightarrow> run_bundle \<Rightarrow> bool" where
  "is_bundle subject runRef scope b \<longleftrightarrow>
     (scope = AllSubjects \<or> qb_subject b = subject) \<and> r_runRef (qb_run b) = runRef"

definition recovery_event :: "string \<Rightarrow> string \<Rightarrow> int \<Rightarrow> string \<Rightarrow> stored_event" where
  "recovery_event owner runRef cursor at =
     \<lparr>ev_cursor = cursor, ev_runRef = runRef, ev_kind = EkLifecycle, ev_source = EsSystem, ev_stageRef = None,
      ev_attemptRef = None, ev_sessionRef = None, ev_status = None,
      ev_summary = Some ''run restored from quarantine'', ev_command = None, ev_toolName = None, ev_path = None,
      ev_diff = None, ev_checkpoint = None, ev_createdAt = at, ev_subject = owner, ev_operationKey = None,
      ev_operationFingerprint = None\<rparr>"

definition restored_run :: "string \<Rightarrow> stored_run \<Rightarrow> stored_run" where
  "restored_run at r = r\<lparr>r_updatedAt := at, r_version := r_version r + 1\<rparr>"

definition restore_bundle :: "string \<Rightarrow> string \<Rightarrow> run_bundle \<Rightarrow> document \<Rightarrow> document" where
  "restore_bundle runRef at b d = d\<lparr>
     runs := runs d @ [restored_run at (qb_run b)], stages := stages d @ qb_stages b,
     attempts := attempts d @ qb_attempts b, sessions := sessions d @ qb_sessions b,
     humanRequests := humanRequests d @ qb_humanRequests b,
     events := sort_key ev_cursor (events d @ qb_events b)
       @ [recovery_event (qb_subject b) runRef (nextEventCursor d) at],
     nextEventCursor := nextEventCursor d + 1,
     stageGenerations := stageGenerations d @ qb_stageGenerations b,
     iterationLoops := iterationLoops d @ qb_iterationLoops b,
     iterationRequests := iterationRequests d @ qb_iterationRequests b,
     iterationReceipts := iterationReceipts d @ qb_iterationReceipts b,
     generationSupersessions := generationSupersessions d @ qb_generationSupersessions b\<rparr>"

definition restoreRun :: "env \<Rightarrow> string \<Rightarrow> string \<Rightarrow> read_scope \<Rightarrow> document \<Rightarrow> run_metadata outcome" where
  "restoreRun e subject runRef scope d =
     (if findRun d subject runRef scope \<noteq> None then Refuse Conflict dt_restore_active
      else case find (is_bundle subject runRef scope) (quarantine d) of
        None \<Rightarrow> Refuse NotFound dt_restore_missing
      | Some b \<Rightarrow>
       (case iterationError e (bundle_rows b) of
          Some x \<Rightarrow> Raise x
        | None \<Rightarrow>
          let at = e_stamp e 0;
              d' = restore_bundle runRef at b
                (d\<lparr>quarantine := remove_first (is_bundle subject runRef scope) (quarantine d)\<rparr>) in
         (case metadata d' (qb_subject b) (restored_run at (qb_run b)) of
            Inl x \<Rightarrow> CommitRaise d' x
          | Inr m \<Rightarrow> Commit d' m)))"

end
