(* ===== verification/Broker.thy ===== *)
theory Broker
  imports HumanRequests
begin

text \<open>
  The durable side of the session broker (\<open>control/store.ts\<close>, \<open>BrokerStoreBackend\<close>): reserving the
  start of a managed session, appending its public events, completing, stopping and interrupting it, and
  the steering queue. Every call leaves a receipt under its idempotency key; the same call again answers
  from the receipt, another call under the same key throws. These methods throw instead of returning a
  failure, and answer the bare mutation.
\<close>

section \<open>Receipts of a session\<close>

fun broker_kind_str :: "broker_kind \<Rightarrow> string" where
  "broker_kind_str BkStart = ''start''" | "broker_kind_str BkEvent = ''event''"
| "broker_kind_str BkComplete = ''complete''" | "broker_kind_str BkStop = ''stop''"
| "broker_kind_str BkEnqueue = ''enqueue''" | "broker_kind_str BkConsume = ''consume''"
| "broker_kind_str BkInterrupt = ''interrupt''"

fun role_str :: "session_role \<Rightarrow> string" where
  "role_str Manager = ''manager''" | "role_str Worker = ''worker''"

definition brokerFingerprint :: "env \<Rightarrow> broker_kind \<Rightarrow> js \<Rightarrow> string" where
  "brokerFingerprint e kind input =
     sha256_json e (JObj [(''kind'', JStr (broker_kind_str kind)), (''input'', input)])"

definition dt_broker_reused :: string where
  "dt_broker_reused = ''broker idempotencyKey was reused with different operation content''"
definition dt_broker_receipts :: string where
  "dt_broker_receipts = ''managed session has reached the 4096 broker receipt limit''"
definition dt_broker_start :: string where
  "dt_broker_start = ''invalid managed session start reservation''"
definition dt_broker_role :: string where
  "dt_broker_role = ''managed session was not found for this subject and role''"
definition dt_broker_session :: string where
  "dt_broker_session = ''managed session was not found for this subject''"
definition dt_broker_event_key :: string where
  "dt_broker_event_key = ''broker event idempotencyKey is required''"
definition dt_broker_active :: string where "dt_broker_active = ''managed session is not active''"
definition dt_broker_completion :: string where
  "dt_broker_completion = ''invalid managed session completion''"
definition dt_broker_stop_key :: string where
  "dt_broker_stop_key = ''broker stop idempotencyKey is required''"
definition dt_broker_instruction :: string where
  "dt_broker_instruction = ''invalid managed session steering instruction''"
definition dt_broker_steering :: string where
  "dt_broker_steering = ''managed session has reached the 256 steering instruction limit''"
definition dt_broker_queued :: string where
  "dt_broker_queued = ''instructionRef is already queued under a different operation''"
definition dt_broker_checkpoint :: string where
  "dt_broker_checkpoint = ''checkpoint and idempotencyKey are required''"
definition dt_broker_recovery_key :: string where
  "dt_broker_recovery_key = ''recovery idempotencyKey is required''"

definition findBrokerReceipt :: "stored_session \<Rightarrow> broker_kind \<Rightarrow> string \<Rightarrow> string \<Rightarrow> string + broker_receipt option" where
  "findBrokerReceipt s kind key fingerprint =
     (case find (\<lambda>r. br_idempotencyKey r = key) (ms_brokerReceipts s) of
        None \<Rightarrow> Inr None
      | Some p \<Rightarrow> if br_kind p \<noteq> kind \<or> br_fingerprint p \<noteq> fingerprint then Inl dt_broker_reused else Inr (Some p))"

definition pushBrokerReceipt :: "broker_receipt \<Rightarrow> stored_session \<Rightarrow> string + stored_session" where
  "pushBrokerReceipt r s =
     (if length (ms_brokerReceipts s) \<ge> MAX_BROKER_RECEIPTS_PER_SESSION then Inl dt_broker_receipts
      else Inr (s\<lparr>ms_brokerReceipts := ms_brokerReceipts s @ [r]\<rparr>))"

text \<open>The status of a mutation: what its receipt says, with an applied one repeated as a duplicate.\<close>

datatype mutation_status = Fresh broker_status | Duplicate

record broker_mutation =
  bm_status :: mutation_status
  bm_revision :: int
  bm_instructions :: "string list"

definition mutation :: "broker_status \<Rightarrow> int \<Rightarrow> string list \<Rightarrow> broker_mutation" where
  "mutation st n xs = \<lparr>bm_status = Fresh st, bm_revision = n, bm_instructions = xs\<rparr>"

definition replayBrokerMutation :: "broker_receipt \<Rightarrow> broker_mutation" where
  "replayBrokerMutation p = \<lparr>bm_status = (if br_status p = BsApplied then Duplicate else Fresh (br_status p)),
     bm_revision = br_revision p, bm_instructions = []\<rparr>"

definition broker_receipt_of ::
  "broker_kind \<Rightarrow> string \<Rightarrow> string \<Rightarrow> broker_status \<Rightarrow> string list \<Rightarrow> string \<Rightarrow> stored_session \<Rightarrow> broker_receipt" where
  "broker_receipt_of kind key fingerprint st xs at s =
     \<lparr>br_kind = kind, br_idempotencyKey = key, br_fingerprint = fingerprint, br_revision = ms_version s,
      br_status = st, br_instructions = xs, br_createdAt = at\<rparr>"

definition put_session :: "string \<Rightarrow> string \<Rightarrow> string \<Rightarrow> stored_session \<Rightarrow> document \<Rightarrow> document" where
  "put_session subject runRef sessionRef s d =
     d\<lparr>sessions := upd_first (is_session subject runRef sessionRef) (\<lambda>_. s) (sessions d)\<rparr>"

text \<open>The last step of every mutation: the receipt goes on the session, the document is committed.\<close>

definition settle :: "string \<Rightarrow> string \<Rightarrow> string \<Rightarrow> broker_receipt \<Rightarrow> stored_session \<Rightarrow> document \<Rightarrow> broker_mutation outcome" where
  "settle subject runRef sessionRef r s d =
     (case pushBrokerReceipt r s of
        Inl x \<Rightarrow> Raise x
      | Inr s' \<Rightarrow> Commit (put_session subject runRef sessionRef s' d)
          (mutation (br_status r) (ms_version s) (br_instructions r)))"

section \<open>Events of a session\<close>

record broker_event =
  be_kind :: event_kind
  be_source :: event_source
  be_status :: "event_status option"
  be_summary :: "string option"
  be_toolName :: "string option"
  be_path :: "string option"
  be_diff :: "string option"
  be_checkpoint :: "string option"

definition broker_event :: "event_kind \<Rightarrow> event_source \<Rightarrow> event_status option \<Rightarrow> string option \<Rightarrow> broker_event" where
  "broker_event k src st summary = \<lparr>be_kind = k, be_source = src, be_status = st, be_summary = summary,
     be_toolName = None, be_path = None, be_diff = None, be_checkpoint = None\<rparr>"

definition session_event :: "env \<Rightarrow> stored_session \<Rightarrow> broker_event \<Rightarrow> string \<Rightarrow> int \<Rightarrow> stored_event" where
  "session_event e s i at cursor =
     \<lparr>ev_cursor = cursor, ev_runRef = ms_runRef s, ev_kind = be_kind i, ev_source = be_source i,
      ev_stageRef = ms_stageRef s, ev_attemptRef = ms_attemptRef s, ev_sessionRef = Some (ms_sessionRef s),
      ev_status = be_status i, ev_summary = map_option (\<lambda>x. cleanText e x MAX_LONG_TEXT) (be_summary i),
      ev_command = None, ev_toolName = map_option (\<lambda>x. cleanText e x MAX_SHORT_TEXT) (be_toolName i),
      ev_path = map_option (\<lambda>x. cleanText e x MAX_LONG_TEXT) (be_path i),
      ev_diff = map_option (\<lambda>x. cleanText e x MAX_LONG_TEXT) (be_diff i),
      ev_checkpoint = map_option (\<lambda>x. cleanText e x MAX_LONG_TEXT) (be_checkpoint i), ev_createdAt = at,
      ev_subject = ms_subject s, ev_operationKey = None, ev_operationFingerprint = None\<rparr>"

definition appendBrokerEvent :: "env \<Rightarrow> stored_session \<Rightarrow> broker_event \<Rightarrow> string \<Rightarrow> document \<Rightarrow> string + document" where
  "appendBrokerEvent e s i at d =
     (if event_count d (ms_subject s) (ms_runRef s) \<ge> e_maxEvents e then Inl dt_event_limit
      else Inr (push_events [session_event e s i at (nextEventCursor d)] d))"

text \<open>An applied mutation: the session as it moves, its event, its receipt.\<close>

definition apply_mutation :: "env \<Rightarrow> string \<Rightarrow> string \<Rightarrow> string \<Rightarrow> (stored_session \<Rightarrow> broker_receipt) \<Rightarrow> broker_event
    \<Rightarrow> string \<Rightarrow> stored_session \<Rightarrow> document \<Rightarrow> broker_mutation outcome" where
  "apply_mutation e subject runRef sessionRef mk i at s d =
     (case appendBrokerEvent e s i at d of
        Inl x \<Rightarrow> Raise x
      | Inr d' \<Rightarrow> settle subject runRef sessionRef (mk s) s d')"

datatype public_event =
    PeMessage string
  | PeSession string "string option" session_role string
  | PeCommand string string "string option"
  | PeTool string string
  | PeFile string string
  | PeDiff string string
  | PeCheckpoint string string
  | PeLifecycle string "string option"

fun public_event_js :: "public_event \<Rightarrow> js" where
  "public_event_js (PeMessage t) = JObj [(''kind'', JStr ''message''), (''text'', JStr t)]"
| "public_event_js (PeSession s p r st) = JObj [(''kind'', JStr ''session''), (''sessionRef'', JStr s),
     (''parentSessionRef'', opt_str p), (''role'', JStr (role_str r)), (''state'', JStr st)]"
| "public_event_js (PeCommand l st p) = JObj [(''kind'', JStr ''command''), (''label'', JStr l),
     (''status'', JStr st), (''path'', opt_str p)]"
| "public_event_js (PeTool n st) = JObj [(''kind'', JStr ''tool''), (''name'', JStr n), (''status'', JStr st)]"
| "public_event_js (PeFile p op) = JObj [(''kind'', JStr ''file''), (''path'', JStr p), (''operation'', JStr op)]"
| "public_event_js (PeDiff p s) = JObj [(''kind'', JStr ''diff''), (''path'', JStr p), (''summary'', JStr s)]"
| "public_event_js (PeCheckpoint n st) = JObj [(''kind'', JStr ''checkpoint''), (''name'', JStr n), (''state'', JStr st)]"
| "public_event_js (PeLifecycle st dt) = JObj [(''kind'', JStr ''lifecycle''), (''state'', JStr st), (''detail'', opt_str dt)]"

definition work_status :: "string \<Rightarrow> event_status" where
  "work_status st = (if st = ''started'' then EvRunning else if st = ''succeeded'' then EvSuccess else EvFailure)"

definition lifecycle_status :: "string \<Rightarrow> event_status option" where
  "lifecycle_status st = (if st = ''failed'' then Some EvFailure else if st = ''stopped'' then Some EvStopped
     else if st = ''interrupted'' then Some EvInterrupted else if st = ''running'' then Some EvRunning else None)"

fun brokerPublicEvent :: "stored_session \<Rightarrow> public_event \<Rightarrow> broker_event" where
  "brokerPublicEvent s v = (let src = (if ms_role s = Manager then EsManager else EsWorker) in case v of
     PeMessage t \<Rightarrow> broker_event EkMessage src None (Some t)
   | PeSession r _ role st \<Rightarrow> broker_event EkSessionLink src None (Some (role_str role @ '' '' @ r @ '': '' @ st))
   | PeCommand l st p \<Rightarrow> (broker_event EkCommand src (Some (work_status st)) (Some l))\<lparr>be_path := p\<rparr>
   | PeTool n st \<Rightarrow> (broker_event EkTool src (Some (work_status st)) None)\<lparr>be_toolName := Some n\<rparr>
   | PeFile p op \<Rightarrow> (broker_event EkFile src None (Some op))\<lparr>be_path := Some p\<rparr>
   | PeDiff p sm \<Rightarrow> (broker_event EkDiff src None None)\<lparr>be_path := Some p, be_diff := Some sm\<rparr>
   | PeCheckpoint n st \<Rightarrow> (broker_event EkCheckpoint src (Some (if st = ''blocked'' then EvWaiting else EvSuccess))
       (Some st))\<lparr>be_checkpoint := Some n\<rparr>
   | PeLifecycle st dt \<Rightarrow> broker_event EkLifecycle src (lifecycle_status st)
       (Some (case dt of None \<Rightarrow> st | Some x \<Rightarrow> if x = [] then st else st @ '': '' @ x)))"

declare brokerPublicEvent.simps [simp del]

section \<open>Start, events, completion\<close>

record start_spec =
  ss_runRef :: string
  ss_sessionRef :: string
  ss_role :: session_role
  ss_profileId :: string
  ss_approvedPrompt :: string

definition started_session :: "env \<Rightarrow> start_spec \<Rightarrow> string \<Rightarrow> stored_session \<Rightarrow> stored_session" where
  "started_session e spec at s = s\<lparr>ms_state := MRunning, ms_version := ms_version s + 1, ms_updatedAt := at,
     ms_brokerProfileId := Some (ss_profileId spec),
     ms_brokerApprovedPromptHash := Some (e_sha256 e (ss_approvedPrompt spec)), ms_brokerStopRequested := False\<rparr>"

definition start_fingerprint :: "env \<Rightarrow> start_spec \<Rightarrow> string" where
  "start_fingerprint e spec = brokerFingerprint e BkStart (JObj [(''runRef'', JStr (ss_runRef spec)),
     (''sessionRef'', JStr (ss_sessionRef spec)), (''role'', JStr (role_str (ss_role spec))),
     (''profileId'', JStr (ss_profileId spec)), (''approvedPromptHash'', JStr (e_sha256 e (ss_approvedPrompt spec)))])"

definition brokerReserveStart :: "env \<Rightarrow> string \<Rightarrow> start_spec \<Rightarrow> string \<Rightarrow> document \<Rightarrow> broker_mutation outcome" where
  "brokerReserveStart e subject spec key d =
     (if \<not> validNonEmpty subject MAX_SHORT_TEXT \<or> \<not> validNonEmpty key MAX_SHORT_TEXT
        \<or> \<not> SAFE_REF_RE (ss_runRef spec) \<or> \<not> SAFE_REF_RE (ss_sessionRef spec)
        \<or> \<not> validNonEmpty (ss_profileId spec) MAX_SHORT_TEXT \<or> \<not> validNonEmpty (ss_approvedPrompt spec) MAX_LONG_TEXT
        \<or> e_redact e (ss_approvedPrompt spec) \<noteq> ss_approvedPrompt spec
      then Raise dt_broker_start
      else case findSession d subject (ss_runRef spec) (ss_sessionRef spec) of
        None \<Rightarrow> Raise dt_broker_role
      | Some s \<Rightarrow>
        if ms_role s \<noteq> ss_role spec then Raise dt_broker_role
        else let fp = start_fingerprint e spec; at = e_stamp e 0 in
       (case findBrokerReceipt s BkStart key fp of
          Inl x \<Rightarrow> Raise x
        | Inr (Some p) \<Rightarrow> Value (mutation (br_status p) (br_revision p) [])
        | Inr None \<Rightarrow>
            if ms_state s \<noteq> MPending \<and> ms_state s \<noteq> MInterrupted
            then settle subject (ss_runRef spec) (ss_sessionRef spec)
                   (broker_receipt_of BkStart key fp BsAlreadyActive [] at s) s d
            else apply_mutation e subject (ss_runRef spec) (ss_sessionRef spec)
                   (broker_receipt_of BkStart key fp BsReserved [] at)
                   (broker_event EkLifecycle EsSystem (Some EvRunning)
                      (Some (role_str (ms_role s) @ '' managed session started'')))
                   at (started_session e spec at s) d))"

record session_input =
  sn_runRef :: string
  sn_sessionRef :: string
  sn_expectedRevision :: int
  sn_idempotencyKey :: string

definition session_active :: "stored_session \<Rightarrow> bool" where
  "session_active s \<longleftrightarrow> ms_state s = MRunning \<or> ms_state s = MWaiting"

definition brokerAppendEvent :: "env \<Rightarrow> string \<Rightarrow> session_input \<Rightarrow> public_event \<Rightarrow> document \<Rightarrow> broker_mutation outcome" where
  "brokerAppendEvent e subject i v d =
     (if \<not> validNonEmpty (sn_idempotencyKey i) MAX_SHORT_TEXT then Raise dt_broker_event_key
      else case findSession d subject (sn_runRef i) (sn_sessionRef i) of
        None \<Rightarrow> Raise dt_broker_session
      | Some s \<Rightarrow>
        let fp = brokerFingerprint e BkEvent (public_event_js v); at = e_stamp e 0 in
       (case findBrokerReceipt s BkEvent (sn_idempotencyKey i) fp of
          Inl x \<Rightarrow> Raise x
        | Inr (Some p) \<Rightarrow> Value (replayBrokerMutation p)
        | Inr None \<Rightarrow>
            if \<not> session_active s then Raise dt_broker_active
            else apply_mutation e subject (sn_runRef i) (sn_sessionRef i)
                   (broker_receipt_of BkEvent (sn_idempotencyKey i) fp BsApplied [] at)
                   (brokerPublicEvent s v) at s d))"

text \<open>
  The compare-and-swap the next four share: a session that is not active, or is at another revision,
  gets a receipt that says so; otherwise the mutation runs.
\<close>

definition broker_cas :: "env \<Rightarrow> string \<Rightarrow> session_input \<Rightarrow> broker_kind \<Rightarrow> js \<Rightarrow> (broker_receipt \<Rightarrow> broker_mutation)
    \<Rightarrow> (string \<Rightarrow> stored_session \<Rightarrow> broker_mutation outcome) \<Rightarrow> document \<Rightarrow> broker_mutation outcome" where
  "broker_cas e subject i kind input replay run_it d =
     (case findSession d subject (sn_runRef i) (sn_sessionRef i) of
        None \<Rightarrow> Raise dt_broker_session
      | Some s \<Rightarrow>
        let fp = brokerFingerprint e kind input; at = e_stamp e 0;
            refuse = (\<lambda>st. settle subject (sn_runRef i) (sn_sessionRef i)
              (broker_receipt_of kind (sn_idempotencyKey i) fp st [] at s) s d) in
       (case findBrokerReceipt s kind (sn_idempotencyKey i) fp of
          Inl x \<Rightarrow> Raise x
        | Inr (Some p) \<Rightarrow> Value (replay p)
        | Inr None \<Rightarrow>
            if \<not> session_active s then refuse BsInactive
            else if ms_version s \<noteq> sn_expectedRevision i then refuse BsConflict
            else run_it fp s))"

fun completion_state :: "string \<Rightarrow> session_state option" where
  "completion_state st = map_of [(''completed'', MCompleted), (''failed'', MFailed), (''stopped'', MStopped)] st"

definition completed_session :: "session_state \<Rightarrow> string \<Rightarrow> stored_session \<Rightarrow> stored_session" where
  "completed_session t at s =
     s\<lparr>ms_state := t, ms_version := ms_version s + 1, ms_updatedAt := at, ms_brokerStopRequested := False\<rparr>"

definition brokerCompleteSession ::
  "env \<Rightarrow> string \<Rightarrow> session_input \<Rightarrow> string \<Rightarrow> string option \<Rightarrow> document \<Rightarrow> broker_mutation outcome" where
  "brokerCompleteSession e subject i state detail d =
     (case completion_state state of
        None \<Rightarrow> Raise dt_broker_completion
      | Some t \<Rightarrow>
        if \<not> validNonEmpty (sn_idempotencyKey i) MAX_SHORT_TEXT then Raise dt_broker_completion
        else let terminal = map_option (\<lambda>x. cleanText e x MAX_LONG_TEXT) detail; at = e_stamp e 0 in
        broker_cas e subject i BkComplete
          (JObj [(''runRef'', JStr (sn_runRef i)), (''sessionRef'', JStr (sn_sessionRef i)), (''state'', JStr state),
                 (''detail'', opt_str terminal)]) replayBrokerMutation
          (\<lambda>fp s. apply_mutation e subject (sn_runRef i) (sn_sessionRef i)
             (broker_receipt_of BkComplete (sn_idempotencyKey i) fp BsApplied [] at)
             (broker_event EkLifecycle EsSystem
                (Some (if t = MCompleted then EvSuccess else if t = MFailed then EvFailure else EvStopped))
                (Some (case terminal of Some x \<Rightarrow> x | None \<Rightarrow> role_str (ms_role s) @ '' managed session '' @ state)))
             at (completed_session t at s) d) d)"

definition stop_requested :: "string \<Rightarrow> stored_session \<Rightarrow> stored_session" where
  "stop_requested at s = s\<lparr>ms_brokerStopRequested := True, ms_version := ms_version s + 1, ms_updatedAt := at\<rparr>"

definition brokerRequestStop :: "env \<Rightarrow> string \<Rightarrow> session_input \<Rightarrow> document \<Rightarrow> broker_mutation outcome" where
  "brokerRequestStop e subject i d =
     (if \<not> validNonEmpty (sn_idempotencyKey i) MAX_SHORT_TEXT then Raise dt_broker_stop_key
      else let at = e_stamp e 0 in
        broker_cas e subject i BkStop
          (JObj [(''runRef'', JStr (sn_runRef i)), (''sessionRef'', JStr (sn_sessionRef i))]) replayBrokerMutation
          (\<lambda>fp s. let mk = broker_receipt_of BkStop (sn_idempotencyKey i) fp BsApplied [] at in
             if ms_brokerStopRequested s then settle subject (sn_runRef i) (sn_sessionRef i) (mk s) s d
             else apply_mutation e subject (sn_runRef i) (sn_sessionRef i) mk
               (broker_event EkLifecycle EsHuman (Some EvWaiting) (Some ''operator requested managed session stop''))
               at (stop_requested at s) d) d)"

section \<open>Steering\<close>

definition queued_session :: "steering_instruction \<Rightarrow> string \<Rightarrow> stored_session \<Rightarrow> stored_session" where
  "queued_session x at s =
     s\<lparr>ms_brokerSteering := ms_brokerSteering s @ [x], ms_version := ms_version s + 1, ms_updatedAt := at\<rparr>"

definition brokerEnqueueSteering ::
  "env \<Rightarrow> string \<Rightarrow> session_input \<Rightarrow> string \<Rightarrow> string \<Rightarrow> string option \<Rightarrow> document \<Rightarrow> broker_mutation outcome" where
  "brokerEnqueueSteering e subject i instructionRef text checkpoint' d =
     (let checkpoint = map_option js_trim checkpoint'; instruction = js_trim text in
      if \<not> validNonEmpty (sn_idempotencyKey i) MAX_SHORT_TEXT \<or> \<not> validNonEmpty instructionRef MAX_SHORT_TEXT
        \<or> \<not> validNonEmpty instruction 16000
        \<or> (case checkpoint of None \<Rightarrow> False | Some c \<Rightarrow> \<not> validNonEmpty c 128)
        \<or> e_redact e instruction \<noteq> instruction
      then Raise dt_broker_instruction
      else let at = e_stamp e 0 in
        broker_cas e subject i BkEnqueue
          (JObj [(''runRef'', JStr (sn_runRef i)), (''sessionRef'', JStr (sn_sessionRef i)),
                 (''instructionRef'', JStr instructionRef), (''instruction'', JStr instruction),
                 (''checkpoint'', opt_str checkpoint)]) replayBrokerMutation
          (\<lambda>fp s.
             if length (ms_brokerSteering s) \<ge> MAX_STEERING_INSTRUCTIONS_PER_SESSION then Raise dt_broker_steering
             else if list_ex (\<lambda>x. si_instructionRef x = instructionRef) (ms_brokerSteering s) then Raise dt_broker_queued
             else apply_mutation e subject (sn_runRef i) (sn_sessionRef i)
               (broker_receipt_of BkEnqueue (sn_idempotencyKey i) fp BsApplied [] at)
               ((broker_event EkCheckpoint EsHuman (Some EvPending) (Some instruction))\<lparr>be_checkpoint := checkpoint\<rparr>)
               at (queued_session \<lparr>si_instructionRef = instructionRef, si_instruction = instruction,
                     si_checkpoint = checkpoint, si_enqueuedAt = at\<rparr> at s) d) d)"

definition released_at :: "string \<Rightarrow> steering_instruction \<Rightarrow> bool" where
  "released_at checkpoint x \<longleftrightarrow> si_checkpoint x = None \<or> si_checkpoint x = Some checkpoint"

definition drained_session :: "string \<Rightarrow> string \<Rightarrow> stored_session \<Rightarrow> stored_session" where
  "drained_session checkpoint at s =
     s\<lparr>ms_brokerSteering := filter (\<lambda>x. \<not> released_at checkpoint x) (ms_brokerSteering s),
       ms_version := ms_version s + 1, ms_updatedAt := at\<rparr>"

definition brokerConsumeSteering :: "env \<Rightarrow> string \<Rightarrow> session_input \<Rightarrow> string \<Rightarrow> document \<Rightarrow> broker_mutation outcome" where
  "brokerConsumeSteering e subject i checkpoint' d =
     (let checkpoint = js_trim checkpoint' in
      if \<not> validNonEmpty (sn_idempotencyKey i) MAX_SHORT_TEXT \<or> \<not> validNonEmpty checkpoint 128
      then Raise dt_broker_checkpoint
      else let at = e_stamp e 0 in
        broker_cas e subject i BkConsume
          (JObj [(''runRef'', JStr (sn_runRef i)), (''sessionRef'', JStr (sn_sessionRef i)),
                 (''checkpoint'', JStr checkpoint)])
          (\<lambda>p. (replayBrokerMutation p)\<lparr>bm_instructions := br_instructions p\<rparr>)
          (\<lambda>fp s. let xs = map si_instruction (filter (released_at checkpoint) (ms_brokerSteering s)) in
             apply_mutation e subject (sn_runRef i) (sn_sessionRef i)
               (broker_receipt_of BkConsume (sn_idempotencyKey i) fp BsApplied xs at)
               ((broker_event EkCheckpoint EsManager (Some EvSuccess)
                   (Some (''safe checkpoint reached; '' @ int_str (int (length xs))
                      @ '' steering instruction(s) released'')))\<lparr>be_checkpoint := Some checkpoint\<rparr>)
               at (drained_session checkpoint at s) d) d)"

section \<open>Recovery\<close>

definition brokerInterruptResidue :: "env \<Rightarrow> string \<Rightarrow> session_input \<Rightarrow> document \<Rightarrow> broker_mutation outcome" where
  "brokerInterruptResidue e subject i d =
     (if \<not> validNonEmpty (sn_idempotencyKey i) MAX_SHORT_TEXT then Raise dt_broker_recovery_key
      else case findSession d subject (sn_runRef i) (sn_sessionRef i) of
        None \<Rightarrow> Raise dt_broker_session
      | Some s \<Rightarrow>
        let fp = brokerFingerprint e BkInterrupt
                   (JObj [(''runRef'', JStr (sn_runRef i)), (''sessionRef'', JStr (sn_sessionRef i))]);
            at = e_stamp e 0 in
       (case findBrokerReceipt s BkInterrupt (sn_idempotencyKey i) fp of
          Inl x \<Rightarrow> Raise x
        | Inr (Some p) \<Rightarrow> Value (replayBrokerMutation p)
        | Inr None \<Rightarrow>
            if ms_state s \<noteq> MStarting \<and> ms_state s \<noteq> MRunning \<and> ms_state s \<noteq> MWaiting
            then settle subject (sn_runRef i) (sn_sessionRef i)
                   (broker_receipt_of BkInterrupt (sn_idempotencyKey i) fp BsInactive [] at s) s d
            else apply_mutation e subject (sn_runRef i) (sn_sessionRef i)
                   (broker_receipt_of BkInterrupt (sn_idempotencyKey i) fp BsApplied [] at)
                   (broker_event EkLifecycle EsSystem (Some EvInterrupted)
                      (Some ''daemon restart interrupted managed session ownership''))
                   at (completed_session MInterrupted at s) d))"

end
