(* ===== verification/BrokerFacts.thy ===== *)
theory BrokerFacts
  imports Broker CoreInv
begin

text \<open>
  What the broker promises: a call leaves exactly one receipt and the same call again changes nothing;
  receipts, keys and the steering queue stay within their limits; and every queued instruction leaves the
  queue once, into the receipt of the call that released it.
\<close>

section \<open>The calls as one operation\<close>

datatype broker_call =
    CallStart start_spec string
  | CallEvent session_input public_event
  | CallComplete session_input string "string option"
  | CallStop session_input
  | CallEnqueue session_input string string "string option"
  | CallConsume session_input string
  | CallInterrupt session_input

fun run_broker :: "env \<Rightarrow> string \<Rightarrow> broker_call \<Rightarrow> document \<Rightarrow> broker_mutation outcome" where
  "run_broker e subject (CallStart spec key) = brokerReserveStart e subject spec key"
| "run_broker e subject (CallEvent i v) = brokerAppendEvent e subject i v"
| "run_broker e subject (CallComplete i st det) = brokerCompleteSession e subject i st det"
| "run_broker e subject (CallStop i) = brokerRequestStop e subject i"
| "run_broker e subject (CallEnqueue i r t c) = brokerEnqueueSteering e subject i r t c"
| "run_broker e subject (CallConsume i c) = brokerConsumeSteering e subject i c"
| "run_broker e subject (CallInterrupt i) = brokerInterruptResidue e subject i"

fun call_run :: "broker_call \<Rightarrow> string" where
  "call_run (CallStart spec key) = ss_runRef spec"
| "call_run (CallEvent i v) = sn_runRef i" | "call_run (CallComplete i st det) = sn_runRef i"
| "call_run (CallStop i) = sn_runRef i" | "call_run (CallEnqueue i r t c) = sn_runRef i"
| "call_run (CallConsume i c) = sn_runRef i" | "call_run (CallInterrupt i) = sn_runRef i"

fun call_session :: "broker_call \<Rightarrow> string" where
  "call_session (CallStart spec key) = ss_sessionRef spec"
| "call_session (CallEvent i v) = sn_sessionRef i" | "call_session (CallComplete i st det) = sn_sessionRef i"
| "call_session (CallStop i) = sn_sessionRef i" | "call_session (CallEnqueue i r t c) = sn_sessionRef i"
| "call_session (CallConsume i c) = sn_sessionRef i" | "call_session (CallInterrupt i) = sn_sessionRef i"

fun call_key :: "broker_call \<Rightarrow> string" where
  "call_key (CallStart spec key) = key"
| "call_key (CallEvent i v) = sn_idempotencyKey i" | "call_key (CallComplete i st det) = sn_idempotencyKey i"
| "call_key (CallStop i) = sn_idempotencyKey i" | "call_key (CallEnqueue i r t c) = sn_idempotencyKey i"
| "call_key (CallConsume i c) = sn_idempotencyKey i" | "call_key (CallInterrupt i) = sn_idempotencyKey i"

section \<open>What one call commits\<close>

text \<open>The ledger of a session: the instructions released so far, and the ones still queued.\<close>

definition released :: "stored_session \<Rightarrow> string multiset" where
  "released s = mset (concat (map br_instructions (ms_brokerReceipts s)))"

definition queued :: "stored_session \<Rightarrow> string multiset" where
  "queued s = mset (map si_instruction (ms_brokerSteering s))"

text \<open>
  What a call does to the steering queue. A consume at the revision it expects hands out the instructions
  that are due at its checkpoint (\<open>goes\<close>), an enqueue at the revision it expects adds its own (\<open>joins\<close>), and
  no other call touches the queue.
\<close>

definition cas_ok :: "session_input \<Rightarrow> stored_session \<Rightarrow> bool" where
  "cas_ok i s \<longleftrightarrow> session_active s \<and> ms_version s = sn_expectedRevision i"

fun goes :: "broker_call \<Rightarrow> stored_session \<Rightarrow> steering_instruction \<Rightarrow> bool" where
  "goes (CallConsume i cp) s x = (cas_ok i s \<and> released_at (js_trim cp) x)"
| "goes (CallStart spec key) s x = False" | "goes (CallEvent i v) s x = False"
| "goes (CallComplete i st det) s x = False" | "goes (CallStop i) s x = False"
| "goes (CallEnqueue i r t c) s x = False" | "goes (CallInterrupt i) s x = False"

fun joins :: "env \<Rightarrow> broker_call \<Rightarrow> stored_session \<Rightarrow> steering_instruction list" where
  "joins e (CallEnqueue i r t c) s = (if cas_ok i s then [\<lparr>si_instructionRef = r, si_instruction = js_trim t,
     si_checkpoint = map_option js_trim c, si_enqueuedAt = e_stamp e 0\<rparr>] else [])"
| "joins e (CallStart spec key) s = []" | "joins e (CallEvent i v) s = []"
| "joins e (CallComplete i st det) s = []" | "joins e (CallStop i) s = []"
| "joins e (CallConsume i c) s = []" | "joins e (CallInterrupt i) s = []"

text \<open>
  A committed call: the session it found had no receipt under the key and room for one; the session it
  leaves has one more, and carries the queue without what the receipt hands out, and with what joins it.
\<close>

definition steering_moves :: "env \<Rightarrow> broker_call \<Rightarrow> stored_session \<Rightarrow> stored_session \<Rightarrow> broker_receipt \<Rightarrow> bool" where
  "steering_moves e c s s1 r \<longleftrightarrow>
     ms_brokerSteering s1 = filter (\<lambda>x. \<not> goes c s x) (ms_brokerSteering s) @ joins e c s
   \<and> br_instructions r = map si_instruction (filter (goes c s) (ms_brokerSteering s))
   \<and> (\<forall>x\<in>set (joins e c s). length (ms_brokerSteering s) < MAX_STEERING_INSTRUCTIONS_PER_SESSION
        \<and> length (joins e c s) = 1 \<and> filter (goes c s) (ms_brokerSteering s) = []
        \<and> si_instructionRef x \<notin> set (map si_instructionRef (ms_brokerSteering s)))"

definition same_session :: "stored_session \<Rightarrow> stored_session \<Rightarrow> bool" where
  "same_session s s1 \<longleftrightarrow> ms_sessionRef s1 = ms_sessionRef s \<and> ms_runRef s1 = ms_runRef s
     \<and> ms_subject s1 = ms_subject s \<and> ms_role s1 = ms_role s \<and> ms_brokerReceipts s1 = ms_brokerReceipts s
     \<and> ms_version s \<le> ms_version s1"

definition broker_commit :: "env \<Rightarrow> string \<Rightarrow> broker_call \<Rightarrow> document \<Rightarrow> document \<Rightarrow> stored_session \<Rightarrow> stored_session
    \<Rightarrow> broker_receipt \<Rightarrow> stored_event list \<Rightarrow> bool" where
  "broker_commit e subject c d d' s s1 r vs \<longleftrightarrow>
     findSession d subject (call_run c) (call_session c) = Some s
     \<and> find (\<lambda>x. br_idempotencyKey x = call_key c) (ms_brokerReceipts s) = None
     \<and> length (ms_brokerReceipts s) < MAX_BROKER_RECEIPTS_PER_SESSION
     \<and> br_idempotencyKey r = call_key c \<and> same_session s s1 \<and> steering_moves e c s s1 r
     \<and> numbered (nextEventCursor d) vs \<and> (vs = [] \<or> length vs = 1 \<and> event_count d subject (call_run c) < e_maxEvents e)
     \<and> list_all (run_event subject (call_run c)) vs
     \<and> d' = put_session subject (call_run c) (call_session c) (s1\<lparr>ms_brokerReceipts := ms_brokerReceipts s @ [r]\<rparr>)
         (push_events vs d)"

lemma settle_commit:
  assumes "next_doc (settle subject runRef sessionRef r s d) = Some d'"
  shows "length (ms_brokerReceipts s) < MAX_BROKER_RECEIPTS_PER_SESSION"
    and "d' = put_session subject runRef sessionRef (s\<lparr>ms_brokerReceipts := ms_brokerReceipts s @ [r]\<rparr>) d"
  using assms by (auto simp: settle_def pushBrokerReceipt_def committed split: if_splits)

lemma apply_commit:
  assumes "next_doc (apply_mutation e subject runRef sessionRef mk i at s d) = Some d'"
  shows "length (ms_brokerReceipts s) < MAX_BROKER_RECEIPTS_PER_SESSION"
    and "event_count d (ms_subject s) (ms_runRef s) < e_maxEvents e"
    and "d' = put_session subject runRef sessionRef (s\<lparr>ms_brokerReceipts := ms_brokerReceipts s @ [mk s]\<rparr>)
        (push_events [session_event e s i at (nextEventCursor d)] d)"
  using assms by (auto simp: apply_mutation_def appendBrokerEvent_def committed dest: settle_commit split: if_splits)

lemma findBrokerReceipt_None: "findBrokerReceipt s kind key fp = Inr None \<longleftrightarrow>
    find (\<lambda>x. br_idempotencyKey x = key) (ms_brokerReceipts s) = None"
  by (simp add: findBrokerReceipt_def split: option.split)

lemma findSession_row: "findSession d subject runRef sessionRef = Some s
    \<Longrightarrow> ms_subject s = subject \<and> ms_runRef s = runRef \<and> ms_sessionRef s = sessionRef"
  by (auto simp: findSession_def is_session_def dest!: find_Some_pred)

lemma push_no_events: "push_events [] d = d"
  by (simp add: push_events_def)

text \<open>The two ways a call commits: a bare receipt, or the mutation with its event.\<close>

lemma commit_settled:
  assumes "findSession d subject (call_run c) (call_session c) = Some s"
    and "findBrokerReceipt s kind (call_key c) fp = Inr None"
    and "\<And>x. \<not> goes c s x" and "joins e c s = []"
    and "next_doc (settle subject (call_run c) (call_session c) (broker_receipt_of kind (call_key c) fp st [] at s) s d) = Some d'"
  shows "\<exists>s s1 r vs. broker_commit e subject c d d' s s1 r vs"
  using assms settle_commit[OF assms(5)]
  by (intro exI[of _ s] exI[of _ "broker_receipt_of kind (call_key c) fp st [] at s"] exI[of _ "[]"])
    (simp add: broker_commit_def findBrokerReceipt_None broker_receipt_of_def same_session_def steering_moves_def push_no_events)

lemma commit_applied:
  assumes "findSession d subject (call_run c) (call_session c) = Some s"
    and "findBrokerReceipt s kind (call_key c) fp = Inr None"
    and "next_doc (apply_mutation e subject (call_run c) (call_session c)
        (broker_receipt_of kind (call_key c) fp st xs at) i at s1 d) = Some d'"
    and "same_session s s1" and "steering_moves e c s s1 (broker_receipt_of kind (call_key c) fp st xs at s1)"
  shows "\<exists>s s1 r vs. broker_commit e subject c d d' s s1 r vs"
proof -
  have k: "ms_brokerReceipts s1 = ms_brokerReceipts s" "ms_subject s1 = subject" "ms_runRef s1 = call_run c"
    using assms(4) findSession_row[OF assms(1)] by (simp_all add: same_session_def)
  note a = apply_commit[OF assms(3)]
  show ?thesis
    using assms a k
    by (intro exI[of _ s] exI[of _ s1] exI[of _ "broker_receipt_of kind (call_key c) fp st xs at s1"]
        exI[of _ "[session_event e s1 i at (nextEventCursor d)]"])
      (simp add: broker_commit_def findBrokerReceipt_None broker_receipt_of_def session_event_def run_event_def)
qed

lemma broker_cas_commit:
  assumes "next_doc (broker_cas e subject i kind input replay run_it d) = Some d'"
  obtains s fp where "findSession d subject (sn_runRef i) (sn_sessionRef i) = Some s"
    and "findBrokerReceipt s kind (sn_idempotencyKey i) fp = Inr None"
    and "(\<not> cas_ok i s \<and> (\<exists>st. next_doc (settle subject (sn_runRef i) (sn_sessionRef i)
          (broker_receipt_of kind (sn_idempotencyKey i) fp st [] (e_stamp e 0) s) s d) = Some d'))
      \<or> (cas_ok i s \<and> next_doc (run_it fp s) = Some d')"
  using assms
  by (auto simp: cas_ok_def broker_cas_def Let_def committed split: option.splits sum.splits if_splits intro: that)

lemma started_same: "same_session s (started_session e spec at s)"
  "steering_moves e (CallStart spec key) s (started_session e spec at s) (broker_receipt_of k ky fp st [] at (started_session e spec at s))"
  by (simp_all add: same_session_def started_session_def steering_moves_def broker_receipt_of_def)

lemma completed_same: "same_session s (completed_session t at s)"
  "steering_moves e (CallComplete i st' det) s (completed_session t at s)
     (broker_receipt_of k ky fp st [] at (completed_session t at s))"
  "steering_moves e (CallInterrupt i) s (completed_session t at s)
     (broker_receipt_of k ky fp st [] at (completed_session t at s))"
  by (simp_all add: same_session_def completed_session_def steering_moves_def broker_receipt_of_def)

lemma stopped_same: "same_session s (stop_requested at s)"
  "steering_moves e (CallStop i) s (stop_requested at s) (broker_receipt_of k ky fp st [] at (stop_requested at s))"
  by (simp_all add: same_session_def stop_requested_def steering_moves_def broker_receipt_of_def)

lemma event_same: "same_session s s" "steering_moves e (CallEvent i v) s s (broker_receipt_of k ky fp st [] at s)"
  by (simp_all add: same_session_def steering_moves_def broker_receipt_of_def)

lemma queued_same:
  assumes "length (ms_brokerSteering s) < MAX_STEERING_INSTRUCTIONS_PER_SESSION"
    and "\<not> list_ex (\<lambda>y. si_instructionRef y = ref') (ms_brokerSteering s)" and "cas_ok i s"
    and "x = \<lparr>si_instructionRef = ref', si_instruction = js_trim text', si_checkpoint = map_option js_trim cp,
      si_enqueuedAt = e_stamp e 0\<rparr>"
  shows "same_session s (queued_session x at s)"
    and "steering_moves e (CallEnqueue i ref' text' cp) s (queued_session x at s)
      (broker_receipt_of k ky fp st [] at (queued_session x at s))"
  using assms
  by (auto simp: same_session_def queued_session_def steering_moves_def broker_receipt_of_def list_ex_iff)

lemma drained_same: "same_session s (drained_session c at s)"
  by (simp add: same_session_def drained_session_def)

lemma drained_moves:
  assumes "cas_ok i s"
  shows "steering_moves e (CallConsume i c) s (drained_session (js_trim c) at s) (broker_receipt_of k ky fp st
     (map si_instruction (filter (released_at (js_trim c)) (ms_brokerSteering s))) at (drained_session (js_trim c) at s))"
proof -
  have "goes (CallConsume i c) s = released_at (js_trim c)" using assms by (simp add: fun_eq_iff)
  then show ?thesis by (simp add: drained_session_def steering_moves_def broker_receipt_of_def)
qed

lemma unsteered: "\<not> cas_ok i s \<Longrightarrow> \<not> goes (CallConsume i cp) s x" "\<not> cas_ok i s \<Longrightarrow> joins e (CallEnqueue i r t c) s = []"
  by simp_all

lemmas call_simps = run_broker.simps call_run.simps call_session.simps call_key.simps

lemma start_commit:
  assumes "next_doc (brokerReserveStart e subject spec key d) = Some d'"
  shows "\<exists>s s1 r vs. broker_commit e subject (CallStart spec key) d d' s s1 r vs"
proof -
  let ?c = "CallStart spec key"
  from assms obtain s where s: "findSession d subject (call_run ?c) (call_session ?c) = Some s"
      and r: "findBrokerReceipt s BkStart (call_key ?c) (start_fingerprint e spec) = Inr None"
      and n: "next_doc (settle subject (call_run ?c) (call_session ?c)
          (broker_receipt_of BkStart (call_key ?c) (start_fingerprint e spec) BsAlreadyActive [] (e_stamp e 0) s) s d) = Some d'
        \<or> next_doc (apply_mutation e subject (call_run ?c) (call_session ?c)
          (broker_receipt_of BkStart (call_key ?c) (start_fingerprint e spec) BsReserved [] (e_stamp e 0))
          (broker_event EkLifecycle EsSystem (Some EvRunning) (Some (role_str (ms_role s) @ '' managed session started'')))
          (e_stamp e 0) (started_session e spec (e_stamp e 0) s) d) = Some d'"
    by (auto simp: brokerReserveStart_def Let_def committed call_simps split: option.splits sum.splits if_splits)
  from n show ?thesis
    using commit_settled[OF s r, of e] commit_applied[OF s r _ started_same] by auto
qed

lemma event_commit:
  assumes "next_doc (brokerAppendEvent e subject i v d) = Some d'"
  shows "\<exists>s s1 r vs. broker_commit e subject (CallEvent i v) d d' s s1 r vs"
proof -
  let ?c = "CallEvent i v"
  from assms obtain s fp where s: "findSession d subject (call_run ?c) (call_session ?c) = Some s"
      and r: "findBrokerReceipt s BkEvent (call_key ?c) fp = Inr None"
      and n: "next_doc (apply_mutation e subject (call_run ?c) (call_session ?c)
          (broker_receipt_of BkEvent (call_key ?c) fp BsApplied [] (e_stamp e 0))
          (brokerPublicEvent s v) (e_stamp e 0) s d) = Some d'"
    by (auto simp: brokerAppendEvent_def Let_def committed call_simps split: option.splits sum.splits if_splits)
  show ?thesis by (rule commit_applied[OF s r n event_same])
qed

lemma interrupt_commit:
  assumes "next_doc (brokerInterruptResidue e subject i d) = Some d'"
  shows "\<exists>s s1 r vs. broker_commit e subject (CallInterrupt i) d d' s s1 r vs"
proof -
  let ?c = "CallInterrupt i"
  from assms obtain s fp where s: "findSession d subject (call_run ?c) (call_session ?c) = Some s"
      and r: "findBrokerReceipt s BkInterrupt (call_key ?c) fp = Inr None"
      and n: "next_doc (settle subject (call_run ?c) (call_session ?c)
          (broker_receipt_of BkInterrupt (call_key ?c) fp BsInactive [] (e_stamp e 0) s) s d) = Some d'
        \<or> next_doc (apply_mutation e subject (call_run ?c) (call_session ?c)
          (broker_receipt_of BkInterrupt (call_key ?c) fp BsApplied [] (e_stamp e 0))
          (broker_event EkLifecycle EsSystem (Some EvInterrupted)
            (Some ''daemon restart interrupted managed session ownership''))
          (e_stamp e 0) (completed_session MInterrupted (e_stamp e 0) s) d) = Some d'"
    by (auto simp: brokerInterruptResidue_def Let_def committed call_simps split: option.splits sum.splits if_splits)
  from n show ?thesis
    using commit_settled[OF s r, of e] commit_applied[OF s r _ completed_same(1,3)] by auto
qed

text \<open>The four calls under the compare-and-swap.\<close>

lemma complete_commit:
  assumes "next_doc (brokerCompleteSession e subject i st det d) = Some d'"
  shows "\<exists>s s1 r vs. broker_commit e subject (CallComplete i st det) d d' s s1 r vs"
proof -
  let ?c = "CallComplete i st det"
  let ?t = "map_option (\<lambda>x. cleanText e x MAX_LONG_TEXT) det"
  from assms obtain t where "next_doc (broker_cas e subject i BkComplete
          (JObj [(''runRef'', JStr (sn_runRef i)), (''sessionRef'', JStr (sn_sessionRef i)), (''state'', JStr st),
                 (''detail'', opt_str ?t)]) replayBrokerMutation
          (\<lambda>fp s. apply_mutation e subject (sn_runRef i) (sn_sessionRef i)
             (broker_receipt_of BkComplete (sn_idempotencyKey i) fp BsApplied [] (e_stamp e 0))
             (broker_event EkLifecycle EsSystem
                (Some (if t = MCompleted then EvSuccess else if t = MFailed then EvFailure else EvStopped))
                (Some (case ?t of Some x \<Rightarrow> x | None \<Rightarrow> role_str (ms_role s) @ '' managed session '' @ st)))
             (e_stamp e 0) (completed_session t (e_stamp e 0) s) d) d) = Some d'"
    unfolding brokerCompleteSession_def Let_def committed by blast
  then show ?thesis
    by (rule broker_cas_commit)
      (auto simp: call_simps intro: commit_settled[where c = ?c, unfolded call_simps]
        commit_applied[where c = ?c, unfolded call_simps, OF _ _ _ completed_same(1,2)])
qed

lemma stop_commit:
  assumes "next_doc (brokerRequestStop e subject i d) = Some d'"
  shows "\<exists>s s1 r vs. broker_commit e subject (CallStop i) d d' s s1 r vs"
proof -
  let ?c = "CallStop i"
  from assms have "next_doc (broker_cas e subject i BkStop
          (JObj [(''runRef'', JStr (sn_runRef i)), (''sessionRef'', JStr (sn_sessionRef i))]) replayBrokerMutation
          (\<lambda>fp s. let mk = broker_receipt_of BkStop (sn_idempotencyKey i) fp BsApplied [] (e_stamp e 0) in
             if ms_brokerStopRequested s then settle subject (sn_runRef i) (sn_sessionRef i) (mk s) s d
             else apply_mutation e subject (sn_runRef i) (sn_sessionRef i) mk
               (broker_event EkLifecycle EsHuman (Some EvWaiting) (Some ''operator requested managed session stop''))
               (e_stamp e 0) (stop_requested (e_stamp e 0) s) d) d) = Some d'"
    unfolding brokerRequestStop_def Let_def committed by blast
  then show ?thesis
    by (rule broker_cas_commit)
      (auto simp: call_simps Let_def split: if_splits intro: commit_settled[where c = ?c, unfolded call_simps]
        commit_applied[where c = ?c, unfolded call_simps, OF _ _ _ stopped_same])
qed

lemma enqueue_commit:
  assumes "next_doc (brokerEnqueueSteering e subject i ref' text' cp d) = Some d'"
  shows "\<exists>s s1 r vs. broker_commit e subject (CallEnqueue i ref' text' cp) d d' s s1 r vs"
proof -
  let ?c = "CallEnqueue i ref' text' cp"
  let ?x = "\<lparr>si_instructionRef = ref', si_instruction = js_trim text', si_checkpoint = map_option js_trim cp,
      si_enqueuedAt = e_stamp e 0\<rparr>"
  from assms have "next_doc (broker_cas e subject i BkEnqueue
          (JObj [(''runRef'', JStr (sn_runRef i)), (''sessionRef'', JStr (sn_sessionRef i)),
                 (''instructionRef'', JStr ref'), (''instruction'', JStr (js_trim text')),
                 (''checkpoint'', opt_str (map_option js_trim cp))]) replayBrokerMutation
          (\<lambda>fp s.
             if length (ms_brokerSteering s) \<ge> MAX_STEERING_INSTRUCTIONS_PER_SESSION then Raise dt_broker_steering
             else if list_ex (\<lambda>x. si_instructionRef x = ref') (ms_brokerSteering s) then Raise dt_broker_queued
             else apply_mutation e subject (sn_runRef i) (sn_sessionRef i)
               (broker_receipt_of BkEnqueue (sn_idempotencyKey i) fp BsApplied [] (e_stamp e 0))
               ((broker_event EkCheckpoint EsHuman (Some EvPending) (Some (js_trim text')))
                  \<lparr>be_checkpoint := map_option js_trim cp\<rparr>)
               (e_stamp e 0) (queued_session ?x (e_stamp e 0) s) d) d) = Some d'"
    unfolding brokerEnqueueSteering_def Let_def committed by blast
  then show ?thesis
  proof (rule broker_cas_commit)
    fix s fp
    assume s: "findSession d subject (sn_runRef i) (sn_sessionRef i) = Some s"
        "findBrokerReceipt s BkEnqueue (sn_idempotencyKey i) fp = Inr None"
      and n: "(\<not> cas_ok i s \<and> (\<exists>st. next_doc (settle subject (sn_runRef i) (sn_sessionRef i)
          (broker_receipt_of BkEnqueue (sn_idempotencyKey i) fp st [] (e_stamp e 0) s) s d) = Some d'))
        \<or> cas_ok i s \<and> next_doc (if length (ms_brokerSteering s) \<ge> MAX_STEERING_INSTRUCTIONS_PER_SESSION
             then Raise dt_broker_steering
             else if list_ex (\<lambda>x. si_instructionRef x = ref') (ms_brokerSteering s) then Raise dt_broker_queued
             else apply_mutation e subject (sn_runRef i) (sn_sessionRef i)
               (broker_receipt_of BkEnqueue (sn_idempotencyKey i) fp BsApplied [] (e_stamp e 0))
               ((broker_event EkCheckpoint EsHuman (Some EvPending) (Some (js_trim text')))
                  \<lparr>be_checkpoint := map_option js_trim cp\<rparr>)
               (e_stamp e 0) (queued_session ?x (e_stamp e 0) s) d) = Some d'"
    from n show ?thesis
      using s
      by (auto simp: call_simps committed not_le
          intro: commit_settled[where c = ?c, unfolded call_simps]
            commit_applied[where c = ?c, unfolded call_simps, OF _ _ _ queued_same])
  qed
qed

lemma consume_commit:
  assumes "next_doc (brokerConsumeSteering e subject i cp d) = Some d'"
  shows "\<exists>s s1 r vs. broker_commit e subject (CallConsume i cp) d d' s s1 r vs"
proof -
  let ?c = "CallConsume i cp"
  let ?cp = "js_trim cp"
  let ?xs = "\<lambda>s. map si_instruction (filter (released_at ?cp) (ms_brokerSteering s))"
  from assms have "next_doc (broker_cas e subject i BkConsume
          (JObj [(''runRef'', JStr (sn_runRef i)), (''sessionRef'', JStr (sn_sessionRef i)),
                 (''checkpoint'', JStr ?cp)])
          (\<lambda>p. (replayBrokerMutation p)\<lparr>bm_instructions := br_instructions p\<rparr>)
          (\<lambda>fp s. apply_mutation e subject (sn_runRef i) (sn_sessionRef i)
               (broker_receipt_of BkConsume (sn_idempotencyKey i) fp BsApplied (?xs s) (e_stamp e 0))
               ((broker_event EkCheckpoint EsManager (Some EvSuccess)
                   (Some (''safe checkpoint reached; '' @ int_str (int (length (?xs s)))
                      @ '' steering instruction(s) released'')))\<lparr>be_checkpoint := Some ?cp\<rparr>)
               (e_stamp e 0) (drained_session ?cp (e_stamp e 0) s) d) d) = Some d'"
    unfolding brokerConsumeSteering_def Let_def committed by blast
  then show ?thesis
    by (rule broker_cas_commit)
      (auto simp: call_simps intro: commit_settled[where c = ?c, unfolded call_simps]
        commit_applied[where c = ?c, unfolded call_simps, OF _ _ _ drained_same drained_moves])
qed

lemma run_broker_commits: "next_doc (run_broker e subject c d) = Some d' \<Longrightarrow> \<exists>s s1 r vs. broker_commit e subject c d d' s s1 r vs"
proof (cases c)
  case (CallStart spec key)
  then show "next_doc (run_broker e subject c d) = Some d' \<Longrightarrow> ?thesis" using start_commit by simp
next
  case (CallEvent i v)
  then show "next_doc (run_broker e subject c d) = Some d' \<Longrightarrow> ?thesis" using event_commit by simp
next
  case (CallComplete i st det)
  then show "next_doc (run_broker e subject c d) = Some d' \<Longrightarrow> ?thesis" using complete_commit by simp
next
  case (CallStop i)
  then show "next_doc (run_broker e subject c d) = Some d' \<Longrightarrow> ?thesis" using stop_commit by simp
next
  case (CallEnqueue i r t cp)
  then show "next_doc (run_broker e subject c d) = Some d' \<Longrightarrow> ?thesis" using enqueue_commit by simp
next
  case (CallConsume i cp)
  then show "next_doc (run_broker e subject c d) = Some d' \<Longrightarrow> ?thesis" using consume_commit by simp
next
  case (CallInterrupt i)
  then show "next_doc (run_broker e subject c d) = Some d' \<Longrightarrow> ?thesis" using interrupt_commit by simp
qed

lemma run_broker_commit:
  assumes "next_doc (run_broker e subject c d) = Some d'"
  obtains s s1 r vs where "broker_commit e subject c d d' s s1 r vs"
  using run_broker_commits[OF assms] by blast

section \<open>Limits\<close>

definition session_sound :: "stored_session \<Rightarrow> bool" where
  "session_sound s \<longleftrightarrow> length (ms_brokerReceipts s) \<le> MAX_BROKER_RECEIPTS_PER_SESSION
     \<and> distinct (map br_idempotencyKey (ms_brokerReceipts s))
     \<and> length (ms_brokerSteering s) \<le> MAX_STEERING_INSTRUCTIONS_PER_SESSION
     \<and> distinct (map si_instructionRef (ms_brokerSteering s))"

definition broker_inv :: "document \<Rightarrow> bool" where
  "broker_inv d \<longleftrightarrow> list_all session_sound (sessions d) \<and> list_all (\<lambda>b. list_all session_sound (qb_sessions b)) (quarantine d)"

interpretation broker_inv: store_invariant broker_inv
  by unfold_locales (simp add: broker_inv_def)

lemma distinct_map_filter_sub: "distinct (map f xs) \<Longrightarrow> distinct (map f (filter p xs))"
  by (induction xs) auto

lemma steering_moves_sound:
  assumes "steering_moves e c s s1 r" and "session_sound s"
  shows "length (ms_brokerSteering s1) \<le> MAX_STEERING_INSTRUCTIONS_PER_SESSION"
    and "distinct (map si_instructionRef (ms_brokerSteering s1))"
proof -
  have q: "ms_brokerSteering s1 = filter (\<lambda>x. \<not> goes c s x) (ms_brokerSteering s) @ joins e c s"
    using assms(1) by (simp add: steering_moves_def)
  have old: "length (ms_brokerSteering s) \<le> MAX_STEERING_INSTRUCTIONS_PER_SESSION"
    "distinct (map si_instructionRef (ms_brokerSteering s))" using assms(2) by (simp_all add: session_sound_def)
  have less: "length (filter (\<lambda>x. \<not> goes c s x) (ms_brokerSteering s)) \<le> length (ms_brokerSteering s)" by simp
  show "length (ms_brokerSteering s1) \<le> MAX_STEERING_INSTRUCTIONS_PER_SESSION"
  proof (cases "joins e c s")
    case Nil
    then show ?thesis unfolding q using order_trans[OF less old(1)] by simp
  next
    case (Cons x xs)
    then have "length (ms_brokerSteering s) < MAX_STEERING_INSTRUCTIONS_PER_SESSION" "xs = []"
      using assms(1) by (simp_all add: steering_moves_def)
    then show ?thesis unfolding q Cons using le_less_trans[OF less] by (simp add: Suc_le_eq)
  qed
  show "distinct (map si_instructionRef (ms_brokerSteering s1))"
    using assms(1) distinct_map_filter_sub[OF old(2), of "\<lambda>x. \<not> goes c s x"] unfolding q
    by (cases "joins e c s") (auto simp: steering_moves_def)
qed

lemma commit_sound:
  assumes "broker_commit e subject c d d' s s1 r vs" and "session_sound s"
  shows "session_sound (s1\<lparr>ms_brokerReceipts := ms_brokerReceipts s @ [r]\<rparr>)"
  using assms steering_moves_sound[of e c s s1 r]
  by (auto simp: broker_commit_def session_sound_def find_None_iff')

lemma run_broker_keeps: "keeps broker_inv (run_broker e subject c)"
proof (rule keepsI)
  fix d d' assume i: "broker_inv d" and n: "next_doc (run_broker e subject c d) = Some d'"
  obtain s s1 r vs where b: "broker_commit e subject c d d' s s1 r vs" by (rule run_broker_commit[OF n])
  have "s \<in> set (sessions d)" using b by (auto simp: broker_commit_def findSession_def dest: find_Some_in)
  then have "session_sound (s1\<lparr>ms_brokerReceipts := ms_brokerReceipts s @ [r]\<rparr>)"
    using i commit_sound[OF b] by (simp add: broker_inv_def list_all_iff)
  then show "broker_inv d'"
    using b i by (auto simp: broker_commit_def put_session_def push_events_def broker_inv_def intro!: list_all_upd_first)
qed

lemma run_broker_core:
  assumes "next_doc (run_broker e subject c d) = Some d'"
  shows "core_step d d'"
proof -
  obtain s s1 r vs where b: "broker_commit e subject c d d' s s1 r vs" by (rule run_broker_commit[OF assms])
  show ?thesis
    by (rule core_step_events[where vs = vs and p = "\<lambda>_. False" and f = "\<lambda>x. x"])
      (use b in \<open>auto simp: broker_commit_def put_session_def push_events_def upd_first_id\<close>)
qed

lemma run_broker_events:
  assumes "next_doc (run_broker e subject c d) = Some d'" and "event_count d subject (call_run c) \<le> e_maxEvents e"
  shows "event_count d' subject (call_run c) \<le> e_maxEvents e"
proof -
  obtain s s1 r vs where b: "broker_commit e subject c d d' s s1 r vs" by (rule run_broker_commit[OF assms(1)])
  have "filter (run_event subject (call_run c)) vs = vs"
    using b by (simp add: broker_commit_def filter_id_conv list_all_iff)
  then show ?thesis
    using b assms(2) by (auto simp: broker_commit_def event_count_def put_session_def push_events_def)
qed

section \<open>A key is spent once\<close>

lemma findSession_put:
  assumes "findSession d subject runRef sessionRef = Some s" and "same_session s s1"
  shows "findSession (put_session subject runRef sessionRef (s1\<lparr>ms_brokerReceipts := rs\<rparr>) (push_events vs d))
      subject runRef sessionRef = Some (s1\<lparr>ms_brokerReceipts := rs\<rparr>)"
  using assms findSession_row[OF assms(1)]
  by (auto simp: findSession_def put_session_def push_events_def same_session_def is_session_def
      intro: find_upd_first_hit)

lemma commit_finds:
  assumes "broker_commit e subject c d d' s s1 r vs"
  shows "findSession d' subject (call_run c) (call_session c) = Some (s1\<lparr>ms_brokerReceipts := ms_brokerReceipts s @ [r]\<rparr>)"
  using assms findSession_put by (simp add: broker_commit_def)

text \<open>And it stays spent: no broker call, on whatever session, takes the receipt away.\<close>

definition holds_key :: "document \<Rightarrow> string \<Rightarrow> string \<Rightarrow> string \<Rightarrow> string \<Rightarrow> bool" where
  "holds_key d subject runRef sessionRef key \<longleftrightarrow> (\<exists>t. findSession d subject runRef sessionRef = Some t
     \<and> key \<in> set (map br_idempotencyKey (ms_brokerReceipts t)))"

text \<open>Any number of calls after the first, by anyone, each loading what the one before it left.\<close>

inductive broker_later :: "document \<Rightarrow> document \<Rightarrow> bool" for d where
  none: "broker_later d d"
| call: "broker_later d d1 \<Longrightarrow> broker_later d (snd (exec e (run_broker e subject c) d1))"

lemma findSession_put_other:
  assumes "findSession d subject runRef sessionRef = Some s" and "same_session s s1"
    and "(subject', runRef', sessionRef') \<noteq> (subject, runRef, sessionRef)"
  shows "findSession (put_session subject runRef sessionRef (s1\<lparr>ms_brokerReceipts := rs\<rparr>) (push_events vs d))
      subject' runRef' sessionRef' = findSession d subject' runRef' sessionRef'"
  using assms findSession_row[OF assms(1)] unfolding findSession_def put_session_def push_events_def
  by (simp, intro find_upd_first_other) (auto simp: same_session_def is_session_def dest!: find_Some_pred)

lemma commit_keeps_receipt:
  assumes "broker_commit e subject c d d' s s1 r vs" and "holds_key d u runRef sessionRef key"
  shows "holds_key d' u runRef sessionRef key"
proof (cases "(u, runRef, sessionRef) = (subject, call_run c, call_session c)")
  case True
  then show ?thesis using assms commit_finds[OF assms(1)] by (auto simp: holds_key_def broker_commit_def)
next
  case False
  have "findSession d' u runRef sessionRef = findSession d u runRef sessionRef"
    using assms(1) findSession_put_other[OF _ _ False] by (simp add: broker_commit_def)
  then show ?thesis using assms(2) by (simp add: holds_key_def)
qed

lemma later_keeps_receipt:
  "broker_later d d' \<Longrightarrow> holds_key d u runRef sessionRef key \<Longrightarrow> holds_key d' u runRef sessionRef key"
proof (induction rule: broker_later.induct)
  case (call d1 e subject c)
  show ?case
  proof (cases "snd (exec e (run_broker e subject c) d1) = d1")
    case False
    then obtain d2 where n: "next_doc (run_broker e subject c d1) = Some d2"
      and d2: "snd (exec e (run_broker e subject c) d1) = d2 \<or> snd (exec e (run_broker e subject c) d1) = bump d2"
      using exec_document[OF prod.collapse[symmetric]] by metis
    obtain s s1 r vs where "broker_commit e subject c d1 d2 s s1 r vs" by (rule run_broker_commit[OF n])
    then have "holds_key d2 u runRef sessionRef key" using commit_keeps_receipt call by blast
    then show ?thesis using d2 by (auto simp: holds_key_def findSession_def bump_def)
  qed (use call in simp)
qed simp

lemma committed_holds_key:
  assumes "next_doc (run_broker e subject c d) = Some d'"
  shows "holds_key d' subject (call_run c) (call_session c) (call_key c)"
proof -
  obtain s s1 r vs where b: "broker_commit e subject c d d' s s1 r vs" by (rule run_broker_commit[OF assms])
  then show ?thesis using commit_finds[OF b] by (auto simp: holds_key_def broker_commit_def)
qed

lemma receipt_spends:
  assumes "holds_key d subject (call_run c) (call_session c) (call_key c)"
  shows "next_doc (run_broker e subject c d) = None"
proof (rule ccontr)
  assume "next_doc (run_broker e subject c d) \<noteq> None"
  then obtain d' where n: "next_doc (run_broker e subject c d) = Some d'" by blast
  obtain s s1 r vs where "broker_commit e subject c d d' s s1 r vs" by (rule run_broker_commit[OF n])
  then show False using assms by (auto simp: broker_commit_def holds_key_def find_None_iff')
qed

section \<open>Steering is delivered once\<close>

lemma filter_split_mset: "mset (map f (filter p xs)) + mset (map f (filter (\<lambda>x. \<not> p x) xs)) = mset (map f xs)"
  by (induction xs) auto

lemma ledger_step:
  assumes "broker_commit e subject c d d' s s1 r vs"
  defines "t \<equiv> s1\<lparr>ms_brokerReceipts := ms_brokerReceipts s @ [r]\<rparr>"
  shows "released t = released s + mset (map si_instruction (filter (goes c s) (ms_brokerSteering s)))"
    and "ms_brokerSteering t = filter (\<lambda>x. \<not> goes c s x) (ms_brokerSteering s) @ joins e c s"
    and "released t + queued t = released s + queued s + mset (map si_instruction (joins e c s))"
proof -
  have m: "steering_moves e c s s1 r" using assms by (simp add: broker_commit_def)
  show 1: "released t = released s + mset (map si_instruction (filter (goes c s) (ms_brokerSteering s)))"
    using m by (simp add: released_def t_def steering_moves_def)
  show 2: "ms_brokerSteering t = filter (\<lambda>x. \<not> goes c s x) (ms_brokerSteering s) @ joins e c s"
    using m by (simp add: t_def steering_moves_def)
  show "released t + queued t = released s + queued s + mset (map si_instruction (joins e c s))"
    using filter_split_mset[of si_instruction "goes c s" "ms_brokerSteering s"]
    unfolding 1 queued_def 2 by (simp add: ac_simps)
qed

text \<open>Asking again at the same checkpoint hands out the same instructions, from the receipt.\<close>

lemma apply_answer:
  assumes "apply_mutation e subject runRef sessionRef mk i at s d = Commit d' m"
  shows "m = mutation (br_status (mk s)) (ms_version s) (br_instructions (mk s))"
    and "d' = put_session subject runRef sessionRef (s\<lparr>ms_brokerReceipts := ms_brokerReceipts s @ [mk s]\<rparr>)
        (push_events [session_event e s i at (nextEventCursor d)] d)"
  using assms
  by (auto simp: apply_mutation_def settle_def appendBrokerEvent_def pushBrokerReceipt_def split: if_splits)

lemma settle_answer:
  assumes "settle subject runRef sessionRef r s d = Commit d' m"
  shows "m = mutation (br_status r) (ms_version s) (br_instructions r)"
    and "d' = put_session subject runRef sessionRef (s\<lparr>ms_brokerReceipts := ms_brokerReceipts s @ [r]\<rparr>) d"
  using assms by (auto simp: settle_def pushBrokerReceipt_def split: if_splits)

lemma findBrokerReceipt_appended:
  assumes "findBrokerReceipt s kind key fp = Inr None" and "ms_brokerReceipts s1 = ms_brokerReceipts s @ [r]"
    and "br_idempotencyKey r = key" and "br_kind r = kind" and "br_fingerprint r = fp"
  shows "findBrokerReceipt s1 kind key fp = Inr (Some r)"
  using assms by (simp add: findBrokerReceipt_None) (simp add: findBrokerReceipt_def find_append)

lemma consume_replays:
  assumes "brokerConsumeSteering e subject i cp d = Commit d' m" and "e_sha256 e' = e_sha256 e"
  obtains m' where "brokerConsumeSteering e' subject i cp d' = Value m'" and "bm_instructions m' = bm_instructions m"
    and "bm_revision m' = bm_revision m"
proof -
  let ?c = "CallConsume i cp" and ?cp = "js_trim cp"
  define js where "js = JObj [(''runRef'', JStr (sn_runRef i)), (''sessionRef'', JStr (sn_sessionRef i)),
      (''checkpoint'', JStr ?cp)]"
  define fp where "fp = brokerFingerprint e BkConsume js"
  have fp': "brokerFingerprint e' BkConsume js = fp"
    by (simp add: fp_def brokerFingerprint_def sha256_json_def assms(2))
  have v: "validNonEmpty (sn_idempotencyKey i) MAX_SHORT_TEXT" "validNonEmpty ?cp 128"
    using assms(1) by (auto simp: brokerConsumeSteering_def Let_def split: if_splits)
  have "\<exists>s s1 r. findSession d subject (sn_runRef i) (sn_sessionRef i) = Some s
      \<and> findBrokerReceipt s BkConsume (sn_idempotencyKey i) fp = Inr None
      \<and> same_session s s1 \<and> br_idempotencyKey r = sn_idempotencyKey i \<and> br_kind r = BkConsume
      \<and> br_fingerprint r = fp \<and> br_instructions r = bm_instructions m \<and> br_revision r = bm_revision m
      \<and> (\<exists>vs. d' = put_session subject (sn_runRef i) (sn_sessionRef i)
          (s1\<lparr>ms_brokerReceipts := ms_brokerReceipts s @ [r]\<rparr>) (push_events vs d))"
  proof -
    obtain s where s: "findSession d subject (sn_runRef i) (sn_sessionRef i) = Some s"
      using assms(1) by (auto simp: brokerConsumeSteering_def broker_cas_def Let_def split: if_splits option.splits)
    have r: "findBrokerReceipt s BkConsume (sn_idempotencyKey i) fp = Inr None"
      using assms(1) s by (auto simp: brokerConsumeSteering_def broker_cas_def Let_def fp_def js_def
          split: if_splits option.splits sum.splits)
    let ?xs = "map si_instruction (filter (released_at ?cp) (ms_brokerSteering s))"
    let ?mk = "\<lambda>st xs. broker_receipt_of BkConsume (sn_idempotencyKey i) fp st xs (e_stamp e 0)"
    from assms(1) s r v consider
        st where "settle subject (sn_runRef i) (sn_sessionRef i) (?mk st [] s) s d = Commit d' m"
      | ev where "apply_mutation e subject (sn_runRef i) (sn_sessionRef i) (?mk BsApplied ?xs) ev (e_stamp e 0)
            (drained_session ?cp (e_stamp e 0) s) d = Commit d' m"
      by (auto simp: brokerConsumeSteering_def broker_cas_def Let_def fp_def js_def split: if_splits)
    then show ?thesis
    proof cases
      case (1 st)
      note a = settle_answer[OF 1]
      show ?thesis using s r a
        by (intro exI[of _ s] exI[of _ "?mk st [] s"] conjI exI[of _ "[]"])
          (simp_all add: broker_receipt_of_def mutation_def push_no_events same_session_def)
    next
      case (2 ev)
      note a = apply_answer[OF 2]
      show ?thesis using s r a drained_same[of s ?cp "e_stamp e 0"]
        by (intro exI[of _ s] exI[of _ "drained_session ?cp (e_stamp e 0) s"]
            exI[of _ "?mk BsApplied ?xs (drained_session ?cp (e_stamp e 0) s)"] conjI)
          (auto simp: broker_receipt_of_def mutation_def same_session_def)
    qed
  qed
  then obtain s s1 r vs where s: "findSession d subject (sn_runRef i) (sn_sessionRef i) = Some s"
      "findBrokerReceipt s BkConsume (sn_idempotencyKey i) fp = Inr None" "same_session s s1"
    and r: "br_idempotencyKey r = sn_idempotencyKey i" "br_kind r = BkConsume" "br_fingerprint r = fp"
      "br_instructions r = bm_instructions m" "br_revision r = bm_revision m"
    and d': "d' = put_session subject (sn_runRef i) (sn_sessionRef i)
          (s1\<lparr>ms_brokerReceipts := ms_brokerReceipts s @ [r]\<rparr>) (push_events vs d)"
    by blast
  let ?t = "s1\<lparr>ms_brokerReceipts := ms_brokerReceipts s @ [r]\<rparr>"
  have f: "findSession d' subject (sn_runRef i) (sn_sessionRef i) = Some ?t"
    unfolding d' by (rule findSession_put[OF s(1,3)])
  have p: "findBrokerReceipt ?t BkConsume (sn_idempotencyKey i) fp = Inr (Some r)"
    by (rule findBrokerReceipt_appended[OF s(2)]) (simp_all add: r)
  show thesis
    by (rule that[of "(replayBrokerMutation r)\<lparr>bm_instructions := br_instructions r\<rparr>"])
      (use v f p r fp' in \<open>simp_all add: brokerConsumeSteering_def broker_cas_def Let_def js_def[symmetric]
        replayBrokerMutation_def\<close>)
qed

end
