(* ===== verification/QuarantineFacts.thy ===== *)
theory QuarantineFacts
  imports Quarantine BrokerFacts
begin

text \<open>
  Quarantine loses nothing: moving a run and restoring it conserve every record, the timeline comes back
  in its order, and the invariants hold of active and quarantined records alike.
\<close>

section \<open>Rows moved\<close>

lemma remove_first_mset: "find p xs = Some x \<Longrightarrow> add_mset x (mset (remove_first p xs)) = mset xs"
  by (induction xs) (auto split: if_splits)

lemma remove_first_append: "find p xs = None \<Longrightarrow> p y \<Longrightarrow> remove_first p (xs @ [y]) = xs"
  by (induction xs) (auto split: if_splits)

lemma set_remove_first: "set (remove_first p xs) \<subseteq> set xs"
  by (induction xs) auto

lemma list_all_remove_first: "list_all P xs \<Longrightarrow> list_all P (remove_first p xs)"
  using set_remove_first[of p xs] by (auto simp: list_all_iff)

lemma list_all_filter: "list_all P xs \<Longrightarrow> list_all P (filter p xs)"
  by (simp add: list_all_iff)

lemma mset_partition: "mset (filter (\<lambda>x. \<not> p x) xs) + mset (filter p xs) = mset xs"
  by (induction xs) auto

text \<open>What the document holds of a collection, in the active rows and in the bundles.\<close>

definition held :: "(document \<Rightarrow> 'a list) \<Rightarrow> (run_bundle \<Rightarrow> 'a list) \<Rightarrow> document \<Rightarrow> 'a multiset" where
  "held f g d = mset (f d) + mset (concat (map g (quarantine d)))"

definition all_held :: "document \<Rightarrow> document \<Rightarrow> bool" where
  "all_held d d' \<longleftrightarrow> held stages qb_stages d' = held stages qb_stages d
     \<and> held attempts qb_attempts d' = held attempts qb_attempts d
     \<and> held sessions qb_sessions d' = held sessions qb_sessions d
     \<and> held humanRequests qb_humanRequests d' = held humanRequests qb_humanRequests d
     \<and> held stageGenerations qb_stageGenerations d' = held stageGenerations qb_stageGenerations d
     \<and> held iterationLoops qb_iterationLoops d' = held iterationLoops qb_iterationLoops d
     \<and> held iterationRequests qb_iterationRequests d' = held iterationRequests qb_iterationRequests d
     \<and> held iterationReceipts qb_iterationReceipts d' = held iterationReceipts qb_iterationReceipts d
     \<and> held generationSupersessions qb_generationSupersessions d' = held generationSupersessions qb_generationSupersessions d"

lemma held_move:
  assumes "f d' = filter (\<lambda>x. \<not> p x) (f d)" and "quarantine d' = quarantine d @ [b]" and "g b = filter p (f d)"
  shows "held f g d' = held f g d"
  using mset_partition[of p "f d"] by (simp add: held_def assms ac_simps)

lemma held_restore:
  assumes "f d' = f d @ g b" and "find p (quarantine d) = Some b" and "quarantine d' = remove_first p (quarantine d)"
  shows "held f g d' = held f g d"
proof -
  have "mset (concat (map g (quarantine d))) = mset (g b) + mset (concat (map g (remove_first p (quarantine d))))"
  proof -
    have "mset (concat (map g xs)) = mset (g b) + mset (concat (map g (remove_first p xs)))" if "find p xs = Some b" for xs
      using that by (induction xs) (auto split: if_splits)
    then show ?thesis using assms(2) .
  qed
  then show ?thesis by (simp add: held_def assms(1,3) ac_simps)
qed

lemmas bundle_defs = move_run_def sweep_run_def quarantined_bundle_def activeBundle_def

lemma move_run_held: "all_held d (move_run subject scope x at r d)"
  unfolding all_held_def
  by (intro conjI; rule held_move[where b = "quarantined_bundle d r at"]; simp add: bundle_defs Let_def)

lemma held_run_move:
  assumes "findRun d subject x scope = Some r"
  shows "held runs (\<lambda>b. [qb_run b]) (move_run subject scope x at r d) = held runs (\<lambda>b. [qb_run b]) d"
  using remove_first_mset[of "is_run subject x scope" "runs d" r] assms
  by (simp add: held_def findRun_def bundle_defs Let_def flip: add_mset_add_single)

section \<open>The timeline\<close>

definition all_events :: "document \<Rightarrow> stored_event multiset" where
  "all_events d = held events qb_events d"

lemma events_inv_mset:
  assumes "events_inv d" and "all_events d' = all_events d" and "sorted_wrt (<) (map ev_cursor (events d'))"
    and "nextEventCursor d \<le> nextEventCursor d'"
  shows "events_inv d'"
proof -
  have a: "all_events x = mset (events x @ quarantined_events x)" for x
    by (simp add: all_events_def held_def quarantined_events_def)
  have m: "mset (events d' @ quarantined_events d') = mset (events d @ quarantined_events d)"
    using assms(2) unfolding a .
  then have "mset (map ev_cursor (events d' @ quarantined_events d')) = mset (map ev_cursor (events d @ quarantined_events d))"
    by (simp only: mset_map)
  then have "distinct (map ev_cursor (events d' @ quarantined_events d'))"
    using assms(1) mset_eq_imp_distinct_iff unfolding events_inv_def by blast
  moreover have "set (events d' @ quarantined_events d') = set (events d @ quarantined_events d)"
    by (rule mset_eq_setD[OF m])
  ultimately show ?thesis using assms(1,3,4) by (fastforce simp: events_inv_def simp del: set_append)
qed

lemma move_run_events: "all_events (move_run subject scope x at r d) = all_events d"
  unfolding all_events_def
  by (rule held_move[where p = "run_event (r_subject r) (r_runRef r)" and b = "quarantined_bundle d r at"])
    (simp_all add: bundle_defs Let_def)

lemma sorted_filter: "sorted_wrt (<) (map f xs) \<Longrightarrow> sorted_wrt (<) (map f (filter p xs))"
  by (induction xs) auto

lemma move_run_events_inv: "events_inv d \<Longrightarrow> events_inv (move_run subject scope x at r d)"
proof (rule events_inv_mset[OF _ move_run_events])
  assume i: "events_inv d"
  then show "events_inv d" .
  have "events (move_run subject scope x at r d) = filter (\<lambda>v. \<not> run_event (r_subject r) (r_runRef r) v) (events d)"
    by (simp add: bundle_defs Let_def)
  then show "sorted_wrt (<) (map ev_cursor (events (move_run subject scope x at r d)))"
    using i by (simp add: events_inv_def sorted_filter)
qed (simp add: bundle_defs Let_def)

text \<open>Restoring merges the bundle's events back by cursor, and numbers the recovery event next.\<close>

lemma distinct_sort_strict: "distinct (map f xs) \<Longrightarrow> sorted_wrt (<) (map (f :: 'a \<Rightarrow> int) (sort_key f xs))"
proof -
  assume d: "distinct (map f xs)"
  have "mset (map f (sort_key f xs)) = mset (map f xs)" by simp
  then have "distinct (map f (sort_key f xs))" using d mset_eq_imp_distinct_iff by blast
  then show ?thesis by (simp add: strict_sorted_iff)
qed

definition unbundled :: "string \<Rightarrow> string \<Rightarrow> read_scope \<Rightarrow> document \<Rightarrow> document" where
  "unbundled subject runRef scope d = d\<lparr>quarantine := remove_first (is_bundle subject runRef scope) (quarantine d)\<rparr>"

lemma restored_events_inv:
  assumes "events_inv d" and "find (is_bundle subject runRef scope) (quarantine d) = Some b"
  shows "events_inv (restore_bundle runRef at b (unbundled subject runRef scope d))"
proof -
  define d1 where "d1 = (unbundled subject runRef scope d)\<lparr>events := sort_key ev_cursor (events d @ qb_events b)\<rparr>"
  have h: "all_events d1 = all_events d"
  proof -
    have "held events qb_events (d1\<lparr>events := events d @ qb_events b\<rparr>) = held events qb_events d"
      by (rule held_restore[OF _ assms(2)]) (simp_all add: d1_def unbundled_def)
    moreover have "held events qb_events (d1\<lparr>events := events d @ qb_events b\<rparr>) = held events qb_events d1"
      by (simp add: held_def d1_def)
    ultimately show ?thesis by (simp add: all_events_def)
  qed
  have dist: "distinct (map ev_cursor (events d @ qb_events b))"
  proof -
    have "distinct (map ev_cursor (qb_events b))" "set (qb_events b) \<subseteq> set (quarantined_events d)"
      using assms by (auto simp: events_inv_def quarantined_events_def map_concat distinct_concat_iff dest!: find_Some_in)
    then show ?thesis using assms(1) by (auto simp: events_inv_def)
  qed
  have i: "events_inv d1"
    by (rule events_inv_mset[OF assms(1) h]) (use distinct_sort_strict[OF dist] in \<open>simp_all add: d1_def unbundled_def\<close>)
  show ?thesis
    by (rule events_inv_push[OF i, of "[recovery_event (qb_subject b) runRef (nextEventCursor d) at]"])
      (simp_all add: d1_def unbundled_def restore_bundle_def recovery_event_def)
qed

section \<open>The invariants move with the records\<close>

definition whole_inv :: "document \<Rightarrow> bool" where
  "whole_inv d \<longleftrightarrow> core_inv d \<and> broker_inv d"

interpretation whole_inv: store_invariant whole_inv
  by unfold_locales (simp add: whole_inv_def core_inv.I_revision broker_inv.I_revision)

lemma move_run_whole:
  assumes "whole_inv d" and "findRun d subject x scope = Some r"
  shows "whole_inv (move_run subject scope x at r d)"
proof -
  have r: "run_sound r" using assms
    by (auto simp: whole_inv_def core_inv_def runs_inv_def list_all_iff dest: findRun_SomeD)
  have "events_inv (move_run subject scope x at r d)"
    using assms(1) move_run_events_inv by (simp add: whole_inv_def core_inv_def)
  moreover have "requests_inv (move_run subject scope x at r d)"
    using assms(1) by (simp add: whole_inv_def core_inv_def requests_inv_def bundle_defs Let_def list_all_filter)
  moreover have "runs_inv (move_run subject scope x at r d)"
    using assms(1) r by (simp add: whole_inv_def core_inv_def runs_inv_def bundle_defs Let_def list_all_remove_first)
  moreover have "broker_inv (move_run subject scope x at r d)"
    using assms(1) by (simp add: whole_inv_def broker_inv_def bundle_defs Let_def list_all_filter)
  ultimately show ?thesis by (simp add: whole_inv_def core_inv_def)
qed

lemma move_runs_keeps:
  assumes "move_runs e subject scope at xs d = Some (items, d')"
  shows "(whole_inv d \<longrightarrow> whole_inv d') \<and> all_held d d'
    \<and> held runs (\<lambda>b. [qb_run b]) d' = held runs (\<lambda>b. [qb_run b]) d \<and> all_events d' = all_events d"
  using assms
proof (induction xs arbitrary: d items)
  case Nil
  then show ?case by (simp add: all_held_def)
next
  case (Cons x xs)
  obtain r items' where r: "findRun d subject x scope = Some r"
      and m: "move_runs e subject scope at xs (move_run subject scope x at r d) = Some (items', d')"
    using Cons.prems by (auto split: option.splits)
  show ?case
    using Cons.IH[OF m] move_run_whole[OF _ r] move_run_held[of d subject scope x at r] held_run_move[OF r]
      move_run_events[of subject scope x at r d]
    by (simp add: all_held_def)
qed

lemma quarantineRuns_commit:
  assumes "next_doc (quarantineRuns e subject runRefs h scope d) = Some d'"
  obtains p items where "quarantinePlan e d subject runRefs (e_stamp e 0) scope = Inr p" and "qp_planHash p = h"
    and "list_all ii_eligible (qp_items p)"
    and "move_runs e subject scope (e_stamp e 1) (map ii_runRef (qp_items p)) d = Some (items, d')"
  using assms unfolding quarantineRuns_def
  by (auto simp: committed list_ex_iff list_all_iff split: option.splits sum.splits if_splits intro: that)

lemma quarantineRuns_keeps:
  assumes "next_doc (quarantineRuns e subject runRefs h scope d) = Some d'"
  shows "(whole_inv d \<longrightarrow> whole_inv d') \<and> all_held d d'
    \<and> held runs (\<lambda>b. [qb_run b]) d' = held runs (\<lambda>b. [qb_run b]) d \<and> all_events d' = all_events d"
  using assms by (rule quarantineRuns_commit) (rule move_runs_keeps)

lemma restored_run_sound: "run_sound r \<Longrightarrow> is_iso at \<Longrightarrow> run_sound (restored_run at r)"
  by (simp add: restored_run_def sound_defs)

lemma next_doc_answered [committed]:
  "next_doc (case s of Inl x \<Rightarrow> CommitRaise d' x | Inr m \<Rightarrow> Commit d' (k m)) = Some d \<longleftrightarrow> d = d'"
  by (cases s) auto

lemma restoreRun_commit:
  assumes "next_doc (restoreRun e subject runRef scope d) = Some d'"
  obtains b where "findRun d subject runRef scope = None" and "find (is_bundle subject runRef scope) (quarantine d) = Some b"
    and "d' = restore_bundle runRef (e_stamp e 0) b (unbundled subject runRef scope d)"
  using assms unfolding restoreRun_def Let_def committed not_not
  by (elim exE conjE) (rule that; simp add: unbundled_def)

lemma restoreRun_whole:
  assumes "env_ok e" and "whole_inv d" and "next_doc (restoreRun e subject runRef scope d) = Some d'"
  shows "whole_inv d'"
proof (rule restoreRun_commit[OF assms(3)])
  fix b assume b: "find (is_bundle subject runRef scope) (quarantine d) = Some b"
    and d': "d' = restore_bundle runRef (e_stamp e 0) b (unbundled subject runRef scope d)"
  have q: "b \<in> set (quarantine d)" using b by (rule find_Some_in)
  have "events_inv d'" unfolding d'
    using assms(2) by (intro restored_events_inv[OF _ b]) (simp add: whole_inv_def core_inv_def)
  moreover have "requests_inv d'"
    using assms(2) q by (auto simp: d' whole_inv_def core_inv_def requests_inv_def restore_bundle_def unbundled_def
        list_all_remove_first) (auto simp: list_all_iff)
  moreover have "runs_inv d'"
    using assms(1,2) q restored_run_sound[OF _ env_ok_iso]
    by (auto simp: d' whole_inv_def core_inv_def runs_inv_def restore_bundle_def unbundled_def
        list_all_remove_first) (auto simp: list_all_iff)
  moreover have "broker_inv d'"
    using assms(2) q by (auto simp: d' whole_inv_def broker_inv_def restore_bundle_def unbundled_def
        list_all_remove_first) (auto simp: list_all_iff)
  ultimately show ?thesis by (simp add: whole_inv_def core_inv_def)
qed

section \<open>Quarantine and back\<close>

definition same_rows :: "document \<Rightarrow> document \<Rightarrow> bool" where
  "same_rows d d' \<longleftrightarrow> mset (stages d') = mset (stages d) \<and> mset (attempts d') = mset (attempts d)
     \<and> mset (sessions d') = mset (sessions d) \<and> mset (humanRequests d') = mset (humanRequests d)
     \<and> mset (stageGenerations d') = mset (stageGenerations d) \<and> mset (iterationLoops d') = mset (iterationLoops d)
     \<and> mset (iterationRequests d') = mset (iterationRequests d)
     \<and> mset (iterationReceipts d') = mset (iterationReceipts d)
     \<and> mset (generationSupersessions d') = mset (generationSupersessions d)"

lemma sort_key_mset_sorted:
  assumes "sorted_wrt (<) (map (f :: 'a \<Rightarrow> int) xs)" and "mset ys = mset xs"
  shows "sort_key f ys = xs"
proof (rule properties_for_sort_key)
  show "mset xs = mset ys" using assms(2) by simp
  show "sorted (map f xs)" using assms(1) strict_sorted_iff by blast
  have d: "distinct (map f xs)" using assms(1) strict_sorted_iff by blast
  fix k assume k: "k \<in> set xs"
  have one: "filter (\<lambda>x. f x = f k) zs = [k]" if "mset zs = mset xs" for zs
  proof -
    have "mset (map f zs) = mset (map f xs)" using that by simp
    then have dz: "distinct (map f zs)" using d mset_eq_imp_distinct_iff by blast
    have kz: "k \<in> set zs" using k mset_eq_setD[OF that] by simp
    show ?thesis using dz kz by (induction zs) (auto simp: filter_empty_conv image_iff)
  qed
  show "filter (\<lambda>x. f k = f x) xs = filter (\<lambda>x. f k = f x) ys"
    using one[OF refl] one[OF assms(2)] by (simp add: eq_commute[of "f k"])
qed

lemma quarantine_restores:
  assumes "events_inv d" and "find (is_bundle subject runRef OwnSubject) (quarantine d) = None"
    and "next_doc (quarantineRuns e subject [runRef] h OwnSubject d) = Some d1"
    and "next_doc (restoreRun e' subject runRef OwnSubject d1) = Some d2"
  shows "quarantine d2 = quarantine d \<and> same_rows d d2
    \<and> events d2 = events d @ [recovery_event subject runRef (nextEventCursor d) (e_stamp e' 0)]
    \<and> (\<exists>r. findRun d subject runRef OwnSubject = Some r
        \<and> mset (runs d2) + {#r#} = mset (runs d) + {#restored_run (e_stamp e' 0) r#})"
proof (rule quarantineRuns_commit[OF assms(3)], rule restoreRun_commit[OF assms(4)])
  fix p items b
  assume p: "quarantinePlan e d subject [runRef] (e_stamp e 0) OwnSubject = Inr p"
    and m: "move_runs e subject OwnSubject (e_stamp e 1) (map ii_runRef (qp_items p)) d = Some (items, d1)"
    and b: "find (is_bundle subject runRef OwnSubject) (quarantine d1) = Some b"
    and d2: "d2 = restore_bundle runRef (e_stamp e' 0) b (unbundled subject runRef OwnSubject d1)"
  obtain r where r: "findRun d subject runRef OwnSubject = Some r"
    using p by (auto simp: quarantinePlan_def uniq_def split: option.splits)
  have rr: "r_runRef r = runRef" "r_subject r = subject"
    using findRun_runRef[OF r] findRun_own_subject[OF r] by simp_all
  have "map ii_runRef (qp_items p) = [runRef]"
    using p r rr by (auto simp: quarantinePlan_def uniq_def plan_of_def Let_def plan_item_of_def inventory_item.extend_def
        inventoryItem_def activeBundle_def)
  then have d1: "d1 = move_run subject OwnSubject runRef (e_stamp e 1) r d" using m r by simp
  let ?b = "quarantined_bundle d r (e_stamp e 1)"
  have isb: "is_bundle subject runRef OwnSubject ?b"
    by (simp add: is_bundle_def quarantined_bundle_def activeBundle_def Let_def rr)
  have q1: "quarantine d1 = quarantine d @ [?b]" by (simp add: d1 move_run_def sweep_run_def)
  have bb: "b = ?b" using b assms(2) isb by (simp add: q1 find_append)
  have q2: "quarantine d2 = quarantine d"
    using remove_first_append[OF assms(2) isb] by (simp add: d2 restore_bundle_def unbundled_def q1)
  have "same_rows d d2"
    by (simp add: same_rows_def d2 restore_bundle_def unbundled_def d1 bb bundle_defs Let_def rr flip: mset_append)
      (simp add: mset_partition)
  moreover have "events d2 = events d @ [recovery_event subject runRef (nextEventCursor d) (e_stamp e' 0)]"
  proof -
    have "sort_key ev_cursor (events d1 @ qb_events ?b) = events d"
    proof (rule sort_key_mset_sorted)
      show "sorted_wrt (<) (map ev_cursor (events d))" using assms(1) by (simp add: events_inv_def)
      show "mset (events d1 @ qb_events ?b) = mset (events d)"
        by (simp add: d1 bundle_defs Let_def rr mset_partition)
    qed
    then show ?thesis by (simp add: d2 restore_bundle_def unbundled_def bb d1 bundle_defs Let_def rr)
  qed
  moreover have "mset (runs d2) + {#r#} = mset (runs d) + {#restored_run (e_stamp e' 0) r#}"
    using remove_first_mset[of "is_run subject runRef OwnSubject" "runs d" r] r
    by (simp add: d2 restore_bundle_def unbundled_def d1 bb bundle_defs Let_def rr findRun_def flip: add_mset_add_single)
  ultimately show ?thesis using q2 r by blast
qed

end
