(* ===== verification/StageFacts.thy ===== *)
theory StageFacts
  imports Stages QuarantineFacts
begin

text \<open>
  What the stage operations commit, and the invariant they keep: a stage has at most one attempt that is
  not settled, and it is the one the stage points at. A successor or a rerouted attempt never runs beside
  the attempt it replaces.
\<close>

section \<open>Commits\<close>

lemma transitionStage_commit:
  assumes "next_doc (transitionStage e subject stageRef v state d) = Some d'"
  obtains s t where "find (is_stage subject stageRef) (stages d) = Some s" and "st_version s = v"
    and "stage_edge (st_state s) t" and "t \<in> {SReady, SRunning, SSucceeded} \<longrightarrow> dependenciesSucceeded d s"
    and "t = SSucceeded \<longrightarrow> stageMaySucceed d s"
    and "st_state s = SWaitingHuman \<and> t = SReady \<longrightarrow> boundariesAccepted d subject (st_runRef s) (Some (st_stageRef s))"
    and "d' = d\<lparr>stages := upd_first (is_stage subject stageRef) (moved_stage t (e_stamp e 0)) (stages d)\<rparr>"
proof -
  from assms obtain s t where s: "find (is_stage subject stageRef) (stages d) = Some s" "st_version s = v"
      "stage_edge (st_state s) t" "\<not> (t \<in> {SReady, SRunning, SSucceeded} \<and> \<not> dependenciesSucceeded d s)"
      "\<not> (t = SSucceeded \<and> \<not> stageMaySucceed d s)"
      "\<not> (st_state s = SWaitingHuman \<and> t = SReady
        \<and> \<not> boundariesAccepted d subject (st_runRef s) (Some (st_stageRef s)))"
      "d' = d\<lparr>stages := upd_first (is_stage subject stageRef) (moved_stage t (e_stamp e 0)) (stages d)\<rparr>"
    unfolding transitionStage_def Let_def committed not_not by blast
  show thesis by (rule that[OF s(1-3) _ _ _ s(7)]) (use s(4-6) in blast)+
qed

lemma linkStageCard_commit:
  assumes "next_doc (linkStageCard e subject stageRef v c d) = Some d'"
  obtains s where "find (is_stage subject stageRef) (stages d) = Some s" and "st_canonicalCardRef s = None"
    and "d' = d\<lparr>stages := upd_first (is_stage subject stageRef) (linked_stage c (e_stamp e 0)) (stages d)\<rparr>"
  using assms unfolding linkStageCard_def Let_def committed not_not
  by (elim exE conjE) (rule that)

lemma next_doc_refused [committed]:
  "next_doc (case x of Some y \<Rightarrow> Refuse (h y) (g y) | None \<Rightarrow> m) = Some d \<longleftrightarrow> x = None \<and> next_doc m = Some d"
  by (cases x) simp_all

lemma attempt_allowed_None:
  "attempt_allowed d subject s = None \<longleftrightarrow> (case iterationLoopForStage d s of
     None \<Rightarrow> dependenciesAcceptedForAttempt d s | Some l \<Rightarrow> owns_turn d subject s l)"
  by (simp add: attempt_allowed_def split: option.split)

lemma createAttempt_commit:
  assumes "next_doc (createAttempt e subject stageRef i d) = Some d'"
  obtains s where "find (is_stage subject stageRef) (stages d) = Some s" and "st_version s = an_expectedStageVersion i"
    and "attempt_allowed d subject s = None"
    and "\<And>p. previous_attempt d subject s = Some p \<Longrightarrow> SETTLED_ATTEMPT (at_state p)"
    and "d' = d\<lparr>stages := upd_first (is_stage subject stageRef)
          (pointed_stage (ref e ''attempt'' 0) (e_stamp e 0)) (stages d),
        attempts := attempts d @ [new_attempt e d subject s stageRef i]\<rparr>"
proof -
  from assms obtain s where s: "find (is_stage subject stageRef) (stages d) = Some s"
      "st_version s = an_expectedStageVersion i" "attempt_allowed d subject s = None"
      "\<not> (case previous_attempt d subject s of None \<Rightarrow> False
          | Some p \<Rightarrow> \<not> TERMINAL_ATTEMPT (at_state p) \<and> at_state p \<noteq> AInterrupted)"
    and d': "d' = d\<lparr>stages := upd_first (is_stage subject stageRef)
          (pointed_stage (at_attemptRef (new_attempt e d subject s stageRef i)) (e_stamp e 0)) (stages d),
        attempts := attempts d @ [new_attempt e d subject s stageRef i]\<rparr>"
    unfolding createAttempt_def Let_def committed not_not by (elim exE conjE) (rule that)
  have r: "at_attemptRef (new_attempt e d subject s stageRef i) = ref e ''attempt'' 0"
    by (simp add: new_attempt_def Let_def queued_attempt_def)
  have p: "SETTLED_ATTEMPT (at_state p)" if "previous_attempt d subject s = Some p" for p
    using s(4) that by (simp add: SETTLED_ATTEMPT_def)
  show thesis by (rule that[OF s(1-3) p d'[unfolded r]])
qed

lemma transitionAttempt_commit:
  assumes "next_doc (transitionAttempt e subject attemptRef v state d) = Some d'"
  obtains a t where "find (is_attempt subject attemptRef) (attempts d) = Some a" and "at_version a = v"
    and "attempt_edge (at_state a) t"
    and "d' = d\<lparr>attempts := upd_first (is_attempt subject attemptRef) (moved_attempt t (e_stamp e 0)) (attempts d)\<rparr>"
  using assms unfolding transitionAttempt_def Let_def committed not_not
  by (elim exE conjE) (rule that)

lemma createWorkerSession_commit:
  assumes "next_doc (createWorkerSession e subject attemptRef i d) = Some d'"
  obtains a where "find (is_attempt subject attemptRef) (attempts d) = Some a" and "at_state a = AQueued"
    and "d' = d\<lparr>attempts := upd_first (is_attempt subject attemptRef)
          (managed_attempt (ms_sessionRef (worker_session e subject i a)) (e_stamp e 0)) (attempts d),
        sessions := sessions d @ [worker_session e subject i a]\<rparr>"
  using assms unfolding createWorkerSession_def Let_def committed not_not
  by (elim exE conjE) (rule that)

lemma transitionSession_commit:
  assumes "next_doc (transitionSession e subject sessionRef v state key d) = Some d'"
  obtains s t where "find (owns_session subject sessionRef) (sessions d) = Some s" and "ms_version s = v"
    and "ms_state s = t \<or> session_edge (ms_state s) t"
    and "ms_state s = MWaiting \<and> t = MRunning \<longrightarrow> boundariesAccepted d subject (ms_runRef s) (ms_stageRef s)"
    and "d' = d\<lparr>sessions := upd_first (owns_session subject sessionRef) (bound_session key t (e_stamp e 0)) (sessions d)\<rparr>"
proof -
  from assms obtain s t where s: "find (owns_session subject sessionRef) (sessions d) = Some s" "ms_version s = v"
      "\<not> (ms_state s \<noteq> t \<and> \<not> session_edge (ms_state s) t)"
      "\<not> (ms_state s = MWaiting \<and> t = MRunning \<and> \<not> boundariesAccepted d subject (ms_runRef s) (ms_stageRef s))"
      "d' = d\<lparr>sessions := upd_first (owns_session subject sessionRef) (bound_session key t (e_stamp e 0)) (sessions d)\<rparr>"
    unfolding transitionSession_def Let_def committed not_not by blast
  show thesis by (rule that[OF s(1,2) _ _ s(5)]) (use s(3,4) in blast)+
qed

lemma rerouteStage_commit:
  assumes "next_doc (rerouteStage e subject stageRef i d) = Some d'"
  obtains s current prior where "find (is_stage subject stageRef) (stages d) = Some s"
    and "st_currentAttemptRef s = Some (ri_expectedAttemptRef i)"
    and "find (is_stage_attempt subject (ri_expectedAttemptRef i) stageRef) (attempts d) = Some current"
    and "at_state current = AQueued" and "SAFE_REF_RE (ri_expectedAttemptRef i)"
    and "d' = d\<lparr>stages := upd_first (is_stage subject stageRef)
          (pointed_stage (ref e ''attempt'' 0) (e_stamp e 0)) (stages d),
        attempts := upd_first (is_stage_attempt subject (ri_expectedAttemptRef i) stageRef)
          (moved_attempt AStopped (e_stamp e 0)) (attempts d) @ [rerouted_attempt e subject stageRef i s current],
        sessions := upd_first (is_attempt_session subject current) (moved_session MStopped (e_stamp e 0)) (sessions d)
          @ [rerouted_session e subject stageRef i s (rerouted_attempt e subject stageRef i s current) prior]\<rparr>"
proof -
  have r: "at_attemptRef (rerouted_attempt e subject stageRef i s current) = ref e ''attempt'' 0" for s current
    by (simp add: rerouted_attempt_def queued_attempt_def)
  show thesis
  proof (cases "find (is_reroute subject stageRef (ri_idempotencyKey i)) (attempts d)")
    case None
    from assms obtain s current prior where s: "find (is_stage subject stageRef) (stages d) = Some s"
        "\<not> (st_version s \<noteq> ri_expectedStageVersion i \<or> st_currentAttemptRef s \<noteq> Some (ri_expectedAttemptRef i))"
        "find (is_stage_attempt subject (ri_expectedAttemptRef i) stageRef) (attempts d) = Some current"
        "\<not> at_state current \<noteq> AQueued"
        "\<not> (\<not> validNonEmpty (ri_idempotencyKey i) MAX_SHORT_TEXT \<or> \<not> validNonEmpty (ri_runtime i) MAX_SHORT_TEXT
          \<or> \<not> validNonEmpty (ri_model i) MAX_SHORT_TEXT \<or> \<not> SAFE_REF_RE (ri_expectedAttemptRef i)
          \<or> \<not> safe_int (ri_expectedStageVersion i) \<or> ri_expectedStageVersion i < 1
          \<or> \<not> safe_int (ri_expectedAttemptVersion i) \<or> ri_expectedAttemptVersion i < 1)"
        "d' = d\<lparr>stages := upd_first (is_stage subject stageRef)
          (pointed_stage (ref e ''attempt'' 0) (e_stamp e 0)) (stages d),
        attempts := upd_first (is_stage_attempt subject (ri_expectedAttemptRef i) stageRef)
          (moved_attempt AStopped (e_stamp e 0)) (attempts d) @ [rerouted_attempt e subject stageRef i s current],
        sessions := upd_first (is_attempt_session subject current) (moved_session MStopped (e_stamp e 0)) (sessions d)
          @ [rerouted_session e subject stageRef i s (rerouted_attempt e subject stageRef i s current) prior]\<rparr>"
      unfolding rerouteStage_def Let_def None option.case committed r by blast
    show thesis by (rule that[OF s(1) _ s(3) _ _ s(6)]) (use s(2,4,5) in blast)+
  next
    case (Some a)
    have "next_doc (reroute_replay d subject stageRef a) = None"
      by (simp add: reroute_replay_def split: option.split)
    with assms Some show thesis by (simp add: rerouteStage_def committed split: if_splits)
  qed
qed

section \<open>They leave the log and the runs alone\<close>

lemma stage_ops_core:
  "next_doc (transitionStage e subject x v st d) = Some d' \<Longrightarrow> core_step d d'"
  "next_doc (linkStageCard e subject x v c d) = Some d' \<Longrightarrow> core_step d d'"
  "next_doc (createAttempt e subject x ai d) = Some d' \<Longrightarrow> core_step d d'"
  "next_doc (rerouteStage e subject x ri d) = Some d' \<Longrightarrow> core_step d d'"
  "next_doc (transitionAttempt e subject x v st d) = Some d' \<Longrightarrow> core_step d d'"
  "next_doc (createWorkerSession e subject x wi d) = Some d' \<Longrightarrow> core_step d d'"
  "next_doc (transitionSession e subject x v st key d) = Some d' \<Longrightarrow> core_step d d'"
proof -
  have s: "same_log d d' \<and> runs d' = runs d \<Longrightarrow> core_step d d'" by (simp add: core_step_same)
  show "next_doc (transitionStage e subject x v st d) = Some d' \<Longrightarrow> core_step d d'"
    by (erule transitionStage_commit, rule s) (simp add: same_log_def)
  show "next_doc (linkStageCard e subject x v c d) = Some d' \<Longrightarrow> core_step d d'"
    by (erule linkStageCard_commit, rule s) (simp add: same_log_def)
  show "next_doc (createAttempt e subject x ai d) = Some d' \<Longrightarrow> core_step d d'"
    by (erule createAttempt_commit, rule s) (simp add: same_log_def)
  show "next_doc (rerouteStage e subject x ri d) = Some d' \<Longrightarrow> core_step d d'"
    by (erule rerouteStage_commit, rule s) (simp add: same_log_def)
  show "next_doc (transitionAttempt e subject x v st d) = Some d' \<Longrightarrow> core_step d d'"
    by (erule transitionAttempt_commit, rule s) (simp add: same_log_def)
  show "next_doc (createWorkerSession e subject x wi d) = Some d' \<Longrightarrow> core_step d d'"
    by (erule createWorkerSession_commit, rule s) (simp add: same_log_def)
  show "next_doc (transitionSession e subject x v st key d) = Some d' \<Longrightarrow> core_step d d'"
    by (erule transitionSession_commit, rule s) (simp add: same_log_def)
qed

section \<open>One attempt in flight\<close>

definition attempt_key :: "stored_attempt \<Rightarrow> string \<times> string" where
  "attempt_key a = (at_subject a, at_attemptRef a)"

definition stage_key :: "stored_stage \<Rightarrow> string \<times> string" where
  "stage_key s = (st_subject s, st_stageRef s)"

definition stage_of :: "stored_attempt \<Rightarrow> string \<times> string" where
  "stage_of a = (at_subject a, at_stageRef a)"

definition attempt_rows :: "document \<Rightarrow> stored_attempt list" where
  "attempt_rows d = attempts d @ concat (map qb_attempts (quarantine d))"

definition stage_rows :: "document \<Rightarrow> stored_stage list" where
  "stage_rows d = stages d @ concat (map qb_stages (quarantine d))"

definition points :: "stored_attempt \<Rightarrow> stored_stage \<Rightarrow> bool" where
  "points a s \<longleftrightarrow> (stage_key s = stage_of a \<longrightarrow> at_runRef a = st_runRef s
     \<and> (\<not> SETTLED_ATTEMPT (at_state a) \<longrightarrow> st_currentAttemptRef s = Some (at_attemptRef a)))"

definition flight_inv :: "document \<Rightarrow> bool" where
  "flight_inv d \<longleftrightarrow> distinct (map attempt_key (attempt_rows d)) \<and> distinct (map stage_key (stage_rows d))
     \<and> (\<forall>a\<in>set (attempt_rows d). at_attemptRef a \<noteq> [])
     \<and> (\<forall>a\<in>set (attempt_rows d). \<forall>s\<in>set (stage_rows d). points a s)"

interpretation flight_inv: store_invariant flight_inv
  by unfold_locales (simp add: flight_inv_def attempt_rows_def stage_rows_def)

text \<open>What the invariant is for: two unsettled attempts of a stage are one attempt.\<close>

lemma one_in_flight:
  assumes "flight_inv d" and "s \<in> set (stages d)" and "a \<in> set (attempts d)" and "b \<in> set (attempts d)"
    and "stage_of a = stage_key s" and "stage_of b = stage_key s"
    and "\<not> SETTLED_ATTEMPT (at_state a)" and "\<not> SETTLED_ATTEMPT (at_state b)"
  shows "a = b"
proof -
  have "points a s" "points b s" using assms(1-4) by (auto simp: flight_inv_def attempt_rows_def stage_rows_def)
  then have "attempt_key a = attempt_key b"
    using assms(5-8) by (auto simp: points_def attempt_key_def stage_of_def stage_key_def)
  moreover have "inj_on attempt_key (set (attempt_rows d))"
    using assms(1) by (simp add: flight_inv_def distinct_map)
  ultimately show ?thesis using assms(3,4) by (auto simp: attempt_rows_def dest: inj_onD)
qed

lemma flight_held:
  assumes "all_held d d'" and "flight_inv d"
  shows "flight_inv d'"
proof -
  have m: "mset (attempt_rows d') = mset (attempt_rows d)" "mset (stage_rows d') = mset (stage_rows d)"
    using assms(1) by (simp_all add: all_held_def held_def attempt_rows_def stage_rows_def)
  have "distinct (map attempt_key (attempt_rows d'))"
  proof -
    have "mset (map attempt_key (attempt_rows d')) = mset (map attempt_key (attempt_rows d))" by (simp add: m)
    then show ?thesis using assms(2) mset_eq_imp_distinct_iff unfolding flight_inv_def by blast
  qed
  moreover have "distinct (map stage_key (stage_rows d'))"
  proof -
    have "mset (map stage_key (stage_rows d')) = mset (map stage_key (stage_rows d))" by (simp add: m)
    then show ?thesis using assms(2) mset_eq_imp_distinct_iff unfolding flight_inv_def by blast
  qed
  ultimately show ?thesis
    using assms(2) mset_eq_setD[OF m(1)] mset_eq_setD[OF m(2)] by (simp add: flight_inv_def)
qed

lemma flight_same:
  "attempts d' = attempts d \<Longrightarrow> stages d' = stages d \<Longrightarrow> quarantine d' = quarantine d \<Longrightarrow> flight_inv d \<Longrightarrow> flight_inv d'"
  by (simp add: flight_inv_def attempt_rows_def stage_rows_def)

text \<open>A row that moves: it keeps its key and stage, and never leaves the settled states.\<close>

definition attempt_moves :: "stored_attempt \<Rightarrow> stored_attempt \<Rightarrow> bool" where
  "attempt_moves a b \<longleftrightarrow> attempt_key b = attempt_key a \<and> stage_of b = stage_of a \<and> at_runRef b = at_runRef a
     \<and> (SETTLED_ATTEMPT (at_state a) \<longrightarrow> SETTLED_ATTEMPT (at_state b))"

definition stage_moves :: "stored_stage \<Rightarrow> stored_stage \<Rightarrow> bool" where
  "stage_moves s t \<longleftrightarrow> stage_key t = stage_key s \<and> st_runRef t = st_runRef s
     \<and> st_currentAttemptRef t = st_currentAttemptRef s"

lemma attempt_moves_keys: "list_all2 attempt_moves as bs \<Longrightarrow> map attempt_key bs = map attempt_key as"
  by (induction rule: list_all2_induct) (auto simp: attempt_moves_def)

lemma stage_moves_keys: "list_all2 stage_moves as bs \<Longrightarrow> map stage_key bs = map stage_key as"
  by (induction rule: list_all2_induct) (auto simp: stage_moves_def)

lemma list_all2_back: "list_all2 R as bs \<Longrightarrow> b \<in> set bs \<Longrightarrow> \<exists>a\<in>set as. R a b"
  by (induction rule: list_all2_induct) auto

lemma attempt_moves_points: "attempt_moves a b \<Longrightarrow> points a s \<Longrightarrow> points b s"
  by (auto simp: attempt_moves_def points_def attempt_key_def)

lemma stage_moves_points: "stage_moves s t \<Longrightarrow> points a s \<Longrightarrow> points a t"
  by (auto simp: stage_moves_def points_def)

lemma flight_moves:
  assumes "flight_inv d" and "list_all2 attempt_moves (attempts d) (attempts d')"
    and "list_all2 stage_moves (stages d) (stages d')" and "quarantine d' = quarantine d"
  shows "flight_inv d'"
proof -
  have refl: "list_all2 attempt_moves xs xs" "list_all2 stage_moves ys ys" for xs ys
    by (auto intro!: list_all2_refl simp: attempt_moves_def stage_moves_def)
  have a: "list_all2 attempt_moves (attempt_rows d) (attempt_rows d')"
    and s: "list_all2 stage_moves (stage_rows d) (stage_rows d')"
    using assms(2-4) refl by (auto simp: attempt_rows_def stage_rows_def intro!: list_all2_appendI)
  have p: "points b t" if b: "b \<in> set (attempt_rows d')" and t: "t \<in> set (stage_rows d')" for b t
  proof -
    obtain x where x: "x \<in> set (attempt_rows d)" "attempt_moves x b" using list_all2_back[OF a b] by blast
    obtain y where y: "y \<in> set (stage_rows d)" "stage_moves y t" using list_all2_back[OF s t] by blast
    have "points x y" using assms(1) x(1) y(1) by (simp add: flight_inv_def)
    then show ?thesis using attempt_moves_points[OF x(2)] stage_moves_points[OF y(2)] by blast
  qed
  have "at_attemptRef b \<noteq> []" if b: "b \<in> set (attempt_rows d')" for b
  proof -
    obtain x where x: "x \<in> set (attempt_rows d)" "attempt_moves x b" using list_all2_back[OF a b] by blast
    then show ?thesis using assms(1) by (auto simp: flight_inv_def attempt_moves_def attempt_key_def)
  qed
  then show ?thesis
    using assms(1) p attempt_moves_keys[OF a] stage_moves_keys[OF s] by (simp add: flight_inv_def)
qed

text \<open>
  A stage that is pointed elsewhere, once every attempt it had is settled: at a fresh attempt, or at none.
\<close>

lemma flight_repoint:
  assumes i: "flight_inv d" and f: "find p (stages d) = Some s"
    and at: "attempts d' = as @ xs" and as: "list_all2 attempt_moves (attempts d) as"
    and st: "stages d' = upd_first p g (stages d)"
    and g: "stage_key (g s) = stage_key s" "st_runRef (g s) = st_runRef s"
    and xs: "distinct (map attempt_key xs)" "\<And>a. a \<in> set xs \<Longrightarrow> stage_of a = stage_key s \<and> at_attemptRef a \<noteq> []
      \<and> attempt_key a \<notin> set (map attempt_key (attempt_rows d)) \<and> at_runRef a = st_runRef s
      \<and> st_currentAttemptRef (g s) = Some (at_attemptRef a)"
    and fin: "\<And>x. x \<in> set as \<union> set (concat (map qb_attempts (quarantine d))) \<Longrightarrow> stage_of x = stage_key s
        \<Longrightarrow> SETTLED_ATTEMPT (at_state x)"
    and q: "quarantine d' = quarantine d"
  shows "flight_inv d'"
proof -
  let ?qa = "concat (map qb_attempts (quarantine d))" and ?qs = "concat (map qb_stages (quarantine d))"
  have keys: "map stage_key (stage_rows d') = map stage_key (stage_rows d)"
    using f g(1) by (simp add: stage_rows_def st q) (rule map_upd_first_same, simp)
  have moves: "list_all2 attempt_moves (attempt_rows d) (as @ ?qa)"
    using as by (auto simp: attempt_rows_def attempt_moves_def intro!: list_all2_appendI list_all2_refl)
  have rows: "set (attempt_rows d') = set xs \<union> set (as @ ?qa)"
    by (auto simp: attempt_rows_def at q)
  have dist: "distinct (map stage_key (stage_rows d'))" using i by (simp add: keys flight_inv_def)
  have "distinct (map attempt_key (attempt_rows d'))"
  proof -
    have "distinct (map attempt_key (as @ ?qa))"
      using i attempt_moves_keys[OF moves] by (simp only: flight_inv_def)
    moreover have "attempt_key a \<notin> set (map attempt_key (as @ ?qa))" if "a \<in> set xs" for a
      using xs(2)[OF that] attempt_moves_keys[OF moves] by (simp only:) simp
    then have "set (map attempt_key xs) \<inter> set (map attempt_key (as @ ?qa)) = {}" by (simp only: set_map) blast
    ultimately have "distinct (map attempt_key xs @ map attempt_key (as @ ?qa))" using xs(1) by (simp only: distinct_append)
    then show ?thesis by (simp add: attempt_rows_def at q Int_ac) blast
  qed
  moreover have "at_attemptRef x \<noteq> []" if "x \<in> set (attempt_rows d')" for x
  proof (cases "x \<in> set xs")
    case False
    then have "x \<in> set (as @ ?qa)" using that rows by simp
    then obtain y where "y \<in> set (attempt_rows d)" "attempt_moves y x" using list_all2_back[OF moves] by blast
    then show ?thesis using i by (auto simp: flight_inv_def attempt_moves_def attempt_key_def)
  qed (simp add: xs(2))
  moreover have "points x t" if x: "x \<in> set (attempt_rows d')" and t: "t \<in> set (stage_rows d')" for x t
  proof (cases "stage_key t = stage_key s")
    case True
    have "g s \<in> set (stage_rows d')" using upd_first_member[OF f] by (simp add: stage_rows_def st)
    moreover have "stage_key t = stage_key (g s)" using True g(1) by simp
    ultimately have tg: "t = g s" using dist t by (auto simp: distinct_map dest: inj_onD)
    show ?thesis
    proof (cases "x \<in> set xs")
      case xa: False
      then have xq: "x \<in> set as \<union> set ?qa" using x rows by auto
      then obtain y where y: "y \<in> set (attempt_rows d)" "attempt_moves y x" using list_all2_back[OF moves, of x] by auto
      have "s \<in> set (stage_rows d)" using f by (simp add: stage_rows_def find_Some_in)
      then have "points y s" using i y(1) by (simp add: flight_inv_def)
      then have "stage_key s = stage_of x \<Longrightarrow> at_runRef x = st_runRef s" using y(2) by (simp add: points_def attempt_moves_def)
      then show ?thesis using fin[OF xq] True g(2) tg by (auto simp: points_def)
    qed (simp add: points_def tg g(2) xs(2))
  next
    case False
    have old: "t \<in> set (stage_rows d)"
      using t set_upd_firstD[of t p g "stages d"] f False g(1) by (auto simp: stage_rows_def st q)
    show ?thesis
    proof (cases "x \<in> set xs")
      case True
      then show ?thesis using False xs(2) by (simp add: points_def)
    next
      case xa: False
      then have "x \<in> set (as @ ?qa)" using x rows by simp
      then obtain y where y: "y \<in> set (attempt_rows d)" "attempt_moves y x" using list_all2_back[OF moves] by blast
      then have "points y t" using i old by (simp add: flight_inv_def)
      then show ?thesis using y(2) by (rule attempt_moves_points[rotated])
    qed
  qed
  ultimately show ?thesis using dist by (simp add: flight_inv_def)
qed

lemma flight_successor:
  assumes "flight_inv d" and f: "find (is_stage subject stageRef) (stages d) = Some s"
    and "attempts d' = as @ [a]" and "list_all2 attempt_moves (attempts d) as"
    and "stages d' = upd_first (is_stage subject stageRef) g (stages d)"
    and "stage_key (g s) = stage_key s" "st_currentAttemptRef (g s) = Some (at_attemptRef a)"
      "st_runRef (g s) = st_runRef s"
    and "stage_of a = (subject, stageRef)" "at_attemptRef a \<noteq> []"
      "attempt_key a \<notin> set (map attempt_key (attempt_rows d))" "at_runRef a = st_runRef s"
    and "\<And>x. x \<in> set as \<union> set (concat (map qb_attempts (quarantine d))) \<Longrightarrow> stage_of x = (subject, stageRef)
        \<Longrightarrow> SETTLED_ATTEMPT (at_state x)"
    and "quarantine d' = quarantine d"
  shows "flight_inv d'"
proof -
  have "stage_key s = (subject, stageRef)" using find_Some_pred[OF f] by (simp add: is_stage_def stage_key_def)
  then show ?thesis by (intro flight_repoint[OF assms(1) f assms(3-5)]) (use assms(6-14) in auto)
qed

section \<open>Every stage operation keeps one attempt in flight\<close>

text \<open>The reference of a new attempt is a random UUID: it names no attempt the document holds.\<close>

definition attempt_ref_fresh :: "env \<Rightarrow> document \<Rightarrow> bool" where
  "attempt_ref_fresh e d \<longleftrightarrow> ref e ''attempt'' 0 \<notin> set (map at_attemptRef (attempt_rows d))"

lemma fresh_key: "attempt_ref_fresh e d \<Longrightarrow> at_attemptRef a = ref e ''attempt'' 0
    \<Longrightarrow> attempt_key a \<notin> attempt_key ` set (attempt_rows d)"
  by (auto simp: attempt_ref_fresh_def attempt_key_def)

lemma moves_refl: "list_all2 attempt_moves xs xs" "list_all2 stage_moves ys ys"
  by (auto intro!: list_all2_refl simp: attempt_moves_def stage_moves_def)

lemma list_all2_upd_first:
  assumes "\<And>x. find p xs = Some x \<Longrightarrow> R x (f x)" and "\<And>x. R x x"
  shows "list_all2 R xs (upd_first p f xs)"
  using assms(1) by (induction xs) (auto simp: assms(2) intro!: list_all2_refl)

lemma stage_moves_trans: "stage_moves a b \<Longrightarrow> stage_moves b c \<Longrightarrow> stage_moves a c"
  by (simp add: stage_moves_def)

lemma stage_moves_id: "stage_moves s s" "attempt_moves a a"
  by (simp_all add: stage_moves_def attempt_moves_def)

lemma stage_rows_trans:
  "list_all2 stage_moves as bs \<Longrightarrow> list_all2 stage_moves bs cs \<Longrightarrow> list_all2 stage_moves as cs"
  by (rule list_all2_trans[of stage_moves stage_moves stage_moves]) (auto intro: stage_moves_trans)

lemma stages_flight:
  assumes "flight_inv d" and "d' = d\<lparr>stages := upd_first p f (stages d)\<rparr>" and "\<And>s. stage_moves s (f s)"
  shows "flight_inv d'"
  by (rule flight_moves[OF assms(1)])
    (simp_all add: assms(2,3) moves_refl list_all2_upd_first stage_moves_id)

lemma attempts_flight:
  assumes "flight_inv d" and "attempts d' = upd_first p f (attempts d)" and "stages d' = stages d"
    and "quarantine d' = quarantine d" and "\<And>a. find p (attempts d) = Some a \<Longrightarrow> attempt_moves a (f a)"
  shows "flight_inv d'"
  by (rule flight_moves[OF assms(1)])
    (simp_all add: assms(2-5) moves_refl list_all2_upd_first stage_moves_id)

lemma moved_attempt_moves: "attempt_edge (at_state a) t \<Longrightarrow> attempt_moves a (moved_attempt t at a)"
  using settled_attempt_stays
  by (auto simp: attempt_moves_def moved_attempt_def attempt_key_def stage_of_def)

text \<open>An unsettled attempt of the stage is the one found under the stage's pointer.\<close>

lemma unsettled_is_previous:
  assumes "flight_inv d" and "find (is_stage subject stageRef) (stages d) = Some s" and "x \<in> set (attempt_rows d)"
    and "stage_of x = (subject, stageRef)" and "\<not> SETTLED_ATTEMPT (at_state x)"
  shows "st_currentAttemptRef s = Some (at_attemptRef x)" and "at_subject x = subject"
proof -
  have "stage_key s = (subject, stageRef)" "s \<in> set (stage_rows d)"
    using find_SomeD[OF assms(2)] by (simp_all add: is_stage_def stage_key_def stage_rows_def)
  then show "st_currentAttemptRef s = Some (at_attemptRef x)"
    using assms(1,3-5) by (auto simp: flight_inv_def points_def)
  show "at_subject x = subject" using assms(4) by (simp add: stage_of_def)
qed

lemma found_attempt_unique:
  assumes "flight_inv d" and "x \<in> set (attempt_rows d)" and "find p (attempts d) = Some y"
    and "attempt_key x = attempt_key y"
  shows "x = y"
proof -
  have "y \<in> set (attempt_rows d)" using assms(3) by (auto simp: attempt_rows_def dest: find_Some_in)
  then show ?thesis using assms(1,2,4) by (auto simp: flight_inv_def distinct_map dest: inj_onD)
qed

text \<open>
  A quarantined attempt is settled when its bundle went through the plan; the invariant below keeps that.
\<close>

definition bundles_settled :: "document \<Rightarrow> bool" where
  "bundles_settled d \<longleftrightarrow> list_all (\<lambda>b. list_all (\<lambda>a. SETTLED_ATTEMPT (at_state a)) (qb_attempts b)) (quarantine d)"

definition stages_inv :: "document \<Rightarrow> bool" where
  "stages_inv d \<longleftrightarrow> flight_inv d \<and> bundles_settled d"

interpretation stages_inv: store_invariant stages_inv
  by unfold_locales (simp add: stages_inv_def flight_inv.I_revision bundles_settled_def)

text \<open>
  An attempt queued behind the pointer of its stage: what the pointer named, if anything, is settled.
\<close>

lemma stages_inv_enqueue:
  assumes "stages_inv d" and "attempt_ref_fresh e d" and f: "find p (stages d) = Some s"
    and "attempts d' = attempts d @ [a]" and "stages d' = upd_first p g (stages d)" and "quarantine d' = quarantine d"
    and g: "stage_key (g s) = stage_key s" "st_runRef (g s) = st_runRef s"
      "st_currentAttemptRef (g s) = Some (ref e ''attempt'' 0)"
    and a: "at_attemptRef a = ref e ''attempt'' 0" "stage_of a = stage_key s" "at_runRef a = st_runRef s"
    and prev: "\<And>x. x \<in> set (attempts d) \<Longrightarrow> stage_of x = stage_key s \<Longrightarrow> at_runRef x = st_runRef s
      \<Longrightarrow> st_currentAttemptRef s = Some (at_attemptRef x) \<Longrightarrow> SETTLED_ATTEMPT (at_state x)"
  shows "stages_inv d'"
proof -
  have i: "flight_inv d" "bundles_settled d" using assms(1) by (simp_all add: stages_inv_def)
  have "SETTLED_ATTEMPT (at_state x)" if x: "x \<in> set (attempts d) \<union> set (concat (map qb_attempts (quarantine d)))"
      "stage_of x = stage_key s" for x
  proof (rule ccontr)
    assume u: "\<not> SETTLED_ATTEMPT (at_state x)"
    then have xa: "x \<in> set (attempts d)" using x(1) i(2) by (auto simp: bundles_settled_def list_all_iff)
    have "s \<in> set (stage_rows d)" using f by (simp add: stage_rows_def find_Some_in)
    then have "points x s" using i(1) xa by (simp add: flight_inv_def attempt_rows_def)
    then show False using prev[OF xa x(2)] u x(2) by (simp add: points_def)
  qed
  moreover have "ref e ''attempt'' 0 \<noteq> []" by (simp add: ref_def)
  ultimately have "flight_inv d'"
    using fresh_key[OF assms(2) a(1)] by (intro flight_repoint[OF i(1) f assms(4) moves_refl(1) assms(5) g(1,2)]) (auto simp: a g(3) assms(6))
  then show ?thesis using i(2) by (simp add: stages_inv_def bundles_settled_def assms(6))
qed

text \<open>The same, read off the lookup of the pointer.\<close>

lemma found_behind_pointer:
  assumes "flight_inv d" and "x \<in> set (attempts d)" and "at_subject x = u" and "P x"
    and "\<And>y. find (\<lambda>a. is_attempt u (at_attemptRef x) a \<and> P a) (attempts d) = Some y \<Longrightarrow> Q y"
  shows "Q x"
proof -
  let ?p = "\<lambda>a. is_attempt u (at_attemptRef x) a \<and> P a"
  have "find ?p (attempts d) \<noteq> None" using assms(2-4) by (auto simp: find_None_iff' is_attempt_def)
  then obtain y where y: "find ?p (attempts d) = Some y" by blast
  have "attempt_key x = attempt_key y" using find_Some_pred[OF y] assms(3) by (simp add: is_attempt_def attempt_key_def)
  then have "x = y" using assms(1,2) by (intro found_attempt_unique[OF _ _ y]) (simp_all add: attempt_rows_def)
  then show ?thesis using assms(5)[OF y] by simp
qed

lemma stages_inv_moves:
  assumes "stages_inv d" and "list_all2 attempt_moves (attempts d) (attempts d')"
    and "list_all2 stage_moves (stages d) (stages d')" and "quarantine d' = quarantine d"
  shows "stages_inv d'"
  using flight_moves[OF _ assms(2-4)] assms(1,4) by (simp add: stages_inv_def bundles_settled_def)

lemma createAttempt_flight:
  assumes "stages_inv d" and "attempt_ref_fresh e d" and "next_doc (createAttempt e subject stageRef i d) = Some d'"
  shows "stages_inv d'"
proof (rule createAttempt_commit[OF assms(3)])
  fix s
  let ?a = "new_attempt e d subject s stageRef i"
  assume s: "find (is_stage subject stageRef) (stages d) = Some s"
    and prev: "\<And>p. previous_attempt d subject s = Some p \<Longrightarrow> SETTLED_ATTEMPT (at_state p)"
    and d': "d' = d\<lparr>stages := upd_first (is_stage subject stageRef)
          (pointed_stage (ref e ''attempt'' 0) (e_stamp e 0)) (stages d), attempts := attempts d @ [?a]\<rparr>"
  have i: "flight_inv d" using assms(1) by (simp add: stages_inv_def)
  have ks: "stage_key s = (subject, stageRef)" using find_Some_pred[OF s] by (simp add: is_stage_def stage_key_def)
  show "stages_inv d'"
  proof (rule stages_inv_enqueue[OF assms(1,2) s, of d' ?a "pointed_stage (ref e ''attempt'' 0) (e_stamp e 0)"])
    fix x assume x: "x \<in> set (attempts d)" "stage_of x = stage_key s" "st_currentAttemptRef s = Some (at_attemptRef x)"
    have "at_attemptRef x \<noteq> []" using i x(1) by (simp add: flight_inv_def attempt_rows_def)
    then have "previous_attempt d subject s = find (is_attempt subject (at_attemptRef x)) (attempts d)"
      using x(3) by (simp add: previous_attempt_def)
    then show "SETTLED_ATTEMPT (at_state x)"
      using found_behind_pointer[OF i x(1), of subject "\<lambda>_. True" "\<lambda>x. SETTLED_ATTEMPT (at_state x)"] x(2) prev
      by (simp add: stage_of_def ks)
  qed (use ks in \<open>simp_all add: d' new_attempt_def queued_attempt_def Let_def stage_of_def pointed_stage_def stage_key_def\<close>)
qed

lemma rerouteStage_flight:
  assumes "stages_inv d" and "attempt_ref_fresh e d" and "next_doc (rerouteStage e subject stageRef i d) = Some d'"
  shows "stages_inv d'"
proof (rule rerouteStage_commit[OF assms(3)])
  fix s current prior
  let ?a = "rerouted_attempt e subject stageRef i s current"
  let ?p = "is_stage_attempt subject (ri_expectedAttemptRef i) stageRef"
  let ?as = "upd_first ?p (moved_attempt AStopped (e_stamp e 0)) (attempts d)"
  assume s: "find (is_stage subject stageRef) (stages d) = Some s"
    and cur: "st_currentAttemptRef s = Some (ri_expectedAttemptRef i)"
    and c: "find ?p (attempts d) = Some current" and queued: "at_state current = AQueued"
    and d': "d' = d\<lparr>stages := upd_first (is_stage subject stageRef)
          (pointed_stage (ref e ''attempt'' 0) (e_stamp e 0)) (stages d), attempts := ?as @ [?a],
        sessions := upd_first (is_attempt_session subject current) (moved_session MStopped (e_stamp e 0)) (sessions d)
          @ [rerouted_session e subject stageRef i s ?a prior]\<rparr>"
  have i: "flight_inv d" "bundles_settled d" using assms(1) by (simp_all add: stages_inv_def)
  have ref: "at_attemptRef ?a = ref e ''attempt'' 0" "stage_of ?a = (subject, stageRef)" "at_runRef ?a = st_runRef s"
    by (simp_all add: rerouted_attempt_def queued_attempt_def stage_of_def)
  have mv: "attempt_moves x (moved_attempt AStopped at x)" for x at
    by (simp add: attempt_moves_def moved_attempt_def attempt_key_def stage_of_def SETTLED_ATTEMPT_def TERMINAL_ATTEMPT_def)
  have as: "list_all2 attempt_moves (attempts d) ?as" using mv by (simp add: list_all2_upd_first stage_moves_id)
  have "flight_inv d'"
  proof (rule flight_successor[OF i(1) s, where as = ?as and a = ?a
        and g = "pointed_stage (ref e ''attempt'' 0) (e_stamp e 0)"])
    fix x assume x: "x \<in> set ?as \<union> set (concat (map qb_attempts (quarantine d)))" "stage_of x = (subject, stageRef)"
    show "SETTLED_ATTEMPT (at_state x)"
    proof (rule ccontr)
      assume u: "\<not> SETTLED_ATTEMPT (at_state x)"
      then have xin: "x \<in> set ?as" using x(1) i(2) by (auto simp: bundles_settled_def list_all_iff)
      have xa: "x \<in> set (attempts d)"
        using set_upd_firstD[OF xin] u c by (auto simp: moved_attempt_def SETTLED_ATTEMPT_def TERMINAL_ATTEMPT_def)
      then have xr: "x \<in> set (attempt_rows d)" by (simp add: attempt_rows_def)
      note p = unsettled_is_previous[OF i(1) s xr x(2) u]
      have "attempt_key x = attempt_key current"
        using p cur find_Some_pred[OF c] by (simp add: is_stage_attempt_def is_attempt_def attempt_key_def)
      then have xc: "x = current" by (rule found_attempt_unique[OF i(1) xr c])
      have ds: "distinct (map attempt_key (attempts d))" using i(1) by (simp add: flight_inv_def attempt_rows_def)
      have "moved_attempt AStopped (e_stamp e 0) current \<in> set ?as" by (rule upd_first_member[OF c])
      moreover have "distinct (map attempt_key ?as)" using ds attempt_moves_keys[OF as] by simp
      moreover have "attempt_key (moved_attempt AStopped (e_stamp e 0) current) = attempt_key x"
        using mv[of current] xc by (simp add: attempt_moves_def)
      ultimately have "moved_attempt AStopped (e_stamp e 0) current = x"
        using xin by (auto simp: distinct_map dest: inj_onD)
      then have "at_state x = AStopped" by (auto simp: moved_attempt_def)
      then show False using u by (simp add: SETTLED_ATTEMPT_def TERMINAL_ATTEMPT_def)
    qed
  qed (simp_all add: d' ref as fresh_key[OF assms(2) ref(1)] pointed_stage_def stage_key_def, simp add: ref_def)
  then show ?thesis using i(2) by (simp add: stages_inv_def bundles_settled_def d')
qed

lemma stages_inv_attempts:
  assumes "stages_inv d" and "attempts d' = upd_first p f (attempts d)" and "stages d' = stages d"
    and "quarantine d' = quarantine d" and "\<And>a. find p (attempts d) = Some a \<Longrightarrow> attempt_moves a (f a)"
  shows "stages_inv d'"
  using attempts_flight[OF _ assms(2-5)] assms(1,4) by (simp add: stages_inv_def bundles_settled_def)

lemma stages_inv_stages:
  assumes "stages_inv d" and "d' = d\<lparr>stages := upd_first p f (stages d)\<rparr>" and "\<And>s. stage_moves s (f s)"
  shows "stages_inv d'"
  using stages_flight[OF _ assms(2,3)] assms(1,2) by (simp add: stages_inv_def bundles_settled_def)

lemma other_stage_ops_flight:
  assumes "stages_inv d"
  shows "next_doc (transitionStage e subject x v st d) = Some d' \<Longrightarrow> stages_inv d'"
    and "next_doc (linkStageCard e subject x v c d) = Some d' \<Longrightarrow> stages_inv d'"
    and "next_doc (transitionAttempt e subject x v st d) = Some d' \<Longrightarrow> stages_inv d'"
    and "next_doc (createWorkerSession e subject x wi d) = Some d' \<Longrightarrow> stages_inv d'"
    and "next_doc (transitionSession e subject x v st key d) = Some d' \<Longrightarrow> stages_inv d'"
proof -
  show "next_doc (transitionStage e subject x v st d) = Some d' \<Longrightarrow> stages_inv d'"
    by (erule transitionStage_commit, erule stages_inv_stages[OF assms])
      (simp add: stage_moves_def moved_stage_def stage_key_def)
  show "next_doc (linkStageCard e subject x v c d) = Some d' \<Longrightarrow> stages_inv d'"
    by (erule linkStageCard_commit, erule stages_inv_stages[OF assms])
      (simp add: stage_moves_def linked_stage_def stage_key_def)
  show "next_doc (transitionAttempt e subject x v st d) = Some d' \<Longrightarrow> stages_inv d'"
    by (erule transitionAttempt_commit)
      (rule stages_inv_attempts[OF assms, of _ "is_attempt subject x" "moved_attempt _ (e_stamp e 0)"],
        auto intro: moved_attempt_moves)
  show "next_doc (createWorkerSession e subject x wi d) = Some d' \<Longrightarrow> stages_inv d'"
    by (erule createWorkerSession_commit)
      (rule stages_inv_attempts[OF assms, of _ "is_attempt subject x" "managed_attempt _ (e_stamp e 0)"],
        auto simp: attempt_moves_def managed_attempt_def attempt_key_def stage_of_def)
  show "next_doc (transitionSession e subject x v st key d) = Some d' \<Longrightarrow> stages_inv d'"
    by (erule transitionSession_commit)
      (use assms flight_same[of _ d] in \<open>simp add: stages_inv_def bundles_settled_def\<close>)
qed

lemma restoreRun_held:
  assumes "next_doc (restoreRun e subject runRef scope d) = Some d'"
  shows "all_held d d'" and "bundles_settled d \<Longrightarrow> bundles_settled d'"
proof -
  obtain b where b: "find (is_bundle subject runRef scope) (quarantine d) = Some b"
    and d': "d' = restore_bundle runRef (e_stamp e 0) b (unbundled subject runRef scope d)"
    by (rule restoreRun_commit[OF assms])
  have q: "quarantine d' = remove_first (is_bundle subject runRef scope) (quarantine d)"
    by (simp add: d' restore_bundle_def unbundled_def)
  show "all_held d d'"
    unfolding all_held_def by (intro conjI; rule held_restore[OF _ b q]; simp add: d' restore_bundle_def unbundled_def)
  show "bundles_settled d \<Longrightarrow> bundles_settled d'"
    by (simp add: bundles_settled_def q list_all_remove_first)
qed

lemma restore_stages_inv:
  "stages_inv d \<Longrightarrow> next_doc (restoreRun e subject runRef scope d) = Some d' \<Longrightarrow> stages_inv d'"
  unfolding stages_inv_def using restoreRun_held flight_held by blast

section \<open>Only settled attempts go into quarantine\<close>

definition run_settled :: "document \<Rightarrow> string \<Rightarrow> read_scope \<Rightarrow> string \<Rightarrow> bool" where
  "run_settled d subject scope x \<longleftrightarrow> (\<forall>r. findRun d subject x scope = Some r
     \<longrightarrow> list_all (\<lambda>a. SETTLED_ATTEMPT (at_state a)) (qb_attempts (activeBundle d (r_subject r) r)))"

lemma find_remove_other:
  "(\<And>z. p z \<Longrightarrow> \<not> q z) \<Longrightarrow> find p (remove_first q xs) = find p xs"
  by (induction xs) auto

lemma run_settled_move:
  assumes "run_settled d subject scope x" and "x \<noteq> y"
  shows "run_settled (move_run subject scope y at r d) subject scope x"
proof -
  have f: "findRun (move_run subject scope y at r d) subject x scope = findRun d subject x scope"
    using assms(2) by (simp add: findRun_def move_run_def sweep_run_def)
      (rule find_remove_other, auto simp: is_run_def)
  show ?thesis
    using assms(1) unfolding run_settled_def f
    by (auto simp: list_all_iff activeBundle_def Let_def move_run_def sweep_run_def)
qed

lemma move_runs_settled:
  assumes "move_runs e subject scope at xs d = Some (items, d')" and "distinct xs" and "bundles_settled d"
    and "\<And>x. x \<in> set xs \<Longrightarrow> run_settled d subject scope x"
  shows "bundles_settled d'"
  using assms
proof (induction xs arbitrary: d items)
  case (Cons x xs)
  obtain r items' where r: "findRun d subject x scope = Some r"
      and m: "move_runs e subject scope at xs (move_run subject scope x at r d) = Some (items', d')"
    using Cons.prems(1) by (auto split: option.splits)
  have "bundles_settled (move_run subject scope x at r d)"
    using Cons.prems(3) Cons.prems(4)[of x] r
    by (simp add: bundles_settled_def move_run_def sweep_run_def quarantined_bundle_def run_settled_def)
  then show ?case
    using Cons.prems(2,4) by (intro Cons.IH[OF m]) (auto intro: run_settled_move)
qed simp

lemma plan_bundles_found:
  "plan_bundles d subject scope xs = Inr bs \<Longrightarrow> findRun d subject x scope = Some r \<Longrightarrow> x \<in> set xs
    \<Longrightarrow> activeBundle d (r_subject r) r \<in> set bs"
  by (induction xs arbitrary: bs) (auto split: option.splits)

lemma plan_bundles_refs: "plan_bundles d subject scope xs = Inr bs \<Longrightarrow> map (\<lambda>b. r_runRef (qb_run b)) bs = xs"
  by (induction xs arbitrary: bs) (auto simp: activeBundle_def Let_def dest: findRun_runRef split: option.splits)

lemma quarantine_stages_inv:
  assumes "stages_inv d" and "next_doc (quarantineRuns e subject runRefs h scope d) = Some d'"
  shows "stages_inv d'"
proof (rule quarantineRuns_commit[OF assms(2)])
  fix p items
  assume p: "quarantinePlan e d subject runRefs (e_stamp e 0) scope = Inr p" and ok: "list_all ii_eligible (qp_items p)"
    and m: "move_runs e subject scope (e_stamp e 1) (map ii_runRef (qp_items p)) d = Some (items, d')"
  let ?xs = "sort (uniq runRefs)"
  from p obtain bs where bs: "plan_bundles d subject scope ?xs = Inr bs" and q: "qp_items p = map (plan_item_of e) bs"
    by (auto simp: quarantinePlan_def plan_of_def Let_def split: if_splits sum.splits)
  have xs: "map ii_runRef (qp_items p) = ?xs"
    using plan_bundles_refs[OF bs] by (simp add: q plan_item_of_def inventory_item.extend_def inventoryItem_def comp_def)
  have el: "bundleIsQuarantineEligible b" if "b \<in> set bs" for b
    using ok that by (auto simp: q list_all_iff plan_item_of_def inventory_item.extend_def)
  have "run_settled d subject scope x" if x: "x \<in> set ?xs" for x
    unfolding run_settled_def
  proof (intro allI impI)
    fix r assume "findRun d subject x scope = Some r"
    from el[OF plan_bundles_found[OF bs this x]]
    show "list_all (\<lambda>a. SETTLED_ATTEMPT (at_state a)) (qb_attempts (activeBundle d (r_subject r) r))"
      by (simp add: bundleIsQuarantineEligible_def)
  qed
  moreover have "distinct ?xs" by (simp add: uniq_def)
  ultimately have "bundles_settled d'"
    using move_runs_settled[OF m[unfolded xs]] assms(1) by (simp add: stages_inv_def)
  moreover have "all_held d d'" using quarantineRuns_keeps[OF assms(2)] by simp
  ultimately show ?thesis
    using flight_held[of d d'] assms(1) by (simp add: stages_inv_def)
qed

end
