(* ===== verification/IterationFacts.thy ===== *)
theory IterationFacts
  imports Iteration StageFacts
begin

text \<open>
  What each iteration operation commits, and what follows for the loops: one loop moves, by one edge of the
  machine below, its declaration as it was; every other loop is left alone.
\<close>

section \<open>What the writer commits\<close>

lemma find_by_Some: "find_by p x rows = Some y \<longleftrightarrow> (\<exists>r. x = Some r \<and> find (p r) rows = Some y)"
  by (simp add: find_by_def split: option.split)

lemma find_by_None [simp]: "find_by p None rows = None"
  by (simp add: find_by_def)

lemma find_by_given [simp]: "find_by p (Some r) rows = find (p r) rows"
  by (simp add: find_by_def)

definition context_receipt :: "document \<Rightarrow> transition_target \<Rightarrow> stored_loop \<Rightarrow> stored_receipt option" where
  "context_receipt d t l = (if target_receipt d t = None \<and> tt_gateRef t \<noteq> None then last_receipt d (tt_subject t) l
     else target_receipt d t)"

lemma transition_commit:
  assumes "next_doc (transitionIterationState e t m d) = Some d'"
  obtains l a where "target_loop d t = Some l" and "m l (context_receipt d t l) = Inr (d', a)"
    and "\<And>n. tt_loopVersion t = Some n \<Longrightarrow> il_version l = n"
    and "tt_receiptRef t \<noteq> None \<Longrightarrow> context_receipt d t l \<noteq> None"
    and "iterationError e (iterationBundleForRun d' (il_subject l) (il_runRef l)) = None"
proof -
  obtain l where l: "target_loop d t = Some l" using assms by (auto simp: transitionIterationState_def split: option.splits)
  let ?r = "context_receipt d t l"
  obtain a where "m l ?r = Inr (d', a)" "iterationError e (iterationBundleForRun d' (il_subject l) (il_runRef l)) = None"
      "\<not> (tt_receiptRef t \<noteq> None \<and> ?r = None)" "\<not> (case tt_loopVersion t of None \<Rightarrow> False | Some n \<Rightarrow> il_version l \<noteq> n)"
    using assms l unfolding transitionIterationState_def context_receipt_def[symmetric]
    by (cases "m l ?r") (auto simp: Let_def split: if_splits option.splits)
  then show thesis using that[OF l, of a] by (auto split: option.splits)
qed

lemmas target_simps = on_loop_def target_loop_def target_receipt_def target_request_def context_receipt_def

lemma is_loopD: "find (is_loop u x) ls = Some l \<Longrightarrow> il_subject l = u \<and> il_iterationLoopRef l = x"
  by (drule find_Some_pred) (simp add: is_loop_def)

lemma is_receiptD: "find (is_receipt u x) rs = Some r \<Longrightarrow> ir_subject r = u \<and> ir_receiptRef r = x"
  by (drule find_Some_pred) (simp add: is_receipt_def)

lemma is_turn_requestD: "find (is_turn_request u x) qs = Some q \<Longrightarrow> iq_subject q = u \<and> iq_requestRef q = x"
  by (drule find_Some_pred) (simp add: is_turn_request_def)

text \<open>The ways the operations name their loop: by itself, by a request or by a receipt.\<close>

lemma on_loop_commit:
  assumes "next_doc (transitionIterationState e ((on_loop u x miss c)\<lparr>tt_loopVersion := v\<rparr>) m d) = Some d'"
  obtains l a where "find (is_loop u x) (iterationLoops d) = Some l" and "m l None = Inr (d', a)"
    and "\<And>n. v = Some n \<Longrightarrow> il_version l = n"
  by (rule transition_commit[OF assms], rule that) (simp_all add: target_simps)

lemma on_loop_commit':
  assumes "next_doc (transitionIterationState e (on_loop u x miss c) m d) = Some d'"
  obtains l a where "find (is_loop u x) (iterationLoops d) = Some l" and "m l None = Inr (d', a)"
  by (rule transition_commit[OF assms], rule that) (simp_all add: target_simps)

lemma on_request_commit:
  assumes "next_doc (transitionIterationState e ((on_loop u x miss c)\<lparr>tt_requestRef := Some y, tt_loopVersion := v\<rparr>) m d) = Some d'"
    and "find (is_turn_request u y) (iterationRequests d) = Some q"
  obtains l a where "find (is_loop u (iq_iterationLoopRef q)) (iterationLoops d) = Some l" and "m l None = Inr (d', a)"
    and "\<And>n. v = Some n \<Longrightarrow> il_version l = n"
  by (rule transition_commit[OF assms(1)], rule that) (simp_all add: target_simps assms(2))

lemma on_receipt_commit:
  assumes "next_doc (transitionIterationState e ((on_loop u x miss c)\<lparr>tt_receiptRef := Some y, tt_loopVersion := v\<rparr>) m d) = Some d'"
    and "find (is_receipt u y) (iterationReceipts d) = Some r"
  obtains l a where "find (is_loop u (oc_iterationLoopRef r)) (iterationLoops d) = Some l" and "m l (Some r) = Inr (d', a)"
    and "\<And>n. v = Some n \<Longrightarrow> il_version l = n"
  by (rule transition_commit[OF assms(1)], rule that) (simp_all add: target_simps assms(2))

section \<open>Commits of the operations\<close>

text \<open>A guard on a pair of lookups, and a replay looked up first.\<close>

lemma next_doc_both [committed]:
  "next_doc (case (x, y) of (Some a, Some b) \<Rightarrow> f a b | _ \<Rightarrow> Refuse r t) = Some d
     \<longleftrightarrow> (\<exists>a b. x = Some a \<and> y = Some b \<and> next_doc (f a b) = Some d)"
  by (auto split: option.splits)

lemma next_doc_three [committed]:
  "next_doc (case (x, y, z) of (Some a, Some b, Some c) \<Rightarrow> f a b c | _ \<Rightarrow> Refuse r t) = Some d
     \<longleftrightarrow> (\<exists>a b c. x = Some a \<and> y = Some b \<and> z = Some c \<and> next_doc (f a b c) = Some d)"
  by (auto split: option.splits)

lemma next_doc_replayed [committed]:
  "next_doc (case x of Some y \<Rightarrow> if p y then Refuse r t else Replay (k y) | None \<Rightarrow> m) = Some d \<longleftrightarrow> x = None \<and> next_doc m = Some d"
  "next_doc (case s of Inl y \<Rightarrow> Refuse r' y | Inr z \<Rightarrow> h z) = Some d \<longleftrightarrow> (\<exists>z. s = Inr z \<and> next_doc (h z) = Some d)"
  by (auto split: option.splits sum.splits)

lemma recordStageGeneration_commit:
  assumes "next_doc (recordStageGeneration e u x i d) = Some d'"
  obtains s l a where "find (is_stage u x) (stages d) = Some s" and "iterationLoopForStage d s = Some l"
    and "current_attempt d u s = Some a" and "at_state a = ASucceeded" and "st_version s = gi_expectedStageVersion i"
    and "next_doc (commit_generation e u s l (active_request d u s l) a i d) = Some d'"
  using assms unfolding recordStageGeneration_def Let_def committed not_not
  by (elim exE conjE) (rule that, simp_all)

lemma commit_generation_commit:
  assumes "next_doc (commit_generation e u s l0 active a i d) = Some d'"
  obtains l q g d1 where "find (is_loop u (il_iterationLoopRef l0)) (iterationLoops d) = Some l"
    and "sg_state g = GenCommitted"
    and "d1 = store_generation q g d \<or> (\<exists>t p. produce e u l t a p g (store_generation q g d) = Inr d1)"
    and "d' = d1\<lparr>stages := upd_first (is_stage u (st_stageRef s)) (generated_stage g (e_stamp e 0)) (stages d1)\<rparr>"
proof -
  define q where "q = queued_generation d s (gi_expectedGeneration i)"
  define g where "g = committed_generation i (generation_fingerprint e (st_stageRef s) i) (e_stamp e 0)
    (case q of Some x \<Rightarrow> x | None \<Rightarrow> fresh_generation e u s a (prior_generation d u s (gi_expectedGeneration i))
       (generation_fingerprint e (st_stageRef s) i) (gi_expectedGeneration i))"
  have c: "sg_state g = GenCommitted" by (simp add: g_def committed_generation_def)
  define step where "step = (\<lambda>cur. case active of Some t \<Rightarrow>
      if producer_commit active
      then produce e u cur t a (prior_generation d u s (gi_expectedGeneration i)) g (store_generation q g d)
      else Inr (store_generation q g d) | None \<Rightarrow> Inr (store_generation q g d))"
  have "next_doc (transitionIterationState e (on_loop u (il_iterationLoopRef l0) dt_generation_no_loop dt_projection_changed)
      (\<lambda>cur _. sum_bind (step cur) (\<lambda>d1.
         Inr (d1\<lparr>stages := upd_first (is_stage u (st_stageRef s)) (generated_stage g (e_stamp e 0)) (stages d1)\<rparr>,
           publicStageGeneration g))) d) = Some d'"
    using assms unfolding commit_generation_def Let_def committed not_not q_def[symmetric] g_def[symmetric] step_def
    by (elim conjE)
  then obtain l b where l: "find (is_loop u (il_iterationLoopRef l0)) (iterationLoops d) = Some l"
      and m: "sum_bind (step l) (\<lambda>d1.
         Inr (d1\<lparr>stages := upd_first (is_stage u (st_stageRef s)) (generated_stage g (e_stamp e 0)) (stages d1)\<rparr>,
           publicStageGeneration g)) = Inr (d', b)"
    by (rule on_loop_commit')
  then obtain d1 where d1: "step l = Inr d1"
      "d' = d1\<lparr>stages := upd_first (is_stage u (st_stageRef s)) (generated_stage g (e_stamp e 0)) (stages d1)\<rparr>"
    by auto
  have "d1 = store_generation q g d \<or> (\<exists>t p. produce e u l t a p g (store_generation q g d) = Inr d1)"
    using d1(1) by (auto simp: step_def split: option.splits if_splits)
  then show thesis by (rule that[OF l c _ d1(2)])
qed

lemma reactivate_idle [committed]:
  "next_doc (if b then reactivate u l ro i d else m) = Some d' \<longleftrightarrow> \<not> b \<and> next_doc m = Some d'"
  by (simp add: reactivate_def Let_def)

lemma activate_commit:
  assumes "next_doc (activate e u l i st ro producer p d) = Some d'"
    and "find (is_loop u (il_iterationLoopRef l)) (iterationLoops d) = Some l"
  shows "il_version l = ac_expectedLoopVersion i"
    and "d' = set_loop u (il_iterationLoopRef l) (activated_loop (producer \<noteq> None) st ro (seed_refs i)
      (e_stamp e (step_if (producer \<noteq> None)))) (enqueue_producer producer p (e_stamp e (step_if (producer \<noteq> None))) d)"
  by (rule on_loop_commit[OF assms(1)[unfolded activate_def Let_def]], use assms(2) in simp)+

lemma activateIterationLoop_commit:
  assumes "next_doc (activateIterationLoop e u x i d) = Some d'"
  obtains l st ro producer p at where "find (is_loop u x) (iterationLoops d) = Some l" and "il_state l = AwaitingSeed"
    and "il_version l = ac_expectedLoopVersion i"
    and "producer = None \<or> (\<exists>s rt md. initial_producer d u l ro i = Some (s, rt, md)
      \<and> producer = Some (initial_attempt e u l s i rt md) \<and> p = is_run_stage u (il_runRef l) (st_stageId s))"
    and "producer_route ro = (producer \<noteq> None)"
    and "d' = set_loop u x (activated_loop (producer \<noteq> None) st ro (seed_refs i) at) (enqueue_producer producer p at d)"
proof -
  obtain l seed st ro where l: "find (is_loop u x) (iterationLoops d) = Some l" "il_state l = AwaitingSeed"
    and n: "next_doc (if producer_route ro
              then (case initial_producer d u l ro i of
                 None \<Rightarrow> Refuse Conflict dt_activation_routing
               | Some (s, rt, md) \<Rightarrow>
                   activate e u l i st ro (Some (initial_attempt e u l s i rt md))
                     (is_run_stage u (il_runRef l) (st_stageId s)) d)
              else activate e u l i st ro None (\<lambda>_. False) d) = Some d'"
    using assms unfolding activateIterationLoop_def Let_def committed not_not by (elim exE conjE) (rule that)
  have x: "find (is_loop u (il_iterationLoopRef l)) (iterationLoops d) = Some l" "x = il_iterationLoopRef l"
    using l(1) is_loopD[OF l(1)] by simp_all
  show thesis
  proof (cases "producer_route ro")
    case True
    then obtain s rt md where p: "initial_producer d u l ro i = Some (s, rt, md)"
      and c: "next_doc (activate e u l i st ro (Some (initial_attempt e u l s i rt md))
                     (is_run_stage u (il_runRef l) (st_stageId s)) d) = Some d'"
      using n by (auto split: option.splits)
    show thesis by (rule that[OF l activate_commit(1)[OF c x(1)] _ _ activate_commit(2)[OF c x(1), folded x(2)]])
        (use p True in auto)
  next
    case False
    then have c: "next_doc (activate e u l i st ro None (\<lambda>_. False) d) = Some d'" using n by simp
    show thesis by (rule that[OF l activate_commit(1)[OF c x(1)] _ _ activate_commit(2)[OF c x(1), folded x(2)]])
        (use False in auto)
  qed
qed

lemma recordIterationRequest_commit:
  assumes "next_doc (recordIterationRequest e u x i d) = Some d'"
  obtains l st ro entry a where "find (is_loop u x) (iterationLoops d) = Some l"
    and "find (\<lambda>q. iq_subject q = u \<and> iq_operationKey q = tu_operationKey i) (iterationRequests d) = None"
    and "entry = (il_state l = ReworkQueued \<and> ARTIFACT_PRODUCING_REQUEST_KINDS (tu_kind i))"
    and "il_state l = AwaitingTurn \<or> entry" and "il_version l = tu_expectedLoopVersion i"
    and "ro_routeId ro = tu_routeId i" and "il_turnOwnerParticipantId l = Some (ro_recipientParticipantId ro)"
    and "\<not> hasBlockingIterationRequest d l"
    and "list_all (\<lambda>r. is_committed (find (is_generation u (il_runRef l) r) (stageGenerations d))) (tu_inputGenerationRefs i)"
    and "turn_cycle d u l st \<le> il_maxCycles l"
    and "start_turn e u (new_turn e u l st ro i (turn_cycle d u l st)) entry i d l = Inr (d', a)"
proof -
  obtain l st ro where l: "find (is_loop u x) (iterationLoops d) = Some l"
    and k: "find (\<lambda>q. iq_subject q = u \<and> iq_operationKey q = tu_operationKey i) (iterationRequests d) = None"
    and g: "\<not> ((il_state l \<noteq> AwaitingTurn \<and> \<not> (il_state l = ReworkQueued \<and> ARTIFACT_PRODUCING_REQUEST_KINDS (tu_kind i)))
        \<or> ro_routeId ro \<noteq> tu_routeId i \<or> Some (ro_recipientParticipantId ro) \<noteq> il_turnOwnerParticipantId l
        \<or> turn_kind_str (tu_kind i) \<notin> set (ro_requestKinds ro))"
    and b: "\<not> hasBlockingIterationRequest d l"
    and li: "\<not> (\<not> list_all (\<lambda>r. is_committed (find (is_generation u (il_runRef l) r) (stageGenerations d)))
                  (tu_inputGenerationRefs i)
                \<or> (il_state l = ReworkQueued \<and> ARTIFACT_PRODUCING_REQUEST_KINDS (tu_kind i))
                  \<and> \<not> producer_entry_ok d u (participant_stage d u l (ro_recipientParticipantId ro))
                \<or> js_join [nul] (sort (map fst (tu_artifactHashes i))) \<noteq> js_join [nul] (sort (il_artifacts l)))"
    and c: "\<not> turn_cycle d u l st > il_maxCycles l"
    and n: "next_doc (transitionIterationState e
                  ((on_loop u x dt_loop_not_found dt_turn_owner)\<lparr>tt_loopVersion := Some (tu_expectedLoopVersion i)\<rparr>)
                  (\<lambda>cur _. start_turn e u (new_turn e u l st ro i (turn_cycle d u l st))
                     (il_state l = ReworkQueued \<and> ARTIFACT_PRODUCING_REQUEST_KINDS (tu_kind i)) i d cur) d) = Some d'"
    using assms unfolding recordIterationRequest_def Let_def committed by (elim exE conjE) (rule that)
  show thesis
    by (rule on_loop_commit[OF n], rule that[OF l k refl]) (use l g b li c in auto)
qed

lemma recordIterationReceipt_commit:
  assumes "next_doc (recordIterationReceipt e u x i d) = Some d'"
  obtains l q oc gated a where "find (is_loop u x) (iterationLoops d) = Some l"
    and "find (is_turn_request u (rc_requestRef i)) (iterationRequests d) = Some q"
    and "parseIterationOutcome e (rc_outcome i) l q [] = Inr oc"
    and "\<not> list_ex (\<lambda>r. ir_subject r = u \<and> oc_requestRef r = iq_requestRef q) (iterationReceipts d)"
    and "receipt_lineage_ok d u l q (oc_verdict oc = ''fulfilled'') i" and "il_version l = rc_expectedLoopVersion i"
    and "gated = ((is_terminal l oc \<and> il_completionGate l \<noteq> None) \<or> oc_verdict oc = ''parked'')"
    and "settle_turn e u q oc (if gated then Some (receipt_gate e d u l i oc) else None)
      (new_receipt e u l q i oc (step_if gated)) d l = Inr (d', a)"
proof -
  obtain l q oc where q: "find (is_turn_request u (rc_requestRef i)) (iterationRequests d) = Some q"
    and l: "find (is_loop u x) (iterationLoops d) = Some l" and ql: "iq_iterationLoopRef q = il_iterationLoopRef l"
    and p: "parseIterationOutcome e (rc_outcome i) l q [] = Inr oc"
    and once: "\<not> list_ex (\<lambda>r. ir_subject r = u \<and> oc_requestRef r = iq_requestRef q) (iterationReceipts d)"
    and ok: "receipt_lineage_ok d u l q (oc_verdict oc = ''fulfilled'') i"
    and n: "next_doc (transitionIterationState e
        ((on_loop u x dt_turn_not_found dt_receipt_lineage)
          \<lparr>tt_requestRef := Some (iq_requestRef q), tt_loopVersion := Some (rc_expectedLoopVersion i)\<rparr>)
        (\<lambda>cur _. settle_turn e u q oc (if (is_terminal l oc \<and> il_completionGate l \<noteq> None) \<or> oc_verdict oc = ''parked''
             then Some (receipt_gate e d u l i oc) else None)
           (new_receipt e u l q i oc (step_if ((is_terminal l oc \<and> il_completionGate l \<noteq> None)
              \<or> oc_verdict oc = ''parked''))) d cur) d) = Some d'"
    using assms unfolding recordIterationReceipt_def Let_def committed not_not by (elim exE conjE) (rule that)
  have "find (is_turn_request u (iq_requestRef q)) (iterationRequests d) = Some q" using q is_turn_requestD[OF q] by simp
  moreover have "iq_iterationLoopRef q = x" using ql is_loopD[OF l] by simp
  ultimately show thesis
    by (elim on_request_commit[OF n]) (rule that[OF l q p once ok], use l in auto)
qed

lemma next_producer_attempt:
  assumes "next_producer e d u l s r i = Inr a"
  shows "at_attemptRef a = ref e ''attempt'' 0" "stage_of a = (u, st_stageRef s)" "at_runRef a = il_runRef l"
    "at_state a = AQueued"
    and "\<And>y. find_by (\<lambda>x a. is_attempt u x a \<and> at_runRef a = il_runRef l) (st_currentAttemptRef s) (attempts d) = Some y
      \<Longrightarrow> SETTLED_ATTEMPT (at_state y)"
  using assms by (auto simp: next_producer_def Let_def loop_attempt_def queued_attempt_def stage_of_def SETTLED_ATTEMPT_def
      split: if_splits option.splits)

lemma advanceIterationTurn_commit:
  assumes "next_doc (advanceIterationTurn e u x i d) = Some d'"
  obtains l r st ro s producer where "find (is_loop u x) (iterationLoops d) = Some l"
    and "find (is_receipt u (av_expectedReceiptRef i)) (iterationReceipts d) = Some r"
    and "il_state l = LoopFailed" and "il_lastReceiptRef l = Some (ir_receiptRef r)"
    and "\<not> hasBlockingIterationRequest d l" and "next_cycle st r \<le> il_maxCycles l" and "il_version l = av_expectedLoopVersion i"
    and "participant_stage d u l (ro_recipientParticipantId ro) = Some s"
    and "\<And>a. producer = Some a \<Longrightarrow> next_producer e d u l s r i = Inr a" and "producer_route ro = (producer \<noteq> None)"
    and "d' = set_loop u x (advanced_loop (producer \<noteq> None) st ro (av_operationKey i) (advance_fingerprint e x i)
        (e_stamp e (step_if (producer \<noteq> None))))
      (enqueue_producer producer (is_run_stage u (il_runRef l) (st_stageId s)) (e_stamp e 0) d)"
proof -
  obtain l r st ro s where l: "find (is_loop u x) (iterationLoops d) = Some l"
    and r: "find (is_receipt u (av_expectedReceiptRef i)) (iterationReceipts d) = Some r"
    and lr: "\<not> oc_iterationLoopRef r \<noteq> il_iterationLoopRef l"
    and s: "participant_stage d u l (ro_recipientParticipantId ro) = Some s"
    and n: "next_doc (if il_advanceOperationKey l = Some (av_operationKey i)
                  then (if il_advanceOperationFingerprint l \<noteq> Some (advance_fingerprint e x i)
                        then Refuse IdempotencyConflict dt_advance_reused
                        else if advance_replay_ok d u l s r st ro i then Replay (publicIterationLoop l)
                        else Refuse Conflict dt_advance_replay)
                  else if il_state l \<noteq> LoopFailed \<or> il_lastReceiptRef l \<noteq> Some (ir_receiptRef r)
                    \<or> \<not> same_refs (il_activeGenerationRefs l) (av_expectedActiveGenerationRefs i)
                  then Refuse Conflict dt_advance_lineage
                  else if hasBlockingIterationRequest d l then Refuse Ineligible dt_turn_blocked
                  else if next_cycle st r > il_maxCycles l then Refuse Ineligible dt_cycle_bound
                  else if producer_route ro
                  then (case next_producer e d u l s r i of
                      Inl (x, t) \<Rightarrow> Refuse x t
                    | Inr a \<Rightarrow> advance e u l r st ro s (Some a) i d)
                  else advance e u l r st ro s None i d) = Some d'"
    using assms unfolding advanceIterationTurn_def Let_def committed by (elim exE conjE) (rule that)
  have g: "il_state l = LoopFailed" "il_lastReceiptRef l = Some (ir_receiptRef r)"
      "\<not> hasBlockingIterationRequest d l" "next_cycle st r \<le> il_maxCycles l"
    and n': "next_doc (if producer_route ro
                  then (case next_producer e d u l s r i of
                      Inl (x, t) \<Rightarrow> Refuse x t
                    | Inr a \<Rightarrow> advance e u l r st ro s (Some a) i d)
                  else advance e u l r st ro s None i d) = Some d'"
    using n by (simp_all split: if_split_asm)
  obtain producer where p: "\<And>a. producer = Some a \<Longrightarrow> next_producer e d u l s r i = Inr a" "producer_route ro = (producer \<noteq> None)"
    and c: "next_doc (advance e u l r st ro s producer i d) = Some d'"
  proof (cases "producer_route ro")
    case True
    then obtain a where "next_producer e d u l s r i = Inr a" "next_doc (advance e u l r st ro s (Some a) i d) = Some d'"
      using n' by (auto split: sum.splits prod.splits)
    then show thesis using that[of "Some a"] True by simp
  next
    case False
    then show thesis using that[of None] n' by simp
  qed
  have x: "x = il_iterationLoopRef l" using is_loopD[OF l] by simp
  have rr: "find (is_receipt u (ir_receiptRef r)) (iterationReceipts d) = Some r" using r is_receiptD[OF r] by simp
  show thesis
    by (rule on_receipt_commit[OF c[unfolded advance_def Let_def] rr], rule that[OF l r g _ s p])
      (use l lr x in auto)
qed

text \<open>
  A park after a receipt acts on the loop of the receipt, one without on the loop of the request it names:
  \<open>cur\<close> below, which the code does not compare with the loop it was asked to park.
\<close>

lemma parkIterationLoop_commit:
  assumes "next_doc (parkIterationLoop e u x i d) = Some d'"
  obtains l r q linked residue g cur r' a where "find (is_loop u x) (iterationLoops d) = Some l"
    and "find_by (is_turn_request u) (park_turn i r) (iterationRequests d) = Some q"
    and "r = find_by (is_receipt u) (pk_expectedReceiptRef i) (iterationReceipts d)"
    and "park_lineage_ok i l q r"
    and "\<not> no_progress i \<Longrightarrow> map_option oc_iterationLoopRef r = Some x"
    and "no_progress i \<Longrightarrow> pk_expectedReceiptRef i = None"
    and "hq_response g = None" and "hq_open g"
    and "settle_park e u i q linked residue g d cur r' = Inr (d', a)" and "il_version cur = pk_expectedLoopVersion i"
    and "find (is_loop u (if no_progress i then iq_iterationLoopRef q else x)) (iterationLoops d) = Some cur"
proof -
  define r where "r = find_by (is_receipt u) (pk_expectedReceiptRef i) (iterationReceipts d)"
  obtain l q where v: "\<not> park_invalid x i" and l: "find (is_loop u x) (iterationLoops d) = Some l"
    and lr: "\<not> (\<not> no_progress i \<and> map_option oc_iterationLoopRef r \<noteq> Some (il_iterationLoopRef l))"
    and q: "find_by (is_turn_request u) (park_turn i r) (iterationRequests d) = Some q" and ok: "park_lineage_ok i l q r"
    and n: "next_doc (park e u x i l q r (first_some r (if no_progress i then last_receipt d u l else None)) d) = Some d'"
    using assms unfolding parkIterationLoop_def Let_def committed r_def[symmetric] not_not by (elim exE conjE) (rule that)
  have xl: "il_iterationLoopRef l = x" using is_loopD[OF l] by simp
  obtain y where "park_outcome e i l q = Inr y" using n by (cases "park_outcome e i l q") (simp_all add: park_def)
  note n = n[unfolded park_def this Let_def sum.case]
  have g: "hq_response (park_gate e d u x l i p t) = None" "hq_open (park_gate e d u x l i p t)" for p t
    by (simp_all add: park_gate_def open_gate_def)
  show thesis
  proof (cases "no_progress i")
    case True
    then have rq: "pk_expectedReceiptRef i = None" using v by (auto simp: park_invalid_def)
    have t: "park_turn i r = Some (iq_requestRef q)" using q is_turn_requestD by (auto simp: find_by_Some)
    have q': "find (is_turn_request u (iq_requestRef q)) (iterationRequests d) = Some q" using q t by simp
    show thesis
      by (rule transition_commit[OF n[unfolded if_P[OF True]]], rule that[OF l q r_def ok _ _ g])
        (use True rq q' in \<open>simp_all add: target_simps\<close>)
  next
    case False
    then obtain y where y: "r = Some y" "oc_iterationLoopRef y = x" using lr xl by auto
    have y': "find (is_receipt u (ir_receiptRef y)) (iterationReceipts d) = Some y"
      using y(1) is_receiptD by (auto simp: r_def find_by_Some)
    show thesis
      by (rule transition_commit[OF n[unfolded if_not_P[OF False] y(1) option.map]], rule that[OF l q r_def ok _ _ g])
        (use False y y' in \<open>simp_all add: target_simps\<close>)
  qed
qed

lemma resolveIterationGate_commit:
  assumes "next_doc (resolveIterationGate e u x i sc d) = Some d'"
  obtains g l cur intervention a where "findHumanRequest d u x sc = Some g"
    and "find (gate_loop (hq_subject g) x) (iterationLoops d) = Some l" and "hq_response g = None"
    and "\<not> gate_changed g l (last_receipt d (hq_subject g) l) i"
    and "find (is_loop (hq_subject g) (il_iterationLoopRef l)) (iterationLoops d) = Some cur"
    and "il_version cur = gt_expectedLoopVersion i"
    and "\<And>y. intervention = Some y \<Longrightarrow> hq_response y = None \<and> hq_open y"
    and "settle_gate e u (hq_subject g) sc x i g intervention d cur (last_receipt d (hq_subject g) cur) = Inr (d', a)"
proof -
  obtain g l where g: "findHumanRequest d u x sc = Some g" and l: "find (gate_loop (hq_subject g) x) (iterationLoops d) = Some l"
    and n: "next_doc (case hq_response g of
            Some a \<Rightarrow> replay_gate e x i g a l (last_receipt d (hq_subject g) l) d
          | None \<Rightarrow>
            if gate_changed g l (last_receipt d (hq_subject g) l) i then Refuse Conflict dt_gate_changed
            else let rejects = (\<not> hq_iterationPark g \<and> gt_decision i \<noteq> ''approved'') in
              if rejects \<and> last_receipt d (hq_subject g) l = None then Refuse Conflict dt_gate_receipt
              else if rejects \<and> request_count d (hq_subject g) (il_runRef l) \<ge> MAX_HUMAN_REQUESTS_PER_RUN
              then Refuse Limit dt_request_limit
              else transitionIterationState e
                ((on_loop (hq_subject g) (il_iterationLoopRef l) dt_gate_linkage dt_gate_changed)
                  \<lparr>tt_gateRef := Some x, tt_loopVersion := Some (gt_expectedLoopVersion i),
                   tt_receiptVersion := Some (gt_expectedReceiptVersion i)\<rparr>)
                (settle_gate e u (hq_subject g) sc x i g
                  (case last_receipt d (hq_subject g) l of
                     Some y \<Rightarrow> if rejects then Some (gate_intervention e (hq_subject g) x l g y i) else None
                   | None \<Rightarrow> None) d) d) = Some d'"
    using assms unfolding resolveIterationGate_def committed Let_def[where s = "hq_subject g" for g]
      Let_def[where s = "last_receipt d u l" for u l] by (elim exE conjE) (rule that)
  have r: "hq_response g = None" using n by (auto simp: replay_gate_def split: option.splits if_splits)
  define intervention where "intervention = (case last_receipt d (hq_subject g) l of
      Some y \<Rightarrow> if \<not> hq_iterationPark g \<and> gt_decision i \<noteq> ''approved''
        then Some (gate_intervention e (hq_subject g) x l g y i) else None | None \<Rightarrow> None)"
  have c: "\<not> gate_changed g l (last_receipt d (hq_subject g) l) i"
    and t: "next_doc (transitionIterationState e
                ((on_loop (hq_subject g) (il_iterationLoopRef l) dt_gate_linkage dt_gate_changed)
                  \<lparr>tt_gateRef := Some x, tt_loopVersion := Some (gt_expectedLoopVersion i),
                   tt_receiptVersion := Some (gt_expectedReceiptVersion i)\<rparr>)
                (settle_gate e u (hq_subject g) sc x i g intervention d) d) = Some d'"
    using n unfolding r option.case Let_def committed intervention_def[symmetric] by blast+
  have o: "hq_response y = None \<and> hq_open y" if "intervention = Some y" for y
    using that by (auto simp: intervention_def gate_intervention_def open_gate_def split: option.splits if_splits)
  show thesis
    by (rule transition_commit[OF t], rule that[OF g l r c _ _ o]) (simp_all add: target_simps)
qed

section \<open>The machine of a loop\<close>

text \<open>The states a loop moves between; \<open>Passed\<close>, \<open>Declined\<close> and \<open>Parked\<close> have no way out.\<close>

fun loop_edge :: "loop_state \<Rightarrow> loop_state \<Rightarrow> bool" where
  "loop_edge AwaitingSeed t \<longleftrightarrow> t \<in> {AwaitingTurn, ReworkQueued}"
| "loop_edge AwaitingTurn t \<longleftrightarrow> t = RunningTurn"
| "loop_edge ReworkQueued t \<longleftrightarrow> t = RunningTurn"
| "loop_edge RunningTurn t \<longleftrightarrow> t \<in> {LoopFailed, AwaitingCompletionGate, AwaitingParkGate, Passed}"
| "loop_edge LoopFailed t \<longleftrightarrow> t \<in> {AwaitingTurn, ReworkQueued, AwaitingParkGate}"
| "loop_edge AwaitingCompletionGate t \<longleftrightarrow> t \<in> {Passed, Parked}"
| "loop_edge AwaitingParkGate t \<longleftrightarrow> t \<in> {Passed, Declined}"
| "loop_edge s t \<longleftrightarrow> False"

text \<open>What the launch declared of a loop: the row without the members a turn writes.\<close>

definition declared :: "stored_loop \<Rightarrow> stored_loop" where
  "declared l = l\<lparr>il_cyclesUsed := 0, il_state := AwaitingSeed, il_turnOwnerParticipantId := None, il_currentStepId := None,
     il_activeGenerationRefs := [], il_acceptedGenerationRefs := None, il_lastReceiptRef := None,
     il_completionGateRef := None, il_interventionRef := None, il_parkReason := None, il_unresolvedResidue := None,
     il_version := 0, il_updatedAt := [], il_advanceOperationKey := None, il_advanceOperationFingerprint := None\<rparr>"

definition loop_path :: "stored_loop \<Rightarrow> stored_loop \<Rightarrow> bool" where
  "loop_path l l' \<longleftrightarrow> declared l' = declared l \<and> loop_edge\<^sup>*\<^sup>* (il_state l) (il_state l') \<and> (l' = l \<or> il_version l < il_version l')"

lemma loop_path_refl [simp]: "loop_path l l"
  by (simp add: loop_path_def)

lemma loop_path_trans: "loop_path a b \<Longrightarrow> loop_path b c \<Longrightarrow> loop_path a c"
  by (auto simp: loop_path_def)

lemma loop_path_edge:
  "declared l' = declared l \<Longrightarrow> loop_edge (il_state l) (il_state l') \<Longrightarrow> il_version l' = il_version l + 1 \<Longrightarrow> loop_path l l'"
  by (auto simp: loop_path_def)

definition loop_key :: "stored_loop \<Rightarrow> string \<times> string" where
  "loop_key l = (il_subject l, il_iterationLoopRef l)"

lemma declared_key: "declared l' = declared l \<Longrightarrow> loop_key l' = loop_key l"
proof -
  have "loop_key (declared k) = loop_key k" for k by (simp add: loop_key_def declared_def)
  then show "declared l' = declared l \<Longrightarrow> loop_key l' = loop_key l" by metis
qed

definition loop_rows :: "document \<Rightarrow> stored_loop list" where
  "loop_rows d = iterationLoops d @ concat (map qb_iterationLoops (quarantine d))"

definition loops_inv :: "document \<Rightarrow> bool" where
  "loops_inv d \<longleftrightarrow> distinct (map loop_key (loop_rows d))"

interpretation loops_inv: store_invariant loops_inv
  by unfold_locales (simp add: loops_inv_def loop_rows_def)

definition loops_step :: "document \<Rightarrow> document \<Rightarrow> bool" where
  "loops_step d d' \<longleftrightarrow> (loops_inv d \<longrightarrow> loops_inv d'
     \<and> (\<forall>l\<in>set (loop_rows d). \<exists>l'\<in>set (loop_rows d'). loop_path l l'))"

lemma loops_step_same: "iterationLoops d' = iterationLoops d \<Longrightarrow> quarantine d' = quarantine d \<Longrightarrow> loops_step d d'"
  by (auto simp: loops_step_def loops_inv_def loop_rows_def intro!: bexI[where x = l for l])

lemma loops_step_trans:
  assumes "loops_step a b" and "loops_step b c"
  shows "loops_step a c"
  unfolding loops_step_def
proof (intro impI conjI ballI)
  assume i: "loops_inv a"
  then have b: "loops_inv b" using assms(1) by (simp add: loops_step_def)
  then show "loops_inv c" using assms(2) by (simp add: loops_step_def)
  fix l assume "l \<in> set (loop_rows a)"
  then obtain m where m: "m \<in> set (loop_rows b)" "loop_path l m" using assms(1) i by (auto simp: loops_step_def)
  then obtain n where "n \<in> set (loop_rows c)" "loop_path m n" using assms(2) b by (auto simp: loops_step_def)
  then show "\<exists>l'\<in>set (loop_rows c). loop_path l l'" using loop_path_trans[OF m(2)] by blast
qed

lemma loops_step_held:
  assumes "held iterationLoops qb_iterationLoops d' = held iterationLoops qb_iterationLoops d"
  shows "loops_step d d'"
proof -
  have m: "mset (loop_rows d') = mset (loop_rows d)" using assms by (simp add: held_def loop_rows_def)
  then have "mset (map loop_key (loop_rows d')) = mset (map loop_key (loop_rows d))" by simp
  then have "loops_inv d' = loops_inv d" using mset_eq_imp_distinct_iff unfolding loops_inv_def by blast
  then show ?thesis using mset_eq_setD[OF m] by (auto simp: loops_step_def intro!: bexI[where x = l for l])
qed

lemma loops_step_one:
  assumes "find p (iterationLoops d) = Some l" and "iterationLoops d' = upd_first p f (iterationLoops d)"
    and "quarantine d' = quarantine d" and "loop_path l (f l)"
  shows "loops_step d d'"
proof -
  obtain as bs where s: "iterationLoops d = as @ l # bs" "iterationLoops d' = as @ f l # bs"
    using assms(1,2) by (metis upd_first_split)
  have "loop_key (f l) = loop_key l" using assms(4) declared_key[of "f l" l] by (simp add: loop_path_def)
  then have "map loop_key (loop_rows d') = map loop_key (loop_rows d)" by (simp add: loop_rows_def s assms(3))
  then have "loops_inv d' = loops_inv d" by (simp only: loops_inv_def)
  moreover have "\<exists>l'\<in>set (loop_rows d'). loop_path k l'" if "k \<in> set (loop_rows d)" for k
    using that assms(4) by (cases "k = l") (auto simp: loop_rows_def s assms(3) intro: loop_path_refl)
  ultimately show ?thesis by (simp add: loops_step_def)
qed

text \<open>The row a key names is the one the document holds.\<close>

lemma loop_found:
  assumes "loops_inv d" and "l \<in> set (iterationLoops d)" and "find (is_loop (il_subject l) (il_iterationLoopRef l)) (iterationLoops d) = Some k"
  shows "k = l"
proof -
  have "inj_on loop_key (set (iterationLoops d))" using assms(1) by (simp add: loops_inv_def loop_rows_def distinct_map)
  moreover have "loop_key k = loop_key l" using is_loopD[OF assms(3)] by (simp add: loop_key_def)
  ultimately show ?thesis using assms(2) find_Some_in[OF assms(3)] by (auto dest: inj_onD)
qed

section \<open>What an operation leaves alone\<close>

definition ledger :: "stored_session \<Rightarrow> broker_receipt list \<times> steering_instruction list" where
  "ledger m = (ms_brokerReceipts m, ms_brokerSteering m)"

definition turn_frame :: "document \<Rightarrow> document \<Rightarrow> bool" where
  "turn_frame d d' \<longleftrightarrow> runs d' = runs d \<and> events d' = events d \<and> nextEventCursor d' = nextEventCursor d
     \<and> quarantine d' = quarantine d \<and> proposals d' = proposals d \<and> deployments d' = deployments d
     \<and> assetPullIntents d' = assetPullIntents d \<and> placementLeases d' = placementLeases d
     \<and> map ledger (sessions d') = map ledger (sessions d)"

definition asks_kept :: "document \<Rightarrow> document \<Rightarrow> bool" where
  "asks_kept d d' \<longleftrightarrow> (requests_inv d \<longrightarrow> asks_step d d')"

lemma asks_kept_same: "humanRequests d' = humanRequests d \<Longrightarrow> quarantine d' = quarantine d \<Longrightarrow> asks_kept d d'"
  by (auto simp: asks_kept_def asks_step_def requests_inv_def rows_kept_list_all2)

lemma asks_kept_append:
  assumes "humanRequests d' = humanRequests d @ qs" and "quarantine d' = quarantine d"
    and "\<And>q. q \<in> set qs \<Longrightarrow> hq_response q = None \<and> hq_open q"
  shows "asks_kept d d'"
  unfolding asks_kept_def using assms by (auto intro!: asks_step_append simp: list_all_iff request_closed_def)

definition turn_step :: "document \<Rightarrow> document \<Rightarrow> bool" where
  "turn_step d d' \<longleftrightarrow> turn_frame d d' \<and> asks_kept d d' \<and> (stages_inv d \<longrightarrow> stages_inv d') \<and> loops_step d d'"

lemmas turn_step_defs = turn_step_def turn_frame_def

lemma stage_rows_moved:
  assumes "\<And>s. stage_moves s (f s)"
  shows "list_all2 stage_moves ss (upd_first p f ss)"
  by (rule list_all2_upd_first) (simp_all add: assms stage_moves_id)

text \<open>An operation that moves stages and leaves the attempts.\<close>

lemma stages_only:
  assumes "list_all2 stage_moves (stages d) (stages d')" and "attempts d' = attempts d" and "quarantine d' = quarantine d"
  shows "stages_inv d \<longrightarrow> stages_inv d'"
  using stages_inv_moves[of d d'] assms by (simp add: moves_refl)

lemmas stage_edits = stage_moves_def stage_key_def generated_stage_def readied_stage_def decided_stage_def

section \<open>The generation, the activation, the request\<close>

lemma loop_path_touched:
  "declared (f l) = declared l \<Longrightarrow> il_state (f l) = il_state l \<Longrightarrow> il_version (f l) = il_version l \<Longrightarrow> loop_path l (touched_loop at (f l))"
  by (simp add: loop_path_def touched_loop_def) (simp add: declared_def)

lemma produce_rows:
  assumes "produce e u l t a p g d = Inr d1"
  obtains f where "iterationLoops d1 = upd_first (is_loop u (il_iterationLoopRef l)) f (iterationLoops d)"
    and "\<And>l. loop_path l (f l)"
    and "d1 = d\<lparr>iterationLoops := iterationLoops d1, generationSupersessions := generationSupersessions d1\<rparr>"
proof -
  have r: "loop_path l (touched_loop at (l\<lparr>il_activeGenerationRefs := rs\<rparr>))" for l at rs
    by (rule loop_path_touched) (simp_all add: declared_def)
  obtain rs where d1: "iterationLoops d1 = upd_first (is_loop u (il_iterationLoopRef l))
      (\<lambda>l. touched_loop (e_stamp e 0) (l\<lparr>il_activeGenerationRefs := rs l\<rparr>)) (iterationLoops d)"
      "d1 = d\<lparr>iterationLoops := iterationLoops d1, generationSupersessions := generationSupersessions d1\<rparr>"
    using assms by (cases p) (auto simp: produce_def set_loop_def split: if_split_asm option.splits)
  show thesis by (rule that[OF d1(1) r d1(2)])
qed

lemma recordStageGeneration_step:
  assumes "next_doc (recordStageGeneration e u x i d) = Some d'"
  shows "turn_step d d'"
proof (rule recordStageGeneration_commit[OF assms], erule commit_generation_commit)
  fix s l0 a l q g d1
  let ?d = "store_generation q g d"
  assume d1: "d1 = ?d \<or> (\<exists>t p. produce e u l t a p g ?d = Inr d1)"
    and l: "find (is_loop u (il_iterationLoopRef l0)) (iterationLoops d) = Some l"
    and d': "d' = d1\<lparr>stages := upd_first (is_stage u (st_stageRef s)) (generated_stage g (e_stamp e 0)) (stages d1)\<rparr>"
  have l': "find (is_loop u (il_iterationLoopRef l)) (iterationLoops d) = Some l" using l is_loopD[OF l] by simp
  have s: "iterationLoops ?d = iterationLoops d" by (simp add: store_generation_def)
  obtain f where f: "iterationLoops d1 = upd_first (is_loop u (il_iterationLoopRef l)) f (iterationLoops d)"
    and p: "\<And>l. loop_path l (f l)"
    and f1: "d1 = ?d\<lparr>iterationLoops := iterationLoops d1, generationSupersessions := generationSupersessions d1\<rparr>"
  proof (cases "d1 = ?d")
    case True
    then show thesis by (intro that[of "\<lambda>l. l"]) (simp_all add: upd_first_id s)
  next
    case False
    then show thesis using d1 s by (auto elim!: produce_rows intro: that)
  qed
  have r: "stages d1 = stages d" "attempts d1 = attempts d" "quarantine d1 = quarantine d" "humanRequests d1 = humanRequests d"
    "turn_frame d d1" by (subst f1, simp add: store_generation_def turn_frame_def)+
  have "turn_frame d d'" using r(5) by (simp add: d' turn_frame_def)
  moreover have "list_all2 stage_moves (stages d) (stages d')"
    by (simp add: d' r(1)) (rule stage_rows_moved, simp add: stage_edits)
  moreover have "loops_step d d'" by (rule loops_step_one[OF l', of d' f]) (simp_all add: d' r f p)
  ultimately show "turn_step d d'"
    by (simp add: turn_step_def asks_kept_same stages_only d' r)
qed

text \<open>A producer is queued behind a pointer whose attempt is settled.\<close>

lemma enqueue_producer_rows:
  "enqueue_producer x p at d = d\<lparr>attempts := attempts (enqueue_producer x p at d), stages := stages (enqueue_producer x p at d)\<rparr>"
  by (simp add: enqueue_producer_def split: option.split)

lemma fenced_simps: "stage_key (fenced_stage r at s) = stage_key s" "st_runRef (fenced_stage r at s) = st_runRef s"
  "st_currentAttemptRef (fenced_stage r at s) = Some r"
  by (simp_all add: fenced_stage_def stage_key_def)

lemma participant_stageD:
  assumes "participant_stage d u l x = Some s"
  shows "find (is_run_stage u (il_runRef l) (st_stageId s)) (stages d) = Some s"
    and "st_subject s = u" and "st_runRef s = il_runRef l"
proof -
  obtain i where f: "find (is_run_stage u (il_runRef l) i) (stages d) = Some s"
    using assms by (auto simp: participant_stage_def find_by_Some)
  have "is_run_stage u (il_runRef l) i s" by (rule find_Some_pred[OF f])
  then show "find (is_run_stage u (il_runRef l) (st_stageId s)) (stages d) = Some s"
      "st_subject s = u" "st_runRef s = il_runRef l" using f by (auto simp: is_run_stage_def stage_row_def)
qed

lemma enqueue_producer_stages:
  assumes "stages_inv d" and "attempt_ref_fresh e d" and f: "find p (stages d) = Some s"
    and a: "at_attemptRef a = ref e ''attempt'' 0" "stage_of a = stage_key s" "at_runRef a = st_runRef s"
    and prev: "\<And>x. x \<in> set (attempts d) \<Longrightarrow> at_subject x = st_subject s \<Longrightarrow> at_runRef x = st_runRef s
      \<Longrightarrow> st_currentAttemptRef s = Some (at_attemptRef x) \<Longrightarrow> SETTLED_ATTEMPT (at_state x)"
  shows "stages_inv (enqueue_producer (Some a) p at d)"
  by (rule stages_inv_enqueue[OF assms(1-3), of _ a "fenced_stage (at_attemptRef a) at"])
    (use prev in \<open>simp_all add: enqueue_producer_def fenced_simps a, simp add: stage_of_def stage_key_def\<close>)

text \<open>Requests and receipts of turns are not part of what a step must keep.\<close>

lemma turn_step_reads:
  assumes "iterationLoops e' = iterationLoops d'" and "quarantine e' = quarantine d'" and "stages e' = stages d'"
    and "attempts e' = attempts d'" and "humanRequests e' = humanRequests d'"
  shows "loops_step d e' = loops_step d d'" and "stages_inv e' = stages_inv d'" and "asks_kept d e' = asks_kept d d'"
  by (simp_all only: loops_step_def loops_inv_def loop_rows_def stages_inv_def flight_inv_def bundles_settled_def
      attempt_rows_def stage_rows_def asks_kept_def asks_step_def requests_inv_def assms)

lemma turn_step_turns:
  assumes "turn_step d d'"
  shows "turn_step d (d'\<lparr>iterationRequests := qs\<rparr>)" and "turn_step d (d'\<lparr>iterationReceipts := rs\<rparr>)"
proof -
  note r = turn_step_reads[where d' = d' and e' = "d'\<lparr>iterationRequests := qs\<rparr>"]
    turn_step_reads[where d' = d' and e' = "d'\<lparr>iterationReceipts := rs\<rparr>"]
  have "turn_frame d (d'\<lparr>iterationRequests := qs\<rparr>)" "turn_frame d (d'\<lparr>iterationReceipts := rs\<rparr>)"
    using assms by (simp_all add: turn_step_def turn_frame_def)
  then show "turn_step d (d'\<lparr>iterationRequests := qs\<rparr>)" "turn_step d (d'\<lparr>iterationReceipts := rs\<rparr>)"
    using assms by (simp_all add: turn_step_def r)
qed

lemma settle_loop:
  assumes "d' = set_loop u x f d1" and "find (is_loop u x) (iterationLoops d) = Some l" and "loop_path l (f l)"
    and "iterationLoops d1 = iterationLoops d" and "turn_frame d d1" and "asks_kept d d1" and "stages_inv d \<longrightarrow> stages_inv d1"
  shows "turn_step d d'"
proof -
  have q: "quarantine d1 = quarantine d" using assms(5) by (simp add: turn_frame_def)
  have "loops_step d d'" by (rule loops_step_one[OF assms(2), of d' f]) (simp_all add: assms(1,3,4) set_loop_def q)
  moreover have "stages_inv d' = stages_inv d1" "asks_kept d d' = asks_kept d d1"
    by (simp_all only: stages_inv_def flight_inv_def bundles_settled_def attempt_rows_def stage_rows_def asks_kept_def
        asks_step_def requests_inv_def) (simp_all add: assms(1) set_loop_def)
  moreover have "turn_frame d d'" using assms(5) by (simp add: turn_frame_def assms(1) set_loop_def)
  ultimately show ?thesis using assms(6,7) by (simp add: turn_step_def)
qed

lemma settle_rows:
  assumes "d' = set_loop u x f d1" and "d1 = d\<lparr>attempts := attempts d1, stages := stages d1\<rparr>"
    and "find (is_loop u x) (iterationLoops d) = Some l" and "loop_path l (f l)" and "stages_inv d \<longrightarrow> stages_inv d1"
  shows "turn_step d d'"
proof (rule settle_loop[OF assms(1,3,4)])
  show "iterationLoops d1 = iterationLoops d" "turn_frame d d1" by (subst assms(2), simp add: turn_frame_def)+
  show "asks_kept d d1" by (rule asks_kept_same) (subst assms(2), simp)+
qed (rule assms(5))

lemma activated_path: "il_state l = AwaitingSeed \<Longrightarrow> loop_path l (activated_loop b st ro rs at l)"
  by (rule loop_path_edge) (simp_all add: activated_loop_def touched_loop_def cleared_loop_def declared_def)

lemma activateIterationLoop_step:
  assumes "next_doc (activateIterationLoop e u x i d) = Some d'" and "attempt_ref_fresh e d"
  shows "turn_step d d'"
proof (rule activateIterationLoop_commit[OF assms(1)])
  fix l st ro producer p at
  assume l: "find (is_loop u x) (iterationLoops d) = Some l" "il_state l = AwaitingSeed"
    and pr: "producer = None \<or> (\<exists>s rt md. initial_producer d u l ro i = Some (s, rt, md)
      \<and> producer = Some (initial_attempt e u l s i rt md) \<and> p = is_run_stage u (il_runRef l) (st_stageId s))"
    and d': "d' = set_loop u x (activated_loop (producer \<noteq> None) st ro (seed_refs i) at) (enqueue_producer producer p at d)"
  have "stages_inv d \<longrightarrow> stages_inv (enqueue_producer producer p at d)"
  proof (cases producer)
    case (Some a)
    then obtain s rt md where s: "initial_producer d u l ro i = Some (s, rt, md)" "a = initial_attempt e u l s i rt md"
      "p = is_run_stage u (il_runRef l) (st_stageId s)" using pr by auto
    have ps: "participant_stage d u l (ro_recipientParticipantId ro) = Some s" "st_currentAttemptRef s = None"
      using s(1) by (auto simp: initial_producer_def split: option.splits if_split_asm)
    note f = participant_stageD[OF ps(1)]
    show ?thesis
    proof
      assume si: "stages_inv d"
      show "stages_inv (enqueue_producer producer p at d)"
        unfolding Some by (rule enqueue_producer_stages[OF si assms(2), of p s])
          (simp_all add: s(2,3) f ps(2) initial_attempt_def loop_attempt_def queued_attempt_def stage_of_def stage_key_def)
    qed
  qed (simp add: enqueue_producer_def)
  then show "turn_step d d'"
    by (rule settle_rows[OF d' enqueue_producer_rows l(1) activated_path[OF l(2)]])
qed

lemma running_path: "il_state l \<in> {AwaitingTurn, ReworkQueued} \<Longrightarrow> loop_path l (running_loop n at l)"
  by (rule loop_path_edge) (auto simp: running_loop_def touched_loop_def declared_def)

lemma start_turn_rows:
  assumes "start_turn e u q entry i d l = Inr (d', a)"
  obtains s d2 at where "participant_stage d u l (iq_recipientParticipantId q) = Some s" and "dependenciesSucceeded d s"
    and "d2 = d\<lparr>attempts := attempts d2, stages := stages d2\<rparr>" and "list_all2 attempt_moves (attempts d) (attempts d2)"
    and "list_all2 stage_moves (stages d) (stages d2)"
    and "d' = (set_loop u (il_iterationLoopRef l) (running_loop (iq_cycle q) at) d2)
        \<lparr>iterationRequests := iterationRequests d @ [q]\<rparr>" and "a = publicIterationRequest q"
proof -
  obtain s where s: "participant_stage d u l (iq_recipientParticipantId q) = Some s" "dependenciesSucceeded d s"
    using assms by (auto simp: start_turn_def split: option.splits if_split_asm)
  define n where "n = step_if (st_state s \<noteq> SReady)"
  define d1 where "d1 = (if st_state s \<noteq> SReady then d\<lparr>stages := upd_first (is_run_stage u (il_runRef l) (st_stageId s))
                         (readied_stage (e_stamp e 0)) (stages d)\<rparr> else d)"
  define d2 where "d2 = (case (entry, st_currentAttemptRef s) of
                         (True, Some a) \<Rightarrow> d1\<lparr>attempts := upd_first (is_attempt u a)
                           (rebased_attempt (tu_baseCommit i) (e_stamp e n)) (attempts d1)\<rparr>
                       | _ \<Rightarrow> d1)"
  define d3 where "d3 = set_loop u (il_iterationLoopRef l) (running_loop (iq_cycle q) (e_stamp e (n + step_if entry))) d2"
  have "(if \<not> dependenciesSucceeded d s \<or> st_state s \<notin> {SBlocked, SReady, SSucceeded} then Inl (Conflict, dt_turn_stage)
        else if entry \<and> (case current_attempt d u s of None \<Rightarrow> True | Some a \<Rightarrow> \<not> producer_ready s a)
        then Inl (Conflict, dt_turn_attempt)
        else Inr (d3\<lparr>iterationRequests := iterationRequests d3 @ [q]\<rparr>, publicIterationRequest q)) = Inr (d', a)"
    using assms unfolding start_turn_def s(1) option.case Let_def n_def[symmetric] d1_def[symmetric] d2_def[symmetric]
      d3_def[symmetric] by assumption
  then have r: "d' = d3\<lparr>iterationRequests := iterationRequests d3 @ [q]\<rparr>" "a = publicIterationRequest q"
    by (simp_all split: if_split_asm)
  have m: "attempt_moves a (rebased_attempt c at a)" for a c at
    by (simp add: attempt_moves_def rebased_attempt_def attempt_key_def stage_of_def)
  have d1: "d1 = d\<lparr>stages := stages d1\<rparr>" "list_all2 stage_moves (stages d) (stages d1)"
    by (simp_all add: d1_def moves_refl, simp add: stage_rows_moved stage_edits)
  have d2: "d2 = d1\<lparr>attempts := attempts d2\<rparr>" "list_all2 attempt_moves (attempts d1) (attempts d2)"
    by (auto simp: d2_def moves_refl list_all2_upd_first m stage_moves_id split: option.split bool.split)
  have k: "attempts d1 = attempts d" "iterationRequests d1 = iterationRequests d" by (subst d1(1), simp)+
  have k2: "stages d2 = stages d1" "iterationRequests d2 = iterationRequests d1" by (subst d2(1), simp)+
  have "d2 = d\<lparr>attempts := attempts d2, stages := stages d2\<rparr>" by (subst d2(1), subst d1(1)) (simp add: k2)
  then show thesis
    by (rule that[OF s]) (use d1(2) d2(2) in \<open>simp_all add: k k2 r d3_def set_loop_def\<close>)
qed

lemma recordIterationRequest_step:
  assumes "next_doc (recordIterationRequest e u x i d) = Some d'"
  shows "turn_step d d'"
proof (rule recordIterationRequest_commit[OF assms], erule start_turn_rows)
  fix l st ro entry a s d2 at
  let ?q = "new_turn e u l st ro i (turn_cycle d u l st)"
  assume l: "find (is_loop u x) (iterationLoops d) = Some l"
    and st: "il_state l = AwaitingTurn \<or> entry" "entry = (il_state l = ReworkQueued \<and> ARTIFACT_PRODUCING_REQUEST_KINDS (tu_kind i))"
    and d2: "d2 = d\<lparr>attempts := attempts d2, stages := stages d2\<rparr>" "list_all2 attempt_moves (attempts d) (attempts d2)"
      "list_all2 stage_moves (stages d) (stages d2)"
    and d': "d' = (set_loop u (il_iterationLoopRef l) (running_loop (iq_cycle ?q) at) d2)
        \<lparr>iterationRequests := iterationRequests d @ [?q]\<rparr>"
  have q: "quarantine d2 = quarantine d" by (subst d2(1)) simp
  have "turn_step d (set_loop u x (running_loop (iq_cycle ?q) at) d2)"
    by (rule settle_rows[where f = "running_loop (iq_cycle ?q) at", OF refl d2(1) l])
      (use st stages_inv_moves[OF _ d2(2,3) q] in \<open>auto intro!: running_path\<close>)
  then show "turn_step d d'" using is_loopD[OF l] by (simp add: d' turn_step_turns)
qed

section \<open>The receipt\<close>

text \<open>The decision written on the stages of the active set.\<close>

lemma decide_stages_rows:
  assumes "decide_stages u runRef ok at missing rs d = Inr d1"
  shows "d1 = d\<lparr>stages := stages d1\<rparr> \<and> list_all2 stage_moves (stages d) (stages d1)"
  using assms
proof (induction rs arbitrary: d)
  case Nil
  then show ?case by (simp add: moves_refl)
next
  case (Cons r rs)
  let ?f = "decided_stage (if ok then Some r else None) at"
  obtain p where n: "decide_stages u runRef ok at missing rs (d\<lparr>stages := upd_first p ?f (stages d)\<rparr>) = Inr d1"
    using Cons.prems by (auto split: option.splits)
  have "list_all2 stage_moves (stages d) (upd_first p ?f (stages d))" by (rule stage_rows_moved) (simp add: stage_edits)
  then show ?case using Cons.IH[OF n] stage_rows_trans by auto
qed

text \<open>What a settled turn leaves, on every path: the loop, the receipt, and the gate it opens.\<close>

lemma settle_turn_rows:
  assumes "settle_turn e u q x gate r d l = Inr (d', a)" and "\<And>g. gate = Some g \<Longrightarrow> hq_response g = None \<and> hq_open g"
  obtains l' d1 where "d' = set_loop u (il_iterationLoopRef l) (\<lambda>_. touched_loop (e_stamp e 0) l')
        (d1\<lparr>iterationReceipts := iterationReceipts d @ [r]\<rparr>)"
    and "d1 = d\<lparr>stages := stages d1, humanRequests := humanRequests d1\<rparr>" and "list_all2 stage_moves (stages d) (stages d1)"
    and "asks_kept d d1" and "declared l' = declared l" and "il_state l' = receipt_state l x" and "il_version l' = il_version l"
    and "a = publicIterationReceipt r"
    and "gate = None \<Longrightarrow> is_terminal l x
      \<Longrightarrow> decide_stages u (il_runRef l) True (e_stamp e 0) dt_accepted_stage (il_activeGenerationRefs l) d = Inr d1
        \<and> il_acceptedGenerationRefs l' = Some (il_activeGenerationRefs l) \<and> il_activeGenerationRefs l' = il_activeGenerationRefs l"
proof (cases gate)
  case (Some g)
  have k: "asks_kept d (d\<lparr>humanRequests := humanRequests d @ [g]\<rparr>)"
    using assms(2)[OF Some] by (intro asks_kept_append[where qs = "[g]"]) simp_all
  show thesis
  proof (cases "oc_verdict x = ''parked''")
    case True
    show thesis
      by (rule that[of "(parked_loop (hq_requestRef g) ''parked''
          (iterationResidue (ended_turn r (receipt_state l x) l) (loop_requests d u (il_iterationLoopRef l))
            (loop_receipts d u (il_iterationLoopRef l) @ [r]) (il_activeGenerationRefs l) (iq_routeId q) None)
          (ended_turn r (receipt_state l x) l))\<lparr>il_acceptedGenerationRefs := None, il_completionGateRef := None\<rparr>"
          "d\<lparr>humanRequests := humanRequests d @ [g]\<rparr>"])
        (use assms(1) Some True k in \<open>simp_all add: settle_turn_def Let_def moves_refl, simp_all add: parked_loop_def
          ended_turn_def declared_def\<close>)
  next
    case False
    show thesis
      by (rule that[of "(cleared_loop (ended_turn r (receipt_state l x) l))\<lparr>il_completionGateRef := Some (hq_requestRef g)\<rparr>"
          "d\<lparr>humanRequests := humanRequests d @ [g]\<rparr>"])
        (use assms(1) Some False k in \<open>simp_all add: settle_turn_def Let_def moves_refl, simp_all add: cleared_loop_def
          ended_turn_def declared_def\<close>)
  qed
next
  case None
  show thesis
  proof (cases "is_terminal l x")
    case True
    obtain d1 where d1: "decide_stages u (il_runRef l) True (e_stamp e 0) dt_accepted_stage (il_activeGenerationRefs l) d = Inr d1"
      using assms(1) None True by (auto simp: settle_turn_def Let_def)
    have r: "d1 = d\<lparr>stages := stages d1\<rparr>" "list_all2 stage_moves (stages d) (stages d1)" using decide_stages_rows[OF d1] by simp_all
    have h: "humanRequests d1 = humanRequests d" "quarantine d1 = quarantine d" "iterationReceipts d1 = iterationReceipts d"
      by (subst r(1), simp)+
    have "d1 = d\<lparr>stages := stages d1, humanRequests := humanRequests d1\<rparr>" by (subst r(1)) (simp add: h)
    then show thesis
      by (intro that[of "(cleared_loop (ended_turn r (receipt_state l x) l))
          \<lparr>il_acceptedGenerationRefs := Some (il_activeGenerationRefs l)\<rparr>" d1])
        (use assms(1) None True d1 r(2) h in \<open>simp_all add: settle_turn_def Let_def asks_kept_same, simp_all add: cleared_loop_def
          ended_turn_def declared_def\<close>)
  next
    case False
    show thesis
      by (rule that[of "cleared_loop (ended_turn r (receipt_state l x) l)" d])
        (use assms(1) None False in \<open>simp_all add: settle_turn_def Let_def moves_refl asks_kept_same,
          simp_all add: cleared_loop_def ended_turn_def declared_def\<close>)
  qed
qed

end
