(* ===== verification/IterationSteps.thy ===== *)
theory IterationSteps
  imports IterationFacts
begin

text \<open>
  The operations of a loop that settle a turn: the receipt, the advance, the park and the gate. Each moves one
  loop along its machine and keeps the rest as \<open>turn_step\<close> says.
\<close>

section \<open>The receipt\<close>

lemma receipt_edge: "loop_edge RunningTurn (receipt_state l x)"
  by (simp add: receipt_state_def)

lemma receipt_gate_open: "hq_response (receipt_gate e d u l i x) = None \<and> hq_open (receipt_gate e d u l i x)"
  by (simp add: receipt_gate_def open_gate_def Let_def)

lemma recordIterationReceipt_step:
  assumes "next_doc (recordIterationReceipt e u x i d) = Some d'"
  shows "turn_step d d'"
proof (rule recordIterationReceipt_commit[OF assms])
  fix l q oc gated a
  let ?r = "new_receipt e u l q i oc (step_if gated)"
  assume l: "find (is_loop u x) (iterationLoops d) = Some l"
    and ok: "receipt_lineage_ok d u l q (oc_verdict oc = ''fulfilled'') i"
    and s: "settle_turn e u q oc (if gated then Some (receipt_gate e d u l i oc) else None) ?r d l = Inr (d', a)"
  have run: "il_state l = RunningTurn" using ok by (simp add: receipt_lineage_ok_def Let_def)
  have x: "il_iterationLoopRef l = x" using is_loopD[OF l] by simp
  show "turn_step d d'"
  proof (rule settle_turn_rows[OF s])
    show "\<And>g. (if gated then Some (receipt_gate e d u l i oc) else None) = Some g \<Longrightarrow> hq_response g = None \<and> hq_open g"
      using receipt_gate_open[of e d u l i oc] by (auto split: if_split_asm)
  next
    fix l' d1
    assume d': "d' = set_loop u (il_iterationLoopRef l) (\<lambda>_. touched_loop (e_stamp e 0) l')
        (d1\<lparr>iterationReceipts := iterationReceipts d @ [?r]\<rparr>)"
      and d1: "d1 = d\<lparr>stages := stages d1, humanRequests := humanRequests d1\<rparr>"
      and st: "list_all2 stage_moves (stages d) (stages d1)" and k: "asks_kept d d1"
      and l': "declared l' = declared l" "il_state l' = receipt_state l oc" "il_version l' = il_version l"
    have p: "loop_path l (touched_loop (e_stamp e 0) l')"
      by (rule loop_path_edge) (use l' run receipt_edge in \<open>simp_all add: touched_loop_def\<close>,
        simp add: declared_def)
    have f: "turn_frame d d1" "iterationLoops d1 = iterationLoops d" "attempts d1 = attempts d" "quarantine d1 = quarantine d"
      by (subst d1, simp add: turn_frame_def)+
    have "turn_step d (set_loop u x (\<lambda>_. touched_loop (e_stamp e 0) l') d1)"
      by (rule settle_loop[OF refl l p f(2,1) k stages_only[OF st f(3,4)]])
    moreover have "d' = (set_loop u x (\<lambda>_. touched_loop (e_stamp e 0) l') d1)
        \<lparr>iterationReceipts := iterationReceipts d @ [?r]\<rparr>" by (simp add: d' x set_loop_def)
    ultimately show "turn_step d d'" using turn_step_turns(2) by blast
  qed
qed

section \<open>The advance\<close>

lemma advanced_path: "il_state l = LoopFailed \<Longrightarrow> loop_path l (advanced_loop b st ro k h at l)"
  by (rule loop_path_edge) (simp_all add: advanced_loop_def touched_loop_def cleared_loop_def declared_def)

lemma advanced_producer:
  assumes "stages_inv d" and "attempt_ref_fresh e d" and s: "participant_stage d u l x = Some s"
    and a: "next_producer e d u l s r i = Inr a"
  shows "stages_inv (enqueue_producer (Some a) (is_run_stage u (il_runRef l) (st_stageId s)) at d)"
proof (rule enqueue_producer_stages[OF assms(1,2)])
  note f = participant_stageD[OF s] and n = next_producer_attempt[OF a]
  show "find (is_run_stage u (il_runRef l) (st_stageId s)) (stages d) = Some s"
    "at_attemptRef a = ref e ''attempt'' 0" "stage_of a = stage_key s" "at_runRef a = st_runRef s"
    using f n(1-3) by (simp_all add: stage_key_def)
  fix x assume x: "x \<in> set (attempts d)" "at_subject x = st_subject s" "at_runRef x = st_runRef s"
    "st_currentAttemptRef s = Some (at_attemptRef x)"
  show "SETTLED_ATTEMPT (at_state x)"
    by (rule found_behind_pointer[where P = "\<lambda>a. at_runRef a = il_runRef l" and u = u])
      (use assms(1) x f n(5) in \<open>simp_all add: stages_inv_def\<close>)
qed

lemma advanceIterationTurn_step:
  assumes "next_doc (advanceIterationTurn e u x i d) = Some d'" and "attempt_ref_fresh e d"
  shows "turn_step d d'"
proof (rule advanceIterationTurn_commit[OF assms(1)])
  fix l :: stored_loop and s :: stored_stage and r st ro producer
  let ?d = "enqueue_producer producer (is_run_stage u (il_runRef l) (st_stageId s)) (e_stamp e 0) d"
  assume l: "find (is_loop u x) (iterationLoops d) = Some l" "il_state l = LoopFailed"
    and s: "participant_stage d u l (ro_recipientParticipantId ro) = Some s"
    and pr: "\<And>a. producer = Some a \<Longrightarrow> next_producer e d u l s r i = Inr a"
    and d': "d' = set_loop u x (advanced_loop (producer \<noteq> None) st ro (av_operationKey i) (advance_fingerprint e x i)
        (e_stamp e (step_if (producer \<noteq> None)))) ?d"
  have "stages_inv d \<longrightarrow> stages_inv ?d"
    using advanced_producer[OF _ assms(2) s pr] by (cases producer) (simp_all add: enqueue_producer_def)
  then show "turn_step d d'" by (rule settle_rows[OF d' enqueue_producer_rows l(1) advanced_path[OF l(2)]])
qed

section \<open>The park\<close>

text \<open>
  A park for want of progress acts on the loop of the request it names, which the code does not compare with
  the loop it was asked to park. The machine is kept where the two are one.
\<close>

definition park_names_loop :: "string \<Rightarrow> string \<Rightarrow> park_input \<Rightarrow> document \<Rightarrow> bool" where
  "park_names_loop u x i d \<longleftrightarrow> (no_progress i \<longrightarrow>
     (case find_by (is_turn_request u) (pk_attemptedRequestRef i) (iterationRequests d) of
        None \<Rightarrow> True | Some q \<Rightarrow> iq_iterationLoopRef q = x))"

lemma parked_path:
  assumes "il_state l \<in> {RunningTurn, LoopFailed}"
  shows "loop_path l (touched_loop at ((parked_loop g t z l)
    \<lparr>il_state := AwaitingParkGate, il_turnOwnerParticipantId := None, il_currentStepId := None\<rparr>))"
  by (rule loop_path_edge) (use assms in \<open>auto simp: touched_loop_def parked_loop_def declared_def\<close>)

lemma drop_turn_rows:
  "drop_turn u at s a d = d\<lparr>attempts := attempts (drop_turn u at s a d), sessions := sessions (drop_turn u at s a d),
     stages := stages (drop_turn u at s a d)\<rparr>"
  by (simp add: drop_turn_def Let_def)

lemma drop_turn_ledger: "map ledger (sessions (drop_turn u at s a d)) = map ledger (sessions d)"
proof -
  have l: "ledger (dropped_session at m) = ledger m" for m by (simp add: ledger_def dropped_session_def)
  have "map ledger (upd_first p (dropped_session at) ms) = map ledger ms" for p ms
    by (induction ms) (simp_all add: l)
  then show ?thesis by (auto simp: drop_turn_def Let_def split: option.split)
qed

lemma drop_turn_stages:
  assumes "stages_inv d" and s: "participant_stage d u l x = Some s" and a: "current_attempt d u s = Some a"
  shows "stages_inv (drop_turn u at s a d)"
proof -
  have i: "flight_inv d" "bundles_settled d" using assms(1) by (simp_all add: stages_inv_def)
  note f = participant_stageD[OF s]
  let ?as = "upd_first (is_attempt u (at_attemptRef a)) (dropped_attempt at) (attempts d)"
  have m: "attempt_moves b (dropped_attempt at b)" for b
    by (simp add: attempt_moves_def dropped_attempt_def attempt_key_def stage_of_def SETTLED_ATTEMPT_def)
  have as: "list_all2 attempt_moves (attempts d) ?as" by (rule list_all2_upd_first) (simp_all add: m stage_moves_id)
  obtain r where r: "st_currentAttemptRef s = Some r" "find (is_attempt u r) (attempts d) = Some a"
    using a by (auto simp: current_attempt_def find_by_Some)
  have ar: "at_attemptRef a = r" "at_subject a = u" using find_Some_pred[OF r(2)] by (simp_all add: is_attempt_def)
  obtain xs ys where split: "attempts d = xs @ a # ys" "?as = xs @ dropped_attempt at a # ys"
    using r(2) unfolding ar(1) by (metis upd_first_split)
  have fin: "SETTLED_ATTEMPT (at_state y)"
    if y: "y \<in> set ?as \<union> set (concat (map qb_attempts (quarantine d)))" "stage_of y = stage_key s" for y
  proof (rule ccontr)
    assume n: "\<not> SETTLED_ATTEMPT (at_state y)"
    then have ya: "y \<in> set ?as" using y(1) i(2) by (auto simp: bundles_settled_def list_all_iff)
    then obtain z where z: "z \<in> set (attempts d)" "attempt_moves z y" using list_all2_back[OF as] by blast
    have "s \<in> set (stage_rows d)" using f(1) by (simp add: stage_rows_def find_Some_in)
    then have "points z s" using i(1) z(1) by (simp add: flight_inv_def attempt_rows_def)
    then have "r = at_attemptRef z" using z(2) n y(2) r(1) by (auto simp: points_def attempt_moves_def)
    then have k: "attempt_key y = attempt_key a" using z(2) y(2) f(2) ar
      by (auto simp: attempt_moves_def attempt_key_def stage_of_def stage_key_def)
    have "distinct (map attempt_key (attempts d))" using i(1) by (simp add: flight_inv_def attempt_rows_def)
    then have "distinct (map attempt_key (xs @ a # ys))" by (simp only: split(1))
    then have "attempt_key a \<notin> attempt_key ` set xs" "attempt_key a \<notin> attempt_key ` set ys" by simp_all
    then have "z \<in> set xs \<union> set ys \<Longrightarrow> attempt_key z \<noteq> attempt_key a" for z by (metis Un_iff imageI)
    moreover have "y \<noteq> dropped_attempt at a" using n by (auto simp: dropped_attempt_def SETTLED_ATTEMPT_def)
    ultimately show False using ya k unfolding split(2) by auto
  qed
  have "flight_inv (drop_turn u at s a d)"
    by (rule flight_repoint[OF i(1) f(1) _ as, where xs = "[]" and g = "restored_stage _ at"])
      (use fin f in \<open>simp_all add: drop_turn_def Let_def restored_stage_def stage_key_def\<close>)
  moreover have "bundles_settled (drop_turn u at s a d)" using i(2) by (simp add: bundles_settled_def drop_turn_def Let_def)
  ultimately show ?thesis by (simp add: stages_inv_def)
qed

lemma parkIterationLoop_step:
  assumes "next_doc (parkIterationLoop e u x i d) = Some d'" and "park_names_loop u x i d"
  shows "turn_step d d'"
proof (rule parkIterationLoop_commit[OF assms(1)])
  fix l r q linked residue g cur r' a
  assume l: "find (is_loop u x) (iterationLoops d) = Some l"
    and q: "find_by (is_turn_request u) (park_turn i r) (iterationRequests d) = Some q"
    and ok: "park_lineage_ok i l q r" and g: "hq_response g = None" "hq_open g"
    and s: "settle_park e u i q linked residue g d cur r' = Inr (d', a)"
    and c: "find (is_loop u (if no_progress i then iq_iterationLoopRef q else x)) (iterationLoops d) = Some cur"
  have "no_progress i \<Longrightarrow> iq_iterationLoopRef q = x"
    using assms(2) q by (auto simp: park_names_loop_def park_turn_def)
  then have cl: "cur = l" using c l by (simp split: if_split_asm)
  have x: "il_iterationLoopRef l = x" using is_loopD[OF l] by simp
  have st: "il_state l \<in> {RunningTurn, LoopFailed}" using ok by (auto simp: park_lineage_ok_def split: if_split_asm)
  let ?f = "\<lambda>l. touched_loop (e_stamp e 0) ((parked_loop (hq_requestRef g) (pk_reason i) residue l)
            \<lparr>il_state := AwaitingParkGate, il_turnOwnerParticipantId := None, il_currentStepId := None\<rparr>)"
  obtain d1 where d': "d' = set_loop u x ?f (d1\<lparr>humanRequests := humanRequests d1 @ [g]\<rparr>)"
    and d1: "d1 = d \<or> (\<exists>s a. participant_stage d u l (iq_recipientParticipantId q) = Some s
      \<and> current_attempt d u s = Some a \<and> d1 = drop_turn u (e_stamp e 0) s a d)"
    using s unfolding cl x settle_park_def Let_def by (auto split: if_split_asm option.splits)
  have f: "iterationLoops d1 = iterationLoops d" "humanRequests d1 = humanRequests d" "quarantine d1 = quarantine d"
      "turn_frame d d1"
    using d1 drop_turn_rows[of u "e_stamp e 0"] drop_turn_ledger[of u "e_stamp e 0"]
    by (auto simp: turn_frame_def drop_turn_def Let_def)
  have "stages_inv d1" if "stages_inv d" using d1 drop_turn_stages[OF that] that by blast
  moreover have "stages_inv (d1\<lparr>humanRequests := qs\<rparr>) = stages_inv d1" for qs
    by (simp add: stages_inv_def flight_inv_def bundles_settled_def attempt_rows_def stage_rows_def)
  moreover have "turn_frame d (d1\<lparr>humanRequests := qs\<rparr>)" for qs using f(4) by (simp add: turn_frame_def)
  moreover have "asks_kept d (d1\<lparr>humanRequests := humanRequests d1 @ [g]\<rparr>)"
    by (rule asks_kept_append[where qs = "[g]"]) (simp_all add: f g)
  ultimately show "turn_step d d'" by (intro settle_loop[OF d' l parked_path[OF st]]) (simp_all add: f(1))
qed

section \<open>The gate\<close>

lemma decided_path:
  assumes "il_state l = (if p then AwaitingParkGate else AwaitingCompletionGate)"
  shows "loop_path l (touched_loop at (decided_loop p b x r l))"
  by (rule loop_path_edge) (use assms in \<open>simp_all add: touched_loop_def decided_loop_def, simp add: declared_def\<close>)

lemma asks_kept_trans: "asks_kept a b \<Longrightarrow> asks_kept b c \<Longrightarrow> asks_kept a c"
  by (auto simp: asks_kept_def asks_step_def intro: rows_kept_trans)

lemma resolved_gate_kept: "hq_response g = None \<Longrightarrow> row_kept g (resolved_gate e u x i g)"
  by (simp add: row_kept_def resolved_gate_def recordHumanResponse_def)

lemma resolveIterationGate_step:
  assumes "next_doc (resolveIterationGate e u x i sc d) = Some d'" and "loops_inv d"
  shows "turn_step d d'"
proof (rule resolveIterationGate_commit[OF assms(1)])
  fix g l cur intervention a
  assume g: "findHumanRequest d u x sc = Some g" and l: "find (gate_loop (hq_subject g) x) (iterationLoops d) = Some l"
    and r: "hq_response g = None" and k: "\<not> gate_changed g l (last_receipt d (hq_subject g) l) i"
    and c: "find (is_loop (hq_subject g) (il_iterationLoopRef l)) (iterationLoops d) = Some cur"
    and v: "\<And>y. intervention = Some y \<Longrightarrow> hq_response y = None \<and> hq_open y"
    and s: "settle_gate e u (hq_subject g) sc x i g intervention d cur (last_receipt d (hq_subject g) cur) = Inr (d', a)"
  let ?f = "\<lambda>l. touched_loop (e_stamp e 0) (decided_loop (hq_iterationPark g) (gt_decision i = ''approved'') intervention x l)"
  have ls: "il_subject l = hq_subject g" "l \<in> set (iterationLoops d)"
    using find_Some_pred[OF l] find_Some_in[OF l] by (simp_all add: gate_loop_def)
  then have cl: "cur = l" using loop_found[OF assms(2) ls(2)] c by simp
  define qs where "qs = (case intervention of Some y \<Rightarrow> if hq_iterationPark g then [] else [y] | None \<Rightarrow> [])"
  define rs where "rs = (case last_receipt d (hq_subject g) l of None \<Rightarrow> iterationReceipts d
    | Some y \<Rightarrow> upd_first (is_receipt (hq_subject g) (ir_receiptRef y)) (\<lambda>y. y\<lparr>ir_version := ir_version y + 1\<rparr>) (iterationReceipts d))"
  have qs: "q \<in> set qs \<Longrightarrow> hq_response q = None \<and> hq_open q" for q
    using v by (auto simp: qs_def split: option.splits if_split_asm)
  let ?d1 = "d\<lparr>humanRequests := upd_first (is_request u x sc) (resolved_gate e u x i) (humanRequests d)\<rparr>"
  let ?d = "d\<lparr>humanRequests := upd_first (is_request u x sc) (resolved_gate e u x i) (humanRequests d) @ qs, iterationReceipts := rs\<rparr>"
  obtain d2 where d2: "decide_stages (hq_subject g) (il_runRef l) (gt_decision i = ''approved'') (e_stamp e 0) dt_gate_stage
      (il_activeGenerationRefs l) ?d = Inr d2"
    and d': "d' = set_loop (hq_subject g) (il_iterationLoopRef l) ?f d2"
    using s unfolding cl settle_gate_def Let_def qs_def[symmetric] rs_def[symmetric]
    by (auto simp: sum_bind_Inr split: if_split_asm)
  note rows = decide_stages_rows[OF d2]
  have f: "iterationLoops d2 = iterationLoops d" "turn_frame d d2" "humanRequests d2 = humanRequests ?d"
      "attempts d2 = attempts d" "quarantine d2 = quarantine d"
    by (subst conjunct1[OF rows], simp add: turn_frame_def)+
  have st: "list_all2 stage_moves (stages d) (stages d2)" using rows by simp
  have closed: "request_closed (resolved_gate e u x i q)" for q
    by (simp add: request_closed_def resolved_gate_def recordHumanResponse_def)
  have "asks_kept d ?d1"
    unfolding asks_kept_def
    by (intro impI asks_step_upd) (use g r closed in \<open>auto simp: findHumanRequest_def resolved_gate_kept\<close>)
  moreover have "asks_kept ?d1 d2" by (rule asks_kept_append[where qs = qs]) (simp_all add: f qs)
  ultimately have "asks_kept d d2" by (rule asks_kept_trans)
  then show "turn_step d d'"
    by (intro settle_loop[OF d' c[unfolded cl] decided_path f(1,2) _ stages_only[OF st f(4,5)]])
      (use k in \<open>simp_all add: gate_changed_def split: if_split_asm\<close>)
qed

end
