(* ===== verification/Managers.thy ===== *)
theory Managers
  imports Stages CoreInv
begin

text \<open>
  The Manager of a run (\<open>control/store.ts\<close>): \<open>createManagerSuccessor\<close>, which replaces a dead Manager
  session under a compare-and-swap on its generation, \<open>recordManagerCommand\<close> and
  \<open>requestRunCancellation\<close>, which leave the command on the timeline and move the run to stopping.
\<close>

section \<open>A successor Manager\<close>

record successor_input =
  mi_expectedManagerGeneration :: int
  mi_runtime :: string
  mi_model :: string
  mi_idempotencyKey :: string

definition dt_successor_terminal :: string where
  "dt_successor_terminal = ''terminal runs require a successor run, not a Manager replacement''"
definition dt_successor_routing :: string where
  "dt_successor_routing = ''successor routing and idempotencyKey are required''"
definition dt_successor_assigned :: string where
  "dt_successor_assigned = ''assigned manager routing is immutable''"
definition dt_successor_reused :: string where
  "dt_successor_reused = ''idempotencyKey was reused with different successor content''"
definition dt_successor_generation :: string where "dt_successor_generation = ''manager generation changed''"
definition dt_manager_missing :: string where "dt_manager_missing = ''current manager session is missing''"
definition dt_manager_active :: string where
  "dt_manager_active = ''current manager session is still active''"

definition successor_fingerprint :: "env \<Rightarrow> string \<Rightarrow> successor_input \<Rightarrow> string" where
  "successor_fingerprint e runRef i = sha256_json e (JObj [(''runRef'', JStr runRef),
     (''expected'', JNum (mi_expectedManagerGeneration i)), (''runtime'', JStr (mi_runtime i)),
     (''model'', JStr (mi_model i))])"

definition is_manager_operation :: "string \<Rightarrow> string \<Rightarrow> string \<Rightarrow> stored_session \<Rightarrow> bool" where
  "is_manager_operation subject runRef key s \<longleftrightarrow> ms_subject s = subject \<and> ms_runRef s = runRef
     \<and> ms_role s = Manager \<and> ms_operationKey s = Some key"

definition succeeded_run :: "run_lifecycle \<Rightarrow> stored_session \<Rightarrow> string \<Rightarrow> stored_run \<Rightarrow> stored_run" where
  "succeeded_run l m at r =
     (let r1 = r\<lparr>r_managerSessionRef := ms_sessionRef m, r_managerGeneration := ms_generation m,
                 r_version := r_version r + 1, r_updatedAt := at\<rparr> in
      if runLifecycleKind (r_lifecycle r) \<noteq> RWaitingHuman then r1\<lparr>r_lifecycle := l\<rparr> else r1)"

definition successor_session :: "env \<Rightarrow> string \<Rightarrow> string \<Rightarrow> successor_input \<Rightarrow> stored_run \<Rightarrow> stored_session \<Rightarrow> stored_session" where
  "successor_session e subject runRef i r current =
     pending_session subject (ref e ''session'' 0) runRef None None Manager (r_managerGeneration r + 1)
       (Some (ms_sessionRef current)) (mi_runtime i) (mi_model i) (Some (mi_idempotencyKey i))
       (Some (successor_fingerprint e runRef i)) (e_stamp e 0)"

definition createManagerSuccessor ::
  "env \<Rightarrow> string \<Rightarrow> string \<Rightarrow> successor_input \<Rightarrow> document \<Rightarrow> session outcome" where
  "createManagerSuccessor e subject runRef i d =
     (case findRun d subject runRef OwnSubject of
        None \<Rightarrow> Refuse NotFound dt_run_not_found
      | Some r \<Rightarrow>
        if isTerminalRun (r_lifecycle r) then Refuse Invalid dt_successor_terminal
        else if \<not> validNonEmpty (mi_idempotencyKey i) MAX_SHORT_TEXT \<or> \<not> validNonEmpty (mi_runtime i) MAX_SHORT_TEXT
          \<or> \<not> validNonEmpty (mi_model i) MAX_SHORT_TEXT then Refuse Invalid dt_successor_routing
        else if (case r_managerAssignment r of None \<Rightarrow> False
                 | Some a \<Rightarrow> mi_runtime i \<noteq> as_runtime a \<or> mi_model i \<noteq> as_model a)
        then Refuse Invalid dt_successor_assigned
        else (case find (is_manager_operation subject runRef (mi_idempotencyKey i)) (sessions d) of
          Some m \<Rightarrow>
            if ms_operationFingerprint m \<noteq> Some (successor_fingerprint e runRef i)
            then Refuse IdempotencyConflict dt_successor_reused
            else Replay (publicSession m)
        | None \<Rightarrow>
          if r_managerGeneration r \<noteq> mi_expectedManagerGeneration i then Refuse Conflict dt_successor_generation
          else (case find (owns_session subject (r_managerSessionRef r)) (sessions d) of
            None \<Rightarrow> Refuse Conflict dt_manager_missing
          | Some current \<Rightarrow>
            if \<not> TERMINAL_SESSION (ms_state current) \<and> ms_state current \<noteq> MInterrupted
            then Refuse Conflict dt_manager_active
            else let prior = runLifecycleKind (r_lifecycle r) in
            if prior \<noteq> RRecovering \<and> \<not> canTransitionRun (r_lifecycle r) RRecovering
            then Refuse Invalid (dt_run_edge prior RRecovering)
            else (case lifecycleForKind RRecovering None of
              Inl x \<Rightarrow> Raise x
            | Inr l \<Rightarrow>
              let m = successor_session e subject runRef i r current;
                  f = succeeded_run l m (e_stamp e 0) in
              Commit (d\<lparr>runs := upd_first (is_run subject runRef OwnSubject) f (runs d),
                        sessions := sessions d @ [m]\<rparr>) (publicSession m)))))"

section \<open>Commands\<close>

record command_input =
  mc_expectedRunVersion :: int
  mc_expectedManagerGeneration :: int
  mc_idempotencyKey :: string
  mc_kind :: string
  mc_message :: "string option"
  mc_checkpoint :: "string option"

record command_result =
  mr_run :: run
  mr_event :: event

definition COMMAND_KINDS :: "string list" where
  "COMMAND_KINDS = [''message'', ''steer'', ''stop'']"

definition dt_command_required :: string where
  "dt_command_required = ''manager command and idempotencyKey are required''"
definition dt_command_message :: string where "dt_command_message = ''manager message is required''"
definition dt_command_steer :: string where
  "dt_command_steer = ''checkpoint and steering instruction are required''"
definition dt_command_reused :: string where
  "dt_command_reused = ''idempotencyKey was reused with different manager command content''"
definition dt_command_changed :: string where
  "dt_command_changed = ''run version or manager generation changed''"
definition dt_command_terminal :: string where
  "dt_command_terminal = ''terminal runs cannot accept manager commands''"
definition dt_cancel_required :: string where
  "dt_cancel_required = ''cancellation idempotencyKey and reason are required''"
definition dt_cancel_reused :: string where
  "dt_cancel_reused = ''cancellation idempotencyKey was reused with different content''"

definition text_present :: "string option \<Rightarrow> int \<Rightarrow> bool" where
  "text_present x n = (case x of None \<Rightarrow> False | Some s \<Rightarrow> validNonEmpty s n)"

definition command_fingerprint :: "env \<Rightarrow> string \<Rightarrow> command_input \<Rightarrow> string option \<Rightarrow> string option \<Rightarrow> string" where
  "command_fingerprint e runRef i message checkpoint = sha256_json e (JObj [(''runRef'', JStr runRef),
     (''expectedRunVersion'', JNum (mc_expectedRunVersion i)),
     (''expectedManagerGeneration'', JNum (mc_expectedManagerGeneration i)), (''kind'', JStr (mc_kind i)),
     (''message'', opt_str message), (''checkpoint'', opt_str checkpoint)])"

definition is_operation_event :: "string \<Rightarrow> string \<Rightarrow> string \<Rightarrow> stored_event \<Rightarrow> bool" where
  "is_operation_event owner runRef key v \<longleftrightarrow> run_event owner runRef v \<and> ev_operationKey v = Some key"

definition operator_event :: "string \<Rightarrow> string \<Rightarrow> string \<Rightarrow> string \<Rightarrow> int \<Rightarrow> event_kind \<Rightarrow> string option \<Rightarrow> event_status
    \<Rightarrow> string option \<Rightarrow> string option \<Rightarrow> string \<Rightarrow> stored_event" where
  "operator_event owner runRef key fp cursor kind sessionRef status summary checkpoint at =
     \<lparr>ev_cursor = cursor, ev_runRef = runRef, ev_kind = kind, ev_source = EsHuman, ev_stageRef = None,
      ev_attemptRef = None, ev_sessionRef = sessionRef, ev_status = Some status, ev_summary = summary,
      ev_command = None, ev_toolName = None, ev_path = None, ev_diff = None, ev_checkpoint = checkpoint,
      ev_createdAt = at, ev_subject = owner, ev_operationKey = Some key, ev_operationFingerprint = Some fp\<rparr>"

definition stopping_run :: "run_lifecycle \<Rightarrow> string \<Rightarrow> stored_run \<Rightarrow> stored_run" where
  "stopping_run l at r = r\<lparr>r_lifecycle := l, r_version := r_version r + 1, r_updatedAt := at\<rparr>"

definition command_event :: "env \<Rightarrow> string \<Rightarrow> string \<Rightarrow> command_input \<Rightarrow> string option \<Rightarrow> string option \<Rightarrow> stored_session
    \<Rightarrow> int \<Rightarrow> stored_event" where
  "command_event e owner runRef i message checkpoint m cursor =
     (let k = mc_kind i in
      operator_event owner runRef (mc_idempotencyKey i) (command_fingerprint e runRef i message checkpoint) cursor
        (if k = ''message'' then EkMessage else if k = ''steer'' then EkCheckpoint else EkLifecycle)
        (Some (ms_sessionRef m)) (if k = ''stop'' then EvStopped else EvPending)
        (if k = ''stop'' then Some ''operator requested Manager stop'' else message)
        (if k = ''steer'' then checkpoint else None) (e_stamp e 0))"

definition recordManagerCommand ::
  "env \<Rightarrow> string \<Rightarrow> string \<Rightarrow> command_input \<Rightarrow> read_scope \<Rightarrow> document \<Rightarrow> command_result outcome" where
  "recordManagerCommand e subject runRef i scope d =
     (case findRun d subject runRef scope of
        None \<Rightarrow> Refuse NotFound dt_run_not_found
      | Some r \<Rightarrow>
        let owner = r_subject r;
            message = map_option (\<lambda>s. cleanText e s MAX_LONG_TEXT) (mc_message i);
            checkpoint = map_option (\<lambda>s. cleanText e s MAX_SHORT_TEXT) (mc_checkpoint i) in
        if \<not> validNonEmpty (mc_idempotencyKey i) MAX_SHORT_TEXT \<or> mc_kind i \<notin> set COMMAND_KINDS
        then Refuse Invalid dt_command_required
        else if mc_kind i = ''message'' \<and> \<not> text_present message MAX_LONG_TEXT then Refuse Invalid dt_command_message
        else if mc_kind i = ''steer'' \<and> (\<not> text_present message MAX_LONG_TEXT \<or> \<not> text_present checkpoint MAX_SHORT_TEXT)
        then Refuse Invalid dt_command_steer
        else (case find (is_operation_event owner runRef (mc_idempotencyKey i)) (events d) of
          Some v \<Rightarrow>
            if ev_operationFingerprint v \<noteq> Some (command_fingerprint e runRef i message checkpoint)
            then Refuse IdempotencyConflict dt_command_reused
            else replay_run r (\<lambda>x. \<lparr>mr_run = x, mr_event = publicEvent v\<rparr>)
        | None \<Rightarrow>
          if r_version r \<noteq> mc_expectedRunVersion i \<or> r_managerGeneration r \<noteq> mc_expectedManagerGeneration i
          then Refuse Conflict dt_command_changed
          else if isTerminalRun (r_lifecycle r) then Refuse Invalid dt_command_terminal
          else (case find (\<lambda>s. owns_session owner (r_managerSessionRef r) s \<and> ms_role s = Manager) (sessions d) of
            None \<Rightarrow> Refuse Conflict dt_manager_missing
          | Some m \<Rightarrow>
            let v = command_event e owner runRef i message checkpoint m (nextEventCursor d);
                prior = runLifecycleKind (r_lifecycle r);
                d1 = push_events [v] d;
                answer = (\<lambda>x. \<lparr>mr_run = x, mr_event = publicEvent v\<rparr>) in
            if mc_kind i = ''stop'' then
              (if prior \<noteq> RStopping \<and> \<not> canTransitionRun (r_lifecycle r) RStopping
               then Refuse Invalid (dt_run_edge prior RStopping)
               else (case lifecycleForKind RStopping None of
                   Inl x \<Rightarrow> Raise x
                 | Inr l \<Rightarrow> let f = stopping_run l (e_stamp e 0) in
                     commit_run (d1\<lparr>runs := upd_first (is_run subject runRef scope) f (runs d)\<rparr>) (f r) answer))
            else commit_run d1 r answer)))"

record cancel_input =
  ca_expectedRunVersion :: int
  ca_idempotencyKey :: string
  ca_reason :: string

definition cancel_fingerprint :: "env \<Rightarrow> string \<Rightarrow> string \<Rightarrow> string" where
  "cancel_fingerprint e runRef reason =
     sha256_json e (JObj [(''runRef'', JStr runRef), (''reason'', JStr reason)])"

definition requestRunCancellation ::
  "env \<Rightarrow> string \<Rightarrow> string \<Rightarrow> cancel_input \<Rightarrow> document \<Rightarrow> command_result outcome" where
  "requestRunCancellation e subject runRef i d =
     (case findRun d subject runRef OwnSubject of
        None \<Rightarrow> Refuse NotFound dt_run_not_found
      | Some r \<Rightarrow>
        if \<not> validNonEmpty (ca_idempotencyKey i) MAX_SHORT_TEXT \<or> \<not> validNonEmpty (ca_reason i) MAX_LONG_TEXT
        then Refuse Invalid dt_cancel_required
        else let reason = cleanText e (ca_reason i) MAX_LONG_TEXT;
                 fp = cancel_fingerprint e runRef reason in
       (case find (is_operation_event subject runRef (ca_idempotencyKey i)) (events d) of
          Some v \<Rightarrow>
            if ev_operationFingerprint v \<noteq> Some fp then Refuse IdempotencyConflict dt_cancel_reused
            else replay_run r (\<lambda>x. \<lparr>mr_run = x, mr_event = publicEvent v\<rparr>)
        | None \<Rightarrow>
          if r_version r \<noteq> ca_expectedRunVersion i then Refuse Conflict dt_run_version
          else let prior = runLifecycleKind (r_lifecycle r) in
          if prior \<noteq> RStopping \<and> \<not> canTransitionRun (r_lifecycle r) RStopping
          then Refuse Invalid (dt_run_edge prior RStopping)
          else let v = operator_event subject runRef (ca_idempotencyKey i) fp (nextEventCursor d) EkLifecycle None
                     EvWaiting (Some (cleanText e (''run cancellation requested: '' @ reason) MAX_LONG_TEXT)) None
                     (e_stamp e 0);
                   d1 = push_events [v] d;
                   answer = (\<lambda>x. \<lparr>mr_run = x, mr_event = publicEvent v\<rparr>) in
          if prior = RStopping then commit_run d1 r answer
          else (case lifecycleForKind RStopping None of
              Inl x \<Rightarrow> Raise x
            | Inr l \<Rightarrow> let f = stopping_run l (e_stamp e 0) in
                commit_run (d1\<lparr>runs := upd_first (is_run subject runRef OwnSubject) f (runs d)\<rparr>) (f r) answer)))"

section \<open>What a successor commits\<close>

lemma createManagerSuccessor_commit:
  assumes "next_doc (createManagerSuccessor e subject runRef i d) = Some d'"
  obtains r current l where "findRun d subject runRef OwnSubject = Some r" and "\<not> isTerminalRun (r_lifecycle r)"
    and "r_managerGeneration r = mi_expectedManagerGeneration i"
    and "find (owns_session subject (r_managerSessionRef r)) (sessions d) = Some current"
    and "SETTLED_SESSION (ms_state current)" and "lifecycleForKind RRecovering None = Inr l"
    and "d' = d\<lparr>runs := upd_first (is_run subject runRef OwnSubject)
          (succeeded_run l (successor_session e subject runRef i r current) (e_stamp e 0)) (runs d),
        sessions := sessions d @ [successor_session e subject runRef i r current]\<rparr>"
proof -
  from assms obtain r where r: "findRun d subject runRef OwnSubject = Some r" "\<not> isTerminalRun (r_lifecycle r)"
    by (auto simp: createManagerSuccessor_def committed)
  show thesis
  proof (cases "find (is_manager_operation subject runRef (mi_idempotencyKey i)) (sessions d)")
    case None
    with assms r show thesis
      by (auto simp: createManagerSuccessor_def Let_def committed SETTLED_SESSION_def intro: that)
  next
    case (Some m)
    with assms r show thesis by (auto simp: createManagerSuccessor_def committed split: if_splits)
  qed
qed

lemma plain_recovering: "lifecycleForKind RRecovering None = Inr l \<Longrightarrow> l = plain_lc RRecovering"
  by (simp add: lifecycleForKind_None)

lemma recordManagerCommand_commit:
  assumes "next_doc (recordManagerCommand e subject runRef i scope d) = Some d'"
  obtains r m message checkpoint where "findRun d subject runRef scope = Some r" and "r_version r = mc_expectedRunVersion i"
    and "\<not> isTerminalRun (r_lifecycle r)"
    and "d' = push_events [command_event e (r_subject r) runRef i message checkpoint m (nextEventCursor d)] d
      \<or> (\<exists>l. lifecycleForKind RStopping None = Inr l
          \<and> (lc_kind (r_lifecycle r) = RStopping \<or> canTransitionRun (r_lifecycle r) RStopping)
          \<and> d' = (push_events [command_event e (r_subject r) runRef i message checkpoint m (nextEventCursor d)] d)
            \<lparr>runs := upd_first (is_run subject runRef scope) (stopping_run l (e_stamp e 0)) (runs d)\<rparr>)"
proof -
  from assms obtain r where r: "findRun d subject runRef scope = Some r"
    by (auto simp: recordManagerCommand_def committed)
  show thesis
  proof (cases "find (is_operation_event (r_subject r) runRef (mc_idempotencyKey i)) (events d)")
    case None
    with assms r obtain m where "r_version r = mc_expectedRunVersion i" "\<not> isTerminalRun (r_lifecycle r)"
      "next_doc (let v = command_event e (r_subject r) runRef i (map_option (\<lambda>s. cleanText e s MAX_LONG_TEXT) (mc_message i))
              (map_option (\<lambda>s. cleanText e s MAX_SHORT_TEXT) (mc_checkpoint i)) m (nextEventCursor d);
            prior = runLifecycleKind (r_lifecycle r); d1 = push_events [v] d;
            answer = (\<lambda>x. \<lparr>mr_run = x, mr_event = publicEvent v\<rparr>) in
        if mc_kind i = ''stop'' then
              (if prior \<noteq> RStopping \<and> \<not> canTransitionRun (r_lifecycle r) RStopping
               then Refuse Invalid (dt_run_edge prior RStopping)
               else (case lifecycleForKind RStopping None of
                   Inl x \<Rightarrow> Raise x
                 | Inr l \<Rightarrow> let f = stopping_run l (e_stamp e 0) in
                     commit_run (d1\<lparr>runs := upd_first (is_run subject runRef scope) f (runs d)\<rparr>) (f r) answer))
            else commit_run d1 r answer) = Some d'"
      unfolding recordManagerCommand_def Let_def by (simp add: committed) blast
    then show thesis using r
      by (intro that) (auto simp: Let_def committed runLifecycleKind_def split: if_splits)
  next
    case (Some v)
    with assms r show thesis
      by (auto simp: recordManagerCommand_def Let_def committed split: if_splits)
  qed
qed

lemma requestRunCancellation_commit:
  assumes "next_doc (requestRunCancellation e subject runRef i d) = Some d'"
  obtains r v where "findRun d subject runRef OwnSubject = Some r" and "ev_cursor v = nextEventCursor d"
    and "run_event subject runRef v"
    and "d' = push_events [v] d \<and> lc_kind (r_lifecycle r) = RStopping
      \<or> (\<exists>l. lifecycleForKind RStopping None = Inr l \<and> canTransitionRun (r_lifecycle r) RStopping
          \<and> d' = (push_events [v] d)\<lparr>runs := upd_first (is_run subject runRef OwnSubject)
              (stopping_run l (e_stamp e 0)) (runs d)\<rparr>)"
proof -
  let ?v = "operator_event subject runRef (ca_idempotencyKey i)
      (cancel_fingerprint e runRef (cleanText e (ca_reason i) MAX_LONG_TEXT)) (nextEventCursor d) EkLifecycle None EvWaiting
      (Some (cleanText e (''run cancellation requested: '' @ cleanText e (ca_reason i) MAX_LONG_TEXT) MAX_LONG_TEXT)) None
      (e_stamp e 0)"
  from assms obtain r where r: "findRun d subject runRef OwnSubject = Some r"
    by (auto simp: requestRunCancellation_def committed)
  show thesis
  proof (cases "find (is_operation_event subject runRef (ca_idempotencyKey i)) (events d)")
    case None
    have e: "ev_cursor ?v = nextEventCursor d" "run_event subject runRef ?v"
      by (simp_all add: operator_event_def run_event_def)
    from None assms r have "d' = push_events [?v] d \<and> lc_kind (r_lifecycle r) = RStopping
      \<or> (\<exists>l. lifecycleForKind RStopping None = Inr l \<and> canTransitionRun (r_lifecycle r) RStopping
          \<and> d' = (push_events [?v] d)\<lparr>runs := upd_first (is_run subject runRef OwnSubject)
              (stopping_run l (e_stamp e 0)) (runs d)\<rparr>)"
      by (auto simp: requestRunCancellation_def Let_def committed runLifecycleKind_def split: if_splits)
    then show thesis by (rule that[OF r e])
  next
    case (Some v)
    with assms r show thesis
      by (auto simp: requestRunCancellation_def Let_def committed split: if_splits)
  qed
qed

section \<open>The invariants\<close>

text \<open>\<open>ref(prefix)\<close> is the prefix and a random UUID: a safe identifier.\<close>

definition refs_ok :: "env \<Rightarrow> bool" where
  "refs_ok e \<longleftrightarrow> SAFE_ID (ref e ''run'' 0) \<and> SAFE_ID (ref e ''session'' 0) \<and> SAFE_ID (ref e ''session'' 1)"

lemma one_event_run_core:
  assumes "ev_cursor v = nextEventCursor d" and "d' = (push_events [v] d)\<lparr>runs := upd_first p f (runs d)\<rparr>"
    and "\<And>r. find p (runs d) = Some r \<Longrightarrow> run_sound r \<Longrightarrow> run_sound (f r)"
  shows "core_step d d'"
  by (rule core_step_events[where vs = "[v]" and p = p and f = f]) (simp_all add: assms push_events_def)

lemma one_event_core:
  assumes "ev_cursor v = nextEventCursor d" shows "core_step d (push_events [v] d)"
  by (rule one_event_run_core[OF assms, of _ "\<lambda>_. False" "\<lambda>x. x"]) (simp_all add: upd_first_id push_events_def)

lemma stopping_run_sound:
  "lifecycleForKind RStopping None = Inr l \<Longrightarrow> is_iso at \<Longrightarrow> run_sound r \<Longrightarrow> run_sound (stopping_run l at r)"
  using moved_sound by (simp add: stopping_run_def final_outcome_def)

lemma command_event_cursor: "ev_cursor (command_event e owner runRef i message checkpoint m c) = c"
  by (simp add: command_event_def operator_event_def Let_def)

lemma stop_event_core:
  assumes "env_ok e" and "ev_cursor v = nextEventCursor d"
    and "d' = push_events [v] d \<or> (\<exists>l. lifecycleForKind RStopping None = Inr l
      \<and> d' = (push_events [v] d)\<lparr>runs := upd_first p (stopping_run l (e_stamp e 0)) (runs d)\<rparr>)"
  shows "core_step d d'"
  using assms(3)
proof (elim disjE exE conjE)
  assume "d' = push_events [v] d"
  then show ?thesis using one_event_core[OF assms(2)] by simp
next
  fix l assume l: "lifecycleForKind RStopping None = Inr l"
    and d': "d' = (push_events [v] d)\<lparr>runs := upd_first p (stopping_run l (e_stamp e 0)) (runs d)\<rparr>"
  show ?thesis
    by (rule one_event_run_core[OF assms(2) d']) (rule stopping_run_sound[OF l env_ok_iso[OF assms(1)]])
qed

lemma recordManagerCommand_core:
  assumes "env_ok e" and "next_doc (recordManagerCommand e subject runRef i scope d) = Some d'"
  shows "core_step d d'"
  by (rule recordManagerCommand_commit[OF assms(2)], rule stop_event_core[OF assms(1) command_event_cursor]) auto

lemma requestRunCancellation_core:
  assumes "env_ok e" and "next_doc (requestRunCancellation e subject runRef i d) = Some d'"
  shows "core_step d d'"
  by (rule requestRunCancellation_commit[OF assms(2)], rule stop_event_core[OF assms(1)]) auto

text \<open>Until the Manager generation reaches the largest safe integer, a successor keeps the wall as well.\<close>

lemma succeeded_run_sound:
  assumes "run_sound r" and "lifecycleForKind RRecovering None = Inr l" and "is_iso at"
    and "SAFE_ID (ms_sessionRef m)" and "ms_generation m = r_managerGeneration r + 1" and "r_managerGeneration r < max_safe"
  shows "run_sound (succeeded_run l m at r)"
proof -
  have l: "l = plain_lc RRecovering" by (rule plain_recovering[OF assms(2)])
  have f: "final_outcome RRecovering = None" by (simp add: final_outcome_def)
  have g: "safe_int (r_managerGeneration r + 1)"
    using assms(1,6) by (simp add: sound_defs safe_int_def)
  show ?thesis using assms(1,3,4) g f
    by (simp add: succeeded_run_def Let_def sound_defs l assms(5))
qed

lemma createManagerSuccessor_core:
  assumes "env_ok e" and "refs_ok e" and "mi_expectedManagerGeneration i < max_safe"
    and "next_doc (createManagerSuccessor e subject runRef i d) = Some d'"
  shows "core_step d d'"
proof (rule createManagerSuccessor_commit[OF assms(4)])
  fix r current l
  let ?m = "successor_session e subject runRef i r current"
  assume r: "findRun d subject runRef OwnSubject = Some r" "r_managerGeneration r = mi_expectedManagerGeneration i"
    and l: "lifecycleForKind RRecovering None = Inr l"
    and d': "d' = d\<lparr>runs := upd_first (is_run subject runRef OwnSubject) (succeeded_run l ?m (e_stamp e 0)) (runs d),
        sessions := sessions d @ [?m]\<rparr>"
  have m: "SAFE_ID (ms_sessionRef ?m)" "ms_generation ?m = r_managerGeneration r + 1"
    using assms(2) by (simp_all add: successor_session_def pending_session_def refs_ok_def)
  show ?thesis
  proof (rule core_step_run)
    show "runs d' = upd_first (is_run subject runRef OwnSubject) (succeeded_run l ?m (e_stamp e 0)) (runs d)"
      by (simp add: d')
    show "same_log d d'" by (simp add: d' same_log_def)
    fix x assume x: "find (is_run subject runRef OwnSubject) (runs d) = Some x" "run_sound x"
    then have "x = r" using r(1) by (simp add: findRun_def)
    then show "run_sound (succeeded_run l ?m (e_stamp e 0) x)"
      using x(2) r(2) m assms(3) by (intro succeeded_run_sound[OF _ l env_ok_iso[OF assms(1)]]) simp_all
  qed
qed

end
