(* ===== verification/LaunchFacts.thy ===== *)
theory LaunchFacts
  imports Launch StageFacts Managers
begin

text \<open>
  What a launch promises: the stages it admits form an acyclic graph, the run binds one approved revision
  and the provenance of its snapshot, the wall accepts it, and the same launch again is a replay.
\<close>

section \<open>Admitted stages\<close>

lemma admit_stages_ids:
  "admit_stages ids ss = Inr bs \<Longrightarrow> map fst bs = map stage_id ss \<and> distinct (map stage_id ss)
    \<and> set (map stage_id ss) \<inter> set ids = {} \<and> list_all (\<lambda>s. distinct (stage_deps s)) ss"
proof (induction ss arbitrary: ids bs)
  case (Cons s ss)
  from Cons.prems obtain b bs' where s: "stage_shape_ok ids s" and r: "admit_stages (stage_id s # ids) ss = Inr bs'"
      and bs: "bs = (stage_id s, b) # bs'"
    by (auto split: if_splits option.splits)
  show ?case using Cons.IH[OF r] s by (auto simp: bs stage_shape_ok_def)
qed simp

lemma admitStages_graph:
  assumes "admitStages ss = Inr bs"
  shows "graph_ok (stage_graph ss)" and "acyclic (edges (stage_graph ss))" and "map fst bs = map stage_id ss"
    and "ss \<noteq> []" and "length ss \<le> MAX_STAGES_PER_RUN"
proof -
  have a: "admit_stages [] ss = Inr bs" "dependencies_known ss" "visited_stages (stage_graph ss) = length ss"
    and n: "ss \<noteq> []" "length ss \<le> MAX_STAGES_PER_RUN"
    using assms by (auto simp: admitStages_def split: if_splits)
  note ids = admit_stages_ids[OF a(1)]
  have fst: "map fst (stage_graph ss) = map stage_id ss" by (simp add: stage_graph_def)
  have "distinct (stage_deps s) \<and> set (stage_deps s) \<subseteq> set (map stage_id ss)" if "s \<in> set ss" for s
    using ids a(2) that by (auto simp: dependencies_known_def list_all_iff)
  then show g: "graph_ok (stage_graph ss)"
    unfolding graph_ok_def fst using ids by (auto simp: stage_graph_def)
  show "acyclic (edges (stage_graph ss))"
    using visited_all_iff_acyclic[OF g] a(3) by (simp add: stage_graph_def)
  show "map fst bs = map stage_id ss" using ids by simp
  show "ss \<noteq> []" "length ss \<le> MAX_STAGES_PER_RUN" by (fact n)+
qed

text \<open>The cycle refusal is exact: it is what admission answers when nothing else is wrong with a cyclic graph.\<close>

lemma admitStages_cycle:
  assumes "admit_stages [] ss = Inr bs" and "dependencies_known ss" and "ss \<noteq> []" and "length ss \<le> MAX_STAGES_PER_RUN"
  shows "admitStages ss = (if acyclic (edges (stage_graph ss)) then Inr bs else Inl (Refused Invalid dt_launch_cycle))"
proof -
  note ids = admit_stages_ids[OF assms(1)]
  have fst: "map fst (stage_graph ss) = map stage_id ss" by (simp add: stage_graph_def)
  have "distinct (stage_deps s) \<and> set (stage_deps s) \<subseteq> set (map stage_id ss)" if "s \<in> set ss" for s
    using ids assms(2) that by (auto simp: dependencies_known_def list_all_iff)
  then have "graph_ok (stage_graph ss)" unfolding graph_ok_def fst using ids by (auto simp: stage_graph_def)
  then show ?thesis using visited_all_iff_acyclic[of "stage_graph ss"] assms by (simp add: admitStages_def stage_graph_def)
qed

lemma refuse_none_Inr [simp]: "refuse_none x t = Inr y \<longleftrightarrow> x = Some y"
  by (simp add: refuse_none_def split: option.splits)

lemma admitLaunch_parts:
  assumes "admitLaunch i = Inr a"
  shows "validNonEmpty (ri_title i) MAX_TITLE" and "validNonEmpty (ri_idempotencyKey i) MAX_SHORT_TEXT"
    and "normalizeAssignment (ri_managerAssignment i) = Some (la_managerAssignment a)"
    and "decodeRunnableRef (ri_owner i) = Some (la_owner a)"
    and "normalizeAgentWorkspaceLaunch (ri_agentWorkspaceLaunch i) = Some (la_agentWorkspaceLaunch a)"
    and "normalizeWorkflowTags (ri_workflowTags i) = Some (la_workflowTags a)"
    and "admitStages (ri_stages i) = Inr (la_bindings a)"
  using assms by (auto simp: admitLaunch_def split: if_splits)

section \<open>What a launch commits\<close>

lemma approve_Inr:
  assumes "approve subject i a d = Inr p"
  obtains m bs where "find (is_revision subject (ri_proposalRef i) (ri_proposalRevision i) OwnSubject) (proposals d) = Some p"
    and "pr_hash p = ri_expectedProposalHash i" and "map_option ap_decision (pr_approval p) = Some PdApproved"
    and "canonicalJson (JArr (ri_iterationGroups i)) = canonicalJson (JArr (snapshot_groups (pr_snapshot p)))"
    and "approvedRunAssignments (pr_snapshot p) (ri_stages i) = Some (m, bs)"
    and "sameAssignment (la_managerAssignment a) m" and "list_all (binding_matches a bs) (ri_stages i)"
  using assms by (auto simp: approve_def split: option.splits if_splits)

lemma check_predecessor_Inr:
  assumes "check_predecessor subject i a p d = Inr u"
  shows "ri_predecessorRunRef i = None \<or> ri_predecessorRunRef i = Some []
    \<or> (\<exists>r. findRun d subject (the (ri_predecessorRunRef i)) OwnSubject = Some r
        \<and> ri_expectedPredecessorVersion i = Some (r_version r) \<and> r_proposalHash r = pr_hash p
        \<and> (isTerminalRun (r_lifecycle r) \<or> runLifecycleKind (r_lifecycle r) = RInterrupted)
        \<and> r_executionHost r = la_executionHost a \<and> retryPredecessorRefusal d r = None
        \<and> (case (la_workflowTags a, r_workflowTags r) of (Some ts, Some ps) \<Rightarrow> set ps \<subseteq> set ts | _ \<Rightarrow> True))"
proof (cases "ri_predecessorRunRef i")
  case (Some s)
  show ?thesis
  proof (cases s)
    case (Cons c cs)
    obtain r where r: "findRun d subject s OwnSubject = Some r"
      using assms by (auto simp: check_predecessor_def Some Cons split: option.splits)
    show ?thesis
      using assms r by (intro disjI2 exI[of _ r], cases "la_workflowTags a"; cases "r_workflowTags r")
        (simp_all add: check_predecessor_def Some Cons split: option.splits if_splits)
  qed (simp add: Some)
qed simp

lemma createRun_commit:
  assumes "next_doc (createRun e subject i d) = Some d'"
  obtains a p l groups where "admitLaunch i = Inr a" and "find (is_launch subject (ri_idempotencyKey i)) (runs d) = None"
    and "approve subject i a d = Inr p" and "check_predecessor subject i a p d = Inr ()"
    and "lifecycleForKind RPlanned None = Inr l"
    and "d' = launched_document e subject i a (launched_run e subject i a p l) groups d"
    and "iterationError e (iterationBundleForRun d' subject (ref e ''run'' 0)) = None"
proof -
  obtain a where a: "admitLaunch i = Inr a" using assms by (auto simp: createRun_def committed)
  show thesis
  proof (cases "find (is_launch subject (ri_idempotencyKey i)) (runs d)")
    case None
    have r: "r_runRef (launched_run e subject i a p l) = ref e ''run'' 0" for p l by (simp add: launched_run_def)
    from assms None a obtain p l groups where "approve subject i a d = Inr p" "check_predecessor subject i a p d = Inr ()"
        "lifecycleForKind RPlanned None = Inr l"
        "d' = launched_document e subject i a (launched_run e subject i a p l) groups d"
        "iterationError e (iterationBundleForRun d' subject (ref e ''run'' 0)) = None"
      unfolding createRun_def Let_def admit_def[of "admitLaunch i"] a by (auto simp: committed r)
    then show thesis by (rule that[OF a None])
  next
    case (Some r)
    then show thesis using assms a by (simp add: createRun_def admit_def committed)
  qed
qed

section \<open>The wall accepts the new run\<close>

lemma core_step_push_run:
  assumes "same_log d d'" and "runs d' = runs d @ [r]" and "run_sound r"
  shows "core_step d d'"
  using assms by (auto simp: core_step_def core_inv_def same_log_def events_inv_def quarantined_events_def requests_inv_def
      runs_inv_def rows_kept_list_all2)

lemma launched_run_sound:
  assumes "env_ok e" and "refs_ok e" and "SAFE_ID subject" and "admitLaunch i = Inr a" and "proposal_sound p"
    and "pr_revision p \<le> max_safe" and "lifecycleForKind RPlanned None = Inr l"
    and "case ri_predecessorRunRef i of None \<Rightarrow> True | Some s \<Rightarrow> SAFE_ID s"
  shows "run_sound (launched_run e subject i a p l)"
proof -
  note ad = admitLaunch_parts[OF assms(4)]
  have l: "l = plain_lc RPlanned" using assms(7) by (simp add: lifecycleForKind_None split: if_splits)
  have ids: "SAFE_ID (ref e ''run'' 0)" "SAFE_ID (ref e ''session'' 1)" using assms(2) by (simp_all add: refs_ok_def)
  have t: "js_trim (ri_title i) \<noteq> []" using ad(1) by (simp add: validNonEmpty_def)
  have k: "key_sound (Some (ri_idempotencyKey i))"
    using ad(2) by (auto simp: key_sound_def validNonEmpty_def MAX_SHORT_TEXT_def js_trim_def)
  have h: "hash_sound (Some (launch_fingerprint e i a))"
    using assms(1) by (simp add: hash_sound_def launch_fingerprint_def sha256_json_def env_ok_def)
  have v: "run_valid ((launched_run e subject i a p l)\<lparr>r_version := 1\<rparr>)"
    using assms(5,6,8) ids t decodeRunnableRef_stable[OF ad(4)] normalizeAssignment_decodes[OF ad(3)]
      normalizeLaunch_decodes[OF ad(5)] normalizeWorkflowTags_ok[OF ad(6)] env_ok_iso[OF assms(1), of 0]
      validLifecycle_plain[of RPlanned]
    by (simp add: run_valid_def launched_run_def outcome_closed_def proposal_sound_def safe_int_def max_safe_def l)
  have x: "stored_extras_sound (launched_run e subject i a p l)"
    using assms(3) k h
    by (simp add: stored_extras_sound_def launched_run_def receipts_sound_def key_sound_def hash_sound_def
        validFailedReconciliation_def reconciliation_js_def)
  show ?thesis using v x by (simp add: run_sound_def launched_run_def outcome_stamped_def final_outcome_def l plain_lc_def)
qed

lemma approved_sound:
  "proposals_inv d \<Longrightarrow> approve subject i a d = Inr p \<Longrightarrow> proposal_sound p \<and> pr_revision p = ri_proposalRevision i"
  by (elim approve_Inr) (auto simp: proposals_inv_def list_all_iff is_revision_def dest!: find_SomeD)

lemma createRun_core:
  assumes "env_ok e" and "refs_ok e" and "SAFE_ID subject" and "proposals_inv d" and "core_inv d"
    and "ri_proposalRevision i \<le> max_safe" and "ri_predecessorRunRef i \<noteq> Some []"
    and "next_doc (createRun e subject i d) = Some d'"
  shows "core_step d d'"
proof (rule createRun_commit[OF assms(8)])
  fix a p l groups
  assume a: "admitLaunch i = Inr a" and p: "approve subject i a d = Inr p" and c: "check_predecessor subject i a p d = Inr ()"
    and l: "lifecycleForKind RPlanned None = Inr l"
    and d': "d' = launched_document e subject i a (launched_run e subject i a p l) groups d"
  note ps = approved_sound[OF assms(4) p]
  have pre: "case ri_predecessorRunRef i of None \<Rightarrow> True | Some s \<Rightarrow> SAFE_ID s"
  proof (cases "ri_predecessorRunRef i")
    case (Some s)
    then obtain r where r: "findRun d subject s OwnSubject = Some r"
      using check_predecessor_Inr[OF c] assms(7) by auto
    then have "run_sound r" using assms(5) findRun_SomeD[OF r] by (auto simp: core_inv_def runs_inv_def list_all_iff)
    then show ?thesis using findRun_runRef[OF r] by (auto simp: Some run_sound_def run_valid_def)
  qed simp
  have "run_sound (launched_run e subject i a p l)"
    using ps assms(6) by (intro launched_run_sound[OF assms(1,2,3) a]) (auto intro: l pre)
  then show "core_step d d'"
    by (rule core_step_push_run[rotated 2]) (simp_all add: d' launched_document_def same_log_def)
qed

section \<open>Stages, sessions and proposals of the document\<close>

text \<open>The references of the new rows are random UUIDs: they name no row the document holds.\<close>

definition launch_refs_fresh :: "env \<Rightarrow> document \<Rightarrow> bool" where
  "launch_refs_fresh e d \<longleftrightarrow> (let ids = map (ref e ''stage'') [0..<2 + MAX_STAGES_PER_RUN] in
     distinct ids \<and> set ids \<inter> set (map st_stageRef (stage_rows d)) = {} \<and> set ids \<inter> set (map at_stageRef (attempt_rows d)) = {})"

lemma launched_stages_refs:
  "map st_stageRef (launched_stages e subject a n ss) = map (ref e ''stage'') [n..<n + length ss]"
  "s \<in> set (launched_stages e subject a n ss) \<Longrightarrow> st_subject s = subject \<and> st_runRef s = ref e ''run'' 0 \<and> st_version s = 1
     \<and> st_currentAttemptRef s = None \<and> st_state s = (if st_dependsOn s = [] then SReady else SBlocked)"
  by (induction ss arbitrary: n) (auto simp: launched_stage_def Let_def upt_rec)

lemma launched_stage_ids: "map st_stageId (launched_stages e subject a n ss) = map stage_id ss"
  by (induction ss arbitrary: n) (simp_all add: launched_stage_def Let_def)

lemma distinct_stage_keys: "distinct (map st_stageRef ss) \<Longrightarrow> distinct (map stage_key ss)"
  by (induction ss) (auto simp: stage_key_def)

lemma flight_new_stages:
  assumes i: "flight_inv d" and new: "stages d' = stages d @ ss" and d': "attempts d' = attempts d" "quarantine d' = quarantine d"
    and dist: "distinct (map stage_key ss)" and fresh: "\<And>s. s \<in> set ss \<Longrightarrow> st_stageRef s \<notin> set (map st_stageRef (stage_rows d))
        \<and> st_stageRef s \<notin> set (map at_stageRef (attempt_rows d))"
  shows "flight_inv d'"
proof -
  have rows: "attempt_rows d' = attempt_rows d" "set (stage_rows d') = set (stage_rows d) \<union> set ss"
    by (auto simp: attempt_rows_def stage_rows_def new d')
  have "points a s" if "a \<in> set (attempt_rows d)" "s \<in> set ss" for a s
    using fresh[OF that(2)] that(1) by (auto simp: points_def stage_key_def stage_of_def)
  moreover have "distinct (map stage_key (stage_rows d'))"
  proof -
    have "stage_key s \<notin> stage_key ` set (stage_rows d)" if "s \<in> set ss" for s
      using fresh[OF that] by (auto simp: stage_key_def)
    then have "stage_key ` set ss \<inter> stage_key ` set (stage_rows d) = {}" by blast
    moreover have "distinct (map stage_key (stage_rows d))" using i by (simp add: flight_inv_def)
    ultimately show ?thesis using dist by (simp add: stage_rows_def new d'(2)) blast
  qed
  ultimately show ?thesis using i by (auto simp: flight_inv_def rows)
qed

lemma createRun_stages_inv:
  assumes "stages_inv d" and "launch_refs_fresh e d" and "next_doc (createRun e subject i d) = Some d'"
  shows "stages_inv d'"
proof (rule createRun_commit[OF assms(3)])
  fix a p l groups
  assume d': "d' = launched_document e subject i a (launched_run e subject i a p l) groups d"
  let ?ss = "launched_stages e subject a 2 (ri_stages i)" and ?ids = "map (ref e ''stage'') [0..<2 + MAX_STAGES_PER_RUN]"
  assume "admitLaunch i = Inr a"
  then have "length (ri_stages i) \<le> MAX_STAGES_PER_RUN" using admitStages_graph(5) admitLaunch_parts(7) by blast
  then have sub: "set [2..<2 + length (ri_stages i)] \<subseteq> set [0..<2 + MAX_STAGES_PER_RUN]" by auto
  have fresh: "distinct ?ids" "set ?ids \<inter> set (map st_stageRef (stage_rows d)) = {}"
      "set ?ids \<inter> set (map at_stageRef (attempt_rows d)) = {}"
    using assms(2) by (simp_all only: launch_refs_fresh_def Let_def)
  have "flight_inv d'"
  proof (rule flight_new_stages)
    show "flight_inv d" using assms(1) by (simp add: stages_inv_def)
    show "stages d' = stages d @ ?ss" "attempts d' = attempts d" "quarantine d' = quarantine d"
      by (simp_all add: d' launched_document_def)
    have "distinct (map st_stageRef ?ss)"
      unfolding launched_stages_refs(1) using fresh(1) sub by (simp only: distinct_map) (blast intro: inj_on_subset distinct_upt)
    then show "distinct (map stage_key ?ss)" by (rule distinct_stage_keys)
    fix s assume "s \<in> set ?ss"
    then have "st_stageRef s \<in> set (map st_stageRef ?ss)" by simp
    then have "st_stageRef s \<in> set ?ids" unfolding launched_stages_refs(1) using sub by (simp only: set_map) blast
    then show "st_stageRef s \<notin> set (map st_stageRef (stage_rows d)) \<and> st_stageRef s \<notin> set (map at_stageRef (attempt_rows d))"
      using fresh(2,3) by blast
  qed
  then show ?thesis using assms(1) by (simp add: stages_inv_def bundles_settled_def d' launched_document_def)
qed

lemma createRun_broker:
  assumes "broker_inv d" and "next_doc (createRun e subject i d) = Some d'"
  shows "broker_inv d'"
  by (rule createRun_commit[OF assms(2)])
    (use assms(1) in \<open>auto simp: broker_inv_def launched_document_def launched_manager_def pending_session_def session_sound_def\<close>)

section \<open>The same launch again\<close>

lemma launched_identity:
  "r_subject (launched_run e subject i a p l) = subject"
  "r_launchOperationKey (launched_run e subject i a p l) = Some (ri_idempotencyKey i)"
  "r_launchOperationFingerprint (launched_run e subject i a p l) = Some (launch_fingerprint e i a)"
  by (simp_all add: launched_run_def)

lemma createRun_answers: "createRun e subject i d \<noteq> Value v" "createRun e subject i d \<noteq> Save d' v"
  by (auto simp: createRun_def admit_def Let_def replay_run_def commit_run_def
      split: sum.splits refusal.splits option.splits if_splits)

text \<open>The launch sent again, on the document as it was committed or as it was saved.\<close>

lemma detail_of_bump: "detail_of (bump d) = detail_of d"
  by (simp add: fun_eq_iff detail_of_def bump_def)

lemma createRun_replays:
  assumes "createRun e subject i d = Commit d' v"
  shows "createRun e subject i d' = Replay v" and "createRun e subject i (bump d') = Replay v"
proof -
  have "next_doc (createRun e subject i d) = Some d'" by (simp add: assms)
  then have "createRun e subject i d' = Replay v \<and> createRun e subject i (bump d') = Replay v"
  proof (rule createRun_commit)
    fix a p l groups
    assume a: "admitLaunch i = Inr a" and n: "find (is_launch subject (ri_idempotencyKey i)) (runs d) = None"
      and p: "approve subject i a d = Inr p" and c: "check_predecessor subject i a p d = Inr ()"
      and l: "lifecycleForKind RPlanned None = Inr l"
      and d': "d' = launched_document e subject i a (launched_run e subject i a p l) groups d"
    let ?r = "launched_run e subject i a p l"
    have "commit_run d' ?r (detail_of d' subject ?r) = Commit d' v"
      using assms a n p c l by (auto simp: createRun_def admit_def Let_def commit_run_def split: sum.splits refusal.splits option.splits)
    then have "replay_run ?r (detail_of d' subject ?r) = Replay v"
      by (auto simp: commit_run_def replay_run_def split: sum.splits)
    moreover have "find (is_launch subject (ri_idempotencyKey i)) (runs d') = Some ?r"
      using n by (simp add: d' launched_document_def find_append is_launch_def launched_identity)
    moreover have "runs (bump d') = runs d'" by (simp add: bump_def)
    ultimately show ?thesis using a by (simp add: createRun_def admit_def launched_identity detail_of_bump)
  qed
  then show "createRun e subject i d' = Replay v" and "createRun e subject i (bump d') = Replay v" by simp_all
qed

end
