(* ===== verification/RunFacts.thy ===== *)
theory RunFacts
  imports CoreInv
begin

text \<open>
  What the run operations commit and what they keep: the lifecycle moves along the edges of its table,
  the wall still accepts every run, the requests keep their answers and the timeline its order.
\<close>

section \<open>The completion of an occurrence touches schedules only\<close>

definition schedules_step :: "document \<Rightarrow> document \<Rightarrow> bool" where
  "schedules_step d d' \<longleftrightarrow> d' = d\<lparr>schedules := schedules d', scheduleCollectionRevision := scheduleCollectionRevision d',
     scheduleOccurrenceClaims := scheduleOccurrenceClaims d'\<rparr>"

lemma schedules_step_refl [simp]: "schedules_step d d"
  by (simp add: schedules_step_def)

lemma completion_frame: "completeStoredScheduleOccurrence e i d = Inr d' \<Longrightarrow> schedules_step d d'"
  by (auto simp: schedules_step_def completeStoredScheduleOccurrence_def Let_def split: option.splits if_splits)

lemma complete_claim_frame: "complete_claim_of e runRef out d = Inr d' \<Longrightarrow> schedules_step d d'"
  by (auto simp: complete_claim_of_def dest: completion_frame split: list.splits if_splits)

section \<open>The bare transition\<close>

definition with_moved :: "string \<Rightarrow> string \<Rightarrow> run_kind \<Rightarrow> run_lifecycle \<Rightarrow> string \<Rightarrow> document \<Rightarrow> document" where
  "with_moved subject runRef k l at d =
     d\<lparr>runs := upd_first (is_run subject runRef OwnSubject) (moved_run k l at) (runs d)\<rparr>"

definition with_closed :: "env \<Rightarrow> string \<Rightarrow> string \<Rightarrow> run_kind \<Rightarrow> run_lifecycle \<Rightarrow> string \<Rightarrow> document \<Rightarrow> document" where
  "with_closed e subject runRef k l at d =
     (if isTerminalRun l
      then snd (autoCloseOpenHumanRequestsForRun subject runRef at (terminal_tag k) (orphan_reason k) (e_maxEvents e) d)
      else d)"

lemma transitionRun_commit:
  assumes "next_doc (transitionRun e subject runRef v state d) = Some d'"
  obtains r k l where "findRun d subject runRef OwnSubject = Some r" and "run_kind_of state = Some k"
    and "r_version r = v" and "canTransitionRun (r_lifecycle r) k"
    and "lc_kind (r_lifecycle r) = RWaitingHuman \<and> k \<in> {RPlanned, RRecovering, RRunning} \<longrightarrow>
        boundariesAccepted d subject runRef None"
    and "k = RSucceeded \<longrightarrow> runCanSucceed d r" and "lifecycleForKind k None = Inr l"
    and "schedules_step (with_closed e subject runRef k l (e_stamp e 0) (with_moved subject runRef k l (e_stamp e 0) d)) d'"
proof -
  from assms obtain r k l where f: "findRun d subject runRef OwnSubject = Some r" "run_kind_of state = Some k"
      "r_version r = v" "canTransitionRun (r_lifecycle r) k"
      "\<not> (runLifecycleKind (r_lifecycle r) = RWaitingHuman \<and> k \<in> {RPlanned, RRecovering, RRunning}
        \<and> \<not> boundariesAccepted d subject runRef None)"
      "\<not> (k = RSucceeded \<and> \<not> runCanSucceed d r)" "lifecycleForKind k None = Inr l"
      and c: "(case final_outcome k of None \<Rightarrow> Inr (with_closed e subject runRef k l (e_stamp e 0) (with_moved subject runRef k l (e_stamp e 0) d))
          | Some out \<Rightarrow> complete_claim_of e runRef out
              (with_closed e subject runRef k l (e_stamp e 0) (with_moved subject runRef k l (e_stamp e 0) d))) = Inr d'"
    unfolding transitionRun_def Let_def committed with_closed_def with_moved_def not_not by blast
  have "schedules_step (with_closed e subject runRef k l (e_stamp e 0) (with_moved subject runRef k l (e_stamp e 0) d)) d'"
    using c complete_claim_frame by (auto split: option.splits)
  note step = this
  show thesis
    by (rule that[OF f(1-4) _ _ f(7) step]) (use f(5,6) in \<open>auto simp: runLifecycleKind_def\<close>)
qed

lemma with_closed_core: "core_step d (with_closed e subject runRef k l at d)"
  by (simp add: with_closed_def autoClose_core core_step_same same_log_def)

lemma schedules_step_core: "schedules_step d d' \<Longrightarrow> core_step d d'"
proof (rule core_step_same)
  assume "schedules_step d d'"
  then have "d' = d\<lparr>schedules := schedules d', scheduleCollectionRevision := scheduleCollectionRevision d',
     scheduleOccurrenceClaims := scheduleOccurrenceClaims d'\<rparr>" by (simp add: schedules_step_def)
  then obtain a b c where "d' = d\<lparr>schedules := a, scheduleCollectionRevision := b, scheduleOccurrenceClaims := c\<rparr>"
    by metis
  then show "same_log d d'" "runs d' = runs d" by (simp_all add: same_log_def)
qed

lemma transitionRun_core:
  assumes "env_ok e" and "next_doc (transitionRun e subject runRef v state d) = Some d'"
  shows "core_step d d'"
proof (rule transitionRun_commit[OF assms(2)])
  fix r k l
  assume l: "lifecycleForKind k None = Inr l"
    and s: "schedules_step (with_closed e subject runRef k l (e_stamp e 0) (with_moved subject runRef k l (e_stamp e 0) d)) d'"
  have "core_step d (with_moved subject runRef k l (e_stamp e 0) d)"
    by (rule core_step_run[of _ _ "is_run subject runRef OwnSubject" "moved_run k l (e_stamp e 0)"])
      (simp_all add: with_moved_def same_log_def moved_run_sound[OF _ l env_ok_iso[OF assms(1)]])
  then show "core_step d d'"
    using with_closed_core schedules_step_core[OF s] by (blast intro: core_step_trans)
qed

section \<open>Publication and archiving\<close>

lemma transitionPublication_commit:
  assumes "next_doc (transitionPublication e subject runRef v state d) = Some d'"
  obtains r p where "findRun d subject runRef OwnSubject = Some r" and "r_version r = v"
    and "publication_edge (r_publicationState r) p"
    and "r_publicationState r = PubWaitingHuman \<and> p = PubPending \<longrightarrow> boundariesAccepted d subject runRef None"
    and "d' = d\<lparr>runs := upd_first (is_run subject runRef OwnSubject) (published_run p (e_stamp e 0)) (runs d)\<rparr>"
  using assms unfolding transitionPublication_def Let_def committed not_not
  by (elim exE conjE) (rule that, auto)

lemma published_run_sound: "is_iso at \<Longrightarrow> run_sound r \<Longrightarrow> run_sound (published_run p at r)"
  by (simp add: published_run_def sound_defs)

lemma transitionPublication_core:
  assumes "env_ok e" and "next_doc (transitionPublication e subject runRef v state d) = Some d'"
  shows "core_step d d'"
proof (rule transitionPublication_commit[OF assms(2)])
  fix r p
  assume "d' = d\<lparr>runs := upd_first (is_run subject runRef OwnSubject) (published_run p (e_stamp e 0)) (runs d)\<rparr>"
  then show "core_step d d'"
    by (intro core_step_run[of _ _ "is_run subject runRef OwnSubject" "published_run p (e_stamp e 0)"])
      (simp_all add: same_log_def published_run_sound env_ok_iso[OF assms(1)])
qed

lemma next_doc_archive_replay [committed]:
  "next_doc (if a then Refuse x s else if b then Refuse y t else replay_run r f) = Some d \<longleftrightarrow> False"
  by (simp add: committed)

lemma next_doc_if_false: "(\<And>x. next_doc m = Some x \<longleftrightarrow> False) \<Longrightarrow> next_doc (if b then m else m') = Some d \<longleftrightarrow> \<not> b \<and> next_doc m' = Some d"
  by simp

definition archived_document ::
  "env \<Rightarrow> string \<Rightarrow> string \<Rightarrow> archive_input \<Rightarrow> read_scope \<Rightarrow> string \<Rightarrow> run_lifecycle \<Rightarrow> document \<Rightarrow> document" where
  "archived_document e subject runRef input scope owner l d =
     (let key = ai_idempotencyKey input;
          reason = map_option (\<lambda>s. cleanText e s MAX_LONG_TEXT) (ai_reason input) in
      d\<lparr>humanRequests := map (\<lambda>q. if archive_resolves d owner runRef q
            then archive_response subject key reason (e_stamp e 0) q else q) (humanRequests d),
        runs := upd_first (is_run subject runRef scope)
          (archived_run key (archive_fingerprint e runRef reason (ai_force input)) l (e_stamp e 0)) (runs d)\<rparr>)"

lemma archiveRun_commit:
  assumes "next_doc (archiveRun e subject runRef input scope d) = Some d'"
  obtains r l where "findRun d subject runRef scope = Some r" and "validNonEmpty (ai_idempotencyKey input) MAX_SHORT_TEXT"
    and "canTransitionRun (r_lifecycle r) RArchived" and "lifecycleForKind RArchived None = Inr l"
    and "ai_force input \<or> list_all (\<lambda>q. run_request (r_subject r) runRef q \<longrightarrow> \<not> hq_open q) (humanRequests d)"
    and "d' = archived_document e subject runRef input scope (r_subject r) l d"
proof -
  from assms obtain r l where "findRun d subject runRef scope = Some r" "validNonEmpty (ai_idempotencyKey input) MAX_SHORT_TEXT"
      "canTransitionRun (r_lifecycle r) RArchived" "lifecycleForKind RArchived None = Inr l"
      "\<not> (map hq_requestRef (filter (\<lambda>q. run_request (r_subject r) runRef q \<and> hq_open q) (humanRequests d)) \<noteq> [] \<and> \<not> ai_force input)"
      "d' = archived_document e subject runRef input scope (r_subject r) l d"
    unfolding archiveRun_def archived_document_def Let_def committed not_not
    by (auto simp: next_doc_if_false committed split: if_splits)
  then show thesis by (intro that) (auto simp: list_all_iff filter_empty_conv)
qed

lemma archive_response_kept:
  "archive_resolves d owner runRef q \<Longrightarrow> request_closed q
    \<Longrightarrow> row_kept q (archive_response subject key reason at q) \<and> request_closed (archive_response subject key reason at q)"
  by (auto simp: archive_resolves_def archive_response_def request_closed_def[of q] recorded_kept)

lemma archiveRun_core:
  assumes "env_ok e" and "next_doc (archiveRun e subject runRef input scope d) = Some d'"
  shows "core_step d d'"
proof (rule archiveRun_commit[OF assms(2)])
  fix r l
  assume r: "findRun d subject runRef scope = Some r" "validNonEmpty (ai_idempotencyKey input) MAX_SHORT_TEXT"
      "canTransitionRun (r_lifecycle r) RArchived" "lifecycleForKind RArchived None = Inr l"
    and d': "d' = archived_document e subject runRef input scope (r_subject r) l d"
  let ?key = "ai_idempotencyKey input"
  let ?reason = "map_option (\<lambda>s. cleanText e s MAX_LONG_TEXT) (ai_reason input)"
  define g where "g = (\<lambda>q. if archive_resolves d (r_subject r) runRef q
      then archive_response subject ?key ?reason (e_stamp e 0) q else q)"
  define d1 where "d1 = d\<lparr>humanRequests := map g (humanRequests d)\<rparr>"
  have g: "request_closed q \<Longrightarrow> row_kept q (g q) \<and> request_closed (g q)" for q
    using archive_response_kept by (simp add: g_def)
  have "core_step d d1"
  proof (rule core_step_asks)
    assume i: "requests_inv d"
    then have "list_all2 row_kept (humanRequests d) (map g (humanRequests d))"
      using g by (auto simp: requests_inv_def list_all_iff list_all2_conv_all_nth)
    then show "asks_step d d1"
      using i g by (auto simp: d1_def asks_step_def requests_inv_def list_all_iff rows_kept_list_all2)
  qed (simp_all add: d1_def events_inv_def quarantined_events_def)
  moreover have "core_step d1 d'"
  proof (rule core_step_run)
    show "runs d' = upd_first (is_run subject runRef scope)
        (archived_run ?key (archive_fingerprint e runRef ?reason (ai_force input)) l (e_stamp e 0)) (runs d1)"
      by (simp add: d' d1_def archived_document_def Let_def)
    show "same_log d1 d'" by (simp add: d' d1_def g_def archived_document_def Let_def same_log_def)
    fix x assume "find (is_run subject runRef scope) (runs d1) = Some x" "run_sound x"
    moreover then have "x = r" using r(1) by (simp add: d1_def findRun_def)
    ultimately show "run_sound (archived_run ?key (archive_fingerprint e runRef ?reason (ai_force input)) l (e_stamp e 0) x)"
      using r by (intro archived_run_sound) (simp_all add: env_ok_iso assms(1) archive_fingerprint_def env_ok_hex)
  qed
  ultimately show ?thesis by (rule core_step_trans)
qed

end
