(* ===== verification/Reconcile.thy ===== *)
theory Reconcile
  imports StageFacts RunFacts Managers
begin

text \<open>
  \<open>reconcileCanonicalProjection\<close> (\<open>control/store.ts\<close>): a run whose publication needs reconciling takes
  the states of the canonical board, stage by stage, in one commit. The projection names every stage of
  the run once, with its current attempt and session under their versions.
\<close>

section \<open>The projection\<close>

record stage_projection =
  cp_stageRef :: string
  cp_expectedStageVersion :: int
  cp_canonicalCardRef :: string
  cp_state :: stage_state
  cp_attemptRef :: string
  cp_expectedAttemptVersion :: int
  cp_attemptState :: attempt_state
  cp_sessionRef :: string
  cp_expectedSessionVersion :: int
  cp_sessionState :: session_state

record reconcile_input =
  ki_expectedRunVersion :: int
  ki_expectedProposalHash :: string
  ki_stages :: "stage_projection list"

definition expectedTargets :: "stage_state \<Rightarrow> (attempt_state \<times> session_state) option" where
  "expectedTargets s = map_of [(SBlocked, (AQueued, MPending)), (SReady, (AQueued, MPending)),
     (SRunning, (ARunning, MRunning)), (SWaitingHuman, (AWaitingHuman, MWaiting)),
     (SSucceeded, (ASucceeded, MCompleted)), (SFailed, (AFailed, MFailed)), (SStopped, (AStopped, MStopped))] s"

definition run_stage :: "string \<Rightarrow> string \<Rightarrow> string \<Rightarrow> stored_stage \<Rightarrow> bool" where
  "run_stage subject runRef stageRef s \<longleftrightarrow> stage_row subject runRef s \<and> st_stageRef s = stageRef"

definition run_attempt :: "string \<Rightarrow> string \<Rightarrow> string \<Rightarrow> stored_attempt \<Rightarrow> bool" where
  "run_attempt subject runRef attemptRef a \<longleftrightarrow> attempt_row subject runRef a \<and> at_attemptRef a = attemptRef"

text \<open>The chain one projection resolves to: its stage, attempt and session.\<close>

record resolved =
  rz_projection :: stage_projection
  rz_stage :: stored_stage
  rz_attempt :: stored_attempt
  rz_session :: stored_session

definition dt_projection_hash :: string where
  "dt_projection_hash = ''canonical projection proposal hash differs''"
definition dt_projection_publication :: string where
  "dt_projection_publication = ''canonical projection requires reconcile-required publication state''"
definition dt_projection_required :: string where
  "dt_projection_required = ''canonical stage projection is required''"
definition dt_projection_cover :: string where
  "dt_projection_cover = ''canonical projection must cover every run stage exactly once''"
definition dt_projection_chain :: string where
  "dt_projection_chain = ''canonical projection references do not form the current stage-attempt-session chain''"
definition dt_projection_version :: string where
  "dt_projection_version = ''canonical projection version changed''"
definition dt_projection_card :: string where "dt_projection_card = ''canonical card identity differs''"
definition dt_projection_tuple :: string where
  "dt_projection_tuple = ''canonical projection lifecycle tuple is inconsistent''"
definition dt_projection_release :: string where
  "dt_projection_release = ''canonical projection releases a stage before its dependencies succeed''"
definition dt_projection_lineage :: string where
  "dt_projection_lineage = ''canonical projection bypasses review lineage''"
definition dt_projection_dependencies :: string where
  "dt_projection_dependencies = ''canonical projection bypasses accepted iteration dependencies''"
definition dt_projection_boundaries :: string where
  "dt_projection_boundaries = ''canonical projection cannot release unresolved or non-accepted boundaries''"
definition dt_projection_descendant :: string where
  "dt_projection_descendant = ''canonical projection left a nonterminal descendant''"

definition chain_ok :: "stored_stage \<Rightarrow> stored_attempt \<Rightarrow> stored_session \<Rightarrow> bool" where
  "chain_ok s a m \<longleftrightarrow> at_stageRef a = st_stageRef s \<and> ms_stageRef m = Some (st_stageRef s)
     \<and> ms_attemptRef m = Some (at_attemptRef a) \<and> st_currentAttemptRef s = Some (at_attemptRef a)
     \<and> at_managedSessionRef a = Some (ms_sessionRef m)"

definition resolve_projection ::
  "document \<Rightarrow> string \<Rightarrow> string \<Rightarrow> stage_projection \<Rightarrow> (fail_reason \<times> string) + resolved" where
  "resolve_projection d subject runRef p =
     (case (find (run_stage subject runRef (cp_stageRef p)) (stages d),
            find (run_attempt subject runRef (cp_attemptRef p)) (attempts d),
            find (is_session subject runRef (cp_sessionRef p)) (sessions d)) of
        (Some s, Some a, Some m) \<Rightarrow>
          if \<not> chain_ok s a m then Inl (Invalid, dt_projection_chain)
          else if st_version s \<noteq> cp_expectedStageVersion p \<or> at_version a \<noteq> cp_expectedAttemptVersion p
            \<or> ms_version m \<noteq> cp_expectedSessionVersion p then Inl (Conflict, dt_projection_version)
          else if st_canonicalCardRef s \<noteq> Some (cp_canonicalCardRef p) then Inl (Conflict, dt_projection_card)
          else if expectedTargets (cp_state p) \<noteq> Some (cp_attemptState p, cp_sessionState p)
          then Inl (Invalid, dt_projection_tuple)
          else Inr \<lparr>rz_projection = p, rz_stage = s, rz_attempt = a, rz_session = m\<rparr>
      | _ \<Rightarrow> Inl (Invalid, dt_projection_chain))"

fun resolve_all ::
  "document \<Rightarrow> string \<Rightarrow> string \<Rightarrow> stage_projection list \<Rightarrow> (fail_reason \<times> string) + resolved list" where
  "resolve_all d subject runRef [] = Inr []"
| "resolve_all d subject runRef (p # ps) = sum_bind (resolve_projection d subject runRef p)
     (\<lambda>z. sum_bind (resolve_all d subject runRef ps) (\<lambda>zs. Inr (z # zs)))"

text \<open>\<open>projectedById.get(id)?.state\<close>, the last projection of a stage id.\<close>

definition projected_state :: "resolved list \<Rightarrow> string \<Rightarrow> stage_state option" where
  "projected_state zs i = map_option (\<lambda>z. cp_state (rz_projection z)) (find (\<lambda>z. st_stageId (rz_stage z) = i) (rev zs))"

definition release_error :: "document \<Rightarrow> resolved list \<Rightarrow> resolved \<Rightarrow> string option" where
  "release_error d zs z = (let t = cp_state (rz_projection z); s = rz_stage z in
     if t \<in> {SReady, SRunning, SSucceeded}
       \<and> \<not> list_all (\<lambda>i. projected_state zs i = Some SSucceeded) (st_dependsOn s) then Some dt_projection_release
     else if t = SSucceeded \<and> \<not> stageMaySucceed d s then Some dt_projection_lineage
     else if t \<in> {SReady, SRunning, SSucceeded} \<and> \<not> dependenciesAcceptedForAttempt d s
     then Some dt_projection_dependencies
     else None)"

definition projected_run_state :: "stage_state list \<Rightarrow> run_kind" where
  "projected_run_state ss = (if list_all (\<lambda>s. s = SSucceeded) ss then RSucceeded
     else if SFailed \<in> set ss then RFailed else if SStopped \<in> set ss then RStopped
     else if SRunning \<in> set ss then RRunning else RWaitingHuman)"

definition projected_manager_state :: "run_kind \<Rightarrow> session_state" where
  "projected_manager_state k = (if k = RRunning then MRunning else if k = RWaitingHuman then MWaiting
     else if k = RSucceeded then MStopped else if k = RFailed then MFailed else MStopped)"

section \<open>Applying it\<close>

definition project_stage :: "stage_state \<Rightarrow> string \<Rightarrow> stored_stage \<Rightarrow> stored_stage" where
  "project_stage t at s = (if st_state s \<noteq> t then moved_stage t at s else s)"

definition project_attempt :: "attempt_state \<Rightarrow> string \<Rightarrow> stored_attempt \<Rightarrow> stored_attempt" where
  "project_attempt t at a = (if at_state a \<noteq> t then moved_attempt t at a else a)"

definition project_session :: "session_state \<Rightarrow> string \<Rightarrow> stored_session \<Rightarrow> stored_session" where
  "project_session t at s = (if ms_state s \<noteq> t then moved_session t at s else s)"

definition apply_projection :: "string \<Rightarrow> string \<Rightarrow> string \<Rightarrow> stage_projection \<Rightarrow> document \<Rightarrow> document" where
  "apply_projection subject runRef at p d = d\<lparr>
     sessions := upd_first (is_session subject runRef (cp_sessionRef p)) (project_session (cp_sessionState p) at) (sessions d),
     attempts := upd_first (run_attempt subject runRef (cp_attemptRef p)) (project_attempt (cp_attemptState p) at) (attempts d),
     stages := upd_first (run_stage subject runRef (cp_stageRef p)) (project_stage (cp_state p) at) (stages d)\<rparr>"

definition is_run_manager :: "string \<Rightarrow> string \<Rightarrow> string \<Rightarrow> stored_session \<Rightarrow> bool" where
  "is_run_manager subject runRef sessionRef s \<longleftrightarrow> is_session subject runRef sessionRef s \<and> ms_role s = Manager"

definition projected_run :: "run_kind \<Rightarrow> run_lifecycle \<Rightarrow> string \<Rightarrow> stored_run \<Rightarrow> stored_run" where
  "projected_run k l at r = (moved_run k l at r)\<lparr>r_publicationState := PubPublished\<rparr>"

definition reconcileCanonicalProjection ::
  "env \<Rightarrow> string \<Rightarrow> string \<Rightarrow> reconcile_input \<Rightarrow> document \<Rightarrow> run_detail outcome" where
  "reconcileCanonicalProjection e subject runRef i d =
     (case findRun d subject runRef OwnSubject of
        None \<Rightarrow> Refuse NotFound dt_run_not_found
      | Some r \<Rightarrow>
        if r_version r \<noteq> ki_expectedRunVersion i then Refuse Conflict dt_run_version
        else if r_proposalHash r \<noteq> ki_expectedProposalHash i then Refuse Conflict dt_projection_hash
        else if r_publicationState r \<noteq> PubReconcileRequired then Refuse Invalid dt_projection_publication
        else if ki_stages i = [] then Refuse Invalid dt_projection_required
        else if length (ki_stages i) \<noteq> length (filter (stage_row subject runRef) (stages d))
          \<or> \<not> all_distinct (map cp_stageRef (ki_stages i)) then Refuse Invalid dt_projection_cover
        else (case resolve_all d subject runRef (ki_stages i) of
          Inl x \<Rightarrow> Refuse (fst x) (snd x)
        | Inr zs \<Rightarrow>
          (case List.find (\<lambda>x. x \<noteq> None) (map (release_error d zs) zs) of
            Some x \<Rightarrow> Refuse Invalid (the x)
          | None \<Rightarrow>
            let k = projected_run_state (map cp_state (ki_stages i)); at = e_stamp e 0 in
            if (k = RRunning \<or> k = RSucceeded) \<and> \<not> boundariesAccepted d subject runRef None
            then Refuse Invalid dt_projection_boundaries
            else let d1 = fold (apply_projection subject runRef at) (ki_stages i) d;
                     mgr = is_run_manager subject runRef (r_managerSessionRef r) in
            if find mgr (sessions d1) = None then Refuse Conflict dt_manager_missing
            else (case lifecycleForKind k None of
                Inl x \<Rightarrow> Raise x
              | Inr l \<Rightarrow>
                let f = projected_run k l at;
                    d2 = d1\<lparr>sessions := upd_first mgr (project_session (projected_manager_state k) at) (sessions d1),
                            runs := upd_first (is_run subject runRef OwnSubject) f (runs d1)\<rparr> in
                if k = RSucceeded \<and> \<not> runCanSucceed d2 (f r) then Refuse Invalid dt_projection_descendant
                else commit_run d2 (f r) (detail_of d2 subject (f r))))))"

section \<open>What a reconciliation commits\<close>

definition projected_document ::
  "string \<Rightarrow> string \<Rightarrow> string \<Rightarrow> stage_projection list \<Rightarrow> run_kind \<Rightarrow> run_lifecycle \<Rightarrow> stored_run \<Rightarrow> document \<Rightarrow> document" where
  "projected_document subject runRef at ps k l r d =
     (let d1 = fold (apply_projection subject runRef at) ps d in
      d1\<lparr>sessions := upd_first (is_run_manager subject runRef (r_managerSessionRef r))
            (project_session (projected_manager_state k) at) (sessions d1),
         runs := upd_first (is_run subject runRef OwnSubject) (projected_run k l at) (runs d1)\<rparr>)"

lemma next_doc_refused_sum [committed]:
  "next_doc (case x of Inl y \<Rightarrow> Refuse (h y) (g y) | Inr z \<Rightarrow> m z) = Some d \<longleftrightarrow> (\<exists>z. x = Inr z \<and> next_doc (m z) = Some d)"
  by (cases x) simp_all

lemma reconcile_commit:
  assumes "next_doc (reconcileCanonicalProjection e subject runRef i d) = Some d'"
  obtains r zs l k where "findRun d subject runRef OwnSubject = Some r" and "r_publicationState r = PubReconcileRequired"
    and "r_proposalHash r = ki_expectedProposalHash i" and "r_version r = ki_expectedRunVersion i"
    and "distinct (map cp_stageRef (ki_stages i))"
    and "length (ki_stages i) = length (filter (stage_row subject runRef) (stages d))"
    and "resolve_all d subject runRef (ki_stages i) = Inr zs" and "list_all (\<lambda>z. release_error d zs z = None) zs"
    and "k = projected_run_state (map cp_state (ki_stages i))"
    and "k = RRunning \<or> k = RSucceeded \<longrightarrow> boundariesAccepted d subject runRef None"
    and "lifecycleForKind k None = Inr l"
    and "k = RSucceeded \<longrightarrow> runCanSucceed (projected_document subject runRef (e_stamp e 0) (ki_stages i) k l r d)
        (projected_run k l (e_stamp e 0) r)"
    and "d' = projected_document subject runRef (e_stamp e 0) (ki_stages i) k l r d"
proof -
  let ?k = "projected_run_state (map cp_state (ki_stages i))"
  from assms obtain r zs l where f: "findRun d subject runRef OwnSubject = Some r" "\<not> r_publicationState r \<noteq> PubReconcileRequired"
      "\<not> r_proposalHash r \<noteq> ki_expectedProposalHash i" "\<not> r_version r \<noteq> ki_expectedRunVersion i"
      "\<not> (length (ki_stages i) \<noteq> length (filter (stage_row subject runRef) (stages d))
          \<or> \<not> all_distinct (map cp_stageRef (ki_stages i)))"
      "resolve_all d subject runRef (ki_stages i) = Inr zs"
      "List.find (\<lambda>x. x \<noteq> None) (map (release_error d zs) zs) = None"
      "\<not> ((?k = RRunning \<or> ?k = RSucceeded) \<and> \<not> boundariesAccepted d subject runRef None)"
      "lifecycleForKind ?k None = Inr l"
      "\<not> (?k = RSucceeded \<and> \<not> runCanSucceed (projected_document subject runRef (e_stamp e 0) (ki_stages i) ?k l r d)
        (projected_run ?k l (e_stamp e 0) r))"
      "d' = projected_document subject runRef (e_stamp e 0) (ki_stages i) ?k l r d"
    unfolding reconcileCanonicalProjection_def projected_document_def Let_def committed by blast
  have rel: "list_all (\<lambda>z. release_error d zs z = None) zs"
    using f(7) by (auto simp: find_None_iff' list_all_iff)
  show thesis
    by (rule that[OF f(1) _ _ _ _ _ f(6) rel refl _ f(9) _ f(11)]) (use f in auto)
qed

lemma apply_projections_log:
  "same_log d (fold (apply_projection subject runRef at) ps d) \<and> runs (fold (apply_projection subject runRef at) ps d) = runs d"
  by (induction ps arbitrary: d) (simp_all add: same_log_def apply_projection_def)

lemma projected_run_sound:
  "run_sound r \<Longrightarrow> lifecycleForKind k None = Inr l \<Longrightarrow> is_iso at \<Longrightarrow> run_sound (projected_run k l at r)"
  using moved_run_sound[of r k l at] by (simp add: projected_run_def sound_defs)

lemma reconcile_core:
  assumes "env_ok e" and "next_doc (reconcileCanonicalProjection e subject runRef i d) = Some d'"
  shows "core_step d d'"
proof (rule reconcile_commit[OF assms(2)])
  fix r zs l k
  assume l: "lifecycleForKind k None = Inr l"
    and d': "d' = projected_document subject runRef (e_stamp e 0) (ki_stages i) k l r d"
  show "core_step d d'"
    by (rule core_step_run[of _ _ "is_run subject runRef OwnSubject" "projected_run k l (e_stamp e 0)"])
      (use apply_projections_log[of d subject runRef "e_stamp e 0" "ki_stages i"]
        projected_run_sound[OF _ l env_ok_iso[OF assms(1)]]
        in \<open>auto simp: d' projected_document_def Let_def same_log_def\<close>)
qed

section \<open>One attempt stays in flight\<close>

text \<open>
  A reconciliation may take a settled attempt back: the current one of its stage, and no other.
\<close>

definition retargets :: "(stored_attempt \<Rightarrow> bool) \<Rightarrow> stored_attempt \<Rightarrow> stored_attempt \<Rightarrow> bool" where
  "retargets target a b \<longleftrightarrow> attempt_key b = attempt_key a \<and> stage_of b = stage_of a \<and> at_runRef b = at_runRef a
     \<and> (SETTLED_ATTEMPT (at_state a) \<longrightarrow> SETTLED_ATTEMPT (at_state b) \<or> target a)"

lemma retargets_keys: "list_all2 (retargets target) as bs \<Longrightarrow> map attempt_key bs = map attempt_key as"
  by (induction rule: list_all2_induct) (auto simp: retargets_def)

lemma flight_retarget:
  assumes i: "flight_inv d" and as: "list_all2 (retargets target) (attempts d) (attempts d')"
    and ss: "list_all2 stage_moves (stages d) (stages d')" and q: "quarantine d' = quarantine d"
    and tg: "\<And>a. a \<in> set (attempts d) \<Longrightarrow> target a
        \<Longrightarrow> \<exists>s\<in>set (stages d). stage_key s = stage_of a \<and> st_currentAttemptRef s = Some (at_attemptRef a)"
  shows "flight_inv d'"
proof -
  let ?qa = "concat (map qb_attempts (quarantine d))"
  have s: "list_all2 stage_moves (stage_rows d) (stage_rows d')"
    using ss q moves_refl(2) by (auto simp: stage_rows_def intro!: list_all2_appendI)
  have keys: "map attempt_key (attempt_rows d') = map attempt_key (attempt_rows d)"
    using retargets_keys[OF as] by (simp add: attempt_rows_def q)
  have src: "\<exists>x\<in>set (attempt_rows d). retargets (\<lambda>a. a \<in> set (attempts d) \<and> target a) x b"
    if b: "b \<in> set (attempt_rows d')" for b
  proof (cases "b \<in> set (attempts d')")
    case True
    then obtain x where x: "x \<in> set (attempts d)" "retargets target x b" using list_all2_back[OF as] by blast
    then show ?thesis by (intro bexI[of _ x]) (auto simp: retargets_def attempt_rows_def)
  next
    case False
    then have "b \<in> set ?qa" using b by (simp add: attempt_rows_def q)
    then show ?thesis by (intro bexI[of _ b]) (auto simp: retargets_def attempt_rows_def)
  qed
  have p: "points b t" if b: "b \<in> set (attempt_rows d')" and t: "t \<in> set (stage_rows d')" for b t
  proof -
    obtain x where x: "x \<in> set (attempt_rows d)" and r: "retargets (\<lambda>a. a \<in> set (attempts d) \<and> target a) x b"
      using src[OF b] by blast
    obtain y where y: "y \<in> set (stage_rows d)" "stage_moves y t" using list_all2_back[OF s t] by blast
    have xy: "points x y" using i x y(1) by (simp add: flight_inv_def)
    show ?thesis
    proof (cases "SETTLED_ATTEMPT (at_state x) \<and> \<not> SETTLED_ATTEMPT (at_state b)")
      case False
      then have "attempt_moves x b" using r by (auto simp: retargets_def attempt_moves_def)
      then show ?thesis using attempt_moves_points stage_moves_points[OF y(2)] xy by blast
    next
      case True
      then have "x \<in> set (attempts d)" "target x" using r by (auto simp: retargets_def)
      then obtain z where z: "z \<in> set (stages d)" "stage_key z = stage_of x"
        "st_currentAttemptRef z = Some (at_attemptRef x)" using tg by blast
      show ?thesis
      proof (cases "stage_key t = stage_of b")
        case True
        then have "stage_key y = stage_key z" using y(2) z(2) r by (simp add: stage_moves_def retargets_def)
        moreover have "z \<in> set (stage_rows d)" using z(1) by (simp add: stage_rows_def)
        ultimately have "y = z" using i y(1) by (auto simp: flight_inv_def distinct_map dest: inj_onD)
        then show ?thesis using z(3) y(2) r xy
          by (simp add: points_def stage_moves_def retargets_def attempt_key_def)
      qed (simp add: points_def)
    qed
  qed
  have "at_attemptRef b \<noteq> []" if "b \<in> set (attempt_rows d')" for b
    using src[OF that] i by (auto simp: flight_inv_def retargets_def attempt_key_def)
  then show ?thesis using i p keys stage_moves_keys[OF s] by (simp add: flight_inv_def)
qed

definition projected_attempt :: "string \<Rightarrow> stage_projection list \<Rightarrow> stored_attempt \<Rightarrow> bool" where
  "projected_attempt subject ps a \<longleftrightarrow> (\<exists>p\<in>set ps. attempt_key a = (subject, cp_attemptRef p))"

lemma retargets_refl: "retargets T a a"
  by (simp add: retargets_def)

lemma retargets_trans: "retargets (projected_attempt u ps) a b \<Longrightarrow> retargets (projected_attempt u ps) b c
    \<Longrightarrow> retargets (projected_attempt u ps) a c"
  by (auto simp: retargets_def projected_attempt_def)

lemma retargets_rows_trans:
  "list_all2 (retargets (projected_attempt u ps)) as bs \<Longrightarrow> list_all2 (retargets (projected_attempt u ps)) bs cs
    \<Longrightarrow> list_all2 (retargets (projected_attempt u ps)) as cs"
  by (rule list_all2_trans[OF retargets_trans])

lemma apply_projections_rows:
  assumes "set ps \<subseteq> set qs"
  shows "list_all2 (retargets (projected_attempt subject qs)) (attempts d)
      (attempts (fold (apply_projection subject runRef at) ps d))
    \<and> list_all2 stage_moves (stages d) (stages (fold (apply_projection subject runRef at) ps d))"
  using assms
proof (induction ps arbitrary: d)
  case Nil
  show ?case by (auto intro!: list_all2_refl simp: retargets_refl stage_moves_id)
next
  case (Cons p ps)
  let ?d = "apply_projection subject runRef at p d"
  have "list_all2 (retargets (projected_attempt subject qs)) (attempts d) (attempts ?d)"
    unfolding apply_projection_def using Cons.prems
    by simp (rule list_all2_upd_first, auto simp: retargets_refl retargets_def project_attempt_def moved_attempt_def
        attempt_key_def stage_of_def projected_attempt_def run_attempt_def attempt_row_def dest!: find_Some_pred)
  moreover have "list_all2 stage_moves (stages d) (stages ?d)"
    unfolding apply_projection_def
    by simp (rule list_all2_upd_first, auto simp: stage_moves_def project_stage_def moved_stage_def stage_key_def)
  moreover have "set ps \<subseteq> set qs" using Cons.prems by simp
  note Cons.IH[OF this, of ?d]
  ultimately show ?case
    using retargets_rows_trans[of subject qs "attempts d" "attempts ?d"] stage_rows_trans[of "stages d" "stages ?d"]
    by simp
qed

lemma resolve_all_chain:
  assumes "resolve_all d subject runRef ps = Inr zs" and "p \<in> set ps"
  obtains s a m where "find (run_stage subject runRef (cp_stageRef p)) (stages d) = Some s"
    and "find (run_attempt subject runRef (cp_attemptRef p)) (attempts d) = Some a" and "chain_ok s a m"
    and "expectedTargets (cp_state p) = Some (cp_attemptState p, cp_sessionState p)"
  using assms
proof (induction ps arbitrary: zs thesis)
  case (Cons q qs)
  obtain z zs' where z: "resolve_projection d subject runRef q = Inr z" "resolve_all d subject runRef qs = Inr zs'"
    using Cons.prems(2) by auto
  show ?case
  proof (cases "p = q")
    case True
    then show ?thesis
      using z(1) Cons.prems(1) by (auto simp: resolve_projection_def split: option.splits if_splits)
  next
    case False
    then show ?thesis using Cons.IH[OF Cons.prems(1) z(2)] Cons.prems(3) by auto
  qed
qed simp

lemma reconcile_stages_inv:
  assumes "stages_inv d" and "next_doc (reconcileCanonicalProjection e subject runRef i d) = Some d'"
  shows "stages_inv d'"
proof (rule reconcile_commit[OF assms(2)])
  fix r zs l k
  assume z: "resolve_all d subject runRef (ki_stages i) = Inr zs"
    and d': "d' = projected_document subject runRef (e_stamp e 0) (ki_stages i) k l r d"
  let ?d1 = "fold (apply_projection subject runRef (e_stamp e 0)) (ki_stages i) d"
  have rows: "attempts d' = attempts ?d1" "stages d' = stages ?d1" "quarantine d' = quarantine d"
    using apply_projections_log[of d subject runRef "e_stamp e 0" "ki_stages i"]
    by (simp_all add: d' projected_document_def Let_def same_log_def)
  note m = apply_projections_rows[OF order_refl, of subject "ki_stages i" d runRef "e_stamp e 0"]
  have fl: "flight_inv d" using assms(1) by (simp add: stages_inv_def)
  have "flight_inv d'"
  proof (rule flight_retarget[OF fl])
    show "list_all2 (retargets (projected_attempt subject (ki_stages i))) (attempts d) (attempts d')"
      "list_all2 stage_moves (stages d) (stages d')" using m by (simp_all add: rows)
    show "quarantine d' = quarantine d" by (rule rows(3))
    fix a assume a: "a \<in> set (attempts d)" "projected_attempt subject (ki_stages i) a"
    then obtain p where p: "p \<in> set (ki_stages i)" "attempt_key a = (subject, cp_attemptRef p)"
      by (auto simp: projected_attempt_def)
    obtain s b w where s: "find (run_stage subject runRef (cp_stageRef p)) (stages d) = Some s"
        and b: "find (run_attempt subject runRef (cp_attemptRef p)) (attempts d) = Some b" and c: "chain_ok s b w"
      by (rule resolve_all_chain[OF z p(1)])
    have bp: "at_subject b = subject" "at_attemptRef b = cp_attemptRef p"
      using find_Some_pred[OF b] by (auto simp: run_attempt_def attempt_row_def)
    have "attempt_key a = attempt_key b" using bp p(2) by (simp add: attempt_key_def)
    then have "a = b" using a(1) by (intro found_attempt_unique[OF fl _ b]) (auto simp: attempt_rows_def)
    moreover have "s \<in> set (stages d)" "st_subject s = subject"
      using find_SomeD[OF s] by (auto simp: run_stage_def stage_row_def)
    ultimately show "\<exists>s\<in>set (stages d). stage_key s = stage_of a \<and> st_currentAttemptRef s = Some (at_attemptRef a)"
      using c bp by (intro bexI[of _ s]) (auto simp: chain_ok_def stage_key_def stage_of_def)
  qed
  then show ?thesis using assms(1) rows(3) by (simp add: stages_inv_def bundles_settled_def)
qed

end
