(* ===== verification/RunActivation.thy ===== *)
theory RunActivation
  imports CoreInv
begin

text \<open>
  The activation outbox of a run (\<open>control/store.ts\<close>): \<open>getRunActivationReceipt\<close>,
  \<open>hasActiveRunActivation\<close>, \<open>claimRunActivation\<close>, \<open>advanceRunActivation\<close> and \<open>failRunActivation\<close>. A
  receipt goes from claimed to roots-activated to dispatched, or fails before it is dispatched; a run
  has at most one pending receipt, and a failed or dispatched one stays as it is.
\<close>

section \<open>Receipts of a run\<close>

record activation_input =
  av_expectedRunVersion :: int
  av_expectedManagerGeneration :: int
  av_idempotencyKey :: string

record activation_answer =
  aa_run :: run
  aa_phase :: activation_phase

definition validRunActivationInput :: "activation_input \<Rightarrow> bool" where
  "validRunActivationInput i \<longleftrightarrow> validNonEmpty (av_idempotencyKey i) MAX_SHORT_TEXT
     \<and> safe_int (av_expectedRunVersion i) \<and> 1 \<le> av_expectedRunVersion i
     \<and> safe_int (av_expectedManagerGeneration i) \<and> 1 \<le> av_expectedManagerGeneration i"

definition activationFingerprint :: "env \<Rightarrow> string \<Rightarrow> activation_input \<Rightarrow> string" where
  "activationFingerprint e runRef i = e_sha256 e (canonicalJson (JObj
     [(''runRef'', JStr runRef), (''expectedRunVersion'', JNum (av_expectedRunVersion i)),
      (''expectedManagerGeneration'', JNum (av_expectedManagerGeneration i))]))"

definition run_receipts :: "stored_run \<Rightarrow> activation_receipt list" where
  "run_receipts r = (case r_activationReceipts r of None \<Rightarrow> [] | Some as \<Rightarrow> as)"

definition latestPendingActivationReceipt :: "stored_run \<Rightarrow> activation_receipt option" where
  "latestPendingActivationReceipt r = find pending_phase (rev (run_receipts r))"

definition has_key :: "activation_input \<Rightarrow> activation_receipt \<Rightarrow> bool" where
  "has_key i a \<longleftrightarrow> ac_idempotencyKey a = av_idempotencyKey i"

definition with_phase :: "activation_phase \<Rightarrow> string \<Rightarrow> activation_receipt \<Rightarrow> activation_receipt" where
  "with_phase p at a = a\<lparr>ac_phase := p, ac_updatedAt := at\<rparr>"

definition answer_phase :: "activation_phase \<Rightarrow> run \<Rightarrow> activation_answer" where
  "answer_phase p v = \<lparr>aa_run = v, aa_phase = p\<rparr>"

definition boundaries_present :: "document \<Rightarrow> string \<Rightarrow> string \<Rightarrow> bool" where
  "boundaries_present d subject runRef \<longleftrightarrow> (let qs = filter (run_request subject runRef) (humanRequests d) in
     qs \<noteq> [] \<and> list_all boundaryAccepted qs)"

definition dt_activation_identity :: string where
  "dt_activation_identity = ''run activation identity is invalid''"
definition dt_activation_phase :: string where
  "dt_activation_phase = ''run activation identity or phase is invalid''"
definition dt_activation_reused :: string where
  "dt_activation_reused = ''idempotencyKey was reused with different activation content''"
definition dt_activation_failed :: string where
  "dt_activation_failed = ''run activation previously failed''"
definition dt_activation_claim_state :: string where
  "dt_activation_claim_state = ''claimed run activation state changed''"
definition dt_activation_state :: string where
  "dt_activation_state = ''run activation state changed''"
definition dt_activation_boundaries :: string where
  "dt_activation_boundaries = ''run activation Human Request boundaries are absent or unresolved''"
definition dt_activation_other :: string where
  "dt_activation_other = ''run activation is already claimed by another idempotencyKey''"
definition dt_activation_limit :: string where
  "dt_activation_limit = ''run has reached the 64 activation receipt limit''"
definition dt_activation_unclaimed :: string where
  "dt_activation_unclaimed = ''run activation was not claimed''"
definition dt_activation_roots :: string where
  "dt_activation_roots = ''run activation roots are not durably activated''"
definition dt_activation_dispatched :: string where
  "dt_activation_dispatched = ''dispatched run activation cannot fail''"

section \<open>Reading\<close>

definition getRunActivationReceipt ::
  "env \<Rightarrow> string \<Rightarrow> string \<Rightarrow> activation_input \<Rightarrow> document \<Rightarrow> activation_answer option outcome" where
  "getRunActivationReceipt e subject runRef i d =
     (if \<not> validRunActivationInput i then Refuse Invalid dt_activation_identity
      else case findRun d subject runRef OwnSubject of
        None \<Rightarrow> Refuse NotFound dt_run_not_found
      | Some r \<Rightarrow>
       (case find (has_key i) (run_receipts r) of
          None \<Rightarrow> Value None
        | Some a \<Rightarrow>
            if ac_fingerprint a \<noteq> activationFingerprint e runRef i
            then Refuse IdempotencyConflict dt_activation_reused
            else replay_run r (\<lambda>v. Some (answer_phase (ac_phase a) v))))"

definition hasActiveRunActivation :: "string \<Rightarrow> string \<Rightarrow> document \<Rightarrow> bool outcome" where
  "hasActiveRunActivation subject runRef d =
     (case findRun d subject runRef OwnSubject of
        None \<Rightarrow> Refuse NotFound dt_run_not_found
      | Some r \<Rightarrow> Value (latestPendingActivationReceipt r \<noteq> None
          \<or> (run_receipts r \<noteq> [] \<and> ac_phase (last (run_receipts r)) = Dispatched
             \<and> runLifecycleKind (r_lifecycle r) \<in> {RRecovering, RRunning})))"

section \<open>Claiming\<close>

definition claimed_receipts :: "env \<Rightarrow> string \<Rightarrow> activation_input \<Rightarrow> activation_receipt list \<Rightarrow> activation_receipt list" where
  "claimed_receipts e fingerprint i as =
     (let pending = list_ex pending_phase as;
          at = e_stamp e (if pending then 1 else 0);
          as' = rev (upd_first pending_phase (with_phase ActivationFailed (e_stamp e 0)) (rev as)) in
      as' @ [\<lparr>ac_idempotencyKey = av_idempotencyKey i, ac_fingerprint = fingerprint, ac_phase = Claimed,
              ac_claimedAt = at, ac_updatedAt = at\<rparr>])"

definition recovering_run :: "run_lifecycle \<Rightarrow> string \<Rightarrow> stored_run \<Rightarrow> stored_run" where
  "recovering_run l at r = r\<lparr>r_lifecycle := l, r_version := r_version r + 1, r_updatedAt := at\<rparr>"

definition claimed_run :: "env \<Rightarrow> string \<Rightarrow> activation_input \<Rightarrow> run_lifecycle \<Rightarrow> stored_run \<Rightarrow> stored_run" where
  "claimed_run e fingerprint i l r =
     (let as = claimed_receipts e fingerprint i (run_receipts r) in
      (recovering_run l (ac_claimedAt (last as)) r)\<lparr>r_activationReceipts := Some as\<rparr>)"

definition set_run :: "string \<Rightarrow> string \<Rightarrow> (stored_run \<Rightarrow> stored_run) \<Rightarrow> document \<Rightarrow> document" where
  "set_run subject runRef f d = d\<lparr>runs := upd_first (is_run subject runRef OwnSubject) f (runs d)\<rparr>"

definition claimRunActivation ::
  "env \<Rightarrow> string \<Rightarrow> string \<Rightarrow> activation_input \<Rightarrow> document \<Rightarrow> activation_answer outcome" where
  "claimRunActivation e subject runRef i d =
     (if \<not> validRunActivationInput i then Refuse Invalid dt_activation_identity
      else case findRun d subject runRef OwnSubject of
        None \<Rightarrow> Refuse NotFound dt_run_not_found
      | Some r \<Rightarrow>
        let fingerprint = activationFingerprint e runRef i;
            kind = runLifecycleKind (r_lifecycle r) in
       (case find (has_key i) (run_receipts r) of
          Some a \<Rightarrow>
            if ac_fingerprint a \<noteq> fingerprint then Refuse IdempotencyConflict dt_activation_reused
            else if ac_phase a = ActivationFailed then Refuse Conflict dt_activation_failed
            else if ac_phase a = Dispatched then replay_run r (answer_phase (ac_phase a))
            else if r_publicationState r \<noteq> PubPublished \<or> kind \<notin> {RRecovering, RWaitingHuman}
            then Refuse Conflict dt_activation_claim_state
            else if \<not> boundaries_present d subject runRef then Refuse Conflict dt_activation_boundaries
            else if kind = RWaitingHuman
            then (case lifecycleForKind RRecovering None of
                Inl x \<Rightarrow> Raise x
              | Inr l \<Rightarrow> let f = recovering_run l (e_stamp e 0) in
                  recommit_run (set_run subject runRef f d) (f r) (answer_phase (ac_phase a)))
            else replay_run r (answer_phase (ac_phase a))
        | None \<Rightarrow>
            let pending = latestPendingActivationReceipt r in
            if pending \<noteq> None \<and> kind \<noteq> RWaitingHuman then Refuse IdempotencyConflict dt_activation_other
            else if r_version r \<noteq> av_expectedRunVersion i \<or> r_managerGeneration r \<noteq> av_expectedManagerGeneration i
              \<or> r_publicationState r \<noteq> PubPublished \<or> kind \<noteq> RWaitingHuman
            then Refuse Conflict dt_activation_state
            else if \<not> boundaries_present d subject runRef then Refuse Conflict dt_activation_boundaries
            else if length (run_receipts r) \<ge> MAX_ACTIVATION_RECEIPTS_PER_RUN then Refuse Limit dt_activation_limit
            else (case lifecycleForKind RRecovering None of
                Inl x \<Rightarrow> Raise x
              | Inr l \<Rightarrow> let f = claimed_run e fingerprint i l in
                  commit_run (set_run subject runRef f d) (f r) (answer_phase Claimed))))"

section \<open>Advancing and failing\<close>

fun phase_rank :: "activation_phase \<Rightarrow> nat" where
  "phase_rank Claimed = 0"
| "phase_rank RootsActivated = 1"
| "phase_rank Dispatched = 2"
| "phase_rank ActivationFailed = 3"

definition phased_run :: "activation_input \<Rightarrow> activation_phase \<Rightarrow> string \<Rightarrow> stored_run \<Rightarrow> stored_run" where
  "phased_run i p at r = r\<lparr>r_activationReceipts :=
     map_option (upd_first (has_key i) (with_phase p at)) (r_activationReceipts r)\<rparr>"

definition advanceRunActivation ::
  "env \<Rightarrow> string \<Rightarrow> string \<Rightarrow> activation_input \<Rightarrow> activation_phase \<Rightarrow> document \<Rightarrow> activation_answer outcome" where
  "advanceRunActivation e subject runRef i phase d =
     (if \<not> validRunActivationInput i \<or> phase \<noteq> RootsActivated \<and> phase \<noteq> Dispatched
      then Refuse Invalid dt_activation_phase
      else case findRun d subject runRef OwnSubject of
        None \<Rightarrow> Refuse NotFound dt_run_not_found
      | Some r \<Rightarrow>
       (case find (has_key i) (run_receipts r) of
          None \<Rightarrow> Refuse Conflict dt_activation_unclaimed
        | Some a \<Rightarrow>
          let kind = runLifecycleKind (r_lifecycle r) in
          if ac_fingerprint a \<noteq> activationFingerprint e runRef i
          then Refuse IdempotencyConflict dt_activation_reused
          else if ac_phase a = ActivationFailed then Refuse Conflict dt_activation_failed
          else if phase_rank (ac_phase a) \<ge> phase_rank phase then replay_run r (answer_phase (ac_phase a))
          else if phase = RootsActivated \<and> kind \<noteq> RRecovering \<or> phase = Dispatched \<and> kind \<noteq> RRunning
          then Refuse Conflict dt_activation_state
          else if phase = Dispatched \<and> ac_phase a \<noteq> RootsActivated then Refuse Conflict dt_activation_roots
          else let f = phased_run i phase (e_stamp e 0) in
            commit_run (set_run subject runRef f d) (f r) (answer_phase phase)))"

definition failed_run :: "activation_input \<Rightarrow> run_lifecycle \<Rightarrow> string \<Rightarrow> stored_run \<Rightarrow> stored_run" where
  "failed_run i l at r =
     (let r' = phased_run i ActivationFailed at r in
      if runLifecycleKind (r_lifecycle r) \<in> {RRecovering, RRunning} then recovering_run l at r' else r')"

definition failRunActivation ::
  "env \<Rightarrow> string \<Rightarrow> string \<Rightarrow> activation_input \<Rightarrow> document \<Rightarrow> activation_answer outcome" where
  "failRunActivation e subject runRef i d =
     (if \<not> validRunActivationInput i then Refuse Invalid dt_activation_identity
      else case findRun d subject runRef OwnSubject of
        None \<Rightarrow> Refuse NotFound dt_run_not_found
      | Some r \<Rightarrow>
       (case find (has_key i) (run_receipts r) of
          None \<Rightarrow> Refuse Conflict dt_activation_unclaimed
        | Some a \<Rightarrow>
          if ac_fingerprint a \<noteq> activationFingerprint e runRef i
          then Refuse IdempotencyConflict dt_activation_reused
          else if ac_phase a = Dispatched then Refuse Conflict dt_activation_dispatched
          else if ac_phase a = ActivationFailed then replay_run r (answer_phase ActivationFailed)
          else (case lifecycleForKind RWaitingHuman None of
              Inl x \<Rightarrow> Raise x
            | Inr l \<Rightarrow> let f = failed_run i l (e_stamp e 0) in
                commit_run (set_run subject runRef f d) (f r) (answer_phase ActivationFailed))))"

section \<open>The receipts as a state machine\<close>

definition activation_edge :: "activation_phase \<Rightarrow> activation_phase \<Rightarrow> bool" where
  "activation_edge p q \<longleftrightarrow> (p, q) \<in> {(Claimed, RootsActivated), (RootsActivated, Dispatched),
     (Claimed, ActivationFailed), (RootsActivated, ActivationFailed)}"

definition activation_final :: "activation_phase \<Rightarrow> bool" where
  "activation_final p \<longleftrightarrow> p = Dispatched \<or> p = ActivationFailed"

interpretation activation_machine: edge_machine activation_edge activation_final
  by unfold_locales (auto simp: activation_edge_def activation_final_def)

text \<open>A receipt keeps its key, its fingerprint and its time, and its phase stays or takes one edge.\<close>

definition receipt_step :: "activation_receipt \<Rightarrow> activation_receipt \<Rightarrow> bool" where
  "receipt_step a b \<longleftrightarrow> ac_idempotencyKey b = ac_idempotencyKey a \<and> ac_fingerprint b = ac_fingerprint a
     \<and> ac_claimedAt b = ac_claimedAt a \<and> (ac_phase b = ac_phase a \<or> activation_edge (ac_phase a) (ac_phase b))"

definition receipts_step :: "activation_receipt list \<Rightarrow> activation_receipt list \<Rightarrow> bool" where
  "receipts_step as bs \<longleftrightarrow> (\<exists>cs. length cs \<le> 1 \<and> list_all (\<lambda>c. ac_phase c = Claimed) cs
     \<and> length as + length cs = length bs \<and> list_all2 receipt_step as (take (length as) bs) \<and> drop (length as) bs = cs)"

lemma receipt_step_refl [simp]: "receipt_step a a"
  by (simp add: receipt_step_def)

lemma receipts_step_same: "list_all2 receipt_step as bs \<Longrightarrow> receipts_step as bs"
  by (frule list_all2_lengthD) (auto simp: receipts_step_def intro!: exI[of _ "[]"])

lemma upd_first_steps:
  assumes "\<And>a. find p as = Some a \<Longrightarrow> receipt_step a (f a)"
  shows "list_all2 receipt_step as (upd_first p f as)"
  using assms by (induction as) (auto simp: list_all2_refl)

lemma with_phase_step: "activation_edge (ac_phase a) p \<Longrightarrow> receipt_step a (with_phase p at a)"
  by (simp add: receipt_step_def with_phase_def)

lemma pending_fails: "pending_phase a \<Longrightarrow> activation_edge (ac_phase a) ActivationFailed"
  by (auto simp: pending_phase_def activation_edge_def)

section \<open>Sound receipts\<close>

lemma with_phase_sound:
  assumes "receipts_sound (Some as)" and "find p as = Some a" and "is_iso at"
    and "pending_phase (with_phase q at a) \<Longrightarrow> pending_phase a"
  shows "receipts_sound (Some (upd_first p (with_phase q at) as))"
proof -
  have k: "map ac_idempotencyKey (upd_first p (with_phase q at) as) = map ac_idempotencyKey as"
    by (rule map_upd_first_same) (simp add: with_phase_def)
  have n: "length (filter pending_phase (upd_first p (with_phase q at) as)) \<le> length (filter pending_phase as)"
    using assms(2,4) by (induction as) (auto split: if_splits)
  have t: "list_all (\<lambda>a. validNonEmpty (ac_idempotencyKey a) MAX_SHORT_TEXT \<and> hex_len 64 (ac_fingerprint a)
         \<and> is_iso (ac_claimedAt a) \<and> is_iso (ac_updatedAt a)) (upd_first p (with_phase q at) as)"
    by (rule list_all_upd_first) (use assms(1,3) in \<open>auto simp: receipts_sound_def with_phase_def\<close>)
  show ?thesis using assms(1) n t by (simp add: receipts_sound_def k)
qed

lemma receipts_sound_rev: "receipts_sound (Some (rev as)) \<longleftrightarrow> receipts_sound (Some as)"
  by (auto simp: receipts_sound_def rev_map[symmetric] rev_filter[symmetric])

lemma claimed_receipts_sound:
  assumes "receipts_sound (Some as)" and "find (has_key i) as = None" and "env_ok e"
    and "validNonEmpty (av_idempotencyKey i) MAX_SHORT_TEXT" and "length as < MAX_ACTIVATION_RECEIPTS_PER_RUN"
  shows "receipts_sound (Some (claimed_receipts e (activationFingerprint e runRef i) i as))"
    and "receipts_step as (claimed_receipts e (activationFingerprint e runRef i) i as)"
proof -
  let ?f = "with_phase ActivationFailed (e_stamp e 0)"
  define bs where "bs = rev (upd_first pending_phase ?f (rev as))"
  have at: "is_iso (e_stamp e n)" and h: "hex_len 64 (activationFingerprint e runRef i)" for n
    using assms(3) by (simp_all add: env_ok_def activationFingerprint_def)
  have "receipts_sound (Some (rev bs))"
  proof (cases "find pending_phase (rev as)")
    case None
    then show ?thesis using assms(1) by (simp add: bs_def upd_first_None receipts_sound_rev)
  next
    case (Some a)
    have "receipts_sound (Some (upd_first pending_phase ?f (rev as)))"
      by (rule with_phase_sound[OF _ Some at]) (use assms(1) in \<open>auto simp: receipts_sound_rev pending_phase_def with_phase_def\<close>)
    then show ?thesis by (simp add: bs_def)
  qed
  then have b: "receipts_sound (Some bs)" by (simp add: receipts_sound_rev)
  have steps: "list_all2 receipt_step (rev as) (rev bs)"
    unfolding bs_def rev_rev_ident
    by (rule upd_first_steps) (auto dest!: find_SomeD intro: with_phase_step pending_fails)
  have keys: "map ac_idempotencyKey bs = map ac_idempotencyKey as"
  proof -
    have "map ac_idempotencyKey (rev bs) = map ac_idempotencyKey (rev as)"
      unfolding bs_def rev_rev_ident by (rule map_upd_first_same) (simp add: with_phase_def)
    then show ?thesis by (simp add: rev_map[symmetric])
  qed
  have len: "length bs = length as" by (simp add: bs_def)
  have nopend: "filter pending_phase bs = []"
  proof -
    have one: "length (filter pending_phase (rev as)) \<le> 1"
      using assms(1) by (simp add: receipts_sound_def rev_filter[symmetric])
    have "filter pending_phase (upd_first pending_phase ?f xs) = []" if "length (filter pending_phase xs) \<le> 1" for xs
      using that by (induction xs) (auto simp: with_phase_def pending_phase_def split: if_splits)
    from this[OF one] show ?thesis by (simp add: bs_def rev_filter[symmetric])
  qed
  have new: "av_idempotencyKey i \<notin> set (map ac_idempotencyKey as)"
    using assms(2) by (auto simp: find_None_iff' has_key_def)
  have c: "claimed_receipts e f i as = bs @ [\<lparr>ac_idempotencyKey = av_idempotencyKey i, ac_fingerprint = f,
      ac_phase = Claimed, ac_claimedAt = e_stamp e (if list_ex pending_phase as then 1 else 0),
      ac_updatedAt = e_stamp e (if list_ex pending_phase as then 1 else 0)\<rparr>]" for f
    by (simp add: claimed_receipts_def bs_def Let_def)
  show "receipts_sound (Some (claimed_receipts e (activationFingerprint e runRef i) i as))"
    using b at h assms(4,5) new nopend len keys
    by (simp add: c receipts_sound_def del: set_map)
  have "list_all2 receipt_step as bs" using steps by simp
  then show "receipts_step as (claimed_receipts e (activationFingerprint e runRef i) i as)"
    by (auto simp: c receipts_step_def len intro!: exI)
qed

section \<open>What an activation commits\<close>

definition activation_commits ::
  "string \<Rightarrow> string \<Rightarrow> document \<Rightarrow> document \<Rightarrow> stored_run \<Rightarrow> (stored_run \<Rightarrow> stored_run) \<Rightarrow> bool" where
  "activation_commits subject runRef d d' r f \<longleftrightarrow> findRun d subject runRef OwnSubject = Some r
     \<and> d' = set_run subject runRef f d"

lemma claimRunActivation_commit:
  assumes "next_doc (claimRunActivation e subject runRef i d) = Some d'"
  obtains r l f where "findRun d subject runRef OwnSubject = Some r" and "d' = set_run subject runRef f d"
    and "lc_kind (r_lifecycle r) = RWaitingHuman" and "r_publicationState r = PubPublished"
    and "boundaries_present d subject runRef" and "lifecycleForKind RRecovering None = Inr l"
    and "f = recovering_run l (e_stamp e 0)
      \<or> f = claimed_run e (activationFingerprint e runRef i) i l \<and> find (has_key i) (run_receipts r) = None
        \<and> validNonEmpty (av_idempotencyKey i) MAX_SHORT_TEXT
        \<and> length (run_receipts r) < MAX_ACTIVATION_RECEIPTS_PER_RUN"
proof -
  from assms obtain r where v: "validRunActivationInput i" and r: "findRun d subject runRef OwnSubject = Some r"
    by (auto simp: claimRunActivation_def committed split: if_splits option.splits)
  have key: "validNonEmpty (av_idempotencyKey i) MAX_SHORT_TEXT" using v by (simp add: validRunActivationInput_def)
  show thesis
  proof (cases "find (has_key i) (run_receipts r)")
    case None
    with assms v r obtain l where "lifecycleForKind RRecovering None = Inr l"
      "d' = set_run subject runRef (claimed_run e (activationFingerprint e runRef i) i l) d"
      "lc_kind (r_lifecycle r) = RWaitingHuman" "r_publicationState r = PubPublished"
      "boundaries_present d subject runRef" "length (run_receipts r) < MAX_ACTIVATION_RECEIPTS_PER_RUN"
      by (auto simp: claimRunActivation_def Let_def committed runLifecycleKind_def not_le)
    then show thesis using None r key by (intro that) auto
  next
    case (Some a)
    with assms v r obtain l where "lifecycleForKind RRecovering None = Inr l"
      "d' = set_run subject runRef (recovering_run l (e_stamp e 0)) d"
      "lc_kind (r_lifecycle r) = RWaitingHuman" "r_publicationState r = PubPublished"
      "boundaries_present d subject runRef"
      by (auto simp: claimRunActivation_def Let_def committed runLifecycleKind_def split: if_splits sum.splits)
    then show thesis using r by (intro that) auto
  qed
qed

lemma advanceRunActivation_commit:
  assumes "next_doc (advanceRunActivation e subject runRef i phase d) = Some d'"
  obtains r a where "findRun d subject runRef OwnSubject = Some r" and "find (has_key i) (run_receipts r) = Some a"
    and "activation_edge (ac_phase a) phase" and "phase \<noteq> ActivationFailed"
    and "d' = set_run subject runRef (phased_run i phase (e_stamp e 0)) d"
proof -
  from assms obtain r a where v: "phase = RootsActivated \<or> phase = Dispatched"
      and r: "findRun d subject runRef OwnSubject = Some r" "find (has_key i) (run_receipts r) = Some a"
      and p: "ac_phase a \<noteq> ActivationFailed" "\<not> phase_rank phase \<le> phase_rank (ac_phase a)"
        "phase = Dispatched \<longrightarrow> ac_phase a = RootsActivated"
      and d': "d' = set_run subject runRef (phased_run i phase (e_stamp e 0)) d"
    unfolding advanceRunActivation_def Let_def committed by auto
  have "activation_edge (ac_phase a) phase"
    using v p by (cases "ac_phase a") (auto simp: activation_edge_def)
  then show thesis using that v r d' by auto
qed

lemma failRunActivation_commit:
  assumes "next_doc (failRunActivation e subject runRef i d) = Some d'"
  obtains r a l where "findRun d subject runRef OwnSubject = Some r" and "find (has_key i) (run_receipts r) = Some a"
    and "activation_edge (ac_phase a) ActivationFailed" and "lifecycleForKind RWaitingHuman None = Inr l"
    and "d' = set_run subject runRef (failed_run i l (e_stamp e 0)) d"
proof -
  from assms obtain r a l where r: "findRun d subject runRef OwnSubject = Some r" "find (has_key i) (run_receipts r) = Some a"
      and p: "ac_phase a \<noteq> ActivationFailed" "ac_phase a \<noteq> Dispatched" "lifecycleForKind RWaitingHuman None = Inr l"
      and d': "d' = set_run subject runRef (failed_run i l (e_stamp e 0)) d"
    unfolding failRunActivation_def Let_def committed by auto
  have "activation_edge (ac_phase a) ActivationFailed"
    using p by (cases "ac_phase a") (auto simp: activation_edge_def)
  then show thesis using that p r d' by auto
qed

section \<open>Every activation keeps the wall and the receipts' machine\<close>

lemma set_run_core:
  assumes "findRun d subject runRef OwnSubject = Some r" and "run_sound r \<Longrightarrow> run_sound (f r)"
  shows "core_step d (set_run subject runRef f d)"
  using assms by (intro core_step_run[of _ _ "is_run subject runRef OwnSubject" f])
    (simp_all add: set_run_def same_log_def findRun_def)

lemma recovering_sound:
  "lifecycleForKind k None = Inr l \<Longrightarrow> final_outcome k = None \<Longrightarrow> is_iso at \<Longrightarrow> run_sound r
    \<Longrightarrow> run_sound (recovering_run l at r)"
  using moved_sound by (simp add: recovering_run_def)

lemma receipts_set_sound:
  "run_sound r \<Longrightarrow> receipts_sound x \<Longrightarrow> run_sound (r\<lparr>r_activationReceipts := x\<rparr>)"
  by (simp add: sound_defs)

lemma run_receipts_sound: "run_sound r \<Longrightarrow> receipts_sound (Some (run_receipts r))"
  by (cases "r_activationReceipts r") (simp_all add: sound_defs run_receipts_def receipts_sound_def)

lemma phased_run_sound:
  assumes "run_sound r" and "find (has_key i) (run_receipts r) = Some a" and "is_iso at"
    and "activation_edge (ac_phase a) p"
  shows "run_sound (phased_run i p at r)" and "receipts_step (run_receipts r) (run_receipts (phased_run i p at r))"
proof -
  obtain as where as: "r_activationReceipts r = Some as" and f: "find (has_key i) as = Some a"
    using assms(2) by (cases "r_activationReceipts r") (auto simp: run_receipts_def)
  have "pending_phase a" using assms(4) by (auto simp: activation_edge_def pending_phase_def)
  then have "receipts_sound (Some (upd_first (has_key i) (with_phase p at) as))"
    using run_receipts_sound[OF assms(1)] by (intro with_phase_sound[OF _ f assms(3)]) (simp_all add: run_receipts_def as)
  then show "run_sound (phased_run i p at r)"
    using receipts_set_sound[OF assms(1)] by (simp add: phased_run_def as)
  show "receipts_step (run_receipts r) (run_receipts (phased_run i p at r))"
    using f assms(4) by (intro receipts_step_same)
      (auto simp: run_receipts_def phased_run_def as intro!: upd_first_steps with_phase_step)
qed

lemma claimed_run_receipts:
  "r_activationReceipts (claimed_run e f i l r) = Some (claimed_receipts e f i (run_receipts r))"
  by (simp add: claimed_run_def Let_def)

lemma claimed_run_sound:
  assumes "run_sound r" and "env_ok e" and "lifecycleForKind RRecovering None = Inr l"
    and "find (has_key i) (run_receipts r) = None" and "validNonEmpty (av_idempotencyKey i) MAX_SHORT_TEXT"
    and "length (run_receipts r) < MAX_ACTIVATION_RECEIPTS_PER_RUN"
  shows "run_sound (claimed_run e (activationFingerprint e runRef i) i l r)"
proof -
  note c = claimed_receipts_sound(1)[OF run_receipts_sound[OF assms(1)] assms(4,2,5,6)]
  let ?as = "claimed_receipts e (activationFingerprint e runRef i) i (run_receipts r)"
  have "is_iso (ac_claimedAt (last ?as))"
    using env_ok_iso[OF assms(2)] by (simp add: claimed_receipts_def Let_def)
  then have "run_sound (recovering_run l (ac_claimedAt (last ?as)) r)"
    using recovering_sound[OF assms(3) _ _ assms(1)] by (simp add: final_outcome_def)
  then show ?thesis using receipts_set_sound[OF _ c] by (simp add: claimed_run_def Let_def)
qed

lemma failed_run_sound:
  assumes "run_sound r" and "find (has_key i) (run_receipts r) = Some a" and "is_iso at"
    and "activation_edge (ac_phase a) ActivationFailed" and "lifecycleForKind RWaitingHuman None = Inr l"
  shows "run_sound (failed_run i l at r)"
  using phased_run_sound(1)[OF assms(1-4)] recovering_sound[OF assms(5) _ assms(3)]
  by (simp add: failed_run_def Let_def final_outcome_def)

lemma claimRunActivation_core:
  assumes "env_ok e" and "next_doc (claimRunActivation e subject runRef i d) = Some d'"
  shows "core_step d d'"
proof (rule claimRunActivation_commit[OF assms(2)])
  fix r l f
  assume r: "findRun d subject runRef OwnSubject = Some r" and d': "d' = set_run subject runRef f d"
    and l: "lifecycleForKind RRecovering None = Inr l"
    and f: "f = recovering_run l (e_stamp e 0)
      \<or> f = claimed_run e (activationFingerprint e runRef i) i l \<and> find (has_key i) (run_receipts r) = None
        \<and> validNonEmpty (av_idempotencyKey i) MAX_SHORT_TEXT
        \<and> length (run_receipts r) < MAX_ACTIVATION_RECEIPTS_PER_RUN"
  show "core_step d d'"
    unfolding d' using f recovering_sound[OF l _ env_ok_iso[OF assms(1)]] claimed_run_sound[OF _ assms(1) l]
    by (intro set_run_core[OF r]) (auto simp: final_outcome_def)
qed

lemma advanceRunActivation_core:
  assumes "env_ok e" and "next_doc (advanceRunActivation e subject runRef i phase d) = Some d'"
  shows "core_step d d'"
  by (rule advanceRunActivation_commit[OF assms(2)])
    (auto intro!: set_run_core intro: phased_run_sound(1) env_ok_iso[OF assms(1)])

lemma failRunActivation_core:
  assumes "env_ok e" and "next_doc (failRunActivation e subject runRef i d) = Some d'"
  shows "core_step d d'"
  by (rule failRunActivation_commit[OF assms(2)])
    (auto intro!: set_run_core intro: failed_run_sound env_ok_iso[OF assms(1)])

end
