(* ===== verification/Deployments.thy ===== *)
theory Deployments
  imports StoreCore
begin

text \<open>
  Deployments: the record walls and the closed state machine of \<open>control/deploymentState.ts\<close>, and
  \<open>createDeployment\<close>, \<open>transitionDeployment\<close>, \<open>getDeployment\<close> of \<open>control/store.ts\<close>. The walls are
  read off the raw values they guard; \<open>stored_deployment_js\<close> is the row as it is persisted, and the
  main result is that a commit leaves a collection that \<open>assertDeploymentCollection\<close> accepts again.
\<close>

section \<open>States\<close>

definition DEPLOYMENT_STATES :: "(string \<times> deployment_state) list" where
  "DEPLOYMENT_STATES =
     [(''waiting-confirmation'', DWaitingConfirmation), (''requested'', DRequested),
      (''parked'', DParked), (''swapping'', DSwapping), (''resuming'', DResuming),
      (''succeeded'', DSucceeded), (''aborted'', DAborted), (''failed'', DFailed),
      (''acknowledged'', DAcknowledged)]"

fun deployment_state_str :: "deployment_state \<Rightarrow> string" where
  "deployment_state_str DWaitingConfirmation = ''waiting-confirmation''"
| "deployment_state_str DRequested = ''requested''"
| "deployment_state_str DParked = ''parked''"
| "deployment_state_str DSwapping = ''swapping''"
| "deployment_state_str DResuming = ''resuming''"
| "deployment_state_str DSucceeded = ''succeeded''"
| "deployment_state_str DAborted = ''aborted''"
| "deployment_state_str DFailed = ''failed''"
| "deployment_state_str DAcknowledged = ''acknowledged''"

fun js_deployment_state :: "js \<Rightarrow> deployment_state option" where
  "js_deployment_state (JStr s) = map_of DEPLOYMENT_STATES s"
| "js_deployment_state _ = None"

lemma map_of_deployment_state_str [simp]: "map_of DEPLOYMENT_STATES (deployment_state_str s) = Some s"
  by (cases s) (simp_all add: DEPLOYMENT_STATES_def)

lemma js_deployment_state_str: "js_deployment_state (JStr (deployment_state_str s)) = Some s"
  by simp

lemma js_deployment_state_SomeD: "js_deployment_state v = Some s \<Longrightarrow> v = JStr (deployment_state_str s)"
  by (cases v) (auto simp: DEPLOYMENT_STATES_def split: if_splits)

lemma deployment_state_str_inj [simp]: "deployment_state_str s = deployment_state_str t \<longleftrightarrow> s = t"
  by (metis js_deployment_state_str option.inject)

definition isTerminalDeploymentState :: "deployment_state \<Rightarrow> bool" where
  "isTerminalDeploymentState s \<longleftrightarrow> s \<in> {DSucceeded, DAborted, DFailed, DAcknowledged}"

definition OUTCOME_DEPLOYMENT_STATES :: "deployment_state list" where
  "OUTCOME_DEPLOYMENT_STATES = [DSucceeded, DAborted, DFailed]"

fun DEPLOYMENT_EDGES :: "deployment_state \<Rightarrow> deployment_state list" where
  "DEPLOYMENT_EDGES DWaitingConfirmation = [DRequested, DAborted]"
| "DEPLOYMENT_EDGES DRequested = [DParked, DAborted, DFailed]"
| "DEPLOYMENT_EDGES DParked = [DSwapping, DAborted, DFailed]"
| "DEPLOYMENT_EDGES DSwapping = [DResuming, DAborted, DFailed]"
| "DEPLOYMENT_EDGES DResuming = [DSucceeded, DAborted, DFailed]"
| "DEPLOYMENT_EDGES DSucceeded = [DAcknowledged]"
| "DEPLOYMENT_EDGES DAborted = [DAcknowledged]"
| "DEPLOYMENT_EDGES DFailed = [DAcknowledged]"
| "DEPLOYMENT_EDGES DAcknowledged = []"

definition canTransitionDeployment :: "deployment_state \<Rightarrow> deployment_state \<Rightarrow> bool" where
  "canTransitionDeployment s t \<longleftrightarrow> t \<in> set (DEPLOYMENT_EDGES s)"

interpretation deployment_machine:
  edge_machine canTransitionDeployment "\<lambda>s. s = DAcknowledged"
proof
  fix s t
  show "\<not> canTransitionDeployment s s" by (cases s) (simp_all add: canTransitionDeployment_def)
  show "s = DAcknowledged \<Longrightarrow> \<not> canTransitionDeployment s t"
    by (simp add: canTransitionDeployment_def)
qed

lemma terminal_deployment_edge:
  "canTransitionDeployment s t \<Longrightarrow> isTerminalDeploymentState s \<Longrightarrow> t = DAcknowledged"
  by (cases s) (auto simp: canTransitionDeployment_def isTerminalDeploymentState_def)

lemma to_acknowledged:
  "canTransitionDeployment s DAcknowledged \<longleftrightarrow> s \<in> set OUTCOME_DEPLOYMENT_STATES"
  by (cases s) (simp_all add: canTransitionDeployment_def OUTCOME_DEPLOYMENT_STATES_def)

section \<open>Walls\<close>

definition CREATE_KEYS :: "string list" where
  "CREATE_KEYS = [''deploymentRef'', ''idempotencyKey'', ''initialState'', ''parkWarnAt'',
     ''previousCommit'', ''requestedAt'', ''targetCommit'']"

definition TRANSITION_KEYS :: "string list" where
  "TRANSITION_KEYS = [''expectedRevision'', ''expectedState'', ''idempotencyKey'', ''nextState'', ''patch'']"

definition DEPLOYMENT_KEYS :: "string list" where
  "DEPLOYMENT_KEYS = [''abortRequestedAt'', ''acknowledgedBy'', ''blockers'', ''deploymentRef'',
     ''drainAcks'', ''error'', ''fenceRevision'', ''parkWarnAt'', ''previousCommit'', ''progress'',
     ''requestedAt'', ''revision'', ''state'', ''swapDeadlineAt'', ''targetCommit'', ''terminalOutcome'']"

definition STORED_DEPLOYMENT_KEYS :: "string list" where
  "STORED_DEPLOYMENT_KEYS = DEPLOYMENT_KEYS @ [''operationReceipts'']"

definition PATCH_FIELDS :: "string list" where
  "PATCH_FIELDS = [''swapDeadlineAt'', ''blockers'', ''progress'', ''abortRequestedAt'', ''error'',
     ''terminalOutcome'', ''acknowledgedBy'']"

definition isNullableTimestamp :: "js \<Rightarrow> bool" where
  "isNullableTimestamp v \<longleftrightarrow> v = JNull \<or> isCanonicalTimestamp v"

definition js_nat_int :: "js \<Rightarrow> int \<Rightarrow> bool" where
  "js_nat_int v lo \<longleftrightarrow> js_safe_int v \<and> lo \<le> js_int v"

definition isProgress :: "js \<Rightarrow> bool" where
  "isProgress v \<longleftrightarrow> isPlainRecord v
     \<and> hasExactKeys v [''attemptRef'', ''detail'', ''kind'', ''since'']
     \<and> js_String (fld v ''kind'') \<in>
         set [''idle'', ''waiting-attempt'', ''parked'', ''swapping'', ''rehydrating'']
     \<and> (fld v ''attemptRef'' = JNull \<or> isNonEmpty (fld v ''attemptRef''))
     \<and> isNullableTimestamp (fld v ''since'')
     \<and> (fld v ''detail'' = JNull \<or> is_str (fld v ''detail''))"

definition isTerminalOutcome :: "js \<Rightarrow> bool" where
  "isTerminalOutcome v \<longleftrightarrow> isPlainRecord v
     \<and> hasExactKeys v [''at'', ''by'', ''kind'']
     \<and> js_String (fld v ''kind'') \<in> set [''succeeded'', ''aborted'', ''failed'']
     \<and> isCanonicalTimestamp (fld v ''at'')
     \<and> isNonEmpty (fld v ''by'')"

definition isAcknowledgement :: "js \<Rightarrow> bool" where
  "isAcknowledgement v \<longleftrightarrow> isPlainRecord v
     \<and> hasExactKeys v [''at'', ''subject'']
     \<and> isNonEmpty (fld v ''subject'')
     \<and> isCanonicalTimestamp (fld v ''at'')"

definition isDrainAcks :: "js \<Rightarrow> bool" where
  "isDrainAcks v \<longleftrightarrow> isPlainRecord v
     \<and> list_all (\<lambda>(participant, ack). isNonEmpty (JStr participant)
         \<and> isPlainRecord ack
         \<and> hasExactKeys ack [''acknowledgedAt'', ''fenceRevision'']
         \<and> js_nat_int (fld ack ''fenceRevision'') 0
         \<and> isCanonicalTimestamp (fld ack ''acknowledgedAt'')) (js_fields v)"

definition isBlockers :: "js \<Rightarrow> bool" where
  "isBlockers v \<longleftrightarrow> is_arr v \<and> list_all isNonEmpty (js_arr v)"

fun meaningfulPatchFields :: "deployment_state \<Rightarrow> string list" where
  "meaningfulPatchFields DWaitingConfirmation = []"
| "meaningfulPatchFields DRequested = [''blockers'', ''progress'']"
| "meaningfulPatchFields DParked = [''blockers'', ''progress'']"
| "meaningfulPatchFields DSwapping = [''swapDeadlineAt'', ''blockers'', ''progress'']"
| "meaningfulPatchFields DResuming = [''blockers'', ''progress'']"
| "meaningfulPatchFields DSucceeded = [''progress'', ''terminalOutcome'']"
| "meaningfulPatchFields DAborted = [''abortRequestedAt'', ''error'', ''terminalOutcome'']"
| "meaningfulPatchFields DFailed = [''error'', ''terminalOutcome'']"
| "meaningfulPatchFields DAcknowledged = [''acknowledgedBy'']"

definition validateCreateDeploymentInput :: "js \<Rightarrow> bool" where
  "validateCreateDeploymentInput v \<longleftrightarrow> isPlainRecord v \<and> hasExactKeys v CREATE_KEYS
     \<and> isNonEmpty (fld v ''deploymentRef'')
     \<and> (fld v ''initialState'' = JStr ''waiting-confirmation'' \<or> fld v ''initialState'' = JStr ''requested'')
     \<and> js_hex 40 (fld v ''targetCommit'')
     \<and> js_hex 40 (fld v ''previousCommit'')
     \<and> fld v ''targetCommit'' \<noteq> fld v ''previousCommit''
     \<and> isCanonicalTimestamp (fld v ''requestedAt'')
     \<and> isCanonicalTimestamp (fld v ''parkWarnAt'')
     \<and> date_ms (js_str (fld v ''parkWarnAt'')) > date_ms (js_str (fld v ''requestedAt''))
     \<and> isNonEmpty (fld v ''idempotencyKey'')"

definition validateDeploymentTransitionPatch :: "deployment_state \<Rightarrow> js \<Rightarrow> bool" where
  "validateDeploymentTransitionPatch nextState v \<longleftrightarrow> isPlainRecord v
     \<and> list_all (\<lambda>k. k \<in> set PATCH_FIELDS \<and> k \<in> set (meaningfulPatchFields nextState)) (js_keys v)
     \<and> (hasOwn v ''swapDeadlineAt'' \<longrightarrow> isNullableTimestamp (fld v ''swapDeadlineAt''))
     \<and> (hasOwn v ''blockers'' \<longrightarrow> isBlockers (fld v ''blockers''))
     \<and> (hasOwn v ''progress'' \<longrightarrow> isProgress (fld v ''progress''))
     \<and> (hasOwn v ''abortRequestedAt'' \<longrightarrow> isNullableTimestamp (fld v ''abortRequestedAt''))
     \<and> (hasOwn v ''error'' \<longrightarrow> fld v ''error'' = JNull \<or> is_str (fld v ''error''))
     \<and> (hasOwn v ''terminalOutcome'' \<longrightarrow> fld v ''terminalOutcome'' = JNull
         \<or> isTerminalOutcome (fld v ''terminalOutcome'')
           \<and> fld (fld v ''terminalOutcome'') ''kind'' = JStr (deployment_state_str nextState))
     \<and> (hasOwn v ''acknowledgedBy'' \<longrightarrow> fld v ''acknowledgedBy'' = JNull
         \<or> isAcknowledgement (fld v ''acknowledgedBy''))
     \<and> (nextState \<in> set OUTCOME_DEPLOYMENT_STATES \<longrightarrow>
          hasOwn v ''terminalOutcome'' \<and> isTerminalOutcome (fld v ''terminalOutcome''))
     \<and> (nextState = DAcknowledged \<longrightarrow>
          hasOwn v ''acknowledgedBy'' \<and> isAcknowledgement (fld v ''acknowledgedBy''))"

definition validateTransitionDeploymentInput :: "js \<Rightarrow> bool" where
  "validateTransitionDeploymentInput v \<longleftrightarrow> isPlainRecord v \<and> hasExactKeys v TRANSITION_KEYS
     \<and> js_nat_int (fld v ''expectedRevision'') 0
     \<and> js_deployment_state (fld v ''expectedState'') \<noteq> None
     \<and> isNonEmpty (fld v ''idempotencyKey'')
     \<and> (case js_deployment_state (fld v ''nextState'') of None \<Rightarrow> False
        | Some s \<Rightarrow> validateDeploymentTransitionPatch s (fld v ''patch''))"

definition isDeployment :: "js \<Rightarrow> bool \<Rightarrow> bool" where
  "isDeployment v stored \<longleftrightarrow> isPlainRecord v
     \<and> hasExactKeys v (if stored then STORED_DEPLOYMENT_KEYS else DEPLOYMENT_KEYS)
     \<and> isNonEmpty (fld v ''deploymentRef'')
     \<and> js_nat_int (fld v ''revision'') 1
     \<and> js_hex 40 (fld v ''targetCommit'')
     \<and> js_hex 40 (fld v ''previousCommit'')
     \<and> fld v ''targetCommit'' \<noteq> fld v ''previousCommit''
     \<and> js_deployment_state (fld v ''state'') \<noteq> None
     \<and> isCanonicalTimestamp (fld v ''requestedAt'')
     \<and> isCanonicalTimestamp (fld v ''parkWarnAt'')
     \<and> date_ms (js_str (fld v ''parkWarnAt'')) > date_ms (js_str (fld v ''requestedAt''))
     \<and> isNullableTimestamp (fld v ''swapDeadlineAt'')
     \<and> js_nat_int (fld v ''fenceRevision'') 0
     \<and> isDrainAcks (fld v ''drainAcks'')
     \<and> isBlockers (fld v ''blockers'')
     \<and> isProgress (fld v ''progress'')
     \<and> isNullableTimestamp (fld v ''abortRequestedAt'')
     \<and> (fld v ''error'' = JNull \<or> is_str (fld v ''error''))
     \<and> (fld v ''terminalOutcome'' = JNull \<or> isTerminalOutcome (fld v ''terminalOutcome''))
     \<and> (fld v ''acknowledgedBy'' = JNull \<or> isAcknowledgement (fld v ''acknowledgedBy''))
     \<and> (the (js_deployment_state (fld v ''state'')) \<in> set OUTCOME_DEPLOYMENT_STATES \<longrightarrow>
          fld v ''terminalOutcome'' \<noteq> JNull \<and> fld (fld v ''terminalOutcome'') ''kind'' = fld v ''state'')
     \<and> (fld v ''state'' = JStr ''acknowledged'' \<longrightarrow>
          fld v ''terminalOutcome'' \<noteq> JNull \<and> fld v ''acknowledgedBy'' \<noteq> JNull)"

definition receipt_shape :: "js \<Rightarrow> bool" where
  "receipt_shape v \<longleftrightarrow> isPlainRecord v
     \<and> hasExactKeys v [''deploymentRevision'', ''fingerprint'', ''key'', ''operation'', ''recordedAt'', ''result'']
     \<and> isNonEmpty (fld v ''key'')
     \<and> js_hex 64 (fld v ''fingerprint'')
     \<and> (fld v ''operation'' = JStr ''create'' \<or> fld v ''operation'' = JStr ''transition'')
     \<and> js_nat_int (fld v ''deploymentRevision'') 1
     \<and> isDeployment (fld v ''result'') False
     \<and> fld (fld v ''result'') ''revision'' = fld v ''deploymentRevision''
     \<and> isCanonicalTimestamp (fld v ''recordedAt'')"

text \<open>The loop over a row's receipts: the keys seen so far, across rows.\<close>

fun check_receipts :: "string list \<Rightarrow> js list \<Rightarrow> string list option" where
  "check_receipts keys [] = Some keys"
| "check_receipts keys (r # rs) =
     (if receipt_shape r \<and> js_str (fld r ''key'') \<notin> set keys
      then check_receipts (js_str (fld r ''key'') # keys) rs else None)"

fun check_deployments :: "string list \<Rightarrow> string list \<Rightarrow> nat \<Rightarrow> js list \<Rightarrow> string option" where
  "check_deployments refs keys active [] =
     (if active > 1 then Some ''invalid control-plane active deployments'' else None)"
| "check_deployments refs keys active (v # vs) =
     (if \<not> isDeployment v True then Some ''invalid control-plane deployment''
      else if js_str (fld v ''deploymentRef'') \<in> set refs
        then Some ''invalid control-plane deployment reference''
      else if \<not> is_arr (fld v ''operationReceipts'')
          \<or> length (js_arr (fld v ''operationReceipts'')) > MAX_DEPLOYMENT_OPERATION_RECEIPTS
        then Some ''invalid control-plane deployment receipts''
      else case check_receipts keys (js_arr (fld v ''operationReceipts'')) of
          None \<Rightarrow> Some ''invalid control-plane deployment receipt''
        | Some keys' \<Rightarrow> check_deployments (js_str (fld v ''deploymentRef'') # refs) keys'
            (active + (if isTerminalDeploymentState (the (js_deployment_state (fld v ''state''))) then 0 else 1)) vs)"

text \<open>\<open>Some\<close> is the text of the error thrown.\<close>

definition assertDeploymentCollection :: "js \<Rightarrow> string option" where
  "assertDeploymentCollection v =
     (if \<not> is_arr v then Some ''invalid control-plane deployments''
      else check_deployments [] [] 0 (js_arr v))"

section \<open>Rows as they are persisted\<close>

definition outcome_kind_str :: "outcome_kind \<Rightarrow> string" where
  "outcome_kind_str k = (case k of OkSucceeded \<Rightarrow> ''succeeded'' | OkAborted \<Rightarrow> ''aborted'' | OkFailed \<Rightarrow> ''failed'')"

definition progress_js :: "deployment_progress \<Rightarrow> js" where
  "progress_js p = JObj [(''kind'', pg_kind p), (''attemptRef'', opt_str (pg_attemptRef p)),
     (''since'', opt_str (pg_since p)), (''detail'', opt_str (pg_detail p))]"

definition outcome_js :: "terminal_outcome option \<Rightarrow> js" where
  "outcome_js x = (case x of None \<Rightarrow> JNull
     | Some t \<Rightarrow> JObj [(''kind'', JStr (outcome_kind_str (to_kind t))), (''at'', JStr (to_at t)), (''by'', JStr (to_by t))])"

definition acknowledgement_js :: "acknowledgement option \<Rightarrow> js" where
  "acknowledgement_js x = (case x of None \<Rightarrow> JNull
     | Some a \<Rightarrow> JObj [(''subject'', JStr (ak_subject a)), (''at'', JStr (ak_at a))])"

definition drain_ack_js :: "drain_ack \<Rightarrow> js" where
  "drain_ack_js a = JObj [(''fenceRevision'', JNum (da_fenceRevision a)), (''acknowledgedAt'', JStr (da_acknowledgedAt a))]"

definition deployment_fields :: "'a deployment_scheme \<Rightarrow> (string \<times> js) list" where
  "deployment_fields d =
     [(''deploymentRef'', JStr (d_deploymentRef d)),
      (''revision'', JNum (d_revision d)),
      (''targetCommit'', JStr (d_targetCommit d)),
      (''previousCommit'', JStr (d_previousCommit d)),
      (''state'', JStr (deployment_state_str (d_state d))),
      (''requestedAt'', JStr (d_requestedAt d)),
      (''parkWarnAt'', JStr (d_parkWarnAt d)),
      (''swapDeadlineAt'', opt_str (d_swapDeadlineAt d)),
      (''fenceRevision'', JNum (d_fenceRevision d)),
      (''drainAcks'', JObj (map (\<lambda>(k, a). (k, drain_ack_js a)) (d_drainAcks d))),
      (''blockers'', JArr (map JStr (d_blockers d))),
      (''progress'', progress_js (d_progress d)),
      (''abortRequestedAt'', opt_str (d_abortRequestedAt d)),
      (''error'', opt_str (d_error d)),
      (''terminalOutcome'', outcome_js (d_terminalOutcome d)),
      (''acknowledgedBy'', acknowledgement_js (d_acknowledgedBy d))]"

definition deployment_js :: "'a deployment_scheme \<Rightarrow> js" where
  "deployment_js d = JObj (deployment_fields d)"

definition receipt_js :: "deployment_receipt \<Rightarrow> js" where
  "receipt_js r = JObj [(''key'', JStr (dr_key r)), (''fingerprint'', JStr (dr_fingerprint r)),
     (''operation'', JStr (case dr_operation r of OpCreate \<Rightarrow> ''create'' | OpTransition \<Rightarrow> ''transition'')),
     (''deploymentRevision'', JNum (dr_deploymentRevision r)),
     (''result'', deployment_js (dr_result r)), (''recordedAt'', JStr (dr_recordedAt r))]"

definition stored_deployment_js :: "stored_deployment \<Rightarrow> js" where
  "stored_deployment_js d =
     JObj (deployment_fields d @ [(''operationReceipts'', JArr (map receipt_js (d_operationReceipts d)))])"

section \<open>Operations\<close>

definition publicDeployment :: "stored_deployment \<Rightarrow> deployment" where
  "publicDeployment d = deployment.truncate d"

fun js_opt :: "js \<Rightarrow> string option" where
  "js_opt (JStr s) = Some s"
| "js_opt _ = None"

definition js_progress :: "js \<Rightarrow> deployment_progress" where
  "js_progress v = \<lparr>pg_kind = fld v ''kind'', pg_attemptRef = js_opt (fld v ''attemptRef''),
     pg_since = js_opt (fld v ''since''), pg_detail = js_opt (fld v ''detail'')\<rparr>"

definition js_outcome :: "js \<Rightarrow> terminal_outcome option" where
  "js_outcome v = (if v = JNull then None else Some
     \<lparr>to_kind = (if fld v ''kind'' = JStr ''succeeded'' then OkSucceeded
                 else if fld v ''kind'' = JStr ''aborted'' then OkAborted else OkFailed),
      to_at = js_str (fld v ''at''), to_by = js_str (fld v ''by'')\<rparr>)"

definition js_acknowledgement :: "js \<Rightarrow> acknowledgement option" where
  "js_acknowledgement v = (if v = JNull then None else Some
     \<lparr>ak_subject = js_str (fld v ''subject''), ak_at = js_str (fld v ''at'')\<rparr>)"

text \<open>\<open>Object.assign(deployment, clone(input.patch))\<close>\<close>

definition apply_patch :: "js \<Rightarrow> stored_deployment \<Rightarrow> stored_deployment" where
  "apply_patch p d = d
     \<lparr>d_swapDeadlineAt := (if hasOwn p ''swapDeadlineAt'' then js_opt (fld p ''swapDeadlineAt'') else d_swapDeadlineAt d),
      d_blockers := (if hasOwn p ''blockers'' then map js_str (js_arr (fld p ''blockers'')) else d_blockers d),
      d_progress := (if hasOwn p ''progress'' then js_progress (fld p ''progress'') else d_progress d),
      d_abortRequestedAt := (if hasOwn p ''abortRequestedAt'' then js_opt (fld p ''abortRequestedAt'') else d_abortRequestedAt d),
      d_error := (if hasOwn p ''error'' then js_opt (fld p ''error'') else d_error d),
      d_terminalOutcome := (if hasOwn p ''terminalOutcome'' then js_outcome (fld p ''terminalOutcome'') else d_terminalOutcome d),
      d_acknowledgedBy := (if hasOwn p ''acknowledgedBy'' then js_acknowledgement (fld p ''acknowledgedBy'') else d_acknowledgedBy d)\<rparr>"

definition find_receipt :: "string \<Rightarrow> stored_deployment list \<Rightarrow> deployment_receipt option" where
  "find_receipt key ds = find (\<lambda>r. dr_key r = key) (concat (map d_operationReceipts ds))"

definition dt_deploy_create_invalid :: string where
  "dt_deploy_create_invalid = ''deployment creation input is invalid''"

definition dt_deploy_key_reused :: string where
  "dt_deploy_key_reused = ''deployment idempotencyKey was reused with different content''"

definition dt_deploy_exists :: string where
  "dt_deploy_exists = ''a deployment with this reference or another nonterminal deployment already exists''"

definition dt_deploy_transition_invalid :: string where
  "dt_deploy_transition_invalid = ''deployment transition input is invalid''"

definition dt_deploy_not_found :: string where
  "dt_deploy_not_found = ''deployment was not found''"

definition dt_deploy_changed :: string where
  "dt_deploy_changed = ''deployment revision, state, or transition changed''"

definition getDeployment :: "string \<Rightarrow> document \<Rightarrow> deployment outcome" where
  "getDeployment deploymentRef d =
     (case find (\<lambda>x. d_deploymentRef x = deploymentRef) (deployments d) of
        None \<Rightarrow> Refuse NotFound dt_deploy_not_found
      | Some x \<Rightarrow> Value (publicDeployment x))"

definition new_deployment :: "js \<Rightarrow> stored_deployment" where
  "new_deployment input = \<lparr>d_deploymentRef = js_str (fld input ''deploymentRef''), d_revision = 1,
     d_targetCommit = js_str (fld input ''targetCommit''),
     d_previousCommit = js_str (fld input ''previousCommit''),
     d_state = the (js_deployment_state (fld input ''initialState'')),
     d_requestedAt = js_str (fld input ''requestedAt''),
     d_parkWarnAt = js_str (fld input ''parkWarnAt''),
     d_swapDeadlineAt = None, d_fenceRevision = 0, d_drainAcks = [], d_blockers = [],
     d_progress = \<lparr>pg_kind = JStr ''idle'', pg_attemptRef = None, pg_since = None, pg_detail = None\<rparr>,
     d_abortRequestedAt = None, d_error = None, d_terminalOutcome = None, d_acknowledgedBy = None,
     d_operationReceipts = []\<rparr>"

definition deployment_receipt_of ::
  "env \<Rightarrow> string \<Rightarrow> string \<Rightarrow> deployment_operation \<Rightarrow> stored_deployment \<Rightarrow> deployment_receipt" where
  "deployment_receipt_of e key fingerprint op x =
     \<lparr>dr_key = key, dr_fingerprint = fingerprint, dr_operation = op, dr_deploymentRevision = d_revision x,
      dr_result = publicDeployment x, dr_recordedAt = e_stamp e 0\<rparr>"

definition create_fingerprint :: "env \<Rightarrow> string \<Rightarrow> js \<Rightarrow> string" where
  "create_fingerprint e subject input =
     e_sha256 e (canonicalJson (JObj [(''subject'', JStr subject), (''input'', input)]))"

definition transition_fingerprint :: "env \<Rightarrow> string \<Rightarrow> string \<Rightarrow> js \<Rightarrow> string" where
  "transition_fingerprint e subject deploymentRef input =
     e_sha256 e (canonicalJson (JObj [(''subject'', JStr subject), (''deploymentRef'', JStr deploymentRef),
       (''input'', input)]))"

definition createDeployment :: "env \<Rightarrow> string \<Rightarrow> js \<Rightarrow> document \<Rightarrow> deployment outcome" where
  "createDeployment e subject input d =
     (if \<not> validNonEmpty subject MAX_SHORT_TEXT \<or> \<not> validateCreateDeploymentInput input
      then Refuse Invalid dt_deploy_create_invalid
      else let key = js_str (fld input ''idempotencyKey'');
               fingerprint = create_fingerprint e subject input in
        (case find_receipt key (deployments d) of
           Some prior \<Rightarrow>
             if dr_operation prior \<noteq> OpCreate \<or> dr_fingerprint prior \<noteq> fingerprint
             then Refuse IdempotencyConflict dt_deploy_key_reused
             else Replay (dr_result prior)
         | None \<Rightarrow>
             if list_ex (\<lambda>x. d_deploymentRef x = js_str (fld input ''deploymentRef'')) (deployments d)
               \<or> list_ex (\<lambda>x. \<not> isTerminalDeploymentState (d_state x)) (deployments d)
             then Refuse Conflict dt_deploy_exists
             else let x = new_deployment input;
                      r = deployment_receipt_of e key fingerprint OpCreate x;
                      x' = x\<lparr>d_operationReceipts := [r]\<rparr> in
               Commit (d\<lparr>deployments := deployments d @ [x']\<rparr>) (publicDeployment x)))"

text \<open>
  The receipt ring: while it is over the limit the oldest transition receipt goes. \<open>None\<close> is the
  throw when there is none to evict.
\<close>

definition evict_one :: "deployment_receipt list \<Rightarrow> deployment_receipt list option" where
  "evict_one rs = (case find (\<lambda>r. dr_operation r = OpTransition) rs of
     None \<Rightarrow> None
   | Some r \<Rightarrow> Some (takeWhile (\<lambda>r. dr_operation r \<noteq> OpTransition) rs
       @ tl (dropWhile (\<lambda>r. dr_operation r \<noteq> OpTransition) rs)))"

lemma length_evict_one: "evict_one rs = Some rs' \<Longrightarrow> length rs = Suc (length rs')"
proof -
  assume a: "evict_one rs = Some rs'"
  let ?p = "\<lambda>r. dr_operation r \<noteq> OpTransition"
  from a have ne: "dropWhile ?p rs \<noteq> []"
    by (auto simp: evict_one_def dropWhile_eq_Nil_conv split: option.splits dest: find_SomeD)
  have "length rs = length (takeWhile ?p rs @ dropWhile ?p rs)" by simp
  also have "\<dots> = Suc (length (takeWhile ?p rs @ tl (dropWhile ?p rs)))"
    using ne by (cases "dropWhile ?p rs") auto
  finally show ?thesis using a by (auto simp: evict_one_def split: option.splits)
qed

function evict_receipts :: "deployment_receipt list \<Rightarrow> deployment_receipt list option" where
  "evict_receipts rs =
     (if length rs > MAX_DEPLOYMENT_OPERATION_RECEIPTS
      then (case evict_one rs of None \<Rightarrow> None | Some rs' \<Rightarrow> evict_receipts rs')
      else Some rs)"
  by auto
termination by (relation "measure length") (auto dest: length_evict_one)

declare evict_receipts.simps [simp del]

definition dt_evict_failed :: string where
  "dt_evict_failed = ''deployment transition receipt eviction invariant failed''"

definition moved_deployment :: "js \<Rightarrow> deployment_state \<Rightarrow> stored_deployment \<Rightarrow> stored_deployment" where
  "moved_deployment input nextState x =
     (let y = apply_patch (fld input ''patch'') (x\<lparr>d_state := nextState\<rparr>)
      in y\<lparr>d_revision := d_revision y + 1\<rparr>)"

definition transitionDeployment ::
  "env \<Rightarrow> string \<Rightarrow> string \<Rightarrow> js \<Rightarrow> document \<Rightarrow> deployment outcome" where
  "transitionDeployment e subject deploymentRef input d =
     (if \<not> validNonEmpty subject MAX_SHORT_TEXT \<or> \<not> validNonEmpty deploymentRef MAX_SHORT_TEXT
        \<or> \<not> validateTransitionDeploymentInput input
      then Refuse Invalid dt_deploy_transition_invalid
      else let key = js_str (fld input ''idempotencyKey'');
               fingerprint = transition_fingerprint e subject deploymentRef input;
               nextState = the (js_deployment_state (fld input ''nextState'')) in
        (case find_receipt key (deployments d) of
           Some prior \<Rightarrow>
             if dr_operation prior \<noteq> OpTransition \<or> dr_fingerprint prior \<noteq> fingerprint
             then Refuse IdempotencyConflict dt_deploy_key_reused
             else Replay (dr_result prior)
         | None \<Rightarrow>
           (case find (\<lambda>x. d_deploymentRef x = deploymentRef) (deployments d) of
              None \<Rightarrow> Refuse NotFound dt_deploy_not_found
            | Some x \<Rightarrow>
                if d_revision x \<noteq> js_int (fld input ''expectedRevision'')
                  \<or> js_deployment_state (fld input ''expectedState'') \<noteq> Some (d_state x)
                  \<or> \<not> canTransitionDeployment (d_state x) nextState
                then Refuse Conflict dt_deploy_changed
                else let y = moved_deployment input nextState x;
                         r = deployment_receipt_of e key fingerprint OpTransition y in
                  (case evict_receipts (d_operationReceipts y @ [r]) of
                     None \<Rightarrow> Raise dt_evict_failed
                   | Some rs \<Rightarrow>
                       Commit (d\<lparr>deployments := upd_first (\<lambda>x. d_deploymentRef x = deploymentRef)
                                 (\<lambda>_. y\<lparr>d_operationReceipts := rs\<rparr>) (deployments d)\<rparr>)
                         (publicDeployment y)))))"

end
