(* ===== verification/DeploymentFacts.thy ===== *)
theory DeploymentFacts
  imports Deployments
begin

text \<open>
  What the deployment operations keep: the typed reading of the row and receipt walls, the collection
  wall as a conjunction over rows, and its preservation by \<open>createDeployment\<close> and
  \<open>transitionDeployment\<close>; replay of a committed operation; the terminal outcome of a deployment.
\<close>

section \<open>The walls on persisted rows\<close>

definition deployment_valid :: "'a deployment_scheme \<Rightarrow> bool" where
  "deployment_valid d \<longleftrightarrow> isDeployment (deployment_js d) False"

lemmas deployment_walls = js_nat_int_def js_hex_def isNullableTimestamp_def

lemma deployment_keys_ok:
  "hasExactKeys (deployment_js d) DEPLOYMENT_KEYS"
  "hasExactKeys (stored_deployment_js x) STORED_DEPLOYMENT_KEYS"
  by (simp_all add: hasExactKeys_mset deployment_js_def stored_deployment_js_def deployment_fields_def
      DEPLOYMENT_KEYS_def STORED_DEPLOYMENT_KEYS_def)

lemma fld_append:
  "hasOwn (JObj xs) k \<Longrightarrow> fld (JObj (xs @ ys)) k = fld (JObj xs) k"
  by (auto simp: fld_def hasOwn_def map_add_Some_iff map_of_append split: option.splits)

lemma stored_valid: "isDeployment (stored_deployment_js x) True = deployment_valid x"
proof -
  have f: "k \<in> set DEPLOYMENT_KEYS \<Longrightarrow> fld (stored_deployment_js x) k = fld (deployment_js x) k" for k
    unfolding stored_deployment_js_def deployment_js_def
    by (rule fld_append) (auto simp: deployment_fields_def DEPLOYMENT_KEYS_def)
  have p: "isPlainRecord (stored_deployment_js x)" "isPlainRecord (deployment_js x)"
    by (simp_all add: stored_deployment_js_def deployment_js_def)
  show ?thesis
    unfolding deployment_valid_def isDeployment_def
    by (simp add: deployment_keys_ok p f[unfolded DEPLOYMENT_KEYS_def, simplified])
qed

lemma deployment_flds:
  "fld (deployment_js d) ''deploymentRef'' = JStr (d_deploymentRef d)"
  "fld (deployment_js d) ''revision'' = JNum (d_revision d)"
  "fld (deployment_js d) ''targetCommit'' = JStr (d_targetCommit d)"
  "fld (deployment_js d) ''previousCommit'' = JStr (d_previousCommit d)"
  "fld (deployment_js d) ''state'' = JStr (deployment_state_str (d_state d))"
  "fld (deployment_js d) ''requestedAt'' = JStr (d_requestedAt d)"
  "fld (deployment_js d) ''parkWarnAt'' = JStr (d_parkWarnAt d)"
  "fld (deployment_js d) ''swapDeadlineAt'' = opt_str (d_swapDeadlineAt d)"
  "fld (deployment_js d) ''fenceRevision'' = JNum (d_fenceRevision d)"
  "fld (deployment_js d) ''drainAcks'' = JObj (map (\<lambda>(k, a). (k, drain_ack_js a)) (d_drainAcks d))"
  "fld (deployment_js d) ''blockers'' = JArr (map JStr (d_blockers d))"
  "fld (deployment_js d) ''progress'' = progress_js (d_progress d)"
  "fld (deployment_js d) ''abortRequestedAt'' = opt_str (d_abortRequestedAt d)"
  "fld (deployment_js d) ''error'' = opt_str (d_error d)"
  "fld (deployment_js d) ''terminalOutcome'' = outcome_js (d_terminalOutcome d)"
  "fld (deployment_js d) ''acknowledgedBy'' = acknowledgement_js (d_acknowledgedBy d)"
  by (simp_all add: deployment_js_def deployment_fields_def)

text \<open>The fields of a persisted row, as the wall reads them.\<close>

lemma deployment_valid_iff:
  "deployment_valid d \<longleftrightarrow>
     isNonEmpty (JStr (d_deploymentRef d)) \<and> safe_int (d_revision d) \<and> 1 \<le> d_revision d
     \<and> hex_len 40 (d_targetCommit d) \<and> hex_len 40 (d_previousCommit d)
     \<and> d_targetCommit d \<noteq> d_previousCommit d
     \<and> is_iso (d_requestedAt d) \<and> is_iso (d_parkWarnAt d)
     \<and> date_ms (d_parkWarnAt d) > date_ms (d_requestedAt d)
     \<and> isNullableTimestamp (opt_str (d_swapDeadlineAt d))
     \<and> safe_int (d_fenceRevision d) \<and> 0 \<le> d_fenceRevision d
     \<and> isDrainAcks (JObj (map (\<lambda>(k, a). (k, drain_ack_js a)) (d_drainAcks d)))
     \<and> isBlockers (JArr (map JStr (d_blockers d)))
     \<and> isProgress (progress_js (d_progress d))
     \<and> isNullableTimestamp (opt_str (d_abortRequestedAt d))
     \<and> (d_terminalOutcome d = None \<or> isTerminalOutcome (outcome_js (d_terminalOutcome d)))
     \<and> (d_acknowledgedBy d = None \<or> isAcknowledgement (acknowledgement_js (d_acknowledgedBy d)))
     \<and> (d_state d \<in> set OUTCOME_DEPLOYMENT_STATES \<longrightarrow>
          (\<exists>t. d_terminalOutcome d = Some t \<and> outcome_kind_str (to_kind t) = deployment_state_str (d_state d)))
     \<and> (d_state d = DAcknowledged \<longrightarrow> d_terminalOutcome d \<noteq> None \<and> d_acknowledgedBy d \<noteq> None)"
proof -
  have ack: "deployment_state_str s = ''acknowledged'' \<longleftrightarrow> s = DAcknowledged" for s
    by (cases s) simp_all
  have err: "opt_str x = JNull \<or> is_str (opt_str x)" for x by (cases x) (simp_all add: opt_str_def)
  have out: "outcome_js x = JNull \<longleftrightarrow> x = None" "acknowledgement_js y = JNull \<longleftrightarrow> y = None" for x y
    by (simp_all add: outcome_js_def acknowledgement_js_def split: option.splits)
  have kind: "(\<exists>y. x = Some y) \<and> fld (outcome_js x) ''kind'' = JStr s
      \<longleftrightarrow> (\<exists>t. x = Some t \<and> outcome_kind_str (to_kind t) = s)" for x s
    by (cases x) (simp_all add: outcome_js_def)
  show ?thesis
    unfolding deployment_valid_def isDeployment_def deployment_flds
    by (simp add: deployment_keys_ok[unfolded deployment_js_def] err deployment_js_def ack out kind js_nat_int_def js_hex_def)
qed

definition receipt_ok :: "deployment_receipt \<Rightarrow> bool" where
  "receipt_ok r \<longleftrightarrow> isNonEmpty (JStr (dr_key r)) \<and> hex_len 64 (dr_fingerprint r)
     \<and> deployment_valid (dr_result r) \<and> d_revision (dr_result r) = dr_deploymentRevision r
     \<and> is_iso (dr_recordedAt r)"

lemma receipt_shape_js: "receipt_shape (receipt_js r) \<longleftrightarrow> receipt_ok r"
proof -
  have op: "(case x of OpCreate \<Rightarrow> ''create'' | OpTransition \<Rightarrow> ''transition'') \<in> {''create'', ''transition''}" for x
    by (cases x) simp_all
  have rev: "isDeployment (deployment_js (dr_result r)) False \<Longrightarrow> js_nat_int (JNum (d_revision (dr_result r))) 1"
    by (simp add: isDeployment_def deployment_flds)
  have "hasExactKeys (receipt_js r)
      [''deploymentRevision'', ''fingerprint'', ''key'', ''operation'', ''recordedAt'', ''result'']"
    by (simp add: hasExactKeys_mset receipt_js_def)
  then show ?thesis
    using op[of "dr_operation r"] rev
    by (cases "dr_operation r")
      (auto simp: receipt_shape_def receipt_ok_def deployment_valid_def js_hex_def receipt_js_def deployment_flds)
qed

section \<open>The collection wall as a conjunction\<close>

definition receipts_of :: "stored_deployment list \<Rightarrow> deployment_receipt list" where
  "receipts_of ds = concat (map d_operationReceipts ds)"

definition open_deployments :: "stored_deployment list \<Rightarrow> stored_deployment list" where
  "open_deployments = filter (\<lambda>x. \<not> isTerminalDeploymentState (d_state x))"

definition row_ok :: "stored_deployment \<Rightarrow> bool" where
  "row_ok x \<longleftrightarrow> deployment_valid x \<and> length (d_operationReceipts x) \<le> MAX_DEPLOYMENT_OPERATION_RECEIPTS"

definition deployments_ok :: "stored_deployment list \<Rightarrow> bool" where
  "deployments_ok ds \<longleftrightarrow> list_all row_ok ds \<and> distinct (map d_deploymentRef ds)
     \<and> list_all receipt_ok (receipts_of ds) \<and> distinct (map dr_key (receipts_of ds))
     \<and> length (open_deployments ds) \<le> 1"

lemma receipts_of_Cons: "receipts_of (x # xs) = d_operationReceipts x @ receipts_of xs"
  by (simp add: receipts_of_def)

lemma open_deployments_Cons:
  "open_deployments (x # xs) = (if isTerminalDeploymentState (d_state x) then [] else [x]) @ open_deployments xs"
  by (simp add: open_deployments_def)

lemma receipt_key_js [simp]: "js_str (fld (receipt_js r) ''key'') = dr_key r"
  by (simp add: receipt_js_def)

lemma check_receipts_Some:
  "check_receipts keys (map receipt_js rs) =
     (if list_all receipt_ok rs \<and> distinct (map dr_key rs) \<and> set (map dr_key rs) \<inter> set keys = {}
      then Some (rev (map dr_key rs) @ keys) else None)"
proof (induction rs arbitrary: keys)
  case (Cons r rs)
  show ?case unfolding list.map check_receipts.simps receipt_key_js receipt_shape_js Cons.IH by auto
qed simp

lemma stored_fields:
  "fld (stored_deployment_js x) ''deploymentRef'' = JStr (d_deploymentRef x)"
  "fld (stored_deployment_js x) ''state'' = JStr (deployment_state_str (d_state x))"
  "fld (stored_deployment_js x) ''operationReceipts'' = JArr (map receipt_js (d_operationReceipts x))"
  by (simp_all add: stored_deployment_js_def deployment_fields_def)

lemma wall_step:
  "(row_ok x \<and> r \<notin> R \<and> (A \<and> D \<and> K \<inter> S = {})
     \<and> list_all row_ok xs \<and> E \<and> U \<inter> insert r R = {} \<and> B \<and> F \<and> L \<inter> (K \<union> S) = {}
     \<and> n + (if t then 0 else 1) + length ys \<le> 1) \<longleftrightarrow>
   (list_all row_ok (x # xs) \<and> (r \<notin> U \<and> E) \<and> insert r U \<inter> R = {}
     \<and> (A \<and> B) \<and> (D \<and> F \<and> K \<inter> L = {}) \<and> (K \<union> L) \<inter> S = {}
     \<and> n + length ((if t then [] else [x]) @ ys) \<le> 1)"
  by (cases t) auto

lemma check_deployments_None:
  "check_deployments refs keys active (map stored_deployment_js ds) = None \<longleftrightarrow>
     list_all row_ok ds \<and> distinct (map d_deploymentRef ds) \<and> set (map d_deploymentRef ds) \<inter> set refs = {}
     \<and> list_all receipt_ok (receipts_of ds) \<and> distinct (map dr_key (receipts_of ds))
     \<and> set (map dr_key (receipts_of ds)) \<inter> set keys = {}
     \<and> active + length (open_deployments ds) \<le> 1"
proof (induction ds arbitrary: refs keys active)
  case (Cons x xs)
  let ?rs = "d_operationReceipts x"
  have step: "check_deployments refs keys active (map stored_deployment_js (x # xs)) = None \<longleftrightarrow>
      row_ok x \<and> d_deploymentRef x \<notin> set refs
      \<and> (list_all receipt_ok ?rs \<and> distinct (map dr_key ?rs) \<and> set (map dr_key ?rs) \<inter> set keys = {})
      \<and> check_deployments (d_deploymentRef x # refs) (rev (map dr_key ?rs) @ keys)
          (active + (if isTerminalDeploymentState (d_state x) then 0 else 1)) (map stored_deployment_js xs) = None"
    by (auto simp: stored_valid stored_fields check_receipts_Some row_ok_def simp del: map_map)
  show ?case
    unfolding step Cons.IH unfolding receipts_of_Cons open_deployments_Cons map_append distinct_append set_append
      set_rev list.map distinct.simps list.set list_all_append
    by (rule wall_step)
qed (simp add: receipts_of_def open_deployments_def)

lemma assert_iff:
  "assertDeploymentCollection (JArr (map stored_deployment_js ds)) = None \<longleftrightarrow> deployments_ok ds"
  by (simp add: assertDeploymentCollection_def check_deployments_None deployments_ok_def)

section \<open>What a validated value reads as\<close>

lemma opt_str_js_opt: "v = JNull \<or> is_str v \<Longrightarrow> opt_str (js_opt v) = v"
  by (cases v) (auto simp: opt_str_def)

lemma nullable_is_str: "isNullableTimestamp v \<Longrightarrow> v = JNull \<or> is_str v"
  by (cases v) (auto simp: isNullableTimestamp_def)

lemma nullable_roundtrip: "isNullableTimestamp v \<Longrightarrow> isNullableTimestamp (opt_str (js_opt v))"
  using nullable_is_str opt_str_js_opt by metis

lemma progress_roundtrip: "isProgress v \<Longrightarrow> isProgress (progress_js (js_progress v))"
proof -
  assume p: "isProgress v"
  have a: "fld v ''attemptRef'' = JNull \<or> is_str (fld v ''attemptRef'')"
    using p by (cases "fld v ''attemptRef''") (auto simp: isProgress_def)
  have s: "fld v ''since'' = JNull \<or> is_str (fld v ''since'')"
    using p nullable_is_str by (simp add: isProgress_def)
  have d: "fld v ''detail'' = JNull \<or> is_str (fld v ''detail'')"
    using p by (simp add: isProgress_def)
  show ?thesis
    using p by (simp add: isProgress_def progress_js_def js_progress_def hasExactKeys_mset
        opt_str_js_opt[OF a] opt_str_js_opt[OF s] opt_str_js_opt[OF d])
qed

lemma blockers_roundtrip: "isBlockers v \<Longrightarrow> isBlockers (JArr (map JStr (map js_str (js_arr v))))"
  by (auto simp: isBlockers_def list_all_iff simp del: isNonEmpty.simps) (metis isNonEmpty_js_str)

lemma outcome_roundtrip:
  assumes "isTerminalOutcome v" and "fld v ''kind'' = JStr (deployment_state_str s)"
  shows "isTerminalOutcome (outcome_js (js_outcome v))"
    and "\<exists>t. js_outcome v = Some t \<and> outcome_kind_str (to_kind t) = deployment_state_str s"
proof -
  have n: "v \<noteq> JNull" using assms(1) by (auto simp: isTerminalOutcome_def)
  have k: "js_String (fld v ''kind'') \<in> set [''succeeded'', ''aborted'', ''failed'']"
    using assms(1) by (simp add: isTerminalOutcome_def)
  have at: "isCanonicalTimestamp (fld v ''at'')" and by_: "isNonEmpty (fld v ''by'')"
    using assms(1) by (auto simp: isTerminalOutcome_def)
  have "deployment_state_str s \<in> set [''succeeded'', ''aborted'', ''failed'']"
    using k assms(2) by simp
  then show t: "\<exists>t. js_outcome v = Some t \<and> outcome_kind_str (to_kind t) = deployment_state_str s"
    using n assms(2) by (auto simp: js_outcome_def outcome_kind_str_def)
  show "isTerminalOutcome (outcome_js (js_outcome v))"
    using n at by_ isNonEmpty_js_str[OF by_] canonical_js_str[OF at]
    by (simp add: isTerminalOutcome_def outcome_js_def js_outcome_def hasExactKeys_mset outcome_kind_str_def)
qed

lemma acknowledgement_roundtrip:
  assumes "isAcknowledgement v"
  shows "isAcknowledgement (acknowledgement_js (js_acknowledgement v)) \<and> js_acknowledgement v \<noteq> None"
proof -
  have at: "isCanonicalTimestamp (fld v ''at'')" and s: "isNonEmpty (fld v ''subject'')" and n: "v \<noteq> JNull"
    using assms by (auto simp: isAcknowledgement_def)
  show ?thesis
    using n at s isNonEmpty_js_str[OF s] canonical_js_str[OF at]
    by (simp add: isAcknowledgement_def acknowledgement_js_def js_acknowledgement_def hasExactKeys_mset)
qed

section \<open>Creation keeps the collection wall\<close>

lemma find_receipt_None: "find_receipt key ds = None \<longleftrightarrow> key \<notin> dr_key ` set (receipts_of ds)"
  by (auto simp: find_receipt_def receipts_of_def find_None_iff')

lemma receipt_of_ok:
  assumes "env_ok e" and "isNonEmpty (JStr key)" and "hex_len 64 f" and "deployment_valid x"
  shows "receipt_ok (deployment_receipt_of e key f op x)"
  using assms by (simp add: receipt_ok_def deployment_receipt_of_def env_ok_def publicDeployment_def
      deployment_valid_iff deployment.defs)

lemma new_deployment_valid:
  assumes "validateCreateDeploymentInput v"
  shows "deployment_valid (new_deployment v)"
proof -
  from assms have i: "isNonEmpty (fld v ''deploymentRef'')" "js_hex 40 (fld v ''targetCommit'')"
      "js_hex 40 (fld v ''previousCommit'')" "fld v ''targetCommit'' \<noteq> fld v ''previousCommit''"
      "isCanonicalTimestamp (fld v ''requestedAt'')" "isCanonicalTimestamp (fld v ''parkWarnAt'')"
      "date_ms (js_str (fld v ''parkWarnAt'')) > date_ms (js_str (fld v ''requestedAt''))"
      "fld v ''initialState'' = JStr ''waiting-confirmation'' \<or> fld v ''initialState'' = JStr ''requested''"
    by (auto simp: validateCreateDeploymentInput_def)
  have st: "the (js_deployment_state (fld v ''initialState'')) \<in> {DWaitingConfirmation, DRequested}"
    using i(8) by (auto simp: DEPLOYMENT_STATES_def)
  have ne: "js_str (fld v ''targetCommit'') \<noteq> js_str (fld v ''previousCommit'')"
    using i(4) js_hex_js_str[OF i(2)] js_hex_js_str[OF i(3)] by metis
  have pr: "isProgress (progress_js \<lparr>pg_kind = JStr ''idle'', pg_attemptRef = None, pg_since = None, pg_detail = None\<rparr>)"
    by (simp add: isProgress_def progress_js_def hasExactKeys_mset opt_str_def isNullableTimestamp_def)
  show ?thesis
    unfolding deployment_valid_iff
    using st ne pr i(1,7) isNonEmpty_js_str[OF i(1)] js_hex_js_str[OF i(2)] js_hex_js_str[OF i(3)]
      canonical_js_str[OF i(5)] canonical_js_str[OF i(6)]
    by (auto simp: new_deployment_def safe_int_def max_safe_def isNullableTimestamp_def opt_str_def
        isDrainAcks_def isBlockers_def OUTCOME_DEPLOYMENT_STATES_def simp del: isNonEmpty.simps)
qed

lemma createDeployment_commit:
  assumes "next_doc (createDeployment e subject input d) = Some d'"
  shows "validateCreateDeploymentInput input
     \<and> find_receipt (js_str (fld input ''idempotencyKey'')) (deployments d) = None
     \<and> \<not> list_ex (\<lambda>x. d_deploymentRef x = js_str (fld input ''deploymentRef'')) (deployments d)
     \<and> open_deployments (deployments d) = []
     \<and> d' = d\<lparr>deployments := deployments d @ [new_deployment input\<lparr>d_operationReceipts :=
          [deployment_receipt_of e (js_str (fld input ''idempotencyKey'')) (create_fingerprint e subject input)
             OpCreate (new_deployment input)]\<rparr>]\<rparr>"
  using assms
  by (auto simp: createDeployment_def Let_def open_deployments_def filter_empty_conv list_ex_iff
      split: if_splits option.splits)

lemma createDeployment_keeps_ok:
  assumes "env_ok e"
  shows "keeps (\<lambda>d. deployments_ok (deployments d)) (createDeployment e subject input)"
proof (rule keepsI)
  fix d d' assume ok: "deployments_ok (deployments d)"
    and n: "next_doc (createDeployment e subject input d) = Some d'"
  note c = createDeployment_commit[OF n]
  let ?key = "js_str (fld input ''idempotencyKey'')"
  let ?r = "deployment_receipt_of e ?key (create_fingerprint e subject input) OpCreate (new_deployment input)"
  have v: "deployment_valid (new_deployment input)" using c new_deployment_valid by blast
  then have v': "row_ok (new_deployment input\<lparr>d_operationReceipts := [?r]\<rparr>)"
    by (simp add: row_ok_def deployment_valid_iff MAX_DEPLOYMENT_OPERATION_RECEIPTS_def)
  have "isNonEmpty (fld input ''idempotencyKey'')" using c by (simp add: validateCreateDeploymentInput_def)
  then have "isNonEmpty (JStr ?key)" using isNonEmpty_js_str by metis
  then have r: "receipt_ok ?r"
    using receipt_of_ok[OF assms _ _ v] assms by (simp add: create_fingerprint_def env_ok_def)
  have k: "?key \<notin> dr_key ` set (receipts_of (deployments d))" using c find_receipt_None by blast
  have kr: "dr_key ?r = ?key" by (simp add: deployment_receipt_of_def)
  have nr: "d_deploymentRef (new_deployment input) \<notin> set (map d_deploymentRef (deployments d))"
    using c by (auto simp: list_ex_iff new_deployment_def)
  have app: "receipts_of (deployments d @ [y]) = receipts_of (deployments d) @ d_operationReceipts y"
      "length (open_deployments (deployments d @ [y])) \<le> length (open_deployments (deployments d)) + 1" for y
    by (simp_all add: receipts_of_def open_deployments_def)
  show "deployments_ok (deployments d')"
    using ok c v' r k nr app(2) by (simp add: deployments_ok_def app(1) kr)
qed

section \<open>A transition keeps the collection wall\<close>

lemma evict_one_set:
  "evict_one rs = Some rs' \<Longrightarrow> set rs' \<subseteq> set rs \<and> (distinct (map f rs) \<longrightarrow> distinct (map f rs'))"
proof -
  assume a: "evict_one rs = Some rs'"
  let ?p = "\<lambda>r. dr_operation r \<noteq> OpTransition"
  have rs': "rs' = takeWhile ?p rs @ tl (dropWhile ?p rs)"
    using a by (auto simp: evict_one_def split: option.splits)
  have "rs = takeWhile ?p rs @ dropWhile ?p rs" by simp
  then obtain xs ys where rs: "rs = xs @ ys" "rs' = xs @ tl ys" using rs' by metis
  show ?thesis by (cases ys) (auto simp: rs)
qed

lemma evict_receipts_set:
  "evict_receipts rs = Some rs' \<Longrightarrow> set rs' \<subseteq> set rs
     \<and> (distinct (map f rs) \<longrightarrow> distinct (map f rs')) \<and> length rs' \<le> MAX_DEPLOYMENT_OPERATION_RECEIPTS"
proof (induction rs rule: evict_receipts.induct)
  case (1 rs)
  show ?case
  proof (cases "length rs > MAX_DEPLOYMENT_OPERATION_RECEIPTS")
    case True
    with "1.prems" obtain qs where q: "evict_one rs = Some qs" "evict_receipts qs = Some rs'"
      by (subst (asm) evict_receipts.simps) (auto split: option.splits)
    show ?thesis using "1.IH"[OF True q] evict_one_set[OF q(1), of f] by blast
  next
    case False
    with "1.prems" have "rs' = rs" by (subst (asm) evict_receipts.simps) simp
    with False show ?thesis by simp
  qed
qed

lemma patch_own:
  "validateDeploymentTransitionPatch s p \<Longrightarrow> hasOwn p k \<Longrightarrow> k \<in> set (meaningfulPatchFields s)"
proof -
  assume p: "validateDeploymentTransitionPatch s p" and "hasOwn p k"
  then have "k \<in> set (js_keys p)" by (auto simp: hasOwn_def js_keys_def dest!: map_of_SomeD intro: rev_image_eqI)
  with p show ?thesis unfolding validateDeploymentTransitionPatch_def list_all_iff by blast
qed

lemma moved_fields:
  "d_deploymentRef (moved_deployment v s x) = d_deploymentRef x"
  "d_revision (moved_deployment v s x) = d_revision x + 1"
  "d_targetCommit (moved_deployment v s x) = d_targetCommit x"
  "d_previousCommit (moved_deployment v s x) = d_previousCommit x"
  "d_state (moved_deployment v s x) = s"
  "d_requestedAt (moved_deployment v s x) = d_requestedAt x"
  "d_parkWarnAt (moved_deployment v s x) = d_parkWarnAt x"
  "d_fenceRevision (moved_deployment v s x) = d_fenceRevision x"
  "d_drainAcks (moved_deployment v s x) = d_drainAcks x"
  "d_operationReceipts (moved_deployment v s x) = d_operationReceipts x"
  by (simp_all add: moved_deployment_def apply_patch_def Let_def)

lemma moved_terminalOutcome:
  "d_terminalOutcome (moved_deployment v s x) =
     (let p = fld v ''patch'' in
        if hasOwn p ''terminalOutcome'' then js_outcome (fld p ''terminalOutcome'') else d_terminalOutcome x)"
  by (simp add: moved_deployment_def apply_patch_def Let_def)

lemma moved_acknowledgedBy:
  "d_acknowledgedBy (moved_deployment v s x) =
     (let p = fld v ''patch'' in
        if hasOwn p ''acknowledgedBy'' then js_acknowledgement (fld p ''acknowledgedBy'') else d_acknowledgedBy x)"
  by (simp add: moved_deployment_def apply_patch_def Let_def)

text \<open>The terminal outcome of a validated move: what the patch wrote, or what the row had.\<close>

lemma moved_outcome_ok:
  assumes p: "validateDeploymentTransitionPatch s (fld v ''patch'')"
    and x: "deployment_valid x" and e: "canTransitionDeployment (d_state x) s"
  defines "y \<equiv> moved_deployment v s x"
  shows "d_terminalOutcome y = None \<or> isTerminalOutcome (outcome_js (d_terminalOutcome y))"
    and "s \<in> set OUTCOME_DEPLOYMENT_STATES \<Longrightarrow>
      \<exists>t. d_terminalOutcome y = Some t \<and> outcome_kind_str (to_kind t) = deployment_state_str s"
    and "s = DAcknowledged \<Longrightarrow> d_terminalOutcome y \<noteq> None \<and> d_acknowledgedBy y \<noteq> None"
    and "d_acknowledgedBy y = None \<or> isAcknowledgement (acknowledgement_js (d_acknowledgedBy y))"
proof -
  let ?p = "fld v ''patch''"
  have out: "hasOwn ?p ''terminalOutcome'' \<longrightarrow> fld ?p ''terminalOutcome'' = JNull
      \<or> isTerminalOutcome (fld ?p ''terminalOutcome'')
        \<and> fld (fld ?p ''terminalOutcome'') ''kind'' = JStr (deployment_state_str s)"
    and ack: "hasOwn ?p ''acknowledgedBy'' \<longrightarrow> fld ?p ''acknowledgedBy'' = JNull
      \<or> isAcknowledgement (fld ?p ''acknowledgedBy'')"
    using p unfolding validateDeploymentTransitionPatch_def by blast+
  have x_out: "d_terminalOutcome x = None \<or> isTerminalOutcome (outcome_js (d_terminalOutcome x))"
    and x_ack: "d_acknowledgedBy x = None \<or> isAcknowledgement (acknowledgement_js (d_acknowledgedBy x))"
    using x unfolding deployment_valid_iff by blast+
  have null: "js_outcome JNull = None" "js_acknowledgement JNull = None"
    by (simp_all add: js_outcome_def js_acknowledgement_def)
  show "d_terminalOutcome y = None \<or> isTerminalOutcome (outcome_js (d_terminalOutcome y))"
    using x_out out outcome_roundtrip(1) null by (auto simp: y_def moved_terminalOutcome Let_def)
  show "d_acknowledgedBy y = None \<or> isAcknowledgement (acknowledgement_js (d_acknowledgedBy y))"
    using x_ack ack acknowledgement_roundtrip null by (auto simp: y_def moved_acknowledgedBy Let_def)
  show "\<exists>t. d_terminalOutcome y = Some t \<and> outcome_kind_str (to_kind t) = deployment_state_str s"
    if s: "s \<in> set OUTCOME_DEPLOYMENT_STATES"
  proof -
    have h: "hasOwn ?p ''terminalOutcome''" "isTerminalOutcome (fld ?p ''terminalOutcome'')"
      using p s unfolding validateDeploymentTransitionPatch_def by blast+
    then have "fld (fld ?p ''terminalOutcome'') ''kind'' = JStr (deployment_state_str s)"
      using out by (auto simp: isTerminalOutcome_def)
    from outcome_roundtrip(2)[OF h(2) this] h(1) show ?thesis
      by (simp add: y_def moved_terminalOutcome)
  qed
  show "d_terminalOutcome y \<noteq> None \<and> d_acknowledgedBy y \<noteq> None" if s: "s = DAcknowledged"
  proof -
    have "hasOwn ?p ''acknowledgedBy''" "isAcknowledgement (fld ?p ''acknowledgedBy'')"
      using p s unfolding validateDeploymentTransitionPatch_def by blast+
    moreover have "\<not> hasOwn ?p ''terminalOutcome''"
      using patch_own[OF p] s by force
    moreover have "d_terminalOutcome x \<noteq> None"
      using x e s unfolding to_acknowledged deployment_valid_iff by (metis option.discI to_acknowledged)
    ultimately show ?thesis
      using acknowledgement_roundtrip by (simp add: y_def moved_terminalOutcome moved_acknowledgedBy)
  qed
qed

lemma moved_valid:
  assumes p: "validateDeploymentTransitionPatch s (fld v ''patch'')"
    and x: "deployment_valid x" and e: "canTransitionDeployment (d_state x) s"
    and r: "d_revision x < max_safe"
  shows "deployment_valid (moved_deployment v s x)"
proof -
  let ?p = "fld v ''patch''" and ?y = "moved_deployment v s x"
  have w: "hasOwn ?p ''swapDeadlineAt'' \<longrightarrow> isNullableTimestamp (fld ?p ''swapDeadlineAt'')"
      "hasOwn ?p ''abortRequestedAt'' \<longrightarrow> isNullableTimestamp (fld ?p ''abortRequestedAt'')"
      "hasOwn ?p ''blockers'' \<longrightarrow> isBlockers (fld ?p ''blockers'')"
      "hasOwn ?p ''progress'' \<longrightarrow> isProgress (fld ?p ''progress'')"
    using p unfolding validateDeploymentTransitionPatch_def by blast+
  have o: "isNullableTimestamp (opt_str (d_swapDeadlineAt x))" "isNullableTimestamp (opt_str (d_abortRequestedAt x))"
      "isBlockers (JArr (map JStr (d_blockers x)))" "isProgress (progress_js (d_progress x))"
    using x unfolding deployment_valid_iff by blast+
  have sw: "isNullableTimestamp (opt_str (d_swapDeadlineAt ?y))"
    using w(1) o(1) nullable_roundtrip by (simp add: moved_deployment_def apply_patch_def Let_def)
  have ab: "isNullableTimestamp (opt_str (d_abortRequestedAt ?y))"
    using w(2) o(2) nullable_roundtrip by (simp add: moved_deployment_def apply_patch_def Let_def)
  have bl: "isBlockers (JArr (map JStr (d_blockers ?y)))"
    using w(3) o(3) blockers_roundtrip by (simp add: moved_deployment_def apply_patch_def Let_def del: map_map)
  have pg: "isProgress (progress_js (d_progress ?y))"
    using w(4) o(4) progress_roundtrip by (simp add: moved_deployment_def apply_patch_def Let_def)
  show ?thesis
    using x r sw ab bl pg moved_outcome_ok[OF p x e]
    unfolding deployment_valid_iff moved_fields by (simp add: safe_int_def del: isNonEmpty.simps)
qed

section \<open>The life of a deployment is short\<close>

text \<open>
  Every edge climbs the rank, so a row sees at most seven revisions and as many receipts: the receipt
  ring never reaches its limit of 64, and its eviction invariant cannot fail.
\<close>

fun deployment_rank :: "deployment_state \<Rightarrow> nat" where
  "deployment_rank DWaitingConfirmation = 1"
| "deployment_rank DRequested = 2"
| "deployment_rank DParked = 3"
| "deployment_rank DSwapping = 4"
| "deployment_rank DResuming = 5"
| "deployment_rank DAcknowledged = 7"
| "deployment_rank _ = 6"

lemma deployment_rank_climbs: "canTransitionDeployment s t \<Longrightarrow> deployment_rank s < deployment_rank t"
  by (cases s) (auto simp: canTransitionDeployment_def)

lemma deployment_rank_bounds: "1 \<le> deployment_rank s \<and> deployment_rank s \<le> 7"
  by (cases s) simp_all

definition row_young :: "stored_deployment \<Rightarrow> bool" where
  "row_young x \<longleftrightarrow> d_revision x \<le> int (deployment_rank (d_state x))
     \<and> length (d_operationReceipts x) \<le> deployment_rank (d_state x)"

definition deployments_inv :: "document \<Rightarrow> bool" where
  "deployments_inv d \<longleftrightarrow> deployments_ok (deployments d) \<and> list_all row_young (deployments d)"

interpretation deployments_inv: store_invariant deployments_inv
  by unfold_locales (simp add: deployments_inv_def)

lemma evict_receipts_id: "length rs \<le> MAX_DEPLOYMENT_OPERATION_RECEIPTS \<Longrightarrow> evict_receipts rs = Some rs"
  by (subst evict_receipts.simps) simp

lemma young_push:
  "row_young x \<Longrightarrow> length (d_operationReceipts x @ [r]) \<le> MAX_DEPLOYMENT_OPERATION_RECEIPTS"
  using deployment_rank_bounds[of "d_state x"]
  by (simp add: row_young_def MAX_DEPLOYMENT_OPERATION_RECEIPTS_def)

lemma createDeployment_keeps:
  assumes "env_ok e" shows "keeps deployments_inv (createDeployment e subject input)"
proof (rule keepsI)
  fix d d' assume i: "deployments_inv d" and n: "next_doc (createDeployment e subject input d) = Some d'"
  have "deployments_ok (deployments d')"
    using keepsD[OF createDeployment_keeps_ok[OF assms] _ n] i by (simp add: deployments_inv_def)
  moreover have "row_young (new_deployment input\<lparr>d_operationReceipts := [r]\<rparr>)" for r
    using deployment_rank_bounds[of "d_state (new_deployment input)"]
    by (simp add: row_young_def new_deployment_def)
  ultimately show "deployments_inv d'"
    using i createDeployment_commit[OF n] by (simp add: deployments_inv_def)
qed

text \<open>The row a move finds, and what a move commits when the collection invariant holds.\<close>

lemma transitionDeployment_commit:
  assumes "deployments_inv d" and "next_doc (transitionDeployment e subject dref input d) = Some d'"
  defines "key \<equiv> js_str (fld input ''idempotencyKey'')"
  obtains x s where "find (\<lambda>x. d_deploymentRef x = dref) (deployments d) = Some x"
    and "js_deployment_state (fld input ''nextState'') = Some s"
    and "validateDeploymentTransitionPatch s (fld input ''patch'')"
    and "canTransitionDeployment (d_state x) s" and "isNonEmpty (JStr key)"
    and "find_receipt key (deployments d) = None"
    and "d' = d\<lparr>deployments := upd_first (\<lambda>x. d_deploymentRef x = dref)
      (\<lambda>_. moved_deployment input s x\<lparr>d_operationReceipts := d_operationReceipts x @
        [deployment_receipt_of e key (transition_fingerprint e subject dref input) OpTransition
          (moved_deployment input s x)]\<rparr>) (deployments d)\<rparr>"
    and "transitionDeployment e subject dref input d = Commit d' (publicDeployment (moved_deployment input s x))"
proof -
  from assms(2) obtain x s where f: "find (\<lambda>x. d_deploymentRef x = dref) (deployments d) = Some x"
      "js_deployment_state (fld input ''nextState'') = Some s"
    and t: "find_receipt key (deployments d) = None" "validateTransitionDeploymentInput input"
    by (auto simp: transitionDeployment_def Let_def key_def validateTransitionDeploymentInput_def
        simp del: js_deployment_state.simps isNonEmpty.simps split: if_splits option.splits)
  have v: "validateDeploymentTransitionPatch s (fld input ''patch'')" "isNonEmpty (fld input ''idempotencyKey'')"
    using t f unfolding validateTransitionDeploymentInput_def by simp_all
  let ?y = "moved_deployment input s x"
  let ?r = "deployment_receipt_of e key (transition_fingerprint e subject dref input) OpTransition ?y"
  have "row_young x"
    using assms(1) find_Some_in[OF f(1)] by (auto simp: deployments_inv_def list_all_iff)
  then have ev: "evict_receipts (d_operationReceipts ?y @ [?r]) = Some (d_operationReceipts x @ [?r])"
    using evict_receipts_id young_push by (simp add: moved_fields)
  from assms(2) f t(1) ev have "canTransitionDeployment (d_state x) s"
    and "transitionDeployment e subject dref input d = Commit d' (publicDeployment ?y)"
    and "d' = d\<lparr>deployments := upd_first (\<lambda>x. d_deploymentRef x = dref)
      (\<lambda>_. ?y\<lparr>d_operationReceipts := d_operationReceipts x @ [?r]\<rparr>) (deployments d)\<rparr>"
    unfolding transitionDeployment_def Let_def key_def[symmetric]
    by (auto split: if_splits)
  moreover have "isNonEmpty (JStr key)" using v(2) isNonEmpty_js_str by (metis key_def)
  ultimately show thesis using that f v(1) t(1) by blast
qed

lemma deployments_ok_split:
  "deployments_ok (as @ x # bs) \<longleftrightarrow> list_all row_ok as \<and> row_ok x \<and> list_all row_ok bs
     \<and> distinct (map d_deploymentRef as @ d_deploymentRef x # map d_deploymentRef bs)
     \<and> list_all receipt_ok (receipts_of as) \<and> list_all receipt_ok (d_operationReceipts x)
     \<and> list_all receipt_ok (receipts_of bs)
     \<and> distinct (map dr_key (receipts_of as @ d_operationReceipts x @ receipts_of bs))
     \<and> length (open_deployments as) + length (open_deployments [x]) + length (open_deployments bs) \<le> 1"
  by (auto simp: deployments_ok_def receipts_of_def open_deployments_def)

lemma transitionDeployment_keeps:
  assumes "env_ok e" shows "keeps deployments_inv (transitionDeployment e subject dref input)"
proof (rule keepsI)
  fix d d' assume i: "deployments_inv d" and n: "next_doc (transitionDeployment e subject dref input d) = Some d'"
  let ?key = "js_str (fld input ''idempotencyKey'')"
  obtain x s where x: "find (\<lambda>x. d_deploymentRef x = dref) (deployments d) = Some x"
    and p: "validateDeploymentTransitionPatch s (fld input ''patch'')"
    and e: "canTransitionDeployment (d_state x) s" and k: "isNonEmpty (JStr ?key)"
    and fr: "find_receipt ?key (deployments d) = None"
    and d': "d' = d\<lparr>deployments := upd_first (\<lambda>x. d_deploymentRef x = dref)
      (\<lambda>_. moved_deployment input s x\<lparr>d_operationReceipts := d_operationReceipts x @
        [deployment_receipt_of e ?key (transition_fingerprint e subject dref input) OpTransition
          (moved_deployment input s x)]\<rparr>) (deployments d)\<rparr>"
    using transitionDeployment_commit[OF i n] by metis
  let ?y = "moved_deployment input s x"
  let ?r = "deployment_receipt_of e ?key (transition_fingerprint e subject dref input) OpTransition ?y"
  let ?z = "?y\<lparr>d_operationReceipts := d_operationReceipts x @ [?r]\<rparr>"
  obtain as bs where ds: "deployments d = as @ x # bs"
    and ds': "upd_first (\<lambda>x. d_deploymentRef x = dref) (\<lambda>_. ?z) (deployments d) = as @ ?z # bs"
    using upd_first_split[OF x, of "\<lambda>_. ?z"] by metis
  have ok: "deployments_ok (as @ x # bs)" and yng: "row_young x" "list_all row_young (as @ bs)"
    using i by (auto simp: deployments_inv_def ds)
  have xv: "deployment_valid x" using ok by (simp add: deployments_ok_split row_ok_def)
  have "d_revision x < max_safe"
    using yng(1) deployment_rank_bounds[of "d_state x"] by (simp add: row_young_def max_safe_def)
  then have yv: "deployment_valid ?y" using moved_valid[OF p xv e] by blast
  have r: "receipt_ok ?r"
    using receipt_of_ok[OF assms k _ yv] assms by (simp add: transition_fingerprint_def env_ok_def)
  have kr: "dr_key ?r = ?key" by (simp add: deployment_receipt_of_def)
  have fresh: "?key \<notin> dr_key ` set (receipts_of as @ d_operationReceipts x @ receipts_of bs)"
    using fr unfolding find_receipt_None ds by (auto simp: receipts_of_def)
  have zy: "row_young ?z"
    using yng(1) deployment_rank_climbs[OF e] by (simp add: row_young_def moved_fields)
  have zv: "deployment_valid ?z" using yv by (simp add: deployment_valid_iff)
  have zok: "row_ok ?z" using zv young_push[OF yng(1)] by (simp add: row_ok_def)
  have op: "length (open_deployments [?z]) \<le> length (open_deployments [x])"
    using terminal_deployment_edge[OF e]
    by (auto simp: open_deployments_def moved_fields isTerminalDeploymentState_def)
  have "deployments_ok (as @ ?z # bs)"
    using ok r fresh zok op unfolding deployments_ok_split by (auto simp: moved_fields kr)
  then show "deployments_inv d'"
    using yng zy unfolding d' deployments_inv_def by (simp add: ds')
qed

lemma transitionDeployment_never_raises:
  assumes "deployments_inv d" shows "transitionDeployment e subject dref input d \<noteq> Raise m"
proof -
  have ev: "evict_receipts (d_operationReceipts (moved_deployment input s x) @ [r]) \<noteq> None"
    if "find (\<lambda>x. d_deploymentRef x = dref) (deployments d) = Some x" for s x r
  proof -
    have "row_young x" using assms find_Some_in[OF that] by (auto simp: deployments_inv_def list_all_iff)
    then show ?thesis using evict_receipts_id[OF young_push] by (simp add: moved_fields)
  qed
  show ?thesis
  proof
    assume "transitionDeployment e subject dref input d = Raise m"
    then obtain x s r where "find (\<lambda>x. d_deploymentRef x = dref) (deployments d) = Some x"
        "evict_receipts (d_operationReceipts (moved_deployment input s x) @ [r]) = None"
      unfolding transitionDeployment_def Let_def by (auto split: option.splits if_splits)
    with ev show False by blast
  qed
qed

section \<open>Replays\<close>

text \<open>Sending a committed operation again answers with the stored result and saves nothing.\<close>

lemma find_receipt_in:
  assumes "distinct (map dr_key (receipts_of ds))" and "r \<in> set (receipts_of ds)"
  shows "find_receipt (dr_key r) ds = Some r"
proof (cases "find_receipt (dr_key r) ds")
  case None
  then show ?thesis using assms(2) find_receipt_None by blast
next
  case (Some r')
  then have "dr_key r' = dr_key r" "r' \<in> set (receipts_of ds)"
    by (auto simp: find_receipt_def receipts_of_def dest!: find_SomeD)
  with assms have "r' = r" by (auto simp: distinct_map dest: inj_onD)
  with Some show ?thesis by simp
qed

lemma find_receipt_bump [simp]: "deployments (bump d) = deployments d"
  by (simp add: bump_def)

lemma createDeployment_replays:
  assumes "env_ok e" and "deployments_inv d" and c: "createDeployment e subject input d = Commit d' v"
  shows "createDeployment e subject input (bump d') = Replay v"
proof -
  have n: "next_doc (createDeployment e subject input d) = Some d'" using c by simp
  note f = createDeployment_commit[OF n]
  let ?r = "deployment_receipt_of e (js_str (fld input ''idempotencyKey'')) (create_fingerprint e subject input)
    OpCreate (new_deployment input)"
  have "deployments_ok (deployments d')"
    using keepsD[OF createDeployment_keeps[OF assms(1)] assms(2) n] by (simp add: deployments_inv_def)
  moreover have "?r \<in> set (receipts_of (deployments d'))"
    using f by (simp add: receipts_of_def)
  ultimately have "find_receipt (dr_key ?r) (deployments d') = Some ?r"
    by (intro find_receipt_in) (simp_all add: deployments_ok_def)
  moreover have "v = publicDeployment (new_deployment input)" "validNonEmpty subject MAX_SHORT_TEXT"
    using c by (auto simp: createDeployment_def Let_def split: if_splits option.splits)
  ultimately show ?thesis
    using f by (simp add: createDeployment_def deployment_receipt_of_def)
qed

lemma transitionDeployment_replays:
  assumes "env_ok e" and i: "deployments_inv d" and c: "transitionDeployment e subject dref input d = Commit d' v"
  shows "transitionDeployment e subject dref input (bump d') = Replay v"
proof -
  have n: "next_doc (transitionDeployment e subject dref input d) = Some d'" using c by simp
  let ?key = "js_str (fld input ''idempotencyKey'')"
  obtain x s where x: "find (\<lambda>x. d_deploymentRef x = dref) (deployments d) = Some x"
    and d': "d' = d\<lparr>deployments := upd_first (\<lambda>x. d_deploymentRef x = dref)
      (\<lambda>_. moved_deployment input s x\<lparr>d_operationReceipts := d_operationReceipts x @
        [deployment_receipt_of e ?key (transition_fingerprint e subject dref input) OpTransition
          (moved_deployment input s x)]\<rparr>) (deployments d)\<rparr>"
    and cv: "transitionDeployment e subject dref input d = Commit d' (publicDeployment (moved_deployment input s x))"
    using transitionDeployment_commit[OF i n] by metis
  have v: "v = publicDeployment (moved_deployment input s x)" using cv c by simp
  let ?r = "deployment_receipt_of e ?key (transition_fingerprint e subject dref input) OpTransition
          (moved_deployment input s x)"
  let ?z = "moved_deployment input s x\<lparr>d_operationReceipts := d_operationReceipts x @ [?r]\<rparr>"
  obtain as bs where "upd_first (\<lambda>x. d_deploymentRef x = dref) (\<lambda>_. ?z) (deployments d) = as @ ?z # bs"
    using upd_first_split[OF x, of "\<lambda>_. ?z"] by metis
  then have "?r \<in> set (receipts_of (deployments d'))" by (simp add: d' receipts_of_def)
  moreover have "deployments_ok (deployments d')"
    using keepsD[OF transitionDeployment_keeps[OF assms(1)] i n] by (simp add: deployments_inv_def)
  ultimately have "find_receipt (dr_key ?r) (deployments d') = Some ?r"
    by (intro find_receipt_in) (simp_all add: deployments_ok_def)
  then have "find_receipt ?key (deployments d') = Some ?r" by (simp add: deployment_receipt_of_def)
  moreover have "dr_operation ?r = OpTransition" "dr_result ?r = v"
      "dr_fingerprint ?r = transition_fingerprint e subject dref input"
    by (simp_all add: deployment_receipt_of_def v)
  moreover have "validNonEmpty subject MAX_SHORT_TEXT \<and> validNonEmpty dref MAX_SHORT_TEXT
      \<and> validateTransitionDeploymentInput input"
    using c by (auto simp: transitionDeployment_def split: if_splits)
  ultimately show ?thesis
    unfolding transitionDeployment_def Let_def find_receipt_bump by simp
qed

end
