(* ===== verification/AssetPulls.thy ===== *)
theory AssetPulls
  imports StoreCore
begin

text \<open>
  Asset-pull intents: the walls and the closed state machine of \<open>control/assetPullState.ts\<close>, and
  \<open>createAssetPullIntent\<close>, \<open>updateAssetPullIntent\<close>, \<open>getAssetPullIntent\<close> of \<open>control/store.ts\<close>. The
  update wall lets a settlement to \<open>succeeded\<close> carry a failed result, a row the collection wall
  refuses: \<open>mismatched\<close> names those updates, and every other commit keeps the collection accepted.
\<close>

section \<open>States\<close>

definition ASSET_PULL_STATES :: "(string \<times> pull_state) list" where
  "ASSET_PULL_STATES = [(''pending'', PullPending), (''in-flight'', PullInFlight),
     (''succeeded'', PullSucceeded), (''failed'', PullFailed), (''offline'', PullOffline)]"

fun pull_state_str :: "pull_state \<Rightarrow> string" where
  "pull_state_str PullPending = ''pending''"
| "pull_state_str PullInFlight = ''in-flight''"
| "pull_state_str PullSucceeded = ''succeeded''"
| "pull_state_str PullFailed = ''failed''"
| "pull_state_str PullOffline = ''offline''"

definition ASSET_PULL_ERROR_CODES :: "(string \<times> pull_error) list" where
  "ASSET_PULL_ERROR_CODES = [(''unavailable'', PeUnavailable), (''timeout'', PeTimeout),
     (''digest-mismatch'', PeDigestMismatch), (''refused'', PeRefused), (''invalid'', PeInvalid)]"

fun pull_error_str :: "pull_error \<Rightarrow> string" where
  "pull_error_str PeUnavailable = ''unavailable''"
| "pull_error_str PeTimeout = ''timeout''"
| "pull_error_str PeDigestMismatch = ''digest-mismatch''"
| "pull_error_str PeRefused = ''refused''"
| "pull_error_str PeInvalid = ''invalid''"

fun ASSET_PULL_EDGES :: "pull_state \<Rightarrow> pull_state list" where
  "ASSET_PULL_EDGES PullPending = [PullInFlight]"
| "ASSET_PULL_EDGES PullInFlight = [PullSucceeded, PullFailed, PullOffline]"
| "ASSET_PULL_EDGES PullSucceeded = []"
| "ASSET_PULL_EDGES PullFailed = [PullInFlight]"
| "ASSET_PULL_EDGES PullOffline = [PullInFlight]"

definition canTransitionAssetPull :: "pull_state \<Rightarrow> pull_state \<Rightarrow> bool" where
  "canTransitionAssetPull s t \<longleftrightarrow> t \<in> set (ASSET_PULL_EDGES s)"

definition isTerminalAssetPullState :: "pull_state \<Rightarrow> bool" where
  "isTerminalAssetPullState s \<longleftrightarrow> s = PullSucceeded"

definition ASSET_PULL_MAX_ATTEMPTS :: int where
  "ASSET_PULL_MAX_ATTEMPTS = 32"

interpretation asset_pull_machine: edge_machine canTransitionAssetPull isTerminalAssetPullState
proof
  fix s t
  show "\<not> canTransitionAssetPull s s" by (cases s) (simp_all add: canTransitionAssetPull_def)
  show "isTerminalAssetPullState s \<Longrightarrow> \<not> canTransitionAssetPull s t"
    by (simp add: canTransitionAssetPull_def isTerminalAssetPullState_def)
qed

lemma map_of_pull_state_str [simp]: "map_of ASSET_PULL_STATES (pull_state_str s) = Some s"
  by (cases s) (simp_all add: ASSET_PULL_STATES_def)

lemma map_of_pull_error_str [simp]: "map_of ASSET_PULL_ERROR_CODES (pull_error_str s) = Some s"
  by (cases s) (simp_all add: ASSET_PULL_ERROR_CODES_def)

section \<open>Walls\<close>

definition CREATE_ASSET_PULL_KEYS :: "string list" where
  "CREATE_ASSET_PULL_KEYS = [''intentRef'', ''runRef'', ''manifestDigest'', ''requestedAt'', ''idempotencyKey'']"

definition UPDATE_ASSET_PULL_KEYS :: "string list" where
  "UPDATE_ASSET_PULL_KEYS = [''expectedState'', ''expectedAttempts'', ''nextState'', ''attemptsDelta'',
     ''result'', ''idempotencyKey'']"

definition ASSET_PULL_KEYS :: "string list" where
  "ASSET_PULL_KEYS = [''intentRef'', ''runRef'', ''manifestDigest'', ''state'', ''requestedAt'',
     ''attempts'', ''result'']"

text \<open>\<open>/^assetpull-[0-9a-f]{32}$/\<close>\<close>

definition INTENT_REF_RE :: "js \<Rightarrow> bool" where
  "INTENT_REF_RE v = (case v of JStr s \<Rightarrow> take 10 s = ''assetpull-'' \<and> hex_len 32 (drop 10 s) | _ \<Rightarrow> False)"

definition isAttempts :: "js \<Rightarrow> bool" where
  "isAttempts v \<longleftrightarrow> js_safe_int v \<and> 0 \<le> js_int v \<and> js_int v \<le> ASSET_PULL_MAX_ATTEMPTS"

fun js_pull_state :: "js \<Rightarrow> pull_state option" where
  "js_pull_state (JStr s) = map_of ASSET_PULL_STATES s"
| "js_pull_state _ = None"

fun js_pull_error :: "js \<Rightarrow> pull_error option" where
  "js_pull_error (JStr s) = map_of ASSET_PULL_ERROR_CODES s"
| "js_pull_error _ = None"

definition isAssetPullResult :: "js \<Rightarrow> bool" where
  "isAssetPullResult v \<longleftrightarrow> isPlainRecord v
     \<and> hasExactKeys v [''outcome'', ''receiptAt'', ''errorCode'']
     \<and> (fld v ''outcome'' = JStr ''succeeded'' \<or> fld v ''outcome'' = JStr ''failed'')
     \<and> isCanonicalTimestamp (fld v ''receiptAt'')
     \<and> (fld v ''errorCode'' = JNull \<or> js_pull_error (fld v ''errorCode'') \<noteq> None)"

definition validateCreateAssetPullIntentInput :: "js \<Rightarrow> bool" where
  "validateCreateAssetPullIntentInput v \<longleftrightarrow> isPlainRecord v \<and> hasExactKeys v CREATE_ASSET_PULL_KEYS
     \<and> INTENT_REF_RE (fld v ''intentRef'')
     \<and> isNonEmpty (fld v ''runRef'')
     \<and> js_hex 64 (fld v ''manifestDigest'')
     \<and> isCanonicalTimestamp (fld v ''requestedAt'')
     \<and> isNonEmpty (fld v ''idempotencyKey'')"

definition validateUpdateAssetPullIntentInput :: "js \<Rightarrow> bool" where
  "validateUpdateAssetPullIntentInput v \<longleftrightarrow> isPlainRecord v \<and> hasExactKeys v UPDATE_ASSET_PULL_KEYS
     \<and> (case (js_pull_state (fld v ''expectedState''), js_pull_state (fld v ''nextState'')) of
          (Some s, Some t) \<Rightarrow>
            js_safe_int (fld v ''expectedAttempts'') \<and> 0 \<le> js_int (fld v ''expectedAttempts'')
            \<and> (fld v ''attemptsDelta'' = JNum 0 \<or> fld v ''attemptsDelta'' = JNum 1)
            \<and> canTransitionAssetPull s t
            \<and> isNonEmpty (fld v ''idempotencyKey'')
            \<and> (if t = PullInFlight then fld v ''attemptsDelta'' = JNum 1 \<and> fld v ''result'' = JNull
               else fld v ''attemptsDelta'' = JNum 0 \<and> isAssetPullResult (fld v ''result''))
        | _ \<Rightarrow> False)"

definition isAssetPullIntent :: "js \<Rightarrow> bool" where
  "isAssetPullIntent v \<longleftrightarrow> isPlainRecord v \<and> hasExactKeys v ASSET_PULL_KEYS
     \<and> INTENT_REF_RE (fld v ''intentRef'')
     \<and> isNonEmpty (fld v ''runRef'')
     \<and> js_hex 64 (fld v ''manifestDigest'')
     \<and> js_pull_state (fld v ''state'') \<noteq> None
     \<and> isCanonicalTimestamp (fld v ''requestedAt'')
     \<and> isAttempts (fld v ''attempts'')
     \<and> (fld v ''result'' = JNull \<or> isAssetPullResult (fld v ''result''))
     \<and> \<not> (fld v ''state'' = JStr ''succeeded''
          \<and> (fld v ''result'' = JNull \<or> fld (fld v ''result'') ''outcome'' \<noteq> JStr ''succeeded''))
     \<and> \<not> (fld v ''state'' = JStr ''pending'' \<and> fld v ''result'' \<noteq> JNull)"

fun check_intents :: "string list \<Rightarrow> js list \<Rightarrow> string option" where
  "check_intents refs [] = None"
| "check_intents refs (v # vs) =
     (if \<not> isAssetPullIntent v then Some ''invalid control-plane asset-pull intent''
      else if js_str (fld v ''intentRef'') \<in> set refs
        then Some ''invalid control-plane asset-pull intent reference''
      else check_intents (js_str (fld v ''intentRef'') # refs) vs)"

definition assertAssetPullCollection :: "js \<Rightarrow> string option" where
  "assertAssetPullCollection v =
     (if \<not> is_arr v then Some ''invalid control-plane asset-pull intents'' else check_intents [] (js_arr v))"

section \<open>Rows as they are persisted\<close>

definition pull_result_js :: "pull_result option \<Rightarrow> js" where
  "pull_result_js x = (case x of None \<Rightarrow> JNull
     | Some r \<Rightarrow> JObj [(''outcome'', JStr (case pu_outcome r of PoSucceeded \<Rightarrow> ''succeeded'' | PoFailed \<Rightarrow> ''failed'')),
         (''receiptAt'', JStr (pu_receiptAt r)),
         (''errorCode'', opt_str (map_option pull_error_str (pu_errorCode r)))])"

definition pull_intent_js :: "pull_intent \<Rightarrow> js" where
  "pull_intent_js x = JObj [(''intentRef'', JStr (pi_intentRef x)), (''runRef'', JStr (pi_runRef x)),
     (''manifestDigest'', JStr (pi_manifestDigest x)), (''state'', JStr (pull_state_str (pi_state x))),
     (''requestedAt'', JStr (pi_requestedAt x)), (''attempts'', JNum (pi_attempts x)),
     (''result'', pull_result_js (pi_result x))]"

definition js_pull_result :: "js \<Rightarrow> pull_result option" where
  "js_pull_result v = (if v = JNull then None else Some
     \<lparr>pu_outcome = (if fld v ''outcome'' = JStr ''succeeded'' then PoSucceeded else PoFailed),
      pu_receiptAt = js_str (fld v ''receiptAt''), pu_errorCode = js_pull_error (fld v ''errorCode'')\<rparr>)"

section \<open>Operations\<close>

definition dt_pull_create_invalid :: string where
  "dt_pull_create_invalid = ''asset-pull intent creation input is invalid''"

definition dt_pull_reused :: string where
  "dt_pull_reused = ''asset-pull intentRef was reused with different content''"

definition dt_pull_update_invalid :: string where
  "dt_pull_update_invalid = ''asset-pull intent update input is invalid''"

definition dt_pull_not_found :: string where
  "dt_pull_not_found = ''asset-pull intent was not found''"

definition dt_pull_changed :: string where
  "dt_pull_changed = ''asset-pull intent state or attempts changed''"

definition dt_pull_exhausted :: string where
  "dt_pull_exhausted = ''asset-pull intent attempts are exhausted''"

definition is_intent :: "string \<Rightarrow> pull_intent \<Rightarrow> bool" where
  "is_intent intentRef x \<longleftrightarrow> pi_intentRef x = intentRef"

definition getAssetPullIntent :: "string \<Rightarrow> document \<Rightarrow> pull_intent outcome" where
  "getAssetPullIntent intentRef d = (case find (is_intent intentRef) (assetPullIntents d) of
     None \<Rightarrow> Refuse NotFound dt_pull_not_found | Some x \<Rightarrow> Value x)"

definition createAssetPullIntent :: "string \<Rightarrow> js \<Rightarrow> document \<Rightarrow> pull_intent outcome" where
  "createAssetPullIntent subject input d =
     (if \<not> validNonEmpty subject MAX_SHORT_TEXT \<or> \<not> validateCreateAssetPullIntentInput input
      then Refuse Invalid dt_pull_create_invalid
      else let intentRef = js_str (fld input ''intentRef''); runRef = js_str (fld input ''runRef'');
               digest = js_str (fld input ''manifestDigest''); at = js_str (fld input ''requestedAt'') in
        (case find (is_intent intentRef) (assetPullIntents d) of
           Some x \<Rightarrow>
             if pi_runRef x \<noteq> runRef \<or> pi_manifestDigest x \<noteq> digest \<or> pi_requestedAt x \<noteq> at
             then Refuse IdempotencyConflict dt_pull_reused else Replay x
         | None \<Rightarrow>
             let x = \<lparr>pi_intentRef = intentRef, pi_runRef = runRef, pi_manifestDigest = digest,
                      pi_state = PullPending, pi_requestedAt = at, pi_attempts = 0, pi_result = None\<rparr> in
             Commit (d\<lparr>assetPullIntents := assetPullIntents d @ [x]\<rparr>) x))"

definition updateAssetPullIntent :: "string \<Rightarrow> string \<Rightarrow> js \<Rightarrow> document \<Rightarrow> pull_intent outcome" where
  "updateAssetPullIntent subject intentRef input d =
     (if \<not> validNonEmpty subject MAX_SHORT_TEXT \<or> \<not> validNonEmpty intentRef MAX_SHORT_TEXT
        \<or> \<not> validateUpdateAssetPullIntentInput input
      then Refuse Invalid dt_pull_update_invalid
      else let nextState = the (js_pull_state (fld input ''nextState''));
               delta = js_int (fld input ''attemptsDelta'') in
        (case find (is_intent intentRef) (assetPullIntents d) of
           None \<Rightarrow> Refuse NotFound dt_pull_not_found
         | Some x \<Rightarrow>
             if js_pull_state (fld input ''expectedState'') \<noteq> Some (pi_state x)
               \<or> pi_attempts x \<noteq> js_int (fld input ''expectedAttempts'')
               \<or> \<not> canTransitionAssetPull (pi_state x) nextState
             then Refuse Conflict dt_pull_changed
             else if delta = 1 \<and> pi_attempts x \<ge> ASSET_PULL_MAX_ATTEMPTS
             then Refuse Conflict dt_pull_exhausted
             else let y = x\<lparr>pi_state := nextState, pi_attempts := pi_attempts x + delta,
                      pi_result := js_pull_result (fld input ''result'')\<rparr> in
               Commit (d\<lparr>assetPullIntents := upd_first (is_intent intentRef) (\<lambda>_. y) (assetPullIntents d)\<rparr>) y))"

section \<open>The collection wall\<close>

definition intent_valid :: "pull_intent \<Rightarrow> bool" where
  "intent_valid x \<longleftrightarrow> isAssetPullIntent (pull_intent_js x)"

lemma intent_valid_iff:
  "intent_valid x \<longleftrightarrow>
     INTENT_REF_RE (JStr (pi_intentRef x)) \<and> isNonEmpty (JStr (pi_runRef x))
     \<and> hex_len 64 (pi_manifestDigest x) \<and> is_iso (pi_requestedAt x)
     \<and> 0 \<le> pi_attempts x \<and> pi_attempts x \<le> ASSET_PULL_MAX_ATTEMPTS
     \<and> (\<forall>r. pi_result x = Some r \<longrightarrow> is_iso (pu_receiptAt r))
     \<and> (pi_state x = PullSucceeded \<longrightarrow> (\<exists>r. pi_result x = Some r \<and> pu_outcome r = PoSucceeded))
     \<and> (pi_state x = PullPending \<longrightarrow> pi_result x = None)"
proof -
  have keys: "hasExactKeys (pull_intent_js x) ASSET_PULL_KEYS"
    by (simp add: hasExactKeys_mset pull_intent_js_def ASSET_PULL_KEYS_def)
  have st: "pull_state_str (pi_state x) = ''succeeded'' \<longleftrightarrow> pi_state x = PullSucceeded"
      "pull_state_str (pi_state x) = ''pending'' \<longleftrightarrow> pi_state x = PullPending"
    by (cases "pi_state x"; simp)+
  have res: "pull_result_js None = JNull" "pull_result_js (Some r) \<noteq> JNull" for r
    by (simp_all add: pull_result_js_def)
  have resok: "isAssetPullResult (pull_result_js (Some r)) \<longleftrightarrow> is_iso (pu_receiptAt r)" for r
    by (cases "pu_errorCode r"; cases "pu_outcome r")
      (simp_all add: isAssetPullResult_def pull_result_js_def hasExactKeys_mset opt_str_def)
  have out: "fld (pull_result_js (Some r)) ''outcome'' = JStr ''succeeded'' \<longleftrightarrow> pu_outcome r = PoSucceeded" for r
    by (cases "pu_outcome r") (simp_all add: pull_result_js_def)
  have flds: "fld (pull_intent_js x) ''intentRef'' = JStr (pi_intentRef x)"
      "fld (pull_intent_js x) ''runRef'' = JStr (pi_runRef x)"
      "fld (pull_intent_js x) ''manifestDigest'' = JStr (pi_manifestDigest x)"
      "fld (pull_intent_js x) ''state'' = JStr (pull_state_str (pi_state x))"
      "fld (pull_intent_js x) ''requestedAt'' = JStr (pi_requestedAt x)"
      "fld (pull_intent_js x) ''attempts'' = JNum (pi_attempts x)"
      "fld (pull_intent_js x) ''result'' = pull_result_js (pi_result x)"
      "isPlainRecord (pull_intent_js x) = True"
    by (simp_all add: pull_intent_js_def)
  show ?thesis
    unfolding intent_valid_def isAssetPullIntent_def flds
    by (cases "pi_result x")
      (auto simp: keys st res resok out js_hex_def isAttempts_def ASSET_PULL_MAX_ATTEMPTS_def safe_int_def
        max_safe_def simp del: isNonEmpty.simps)
qed

definition pulls_ok :: "document \<Rightarrow> bool" where
  "pulls_ok d \<longleftrightarrow> list_all intent_valid (assetPullIntents d) \<and> distinct (map pi_intentRef (assetPullIntents d))"

lemma check_intents_None:
  "check_intents refs (map pull_intent_js xs) = None \<longleftrightarrow>
     list_all intent_valid xs \<and> distinct (map pi_intentRef xs) \<and> set (map pi_intentRef xs) \<inter> set refs = {}"
proof (induction xs arbitrary: refs)
  case (Cons x xs)
  have "fld (pull_intent_js x) ''intentRef'' = JStr (pi_intentRef x)" by (simp add: pull_intent_js_def)
  then show ?case by (auto simp: Cons.IH intent_valid_def)
qed simp

lemma assert_pulls_iff:
  "assertAssetPullCollection (JArr (map pull_intent_js (assetPullIntents d))) = None \<longleftrightarrow> pulls_ok d"
  by (simp add: assertAssetPullCollection_def check_intents_None pulls_ok_def)

interpretation pulls_ok: store_invariant pulls_ok
  by unfold_locales (simp add: pulls_ok_def)

section \<open>What the operations keep\<close>

lemma createAssetPullIntent_keeps: "keeps pulls_ok (createAssetPullIntent subject input)"
proof (rule keepsI)
  fix d d' assume ok: "pulls_ok d" and n: "next_doc (createAssetPullIntent subject input d) = Some d'"
  let ?x = "\<lparr>pi_intentRef = js_str (fld input ''intentRef''), pi_runRef = js_str (fld input ''runRef''),
    pi_manifestDigest = js_str (fld input ''manifestDigest''), pi_state = PullPending,
    pi_requestedAt = js_str (fld input ''requestedAt''), pi_attempts = 0, pi_result = None\<rparr>"
  from n have v: "validateCreateAssetPullIntentInput input"
    and f: "find (is_intent (js_str (fld input ''intentRef''))) (assetPullIntents d) = None"
    and d': "d' = d\<lparr>assetPullIntents := assetPullIntents d @ [?x]\<rparr>"
    by (auto simp: createAssetPullIntent_def Let_def split: if_splits option.splits)
  have i: "INTENT_REF_RE (fld input ''intentRef'')" "isNonEmpty (fld input ''runRef'')"
      "js_hex 64 (fld input ''manifestDigest'')" "isCanonicalTimestamp (fld input ''requestedAt'')"
    using v unfolding validateCreateAssetPullIntentInput_def by blast+
  have "fld input ''intentRef'' = JStr (js_str (fld input ''intentRef''))"
      "fld input ''runRef'' = JStr (js_str (fld input ''runRef''))"
      "hex_len 64 (js_str (fld input ''manifestDigest''))" "is_iso (js_str (fld input ''requestedAt''))"
    using i isNonEmpty_js_str js_hex_js_str canonical_js_str
    by (auto simp: INTENT_REF_RE_def split: js.splits)
  with i have "intent_valid ?x"
    by (simp add: intent_valid_iff ASSET_PULL_MAX_ATTEMPTS_def del: isNonEmpty.simps)
  with ok f show "pulls_ok d'"
    by (auto simp: d' pulls_ok_def find_None_iff' is_intent_def)
qed

text \<open>The update the wall should have refused: a settlement to \<open>succeeded\<close> with a failed result.\<close>

definition mismatched :: "js \<Rightarrow> bool" where
  "mismatched input \<longleftrightarrow> js_pull_state (fld input ''nextState'') = Some PullSucceeded
     \<and> fld (fld input ''result'') ''outcome'' \<noteq> JStr ''succeeded''"

lemma updateAssetPullIntent_commit:
  assumes "next_doc (updateAssetPullIntent subject intentRef input d) = Some d'"
  obtains x t where "find (is_intent intentRef) (assetPullIntents d) = Some x"
    and "js_pull_state (fld input ''nextState'') = Some t" and "canTransitionAssetPull (pi_state x) t"
    and "validateUpdateAssetPullIntentInput input"
    and "js_int (fld input ''attemptsDelta'') = 1 \<Longrightarrow> pi_attempts x < ASSET_PULL_MAX_ATTEMPTS"
    and "d' = d\<lparr>assetPullIntents := upd_first (is_intent intentRef)
      (\<lambda>_. x\<lparr>pi_state := t, pi_attempts := pi_attempts x + js_int (fld input ''attemptsDelta''),
         pi_result := js_pull_result (fld input ''result'')\<rparr>) (assetPullIntents d)\<rparr>"
proof -
  from assms have v: "validateUpdateAssetPullIntentInput input"
    by (auto simp: updateAssetPullIntent_def split: if_splits)
  then obtain t where t: "js_pull_state (fld input ''nextState'') = Some t"
    unfolding validateUpdateAssetPullIntentInput_def by (auto split: option.splits)
  from assms v t show thesis
    by (auto simp: updateAssetPullIntent_def Let_def intro: that split: if_splits option.splits)
qed

lemma update_input:
  assumes "validateUpdateAssetPullIntentInput input" and "js_pull_state (fld input ''nextState'') = Some t"
  shows "if t = PullInFlight then js_int (fld input ''attemptsDelta'') = 1 \<and> js_pull_result (fld input ''result'') = None
     else js_int (fld input ''attemptsDelta'') = 0 \<and> isAssetPullResult (fld input ''result'')"
  using assms unfolding validateUpdateAssetPullIntentInput_def
  by (auto simp: js_pull_result_def split: option.splits if_splits)

lemma updateAssetPullIntent_keeps:
  assumes m: "\<not> mismatched input"
  shows "keeps pulls_ok (updateAssetPullIntent subject intentRef input)"
proof (rule keepsI)
  fix d d' assume ok: "pulls_ok d" and n: "next_doc (updateAssetPullIntent subject intentRef input d) = Some d'"
  obtain x t where x: "find (is_intent intentRef) (assetPullIntents d) = Some x"
    and t: "js_pull_state (fld input ''nextState'') = Some t" and e: "canTransitionAssetPull (pi_state x) t"
    and v: "validateUpdateAssetPullIntentInput input"
    and lim: "js_int (fld input ''attemptsDelta'') = 1 \<Longrightarrow> pi_attempts x < ASSET_PULL_MAX_ATTEMPTS"
    and d': "d' = d\<lparr>assetPullIntents := upd_first (is_intent intentRef)
      (\<lambda>_. x\<lparr>pi_state := t, pi_attempts := pi_attempts x + js_int (fld input ''attemptsDelta''),
         pi_result := js_pull_result (fld input ''result'')\<rparr>) (assetPullIntents d)\<rparr>"
    using updateAssetPullIntent_commit[OF n] by metis
  let ?y = "x\<lparr>pi_state := t, pi_attempts := pi_attempts x + js_int (fld input ''attemptsDelta''),
         pi_result := js_pull_result (fld input ''result'')\<rparr>"
  note u = update_input[OF v t]
  have xv: "intent_valid x" using ok find_Some_in[OF x] by (auto simp: pulls_ok_def list_all_iff)
  have np: "t \<noteq> PullPending" using e by (cases "pi_state x") (auto simp: canTransitionAssetPull_def)
  have "intent_valid ?y"
  proof (cases "t = PullInFlight")
    case True
    then show ?thesis using xv u lim by (simp add: intent_valid_iff del: isNonEmpty.simps)
  next
    case False
    let ?r = "fld input ''result''"
    have r: "?r \<noteq> JNull" "is_iso (js_str (fld ?r ''receiptAt''))" and delta: "js_int (fld input ''attemptsDelta'') = 0"
      using u False canonical_js_str by (auto simp: isAssetPullResult_def)
    have "t = PullSucceeded \<Longrightarrow> fld ?r ''outcome'' = JStr ''succeeded''" using m t by (simp add: mismatched_def)
    then show ?thesis
      using xv r delta np by (simp add: intent_valid_iff js_pull_result_def del: isNonEmpty.simps)
  qed
  moreover have "map pi_intentRef (upd_first (is_intent intentRef) (\<lambda>_. ?y) (assetPullIntents d))
      = map pi_intentRef (assetPullIntents d)"
    by (rule map_upd_first_same) (simp add: x)
  ultimately show "pulls_ok d'"
    using ok by (simp add: d' pulls_ok_def list_all_upd_first)
qed

text \<open>An update that is mismatched, when it commits, leaves a collection the store cannot load again.\<close>

lemma mismatched_breaks:
  assumes m: "mismatched input" and n: "next_doc (updateAssetPullIntent subject intentRef input d) = Some d'"
  shows "\<not> pulls_ok d'"
proof -
  obtain x t where x: "find (is_intent intentRef) (assetPullIntents d) = Some x"
    and t: "js_pull_state (fld input ''nextState'') = Some t" and v: "validateUpdateAssetPullIntentInput input"
    and d': "d' = d\<lparr>assetPullIntents := upd_first (is_intent intentRef)
      (\<lambda>_. x\<lparr>pi_state := t, pi_attempts := pi_attempts x + js_int (fld input ''attemptsDelta''),
         pi_result := js_pull_result (fld input ''result'')\<rparr>) (assetPullIntents d)\<rparr>"
    using updateAssetPullIntent_commit[OF n] by metis
  let ?y = "x\<lparr>pi_state := t, pi_attempts := pi_attempts x + js_int (fld input ''attemptsDelta''),
         pi_result := js_pull_result (fld input ''result'')\<rparr>"
  have "?y \<in> set (assetPullIntents d')"
    using upd_first_member[OF x, of "\<lambda>_. ?y"] by (simp add: d')
  moreover have "\<not> intent_valid ?y"
    using m t by (auto simp: intent_valid_iff mismatched_def js_pull_result_def simp del: isNonEmpty.simps)
  ultimately show ?thesis by (auto simp: pulls_ok_def list_all_iff)
qed

end
