(* ===== verification/Placement.thy ===== *)
theory Placement
  imports StoreCore
begin

text \<open>
  The placement contracts (\<open>placement/contracts.ts\<close>): the exact-key decoders of a host advertisement
  and of a placement lease. A decoder throws \<open>ContractDecodeError(field, detail)\<close>: the value is
  \<open>Inl (field, detail)\<close>. What a decoder accepts it reads back unchanged from the row it persists.
\<close>

section \<open>Constants and names\<close>

definition ADVERTISEMENT_FRESHNESS_MS :: int where "ADVERTISEMENT_FRESHNESS_MS = 90000"
definition ADVERTISEMENT_INTERVAL_MS :: int where "ADVERTISEMENT_INTERVAL_MS = 30000"
definition LEASE_TTL_MS :: int where "LEASE_TTL_MS = 120000"
definition MAX_CONNECTORS :: nat where "MAX_CONNECTORS = 64"
definition MAX_TOOLS_PER_CONNECTOR :: nat where "MAX_TOOLS_PER_CONNECTOR = 128"
definition MAX_SKILLS :: nat where "MAX_SKILLS = 256"
definition MAX_FILESYSTEM_ROOTS :: nat where "MAX_FILESYSTEM_ROOTS = 64"

definition lower_digit :: "char \<Rightarrow> bool" where
  "lower_digit c \<longleftrightarrow> is_lower c \<or> is_digit c"

definition CANONICAL_ID :: "string \<Rightarrow> bool" where
  "CANONICAL_ID = head_tail lower_digit (\<lambda>c. lower_digit c \<or> c = CHR ''-'') 63"

definition DAEMON_VERSION :: "string \<Rightarrow> bool" where
  "DAEMON_VERSION = head_tail lower_digit (\<lambda>c. lower_digit c \<or> c \<in> set ''.-'') 63"

definition SAFE_REF :: "string \<Rightarrow> bool" where
  "SAFE_REF = head_tail is_alnum (\<lambda>c. is_alnum c \<or> c \<in> set ''._-'') 127"

fun host_str :: "host_kind \<Rightarrow> string" where
  "host_str Vm = ''vm''"
| "host_str Desktop = ''desktop''"

definition js_host :: "js \<Rightarrow> host_kind option" where
  "js_host v = (if v = JStr ''vm'' then Some Vm else if v = JStr ''desktop'' then Some Desktop else None)"

fun cli_str :: "cli_status \<Rightarrow> string" where
  "cli_str CliReady = ''ready''"
| "cli_str CliMissing = ''missing''"
| "cli_str CliLoginRequired = ''login-required''"

definition js_cli :: "js \<Rightarrow> cli_status option" where
  "js_cli v = (if v = JStr ''ready'' then Some CliReady else if v = JStr ''missing'' then Some CliMissing
     else if v = JStr ''login-required'' then Some CliLoginRequired else None)"

lemma js_host_str [simp]: "js_host (JStr (host_str h)) = Some h"
  by (cases h) (simp_all add: js_host_def)

lemma js_cli_str [simp]: "js_cli (JStr (cli_str c)) = Some c"
  by (cases c) (simp_all add: js_cli_def)

lemma host_str_inj [simp]: "host_str a = host_str b \<longleftrightarrow> a = b"
  by (cases a; cases b) simp_all

section \<open>Decoders\<close>

type_synonym decode_error = "string \<times> string"

text \<open>
  The exact-key wall. The first unknown key is reported, then the first missing one.
\<close>

definition assertExactKeys :: "string \<Rightarrow> js \<Rightarrow> string list \<Rightarrow> decode_error option" where
  "assertExactKeys field v ks = (case find (\<lambda>k. k \<notin> set ks) (js_keys v) of
     Some k \<Rightarrow> Some (field, ''unknown key '' @ json_quote k)
   | None \<Rightarrow> (case find (\<lambda>k. \<not> hasOwn v k) ks of
       Some k \<Rightarrow> Some (field, ''missing key '' @ json_quote k)
     | None \<Rightarrow> None))"

definition exact :: "string \<Rightarrow> js \<Rightarrow> string list \<Rightarrow> (decode_error + 'a) \<Rightarrow> decode_error + 'a" where
  "exact field v ks k = (case assertExactKeys field v ks of Some err \<Rightarrow> Inl err | None \<Rightarrow> k)"

definition ascends :: "string option \<Rightarrow> string \<Rightarrow> bool" where
  "ascends prev s = (case prev of None \<Rightarrow> True | Some l \<Rightarrow> l < s)"

text \<open>The loop of \<open>decodeIdArray\<close>, with the last id pushed.\<close>

fun decode_ids :: "string \<Rightarrow> string option \<Rightarrow> js list \<Rightarrow> decode_error + string list" where
  "decode_ids field prev [] = Inr []"
| "decode_ids field prev (v # vs) =
     require (is_str v \<and> CANONICAL_ID (js_str v)) (field, ''non-canonical id '' @ json_stringify v)
    (require (ascends prev (js_str v)) (field, ''ids must be sorted and unique'')
    (sum_bind (decode_ids field (Some (js_str v)) vs) (\<lambda>rest. Inr (js_str v # rest))))"

definition decodeIdArray :: "string \<Rightarrow> js \<Rightarrow> nat \<Rightarrow> decode_error + string list" where
  "decodeIdArray field v lim =
     require (is_arr v) (field, ''array required'')
    (require (length (js_arr v) \<le> lim)
       (field, ''at most '' @ int_str (int lim) @ '' entries, got '' @ int_str (int (length (js_arr v))))
    (decode_ids field None (js_arr v)))"

fun decode_connectors :: "string option \<Rightarrow> js list \<Rightarrow> decode_error + connector list" where
  "decode_connectors prev [] = Inr []"
| "decode_connectors prev (v # vs) =
     require (is_record v) (''connectors'', ''each connector is an object'')
    (exact ''connectors'' v [''server'', ''tools'']
    (let s = fld v ''server'' in
     require (is_str s \<and> CANONICAL_ID (js_str s)) (''connectors'', ''non-canonical server '' @ json_stringify s)
    (require (ascends prev (js_str s))
       (''connectors'', ''servers must be sorted and unique'')
    (sum_bind (decodeIdArray ''connectors.tools'' (fld v ''tools'') MAX_TOOLS_PER_CONNECTOR) (\<lambda>tools.
     sum_bind (decode_connectors (Some (js_str s)) vs) (\<lambda>rest.
       Inr (\<lparr>cn_server = js_str s, cn_tools = tools\<rparr> # rest)))))))"

definition decodeConnectors :: "js \<Rightarrow> decode_error + connector list" where
  "decodeConnectors v =
     require (is_arr v) (''connectors'', ''array required'')
    (require (length (js_arr v) \<le> MAX_CONNECTORS)
       (''connectors'', ''at most '' @ int_str (int MAX_CONNECTORS) @ '' servers, got ''
          @ int_str (int (length (js_arr v))))
    (decode_connectors None (js_arr v)))"

definition decodeCliStatus :: "string \<Rightarrow> js \<Rightarrow> decode_error + cli_status" where
  "decodeCliStatus field v = (case js_cli v of
     None \<Rightarrow> Inl (field, ''invalid cli status '' @ json_stringify v) | Some c \<Rightarrow> Inr c)"

definition HOST_ADVERTISEMENT_FIELDS :: "string list" where
  "HOST_ADVERTISEMENT_FIELDS = [''hostId'', ''daemonVersion'', ''reportedAt'', ''connectors'', ''skills'',
     ''filesystemRoots'', ''pty'', ''gpu'', ''clis'']"

definition PLACEMENT_LEASE_FIELDS :: "string list" where
  "PLACEMENT_LEASE_FIELDS = [''runRef'', ''hostId'', ''capabilityHash'', ''revision'', ''expiresAt'',
     ''lastReportSequence'']"

fun is_bool :: "js \<Rightarrow> bool" where
  "is_bool (JBool _) = True"
| "is_bool _ = False"

definition decodeHostAdvertisement :: "js \<Rightarrow> decode_error + host_advertisement" where
  "decodeHostAdvertisement v =
     require (is_record v) (''hostAdvertisement'', ''object required'')
    (exact ''hostAdvertisement'' v HOST_ADVERTISEMENT_FIELDS
    (case js_host (fld v ''hostId'') of
       None \<Rightarrow> Inl (''hostId'', ''invalid host '' @ json_stringify (fld v ''hostId''))
     | Some hostId \<Rightarrow>
     require (is_str (fld v ''daemonVersion'') \<and> DAEMON_VERSION (js_str (fld v ''daemonVersion'')))
       (''daemonVersion'', ''must match /^[a-z0-9][a-z0-9.'' @ [CHR 0x5C] @ ''-]{0,63}$/'')
    (require (isCanonicalTimestamp (fld v ''reportedAt'')) (''reportedAt'', ''RFC 3339 UTC required'')
    (sum_bind (decodeConnectors (fld v ''connectors'')) (\<lambda>connectors.
     sum_bind (decodeIdArray ''skills'' (fld v ''skills'') MAX_SKILLS) (\<lambda>skills.
     sum_bind (decodeIdArray ''filesystemRoots'' (fld v ''filesystemRoots'') MAX_FILESYSTEM_ROOTS) (\<lambda>roots.
     require (is_bool (fld v ''pty'')) (''pty'', ''boolean required'')
    (require (is_bool (fld v ''gpu'')) (''gpu'', ''boolean required'')
    (let clis = fld v ''clis'' in
     require (is_record clis) (''clis'', ''object required'')
    (exact ''clis'' clis [''claude'', ''codex'']
    (sum_bind (decodeCliStatus ''clis.claude'' (fld clis ''claude'')) (\<lambda>claude.
     sum_bind (decodeCliStatus ''clis.codex'' (fld clis ''codex'')) (\<lambda>codex.
       Inr \<lparr>ha_hostId = hostId, ha_daemonVersion = js_str (fld v ''daemonVersion''),
            ha_reportedAt = js_str (fld v ''reportedAt''), ha_connectors = connectors, ha_skills = skills,
            ha_filesystemRoots = roots, ha_pty = (fld v ''pty'' = JBool True),
            ha_gpu = (fld v ''gpu'' = JBool True), ha_claude = claude, ha_codex = codex\<rparr>)))))))))))))"

text \<open>A timestamp in a row is parsed by \<open>Date.parse\<close>; one it cannot parse is never fresh.\<close>

definition isAdvertisementFresh :: "string \<Rightarrow> int \<Rightarrow> bool" where
  "isAdvertisementFresh reportedAt nowMs = (case iso_parse reportedAt of
     None \<Rightarrow> False
   | Some at \<Rightarrow> 0 \<le> nowMs - at \<and> nowMs - at < ADVERTISEMENT_FRESHNESS_MS)"

fun js_whole :: "js \<Rightarrow> int \<Rightarrow> bool" where
  "js_whole (JNum n) lo \<longleftrightarrow> lo \<le> n"
| "js_whole _ lo \<longleftrightarrow> False"

definition decodePlacementLease :: "js \<Rightarrow> decode_error + placement_lease" where
  "decodePlacementLease v =
     require (is_record v) (''placementLease'', ''object required'')
    (exact ''placementLease'' v PLACEMENT_LEASE_FIELDS
    (require (is_str (fld v ''runRef'') \<and> SAFE_REF (js_str (fld v ''runRef''))) (''runRef'', ''safe ref required'')
    (case js_host (fld v ''hostId'') of
       None \<Rightarrow> Inl (''hostId'', ''invalid host '' @ json_stringify (fld v ''hostId''))
     | Some hostId \<Rightarrow>
     require (js_hex 64 (fld v ''capabilityHash'')) (''capabilityHash'', ''64 lowercase hex required'')
    (require (js_whole (fld v ''revision'') 1) (''revision'', ''positive integer required'')
    (require (isCanonicalTimestamp (fld v ''expiresAt'')) (''expiresAt'', ''RFC 3339 UTC required'')
    (require (js_whole (fld v ''lastReportSequence'') 0) (''lastReportSequence'', ''non-negative integer required'')
    (Inr \<lparr>pl_runRef = js_str (fld v ''runRef''), pl_hostId = hostId,
          pl_capabilityHash = js_str (fld v ''capabilityHash''), pl_revision = js_int (fld v ''revision''),
          pl_expiresAt = js_str (fld v ''expiresAt''),
          pl_lastReportSequence = js_int (fld v ''lastReportSequence'')\<rparr>)))))))"

section \<open>Rows as they are persisted\<close>

definition connector_js :: "connector \<Rightarrow> js" where
  "connector_js c = JObj [(''server'', JStr (cn_server c)), (''tools'', JArr (map JStr (cn_tools c)))]"

definition advertisement_js :: "'a host_advertisement_scheme \<Rightarrow> js" where
  "advertisement_js a = JObj [(''hostId'', JStr (host_str (ha_hostId a))),
     (''daemonVersion'', JStr (ha_daemonVersion a)), (''reportedAt'', JStr (ha_reportedAt a)),
     (''connectors'', JArr (map connector_js (ha_connectors a))), (''skills'', JArr (map JStr (ha_skills a))),
     (''filesystemRoots'', JArr (map JStr (ha_filesystemRoots a))), (''pty'', JBool (ha_pty a)),
     (''gpu'', JBool (ha_gpu a)),
     (''clis'', JObj [(''claude'', JStr (cli_str (ha_claude a))), (''codex'', JStr (cli_str (ha_codex a)))])]"

definition lease_js :: "placement_lease \<Rightarrow> js" where
  "lease_js l = JObj [(''runRef'', JStr (pl_runRef l)), (''hostId'', JStr (host_str (pl_hostId l))),
     (''capabilityHash'', JStr (pl_capabilityHash l)), (''revision'', JNum (pl_revision l)),
     (''expiresAt'', JStr (pl_expiresAt l)), (''lastReportSequence'', JNum (pl_lastReportSequence l))]"

lemma exact_Inr [simp]: "exact field v ks k = Inr a \<longleftrightarrow> assertExactKeys field v ks = None \<and> k = Inr a"
  by (cases "assertExactKeys field v ks") (simp_all add: exact_def)

lemma exact_ok [simp]: "assertExactKeys field v ks = None \<Longrightarrow> exact field v ks k = k"
  by (simp add: exact_def)

lemma assertExactKeys_None:
  "assertExactKeys field v ks = None \<longleftrightarrow> set (js_keys v) = set ks"
proof -
  have "hasOwn v k \<longleftrightarrow> k \<in> set (js_keys v)" for k
    by (auto simp: hasOwn_def js_keys_def map_of_eq_None_iff)
  then show ?thesis
    by (auto simp: assertExactKeys_def find_None_iff' split: option.splits dest!: find_SomeD)
qed

text \<open>A list of ids as the decoder leaves it: canonical, and strictly ascending from the last one.\<close>

fun ids_ok :: "string option \<Rightarrow> string list \<Rightarrow> bool" where
  "ids_ok prev [] = True"
| "ids_ok prev (s # ss) = (CANONICAL_ID s \<and> ascends prev s \<and> ids_ok (Some s) ss)"

lemma decode_ids_back: "decode_ids field prev (map JStr ss) = Inr ss \<longleftrightarrow> ids_ok prev ss"
  by (induction ss arbitrary: prev) (simp_all)

lemma decode_ids_ok: "decode_ids field prev vs = Inr ss \<Longrightarrow> ids_ok prev ss \<and> length ss = length vs"
  by (induction vs arbitrary: prev ss) auto

lemma ids_ok_sorted: "ids_ok (Some l) ss \<Longrightarrow> sorted ss \<and> distinct ss \<and> (\<forall>s\<in>set ss. l < s)"
proof (induction ss arbitrary: l)
  case (Cons s ss)
  then have "l < s" and "sorted ss \<and> distinct ss \<and> (\<forall>t\<in>set ss. s < t)" by (auto simp: ascends_def)
  then show ?case by (auto intro: less_imp_le dest: less_trans)
qed simp

lemma decodeIdArray_ok:
  "decodeIdArray field v n = Inr ss \<Longrightarrow> ids_ok None ss \<and> length ss \<le> n"
  by (auto simp: decodeIdArray_def dest: decode_ids_ok)

lemma decodeIdArray_back:
  "ids_ok None ss \<Longrightarrow> length ss \<le> n \<Longrightarrow> decodeIdArray field (JArr (map JStr ss)) n = Inr ss"
  by (simp add: decodeIdArray_def decode_ids_back)

fun connectors_ok :: "string option \<Rightarrow> connector list \<Rightarrow> bool" where
  "connectors_ok prev [] = True"
| "connectors_ok prev (c # cs) = (CANONICAL_ID (cn_server c)
     \<and> ascends prev (cn_server c)
     \<and> ids_ok None (cn_tools c) \<and> length (cn_tools c) \<le> MAX_TOOLS_PER_CONNECTOR
     \<and> connectors_ok (Some (cn_server c)) cs)"

lemma decode_connectors_ok:
  "decode_connectors prev vs = Inr cs \<Longrightarrow> connectors_ok prev cs \<and> length cs = length vs"
proof (induction vs arbitrary: prev cs)
  case (Cons v vs)
  then obtain tools rest where "decodeIdArray ''connectors.tools'' (fld v ''tools'') MAX_TOOLS_PER_CONNECTOR = Inr tools"
      and "decode_connectors (Some (js_str (fld v ''server''))) vs = Inr rest"
      and "cs = \<lparr>cn_server = js_str (fld v ''server''), cn_tools = tools\<rparr> # rest"
      and "CANONICAL_ID (js_str (fld v ''server''))" and "ascends prev (js_str (fld v ''server''))"
    by (auto simp: Let_def)
  with Cons.IH decodeIdArray_ok show ?case by fastforce
qed simp

lemma decode_connectors_back:
  "connectors_ok prev cs \<Longrightarrow> decode_connectors prev (map connector_js cs) = Inr cs"
proof (induction cs arbitrary: prev)
  case (Cons c cs)
  have "assertExactKeys ''connectors'' (connector_js c) [''server'', ''tools''] = None"
    by (auto simp: assertExactKeys_None connector_js_def)
  moreover have "fld (connector_js c) ''server'' = JStr (cn_server c)"
      "fld (connector_js c) ''tools'' = JArr (map JStr (cn_tools c))" "is_record (connector_js c)"
    by (simp_all add: connector_js_def)
  ultimately show ?case using Cons by (simp add: Let_def decodeIdArray_back)
qed simp

definition advertisement_valid :: "host_advertisement \<Rightarrow> bool" where
  "advertisement_valid a \<longleftrightarrow> DAEMON_VERSION (ha_daemonVersion a) \<and> is_iso (ha_reportedAt a)
     \<and> connectors_ok None (ha_connectors a) \<and> length (ha_connectors a) \<le> MAX_CONNECTORS
     \<and> ids_ok None (ha_skills a) \<and> length (ha_skills a) \<le> MAX_SKILLS
     \<and> ids_ok None (ha_filesystemRoots a) \<and> length (ha_filesystemRoots a) \<le> MAX_FILESYSTEM_ROOTS"

lemma decodeHostAdvertisement_valid: "decodeHostAdvertisement v = Inr a \<Longrightarrow> advertisement_valid a"
  by (auto simp: decodeHostAdvertisement_def decodeConnectors_def Let_def advertisement_valid_def
      dest!: decodeIdArray_ok decode_connectors_ok canonical_js_str split: option.splits)

lemma decodeHostAdvertisement_back:
  assumes "advertisement_valid a"
  shows "decodeHostAdvertisement (advertisement_js a) = Inr a"
proof -
  have k: "assertExactKeys ''hostAdvertisement'' (advertisement_js a) HOST_ADVERTISEMENT_FIELDS = None"
    by (simp add: assertExactKeys_None advertisement_js_def HOST_ADVERTISEMENT_FIELDS_def)
  have c: "assertExactKeys ''clis'' (JObj [(''claude'', x), (''codex'', y)]) [''claude'', ''codex''] = None" for x y
    by (simp add: assertExactKeys_None)
  have flds: "fld (advertisement_js a) ''hostId'' = JStr (host_str (ha_hostId a))"
      "fld (advertisement_js a) ''daemonVersion'' = JStr (ha_daemonVersion a)"
      "fld (advertisement_js a) ''reportedAt'' = JStr (ha_reportedAt a)"
      "fld (advertisement_js a) ''connectors'' = JArr (map connector_js (ha_connectors a))"
      "fld (advertisement_js a) ''skills'' = JArr (map JStr (ha_skills a))"
      "fld (advertisement_js a) ''filesystemRoots'' = JArr (map JStr (ha_filesystemRoots a))"
      "fld (advertisement_js a) ''pty'' = JBool (ha_pty a)" "fld (advertisement_js a) ''gpu'' = JBool (ha_gpu a)"
      "fld (advertisement_js a) ''clis'' =
         JObj [(''claude'', JStr (cli_str (ha_claude a))), (''codex'', JStr (cli_str (ha_codex a)))]"
      "is_record (advertisement_js a) = True"
    by (simp_all add: advertisement_js_def)
  show ?thesis
    using assms
    unfolding decodeHostAdvertisement_def exact_ok[OF k] flds advertisement_valid_def
    by (simp add: decodeConnectors_def decode_connectors_back decodeIdArray_back c decodeCliStatus_def)
qed

definition lease_valid :: "placement_lease \<Rightarrow> bool" where
  "lease_valid l \<longleftrightarrow> SAFE_REF (pl_runRef l) \<and> hex_len 64 (pl_capabilityHash l) \<and> 1 \<le> pl_revision l
     \<and> is_iso (pl_expiresAt l) \<and> 0 \<le> pl_lastReportSequence l"

lemma js_whole_int: "js_whole v n \<Longrightarrow> n \<le> js_int v"
  by (cases v) auto

lemma decodePlacementLease_valid: "decodePlacementLease v = Inr l \<Longrightarrow> lease_valid l"
  by (auto simp: decodePlacementLease_def lease_valid_def dest: js_whole_int js_hex_js_str canonical_js_str
      split: option.splits)

lemma decodePlacementLease_back: "decodePlacementLease (lease_js l) = Inr l' \<longleftrightarrow> l' = l \<and> lease_valid l"
proof -
  have k: "assertExactKeys ''placementLease'' (lease_js l) PLACEMENT_LEASE_FIELDS = None"
    by (simp add: assertExactKeys_None lease_js_def PLACEMENT_LEASE_FIELDS_def)
  have flds: "fld (lease_js l) ''runRef'' = JStr (pl_runRef l)" "fld (lease_js l) ''hostId'' = JStr (host_str (pl_hostId l))"
      "fld (lease_js l) ''capabilityHash'' = JStr (pl_capabilityHash l)" "fld (lease_js l) ''revision'' = JNum (pl_revision l)"
      "fld (lease_js l) ''expiresAt'' = JStr (pl_expiresAt l)"
      "fld (lease_js l) ''lastReportSequence'' = JNum (pl_lastReportSequence l)" "is_record (lease_js l) = True"
    by (simp_all add: lease_js_def)
  show ?thesis
    unfolding decodePlacementLease_def exact_ok[OF k] flds lease_valid_def by (auto simp: js_hex_def)
qed

lemma decodePlacementLease_error:
  assumes "\<not> lease_valid l" obtains err where "decodePlacementLease (lease_js l) = Inl err"
proof (cases "decodePlacementLease (lease_js l)")
  case (Inr l')
  then have "l' = l \<and> lease_valid l" unfolding decodePlacementLease_back .
  with assms show thesis by blast
qed (use that in blast)

end
