(* ===== verification/Idempotency.thy ===== *)
theory Idempotency
  imports Placement
begin

text \<open>
  The idempotency records of the v1 API (\<open>api/v1/idempotency.ts\<close>): the key grammar, the composite
  record key, the exact-key decoder of a stored row, and the comparison of a request with its row. The
  composite key determines its four parts, so two requests share a row only when all four agree.
\<close>

definition IDEMPOTENCY_KEY :: "string \<Rightarrow> bool" where
  "IDEMPOTENCY_KEY s \<longleftrightarrow> 16 \<le> length s \<and> length s \<le> 128
     \<and> list_all (\<lambda>c. is_alnum c \<or> c \<in> set ''_.:-'') s"

definition isIdempotencyKey :: "js \<Rightarrow> bool" where
  "isIdempotencyKey v \<longleftrightarrow> is_str v \<and> IDEMPOTENCY_KEY (js_str v)"

definition SAFE_ACTOR :: "string \<Rightarrow> bool" where
  "SAFE_ACTOR = head_tail is_alnum (\<lambda>c. is_alnum c \<or> c \<in> set ''._:-'') 127"

fun method_str :: "http_method \<Rightarrow> string" where
  "method_str MPost = ''POST''"
| "method_str MPut = ''PUT''"
| "method_str MDelete = ''DELETE''"

definition js_method :: "js \<Rightarrow> http_method option" where
  "js_method v = (if v = JStr ''POST'' then Some MPost else if v = JStr ''PUT'' then Some MPut
     else if v = JStr ''DELETE'' then Some MDelete else None)"

lemma js_method_str [simp]: "js_method (JStr (method_str m)) = Some m"
  by (cases m) (simp_all add: js_method_def)

definition canonicalBodyHash :: "env \<Rightarrow> js \<Rightarrow> string" where
  "canonicalBodyHash e body = e_sha256 e (canon ''null'' body)"

definition sep :: char where
  "sep = CHR 0x01"

definition idempotencyRecordKey ::
  "string \<Rightarrow> http_method \<Rightarrow> string \<Rightarrow> string \<Rightarrow> decode_error + string" where
  "idempotencyRecordKey actor meth uri key =
     require (SAFE_ACTOR actor) (''actorOrNodeId'', ''safe id required'')
    (require (uri \<noteq> [] \<and> CHR 0x0A \<notin> set uri) (''uri'', ''non-empty single-line uri required'')
    (require (IDEMPOTENCY_KEY key) (''idempotencyKey'', ''must match /^[A-Za-z0-9_.:-]{16,128}$/'')
    (Inr (actor @ [sep] @ method_str meth @ [sep] @ uri @ [sep] @ key))))"

definition V1_IDEMPOTENCY_RECORD_FIELDS :: "string list" where
  "V1_IDEMPOTENCY_RECORD_FIELDS = [''actorOrNodeId'', ''method'', ''uri'', ''key'', ''bodyHash'',
     ''status'', ''responseBody'', ''createdAt'']"

text \<open>
  \<open>SAFE_ACTOR.test(value)\<close> coerces: an actor that is not a string passes when its text matches.
\<close>

definition decodeV1IdempotencyRecord :: "js \<Rightarrow> decode_error + v1_idempotency" where
  "decodeV1IdempotencyRecord v =
     require (is_record v) (''v1IdempotencyRecord'', ''object required'')
    (exact ''v1IdempotencyRecord'' v V1_IDEMPOTENCY_RECORD_FIELDS
    (require (SAFE_ACTOR (js_String (fld v ''actorOrNodeId''))) (''actorOrNodeId'', ''safe id required'')
    (case js_method (fld v ''method'') of
       None \<Rightarrow> Inl (''method'', ''mutating method required, got '' @ json_stringify (fld v ''method''))
     | Some m \<Rightarrow>
     require (is_str (fld v ''uri'') \<and> js_str (fld v ''uri'') \<noteq> []) (''uri'', ''non-empty uri'')
    (require (isIdempotencyKey (fld v ''key'')) (''key'', ''invalid idempotency key'')
    (require (js_hex 64 (fld v ''bodyHash'')) (''bodyHash'', ''64 hex'')
    (require (js_whole (fld v ''status'') 100 \<and> js_int (fld v ''status'') \<le> 599) (''status'', ''http status 100..599'')
    (require (is_str (fld v ''responseBody'')) (''responseBody'', ''string required'')
    (require (isCanonicalTimestamp (fld v ''createdAt'')) (''createdAt'', ''RFC 3339 UTC required'')
    (Inr \<lparr>vi_actorOrNodeId = js_String (fld v ''actorOrNodeId''), vi_method = m, vi_uri = js_str (fld v ''uri''),
          vi_key = js_str (fld v ''key''), vi_bodyHash = js_str (fld v ''bodyHash''),
          vi_status = js_int (fld v ''status''), vi_responseBody = js_str (fld v ''responseBody''),
          vi_createdAt = js_str (fld v ''createdAt'')\<rparr>)))))))))"

datatype replay_outcome = ReplayStored int string | ReplayConflict

definition evaluateReplay :: "v1_idempotency \<Rightarrow> string \<Rightarrow> replay_outcome" where
  "evaluateReplay r presentedBodyHash =
     (if vi_bodyHash r = presentedBodyHash then ReplayStored (vi_status r) (vi_responseBody r)
      else ReplayConflict)"

section \<open>The composite key determines its parts\<close>

lemma sep_not_in: "SAFE_ACTOR s \<Longrightarrow> sep \<notin> set s" "IDEMPOTENCY_KEY s \<Longrightarrow> sep \<notin> set s" "sep \<notin> set (method_str m)"
proof -
  have "\<not> is_alnum sep"
    by (simp add: sep_def is_alnum_def is_lower_def is_upper_def is_digit_def)
  moreover have "sep \<notin> set ''._:-''" "sep \<notin> set ''_.:-''" by (simp_all add: sep_def)
  ultimately show "SAFE_ACTOR s \<Longrightarrow> sep \<notin> set s" "IDEMPOTENCY_KEY s \<Longrightarrow> sep \<notin> set s"
    by (auto simp: SAFE_ACTOR_def IDEMPOTENCY_KEY_def head_tail_def list_all_iff split: list.splits)
  show "sep \<notin> set (method_str m)" by (cases m) (simp_all add: sep_def)
qed

lemma split_first:
  "x \<notin> set as \<Longrightarrow> x \<notin> set bs \<Longrightarrow> as @ x # us = bs @ x # vs \<Longrightarrow> as = bs \<and> us = vs"
  by (induction as arbitrary: bs) (auto simp: Cons_eq_append_conv)

lemma split_last:
  assumes "x \<notin> set us" and "x \<notin> set vs" and "as @ x # us = bs @ x # vs"
  shows "as = bs \<and> us = vs"
proof -
  have "rev us @ x # rev as = rev vs @ x # rev bs"
    using assms(3) by (metis rev_append rev.simps(2) append_assoc append_Cons append_Nil)
  then have "rev us = rev vs \<and> rev as = rev bs" using assms(1,2) by (intro split_first) simp_all
  then show ?thesis by simp
qed

lemma method_str_inj: "method_str m = method_str m' \<longleftrightarrow> m = m'"
  by (cases m; cases m') simp_all

lemma idempotencyRecordKey_injective:
  assumes "idempotencyRecordKey a m u k = Inr s" and "idempotencyRecordKey a' m' u' k' = Inr s"
  shows "a = a' \<and> m = m' \<and> u = u' \<and> k = k'"
proof -
  from assms have v: "SAFE_ACTOR a" "IDEMPOTENCY_KEY k" "SAFE_ACTOR a'" "IDEMPOTENCY_KEY k'"
    and s: "a @ sep # (method_str m @ sep # u @ sep # k) = a' @ sep # (method_str m' @ sep # u' @ sep # k')"
    by (auto simp: idempotencyRecordKey_def)
  from split_first[OF sep_not_in(1)[OF v(1)] sep_not_in(1)[OF v(3)] s]
  have 1: "a = a'" "method_str m @ sep # (u @ sep # k) = method_str m' @ sep # (u' @ sep # k')" by auto
  from split_first[OF sep_not_in(3) sep_not_in(3) 1(2)]
  have 2: "m = m'" "u @ sep # k = u' @ sep # k'" by (auto simp: method_str_inj)
  from split_last[OF sep_not_in(2)[OF v(2)] sep_not_in(2)[OF v(4)] 2(2)] 1 2 show ?thesis by simp
qed

section \<open>Rows as they are persisted\<close>

definition idempotency_js :: "v1_idempotency \<Rightarrow> js" where
  "idempotency_js r = JObj [(''actorOrNodeId'', JStr (vi_actorOrNodeId r)), (''method'', JStr (method_str (vi_method r))),
     (''uri'', JStr (vi_uri r)), (''key'', JStr (vi_key r)), (''bodyHash'', JStr (vi_bodyHash r)),
     (''status'', JNum (vi_status r)), (''responseBody'', JStr (vi_responseBody r)),
     (''createdAt'', JStr (vi_createdAt r))]"

definition idempotency_valid :: "v1_idempotency \<Rightarrow> bool" where
  "idempotency_valid r \<longleftrightarrow> SAFE_ACTOR (vi_actorOrNodeId r) \<and> vi_uri r \<noteq> [] \<and> IDEMPOTENCY_KEY (vi_key r)
     \<and> hex_len 64 (vi_bodyHash r) \<and> 100 \<le> vi_status r \<and> vi_status r \<le> 599 \<and> is_iso (vi_createdAt r)"

lemma decodeV1IdempotencyRecord_back:
  "decodeV1IdempotencyRecord (idempotency_js r) = Inr r' \<longleftrightarrow> r' = r \<and> idempotency_valid r"
proof -
  have k: "assertExactKeys ''v1IdempotencyRecord'' (idempotency_js r) V1_IDEMPOTENCY_RECORD_FIELDS = None"
    by (simp add: assertExactKeys_None idempotency_js_def V1_IDEMPOTENCY_RECORD_FIELDS_def)
  have flds: "fld (idempotency_js r) ''actorOrNodeId'' = JStr (vi_actorOrNodeId r)"
      "fld (idempotency_js r) ''method'' = JStr (method_str (vi_method r))"
      "fld (idempotency_js r) ''uri'' = JStr (vi_uri r)" "fld (idempotency_js r) ''key'' = JStr (vi_key r)"
      "fld (idempotency_js r) ''bodyHash'' = JStr (vi_bodyHash r)" "fld (idempotency_js r) ''status'' = JNum (vi_status r)"
      "fld (idempotency_js r) ''responseBody'' = JStr (vi_responseBody r)"
      "fld (idempotency_js r) ''createdAt'' = JStr (vi_createdAt r)" "is_record (idempotency_js r) = True"
    by (simp_all add: idempotency_js_def)
  show ?thesis
    unfolding decodeV1IdempotencyRecord_def exact_ok[OF k] flds idempotency_valid_def
    by (auto simp: js_hex_def isIdempotencyKey_def)
qed

lemma decodeV1IdempotencyRecord_valid: "decodeV1IdempotencyRecord v = Inr r \<Longrightarrow> idempotency_valid r"
  by (auto simp: decodeV1IdempotencyRecord_def idempotency_valid_def isIdempotencyKey_def
      dest: js_whole_int js_hex_js_str canonical_js_str split: option.splits)

end
