(* ===== verification/PlacementState.thy ===== *)
theory PlacementState
  imports Idempotency
begin

text \<open>
  The placement collections of the document (\<open>control/placementState.ts\<close>): the lease claim and renew
  compare-and-swap, the two reclaim paths, the idempotency sweep, the cursor secret, and
  \<open>upsertHostAdvertisement\<close> of \<open>control/store.ts\<close>. Each works in place on the document it is given;
  an operation that throws after a mutation returns the mutated document with the error.
\<close>

section \<open>Operations\<close>

definition IDEMPOTENCY_TTL_MS :: int where "IDEMPOTENCY_TTL_MS = 24 * 60 * 60 * 1000"

text \<open>\<open>Date.parse(lease.expiresAt) <= nowMs\<close>: a text that is no date never compares.\<close>

definition lease_expired :: "int \<Rightarrow> placement_lease \<Rightarrow> bool" where
  "lease_expired nowMs l = (case iso_parse (pl_expiresAt l) of None \<Rightarrow> False | Some at \<Rightarrow> at \<le> nowMs)"

definition reclaimExpiredLeases :: "int \<Rightarrow> document \<Rightarrow> string list \<times> document" where
  "reclaimExpiredLeases nowMs d =
     (map pl_runRef (filter (lease_expired nowMs) (placementLeases d)),
      d\<lparr>placementLeases := filter (\<lambda>l. \<not> lease_expired nowMs l) (placementLeases d)\<rparr>)"

datatype claim_result = Granted placement_lease "string list" | AlreadyLeased placement_lease

definition is_lease :: "string \<Rightarrow> placement_lease \<Rightarrow> bool" where
  "is_lease runRef l \<longleftrightarrow> pl_runRef l = runRef"

definition new_lease :: "string \<Rightarrow> host_kind \<Rightarrow> string \<Rightarrow> int \<Rightarrow> placement_lease" where
  "new_lease runRef hostId capabilityHash nowMs =
     \<lparr>pl_runRef = runRef, pl_hostId = hostId, pl_capabilityHash = capabilityHash, pl_revision = 1,
      pl_expiresAt = iso (nowMs + LEASE_TTL_MS), pl_lastReportSequence = 0\<rparr>"

definition claimLease ::
  "string \<Rightarrow> host_kind \<Rightarrow> string \<Rightarrow> int \<Rightarrow> document \<Rightarrow> (decode_error + claim_result) \<times> document" where
  "claimLease runRef hostId capabilityHash nowMs d =
     (case reclaimExpiredLeases nowMs d of (reclaimed, d1) \<Rightarrow>
       (case find (is_lease runRef) (placementLeases d1) of
          Some held \<Rightarrow> (Inr (AlreadyLeased held), d1)
        | None \<Rightarrow>
          (case decodePlacementLease (lease_js (new_lease runRef hostId capabilityHash nowMs)) of
             Inl err \<Rightarrow> (Inl err, d1)
           | Inr l \<Rightarrow> (Inr (Granted l reclaimed), d1\<lparr>placementLeases := placementLeases d1 @ [l]\<rparr>))))"

datatype renew_refusal = LeaseExpired | LeaseNotFound | RevisionMismatch | WrongHost

datatype renew_result = Renewed placement_lease | RenewRefused renew_refusal

definition renewLease ::
  "string \<Rightarrow> host_kind \<Rightarrow> int \<Rightarrow> int \<Rightarrow> document \<Rightarrow> (decode_error + renew_result) \<times> document" where
  "renewLease runRef hostId expectedRevision nowMs d =
     (case find (is_lease runRef) (placementLeases d) of
        None \<Rightarrow> (Inr (RenewRefused LeaseNotFound), d)
      | Some current \<Rightarrow>
          if lease_expired nowMs current then (Inr (RenewRefused LeaseExpired), d)
          else if pl_hostId current \<noteq> hostId then (Inr (RenewRefused WrongHost), d)
          else if pl_revision current \<noteq> expectedRevision then (Inr (RenewRefused RevisionMismatch), d)
          else (case decodePlacementLease (lease_js (current\<lparr>pl_revision := pl_revision current + 1,
                       pl_expiresAt := iso (nowMs + LEASE_TTL_MS)\<rparr>)) of
                  Inl err \<Rightarrow> (Inl err, d)
                | Inr l \<Rightarrow> (Inr (Renewed l),
                    d\<lparr>placementLeases := upd_first (is_lease runRef) (\<lambda>_. l) (placementLeases d)\<rparr>)))"

definition row_stale :: "int \<Rightarrow> v1_idempotency \<Rightarrow> bool" where
  "row_stale nowMs row =
     (case iso_parse (vi_createdAt row) of None \<Rightarrow> False | Some at \<Rightarrow> nowMs - at \<ge> IDEMPOTENCY_TTL_MS)"

definition sweepExpiredIdempotency :: "int \<Rightarrow> document \<Rightarrow> v1_idempotency list \<times> document" where
  "sweepExpiredIdempotency nowMs d =
     (filter (row_stale nowMs) (v1Idempotency d),
      d\<lparr>v1Idempotency := filter (\<lambda>r. \<not> row_stale nowMs r) (v1Idempotency d)\<rparr>)"

definition sweepPlacementState :: "int \<Rightarrow> document \<Rightarrow> (string list \<times> v1_idempotency list) \<times> document" where
  "sweepPlacementState nowMs d =
     (case reclaimExpiredLeases nowMs d of (released, d1) \<Rightarrow>
       (case sweepExpiredIdempotency nowMs d1 of (rows, d2) \<Rightarrow> ((released, rows), d2)))"

text \<open>\<open>fresh\<close> is what \<open>randomBytes(32).toString('hex')\<close> yields.\<close>

definition getOrCreateCursorSecret :: "string \<Rightarrow> document \<Rightarrow> string \<times> document" where
  "getOrCreateCursorSecret fresh d =
     (case cursorSecret d of
        Some s \<Rightarrow> if 32 \<le> length s then (s, d) else (fresh, d\<lparr>cursorSecret := Some fresh\<rparr>)
      | None \<Rightarrow> (fresh, d\<lparr>cursorSecret := Some fresh\<rparr>))"

datatype upsert_result = Upserted int | VersionIs int

definition upsertHostAdvertisement ::
  "host_kind \<Rightarrow> js \<Rightarrow> int option \<Rightarrow> document \<Rightarrow> upsert_result outcome" where
  "upsertHostAdvertisement hostId advertisement expectedVersion d =
     (if fld advertisement ''hostId'' \<noteq> JStr (host_str hostId)
      then Raise (''host advertisement is for '' @ js_String (fld advertisement ''hostId'')
             @ '', not the addressed host '' @ host_str hostId)
      else let current = map_option ha_version (find (\<lambda>r. ha_hostId r = hostId) (hostAdvertisements d)) in
        if current \<noteq> expectedVersion
        then Value (VersionIs (case current of None \<Rightarrow> 0 | Some n \<Rightarrow> n))
        else let version = (case current of None \<Rightarrow> 0 | Some n \<Rightarrow> n) + 1 in
          (case decodeHostAdvertisement advertisement of
             Inl (field, detail) \<Rightarrow> Raise (field @ '': '' @ detail)
           | Inr a \<Rightarrow>
               let stored = host_advertisement.extend a \<lparr>ha_version = version\<rparr> in
               Save (d\<lparr>hostAdvertisements :=
                       filter (\<lambda>r. ha_hostId r \<noteq> hostId) (hostAdvertisements d) @ [stored]\<rparr>)
                 (Upserted version)))"

section \<open>The collections' invariant\<close>

definition leases_ok :: "document \<Rightarrow> bool" where
  "leases_ok d \<longleftrightarrow> list_all lease_valid (placementLeases d) \<and> distinct (map pl_runRef (placementLeases d))"

definition advertisements_ok :: "document \<Rightarrow> bool" where
  "advertisements_ok d \<longleftrightarrow>
     list_all (\<lambda>r. advertisement_valid (host_advertisement.truncate r) \<and> 1 \<le> ha_version r) (hostAdvertisements d)
     \<and> distinct (map ha_hostId (hostAdvertisements d))"

interpretation leases_ok: store_invariant leases_ok
  by unfold_locales (simp add: leases_ok_def)

interpretation advertisements_ok: store_invariant advertisements_ok
  by unfold_locales (simp add: advertisements_ok_def)

lemma lease_expired_valid: "lease_valid l \<Longrightarrow> lease_expired nowMs l \<longleftrightarrow> date_ms (pl_expiresAt l) \<le> nowMs"
  by (auto simp: lease_expired_def lease_valid_def is_iso_def date_ms_def split: option.splits)

lemma reclaim_keeps: "leases_ok d \<Longrightarrow> leases_ok (snd (reclaimExpiredLeases nowMs d))"
  by (auto simp: reclaimExpiredLeases_def leases_ok_def list_all_iff distinct_map_filter)

lemma new_lease_valid:
  assumes "SAFE_REF runRef" "hex_len 64 h" "iso_lo \<le> nowMs + LEASE_TTL_MS" "nowMs + LEASE_TTL_MS < iso_hi"
  shows "lease_valid (new_lease runRef hostId h nowMs)"
  using assms by (simp add: lease_valid_def new_lease_def is_iso_iso)

text \<open>The three ends of a claim, with the document after the reclaim that precedes them.\<close>

abbreviation reclaimed :: "int \<Rightarrow> document \<Rightarrow> document" where
  "reclaimed nowMs d \<equiv> snd (reclaimExpiredLeases nowMs d)"

lemma claim_held:
  "find (is_lease runRef) (placementLeases (reclaimed nowMs d)) = Some l \<Longrightarrow>
     claimLease runRef hostId h nowMs d = (Inr (AlreadyLeased l), reclaimed nowMs d)"
  by (simp add: claimLease_def case_prod_beta)

lemma claim_free:
  assumes "find (is_lease runRef) (placementLeases (reclaimed nowMs d)) = None"
    and "lease_valid (new_lease runRef hostId h nowMs)"
  shows "claimLease runRef hostId h nowMs d =
       (Inr (Granted (new_lease runRef hostId h nowMs) (fst (reclaimExpiredLeases nowMs d))),
        (reclaimed nowMs d)\<lparr>placementLeases := placementLeases (reclaimed nowMs d) @ [new_lease runRef hostId h nowMs]\<rparr>)"
proof -
  have "decodePlacementLease (lease_js (new_lease runRef hostId h nowMs)) = Inr (new_lease runRef hostId h nowMs)"
    using assms(2) by (simp add: decodePlacementLease_back)
  then show ?thesis using assms(1) by (simp add: claimLease_def case_prod_beta)
qed

lemma claim_thrown:
  assumes "find (is_lease runRef) (placementLeases (reclaimed nowMs d)) = None"
    and "\<not> lease_valid (new_lease runRef hostId h nowMs)"
  shows "\<exists>err. claimLease runRef hostId h nowMs d = (Inl err, reclaimed nowMs d)"
proof -
  obtain err where "decodePlacementLease (lease_js (new_lease runRef hostId h nowMs)) = Inl err"
    using assms(2) by (rule decodePlacementLease_error)
  then show ?thesis using assms(1) by (simp add: claimLease_def case_prod_beta)
qed

lemma claimLease_keeps: "leases_ok d \<Longrightarrow> leases_ok (snd (claimLease runRef hostId h nowMs d))"
proof -
  assume ok: "leases_ok d"
  note d1 = reclaim_keeps[OF ok, of nowMs]
  show ?thesis
  proof (cases "find (is_lease runRef) (placementLeases (reclaimed nowMs d))")
    case None
    show ?thesis
    proof (cases "lease_valid (new_lease runRef hostId h nowMs)")
      case True
      have "runRef \<notin> pl_runRef ` set (placementLeases (reclaimed nowMs d))"
        using None by (auto simp: find_None_iff' is_lease_def)
      moreover have "pl_runRef (new_lease runRef hostId h nowMs) = runRef" by (simp add: new_lease_def)
      ultimately show ?thesis
        using d1 True unfolding claim_free[OF None True] leases_ok_def by simp
    next
      case False
      from claim_thrown[OF None False] d1 show ?thesis by auto
    qed
  qed (use d1 claim_held in auto)
qed

lemma renew_held:
  assumes "find (is_lease runRef) (placementLeases d) = Some l" and "\<not> lease_expired nowMs l"
    and "pl_hostId l = hostId" and "pl_revision l = rv" and "lease_valid l"
    and "iso_lo \<le> nowMs + LEASE_TTL_MS" and "nowMs + LEASE_TTL_MS < iso_hi"
  defines "l' \<equiv> l\<lparr>pl_revision := rv + 1, pl_expiresAt := iso (nowMs + LEASE_TTL_MS)\<rparr>"
  shows "renewLease runRef hostId rv nowMs d =
    (Inr (Renewed l'), d\<lparr>placementLeases := upd_first (is_lease runRef) (\<lambda>_. l') (placementLeases d)\<rparr>)"
proof -
  have "lease_valid l'" using assms by (simp add: l'_def lease_valid_def is_iso_iso)
  then have "decodePlacementLease (lease_js l') = Inr l'" by (simp add: decodePlacementLease_back)
  then show ?thesis using assms by (simp add: renewLease_def)
qed

text \<open>A renewal changes the document only by replacing the live lease it was for.\<close>

lemma renewLease_document:
  obtains "snd (renewLease runRef hostId rv nowMs d) = d"
    and "\<And>l'. fst (renewLease runRef hostId rv nowMs d) \<noteq> Inr (Renewed l')"
  | l l' where "find (is_lease runRef) (placementLeases d) = Some l" and "lease_valid l'"
    and "\<not> lease_expired nowMs l" and "pl_hostId l = hostId" and "pl_revision l = rv"
    and "l' = l\<lparr>pl_revision := rv + 1, pl_expiresAt := iso (nowMs + LEASE_TTL_MS)\<rparr>"
    and "renewLease runRef hostId rv nowMs d = (Inr (Renewed l'),
          d\<lparr>placementLeases := upd_first (is_lease runRef) (\<lambda>_. l') (placementLeases d)\<rparr>)"
proof (cases "find (is_lease runRef) (placementLeases d)")
  case None
  then show thesis using that(1) by (simp add: renewLease_def)
next
  case (Some l)
  let ?l = "l\<lparr>pl_revision := rv + 1, pl_expiresAt := iso (nowMs + LEASE_TTL_MS)\<rparr>"
  show thesis
  proof (cases "lease_expired nowMs l \<or> pl_hostId l \<noteq> hostId \<or> pl_revision l \<noteq> rv")
    case True
    then have "snd (renewLease runRef hostId rv nowMs d) = d"
        "\<And>l'. fst (renewLease runRef hostId rv nowMs d) \<noteq> Inr (Renewed l')"
      using Some by (auto simp: renewLease_def)
    then show thesis by (rule that(1))
  next
    case False
    define l' where "l' = ?l"
    show thesis
    proof (cases "lease_valid l'")
      case True
      then have "decodePlacementLease (lease_js l') = Inr l'" by (simp add: decodePlacementLease_back)
      then have "renewLease runRef hostId rv nowMs d = (Inr (Renewed l'),
          d\<lparr>placementLeases := upd_first (is_lease runRef) (\<lambda>_. l') (placementLeases d)\<rparr>)"
        using Some False by (simp add: renewLease_def l'_def)
      then show thesis using that(2)[OF Some True _ _ _ l'_def] False by blast
    next
      case invalid: False
      then obtain err where "decodePlacementLease (lease_js l') = Inl err" by (rule decodePlacementLease_error)
      then have "snd (renewLease runRef hostId rv nowMs d) = d"
          "\<And>l'. fst (renewLease runRef hostId rv nowMs d) \<noteq> Inr (Renewed l')"
        using Some False by (simp_all add: renewLease_def l'_def)
      then show thesis by (rule that(1))
    qed
  qed
qed

lemma lease_after_renewal:
  assumes "find (is_lease r) (placementLeases d) = Some l" and "is_lease r l'"
  shows "find (is_lease r') (upd_first (is_lease r) (\<lambda>_. l') (placementLeases d))
    = (if r' = r then Some l' else find (is_lease r') (placementLeases d))"
proof (cases "r' = r")
  case False
  then have "\<not> is_lease r' l'" and "\<And>x. find (is_lease r) (placementLeases d) = Some x \<Longrightarrow> \<not> is_lease r' x"
    using assms(2) by (auto simp: is_lease_def find_Some_iff)
  then show ?thesis using False by (simp add: find_upd_first_other)
qed (simp add: find_upd_first_hit assms)

text \<open>A lease that is still alive is not reclaimed.\<close>

lemma find_filter_kept: "find P xs = Some x \<Longrightarrow> Q x \<Longrightarrow> find P (filter Q xs) = Some x"
  by (induction xs) (auto split: if_splits)

lemma renewLease_keeps:
  assumes "leases_ok d" shows "leases_ok (snd (renewLease runRef hostId rv nowMs d))"
proof (rule renewLease_document[of runRef hostId rv nowMs d])
  fix l l' assume l: "find (is_lease runRef) (placementLeases d) = Some l" "lease_valid l'"
    "l' = l\<lparr>pl_revision := rv + 1, pl_expiresAt := iso (nowMs + LEASE_TTL_MS)\<rparr>"
    and r: "renewLease runRef hostId rv nowMs d = (Inr (Renewed l'),
          d\<lparr>placementLeases := upd_first (is_lease runRef) (\<lambda>_. l') (placementLeases d)\<rparr>)"
  have "map pl_runRef (upd_first (is_lease runRef) (\<lambda>_. l') (placementLeases d)) = map pl_runRef (placementLeases d)"
    by (rule map_upd_first_same) (simp add: l)
  with l(2) assms show ?thesis by (simp add: r leases_ok_def list_all_upd_first)
qed (use assms in simp)

lemma reclaim_idempotent:
  "reclaimExpiredLeases nowMs (reclaimed nowMs d) = ([], reclaimed nowMs d)"
  by (simp add: reclaimExpiredLeases_def filter_empty_conv)

lemma sweep_keeps: "leases_ok d \<Longrightarrow> leases_ok (snd (sweepPlacementState nowMs d))"
  using reclaim_keeps[of d nowMs]
  by (simp add: sweepPlacementState_def sweepExpiredIdempotency_def leases_ok_def case_prod_beta)

lemma sweepPlacementState_idempotent:
  "sweepPlacementState nowMs (snd (sweepPlacementState nowMs d)) = (([], []), snd (sweepPlacementState nowMs d))"
  by (simp add: sweepPlacementState_def sweepExpiredIdempotency_def reclaimExpiredLeases_def filter_empty_conv)

section \<open>The advertisement compare-and-swap\<close>

definition find_advertisement :: "host_kind \<Rightarrow> document \<Rightarrow> stored_advertisement option" where
  "find_advertisement hostId d = find (\<lambda>r. ha_hostId r = hostId) (hostAdvertisements d)"

lemma decode_host: "decodeHostAdvertisement v = Inr a \<Longrightarrow> js_host (fld v ''hostId'') = Some (ha_hostId a)"
  by (auto simp: decodeHostAdvertisement_def Let_def split: option.splits)

lemma upsert_stored:
  assumes "next_doc (upsertHostAdvertisement hostId v expected d) = Some d'"
  obtains a n where "decodeHostAdvertisement v = Inr a" and "ha_hostId a = hostId"
    and "expected = map_option ha_version (find_advertisement hostId d)"
    and "n = (case expected of None \<Rightarrow> 0 | Some m \<Rightarrow> m) + 1"
    and "d' = d\<lparr>hostAdvertisements := filter (\<lambda>r. ha_hostId r \<noteq> hostId) (hostAdvertisements d)
           @ [host_advertisement.extend a \<lparr>ha_version = n\<rparr>]\<rparr>"
proof -
  from assms obtain a where a: "decodeHostAdvertisement v = Inr a" and h: "fld v ''hostId'' = JStr (host_str hostId)"
    and e: "map_option ha_version (find_advertisement hostId d) = expected"
    and d': "d' = d\<lparr>hostAdvertisements := filter (\<lambda>r. ha_hostId r \<noteq> hostId) (hostAdvertisements d)
      @ [host_advertisement.extend a \<lparr>ha_version = (case expected of None \<Rightarrow> 0 | Some m \<Rightarrow> m) + 1\<rparr>]\<rparr>"
    by (auto simp: upsertHostAdvertisement_def find_advertisement_def Let_def split: if_splits sum.splits)
  have "ha_hostId a = hostId" using decode_host[OF a] h by simp
  then show thesis using that[OF a _ e[symmetric] refl d'] by blast
qed

lemma upsertHostAdvertisement_keeps: "keeps advertisements_ok (upsertHostAdvertisement hostId v expected)"
proof (rule keepsI)
  fix d d' assume ok: "advertisements_ok d"
    and n: "next_doc (upsertHostAdvertisement hostId v expected d) = Some d'"
  obtain a n where a: "decodeHostAdvertisement v = Inr a" "ha_hostId a = hostId"
    and e: "expected = map_option ha_version (find_advertisement hostId d)"
    and nn: "n = (case expected of None \<Rightarrow> 0 | Some m \<Rightarrow> m) + 1"
    and d': "d' = d\<lparr>hostAdvertisements := filter (\<lambda>r. ha_hostId r \<noteq> hostId) (hostAdvertisements d)
           @ [host_advertisement.extend a \<lparr>ha_version = n\<rparr>]\<rparr>"
    by (rule upsert_stored[OF n])
  have "1 \<le> n"
  proof (cases "find_advertisement hostId d")
    case (Some r)
    then have "1 \<le> ha_version r"
      using ok find_Some_in[of _ "hostAdvertisements d" r]
      by (auto simp: advertisements_ok_def list_all_iff find_advertisement_def)
    with Some show ?thesis by (simp add: nn e)
  qed (simp add: nn e)
  moreover have "host_advertisement.truncate (host_advertisement.extend a \<lparr>ha_version = n\<rparr>) = a"
    by (simp add: host_advertisement.defs)
  then have "advertisement_valid (host_advertisement.truncate (host_advertisement.extend a \<lparr>ha_version = n\<rparr>))"
    using a(1) decodeHostAdvertisement_valid by simp
  moreover have "ha_version (host_advertisement.extend a \<lparr>ha_version = n\<rparr>) = n"
      "ha_hostId (host_advertisement.extend a \<lparr>ha_version = n\<rparr>) = ha_hostId a"
    by (simp_all add: host_advertisement.defs)
  ultimately show "advertisements_ok d'"
    using ok a(2) by (auto simp: d' advertisements_ok_def list_all_iff distinct_map_filter)
qed

section \<open>The wall the store opens with\<close>

text \<open>The text thrown by the first row that fails, if one does.\<close>

fun first_error :: "('a \<Rightarrow> string option) \<Rightarrow> 'a list \<Rightarrow> string option" where
  "first_error f [] = None"
| "first_error f (x # xs) = (case f x of Some err \<Rightarrow> Some err | None \<Rightarrow> first_error f xs)"

definition decode_text :: "decode_error + 'a \<Rightarrow> string option" where
  "decode_text r = (case r of Inl (field, detail) \<Rightarrow> Some (field @ '': '' @ detail) | Inr _ \<Rightarrow> None)"

definition advertisement_error :: "stored_advertisement \<Rightarrow> string option" where
  "advertisement_error r = (case decode_text (decodeHostAdvertisement (advertisement_js r)) of
     Some err \<Rightarrow> Some err
   | None \<Rightarrow> if ha_version r < 1 then Some ''invalid stored host advertisement version'' else None)"

definition assertPlacementCollections :: "document \<Rightarrow> string option" where
  "assertPlacementCollections d =
     (case first_error advertisement_error (hostAdvertisements d) of
        Some err \<Rightarrow> Some err
      | None \<Rightarrow>
          (case first_error (\<lambda>l. decode_text (decodePlacementLease (lease_js l))) (placementLeases d) of
             Some err \<Rightarrow> Some err
           | None \<Rightarrow> first_error (\<lambda>r. decode_text (decodeV1IdempotencyRecord (idempotency_js r))) (v1Idempotency d)))"

lemma first_error_None: "first_error f xs = None \<longleftrightarrow> (\<forall>x\<in>set xs. f x = None)"
  by (induction xs) (auto split: option.splits)

lemma decode_text_None: "decode_text r = None \<longleftrightarrow> (\<exists>a. r = Inr a)"
  by (cases r) (auto simp: decode_text_def)

lemma advertisement_js_truncate: "advertisement_js (host_advertisement.truncate r) = advertisement_js r"
  by (simp add: advertisement_js_def host_advertisement.defs)

lemma assertPlacementCollections_ok:
  assumes "leases_ok d" and "advertisements_ok d" and "list_all idempotency_valid (v1Idempotency d)"
  shows "assertPlacementCollections d = None"
proof -
  have "advertisement_error r = None" if "r \<in> set (hostAdvertisements d)" for r
  proof -
    have "advertisement_valid (host_advertisement.truncate r)" "1 \<le> ha_version r"
      using assms(2) that by (auto simp: advertisements_ok_def list_all_iff)
    then show ?thesis
      using decodeHostAdvertisement_back[of "host_advertisement.truncate r"]
      by (simp add: advertisement_error_def advertisement_js_truncate decode_text_def)
  qed
  moreover have "\<exists>a. decodePlacementLease (lease_js l) = Inr a" if "l \<in> set (placementLeases d)" for l
    using assms(1) that by (auto simp: decodePlacementLease_back leases_ok_def list_all_iff)
  moreover have "\<exists>a. decodeV1IdempotencyRecord (idempotency_js r) = Inr a" if "r \<in> set (v1Idempotency d)" for r
    using assms(3) that by (auto simp: decodeV1IdempotencyRecord_back list_all_iff)
  ultimately have "first_error advertisement_error (hostAdvertisements d) = None"
    "first_error (\<lambda>l. decode_text (decodePlacementLease (lease_js l))) (placementLeases d) = None"
    "first_error (\<lambda>r. decode_text (decodeV1IdempotencyRecord (idempotency_js r))) (v1Idempotency d) = None"
    by (simp_all add: first_error_None decode_text_None)
  then show ?thesis by (simp add: assertPlacementCollections_def)
qed

end
