(* ===== verification/LeaseService.thy ===== *)
theory LeaseService
  imports PlacementState
begin

text \<open>
  The lease service (\<open>placement/leaseService.ts\<close>): the long-polling claim, the sweeper and the renewal,
  written against the injected \<open>LeaseStorePort\<close> and clock. Nothing in the repository implements the port, so
  it is a parameter: a record of functions on the state of the world, time and the other users of the store
  included. An \<open>await\<close> is one step of that state, in which others may act too. What a claim relies on is
  \<open>claim_port_ok\<close>, and what the port's comments leave open is never assumed.
\<close>

section \<open>The port and the service\<close>

record 's lease_port =
  lp_now :: "'s \<Rightarrow> int \<times> 's"
  lp_sleep :: "int \<Rightarrow> 's \<Rightarrow> 's"
  lp_releaseExpiredLeases :: "string \<Rightarrow> 's \<Rightarrow> string list \<times> 's"
  lp_selectCandidate :: "host_kind \<Rightarrow> string \<Rightarrow> 's \<Rightarrow> (string \<times> string) option \<times> 's"
  lp_createLease :: "string \<Rightarrow> host_kind \<Rightarrow> string \<Rightarrow> string \<Rightarrow> 's \<Rightarrow> placement_lease option \<times> 's"
  lp_getLease :: "string \<Rightarrow> 's \<Rightarrow> placement_lease option \<times> 's"
  lp_renewLease :: "string \<Rightarrow> int \<Rightarrow> string \<Rightarrow> 's \<Rightarrow> placement_lease option \<times> 's"
  lp_currentAdvertisedCapabilityHash :: "host_kind \<Rightarrow> 's \<Rightarrow> string option \<times> 's"

definition MAX_CLAIM_WAIT_MS :: int where "MAX_CLAIM_WAIT_MS = 25000"

datatype claim_outcome = Claimed_lease placement_lease | NoContent204

text \<open>The \<open>for (;;)\<close> of the claim; \<open>None\<close> is a claim that never answers.\<close>

partial_function (option) claim_loop ::
  "'s lease_port \<Rightarrow> host_kind \<Rightarrow> int \<Rightarrow> int \<Rightarrow> 's \<Rightarrow> (claim_outcome \<times> 's) option" where
  "claim_loop p hostId pollMs deadline s =
     (case lp_now p s of (t, s1) \<Rightarrow>
      (case lp_releaseExpiredLeases p (iso t) s1 of (_, s2) \<Rightarrow>
      (case lp_selectCandidate p hostId (iso t) s2 of (candidate, s3) \<Rightarrow>
        (case candidate of
           Some (runRef, hash) \<Rightarrow>
             (case lp_createLease p runRef hostId hash (iso t) s3 of (lease, s4) \<Rightarrow>
               (case lease of
                  Some l \<Rightarrow> Some (Claimed_lease l, s4)
                | None \<Rightarrow> claim_loop p hostId pollMs deadline s4))
         | None \<Rightarrow>
             (case lp_now p s3 of (t2, s4) \<Rightarrow>
               if t2 \<ge> deadline then Some (NoContent204, s4)
               else (case lp_now p s4 of (t3, s5) \<Rightarrow>
                 claim_loop p hostId pollMs deadline
                   (lp_sleep p (min pollMs (max 0 (deadline - t3))) s5)))))))"

declare claim_loop.simps [code]

definition dt_wait_range :: string where
  "dt_wait_range = ''claimLease: waitMs must be an integer 0..'' @ int_str MAX_CLAIM_WAIT_MS"

definition service_claimLease ::
  "'s lease_port \<Rightarrow> host_kind \<Rightarrow> int \<Rightarrow> int option \<Rightarrow> 's \<Rightarrow> (string + claim_outcome \<times> 's) option" where
  "service_claimLease p hostId waitMs pollIntervalMs s =
     (if waitMs < 0 \<or> waitMs > MAX_CLAIM_WAIT_MS then Some (Inl dt_wait_range)
      else (case lp_now p s of (t, s1) \<Rightarrow>
        map_option Inr (claim_loop p hostId (case pollIntervalMs of None \<Rightarrow> 50 | Some n \<Rightarrow> n) (t + waitMs) s1)))"

definition sweepExpiredLeases :: "'s lease_port \<Rightarrow> string \<Rightarrow> 's \<Rightarrow> string list \<times> 's" where
  "sweepExpiredLeases p nowIso s = lp_releaseExpiredLeases p nowIso s"

datatype renew_outcome = RenewOk placement_lease | Renew403WrongHost | Renew409LeaseExpired | Renew409CapabilityLost

definition expired_at :: "string \<Rightarrow> placement_lease \<Rightarrow> bool" where
  "expired_at nowIso l = (case (iso_parse (pl_expiresAt l), iso_parse nowIso) of
     (Some a, Some b) \<Rightarrow> a \<le> b | _ \<Rightarrow> False)"

definition service_renewLease ::
  "'s lease_port \<Rightarrow> string \<Rightarrow> host_kind \<Rightarrow> int \<Rightarrow> string \<Rightarrow> 's \<Rightarrow> renew_outcome \<times> 's" where
  "service_renewLease p runRef hostId expectedLeaseRevision nowIso s =
     (case lp_getLease p runRef s of (existing, s1) \<Rightarrow>
       (case existing of
          None \<Rightarrow> (Renew409LeaseExpired, s1)
        | Some l \<Rightarrow>
            if pl_hostId l \<noteq> hostId then (Renew403WrongHost, s1)
            else if expired_at nowIso l then (Renew409LeaseExpired, s1)
            else (case lp_currentAdvertisedCapabilityHash p hostId s1 of (currentHash, s2) \<Rightarrow>
              if currentHash \<noteq> None \<and> currentHash \<noteq> Some (pl_capabilityHash l) then (Renew409CapabilityLost, s2)
              else (case lp_renewLease p runRef expectedLeaseRevision nowIso s2 of (renewed, s3) \<Rightarrow>
                (case renewed of None \<Rightarrow> (Renew409LeaseExpired, s3) | Some l' \<Rightarrow> (RenewOk l', s3))))))"

section \<open>What a claim relies on\<close>

text \<open>
  Between any two states of a claim time does not run backwards, and the races other claimants are still
  going to win (\<open>rivals\<close>) do not become more. The clock's \<open>now\<close> answers a time of the call, \<open>sleep\<close> takes at
  least as long as it is asked to, and \<open>createLease\<close> behaves as its comment says: a lease for the run and the
  host, or \<open>undefined\<close>, and then another claimant has won one of those races.
\<close>

definition onward :: "('s \<Rightarrow> bool) \<Rightarrow> ('s \<Rightarrow> int) \<Rightarrow> ('s \<Rightarrow> nat) \<Rightarrow> 's \<Rightarrow> 's \<Rightarrow> bool" where
  "onward I clock rivals s s' \<longleftrightarrow> I s' \<and> clock s \<le> clock s' \<and> rivals s' \<le> rivals s"

definition claim_port_ok :: "'s lease_port \<Rightarrow> ('s \<Rightarrow> bool) \<Rightarrow> ('s \<Rightarrow> int) \<Rightarrow> ('s \<Rightarrow> nat) \<Rightarrow> bool" where
  "claim_port_ok p I clock rivals \<longleftrightarrow> (\<forall>s. I s \<longrightarrow>
     (case lp_now p s of (t, s') \<Rightarrow> onward I clock rivals s s' \<and> clock s \<le> t \<and> t \<le> clock s')
     \<and> (\<forall>ms\<ge>0. onward I clock rivals s (lp_sleep p ms s) \<and> clock s + ms \<le> clock (lp_sleep p ms s))
     \<and> (\<forall>nowIso. onward I clock rivals s (snd (lp_releaseExpiredLeases p nowIso s)))
     \<and> (\<forall>h nowIso. onward I clock rivals s (snd (lp_selectCandidate p h nowIso s)))
     \<and> (\<forall>r h hsh nowIso. case lp_createLease p r h hsh nowIso s of (made, s') \<Rightarrow> onward I clock rivals s s'
         \<and> (case made of Some l \<Rightarrow> pl_runRef l = r \<and> pl_hostId l = h | None \<Rightarrow> rivals s' < rivals s)))"

text \<open>The lease is one the port created for a candidate it had selected for the host.\<close>

definition granted_by :: "'s lease_port \<Rightarrow> host_kind \<Rightarrow> placement_lease \<Rightarrow> bool" where
  "granted_by p h l \<longleftrightarrow> pl_hostId l = h \<and> (\<exists>hsh nowIso s s1 s2. lp_selectCandidate p h nowIso s = (Some (pl_runRef l, hsh), s1)
     \<and> lp_createLease p (pl_runRef l) h hsh nowIso s1 = (Some l, s2))"

text \<open>One round: an answer, or the state it goes on from, with a race lost or time passed.\<close>

lemma claim_round:
  assumes ok: "claim_port_ok p I clock rivals" and s: "I s" and poll: "0 < poll"
  obtains l s' where "claim_loop p h poll deadline s = Some (Claimed_lease l, s')" and "I s'" and "granted_by p h l"
  | s' where "claim_loop p h poll deadline s = Some (NoContent204, s')" and "I s'" and "deadline \<le> clock s'"
  | s' where "claim_loop p h poll deadline s = claim_loop p h poll deadline s'" and "I s'"
      and "rivals s' < rivals s \<or> rivals s' \<le> rivals s \<and> clock s < deadline \<and> clock s < clock s'"
proof -
  note law = ok[unfolded claim_port_ok_def, rule_format]
  obtain t s1 where t: "lp_now p s = (t, s1)" by fastforce
  have 1: "onward I clock rivals s s1" using law[OF s] t by simp
  obtain rs s2 where rel: "lp_releaseExpiredLeases p (iso t) s1 = (rs, s2)" by fastforce
  have 2: "onward I clock rivals s1 s2" using law[of s1] 1 rel by (auto simp: onward_def dest: spec[of _ "iso t"])
  obtain c s3 where sel: "lp_selectCandidate p h (iso t) s2 = (c, s3)" by fastforce
  have 3: "onward I clock rivals s2 s3"
  proof -
    have "I s2" using 2 by (simp add: onward_def)
    then have "onward I clock rivals s2 (snd (lp_selectCandidate p h (iso t) s2))" using law by blast
    then show ?thesis by (simp add: sel)
  qed
  show thesis
  proof (cases c)
    case (Some x)
    obtain r hsh where x: "x = (r, hsh)" by fastforce
    obtain made s4 where cr: "lp_createLease p r h hsh (iso t) s3 = (made, s4)" by fastforce
    have "I s3" using 3 by (simp add: onward_def)
    note created = law[OF this, THEN conjunct2, THEN conjunct2, THEN conjunct2, THEN conjunct2, rule_format, of r h hsh "iso t"]
    have 4: "onward I clock rivals s3 s4" "case made of Some l \<Rightarrow> pl_runRef l = r \<and> pl_hostId l = h | None \<Rightarrow> rivals s4 < rivals s3"
      using created by (simp_all add: cr)
    have step: "claim_loop p h poll deadline s = (case made of Some l \<Rightarrow> Some (Claimed_lease l, s4)
        | None \<Rightarrow> claim_loop p h poll deadline s4)"
      by (subst claim_loop.simps) (simp add: t rel sel Some x cr)
    show thesis
    proof (cases made)
      case None
      then show thesis using that(3)[of s4] step 1 2 3 4 by (simp add: onward_def)
    next
      case (Some l)
      then have "pl_runRef l = r" "pl_hostId l = h" using 4(2) by simp_all
      then have "granted_by p h l" unfolding granted_by_def using sel cr Some \<open>c = Some x\<close> x by metis
      then show thesis using that(1)[of l s4] step 4(1) Some by (simp add: onward_def)
    qed
  next
    case None
    obtain t2 s4 where t2: "lp_now p s3 = (t2, s4)" by fastforce
    have 4: "onward I clock rivals s3 s4" "clock s3 \<le> t2" "t2 \<le> clock s4" using law[of s3] 3 t2 by (auto simp: onward_def)
    obtain t3 s5 where t3: "lp_now p s4 = (t3, s5)" by fastforce
    have 5: "onward I clock rivals s4 s5" "clock s4 \<le> t3" "t3 \<le> clock s5" using law[of s4] 4 t3 by (auto simp: onward_def)
    let ?ms = "min poll (max 0 (deadline - t3))"
    have "I s5" "0 \<le> ?ms" using 5 poll by (simp_all add: onward_def)
    then have 6: "onward I clock rivals s5 (lp_sleep p ?ms s5)" "clock s5 + ?ms \<le> clock (lp_sleep p ?ms s5)"
      using law by blast+
    have step: "claim_loop p h poll deadline s = (if t2 \<ge> deadline then Some (NoContent204, s4)
        else claim_loop p h poll deadline (lp_sleep p ?ms s5))"
      by (subst claim_loop.simps) (simp add: t rel sel None t2 t3)
    show thesis
    proof (cases "deadline \<le> t2")
      case True
      then show thesis using that(2)[of s4] step 4 by (simp add: onward_def)
    next
      case False
      have "clock s \<le> clock s3" "rivals (lp_sleep p ?ms s5) \<le> rivals s" using 1 2 3 4 5 6 by (auto simp: onward_def)
      moreover have "clock s < clock (lp_sleep p ?ms s5)"
      proof (cases "t3 < deadline")
        case True
        then have "0 < ?ms" using poll by simp
        then show ?thesis using 4 5 6(2) \<open>clock s \<le> clock s3\<close> by linarith
      next
        case False
        have "?ms \<ge> 0" using poll by simp
        then show ?thesis using False \<open>\<not> deadline \<le> t2\<close> 4 5 6(2) \<open>clock s \<le> clock s3\<close> by linarith
      qed
      moreover have "clock s < deadline" using False 4(2) \<open>clock s \<le> clock s3\<close> by simp
      ultimately show thesis using that(3)[of "lp_sleep p ?ms s5"] step False 6(1) by (auto simp: onward_def)
    qed
  qed
qed

lemma claim_answers:
  assumes ok: "claim_port_ok p I clock rivals" and "I s" and poll: "0 < poll"
  shows "\<exists>x s'. claim_loop p h poll deadline s = Some (x, s')
    \<and> (case x of Claimed_lease l \<Rightarrow> granted_by p h l | NoContent204 \<Rightarrow> deadline \<le> clock s')"
proof -
  have "wf (inv_image (less_than <*lex*> less_than) (\<lambda>s. (rivals s, nat (deadline - clock s))))" by auto
  then show ?thesis using assms(2)
  proof (induction s rule: wf_induct_rule)
    case (less s)
    show ?case
    proof (rule claim_round[OF ok less.prems poll, of h deadline])
      fix s' assume e: "claim_loop p h poll deadline s = claim_loop p h poll deadline s'" and "I s'"
        and "rivals s' < rivals s \<or> rivals s' \<le> rivals s \<and> clock s < deadline \<and> clock s < clock s'"
      then have "(s', s) \<in> inv_image (less_than <*lex*> less_than) (\<lambda>s. (rivals s, nat (deadline - clock s)))"
        by auto
      then show ?thesis using less.IH[OF _ \<open>I s'\<close>] e by simp
    qed simp_all
  qed
qed

section \<open>A claim that never answers\<close>

text \<open>
  The lost race goes on without a look at the deadline. A port on which there is always a candidate and its
  lease is always gone keeps the claim in that branch.
\<close>

definition contended :: "'s lease_port \<Rightarrow> ('s \<Rightarrow> bool) \<Rightarrow> bool" where
  "contended p I \<longleftrightarrow> (\<forall>s. I s \<longrightarrow> I (snd (lp_now p s)) \<and> (\<forall>nowIso. I (snd (lp_releaseExpiredLeases p nowIso s)))
     \<and> (\<forall>h nowIso. fst (lp_selectCandidate p h nowIso s) \<noteq> None \<and> I (snd (lp_selectCandidate p h nowIso s)))
     \<and> (\<forall>r h hsh nowIso. fst (lp_createLease p r h hsh nowIso s) = None \<and> I (snd (lp_createLease p r h hsh nowIso s))))"

lemma claim_starves:
  assumes "contended p I" and "I s"
  shows "claim_loop p h poll deadline s = None"
proof -
  have False if "claim_loop p h poll deadline s = Some y" for y
  proof -
    have "contended p I \<longrightarrow> I s \<longrightarrow> False"
    proof (rule claim_loop.raw_induct[where P = "\<lambda>p h poll deadline s r. contended p I \<longrightarrow> I s \<longrightarrow> False", OF _ that])
      fix f p h poll deadline s y
      assume IH: "\<And>p h poll deadline s r. f p h poll deadline s = Some r \<Longrightarrow> contended p I \<longrightarrow> I s \<longrightarrow> False"
        and eq: "(case lp_now p s of (t, s1) \<Rightarrow>
            (case lp_releaseExpiredLeases p (iso t) s1 of (_, s2) \<Rightarrow>
            (case lp_selectCandidate p h (iso t) s2 of (candidate, s3) \<Rightarrow>
              (case candidate of
                 Some (runRef, hash) \<Rightarrow>
                   (case lp_createLease p runRef h hash (iso t) s3 of (lease, s4) \<Rightarrow>
                     (case lease of
                        Some l \<Rightarrow> Some (Claimed_lease l, s4)
                      | None \<Rightarrow> f p h poll deadline s4))
               | None \<Rightarrow>
                   (case lp_now p s3 of (t2, s4) \<Rightarrow>
                     if t2 \<ge> deadline then Some (NoContent204, s4)
                     else (case lp_now p s4 of (t3, s5) \<Rightarrow>
                       f p h poll deadline (lp_sleep p (min poll (max 0 (deadline - t3))) s5))))))) = Some y"
      show "contended p I \<longrightarrow> I s \<longrightarrow> False"
      proof (intro impI)
        assume c: "contended p I" and s: "I s"
        note law = c[unfolded contended_def, rule_format]
        obtain t s1 where t: "lp_now p s = (t, s1)" by fastforce
        have 1: "I s1" using law[OF s] t by simp
        obtain rs s2 where rel: "lp_releaseExpiredLeases p (iso t) s1 = (rs, s2)" by fastforce
        have 2: "I s2" using law[OF 1] rel by (metis snd_conv)
        obtain r hsh s3 where sel: "lp_selectCandidate p h (iso t) s2 = (Some (r, hsh), s3)"
          using law[OF 2] by (metis option.exhaust prod.exhaust fst_conv)
        have 3: "I s3" using law[OF 2] sel by (metis snd_conv)
        obtain s4 where cr: "lp_createLease p r h hsh (iso t) s3 = (None, s4)"
          using law[OF 3] by (metis prod.exhaust fst_conv)
        have 4: "I s4" using law[OF 3] cr by (metis snd_conv)
        have "f p h poll deadline s4 = Some y" using eq by (simp add: t rel sel cr)
        then show False using IH c 4 by blast
      qed
    qed
    then show False using assms by blast
  qed
  then show ?thesis by (cases "claim_loop p h poll deadline s") auto
qed

end
