(* ===== verification/StoreSteps.thy ===== *)
theory StoreSteps
  imports IterationSteps LaunchFacts Reconcile RunActivation DeploymentFacts AssetPulls LeaseService
begin

text \<open>
  The store as one machine: its operations as a datatype, the documents they reach from the empty one, and
  the invariant every reached document satisfies. That invariant is what the walls at the opening of the
  store check, so no sequence of operations makes the store refuse to open.
\<close>

section \<open>Operations\<close>

text \<open>The answers differ in type; what the document becomes does not depend on them.\<close>

fun forget :: "'a outcome \<Rightarrow> unit outcome" where
  "forget (Refuse r x) = Refuse r x"
| "forget (Value a) = Value ()"
| "forget (Replay a) = Replay ()"
| "forget (Raise x) = Raise x"
| "forget (Commit d a) = Commit d ()"
| "forget (CommitReplay d a) = CommitReplay d ()"
| "forget (CommitRaise d x) = CommitRaise d x"
| "forget (Save d a) = Save d ()"

lemma next_doc_forget [simp]: "next_doc (forget m) = next_doc m"
  by (cases m) simp_all

lemma exec_forget: "snd (exec e (\<lambda>d. forget (m d)) d) = snd (exec e m d)"
  by (cases "m d") (simp_all add: save_doc_def)

datatype store_op =
    CreateProposalRevision string revision_input
  | DecideProposal string string int decision_input
  | CreateRun string launch_input
  | AppendEvent string string js read_scope
  | CreateHumanRequest string string request_input read_scope
  | CreateHumanRequests string string string "js list"
  | ReviseHumanRequest string string int string string
  | RespondHumanRequest string string respond_input read_scope
  | CloseOrphanedHumanRequests int
  | TransitionRun string string int string
  | TransitionPublication string string int string
  | ArchiveRun string string archive_input read_scope
  | ClaimRunActivation string string activation_input
  | AdvanceRunActivation string string activation_input activation_phase
  | FailRunActivation string string activation_input
  | CreateManagerSuccessor string string successor_input
  | RecordManagerCommand string string command_input read_scope
  | RequestRunCancellation string string cancel_input
  | TransitionStage string string int string
  | LinkStageCard string string int string
  | CreateAttempt string string attempt_input
  | RerouteStage string string reroute_input
  | TransitionAttempt string string int string
  | CreateWorkerSession string string worker_input
  | TransitionSession string string int string "string option"
  | ReconcileCanonicalProjection string string reconcile_input
  | QuarantineRuns string "string list" string read_scope
  | RestoreRun string string read_scope
  | BrokerCall string broker_call
  | CreateDeployment string js
  | TransitionDeployment string string js
  | CreateAssetPullIntent string js
  | UpdateAssetPullIntent string string js
  | RecordStageGeneration string string generation_input
  | ActivateIterationLoop string string activate_input
  | RecordIterationRequest string string turn_input
  | RecordIterationReceipt string string receipt_input
  | AdvanceIterationTurn string string advance_input
  | ParkIterationLoop string string park_input
  | ResolveIterationGate string string gate_input read_scope

fun run_op :: "env \<Rightarrow> store_op \<Rightarrow> document \<Rightarrow> unit outcome" where
  "run_op e (CreateProposalRevision u i) d = forget (createProposalRevision e u i d)"
| "run_op e (DecideProposal u p n i) d = forget (decideProposal e u p n i d)"
| "run_op e (CreateRun u i) d = forget (createRun e u i d)"
| "run_op e (AppendEvent u r v sc) d = forget (appendEvent e u r v sc d)"
| "run_op e (CreateHumanRequest u r i sc) d = forget (createHumanRequest e u r i sc d)"
| "run_op e (CreateHumanRequests u r k is) d = forget (createHumanRequests e u r k is d)"
| "run_op e (ReviseHumanRequest u q n t p) d = forget (reviseHumanRequest e u q n t p d)"
| "run_op e (RespondHumanRequest u q i sc) d = forget (respondHumanRequest e u q i sc d)"
| "run_op e (CloseOrphanedHumanRequests t) d = forget (closeOrphanedHumanRequests e t d)"
| "run_op e (TransitionRun u r n s) d = forget (transitionRun e u r n s d)"
| "run_op e (TransitionPublication u r n s) d = forget (transitionPublication e u r n s d)"
| "run_op e (ArchiveRun u r i sc) d = forget (archiveRun e u r i sc d)"
| "run_op e (ClaimRunActivation u r i) d = forget (claimRunActivation e u r i d)"
| "run_op e (AdvanceRunActivation u r i p) d = forget (advanceRunActivation e u r i p d)"
| "run_op e (FailRunActivation u r i) d = forget (failRunActivation e u r i d)"
| "run_op e (CreateManagerSuccessor u r i) d = forget (createManagerSuccessor e u r i d)"
| "run_op e (RecordManagerCommand u r i sc) d = forget (recordManagerCommand e u r i sc d)"
| "run_op e (RequestRunCancellation u r i) d = forget (requestRunCancellation e u r i d)"
| "run_op e (TransitionStage u s n t) d = forget (transitionStage e u s n t d)"
| "run_op e (LinkStageCard u s n c) d = forget (linkStageCard e u s n c d)"
| "run_op e (CreateAttempt u s i) d = forget (createAttempt e u s i d)"
| "run_op e (RerouteStage u s i) d = forget (rerouteStage e u s i d)"
| "run_op e (TransitionAttempt u a n t) d = forget (transitionAttempt e u a n t d)"
| "run_op e (CreateWorkerSession u a i) d = forget (createWorkerSession e u a i d)"
| "run_op e (TransitionSession u m n t k) d = forget (transitionSession e u m n t k d)"
| "run_op e (ReconcileCanonicalProjection u r i) d = forget (reconcileCanonicalProjection e u r i d)"
| "run_op e (QuarantineRuns u rs h sc) d = forget (quarantineRuns e u rs h sc d)"
| "run_op e (RestoreRun u r sc) d = forget (restoreRun e u r sc d)"
| "run_op e (BrokerCall u c) d = forget (run_broker e u c d)"
| "run_op e (CreateDeployment u v) d = forget (createDeployment e u v d)"
| "run_op e (TransitionDeployment u r v) d = forget (transitionDeployment e u r v d)"
| "run_op e (CreateAssetPullIntent u v) d = forget (createAssetPullIntent u v d)"
| "run_op e (UpdateAssetPullIntent u r v) d = forget (updateAssetPullIntent u r v d)"
| "run_op e (RecordStageGeneration u x i) d = forget (recordStageGeneration e u x i d)"
| "run_op e (ActivateIterationLoop u x i) d = forget (activateIterationLoop e u x i d)"
| "run_op e (RecordIterationRequest u x i) d = forget (recordIterationRequest e u x i d)"
| "run_op e (RecordIterationReceipt u x i) d = forget (recordIterationReceipt e u x i d)"
| "run_op e (AdvanceIterationTurn u x i) d = forget (advanceIterationTurn e u x i d)"
| "run_op e (ParkIterationLoop u x i) d = forget (parkIterationLoop e u x i d)"
| "run_op e (ResolveIterationGate u x i sc) d = forget (resolveIterationGate e u x i sc d)"

text \<open>The lease operations commit inside themselves; they take the clock as an argument.\<close>

datatype lease_op =
    ClaimLease string host_kind string int
  | RenewLease string host_kind int int
  | SweepPlacement int

fun lease_step :: "lease_op \<Rightarrow> document \<Rightarrow> document" where
  "lease_step (ClaimLease r h hash t) d = snd (claimLease r h hash t d)"
| "lease_step (RenewLease r h n t) d = snd (renewLease r h n t d)"
| "lease_step (SweepPlacement t) d = snd (sweepPlacementState t d)"

section \<open>What the environment and the caller bring\<close>

text \<open>
  Fresh references name no row the document holds, the owner of a run is a safe identifier, numbers stay
  below 2^53, and the three inputs the code itself mishandles are left out: a settlement of an asset pull
  whose outcome contradicts its state, an empty predecessor reference, and a park that names the turn of
  another loop.
\<close>

definition loop_refs_fresh :: "env \<Rightarrow> document \<Rightarrow> bool" where
  "loop_refs_fresh e d \<longleftrightarrow> inj (ref e ''iteration-loop'')
     \<and> (\<forall>n. ref e ''iteration-loop'' n \<notin> set (map il_iterationLoopRef (loop_rows d)))"

fun op_ok :: "env \<Rightarrow> store_op \<Rightarrow> document \<Rightarrow> bool" where
  "op_ok e (CreateProposalRevision u i) d = proposal_ref_fresh e d"
| "op_ok e (CreateRun u i) d = (SAFE_ID u \<and> ri_proposalRevision i \<le> max_safe \<and> ri_predecessorRunRef i \<noteq> Some []
     \<and> launch_refs_fresh e d \<and> loop_refs_fresh e d)"
| "op_ok e (CreateAttempt u s i) d = attempt_ref_fresh e d"
| "op_ok e (RerouteStage u s i) d = attempt_ref_fresh e d"
| "op_ok e (CreateManagerSuccessor u r i) d = (mi_expectedManagerGeneration i < max_safe)"
| "op_ok e (UpdateAssetPullIntent u r v) d = (\<not> mismatched v)"
| "op_ok e (ActivateIterationLoop u x i) d = attempt_ref_fresh e d"
| "op_ok e (AdvanceIterationTurn u x i) d = attempt_ref_fresh e d"
| "op_ok e (ParkIterationLoop u x i) d = park_names_loop u x i d"
| "op_ok e _ d = True"

section \<open>The invariant\<close>

definition rest_inv :: "document \<Rightarrow> bool" where
  "rest_inv d \<longleftrightarrow> proposals_inv d \<and> deployments_inv d \<and> pulls_ok d \<and> leases_ok d"

definition store_inv :: "document \<Rightarrow> bool" where
  "store_inv d \<longleftrightarrow> whole_inv d \<and> stages_inv d \<and> loops_inv d \<and> rest_inv d"

interpretation store_inv: store_invariant store_inv
  by unfold_locales (simp add: store_inv_def rest_inv_def whole_inv.I_revision stages_inv.I_revision loops_inv.I_revision
      proposals_inv.I_revision deployments_inv.I_revision pulls_ok.I_revision leases_ok.I_revision)

lemma store_inv_parts:
  "store_inv d \<longleftrightarrow> core_inv d \<and> broker_inv d \<and> stages_inv d \<and> loops_inv d \<and> rest_inv d"
  by (auto simp: store_inv_def whole_inv_def)

text \<open>What an operation has to leave alone for each part.\<close>

definition same_aside :: "document \<Rightarrow> document \<Rightarrow> bool" where
  "same_aside d d' \<longleftrightarrow> proposals d' = proposals d \<and> deployments d' = deployments d
     \<and> assetPullIntents d' = assetPullIntents d \<and> placementLeases d' = placementLeases d"

definition same_rest :: "document \<Rightarrow> document \<Rightarrow> bool" where
  "same_rest d d' \<longleftrightarrow> proposals d' = proposals d \<and> deployments d' = deployments d
     \<and> assetPullIntents d' = assetPullIntents d \<and> placementLeases d' = placementLeases d
     \<and> iterationLoops d' = iterationLoops d"

definition same_work :: "document \<Rightarrow> document \<Rightarrow> bool" where
  "same_work d d' \<longleftrightarrow> attempts d' = attempts d \<and> stages d' = stages d \<and> quarantine d' = quarantine d"

definition same_ledger :: "stored_session \<Rightarrow> stored_session \<Rightarrow> bool" where
  "same_ledger s t \<longleftrightarrow> ms_brokerReceipts t = ms_brokerReceipts s \<and> ms_brokerSteering t = ms_brokerSteering s"

definition sessions_step :: "document \<Rightarrow> document \<Rightarrow> bool" where
  "sessions_step d d' \<longleftrightarrow> quarantine d' = quarantine d
     \<and> (\<forall>t\<in>set (sessions d'). (\<exists>s\<in>set (sessions d). same_ledger s t)
          \<or> ms_brokerReceipts t = [] \<and> ms_brokerSteering t = [])"

lemma same_rest_aside: "same_rest d d' \<Longrightarrow> same_aside d d'"
  by (simp add: same_rest_def same_aside_def)

lemma rest_same: "same_aside d d' \<Longrightarrow> rest_inv d \<Longrightarrow> rest_inv d'"
  by (simp add: same_aside_def rest_inv_def proposals_inv_def deployments_inv_def pulls_ok_def leases_ok_def)

lemma work_same: "same_work d d' \<Longrightarrow> stages_inv d \<Longrightarrow> stages_inv d'"
  using flight_same[of d' d] by (simp add: same_work_def stages_inv_def bundles_settled_def)

lemma sessions_same: "sessions_step d d' \<Longrightarrow> broker_inv d \<Longrightarrow> broker_inv d'"
  by (fastforce simp: sessions_step_def broker_inv_def list_all_iff session_sound_def same_ledger_def)

lemma same_ledger_refl [simp]: "same_ledger s s"
  by (simp add: same_ledger_def)

lemma sessions_step_refl: "sessions d' = sessions d \<Longrightarrow> quarantine d' = quarantine d \<Longrightarrow> sessions_step d d'"
  unfolding sessions_step_def by (metis same_ledger_refl)

lemma sessions_step_upd:
  assumes "sessions d' = upd_first p f (sessions d) @ ss" and "quarantine d' = quarantine d"
    and "\<And>s. same_ledger s (f s)" and "\<And>t. t \<in> set ss \<Longrightarrow> ms_brokerReceipts t = [] \<and> ms_brokerSteering t = []"
  shows "sessions_step d d'"
proof -
  have "\<exists>s\<in>set (sessions d). same_ledger s t" if "t \<in> set (upd_first p f (sessions d))" for t
    using set_upd_firstD[OF that] assms(3) same_ledger_refl by (metis find_SomeD)
  then show ?thesis using assms by (auto simp: sessions_step_def)
qed

lemma sessions_step_append:
  assumes "sessions d' = sessions d @ ss" and "quarantine d' = quarantine d"
    and "\<And>t. t \<in> set ss \<Longrightarrow> ms_brokerReceipts t = [] \<and> ms_brokerSteering t = []"
  shows "sessions_step d d'"
  by (rule sessions_step_upd[where p = "\<lambda>_. False" and f = "\<lambda>x. x" and ss = ss]) (simp_all add: assms upd_first_id)

text \<open>
  What every operation promises of the document it commits: the invariant, and that nothing a human decided
  is lost. An answered request stays as it is, in the document or in the bundle its run was moved to; a
  stored proposal revision keeps its content and the decision it took; a loop moves along its machine.
\<close>

definition loops_kept :: "document \<Rightarrow> document \<Rightarrow> bool" where
  "loops_kept d d' \<longleftrightarrow> (\<forall>l\<in>set (loop_rows d). \<exists>l'\<in>set (loop_rows d'). loop_path l l')"

definition all_requests :: "document \<Rightarrow> stored_request list" where
  "all_requests d = humanRequests d @ concat (map qb_humanRequests (quarantine d))"

definition answers_kept :: "document \<Rightarrow> document \<Rightarrow> bool" where
  "answers_kept d d' \<longleftrightarrow> (\<forall>q\<in>set (all_requests d). hq_response q \<noteq> None \<longrightarrow> q \<in> set (all_requests d'))"

lemma loops_step_iff: "loops_step d d' \<longleftrightarrow> (loops_inv d \<longrightarrow> loops_inv d' \<and> loops_kept d d')"
  by (simp add: loops_step_def loops_kept_def)

lemma loops_kept_trans: "loops_kept a b \<Longrightarrow> loops_kept b c \<Longrightarrow> loops_kept a c"
  unfolding loops_kept_def by (meson loop_path_trans)

definition op_step :: "document \<Rightarrow> document \<Rightarrow> bool" where
  "op_step d d' \<longleftrightarrow> store_inv d' \<and> answers_kept d d' \<and> revisions_kept d d' \<and> loops_kept d d'"

lemma answers_kept_rows:
  assumes "rows_kept (humanRequests d) (humanRequests d')" and "quarantine d' = quarantine d"
  shows "answers_kept d d'"
  using rows_kept_answer[OF assms(1)] by (auto simp: answers_kept_def all_requests_def assms(2))

lemma answers_kept_held: "all_held d d' \<Longrightarrow> answers_kept d d'"
proof -
  assume "all_held d d'"
  then have "mset (all_requests d') = mset (all_requests d)"
    by (simp add: all_held_def held_def all_requests_def)
  then show ?thesis by (metis answers_kept_def set_mset_mset)
qed

lemma revisions_kept_same: "proposals d' = proposals d \<Longrightarrow> revisions_kept d d'"
  by (simp add: revisions_kept_def list_all2_refl revision_kept_refl)

lemma store_step_loops:
  assumes "store_inv d" and "core_step d d'" and "broker_inv d \<Longrightarrow> broker_inv d'" and "stages_inv d \<Longrightarrow> stages_inv d'"
    and "loops_step d d'" and "same_aside d d'" and "quarantine d' = quarantine d"
  shows "op_step d d'"
proof -
  have "core_inv d" "loops_inv d" using assms(1) by (simp_all add: store_inv_parts)
  then have "rows_kept (humanRequests d) (humanRequests d')" using assms(2) core_stepD by blast
  moreover have "loops_inv d'" "loops_kept d d'" using assms(5) \<open>loops_inv d\<close> by (simp_all add: loops_step_iff)
  moreover have "proposals d' = proposals d" using assms(6) by (simp add: same_aside_def)
  moreover have "store_inv d'" using assms \<open>loops_inv d'\<close> rest_same by (auto simp: store_inv_parts core_step_def)
  ultimately show ?thesis using answers_kept_rows[OF _ assms(7)] revisions_kept_same by (simp add: op_step_def)
qed

lemma store_step:
  assumes "store_inv d" and "core_step d d'" and "broker_inv d \<Longrightarrow> broker_inv d'" and "stages_inv d \<Longrightarrow> stages_inv d'"
    and "same_rest d d'" and "quarantine d' = quarantine d"
  shows "op_step d d'"
  by (rule store_step_loops[OF assms(1-4) loops_step_same same_rest_aside]) (use assms(5,6) in \<open>simp_all add: same_rest_def\<close>)

text \<open>An operation that is quiet touches runs, requests, events or schedules only.\<close>

definition quiet :: "document \<Rightarrow> document \<Rightarrow> bool" where
  "quiet d d' \<longleftrightarrow> same_work d d' \<and> sessions d' = sessions d \<and> same_rest d d'"

lemmas frame_defs = quiet_def same_work_def same_rest_def

lemma quiet_refl: "quiet d d"
  by (simp add: frame_defs)

lemma quiet_trans: "quiet a b \<Longrightarrow> quiet b c \<Longrightarrow> quiet a c"
  by (simp add: frame_defs)

lemma quiet_step:
  assumes "store_inv d" and "core_step d d'" and "quiet d d'"
  shows "op_step d d'"
  by (rule store_step[OF assms(1,2)])
    (use assms(3) sessions_same[OF sessions_step_refl] work_same in \<open>auto simp: quiet_def same_work_def\<close>)

lemma rest_step:
  assumes "store_inv d" and "same_log d d'" and "runs d' = runs d" and "same_work d d'" and "sessions d' = sessions d"
    and "rest_inv d'" and "revisions_kept d d'" and "iterationLoops d' = iterationLoops d"
  shows "op_step d d'"
proof -
  have "loops_inv d'" "loops_kept d d'" using loops_step_same[OF assms(8)] assms(1,4)
    by (simp_all add: same_work_def loops_step_iff store_inv_parts)
  moreover
  have "core_step d d'" by (rule core_step_same[OF assms(2,3)])
  then have "store_inv d'" using assms sessions_same[OF sessions_step_refl, of d' d] work_same[OF assms(4)]
      \<open>loops_inv d'\<close>
    by (auto simp: store_inv_parts core_step_def same_work_def)
  moreover have "answers_kept d d'" using assms(2) by (simp add: same_log_def answers_kept_def all_requests_def)
  ultimately show ?thesis using assms(7) by (simp add: op_step_def)
qed

section \<open>The quiet operations\<close>

lemma push_events_quiet: "quiet d (push_events vs d)"
  by (simp add: frame_defs push_events_def)

lemma autoClose_quiet: "quiet d (snd (autoCloseOpenHumanRequestsForRun subject runRef at tag reason m d))"
  by (simp add: autoCloseOpenHumanRequestsForRun_def frame_defs split: prod.split)

lemma close_orphans_quiet:
  assumes "close_orphans at m rs d = (closed, d')"
  shows "quiet d d' \<and> runs d' = runs d"
  using assms
proof (induction at m rs d arbitrary: closed d' rule: close_orphans.induct)
  case (2 at m r rs d)
  show ?case
  proof (cases "isTerminalRun (r_lifecycle r)")
    case False
    then show ?thesis using 2 by simp
  next
    case True
    define x where "x = autoCloseOpenHumanRequestsForRun (r_subject r) (r_runRef r) at
        (terminal_tag (runLifecycleKind (r_lifecycle r))) (orphan_reason (runLifecycleKind (r_lifecycle r))) m d"
    obtain closed2 where c: "close_orphans at m rs (snd x) = (closed2, d')"
      using 2(3) True by (auto simp: x_def Let_def split: prod.splits)
    have "quiet (snd x) d' \<and> runs d' = runs (snd x)"
      using 2(2)[of "runLifecycleKind (r_lifecycle r)" "fst x" "snd x" closed2 d'] True c by (simp add: x_def)
    then show ?thesis using autoClose_quiet autoClose_keeps(4) unfolding x_def by (metis quiet_trans)
  qed
qed (simp add: quiet_refl)

lemma ask_core:
  assumes "requests_inv d \<Longrightarrow> asks_step d d'" and "d' = d\<lparr>humanRequests := qs\<rparr>"
  shows "core_step d d'"
  by (rule core_step_asks[OF assms(1)]) (simp_all add: assms(2) events_inv_def quarantined_events_def)

lemma ask_ops_step:
  assumes "store_inv d"
  shows "next_doc (createHumanRequest e u r i sc d) = Some d' \<Longrightarrow> op_step d d'"
    and "next_doc (createHumanRequests e u r k js d) = Some d' \<Longrightarrow> op_step d d'"
    and "next_doc (reviseHumanRequest e u q n t p d) = Some d' \<Longrightarrow> op_step d d'"
    and "next_doc (respondHumanRequest e u q ri sc d) = Some d' \<Longrightarrow> op_step d d'"
    and "next_doc (closeOrphanedHumanRequests e ms d) = Some d' \<Longrightarrow> op_step d d'"
proof -
  have s: "op_step d d'" if a: "requests_inv d \<Longrightarrow> asks_step d d'" and b: "\<exists>qs. d' = d\<lparr>humanRequests := qs\<rparr>" for d'
  proof -
    obtain qs where q: "d' = d\<lparr>humanRequests := qs\<rparr>" using b by blast
    show ?thesis by (rule quiet_step[OF assms ask_core[OF a q]]) (simp_all add: q frame_defs)
  qed
  show "next_doc (createHumanRequest e u r i sc d) = Some d' \<Longrightarrow> op_step d d'"
    by (rule s, erule(1) createHumanRequest_step, erule createHumanRequest_commit) blast
  show "next_doc (createHumanRequests e u r k js d) = Some d' \<Longrightarrow> op_step d d'"
    by (rule s, erule(1) createHumanRequests_step, erule createHumanRequests_commit) blast
  show "next_doc (reviseHumanRequest e u q n t p d) = Some d' \<Longrightarrow> op_step d d'"
    by (rule s, erule(1) reviseHumanRequest_step, erule reviseHumanRequest_commit) blast
  show "next_doc (respondHumanRequest e u q ri sc d) = Some d' \<Longrightarrow> op_step d d'"
    by (rule s, erule(1) respondHumanRequest_step, erule respondHumanRequest_commit) blast
  assume n: "next_doc (closeOrphanedHumanRequests e ms d) = Some d'"
  then obtain closed where c: "close_orphans (iso ms) (e_maxEvents e) (runs d) d = (closed, d')"
    by (cases "close_orphans (iso ms) (e_maxEvents e) (runs d) d")
      (auto simp: closeOrphanedHumanRequests_def split: if_splits)
  note q = close_orphans_quiet[OF c]
  have "core_step d d'"
    by (rule core_step_asks) (use closeOrphaned_step[OF n] q in \<open>auto simp: quiet_def same_work_def\<close>)
  then show "op_step d d'" using q quiet_step[OF assms] by blast
qed

lemma appendEvent_step: "store_inv d \<Longrightarrow> next_doc (appendEvent e u r v sc d) = Some d' \<Longrightarrow> op_step d d'"
  by (erule appendEvent_commit) (auto intro!: quiet_step[OF _ one_event_core push_events_quiet] simp: input_event_def)

lemma set_run_quiet: "quiet d (set_run u r f d)"
  by (simp add: frame_defs set_run_def)

lemma schedules_quiet: "schedules_step d d' \<Longrightarrow> quiet d d'"
proof -
  assume "schedules_step d d'"
  then obtain a b c where "d' = d\<lparr>schedules := a, scheduleCollectionRevision := b, scheduleOccurrenceClaims := c\<rparr>"
    unfolding schedules_step_def by metis
  then show ?thesis by (simp add: frame_defs)
qed

lemma with_closed_quiet: "quiet d (with_closed e u r k l at (with_moved u r k l at d))"
  using autoClose_quiet by (simp add: with_closed_def with_moved_def frame_defs)

lemma run_ops_step:
  assumes "store_inv d" and "env_ok e"
  shows "next_doc (transitionRun e u r n st d) = Some d' \<Longrightarrow> op_step d d'"
    and "next_doc (transitionPublication e u r n st d) = Some d' \<Longrightarrow> op_step d d'"
    and "next_doc (archiveRun e u r ai sc d) = Some d' \<Longrightarrow> op_step d d'"
    and "next_doc (claimRunActivation e u r vi d) = Some d' \<Longrightarrow> op_step d d'"
    and "next_doc (advanceRunActivation e u r vi ph d) = Some d' \<Longrightarrow> op_step d d'"
    and "next_doc (failRunActivation e u r vi d) = Some d' \<Longrightarrow> op_step d d'"
    and "next_doc (recordManagerCommand e u r ci sc d) = Some d' \<Longrightarrow> op_step d d'"
    and "next_doc (requestRunCancellation e u r ca d) = Some d' \<Longrightarrow> op_step d d'"
proof -
  note q = quiet_step[OF assms(1)]
  show "next_doc (transitionRun e u r n st d) = Some d' \<Longrightarrow> op_step d d'"
    by (rule q, erule transitionRun_core[OF assms(2)], erule transitionRun_commit)
      (blast intro: quiet_trans with_closed_quiet schedules_quiet)
  show "next_doc (transitionPublication e u r n st d) = Some d' \<Longrightarrow> op_step d d'"
    by (rule q, erule transitionPublication_core[OF assms(2)], erule transitionPublication_commit) (simp add: frame_defs)
  show "next_doc (archiveRun e u r ai sc d) = Some d' \<Longrightarrow> op_step d d'"
    by (rule q, erule archiveRun_core[OF assms(2)], erule archiveRun_commit)
      (simp add: frame_defs archived_document_def Let_def)
  show "next_doc (claimRunActivation e u r vi d) = Some d' \<Longrightarrow> op_step d d'"
    by (rule q, erule claimRunActivation_core[OF assms(2)], erule claimRunActivation_commit) (simp add: set_run_quiet)
  show "next_doc (advanceRunActivation e u r vi ph d) = Some d' \<Longrightarrow> op_step d d'"
    by (rule q, erule advanceRunActivation_core[OF assms(2)], erule advanceRunActivation_commit) (simp add: set_run_quiet)
  show "next_doc (failRunActivation e u r vi d) = Some d' \<Longrightarrow> op_step d d'"
    by (rule q, erule failRunActivation_core[OF assms(2)], erule failRunActivation_commit) (simp add: set_run_quiet)
  show "next_doc (recordManagerCommand e u r ci sc d) = Some d' \<Longrightarrow> op_step d d'"
    by (rule q, erule recordManagerCommand_core[OF assms(2)], erule recordManagerCommand_commit)
      (auto simp: frame_defs push_events_def)
  show "next_doc (requestRunCancellation e u r ca d) = Some d' \<Longrightarrow> op_step d d'"
    by (rule q, erule requestRunCancellation_core[OF assms(2)], erule requestRunCancellation_commit)
      (auto simp: frame_defs push_events_def)
qed

section \<open>Stages, attempts and sessions\<close>

lemma sessions_step_trans:
  assumes "sessions_step a b" and "sessions_step b c"
  shows "sessions_step a c"
proof -
  have "(\<exists>s\<in>set (sessions a). same_ledger s t) \<or> ms_brokerReceipts t = [] \<and> ms_brokerSteering t = []"
    if t: "t \<in> set (sessions c)" for t
  proof (cases "ms_brokerReceipts t = [] \<and> ms_brokerSteering t = []")
    case False
    then obtain s where s: "s \<in> set (sessions b)" "same_ledger s t" using assms(2) t by (auto simp: sessions_step_def)
    then have "\<not> (ms_brokerReceipts s = [] \<and> ms_brokerSteering s = [])" using False by (simp add: same_ledger_def)
    then obtain r where "r \<in> set (sessions a)" "same_ledger r s" using assms(1) s(1) by (auto simp: sessions_step_def)
    then show ?thesis using s(2) by (auto simp: same_ledger_def)
  qed simp
  then show ?thesis using assms by (simp add: sessions_step_def)
qed

lemma pending_ledger: "ms_brokerReceipts (pending_session a b c x y r n z u v k f t) = []
    \<and> ms_brokerSteering (pending_session a b c x y r n z u v k f t) = []"
  by (simp add: pending_session_def)

lemma moved_ledger: "same_ledger s (moved_session st at s)" "same_ledger s (bound_session k st at s)"
  "same_ledger s (project_session st at s)"
  by (simp_all add: same_ledger_def moved_session_def bound_session_def project_session_def)

lemma stage_ops_step:
  assumes "store_inv d"
  shows "next_doc (transitionStage e u x v st d) = Some d' \<Longrightarrow> op_step d d'"
    and "next_doc (linkStageCard e u x v c d) = Some d' \<Longrightarrow> op_step d d'"
    and "attempt_ref_fresh e d \<Longrightarrow> next_doc (createAttempt e u x ai d) = Some d' \<Longrightarrow> op_step d d'"
    and "attempt_ref_fresh e d \<Longrightarrow> next_doc (rerouteStage e u x ri d) = Some d' \<Longrightarrow> op_step d d'"
    and "next_doc (transitionAttempt e u x v st d) = Some d' \<Longrightarrow> op_step d d'"
    and "next_doc (createWorkerSession e u x wi d) = Some d' \<Longrightarrow> op_step d d'"
    and "next_doc (transitionSession e u x v st key d) = Some d' \<Longrightarrow> op_step d d'"
proof -
  have s: "core_step d d' \<Longrightarrow> stages_inv d' \<Longrightarrow> sessions_step d d' \<and> same_rest d d' \<Longrightarrow> op_step d d'"
    by (rule store_step[OF assms]) (auto intro: sessions_same simp: sessions_step_def)
  have st: "stages_inv d" using assms by (simp add: store_inv_parts)
  show "next_doc (transitionStage e u x v st d) = Some d' \<Longrightarrow> op_step d d'"
    by (rule s, erule stage_ops_core(1), erule other_stage_ops_flight(1)[OF st], erule transitionStage_commit)
      (simp add: sessions_step_refl same_rest_def)
  show "next_doc (linkStageCard e u x v c d) = Some d' \<Longrightarrow> op_step d d'"
    by (rule s, erule stage_ops_core(2), erule other_stage_ops_flight(2)[OF st], erule linkStageCard_commit)
      (simp add: sessions_step_refl same_rest_def)
  show "attempt_ref_fresh e d \<Longrightarrow> next_doc (createAttempt e u x ai d) = Some d' \<Longrightarrow> op_step d d'"
    by (rule s, erule stage_ops_core(3), erule(1) createAttempt_flight[OF st], erule createAttempt_commit)
      (simp add: sessions_step_refl same_rest_def)
  show "attempt_ref_fresh e d \<Longrightarrow> next_doc (rerouteStage e u x ri d) = Some d' \<Longrightarrow> op_step d d'"
    by (rule s, erule stage_ops_core(4), erule(1) rerouteStage_flight[OF st], erule rerouteStage_commit)
      (auto simp: same_rest_def rerouted_session_def pending_ledger moved_ledger intro!: sessions_step_upd)
  show "next_doc (transitionAttempt e u x v st d) = Some d' \<Longrightarrow> op_step d d'"
    by (rule s, erule stage_ops_core(5), erule other_stage_ops_flight(3)[OF st], erule transitionAttempt_commit)
      (simp add: sessions_step_refl same_rest_def)
  show "next_doc (createWorkerSession e u x wi d) = Some d' \<Longrightarrow> op_step d d'"
    by (rule s, erule stage_ops_core(6), erule other_stage_ops_flight(4)[OF st], erule createWorkerSession_commit)
      (auto simp: same_rest_def worker_session_def pending_ledger intro!: sessions_step_append)
  show "next_doc (transitionSession e u x v st key d) = Some d' \<Longrightarrow> op_step d d'"
    by (rule s, erule stage_ops_core(7), erule other_stage_ops_flight(5)[OF st], erule transitionSession_commit)
      (auto simp: same_rest_def moved_ledger intro!: sessions_step_upd[where ss = "[]"])
qed

lemma projections_frame:
  "sessions_step d (fold (apply_projection u r at) ps d) \<and> same_rest d (fold (apply_projection u r at) ps d)"
proof (induction ps arbitrary: d)
  case Nil
  show ?case by (simp add: sessions_step_refl same_rest_def)
next
  case (Cons p ps)
  let ?d = "apply_projection u r at p d"
  have "sessions_step d ?d \<and> same_rest d ?d"
    by (auto simp: apply_projection_def same_rest_def moved_ledger intro!: sessions_step_upd[where ss = "[]"])
  then show ?case using Cons.IH[of ?d] by (auto simp: same_rest_def intro: sessions_step_trans)
qed

lemma reconcile_step:
  assumes "store_inv d" and "env_ok e" and n: "next_doc (reconcileCanonicalProjection e u r i d) = Some d'"
  shows "op_step d d'"
proof (rule store_step[OF assms(1) reconcile_core[OF assms(2) n]])
  show "stages_inv d'" using assms(1) by (intro reconcile_stages_inv[OF _ n]) (simp add: store_inv_parts)
  have f: "sessions_step d d' \<and> same_rest d d'"
  proof (rule reconcile_commit[OF n])
    fix r' zs l k assume d': "d' = projected_document u r (e_stamp e 0) (ki_stages i) k l r' d"
    let ?d1 = "fold (apply_projection u r (e_stamp e 0)) (ki_stages i) d"
    have "sessions_step ?d1 d' \<and> same_rest ?d1 d'"
      by (auto simp: d' projected_document_def Let_def same_rest_def moved_ledger intro!: sessions_step_upd[where ss = "[]"])
    then show ?thesis using projections_frame[of d u r "e_stamp e 0" "ki_stages i"]
      by (auto simp: same_rest_def intro: sessions_step_trans)
  qed
  then show "same_rest d d'" "broker_inv d \<Longrightarrow> broker_inv d'" "quarantine d' = quarantine d"
    using sessions_same by (auto simp: sessions_step_def)
qed

lemma successor_step:
  assumes "store_inv d" and "env_ok e" and "refs_ok e" and "mi_expectedManagerGeneration i < max_safe"
    and n: "next_doc (createManagerSuccessor e u r i d) = Some d'"
  shows "op_step d d'"
proof (rule store_step[OF assms(1) createManagerSuccessor_core[OF assms(2-4) n]])
  have "same_work d d' \<and> sessions_step d d' \<and> same_rest d d'"
    by (rule createManagerSuccessor_commit[OF n])
      (auto simp: same_work_def same_rest_def successor_session_def pending_ledger intro!: sessions_step_append)
  then show "same_rest d d'" "broker_inv d \<Longrightarrow> broker_inv d'" "stages_inv d'" "quarantine d' = quarantine d"
    using sessions_same work_same assms(1) by (auto simp: store_inv_parts same_work_def)
qed

lemma broker_step:
  assumes "store_inv d" and n: "next_doc (run_broker e u c d) = Some d'"
  shows "op_step d d'"
proof (rule store_step[OF assms(1) run_broker_core[OF n]])
  have "same_work d d' \<and> same_rest d d'"
    by (rule run_broker_commit[OF n])
      (auto simp: broker_commit_def same_work_def same_rest_def put_session_def push_events_def)
  then show "same_rest d d'" "stages_inv d'" "quarantine d' = quarantine d"
    using work_same assms(1) by (auto simp: store_inv_parts same_work_def)
  show "broker_inv d \<Longrightarrow> broker_inv d'" by (rule keepsD[OF run_broker_keeps _ n])
qed

section \<open>The turns of a loop\<close>

lemma sessions_step_ledger:
  assumes "map ledger (sessions d') = map ledger (sessions d)" and "quarantine d' = quarantine d"
  shows "sessions_step d d'"
proof -
  have "\<exists>s\<in>set (sessions d). same_ledger s t" if "t \<in> set (sessions d')" for t
  proof -
    have "ledger t \<in> set (map ledger (sessions d))" using that assms(1) by (metis imageI set_map)
    then show ?thesis by (auto simp: ledger_def same_ledger_def)
  qed
  then show ?thesis using assms(2) by (simp add: sessions_step_def)
qed

lemma turn_op_step:
  assumes "store_inv d" and "turn_step d d'"
  shows "op_step d d'"
proof (rule store_step_loops[OF assms(1)])
  note t = assms(2)[unfolded turn_step_defs]
  show "core_step d d'"
  proof (rule core_step_asks)
    show "requests_inv d \<Longrightarrow> asks_step d d'" using t by (simp add: asks_kept_def)
    have "events d' = events d" "nextEventCursor d' = nextEventCursor d" "quarantine d' = quarantine d" using t by simp_all
    then have "events_inv d' = events_inv d" by (simp only: events_inv_def quarantined_events_def)
    then show "events_inv d \<Longrightarrow> events_inv d'" by simp
  qed (use t in simp_all)
  have "sessions_step d d'" by (rule sessions_step_ledger) (use t in simp_all)
  then show "broker_inv d \<Longrightarrow> broker_inv d'" by (rule sessions_same)
  show "stages_inv d'" using t assms(1) by (simp add: store_inv_parts)
  show "loops_step d d'" "same_aside d d'" "quarantine d' = quarantine d" using t by (simp_all add: same_aside_def)
qed

lemma turn_ops_step:
  assumes "store_inv d"
  shows "next_doc (recordStageGeneration e u x gi d) = Some d' \<Longrightarrow> op_step d d'"
    and "attempt_ref_fresh e d \<Longrightarrow> next_doc (activateIterationLoop e u x ai d) = Some d' \<Longrightarrow> op_step d d'"
    and "next_doc (recordIterationRequest e u x ti d) = Some d' \<Longrightarrow> op_step d d'"
    and "next_doc (recordIterationReceipt e u x ri d) = Some d' \<Longrightarrow> op_step d d'"
    and "attempt_ref_fresh e d \<Longrightarrow> next_doc (advanceIterationTurn e u x vi d) = Some d' \<Longrightarrow> op_step d d'"
    and "park_names_loop u x pi d \<Longrightarrow> next_doc (parkIterationLoop e u x pi d) = Some d' \<Longrightarrow> op_step d d'"
    and "next_doc (resolveIterationGate e u x ti' sc d) = Some d' \<Longrightarrow> op_step d d'"
proof -
  have l: "loops_inv d" using assms by (simp add: store_inv_parts)
  note t = turn_op_step[OF assms]
  show "next_doc (recordStageGeneration e u x gi d) = Some d' \<Longrightarrow> op_step d d'"
    by (rule t[OF recordStageGeneration_step])
  show "attempt_ref_fresh e d \<Longrightarrow> next_doc (activateIterationLoop e u x ai d) = Some d' \<Longrightarrow> op_step d d'"
    by (rule t[OF activateIterationLoop_step])
  show "next_doc (recordIterationRequest e u x ti d) = Some d' \<Longrightarrow> op_step d d'"
    by (rule t[OF recordIterationRequest_step])
  show "next_doc (recordIterationReceipt e u x ri d) = Some d' \<Longrightarrow> op_step d d'"
    by (rule t[OF recordIterationReceipt_step])
  show "attempt_ref_fresh e d \<Longrightarrow> next_doc (advanceIterationTurn e u x vi d) = Some d' \<Longrightarrow> op_step d d'"
    by (rule t[OF advanceIterationTurn_step])
  show "park_names_loop u x pi d \<Longrightarrow> next_doc (parkIterationLoop e u x pi d) = Some d' \<Longrightarrow> op_step d d'"
    by (rule t[OF parkIterationLoop_step])
  show "next_doc (resolveIterationGate e u x ti' sc d) = Some d' \<Longrightarrow> op_step d d'"
    by (rule t[OF resolveIterationGate_step[OF _ l]])
qed

section \<open>Quarantine, launches, proposals and the separate collections\<close>

lemma move_runs_rest: "move_runs e u sc at xs d = Some (items, d') \<Longrightarrow> same_aside d d'"
proof (induction xs arbitrary: d items)
  case (Cons x xs)
  obtain r items' where m: "move_runs e u sc at xs (move_run u sc x at r d) = Some (items', d')"
    using Cons.prems by (auto split: option.splits)
  have "same_aside d (move_run u sc x at r d)" by (simp add: same_aside_def move_run_def sweep_run_def)
  then show ?case using Cons.IH[OF m] by (simp add: same_aside_def)
qed (simp add: same_aside_def)

lemma quarantine_ops_step:
  assumes "store_inv d" and "env_ok e"
  shows "next_doc (quarantineRuns e u rs h sc d) = Some d' \<Longrightarrow> op_step d d'"
    and "next_doc (restoreRun e u r sc d) = Some d' \<Longrightarrow> op_step d d'"
proof -
  have w: "whole_inv d" "stages_inv d" "rest_inv d" "loops_inv d" using assms(1) by (simp_all add: store_inv_def)
  have st: "op_step d d'" if "whole_inv d'" "stages_inv d'" "same_aside d d'" "all_held d d'"
    using that w rest_same answers_kept_held revisions_kept_same loops_step_held[of d' d]
    by (simp add: op_step_def store_inv_def same_aside_def loops_step_iff all_held_def)
  show "next_doc (quarantineRuns e u rs h sc d) = Some d' \<Longrightarrow> op_step d d'"
  proof -
    assume n: "next_doc (quarantineRuns e u rs h sc d) = Some d'"
    have "same_aside d d'" by (rule quarantineRuns_commit[OF n]) (rule move_runs_rest)
    then show ?thesis
      using st quarantineRuns_keeps[OF n] quarantine_stages_inv[OF w(2) n] w(1) by blast
  qed
  assume n: "next_doc (restoreRun e u r sc d) = Some d'"
  have "same_aside d d'" by (rule restoreRun_commit[OF n]) (simp add: same_aside_def restore_bundle_def unbundled_def)
  then show "op_step d d'"
    using st restoreRun_whole[OF assms(2) w(1) n] restore_stages_inv[OF w(2) n] restoreRun_held(1)[OF n] by blast
qed

lemma launched_loop_refs:
  "map il_iterationLoopRef (launched_loops e u n gs) = map (ref e ''iteration-loop'') [n..<n + length gs]"
  by (induction gs arbitrary: n) (simp_all add: launched_loop_def upt_rec)

text \<open>New loops bring new keys and leave the loops there are.\<close>

lemma loops_step_append:
  assumes "iterationLoops d' = iterationLoops d @ ls" and "quarantine d' = quarantine d"
    and dist: "distinct (map il_iterationLoopRef ls)"
    and fresh: "set (map il_iterationLoopRef ls) \<inter> set (map il_iterationLoopRef (loop_rows d)) = {}"
  shows "loops_step d d'"
proof -
  have m: "mset (loop_rows d') = mset (loop_rows d @ ls)" by (simp add: loop_rows_def assms(1,2))
  have k: "distinct (map loop_key ls)" using dist by (induction ls) (auto simp: loop_key_def)
  have "loop_key l \<noteq> loop_key x" if "l \<in> set ls" "x \<in> set (loop_rows d)" for l x
    using fresh that by (auto simp: loop_key_def)
  then have "set (map loop_key (loop_rows d)) \<inter> set (map loop_key ls) = {}" by force
  then have "loops_inv d \<Longrightarrow> distinct (map loop_key (loop_rows d @ ls))" using k by (simp add: loops_inv_def)
  moreover have "mset (map loop_key (loop_rows d')) = mset (map loop_key (loop_rows d @ ls))" using m by simp
  ultimately have "loops_inv d \<Longrightarrow> loops_inv d'" unfolding loops_inv_def using mset_eq_imp_distinct_iff by blast
  then show ?thesis using mset_eq_setD[OF m] by (auto simp: loops_step_def intro!: bexI[where x = l for l])
qed

lemma launch_loops_step:
  assumes "loop_refs_fresh e d" and n: "next_doc (createRun e u i d) = Some d'"
  shows "loops_step d d'"
proof (rule createRun_commit[OF n])
  fix a p l groups
  let ?ls = "launched_loops e u (2 + length (ri_stages i)) groups"
  assume d': "d' = launched_document e u i a (launched_run e u i a p l) groups d"
  show "loops_step d d'"
  proof (rule loops_step_append[where ls = ?ls])
    show "iterationLoops d' = iterationLoops d @ ?ls" "quarantine d' = quarantine d" by (simp_all add: d' launched_document_def)
    show "distinct (map il_iterationLoopRef ?ls)" using assms(1) unfolding launched_loop_refs
      by (auto simp: distinct_map loop_refs_fresh_def intro: inj_on_subset)
    show "set (map il_iterationLoopRef ?ls) \<inter> set (map il_iterationLoopRef (loop_rows d)) = {}"
      using assms(1) unfolding launched_loop_refs loop_refs_fresh_def by auto
  qed
qed

lemma launch_step:
  assumes "store_inv d" and "env_ok e" and "refs_ok e" 
    and "SAFE_ID u \<and> ri_proposalRevision i \<le> max_safe \<and> ri_predecessorRunRef i \<noteq> Some [] \<and> launch_refs_fresh e d
      \<and> loop_refs_fresh e d"
    and n: "next_doc (createRun e u i d) = Some d'"
  shows "op_step d d'"
proof -
  have i: "core_inv d" "broker_inv d" "stages_inv d" "proposals_inv d" using assms(1) by (simp_all add: store_inv_parts rest_inv_def)
  have "core_step d d'" using assms(4) by (intro createRun_core[OF assms(2,3) _ i(4,1) _ _ n]) simp_all
  moreover have "stages_inv d'" using assms(4) by (intro createRun_stages_inv[OF i(3) _ n]) simp
  moreover have "same_aside d d'" by (rule createRun_commit[OF n]) (simp add: same_aside_def launched_document_def)
  moreover have "quarantine d' = quarantine d" by (rule createRun_commit[OF n]) (simp add: launched_document_def)
  moreover have "loops_step d d'" using assms(4) by (intro launch_loops_step[OF _ n]) simp
  ultimately show ?thesis using store_step_loops[OF assms(1)] createRun_broker[OF _ n] by blast
qed

lemma rest_ops_step:
  assumes "store_inv d" and "env_ok e"
  shows "proposal_ref_fresh e d \<Longrightarrow> next_doc (createProposalRevision e u pi d) = Some d' \<Longrightarrow> op_step d d'"
    and "next_doc (decideProposal e u p n di d) = Some d' \<Longrightarrow> op_step d d'"
    and "next_doc (createDeployment e u v d) = Some d' \<Longrightarrow> op_step d d'"
    and "next_doc (transitionDeployment e u r v d) = Some d' \<Longrightarrow> op_step d d'"
    and "next_doc (createAssetPullIntent u v d) = Some d' \<Longrightarrow> op_step d d'"
    and "\<not> mismatched v \<Longrightarrow> next_doc (updateAssetPullIntent u r v d) = Some d' \<Longrightarrow> op_step d d'"
proof -
  have i: "proposals_inv d" "deployments_inv d" "pulls_ok d" "leases_ok d"
    using assms(1) by (simp_all add: store_inv_def rest_inv_def)
  note st = rest_step[OF assms(1)] and defs = same_log_def same_work_def rest_inv_def
  have P: "op_step d d'" if a: "proposals_inv d'" and k: "revisions_kept d d'" and b: "\<exists>ps. d' = d\<lparr>proposals := ps\<rparr>" for d'
  proof -
    obtain ps where d': "d' = d\<lparr>proposals := ps\<rparr>" using b by blast
    show ?thesis
      by (rule st) (use a i k in \<open>simp_all add: d' defs deployments_inv_def pulls_ok_def leases_ok_def\<close>)
  qed
  have D: "op_step d d'" if a: "deployments_inv d'" and b: "\<exists>ds. d' = d\<lparr>deployments := ds\<rparr>" for d'
  proof -
    obtain ds where d': "d' = d\<lparr>deployments := ds\<rparr>" using b by blast
    show ?thesis
      by (rule st) (use a i in \<open>simp_all add: d' defs proposals_inv_def pulls_ok_def leases_ok_def revisions_kept_same\<close>)
  qed
  have A: "op_step d d'" if a: "pulls_ok d'" and b: "\<exists>is. d' = d\<lparr>assetPullIntents := is\<rparr>" for d'
  proof -
    obtain "is" where d': "d' = d\<lparr>assetPullIntents := is\<rparr>" using b by blast
    show ?thesis
      by (rule st) (use a i in \<open>simp_all add: d' defs proposals_inv_def deployments_inv_def leases_ok_def revisions_kept_same\<close>)
  qed
  show "proposal_ref_fresh e d \<Longrightarrow> next_doc (createProposalRevision e u pi d) = Some d' \<Longrightarrow> op_step d d'"
    by (rule P, erule(1) createProposalRevision_inv[OF i(1) assms(2)], erule createProposalRevision_kept,
        erule createProposalRevision_commit) blast
  show "next_doc (decideProposal e u p n di d) = Some d' \<Longrightarrow> op_step d d'"
    by (rule P, erule decideProposal_inv[OF i(1)], erule decideProposal_kept, erule decideProposal_commit) blast
  show "next_doc (createDeployment e u v d) = Some d' \<Longrightarrow> op_step d d'"
    by (rule D, erule keepsD[OF createDeployment_keeps[OF assms(2)] i(2)], drule createDeployment_commit) blast
  show "next_doc (transitionDeployment e u r v d) = Some d' \<Longrightarrow> op_step d d'"
    by (rule D, erule keepsD[OF transitionDeployment_keeps[OF assms(2)] i(2)], erule transitionDeployment_commit[OF i(2)]) blast
  show "next_doc (createAssetPullIntent u v d) = Some d' \<Longrightarrow> op_step d d'"
    by (rule A, erule keepsD[OF createAssetPullIntent_keeps i(3)])
      (auto simp: createAssetPullIntent_def Let_def committed split: option.splits if_splits)
  show "\<not> mismatched v \<Longrightarrow> next_doc (updateAssetPullIntent u r v d) = Some d' \<Longrightarrow> op_step d d'"
    by (rule A, erule(1) keepsD[OF updateAssetPullIntent_keeps i(3)], erule updateAssetPullIntent_commit) blast
qed

lemma lease_frame: "\<exists>ls rs. lease_step op d = d\<lparr>placementLeases := ls, v1Idempotency := rs\<rparr>"
proof (cases op)
  case (ClaimLease r h hash t)
  have "\<exists>ls. snd (claimLease r h hash t d) = d\<lparr>placementLeases := ls\<rparr>"
    by (auto simp: claimLease_def reclaimExpiredLeases_def Let_def split: option.splits sum.splits)
  then show ?thesis by (auto simp: ClaimLease intro!: exI[of _ "v1Idempotency d"])
next
  case (RenewLease r h n t)
  have "\<exists>ls. snd (renewLease r h n t d) = d\<lparr>placementLeases := ls\<rparr>"
    by (rule renewLease_document[of r h n t d]) (auto intro: exI[of _ "placementLeases d"])
  then show ?thesis by (auto simp: RenewLease intro!: exI[of _ "v1Idempotency d"])
next
  case (SweepPlacement t)
  then show ?thesis
    by (auto simp: sweepPlacementState_def sweepExpiredIdempotency_def reclaimExpiredLeases_def)
qed

lemma lease_ops_step:
  assumes "store_inv d"
  shows "op_step d (lease_step op d)"
proof -
  obtain ls rs where d': "lease_step op d = d\<lparr>placementLeases := ls, v1Idempotency := rs\<rparr>" using lease_frame by blast
  have "leases_ok d" using assms by (simp add: store_inv_def rest_inv_def)
  then have "leases_ok (lease_step op d)"
    by (cases op) (simp_all add: claimLease_keeps renewLease_keeps sweep_keeps)
  then have "rest_inv (lease_step op d)"
    using assms by (simp add: d' store_inv_def rest_inv_def proposals_inv_def deployments_inv_def pulls_ok_def)
  then show ?thesis
    by (intro rest_step[OF assms]) (simp_all add: d' same_log_def same_work_def revisions_kept_same)
qed

section \<open>Every operation keeps the invariant\<close>

lemma run_op_step:
  assumes "store_inv d" and "env_ok e" and "refs_ok e" and "op_ok e op d" and "next_doc (run_op e op d) = Some d'"
  shows "op_step d d'"
proof -
  note steps = stage_ops_step[OF assms(1)] run_ops_step[OF assms(1,2)] ask_ops_step[OF assms(1)]
    quarantine_ops_step[OF assms(1,2)] reconcile_step[OF assms(1,2)] broker_step[OF assms(1)] appendEvent_step[OF assms(1)]
    rest_ops_step[OF assms(1,2)] turn_ops_step[OF assms(1)] successor_step[OF assms(1-3)] launch_step[OF assms(1-3)]
  show ?thesis
    by (insert assms(4,5), cases op; simp only: run_op.simps op_ok.simps next_doc_forget; (rule steps; assumption))
qed

lemma op_step_refl: "store_inv d \<Longrightarrow> op_step d d"
  by (auto simp: op_step_def answers_kept_def revisions_kept_same loops_kept_def intro: loop_path_refl)

lemma op_step_bump: "op_step d d' \<Longrightarrow> op_step d (bump d')"
  using store_inv.I_bump
  by (simp add: op_step_def answers_kept_def revisions_kept_def all_requests_def loops_kept_def loop_rows_def bump_def)

lemma exec_op_step:
  assumes "store_inv d" and "env_ok e" and "refs_ok e" and "op_ok e op d"
  shows "op_step d (snd (exec e (run_op e op) d))"
proof (cases "snd (exec e (run_op e op) d) = d")
  case False
  then obtain d'' where "next_doc (run_op e op d) = Some d''"
      and "snd (exec e (run_op e op) d) = d'' \<or> snd (exec e (run_op e op) d) = bump d''"
    using exec_document[OF prod.collapse[symmetric] False] by blast
  then show ?thesis using run_op_step[OF assms] op_step_bump by metis
next
  case True
  then show ?thesis using op_step_refl[OF assms(1)] by (simp only:)
qed

section \<open>Sequences of operations\<close>

text \<open>\<open>later d d'\<close>: the store gets from \<open>d\<close> to \<open>d'\<close> by its operations, in any order.\<close>

inductive later :: "document \<Rightarrow> document \<Rightarrow> bool" for d where
  later_refl: "later d d"
| later_op: "later d d' \<Longrightarrow> env_ok e \<Longrightarrow> refs_ok e \<Longrightarrow> op_ok e op d' \<Longrightarrow> later d (snd (exec e (run_op e op) d'))"
| later_lease: "later d d' \<Longrightarrow> later d (lease_step op d')"

abbreviation reachable :: "document \<Rightarrow> bool" where
  "reachable d \<equiv> later emptyStoreDocument d"

lemma revision_kept_trans: "revision_kept p q \<Longrightarrow> revision_kept q r \<Longrightarrow> revision_kept p r"
proof -
  assume pq: "revision_kept p q" and qr: "revision_kept q r"
  have "r\<lparr>pr_approval := pr_approval p\<rparr> = (r\<lparr>pr_approval := pr_approval q\<rparr>)\<lparr>pr_approval := pr_approval p\<rparr>" by simp
  then show ?thesis using pq qr by (auto simp: revision_kept_def)
qed

lemma revisions_kept_trans:
  assumes "revisions_kept a b" and "revisions_kept b c"
  shows "revisions_kept a c"
proof -
  let ?n = "length (proposals a)"
  have n: "?n \<le> length (proposals b)" "length (proposals b) \<le> length (proposals c)"
    using assms by (simp_all add: revisions_kept_def)
  have "list_all2 revision_kept (take ?n (proposals b)) (take ?n (take (length (proposals b)) (proposals c)))"
    by (rule list_all2_takeI) (use assms(2) in \<open>simp add: revisions_kept_def\<close>)
  then have "list_all2 revision_kept (take ?n (proposals b)) (take ?n (proposals c))" using n by (simp add: min_def)
  moreover have "list_all2 revision_kept (proposals a) (take ?n (proposals b))" using assms(1) by (simp add: revisions_kept_def)
  ultimately have "list_all2 revision_kept (proposals a) (take ?n (proposals c))"
    using list_all2_trans[of revision_kept revision_kept revision_kept] revision_kept_trans by blast
  then show ?thesis using n by (simp add: revisions_kept_def)
qed

lemma op_step_trans: "op_step a b \<Longrightarrow> op_step b c \<Longrightarrow> op_step a c"
  unfolding op_step_def answers_kept_def using revisions_kept_trans loops_kept_trans by blast

lemma later_step: "later d d' \<Longrightarrow> store_inv d \<Longrightarrow> op_step d d'"
proof (induction rule: later.induct)
  case later_refl
  then show ?case by (rule op_step_refl)
next
  case (later_op d' e op)
  then show ?case using exec_op_step op_step_trans unfolding op_step_def by blast
next
  case (later_lease d' op)
  then show ?case using lease_ops_step op_step_trans unfolding op_step_def by blast
qed

lemma store_inv_empty: "store_inv emptyStoreDocument"
  by (simp add: store_inv_def whole_inv_def core_inv_def events_inv_def quarantined_events_def requests_inv_def runs_inv_def
      broker_inv_def stages_inv_def flight_inv_def bundles_settled_def attempt_rows_def stage_rows_def loops_inv_def loop_rows_def
      rest_inv_def proposals_inv_def deployments_inv_def deployments_ok_def DeploymentFacts.receipts_of_def open_deployments_def
      pulls_ok_def leases_ok_def emptyStoreDocument_def)

lemma reachable_inv: "reachable d \<Longrightarrow> store_inv d"
  using later_step[OF _ store_inv_empty] by (simp add: op_step_def)

end
