(* ===== verification/Samples.thy ===== *)
theory Samples
  imports StoreSteps
begin

text \<open>
  One launch, from the empty store: a proposal of two stages is imported, approved and launched, the Manager
  session starts and the first stage gets an attempt. These concrete documents are where the properties of
  the development are applied.
\<close>

definition sample_snapshot :: js where
  "sample_snapshot = JObj [(''manager'', JObj []), (''stages'', JArr [
     JObj [(''id'', JStr ''build''), (''title'', JStr ''Build''), (''dependsOn'', JArr [])],
     JObj [(''id'', JStr ''check''), (''title'', JStr ''Check''), (''dependsOn'', JArr [JStr ''build''])]])]"

definition sample_revision :: revision_input where
  "sample_revision = \<lparr>pi_proposalRef = None, pi_expectedPreviousHash = None, pi_sourceComposerRef = ''composer-1'',
     pi_sourceTurnId = ''turn-1'', pi_title = ''Ship it'', pi_snapshot = sample_snapshot\<rparr>"

definition sample_decision :: decision_input where
  "sample_decision = \<lparr>di_expectedHash = replicate 64 CHR ''a'', di_expectedApprovalRevision = 0,
     di_decision = ''approved'', di_idempotencyKey = ''decide-1'', di_note = None\<rparr>"

definition sample_stage :: "string \<Rightarrow> string \<Rightarrow> js list \<Rightarrow> js" where
  "sample_stage i t ds = JObj [(''stageId'', JStr i), (''title'', JStr t), (''dependsOn'', JArr ds)]"

definition sample_launch :: launch_input where
  "sample_launch = \<lparr>ri_title = ''Ship it'', ri_proposalRef = ''proposal-0'', ri_proposalRevision = 1,
     ri_expectedProposalHash = replicate 64 CHR ''a'', ri_managerRuntime = ''claude'', ri_managerModel = ''opus'',
     ri_owner = JObj [(''type'', JStr ''agent''), (''id'', JStr ''builder''), (''sourcePath'', JStr ''agents/builder.md'')],
     ri_executionHost = JStr ''vm'', ri_workflowTags = JUndef, ri_managerAssignment = JNull,
     ri_idempotencyKey = ''launch-1'', ri_predecessorRunRef = None, ri_expectedPredecessorVersion = None,
     ri_agentWorkspaceLaunch = JNull, ri_iterationGroups = [],
     ri_stages = [sample_stage ''build'' ''Build'' [], sample_stage ''check'' ''Check'' [JStr ''build'']]\<rparr>"

definition does :: "store_op \<Rightarrow> document \<Rightarrow> document" where
  "does op d = snd (exec sample_env (run_op sample_env op) d)"

definition proposed :: document where
  "proposed = does (CreateProposalRevision ''operator'' sample_revision) emptyStoreDocument"

definition approved :: document where
  "approved = does (DecideProposal ''operator'' ''proposal-0'' 1 sample_decision) proposed"

definition launched :: document where
  "launched = does (CreateRun ''operator'' sample_launch) approved"

definition attempted :: document where
  "attempted = does (CreateAttempt ''operator'' ''stage-2''
     \<lparr>an_expectedStageVersion = 1, an_runtime = ''claude'', an_model = ''opus''\<rparr>) launched"

definition started :: document where
  "started = does (BrokerCall ''operator'' (CallStart \<lparr>ss_runRef = ''run-0'', ss_sessionRef = ''session-1'',
     ss_role = Manager, ss_profileId = ''default'', ss_approvedPrompt = ''go''\<rparr> ''start-1'')) attempted"

text \<open>A second revision of the proposal, in an environment that draws other references.\<close>

definition next_env :: env where
  "next_env = sample_env\<lparr>e_newId := (\<lambda>n. ''b'' @ int_str (int n))\<rparr>"

definition revised :: document where
  "revised = snd (exec next_env (run_op next_env (CreateProposalRevision ''operator''
     (sample_revision\<lparr>pi_proposalRef := Some ''proposal-0'', pi_expectedPreviousHash := Some (replicate 64 CHR ''a'')\<rparr>))) approved)"

section \<open>The documents written out\<close>

text \<open>What the first three operations leave, evaluated once.\<close>

definition sample_hash64 :: string where "sample_hash64 = replicate 64 CHR ''a''"
definition sample_stamp :: string where "sample_stamp = ''2026-01-01T00:00:00.000Z''"

definition sample_proposal :: proposal where
  "sample_proposal =
     \<lparr>pr_subject = ''operator'', pr_proposalRef = ''proposal-0'', pr_sourceComposerRef = ''composer-1'',
     pr_sourceTurnId = ''turn-1'', pr_revision = 1, pr_hash = sample_hash64, pr_previousHash = None,
     pr_title = ''Ship it'', pr_createdAt = sample_stamp, pr_snapshot = sample_snapshot,
     pr_approval = Some \<lparr>ap_revision = 1, ap_decision = PdApproved, ap_decidedBy = ''operator'',
     ap_idempotencyKey = ''decide-1'', ap_decidedAt = sample_stamp, ap_note = None\<rparr>\<rparr>"

definition sample_run :: stored_run where
  "sample_run =
     \<lparr>r_runRef = ''run-0'', r_predecessorRunRef = None, r_title = ''Ship it'',
     r_proposalRef = ''proposal-0'', r_proposalRevision = 1, r_proposalHash = sample_hash64,
     r_publicationState = PubPending, r_lifecycle = \<lparr>lc_kind = RPlanned, lc_deployPause = None\<rparr>,
     r_owner = AgentRef ''builder'' ''agents/builder.md'', r_executionHost = Vm, r_workflowTags = None,
     r_terminalOutcome = None, r_completedAt = None, r_archivedFrom = None, r_version = 1,
     r_managerSessionRef = ''session-1'', r_managerGeneration = 1, r_managerAssignment = None,
     r_agentWorkspaceLaunch = None, r_createdAt = sample_stamp, r_updatedAt = sample_stamp,
     r_subject = ''operator'', r_launchOperationKey = Some ''launch-1'',
     r_launchOperationFingerprint = Some sample_hash64, r_archiveOperationKey = None,
     r_archiveOperationFingerprint = None, r_activationReceipts = Some [],
     r_failedReconciliation = None\<rparr>"

definition sample_stages :: "stored_stage list" where
  "sample_stages =
     [\<lparr>st_stageRef = ''stage-2'', st_runRef = ''run-0'', st_stageId = ''build'', st_title = ''Build'',
     st_dependsOn = [], st_canonicalCardRef = None, st_state = SReady, st_version = 1,
     st_currentAttemptRef = None, st_assignment = None, st_workflowProfile = None, st_review = None,
     st_completionGate = None, st_currentGeneration = 1, st_currentGenerationRef = None,
     st_acceptedGenerationRef = None, st_createdAt = sample_stamp, st_updatedAt = sample_stamp,
     st_subject = ''operator''\<rparr>, \<lparr>st_stageRef = ''stage-3'', st_runRef = ''run-0'',
     st_stageId = ''check'', st_title = ''Check'', st_dependsOn = [''build''], st_canonicalCardRef = None,
     st_state = SBlocked, st_version = 1, st_currentAttemptRef = None, st_assignment = None,
     st_workflowProfile = None, st_review = None, st_completionGate = None, st_currentGeneration = 1,
     st_currentGenerationRef = None, st_acceptedGenerationRef = None, st_createdAt = sample_stamp,
     st_updatedAt = sample_stamp, st_subject = ''operator''\<rparr>]"

definition sample_manager :: stored_session where
  "sample_manager =
     \<lparr>ms_sessionRef = ''session-1'', ms_attemptOperationKey = None, ms_runRef = ''run-0'',
     ms_stageRef = None, ms_attemptRef = None, ms_role = Manager, ms_generation = 1,
     ms_predecessorSessionRef = None, ms_runtime = ''claude'', ms_model = ''opus'', ms_state = MPending,
     ms_version = 1, ms_createdAt = sample_stamp, ms_updatedAt = sample_stamp, ms_subject = ''operator'',
     ms_operationKey = None, ms_operationFingerprint = None, ms_brokerProfileId = None,
     ms_brokerApprovedPromptHash = None, ms_brokerStopRequested = False, ms_brokerSteering = [],
     ms_brokerReceipts = []\<rparr>"

definition approved_literal :: document where
  "approved_literal = emptyStoreDocument\<lparr>documentRevision := 2, proposals := [sample_proposal]\<rparr>"

definition launched_literal :: document where
  "launched_literal = approved_literal\<lparr>documentRevision := 3, runs := [sample_run], stages := sample_stages,
     sessions := [sample_manager]\<rparr>"

section \<open>Smaller documents\<close>

text \<open>The run alone: waiting for a person with its one request approved, and stopped.\<close>

definition sample_request :: stored_request where
  "sample_request = \<lparr>hq_requestRef = ''request-0'', hq_runRef = ''run-0'', hq_stageRef = None, hq_kind = HkApproval,
     hq_iterationPark = False, hq_revision = 1, hq_open = False, hq_title = ''Ship?'', hq_prompt = ''Ship it?'',
     hq_response = Some \<lparr>hr_requestRevision = 1, hr_decision = HdApproved, hr_respondedBy = ''operator'',
       hr_idempotencyKey = ''answer-1'', hr_response = None, hr_respondedAt = sample_stamp, hr_resolvedBy = None\<rparr>,
     hq_createdAt = sample_stamp, hq_updatedAt = sample_stamp, hq_subject = ''operator'', hq_operationKey = None,
     hq_operationFingerprint = None, hq_resolutionOperationFingerprint = None, hq_legacyRecoveryOperationKey = None,
     hq_legacyRecoveryOperationFingerprint = None, hq_legacyRecoveryEventCursor = None\<rparr>"

definition waiting :: document where
  "waiting = emptyStoreDocument\<lparr>humanRequests := [sample_request], runs := [sample_run\<lparr>r_publicationState := PubPublished,
     r_lifecycle := plain_lc RWaitingHuman\<rparr>]\<rparr>"

definition claim_input :: activation_input where
  "claim_input = \<lparr>av_expectedRunVersion = 1, av_expectedManagerGeneration = 1, av_idempotencyKey = ''activate-1''\<rparr>"

definition steered :: document where
  "steered = emptyStoreDocument\<lparr>runs := [sample_run], sessions := [sample_manager\<lparr>ms_state := MRunning,
     ms_brokerSteering := [\<lparr>si_instructionRef = ''instr-1'', si_instruction = ''go left'', si_checkpoint = None,
       si_enqueuedAt = sample_stamp\<rparr>]\<rparr>]\<rparr>"

definition session_call :: "string \<Rightarrow> session_input" where
  "session_call k = \<lparr>sn_runRef = ''run-0'', sn_sessionRef = ''session-1'', sn_expectedRevision = 1, sn_idempotencyKey = k\<rparr>"

definition halted :: document where
  "halted = emptyStoreDocument\<lparr>runs := [sample_run\<lparr>r_lifecycle := plain_lc RStopped\<rparr>]\<rparr>"

section \<open>Inputs and documents of single properties\<close>

definition cyclic_stages :: "js list" where
  "cyclic_stages = [sample_stage ''a'' ''A'' [JStr ''b''], sample_stage ''b'' ''B'' [JStr ''a'']]"

definition launch_commit :: "document \<Rightarrow> bool" where
  "launch_commit d \<longleftrightarrow> (case createRun sample_env ''operator'' sample_launch d of Commit _ _ \<Rightarrow> True | _ \<Rightarrow> False)"

text \<open>The launched run, failed and published, with everything under it at rest.\<close>

definition failed_launch :: document where
  "failed_launch = launched\<lparr>
     runs := map (\<lambda>r. r\<lparr>r_lifecycle := plain_lc RFailed, r_publicationState := PubPublished\<rparr>) (runs launched),
     stages := map (\<lambda>s. s\<lparr>st_state := SFailed, st_canonicalCardRef := Some ''card-1''\<rparr>) (stages launched),
     sessions := map (\<lambda>m. m\<lparr>ms_state := MFailed\<rparr>) (sessions launched)\<rparr>"

definition retry_launch :: launch_input where
  "retry_launch = sample_launch\<lparr>ri_idempotencyKey := ''launch-2'', ri_predecessorRunRef := Some ''run-0'',
     ri_expectedPredecessorVersion := Some 1\<rparr>"

definition built :: document where
  "built = emptyStoreDocument\<lparr>stages := map (\<lambda>s. if st_stageId s = ''build'' then s\<lparr>st_state := SSucceeded\<rparr> else s) sample_stages\<rparr>"

definition retired :: document where
  "retired = launched\<lparr>sessions := map (\<lambda>m. m\<lparr>ms_state := MInterrupted\<rparr>) (sessions launched)\<rparr>"

definition succeed_input :: "string \<Rightarrow> successor_input" where
  "succeed_input k = \<lparr>mi_expectedManagerGeneration = 1, mi_runtime = ''claude'', mi_model = ''opus'', mi_idempotencyKey = k\<rparr>"

section \<open>Evaluated\<close>

lemma approved_eq: "approved = approved_literal"
  by code_simp

lemma launched_eq: "launched = launched_literal"
  unfolding launched_def approved_eq by code_simp

text \<open>Every later document is evaluated from the launched one.\<close>

lemmas samples = started_def attempted_def revised_def launched_eq approved_eq

lemma samples_ok:
  "proposal_ref_fresh sample_env emptyStoreDocument"
  "launch_refs_fresh sample_env approved"
  "loop_refs_fresh sample_env approved"
  "attempt_ref_fresh sample_env launched"
proof -
  show "proposal_ref_fresh sample_env emptyStoreDocument" by code_simp
  have "stage_rows approved = []" "attempt_rows approved = []" unfolding approved_eq by code_simp+
  moreover have inj: "inj_on (ref sample_env x) A" for x A
    by (auto simp: inj_on_def ref_def sample_env_def int_str_def digits_inj)
  ultimately show "launch_refs_fresh sample_env approved"
    by (simp add: launch_refs_fresh_def Let_def distinct_map del: upt_Suc)
  have "loop_rows approved = []" unfolding approved_eq by code_simp
  then show "loop_refs_fresh sample_env approved" using inj by (simp add: loop_refs_fresh_def)
  show "attempt_ref_fresh sample_env launched" unfolding launched_eq by code_simp
qed

section \<open>They are reached\<close>

lemma sample_refs_ok: "refs_ok sample_env"
  by code_simp

lemma does_later:
  "later d0 d \<Longrightarrow> op_ok sample_env op d \<Longrightarrow> later d0 (does op d)"
  unfolding does_def by (rule later_op[OF _ sample_env_ok sample_refs_ok])

lemma proposed_reachable: "reachable proposed"
  unfolding proposed_def by (rule does_later[OF later_refl]) (simp add: samples_ok)

lemma approved_reachable: "reachable approved"
  unfolding approved_def by (rule does_later[OF proposed_reachable]) simp

lemma launch_ok: "op_ok sample_env (CreateRun ''operator'' sample_launch) approved"
proof -
  have "SAFE_ID ''operator''" by code_simp
  then show ?thesis by (simp add: samples_ok) (simp add: sample_launch_def max_safe_def)
qed

lemma launched_later: "later approved launched"
  unfolding launched_def by (rule does_later[OF later_refl launch_ok])

lemma launched_reachable: "reachable launched"
  unfolding launched_def by (rule does_later[OF approved_reachable launch_ok])

lemma attempted_reachable: "reachable attempted"
  unfolding attempted_def by (rule does_later[OF launched_reachable]) (simp add: samples_ok)

lemma revised_reachable: "reachable revised"
  unfolding revised_def
proof (rule later_op[OF approved_reachable])
  show "env_ok next_env" using sample_env_ok by (simp add: env_ok_def next_env_def)
  show "refs_ok next_env" by code_simp
  have "proposal_ref_fresh next_env approved" unfolding approved_eq by code_simp
  then show "op_ok next_env (CreateProposalRevision ''operator'' (sample_revision
      \<lparr>pi_proposalRef := Some ''proposal-0'', pi_expectedPreviousHash := Some (replicate 64 CHR ''a'')\<rparr>)) approved"
    by simp
qed

lemma started_reachable: "reachable started"
  unfolding started_def by (rule does_later[OF attempted_reachable]) simp

end
