(* ===== verification/StoreLoad.thy ===== *)
theory StoreLoad
  imports LaunchFacts StageFacts IterationFacts DeploymentFacts AssetPulls PlacementState
begin

text \<open>
  The opening of the store: every method loads the document anew, and \<open>load\<close> throws when
  \<open>validateStoreDocument\<close> or the wall of an iteration bundle refuses it (\<open>control/store.ts\<close>, with the two
  incident walls of \<open>control/authorizedIncidentRecovery.ts\<close>). \<open>run_method\<close> is a method with its load in front;
  \<open>exec\<close> is the part after it. Reading the file and migrating older versions are not modelled: the document here
  is the persisted one, in the present version.
\<close>

section \<open>The incident walls\<close>

definition INCIDENT_RUN_REF :: string where "INCIDENT_RUN_REF = ''run-0aa72053-b9d7-41fa-a034-19871b66d214''"
definition INCIDENT_REQUEST_REF :: string where
  "INCIDENT_REQUEST_REF = ''request-86d0fc5f-797b-483c-a706-96a45e6f4d6e''"
definition INCIDENT_TITLE :: string where "INCIDENT_TITLE = ''Automatic execution activation is gated''"
definition INCIDENT_NEW_PROMPT :: string where
  "INCIDENT_NEW_PROMPT = ''Canonical cards are published. Unlock execution with your passkey, mark this intervention responded, then resume this same run.''"
definition INCIDENT_SUMMARY :: string where
  "INCIDENT_SUMMARY = ''authorized 2026-07-31 execution-lock boundary reclassified to intervention''"
definition FAILED_RUN_PROPOSAL_REF :: string where
  "FAILED_RUN_PROPOSAL_REF = ''proposal-3725fb98-e20e-4619-b6e7-c9055138a50d''"
definition FAILED_RUN_PROPOSAL_HASH :: string where
  "FAILED_RUN_PROPOSAL_HASH = ''396480363d02620c25730160e00fd7adf51e1eff43f8427c80b2062a18dc80d9''"
definition FAILED_RUN_IDEMPOTENCY_KEY :: string where
  "FAILED_RUN_IDEMPOTENCY_KEY = ''reconcile:2026-08-01:run-0aa72053-b9d7-41fa-a034-19871b66d214:failed-launch:v7''"
definition RECONCILIATION_SUMMARY :: string where
  "RECONCILIATION_SUMMARY = ''authorized one-off reconciliation settled the failed 2026-07-31 FYT thin-slice predecessor''"

text \<open>The three expectations vary; the rest of the fingerprint is fixed.\<close>

definition authorized20260731RecoveryFingerprint :: "env \<Rightarrow> int \<Rightarrow> int \<Rightarrow> int \<Rightarrow> string" where
  "authorized20260731RecoveryFingerprint e runVersion managerGeneration requestRevision = e_sha256 e (canonicalJson (JObj
     [(''runRef'', JStr INCIDENT_RUN_REF), (''requestRef'', JStr INCIDENT_REQUEST_REF),
      (''expectedRunVersion'', JNum runVersion), (''expectedManagerGeneration'', JNum managerGeneration),
      (''expectedRequestRevision'', JNum requestRevision), (''kind'', JStr ''intervention''),
      (''title'', JStr INCIDENT_TITLE), (''prompt'', JStr INCIDENT_NEW_PROMPT)]))"

definition dw_recovery_receipt :: string where
  "dw_recovery_receipt = ''invalid control-plane authorized legacy recovery receipt''"
definition dw_recovery_event :: string where
  "dw_recovery_event = ''invalid control-plane authorized legacy recovery event''"

definition recovery_receipt_ok :: "env \<Rightarrow> int list \<Rightarrow> stored_request \<Rightarrow> bool" where
  "recovery_receipt_ok e cursors q \<longleftrightarrow>
     (case (hq_legacyRecoveryOperationKey q, hq_legacyRecoveryOperationFingerprint q, hq_legacyRecoveryEventCursor q) of
        (Some k, Some f, Some n) \<Rightarrow>
          hq_requestRef q = INCIDENT_REQUEST_REF \<and> hq_runRef q = INCIDENT_RUN_REF
          \<and> hq_operationKey q = None \<and> hq_operationFingerprint q = None \<and> validNonEmpty k MAX_SHORT_TEXT
          \<and> f = authorized20260731RecoveryFingerprint e 4 1 1 \<and> safe_int n \<and> 1 \<le> n \<and> n \<notin> set cursors
          \<and> hq_kind q = HkIntervention \<and> hq_revision q = 2 \<and> hq_title q = INCIDENT_TITLE \<and> hq_prompt q = INCIDENT_NEW_PROMPT
      | _ \<Rightarrow> False)"

text \<open>The event a recovery left behind.\<close>

definition bare_event :: "stored_event \<Rightarrow> string \<Rightarrow> bool" where
  "bare_event v summary \<longleftrightarrow> ev_kind v = EkGovernance \<and> ev_source v = EsHuman \<and> ev_status v = Some EvSuccess
     \<and> ev_stageRef v = None \<and> ev_attemptRef v = None \<and> ev_sessionRef v = None \<and> ev_summary v = Some summary
     \<and> ev_command v = None \<and> ev_toolName v = None \<and> ev_path v = None \<and> ev_diff v = None \<and> ev_checkpoint v = None"

definition cursor_event :: "stored_event list \<Rightarrow> string \<Rightarrow> string \<Rightarrow> int option \<Rightarrow> stored_event option" where
  "cursor_event vs subject runRef cursor =
     find (\<lambda>v. ev_subject v = subject \<and> ev_runRef v = runRef \<and> Some (ev_cursor v) = cursor) vs"

fun validateAuthorized20260731RecoveryDurability ::
  "env \<Rightarrow> stored_event list \<Rightarrow> int list \<Rightarrow> stored_request list \<Rightarrow> string option" where
  "validateAuthorized20260731RecoveryDurability e vs cursors [] = None"
| "validateAuthorized20260731RecoveryDurability e vs cursors (q # qs) =
     (if hq_legacyRecoveryOperationKey q = None \<and> hq_legacyRecoveryOperationFingerprint q = None
         \<and> hq_legacyRecoveryEventCursor q = None
      then validateAuthorized20260731RecoveryDurability e vs cursors qs
      else if \<not> recovery_receipt_ok e cursors q then Some dw_recovery_receipt
      else if \<not> given (\<lambda>v. bare_event v INCIDENT_SUMMARY)
          (cursor_event vs (hq_subject q) (hq_runRef q) (hq_legacyRecoveryEventCursor q)) then Some dw_recovery_event
      else validateAuthorized20260731RecoveryDurability e vs (the (hq_legacyRecoveryEventCursor q) # cursors) qs)"

text \<open>The one input the settlement of the failed run was authorized for.\<close>

definition authorized20260801FailedRunFingerprint :: "env \<Rightarrow> string" where
  "authorized20260801FailedRunFingerprint e = e_sha256 e (canonicalJson (JObj
     [(''operation'', JStr ''authorized-2026-08-01-fyt-failed-run-reconciliation''),
      (''runRef'', JStr INCIDENT_RUN_REF), (''proposalRef'', JStr FAILED_RUN_PROPOSAL_REF),
      (''expectedRunVersion'', JNum 7), (''expectedManagerGeneration'', JNum 1), (''expectedRequestRevision'', JNum 2),
      (''expectedNextEventCursor'', JNum 6), (''expectedProposalHash'', JStr FAILED_RUN_PROPOSAL_HASH),
      (''idempotencyKey'', JStr FAILED_RUN_IDEMPOTENCY_KEY)]))"

definition dw_reconciliation_receipt :: string where
  "dw_reconciliation_receipt = ''invalid control-plane authorized failed-run reconciliation receipt''"
definition dw_reconciliation_event :: string where
  "dw_reconciliation_event = ''invalid control-plane authorized failed-run reconciliation event''"

definition reconciliation_receipt_ok :: "env \<Rightarrow> stored_run \<Rightarrow> failed_reconciliation \<Rightarrow> bool" where
  "reconciliation_receipt_ok e r f \<longleftrightarrow> r_runRef r = INCIDENT_RUN_REF \<and> fr_idempotencyKey f = FAILED_RUN_IDEMPOTENCY_KEY
     \<and> fr_fingerprint f = authorized20260801FailedRunFingerprint e
     \<and> validNonEmpty (fr_claimedAt f) MAX_SHORT_TEXT \<and> validNonEmpty (fr_updatedAt f) MAX_SHORT_TEXT
     \<and> (case fr_phase f of
          RecClaimed \<Rightarrow> fr_canonicalCommit f = None \<and> fr_eventCursor f = None
        | RecCommitted \<Rightarrow> given (hex_len 40) (fr_canonicalCommit f) \<and> given (\<lambda>n. safe_int n \<and> 1 \<le> n) (fr_eventCursor f))"

definition validateAuthorized20260801FailedRunDurability :: "env \<Rightarrow> stored_event list \<Rightarrow> stored_run \<Rightarrow> string option" where
  "validateAuthorized20260801FailedRunDurability e vs r = (case r_failedReconciliation r of
     None \<Rightarrow> None
   | Some f \<Rightarrow>
       if \<not> reconciliation_receipt_ok e r f then Some dw_reconciliation_receipt
       else if fr_phase f \<noteq> RecCommitted then None
       else if \<not> given (\<lambda>v. bare_event v RECONCILIATION_SUMMARY \<and> ev_createdAt v = fr_updatedAt f)
           (cursor_event vs (r_subject r) (r_runRef r) (fr_eventCursor f)) then Some dw_reconciliation_event
       else None)"

section \<open>The walls of the opening\<close>

definition dw_assignment :: string where "dw_assignment = ''invalid control-plane assignment provenance''"
definition dw_workspace :: string where
  "dw_workspace = ''invalid control-plane agent-workspace launch provenance''"
definition dw_stored_run :: string where "dw_stored_run = ''invalid control-plane stored run''"
definition dw_checker :: string where "dw_checker = ''invalid control-plane checker contract provenance''"

definition run_row_error :: "stored_run \<Rightarrow> string option" where
  "run_row_error r = IterationWall.first_error
     [wall (normalizeAssignment (assignment_js (r_managerAssignment r)) \<noteq> None) dw_assignment,
      wall (normalizeAgentWorkspaceLaunch (launch_js (r_agentWorkspaceLaunch r)) \<noteq> None) dw_workspace,
      wall (decodeStoredRun (stored_run_js r) \<noteq> None) dw_stored_run]"

definition stage_row_error :: "stored_stage \<Rightarrow> string option" where
  "stage_row_error s = IterationWall.first_error
     [wall (normalizeAssignment (assignment_js (st_assignment s)) \<noteq> None) dw_assignment,
      wall (stage_contract s \<noteq> None) dw_checker]"

definition validateRows :: "stored_run list \<Rightarrow> stored_stage list \<Rightarrow> string option" where
  "validateRows rs ss = IterationWall.first_error [all_walls run_row_error rs, all_walls stage_row_error ss]"

definition bundle_error :: "env \<Rightarrow> run_bundle \<Rightarrow> string option" where
  "bundle_error e b = IterationWall.first_error
     [validateRows [qb_run b] (qb_stages b), assertActivationReceipts (qb_run b),
      validateAuthorized20260731RecoveryDurability e (qb_events b) [] (qb_humanRequests b),
      validateAuthorized20260801FailedRunDurability e (qb_events b) (qb_run b)]"

definition validateStoreDocument :: "env \<Rightarrow> document \<Rightarrow> string option" where
  "validateStoreDocument e d = IterationWall.first_error
     [assertDeploymentCollection (JArr (map stored_deployment_js (deployments d))),
      assertAssetPullCollection (JArr (map pull_intent_js (assetPullIntents d))), assertPlacementCollections d,
      validateRows (runs d) (stages d),
      all_walls (\<lambda>r. IterationWall.first_error
        [assertActivationReceipts r, validateAuthorized20260801FailedRunDurability e (events d) r]) (runs d),
      validateAuthorized20260731RecoveryDurability e (events d) [] (humanRequests d),
      all_walls (bundle_error e) (quarantine d)]"

text \<open>The wall of a bundle's loops stands on the rows of the bundle alone.\<close>

definition load_error :: "env \<Rightarrow> document \<Rightarrow> string option" where
  "load_error e d = IterationWall.first_error
     [validateStoreDocument e d, iterationError e d, all_walls (\<lambda>b. iterationError e (bundle_rows b)) (quarantine d)]"

definition run_method :: "env \<Rightarrow> (document \<Rightarrow> 'a outcome) \<Rightarrow> document \<Rightarrow> 'a result \<times> document" where
  "run_method e m d = (case load_error e d of None \<Rightarrow> exec e m d | Some x \<Rightarrow> (Threw x, d))"

lemma run_method_loads: "load_error e d = None \<Longrightarrow> run_method e m d = exec e m d"
  by (simp add: run_method_def del: exec.simps)

lemma run_method_refuses: "load_error e d = Some x \<Longrightarrow> run_method e m d = (Threw x, d)"
  by (simp add: run_method_def)

text \<open>What a method makes of a document is what its body makes of it, or nothing.\<close>

lemma run_method_document: "snd (run_method e m d) = snd (exec e m d) \<or> snd (run_method e m d) = d"
  by (cases "load_error e d") (simp_all add: run_method_loads run_method_refuses del: exec.simps)

section \<open>What the walls read\<close>

text \<open>
  The revision of the document is read by no wall, and its requests only where a loop names them as its gate and
  by the wall of the recovery. Each reader of the document below is unmoved by the rest.
\<close>

abbreviation aside :: "document \<Rightarrow> int \<Rightarrow> stored_request list \<Rightarrow> document" where
  "aside d n qs \<equiv> d\<lparr>documentRevision := n, humanRequests := qs\<rparr>"

named_theorems unmoved "readers of the document that see neither its revision nor its requests"

lemma rows_unmoved [unmoved]:
  "runs (aside d n qs) = runs d"
  "stages (aside d n qs) = stages d"
  "attempts (aside d n qs) = attempts d"
  "sessions (aside d n qs) = sessions d"
  "events (aside d n qs) = events d"
  "stageGenerations (aside d n qs) = stageGenerations d"
  "generationSupersessions (aside d n qs) = generationSupersessions d"
  "iterationLoops (aside d n qs) = iterationLoops d"
  "iterationRequests (aside d n qs) = iterationRequests d"
  "iterationReceipts (aside d n qs) = iterationReceipts d"
  "quarantine (aside d n qs) = quarantine d"
  "deployments (aside d n qs) = deployments d"
  "assetPullIntents (aside d n qs) = assetPullIntents d"
  "hostAdvertisements (aside d n qs) = hostAdvertisements d"
  "placementLeases (aside d n qs) = placementLeases d"
  "v1Idempotency (aside d n qs) = v1Idempotency d"
  by simp_all

lemma lookups_unmoved [unmoved]:
  "stage_by_id (aside d n qs) = stage_by_id d"
  "stage_by_ref (aside d n qs) = stage_by_ref d"
  "attempt_by_ref (aside d n qs) = attempt_by_ref d"
  "generation_by_ref (aside d n qs) = generation_by_ref d"
  "loop_by_ref (aside d n qs) = loop_by_ref d"
  "turn_by_ref (aside d n qs) = turn_by_ref d"
  "answered_turn (aside d n qs) = answered_turn d"
  "IterationWall.has_receipt (aside d n qs) = IterationWall.has_receipt d"
  by (simp_all only: fun_eq_iff stage_by_id_def stage_by_ref_def attempt_by_ref_def generation_by_ref_def loop_by_ref_def
      turn_by_ref_def answered_turn_def IterationWall.has_receipt_def unmoved simp_thms)

lemma operation_unmoved [unmoved]:
  "iteration_operation (aside d n qs) = iteration_operation d"
  by (simp_all only: fun_eq_iff iteration_operation_def unmoved simp_thms)

lemma shape_unmoved [unmoved]:
  "committed_shape e (aside d n qs) = committed_shape e d"
  by (simp_all only: fun_eq_iff committed_shape_def unmoved simp_thms)

lemma generations_unmoved [unmoved]:
  "generation_row_ok e (aside d n qs) = generation_row_ok e d"
  "predecessor_ok (aside d n qs) = predecessor_ok d"
  by (simp_all only: fun_eq_iff generation_row_ok_def predecessor_ok_def unmoved simp_thms)

lemma generations_error_unmoved [unmoved]:
  "generations_error e (aside d n qs) seen gs = generations_error e d seen gs"
  by (induction gs arbitrary: seen) (simp_all only: generations_error.simps unmoved)

lemma participants_unmoved [unmoved]:
  "participants_ok (aside d n qs) l seen ps = participants_ok d l seen ps"
  by (induction ps arbitrary: seen) (simp_all only: participants_ok.simps unmoved)

lemma owner_unmoved [unmoved]:
  "route_ok (aside d n qs) = route_ok d"
  "loop_projection_ok (aside d n qs) = loop_projection_ok d"
  "open_turn (aside d n qs) = open_turn d"
  "owner_stage (aside d n qs) = owner_stage d"
  "all_committed (aside d n qs) = all_committed d"
  by (simp_all only: fun_eq_iff route_ok_def loop_projection_ok_def open_turn_def owner_stage_def all_committed_def unmoved simp_thms)

lemma owner_attempt_unmoved [unmoved]:
  "owner_attempt (aside d n qs) = owner_attempt d"
  by (simp_all only: fun_eq_iff owner_attempt_def unmoved simp_thms)

text \<open>An interrupted producer is admitted without a look at the requests of its stage.\<close>

lemma queued_producer_iff:
  "queued_producer_attempt d l \<longleftrightarrow> il_state l = ReworkQueued
     \<and> given (\<lambda>a. given (\<lambda>s. at_state a \<in> {AQueued, AStopped, AInterrupted, AFailed}
         \<and> at_logicalGeneration a = Some (if st_currentGenerationRef s = None then 1 else st_currentGeneration s + 1)
         \<and> at_baseGenerationRef a = st_currentGenerationRef s) (owner_stage d l)) (owner_attempt d l)"
proof -
  have *: "(at_state a = AQueued \<or> at_state a \<in> {AStopped, AInterrupted, AFailed} \<or> at_state a = AInterrupted \<and> p \<and> b)
      \<longleftrightarrow> at_state a \<in> {AQueued, AStopped, AInterrupted, AFailed}" for a :: stored_attempt and p b by auto
  show ?thesis unfolding queued_producer_attempt_def * by (rule refl)
qed

lemma producers_unmoved [unmoved]:
  "queued_producer_attempt (aside d n qs) = queued_producer_attempt d"
  "queued_producer_turn (aside d n qs) = queued_producer_turn d"
  by (simp_all only: fun_eq_iff queued_producer_iff queued_producer_turn_def unmoved simp_thms)

lemma loop_state_unmoved [unmoved]:
  "loop_state_ok (aside d n qs) = loop_state_ok d"
  by (simp_all only: fun_eq_iff loop_state_ok_def unmoved simp_thms)

lemma loops_error_unmoved [unmoved]:
  "loops_error e (aside d n qs) seen keys ls = loops_error e d seen keys ls"
  by (induction ls arbitrary: seen keys) (simp_all only: loops_error.simps unmoved)

lemma receipts_unmoved [unmoved]:
  "receipt_commits_ok (aside d n qs) = receipt_commits_ok d"
  "receipt_attempt_ok (aside d n qs) = receipt_attempt_ok d"
  "loop_findings (aside d n qs) = loop_findings d"
  by (simp_all only: fun_eq_iff receipt_commits_ok_def receipt_attempt_ok_def loop_findings_def unmoved simp_thms)

lemma turns_unmoved [unmoved]:
  "turn_row_ok (aside d n qs) = turn_row_ok d"
  "receipt_row_ok e (aside d n qs) = receipt_row_ok e d"
  "turn_findings_ok (aside d n qs) = turn_findings_ok d"
  by (simp_all only: fun_eq_iff turn_row_ok_def receipt_row_ok_def turn_findings_ok_def unmoved simp_thms)

lemma turns_error_unmoved [unmoved]:
  "turns_error e (aside d n qs) seen ts = turns_error e d seen ts"
  by (induction ts arbitrary: seen) (simp_all only: turns_error.simps unmoved)

lemma receipts_error_unmoved [unmoved]:
  "receipts_error e (aside d n qs) seen rs = receipts_error e d seen rs"
  by (induction rs arbitrary: seen) (simp_all only: receipts_error.simps unmoved)

lemma provenance_parts_unmoved [unmoved]:
  "advance_fields_ok (aside d n qs) = advance_fields_ok d"
  "pending_turn (aside d n qs) = pending_turn d"
  "generation_of_attempt (aside d n qs) = generation_of_attempt d"
  "named_generation (aside d n qs) = named_generation d"
  by (simp_all only: fun_eq_iff advance_fields_ok_def pending_turn_def generation_of_attempt_def named_generation_def unmoved simp_thms)

lemma provenance_unmoved [unmoved]:
  "provenance_ok (aside d n qs) = provenance_ok d"
  by (simp_all only: fun_eq_iff provenance_ok_def unmoved simp_thms)

lemma attempts_unmoved [unmoved]:
  "attempt_error (aside d n qs) = attempt_error d"
  "supersession_ok (aside d n qs) = supersession_ok d"
  "superseded_once (aside d n qs) = superseded_once d"
  "stage_generation_error (aside d n qs) = stage_generation_error d"
  by (simp_all only: fun_eq_iff attempt_error_def supersession_ok_def superseded_once_def
      stage_generation_error_def unmoved simp_thms)

lemma attempted_unmoved [unmoved]:
  "attempted_ok e (aside d n qs) = attempted_ok e d"
  "receipt_cycles (aside d n qs) = receipt_cycles d"
  by (simp_all only: fun_eq_iff attempted_ok_def receipt_cycles_def unmoved simp_thms)

lemma residue_unmoved [unmoved]:
  "residue_error e (aside d n qs) = residue_error e d"
  "cycles_ok (aside d n qs) = cycles_ok d"
  by (simp_all only: fun_eq_iff residue_error_def cycles_ok_def unmoved simp_thms)

text \<open>The gates of a loop.\<close>

definition loop_names :: "document \<Rightarrow> string \<Rightarrow> bool" where
  "loop_names d r \<longleftrightarrow> list_ex (\<lambda>l. il_completionGateRef l = Some r \<or> il_interventionRef l = Some r) (iterationLoops d)"

lemma gates_unmoved:
  assumes "l \<in> set (iterationLoops d)" and "\<And>r. loop_names d r \<Longrightarrow> human_by_ref (aside d n qs) r = human_by_ref d r"
  shows "loop_gates_error e (aside d n qs) l = loop_gates_error e d l"
proof -
  have named: "human_by_ref (aside d n qs) r = human_by_ref d r"
    if "il_completionGateRef l = Some r \<or> il_interventionRef l = Some r" for r
    by (rule assms(2)) (use assms(1) that in \<open>auto simp: loop_names_def list_ex_iff\<close>)
  have g: "gate_of_loop (aside d n qs) x = gate_of_loop d x" "loop_gate_ok (aside d n qs) l x = loop_gate_ok d l x"
    if "x = il_completionGateRef l \<or> x = il_interventionRef l" for x
    using named that by (cases x; auto simp: gate_of_loop_def loop_gate_ok_def if_given_def)+
  show ?thesis
    unfolding loop_gates_error_def g[OF disjI1[OF refl]] g[OF disjI2[OF refl]] unmoved by (rule refl)
qed

lemma all_walls_cong: "(\<And>x. x \<in> set xs \<Longrightarrow> f x = g x) \<Longrightarrow> all_walls f xs = all_walls g xs"
  unfolding all_walls_def by (metis map_cong)

lemma iterationError_unmoved:
  assumes "\<And>r. loop_names d r \<Longrightarrow> human_by_ref (aside d n qs) r = human_by_ref d r"
  shows "iterationError e (aside d n qs) = iterationError e d"
proof -
  have g: "all_walls (loop_gates_error e (aside d n qs)) (iterationLoops d) = all_walls (loop_gates_error e d) (iterationLoops d)"
    by (rule all_walls_cong, rule gates_unmoved[OF _ assms])
  show ?thesis unfolding iterationError_def unmoved g by (rule refl)
qed

lemma placements_unmoved [unmoved]: "assertPlacementCollections (aside d n qs) = assertPlacementCollections d"
  by (simp only: assertPlacementCollections_def unmoved)

lemma load_unmoved:
  assumes "\<And>r. loop_names d r \<Longrightarrow> human_by_ref (aside d n qs) r = human_by_ref d r"
    and "validateAuthorized20260731RecoveryDurability e (events d) [] qs
      = validateAuthorized20260731RecoveryDurability e (events d) [] (humanRequests d)"
  shows "load_error e (aside d n qs) = load_error e d"
proof -
  have "validateStoreDocument e (aside d n qs) = validateStoreDocument e d"
    using assms(2) by (simp only: validateStoreDocument_def unmoved) simp
  moreover have "iterationError e (aside d n qs) = iterationError e d" by (rule iterationError_unmoved[OF assms(1)])
  ultimately show ?thesis unfolding load_error_def unmoved by simp
qed

lemma load_error_bump [simp]: "load_error e (bump d) = load_error e d"
proof -
  have "bump d = aside d (documentRevision d + 1) (humanRequests d)" by (simp add: bump_def)
  then show ?thesis
    using load_unmoved[where d = d and n = "documentRevision d + 1" and qs = "humanRequests d"] by (simp add: human_by_ref_def)
qed

section \<open>A rework that is started\<close>

lemma first_error_None_all: "IterationWall.first_error xs = None \<longleftrightarrow> (\<forall>x\<in>set xs. x = None)"
  by (induction xs) (auto split: option.splits)

lemma iterationError_refuses: "iterationError e d \<noteq> None \<Longrightarrow> load_error e d \<noteq> None"
  by (auto simp: load_error_def first_error_None_all split: option.splits)

lemma loops_error_state: "loops_error e d seen keys ls = None \<Longrightarrow> l \<in> set ls \<Longrightarrow> loop_state_ok d l"
proof (induction ls arbitrary: seen keys)
  case (Cons k ls)
  then have "wall (loop_state_ok d k) dw_loop_state = None"
      "\<exists>seen keys. loops_error e d seen keys ls = None" unfolding loops_error.simps first_error_None_all by auto
  then show ?case using Cons by (auto simp: wall_def split: if_splits)
qed simp

lemma rework_walled:
  assumes "iterationError e d = None" and "l \<in> set (iterationLoops d)" and "il_state l = ReworkQueued"
    and "owner_attempt d l = Some a"
  shows "at_state a \<in> {AQueued, AStopped, AInterrupted, AFailed}"
proof -
  have "loops_error e d [] [] (iterationLoops d) = None"
    using assms(1) unfolding iterationError_def first_error_None_all by simp
  from loops_error_state[OF this assms(2)] have "queued_producer_attempt d l"
    using assms(3) by (simp add: loop_state_ok_def Let_def)
  then show ?thesis using assms(4) by (auto simp: queued_producer_iff given_def split: option.splits)
qed

lemma last_by_unique:
  assumes "distinct (map k xs)" and "x \<in> set xs"
  shows "last_by (\<lambda>y. k y = k x) xs = Some x"
proof -
  have "find (\<lambda>y. k y = k x) ys = Some x" if "distinct (map k ys)" "x \<in> set ys" for ys
    using that by (induction ys) force+
  then show ?thesis using assms by (simp add: last_by_def rev_map[symmetric])
qed

lemma started_rework_refused:
  assumes refs: "distinct (map at_attemptRef (attempts d))" and l: "l \<in> set (iterationLoops d)" "il_state l = ReworkQueued"
    and a: "owner_attempt d l = Some a"
    and t: "next_doc (transitionAttempt e u (at_attemptRef a) n ''starting'' d) = Some d'"
  shows "iterationError e' d' \<noteq> None"
proof
  assume w: "iterationError e' d' = None"
  let ?f = "moved_attempt AStarting (e_stamp e 0)" and ?r = "at_attemptRef a"
  have "map_of ATTEMPT_STATES ''starting'' = Some AStarting" by code_simp
  then obtain b where b: "find (is_attempt u ?r) (attempts d) = Some b"
    and d': "d' = d\<lparr>attempts := upd_first (is_attempt u ?r) ?f (attempts d)\<rparr>"
    using t by (auto simp: transitionAttempt_def Let_def split: option.splits if_splits)
  have refs': "distinct (map at_attemptRef (attempts d'))"
    using refs unfolding d' by (simp, subst map_upd_first_same) (simp_all add: moved_attempt_def)
  have "at_attemptRef (?f b) = ?r" using find_SomeD[OF b] by (auto simp: is_attempt_def moved_attempt_def)
  moreover have "?f b \<in> set (attempts d')" unfolding d' using upd_first_member[OF b] by simp
  ultimately have f: "attempt_by_ref d' ?r = Some (?f b)"
    unfolding attempt_by_ref_def using last_by_unique[OF refs'] by metis
  obtain s where s: "owner_stage d l = Some s \<and> st_currentAttemptRef s = Some ?r \<or> owner_stage d l = None \<and> ?r = []"
    using a by (auto simp: owner_attempt_def attempt_by_ref_def last_by_def dest: find_SomeD split: option.splits)
  have "owner_stage d' l = owner_stage d l" unfolding owner_stage_def stage_by_id_def d' by (simp split: option.split)
  then have "owner_attempt d' l = Some (?f b)" using s f by (auto simp: owner_attempt_def)
  from rework_walled[OF w _ l(2) this] show False using l(1) by (simp add: d' moved_attempt_def)
qed

end
