(* ===== verification/RunClaims.thy ===== *)
theory RunClaims
  imports Samples StoreLoad
begin

text \<open>
  Properties of the whole store and of launches: what every reached document satisfies, what survives every
  operation, and what a committed launch, decision or transition implies. The concrete documents of the
  witnesses are those of Samples.
\<close>

section \<open>The store\<close>



text \<open>
  C16. Whatever the store does, what a human decided stays: an answered request is found again unchanged, in
  the document or in the bundle its run was moved to, and a stored proposal revision keeps its content and
  the decision it took.
\<close>

theorem decisions_survive:
  assumes "reachable d" and "later d d'"
  shows "(\<forall>q\<in>set (all_requests d). hq_response q \<noteq> None \<longrightarrow> q \<in> set (all_requests d'))
    \<and> (\<forall>n<length (proposals d). n < length (proposals d') \<and> revision_kept (proposals d ! n) (proposals d' ! n))"
proof -
  have s: "answers_kept d d'" "revisions_kept d d'"
    using later_step[OF assms(2) reachable_inv[OF assms(1)]] by (simp_all add: op_step_def)
  then show ?thesis
    by (auto simp: answers_kept_def revisions_kept_def list_all2_conv_all_nth)
qed

lemma decisions_survive_witness:
  "length (proposals approved) = 1 \<and> proposals launched ! 0 = proposals approved ! 0"
proof -
  have n: "length (proposals approved) = 1" "pr_approval (proposals approved ! 0) \<noteq> None" unfolding samples by code_simp+
  then show ?thesis
    using decisions_survive[OF approved_reachable launched_later] by (simp add: revision_kept_def)
qed

text \<open>C17. At most one attempt of a stage is in flight in any reached document.\<close>

theorem one_attempt_in_flight:
  assumes "reachable d" and "s \<in> set (stages d)" and "a \<in> set (attempts d)" and "b \<in> set (attempts d)"
    and "stage_of a = stage_key s" and "stage_of b = stage_key s"
    and "\<not> SETTLED_ATTEMPT (at_state a)" and "\<not> SETTLED_ATTEMPT (at_state b)"
  shows "a = b"
proof -
  have "flight_inv d" using reachable_inv[OF assms(1)] by (simp add: store_inv_def stages_inv_def)
  then show ?thesis using assms(2-) by (rule one_in_flight)
qed

lemma one_attempt_in_flight_witness:
  "list_all (\<lambda>b. stage_of b = stage_key (hd (stages attempted)) \<and> \<not> SETTLED_ATTEMPT (at_state b)
     \<longrightarrow> b = hd (attempts attempted)) (attempts attempted)"
proof -
  have "stages attempted \<noteq> []" "attempts attempted \<noteq> []"
    "stage_of (hd (attempts attempted)) = stage_key (hd (stages attempted))"
    "\<not> SETTLED_ATTEMPT (at_state (hd (attempts attempted)))" unfolding samples by code_simp+
  then show ?thesis
    using one_attempt_in_flight[OF attempted_reachable, of "hd (stages attempted)" _ "hd (attempts attempted)"]
    by (simp add: list_all_iff)
qed

section \<open>Launches\<close>

text \<open>
  C18. The dependency check refuses exactly the cyclic graphs: stages that pass the shape checks and name
  only stages of the run are admitted if the graph has no cycle, and refused with the cycle message if it has.
\<close>

theorem cycle_refused_exactly:
  assumes "admit_stages [] ss = Inr bs" and "dependencies_known ss" and "ss \<noteq> []" and "length ss \<le> MAX_STAGES_PER_RUN"
  shows "admitStages ss = (if acyclic (edges (stage_graph ss)) then Inr bs else Inl (Refused Invalid dt_launch_cycle))"
  by (rule admitStages_cycle[OF assms])

lemma cycle_refused_exactly_witness:
  "admitStages cyclic_stages = Inl (Refused Invalid dt_launch_cycle) \<and> \<not> acyclic (edges (stage_graph cyclic_stages))
   \<and> acyclic (edges (stage_graph (ri_stages sample_launch)))"
proof -
  have "\<exists>bs. admit_stages [] ss = Inr bs" if "isl (admit_stages [] ss) = False" for ss
    using that by (cases "admit_stages [] ss") auto
  moreover have "isl (admit_stages [] cyclic_stages) = False" "dependencies_known cyclic_stages"
    "isl (admit_stages [] (ri_stages sample_launch)) = False" "dependencies_known (ri_stages sample_launch)" unfolding samples by code_simp+
  ultimately obtain bs bs' where b: "admit_stages [] cyclic_stages = Inr bs" "dependencies_known cyclic_stages"
      "admit_stages [] (ri_stages sample_launch) = Inr bs'" "dependencies_known (ri_stages sample_launch)" by blast
  have r: "admitStages cyclic_stages = Inl (Refused Invalid dt_launch_cycle)" unfolding samples by code_simp
  have "admitStages cyclic_stages = (if acyclic (edges (stage_graph cyclic_stages)) then Inr bs
      else Inl (Refused Invalid dt_launch_cycle))"
    by (rule cycle_refused_exactly[OF b(1,2)]) (simp_all add: cyclic_stages_def MAX_STAGES_PER_RUN_def)
  then have c: "\<not> acyclic (edges (stage_graph cyclic_stages))" using r by (auto split: if_splits)
  have "isl (admitStages (ri_stages sample_launch)) = False" unfolding samples by code_simp
  moreover have "admitStages (ri_stages sample_launch) = (if acyclic (edges (stage_graph (ri_stages sample_launch)))
      then Inr bs' else Inl (Refused Invalid dt_launch_cycle))"
    by (rule cycle_refused_exactly[OF b(3,4)]) (simp_all add: sample_launch_def MAX_STAGES_PER_RUN_def)
  ultimately have "acyclic (edges (stage_graph (ri_stages sample_launch)))" by (auto split: if_splits)
  then show ?thesis using r c by blast
qed

text \<open>
  C19. A launch that commits was approved: the proposal revision it names is stored with the caller as owner,
  the hash the caller expected and an approving decision. The new run is planned and bound to that revision,
  its stage graph has no cycle, and each of its stages starts ready or blocked as it has dependencies or not.
\<close>

theorem launch_was_approved:
  assumes "createRun e u i d = Commit d' v"
  shows "\<exists>p r ss. p \<in> set (proposals d) \<and> pr_subject p = u \<and> pr_proposalRef p = ri_proposalRef i
      \<and> pr_revision p = ri_proposalRevision i \<and> pr_hash p = ri_expectedProposalHash i
      \<and> map_option ap_decision (pr_approval p) = Some PdApproved
      \<and> runs d' = runs d @ [r] \<and> lc_kind (r_lifecycle r) = RPlanned \<and> r_subject r = u
      \<and> r_proposalRef r = pr_proposalRef p \<and> r_proposalRevision r = pr_revision p \<and> r_proposalHash r = pr_hash p
      \<and> stages d' = stages d @ ss \<and> map st_stageId ss = map stage_id (ri_stages i)
      \<and> list_all (\<lambda>s. st_state s = (if st_dependsOn s = [] then SReady else SBlocked) \<and> st_runRef s = r_runRef r) ss
      \<and> acyclic (edges (stage_graph (ri_stages i)))"
proof -
  have n: "next_doc (createRun e u i d) = Some d'" by (simp add: assms)
  obtain a p l groups where a: "admitLaunch i = Inr a" and p: "approve u i a d = Inr p"
    and l: "lifecycleForKind RPlanned None = Inr l"
    and d': "d' = launched_document e u i a (launched_run e u i a p l) groups d"
    by (rule createRun_commit[OF n])
  have "find (is_revision u (ri_proposalRef i) (ri_proposalRevision i) OwnSubject) (proposals d) = Some p"
    and h: "pr_hash p = ri_expectedProposalHash i" "map_option ap_decision (pr_approval p) = Some PdApproved"
    by (rule approve_Inr[OF p], assumption)+
  then have f: "p \<in> set (proposals d)" "pr_subject p = u" "pr_proposalRef p = ri_proposalRef i" "pr_revision p = ri_proposalRevision i"
    using find_SomeD by (fastforce simp: is_revision_def)+
  let ?ss = "launched_stages e u a 2 (ri_stages i)"
  have "lc_kind l = RPlanned" using lifecycleForKind_wf[OF l] by simp
  moreover have "list_all (\<lambda>s. st_state s = (if st_dependsOn s = [] then SReady else SBlocked)
      \<and> st_runRef s = r_runRef (launched_run e u i a p l)) ?ss"
    using launched_stages_refs(2) by (auto simp: list_all_iff launched_run_def)
  moreover have "acyclic (edges (stage_graph (ri_stages i)))"
    using admitStages_graph(2) admitLaunch_parts(7)[OF a] by blast
  ultimately show ?thesis
    using f h by (intro exI[of _ p] exI[of _ "launched_run e u i a p l"] exI[of _ ?ss])
      (simp add: d' launched_document_def launched_stage_ids, simp add: launched_run_def)
qed

lemma launch_commits: "\<exists>d' v. createRun sample_env ''operator'' sample_launch approved = Commit d' v"
proof -
  have "launch_commit approved" unfolding samples by code_simp
  then show ?thesis by (auto simp: launch_commit_def split: outcome.splits)
qed

lemma launch_was_approved_witness:
  "\<exists>d' v r. createRun sample_env ''operator'' sample_launch approved = Commit d' v \<and> r \<in> set (runs d')
     \<and> r_proposalRef r = ''proposal-0'' \<and> r_proposalRevision r = 1"
proof -
  obtain d' v where c: "createRun sample_env ''operator'' sample_launch approved = Commit d' v" using launch_commits by blast
  show ?thesis using launch_was_approved[OF c] c by (auto simp: sample_launch_def)
qed

text \<open>
  C20. A launch happens once. When a launch has been saved, the same call again, on a store that still opens,
  answers with the stored run and saves nothing. A store that does not open after a launch is a finding of its
  own: an owner that is not a safe identifier, and C35.
\<close>

theorem launch_replays:
  assumes "run_method e (createRun e u i) d = (Ok v False, d')" and "load_error e d' = None"
  shows "run_method e (createRun e u i) d' = (Ok v True, d')"
proof -
  have "exec e (createRun e u i) d = (Ok v False, d')"
    using assms(1) by (cases "load_error e d") (simp_all add: run_method_loads run_method_refuses del: exec.simps)
  moreover have "createRun e u i d \<noteq> Value v" "createRun e u i d \<noteq> Save x v" for x
    using createRun_answers by auto
  ultimately obtain d1 where c: "createRun e u i d = Commit d1 v" and "d' = bump d1"
    by (cases "createRun e u i d") (auto simp: save_doc_def split: if_splits)
  then show ?thesis unfolding run_method_loads[OF assms(2)] using createRun_replays(2)[OF c] by simp
qed

lemma launch_replays_witness:
  "\<exists>d' v. run_method sample_env (createRun sample_env ''operator'' sample_launch) approved = (Ok v False, d')
     \<and> run_method sample_env (createRun sample_env ''operator'' sample_launch) d' = (Ok v True, d')"
proof -
  have o: "load_error sample_env approved = None" unfolding samples by code_simp
  obtain d1 v where c: "createRun sample_env ''operator'' sample_launch approved = Commit d1 v"
    using launch_commits by blast
  moreover have "\<not> e_maxBytes sample_env < e_docBytes sample_env x" for x by (simp add: sample_env_def)
  ultimately have "launched = bump d1" "exec sample_env (createRun sample_env ''operator'' sample_launch) approved = (Ok v False, bump d1)"
    by (simp_all add: launched_def does_def save_doc_def)
  then have r: "run_method sample_env (createRun sample_env ''operator'' sample_launch) approved = (Ok v False, launched)"
    unfolding run_method_loads[OF o] by simp
  have "load_error sample_env launched = None" unfolding samples by code_simp
  from launch_replays[OF r this] r show ?thesis by blast
qed

text \<open>
  C21. A Retry successor succeeds a run at rest: when a launch that names a predecessor commits, that run is
  terminal or interrupted, published, bound to the same proposal hash, and everything under
  it is settled, down to its last request.
\<close>

theorem retry_succeeds_settled:
  assumes "createRun e u i d = Commit d' v" and "ri_predecessorRunRef i = Some (c # cs)"
  shows "\<exists>r. findRun d u (c # cs) OwnSubject = Some r \<and> ri_expectedPredecessorVersion i = Some (r_version r)
    \<and> (isTerminalRun (r_lifecycle r) \<or> runLifecycleKind (r_lifecycle r) = RInterrupted)
    \<and> r_publicationState r = PubPublished \<and> r_proposalHash r = ri_expectedProposalHash i
    \<and> (\<forall>s\<in>set (stages d). stage_row (r_subject r) (r_runRef r) s \<longrightarrow> SETTLED_STAGE (st_state s))
    \<and> (\<forall>a\<in>set (attempts d). attempt_row (r_subject r) (r_runRef r) a \<longrightarrow> SETTLED_ATTEMPT (at_state a))
    \<and> (\<forall>m\<in>set (sessions d). session_row (r_subject r) (r_runRef r) m \<longrightarrow> SETTLED_SESSION (ms_state m))
    \<and> (\<forall>q\<in>set (humanRequests d). run_request (r_subject r) (r_runRef r) q \<longrightarrow> \<not> hq_open q)"
proof -
  have n: "next_doc (createRun e u i d) = Some d'" by (simp add: assms(1))
  obtain a p where p: "approve u i a d = Inr p" and c: "check_predecessor u i a p d = Inr ()"
    by (rule createRun_commit[OF n])
  obtain r where r: "findRun d u (c # cs) OwnSubject = Some r" "ri_expectedPredecessorVersion i = Some (r_version r)"
      "r_proposalHash r = pr_hash p" "isTerminalRun (r_lifecycle r) \<or> runLifecycleKind (r_lifecycle r) = RInterrupted"
      "retryPredecessorRefusal d r = None"
    using check_predecessor_Inr[OF c] assms(2) by auto
  have "pr_hash p = ri_expectedProposalHash i" by (rule approve_Inr[OF p])
  then show ?thesis using r retry_accepts_settled[OF r(5)] by auto
qed

lemma retry_succeeds_settled_witness:
  "\<exists>d' v. createRun next_env ''operator'' retry_launch failed_launch = Commit d' v
     \<and> (\<exists>r. findRun failed_launch ''operator'' ''run-0'' OwnSubject = Some r \<and> r_publicationState r = PubPublished)"
proof -
  have "case createRun next_env ''operator'' retry_launch failed_launch of Commit _ _ \<Rightarrow> True | _ \<Rightarrow> False" unfolding failed_launch_def samples by code_simp
  then obtain d' v where c: "createRun next_env ''operator'' retry_launch failed_launch = Commit d' v"
    by (auto split: outcome.splits)
  have "ri_predecessorRunRef retry_launch = Some (CHR ''r'' # ''un-0'')" by (simp add: retry_launch_def)
  from retry_succeeds_settled[OF c this] c show ?thesis by auto
qed

section \<open>Proposals\<close>

text \<open>
  C22. In every reached document the revisions of a proposal are numbered from 1 without a gap, and each
  points at the hash of the one before it; the first points at none.
\<close>

theorem proposal_hash_chain:
  assumes "reachable d" and "ps = filter (proposal_row u p) (proposals d)" and "n < length ps"
  shows "pr_revision (ps ! n) = int n + 1
    \<and> pr_previousHash (ps ! n) = (if n = 0 then None else Some (pr_hash (ps ! (n - 1))))"
proof -
  have c: "chained 1 None ps"
    using reachable_inv[OF assms(1)] assms(2) by (simp add: store_inv_parts rest_inv_def proposals_inv_def)
  show ?thesis using chained_nth[OF c assms(3)] by auto
qed

lemma proposal_hash_chain_witness:
  "pr_previousHash (proposals revised ! 1) = Some (pr_hash (proposals revised ! 0))"
proof -
  have "map (\<lambda>p. (pr_subject p, pr_proposalRef p)) (proposals revised)
      = [(''operator'', ''proposal-0''), (''operator'', ''proposal-0'')]"
    unfolding samples by code_simp
  then have f: "list_all (proposal_row ''operator'' ''proposal-0'') (proposals revised)" "length (proposals revised) = 2"
    by (auto simp: proposal_row_def)
  then have "proposals revised = filter (proposal_row ''operator'' ''proposal-0'') (proposals revised)"
    by (simp add: filter_id_conv list_all_iff)
  from proposal_hash_chain[OF revised_reachable this, of 1] f(2) show ?thesis by simp
qed

text \<open>
  C23. A proposal revision takes one decision: the committed decision is stored under the hash the caller
  named, the same call answers with it again, and no other decision on the revision ever commits.
\<close>

theorem decision_taken_once:
  assumes "decideProposal e u p n i d = Commit d' v"
  shows "v \<in> set (proposals d') \<and> pr_approval v \<noteq> None \<and> pr_hash v = di_expectedHash i
    \<and> exec e (decideProposal e u p n i) d' = (Ok v True, d')
    \<and> snd (exec e' (decideProposal e' u p n i') d') = d'"
proof -
  note v = decision_committed[OF assms]
  have "next_doc (decideProposal e' u p n i' d') = None"
  proof (rule ccontr)
    assume "next_doc (decideProposal e' u p n i' d') \<noteq> None"
    then obtain d'' where "next_doc (decideProposal e' u p n i' d') = Some d''" by blast
    then show False using v(1,2) by (auto elim: decideProposal_commit)
  qed
  then have "snd (exec e' (decideProposal e' u p n i') d') = d'"
    using exec_idle by blast
  then show ?thesis using v find_SomeD[OF v(1)] by simp
qed

lemma decision_taken_once_witness:
  "\<exists>d' v. decideProposal sample_env ''operator'' ''proposal-0'' 1 sample_decision proposed = Commit d' v
     \<and> snd (exec sample_env (decideProposal sample_env ''operator'' ''proposal-0'' 1
         (sample_decision\<lparr>di_decision := ''rejected'', di_idempotencyKey := ''decide-2''\<rparr>)) d') = d'"
proof -
  have "case decideProposal sample_env ''operator'' ''proposal-0'' 1 sample_decision proposed of
      Commit _ _ \<Rightarrow> True | _ \<Rightarrow> False" unfolding samples by code_simp
  then obtain d' v where c: "decideProposal sample_env ''operator'' ''proposal-0'' 1 sample_decision proposed = Commit d' v"
    by (auto split: outcome.splits)
  then show ?thesis using decision_taken_once[OF c] by blast
qed

section \<open>Runs and stages\<close>

lemma run_not_archived_bare:
  "next_doc (transitionRun e u x n st d) = Some d' \<Longrightarrow> run_kind_of st \<noteq> Some RArchived"
  by (auto simp: transitionRun_def split: option.splits)

lemma transition_needs_dependencies:
  assumes "next_doc (transitionStage e u x n st d) = Some d'" and "st \<in> {''ready'', ''running'', ''succeeded''}"
  shows "\<exists>s. find (is_stage u x) (stages d) = Some s \<and> dependenciesSucceeded d s"
proof -
  obtain s where s: "find (is_stage u x) (stages d) = Some s" by (rule transitionStage_commit[OF assms(1)])
  have "map_of STAGE_STATES st \<in> {Some SReady, Some SRunning, Some SSucceeded}"
    using assms(2) by (auto simp: STAGE_STATES_def)
  then show ?thesis using assms(1) s by (auto simp: transitionStage_def split: option.splits if_splits)
qed

text \<open>
  C24. A run moves only along the edges of its lifecycle, under the version the caller named, never by this
  call out of a terminal state; out of waiting for a person only when every request of the run is accepted;
  and it succeeds only when each of its stages succeeded and every attempt and session under it is settled.
\<close>

theorem run_moves:
  assumes "next_doc (transitionRun e u x n st d) = Some d'"
  shows "\<exists>r k. findRun d u x OwnSubject = Some r \<and> run_kind_of st = Some k \<and> r_version r = n
    \<and> run_edge (lc_kind (r_lifecycle r)) k \<and> \<not> isTerminalRun (r_lifecycle r)
    \<and> (lc_kind (r_lifecycle r) = RWaitingHuman \<and> k \<in> {RPlanned, RRecovering, RRunning} \<longrightarrow>
        (\<forall>q\<in>set (humanRequests d). run_request u x q \<longrightarrow> boundaryAccepted q))
    \<and> (k = RSucceeded \<longrightarrow>
        (\<forall>s\<in>set (stages d). stage_row u x s \<longrightarrow> st_state s = SSucceeded)
        \<and> (\<forall>a\<in>set (attempts d). at_subject a = u \<and> at_runRef a = x \<longrightarrow> SETTLED_ATTEMPT (at_state a))
        \<and> (\<forall>m\<in>set (sessions d). ms_subject m = u \<and> ms_runRef m = x \<longrightarrow> SETTLED_SESSION (ms_state m)))"
proof -
  obtain r k where r: "findRun d u x OwnSubject = Some r" and k: "run_kind_of st = Some k" "k \<noteq> RArchived" "r_version r = n"
      "canTransitionRun (r_lifecycle r) k"
    and b: "lc_kind (r_lifecycle r) = RWaitingHuman \<and> k \<in> {RPlanned, RRecovering, RRunning} \<longrightarrow> boundariesAccepted d u x None"
    and c: "k = RSucceeded \<longrightarrow> runCanSucceed d r"
    by (rule transitionRun_commit[OF assms]) (metis run_not_archived_bare[OF assms])
  have id: "r_subject r = u" "r_runRef r = x" using r by (auto simp: findRun_def is_run_def dest!: find_SomeD)
  have "\<not> isTerminalRun (r_lifecycle r)" using k(2,4) terminal_only_to_archived by blast
  moreover have "run_edge (lc_kind (r_lifecycle r)) k" using k(4) by (simp add: canTransitionRun_edge)
  moreover have "boundariesAccepted d u x None \<Longrightarrow> \<forall>q\<in>set (humanRequests d). run_request u x q \<longrightarrow> boundaryAccepted q"
    by (auto simp: boundariesAccepted_def list_all_iff)
  moreover have "runCanSucceed d r \<Longrightarrow> (\<forall>s\<in>set (stages d). stage_row u x s \<longrightarrow> st_state s = SSucceeded)
        \<and> (\<forall>a\<in>set (attempts d). at_subject a = u \<and> at_runRef a = x \<longrightarrow> SETTLED_ATTEMPT (at_state a))
        \<and> (\<forall>m\<in>set (sessions d). ms_subject m = u \<and> ms_runRef m = x \<longrightarrow> SETTLED_SESSION (ms_state m))"
    by (auto simp: runCanSucceed_def list_all_iff id)
  ultimately show ?thesis using r k b c by blast
qed

lemma run_moves_witness:
  "\<exists>d'. next_doc (transitionRun sample_env ''operator'' ''run-0'' 1 ''running'' waiting) = Some d'
     \<and> (\<forall>q\<in>set (humanRequests waiting). run_request ''operator'' ''run-0'' q \<longrightarrow> boundaryAccepted q)"
proof -
  have "next_doc (transitionRun sample_env ''operator'' ''run-0'' 1 ''running'' waiting) \<noteq> None" by code_simp
  then obtain d' where n: "next_doc (transitionRun sample_env ''operator'' ''run-0'' 1 ''running'' waiting) = Some d'" by blast
  have "map_option (\<lambda>r. lc_kind (r_lifecycle r)) (findRun waiting ''operator'' ''run-0'' OwnSubject) = Some RWaitingHuman"
    "run_kind_of ''running'' = Some RRunning" by code_simp+
  then show ?thesis using run_moves[OF n] n by auto
qed

text \<open>
  C25. A stage is released, run and finished only behind its dependencies: when it moves to ready, running or
  succeeded, every stage it depends on is a stage of the same run that has succeeded.
\<close>

theorem stage_released_behind_dependencies:
  assumes "next_doc (transitionStage e u x n st d) = Some d'" and "st \<in> {''ready'', ''running'', ''succeeded''}"
  shows "\<exists>s. find (is_stage u x) (stages d) = Some s \<and> (\<forall>i\<in>set (st_dependsOn s). \<exists>c\<in>set (stages d).
    st_stageId c = i \<and> stage_row (st_subject s) (st_runRef s) c \<and> st_state c = SSucceeded)"
proof -
  obtain s where s: "find (is_stage u x) (stages d) = Some s" "dependenciesSucceeded d s"
    using transition_needs_dependencies[OF assms] by blast
  have "\<exists>c\<in>set (stages d). st_stageId c = i \<and> stage_row (st_subject s) (st_runRef s) c \<and> st_state c = SSucceeded"
    if "i \<in> set (st_dependsOn s)" for i
    using s(2) that stage_by_id_row by (fastforce simp: dependenciesSucceeded_def list_all_iff split: option.splits)
  then show ?thesis using s(1) by blast
qed

lemma stage_released_behind_dependencies_witness:
  "\<exists>d'. next_doc (transitionStage sample_env ''operator'' ''stage-3'' 1 ''ready'' built) = Some d'
     \<and> (\<exists>c\<in>set (stages built). st_stageId c = ''build'' \<and> st_state c = SSucceeded)"
proof -
  have "next_doc (transitionStage sample_env ''operator'' ''stage-3'' 1 ''ready'' built) \<noteq> None" by code_simp
  then obtain d' where n: "next_doc (transitionStage sample_env ''operator'' ''stage-3'' 1 ''ready'' built) = Some d'" by blast
  have "map_option st_dependsOn (find (is_stage ''operator'' ''stage-3'') (stages built)) = Some [''build'']" by code_simp
  then show ?thesis using stage_released_behind_dependencies[OF n] n by auto
qed

text \<open>
  C26. An attempt starts only when the last one of its stage is over: the committed call found a stage whose
  current attempt, if it has one, is settled, and leaves the new attempt, queued, as the current one.
\<close>

theorem attempt_follows_settled:
  assumes "next_doc (createAttempt e u x i d) = Some d'"
  shows "\<exists>s a. find (is_stage u x) (stages d) = Some s \<and> st_version s = an_expectedStageVersion i
    \<and> (\<forall>p. previous_attempt d u s = Some p \<longrightarrow> SETTLED_ATTEMPT (at_state p))
    \<and> attempts d' = attempts d @ [a] \<and> at_state a = AQueued
    \<and> map_option st_currentAttemptRef (find (is_stage u x) (stages d')) = Some (Some (at_attemptRef a))"
proof -
  obtain s where s: "find (is_stage u x) (stages d) = Some s" "st_version s = an_expectedStageVersion i"
    and p: "\<And>p. previous_attempt d u s = Some p \<Longrightarrow> SETTLED_ATTEMPT (at_state p)"
    and d': "d' = d\<lparr>stages := upd_first (is_stage u x) (pointed_stage (ref e ''attempt'' 0) (e_stamp e 0)) (stages d),
        attempts := attempts d @ [new_attempt e d u s x i]\<rparr>"
    by (rule createAttempt_commit[OF assms]) blast
  have "find (is_stage u x) (stages d') = Some (pointed_stage (ref e ''attempt'' 0) (e_stamp e 0) s)"
    using s(1) by (simp add: d', intro find_upd_first_kept) (auto simp: pointed_stage_def is_stage_def dest!: find_SomeD)
  moreover have "st_currentAttemptRef (pointed_stage (ref e ''attempt'' 0) (e_stamp e 0) s) = Some (ref e ''attempt'' 0)"
    by (simp add: pointed_stage_def)
  moreover have "at_attemptRef (new_attempt e d u s x i) = ref e ''attempt'' 0 \<and> at_state (new_attempt e d u s x i) = AQueued"
    by (simp add: new_attempt_def queued_attempt_def Let_def)
  ultimately show ?thesis
    using s p by (intro exI[of _ s] exI[of _ "new_attempt e d u s x i"]) (simp add: d')
qed

lemma attempt_follows_settled_witness:
  "\<exists>d'. next_doc (createAttempt sample_env ''operator'' ''stage-3''
       \<lparr>an_expectedStageVersion = 1, an_runtime = ''claude'', an_model = ''opus''\<rparr> built) = Some d'
     \<and> length (attempts d') = 1"
proof -
  let ?i = "\<lparr>an_expectedStageVersion = 1, an_runtime = ''claude'', an_model = ''opus''\<rparr>"
  have "next_doc (createAttempt sample_env ''operator'' ''stage-3'' ?i built) \<noteq> None" by code_simp
  then obtain d' where n: "next_doc (createAttempt sample_env ''operator'' ''stage-3'' ?i built) = Some d'" by blast
  have "attempts built = []" by code_simp
  then show ?thesis using attempt_follows_settled[OF n] n by auto
qed

section \<open>A launch the store cannot read back\<close>

text \<open>
  C35. The launch treats an empty predecessor reference as none and skips the predecessor checks, but it
  stores the empty string; the decoder at the opening of the store refuses the run.
\<close>

theorem empty_predecessor_unreadable:
  assumes "next_doc (createRun e u i d) = Some d'" and "ri_predecessorRunRef i = Some []"
  shows "decodeStoredRun (stored_run_js (last (runs d'))) = None"
proof -
  obtain a p l groups where d': "d' = launched_document e u i a (launched_run e u i a p l) groups d"
    by (rule createRun_commit[OF assms(1)])
  have "\<not> SAFE_ID []" by code_simp
  then have "\<not> run_valid (launched_run e u i a p l)" using assms(2) by (simp add: run_valid_def launched_run_def)
  then show ?thesis by (simp add: d' launched_document_def decodeStoredRun_def stored_run_values)
qed

lemma empty_predecessor_unreadable_witness:
  "\<exists>d'. next_doc (createRun sample_env ''operator'' (sample_launch\<lparr>ri_predecessorRunRef := Some []\<rparr>) approved) = Some d'
     \<and> decodeStoredRun (stored_run_js (last (runs d'))) = None"
proof -
  let ?i = "sample_launch\<lparr>ri_predecessorRunRef := Some []\<rparr>"
  have "next_doc (createRun sample_env ''operator'' ?i approved) \<noteq> None" unfolding samples by code_simp
  then obtain d' where c: "next_doc (createRun sample_env ''operator'' ?i approved) = Some d'" by blast
  have "ri_predecessorRunRef ?i = Some []" by simp
  from empty_predecessor_unreadable[OF c this] c show ?thesis by blast
qed

end
