(* ===== verification/SessionClaims.thy ===== *)
theory SessionClaims
  imports Samples
begin

text \<open>
  Properties of the session broker, of run activation, of manager succession and of the quarantine.
\<close>

section \<open>The broker\<close>

text \<open>
  C27. An idempotency key of a managed session is spent by the first mutation that commits under it. Whatever
  broker calls follow, by whomever and on whatever sessions, a call on the session with that key, of
  whatever kind and content, leaves the document as it finds it.
\<close>

theorem broker_key_spent:
  assumes "next_doc (run_broker e u c d) = Some d'" and "broker_later d' d2"
    and "call_run c' = call_run c" and "call_session c' = call_session c" and "call_key c' = call_key c"
  shows "snd (exec e' (run_broker e' u c') d2) = d2"
proof -
  have "holds_key d2 u (call_run c') (call_session c') (call_key c')"
    using later_keeps_receipt[OF assms(2) committed_holds_key[OF assms(1)]] assms(3-5) by simp
  from exec_idle[of "run_broker e' u c'", OF receipt_spends[OF this]] show ?thesis .
qed

lemma broker_key_spent_witness:
  "\<exists>d' d2. next_doc (run_broker sample_env ''operator'' (CallStop (session_call ''key-1'')) steered) = Some d'
     \<and> d2 = snd (exec sample_env (run_broker sample_env ''operator''
         (CallConsume (session_call ''key-2''\<lparr>sn_expectedRevision := 2\<rparr>) ''cp'')) d')
     \<and> list_all (\<lambda>s. ms_brokerSteering s = []) (sessions d2)
     \<and> snd (exec sample_env (run_broker sample_env ''operator'' (CallConsume (session_call ''key-1'') ''cp'')) d2) = d2"
proof -
  let ?k = "CallConsume (session_call ''key-2''\<lparr>sn_expectedRevision := 2\<rparr>) ''cp''"
  have "case next_doc (run_broker sample_env ''operator'' (CallStop (session_call ''key-1'')) steered) of
      Some d' \<Rightarrow> list_all (\<lambda>s. ms_brokerSteering s = []) (sessions (snd (exec sample_env (run_broker sample_env ''operator'' ?k) d')))
    | None \<Rightarrow> False" by code_simp
  then obtain d' where n: "next_doc (run_broker sample_env ''operator'' (CallStop (session_call ''key-1'')) steered) = Some d'"
    and q: "list_all (\<lambda>s. ms_brokerSteering s = []) (sessions (snd (exec sample_env (run_broker sample_env ''operator'' ?k) d')))"
    by (auto simp del: exec.simps run_broker.simps split: option.splits)
  have l: "broker_later d' (snd (exec sample_env (run_broker sample_env ''operator'' ?k) d'))"
    by (intro broker_later.intros)
  have "snd (exec sample_env (run_broker sample_env ''operator'' (CallConsume (session_call ''key-1'') ''cp''))
      (snd (exec sample_env (run_broker sample_env ''operator'' ?k) d'))) = snd (exec sample_env (run_broker sample_env ''operator'' ?k) d')"
    by (rule broker_key_spent[OF n l]) (simp_all add: session_call_def)
  then show ?thesis using n q by blast
qed

text \<open>
  C28. Steering instructions are neither lost nor handed out twice. Across a committed broker call the queue
  loses exactly what the call hands out and gains exactly what it enqueues, in order; what it hands out is
  recorded as released, once; and the two together grow by the enqueued instruction alone. Only a consume at
  the revision it expects hands out, the instructions due at its checkpoint; only an enqueue at the
  revision it expects adds, its own trimmed text.
\<close>

theorem steering_ledger:
  assumes "next_doc (run_broker e u c d) = Some d'"
  shows "\<exists>s t. findSession d u (call_run c) (call_session c) = Some s
    \<and> findSession d' u (call_run c) (call_session c) = Some t
    \<and> ms_brokerSteering t = filter (\<lambda>x. \<not> goes c s x) (ms_brokerSteering s) @ joins e c s
    \<and> released t = released s + mset (map si_instruction (filter (goes c s) (ms_brokerSteering s)))
    \<and> released t + queued t = released s + queued s + mset (map si_instruction (joins e c s))"
proof -
  obtain s s1 r vs where b: "broker_commit e u c d d' s s1 r vs" by (rule run_broker_commit[OF assms])
  have "findSession d u (call_run c) (call_session c) = Some s" using b by (simp add: broker_commit_def)
  then show ?thesis using commit_finds[OF b] ledger_step[OF b] by blast
qed

lemma steering_ledger_witness:
  "\<exists>d' t. next_doc (run_broker sample_env ''operator'' (CallConsume (session_call ''key-1'') ''cp'') steered) = Some d'
     \<and> findSession d' ''operator'' ''run-0'' ''session-1'' = Some t \<and> queued t = {#} \<and> ''go left'' \<in># released t"
proof -
  let ?c = "CallConsume (session_call ''key-1'') ''cp''"
  have "next_doc (run_broker sample_env ''operator'' ?c steered) \<noteq> None" by code_simp
  then obtain d' where n: "next_doc (run_broker sample_env ''operator'' ?c steered) = Some d'" by blast
  have "case findSession steered ''operator'' ''run-0'' ''session-1'' of None \<Rightarrow> False
      | Some s \<Rightarrow> map si_instruction (ms_brokerSteering s) = [''go left'']
        \<and> list_all (released_at ''cp'') (ms_brokerSteering s) \<and> cas_ok (session_call ''key-1'') s" by code_simp
  then obtain s where s: "findSession steered ''operator'' ''run-0'' ''session-1'' = Some s"
      "map si_instruction (ms_brokerSteering s) = [''go left'']" "list_all (released_at ''cp'') (ms_brokerSteering s)"
      "cas_ok (session_call ''key-1'') s"
    by (auto split: option.splits)
  have "js_trim ''cp'' = ''cp''" by code_simp
  then have g: "\<forall>x\<in>set (ms_brokerSteering s). goes ?c s x" using s by (simp add: list_all_iff)
  obtain t where t: "findSession d' ''operator'' ''run-0'' ''session-1'' = Some t"
      "ms_brokerSteering t = filter (\<lambda>x. \<not> goes ?c s x) (ms_brokerSteering s) @ joins sample_env ?c s"
      "released t = released s + mset (map si_instruction (filter (goes ?c s) (ms_brokerSteering s)))"
    using steering_ledger[OF n] s(1) by (auto simp: session_call_def simp del: goes.simps joins.simps)
  have "filter (goes ?c s) (ms_brokerSteering s) = ms_brokerSteering s" using g by (simp add: filter_id_conv del: goes.simps)
  moreover have "filter (\<lambda>x. \<not> goes ?c s x) (ms_brokerSteering s) = []"
    using g by (simp add: filter_empty_conv del: goes.simps)
  ultimately have "queued t = {#}" "''go left'' \<in># released t" using t(2,3) s(2) by (simp_all add: queued_def)
  then show ?thesis using n t(1) by blast
qed

text \<open>
  C29. A consumer that lost its answer gets it again: the same consume call on the document it left returns
  the instructions and the revision of the first answer, and saves nothing.
\<close>

theorem consume_answers_again:
  assumes "brokerConsumeSteering e u i cp d = Commit d' m" and "e_sha256 e' = e_sha256 e"
  shows "\<exists>m'. exec e' (brokerConsumeSteering e' u i cp) d' = (Ok m' False, d')
    \<and> bm_instructions m' = bm_instructions m \<and> bm_revision m' = bm_revision m"
proof -
  obtain m' where "brokerConsumeSteering e' u i cp d' = Value m'" "bm_instructions m' = bm_instructions m"
      "bm_revision m' = bm_revision m" by (rule consume_replays[OF assms])
  then show ?thesis by simp
qed

lemma consume_answers_again_witness:
  "\<exists>d' m m'. brokerConsumeSteering sample_env ''operator'' (session_call ''key-1'') ''cp'' steered = Commit d' m
     \<and> bm_instructions m = [''go left'']
     \<and> exec next_env (brokerConsumeSteering next_env ''operator'' (session_call ''key-1'') ''cp'') d' = (Ok m' False, d')
     \<and> bm_instructions m' = [''go left'']"
proof -
  have "case brokerConsumeSteering sample_env ''operator'' (session_call ''key-1'') ''cp'' steered of
      Commit _ m \<Rightarrow> bm_instructions m = [''go left''] | _ \<Rightarrow> False" by code_simp
  then obtain d' m where c: "brokerConsumeSteering sample_env ''operator'' (session_call ''key-1'') ''cp'' steered = Commit d' m"
      "bm_instructions m = [''go left'']" by (auto split: outcome.splits)
  have "e_sha256 next_env = e_sha256 sample_env" by (simp add: next_env_def)
  from consume_answers_again[OF c(1) this] c show ?thesis by metis
qed

text \<open>
  C30. In every reached document the ledgers are within their limits: at most 4096 receipts and 256 queued
  instructions for a session, no two receipts under one key, no instruction queued twice.
\<close>

theorem broker_limits:
  assumes "reachable d" and "s \<in> set (sessions d)"
  shows "length (ms_brokerReceipts s) \<le> 4096 \<and> distinct (map br_idempotencyKey (ms_brokerReceipts s))
    \<and> length (ms_brokerSteering s) \<le> 256 \<and> distinct (map si_instructionRef (ms_brokerSteering s))"
proof -
  have "session_sound s" using reachable_inv[OF assms(1)] assms(2) by (simp add: store_inv_parts broker_inv_def list_all_iff)
  then show ?thesis
    by (simp add: session_sound_def MAX_BROKER_RECEIPTS_PER_SESSION_def MAX_STEERING_INSTRUCTIONS_PER_SESSION_def)
qed

lemma broker_limits_witness:
  "sessions started \<noteq> [] \<and> length (ms_brokerReceipts (hd (sessions started))) \<le> 4096"
proof -
  have "sessions started \<noteq> []" unfolding samples by code_simp
  then show ?thesis using broker_limits[OF started_reachable, of "hd (sessions started)"] by simp
qed

section \<open>Activation and succession\<close>

text \<open>
  C31. In every reached document a run has at most one activation pending, its receipts have distinct keys
  and are at most 64.
\<close>

theorem one_pending_activation:
  assumes "reachable d" and "r \<in> set (runs d)"
  shows "length (filter pending_phase (run_receipts r)) \<le> 1 \<and> distinct (map ac_idempotencyKey (run_receipts r))
    \<and> length (run_receipts r) \<le> 64"
proof -
  have "run_sound r" using reachable_inv[OF assms(1)] assms(2) by (simp add: store_inv_parts core_inv_def runs_inv_def list_all_iff)
  then show ?thesis using run_receipts_sound by (fastforce simp: receipts_sound_def MAX_ACTIVATION_RECEIPTS_PER_RUN_def)
qed

lemma one_pending_activation_witness:
  "runs launched \<noteq> [] \<and> length (filter pending_phase (run_receipts (hd (runs launched)))) \<le> 1"
proof -
  have "runs launched \<noteq> []" unfolding samples by code_simp
  then show ?thesis using one_pending_activation[OF launched_reachable, of "hd (runs launched)"] by simp
qed

text \<open>
  C32. A run is activated only when it waits for a person, is published, and every request of it is answered
  and accepted, at least one of them.
\<close>

theorem activation_needs_acceptance:
  assumes "next_doc (claimRunActivation e u x i d) = Some d'"
  shows "\<exists>r. findRun d u x OwnSubject = Some r \<and> lc_kind (r_lifecycle r) = RWaitingHuman
    \<and> r_publicationState r = PubPublished \<and> (\<exists>q\<in>set (humanRequests d). run_request u x q)
    \<and> (\<forall>q\<in>set (humanRequests d). run_request u x q \<longrightarrow> boundaryAccepted q)"
proof -
  obtain r where r: "findRun d u x OwnSubject = Some r" "lc_kind (r_lifecycle r) = RWaitingHuman"
      "r_publicationState r = PubPublished" "boundaries_present d u x"
    by (rule claimRunActivation_commit[OF assms])
  then show ?thesis by (auto simp: boundaries_present_def Let_def list_all_iff filter_empty_conv)
qed

lemma activation_needs_acceptance_witness:
  "\<exists>q\<in>set (humanRequests waiting). boundaryAccepted q"
proof -
  have "next_doc (claimRunActivation sample_env ''operator'' ''run-0'' claim_input waiting) \<noteq> None" by code_simp
  then obtain d' where "next_doc (claimRunActivation sample_env ''operator'' ''run-0'' claim_input waiting) = Some d'" by blast
  from activation_needs_acceptance[OF this] show ?thesis by blast
qed

text \<open>
  C33. A Manager is succeeded once per generation: a committed succession replaces a settled Manager of the
  expected generation by one of the next generation, and a second succession that expects the same
  generation changes nothing.
\<close>

theorem manager_succeeded_once:
  assumes "next_doc (createManagerSuccessor e u x i d) = Some d'"
    and "mi_expectedManagerGeneration i' = mi_expectedManagerGeneration i"
  shows "\<exists>r m. findRun d u x OwnSubject = Some r \<and> r_managerGeneration r = mi_expectedManagerGeneration i
      \<and> find (owns_session u (r_managerSessionRef r)) (sessions d) = Some m \<and> SETTLED_SESSION (ms_state m)
      \<and> map_option r_managerGeneration (findRun d' u x OwnSubject) = Some (r_managerGeneration r + 1)
      \<and> snd (exec e' (createManagerSuccessor e' u x i') d') = d'"
proof -
  obtain r m l where r: "findRun d u x OwnSubject = Some r" "r_managerGeneration r = mi_expectedManagerGeneration i"
      "find (owns_session u (r_managerSessionRef r)) (sessions d) = Some m" "SETTLED_SESSION (ms_state m)"
    and d': "d' = d\<lparr>runs := upd_first (is_run u x OwnSubject)
          (succeeded_run l (successor_session e u x i r m) (e_stamp e 0)) (runs d),
        sessions := sessions d @ [successor_session e u x i r m]\<rparr>"
    by (rule createManagerSuccessor_commit[OF assms(1)])
  let ?f = "succeeded_run l (successor_session e u x i r m) (e_stamp e 0)"
  have "findRun d' u x OwnSubject = Some (?f r)"
    using r(1) unfolding findRun_def d'
    by (simp, intro find_upd_first_kept) (auto simp: succeeded_run_def is_run_def Let_def dest!: find_SomeD)
  moreover have g: "r_managerGeneration (?f r) = r_managerGeneration r + 1"
    by (simp add: succeeded_run_def successor_session_def pending_session_def Let_def)
  ultimately have f': "map_option r_managerGeneration (findRun d' u x OwnSubject) = Some (r_managerGeneration r + 1)" by simp
  have "next_doc (createManagerSuccessor e' u x i' d') = None"
  proof (rule ccontr)
    assume "next_doc (createManagerSuccessor e' u x i' d') \<noteq> None"
    then obtain d'' where "next_doc (createManagerSuccessor e' u x i' d') = Some d''" by blast
    then obtain r' where "findRun d' u x OwnSubject = Some r'" "r_managerGeneration r' = mi_expectedManagerGeneration i'"
      by (rule createManagerSuccessor_commit)
    then show False using f' r(2) assms(2) by simp
  qed
  then have "snd (exec e' (createManagerSuccessor e' u x i') d') = d'"
    using exec_idle by blast
  then show ?thesis using r f' by blast
qed

lemma manager_succeeded_once_witness:
  "\<exists>d'. next_doc (createManagerSuccessor next_env ''operator'' ''run-0'' (succeed_input ''s1'') retired) = Some d'
     \<and> map_option r_managerGeneration (findRun d' ''operator'' ''run-0'' OwnSubject) = Some 2
     \<and> snd (exec sample_env (createManagerSuccessor sample_env ''operator'' ''run-0'' (succeed_input ''s2'')) d') = d'"
proof -
  have "next_doc (createManagerSuccessor next_env ''operator'' ''run-0'' (succeed_input ''s1'') retired) \<noteq> None" unfolding retired_def samples by code_simp
  then obtain d' where n: "next_doc (createManagerSuccessor next_env ''operator'' ''run-0'' (succeed_input ''s1'') retired) = Some d'"
    by blast
  have "mi_expectedManagerGeneration (succeed_input ''s2'') = mi_expectedManagerGeneration (succeed_input ''s1'')"
    by (simp add: succeed_input_def)
  note s = manager_succeeded_once[OF n this, of sample_env]
  have "mi_expectedManagerGeneration (succeed_input ''s1'') = 1" by (simp add: succeed_input_def)
  then have "map_option r_managerGeneration (findRun d' ''operator'' ''run-0'' OwnSubject) = Some 2" using s by force
  then show ?thesis using n s by blast
qed

section \<open>Quarantine\<close>

text \<open>
  C34. Quarantine is reversible: with the timeline in order, as in every reached document, a run moved out
  and restored leaves every collection with the same rows, the timeline with one recovery event more, and
  the run stamped by the restore.
\<close>

theorem quarantine_roundtrip:
  assumes "events_inv d" and "find (is_bundle u x OwnSubject) (quarantine d) = None"
    and "next_doc (quarantineRuns e u [x] h OwnSubject d) = Some d1"
    and "next_doc (restoreRun e' u x OwnSubject d1) = Some d2"
  shows "quarantine d2 = quarantine d \<and> same_rows d d2
    \<and> events d2 = events d @ [recovery_event u x (nextEventCursor d) (e_stamp e' 0)]
    \<and> (\<exists>r. findRun d u x OwnSubject = Some r \<and> mset (runs d2) + {#r#} = mset (runs d) + {#restored_run (e_stamp e' 0) r#})"
  by (rule quarantine_restores[OF assms])

lemma quarantine_roundtrip_witness:
  "\<exists>d1 d2. next_doc (quarantineRuns sample_env ''operator'' [''run-0''] (replicate 64 CHR ''a'') OwnSubject halted) = Some d1
     \<and> next_doc (restoreRun sample_env ''operator'' ''run-0'' OwnSubject d1) = Some d2 \<and> same_rows halted d2"
proof -
  have "case next_doc (quarantineRuns sample_env ''operator'' [''run-0''] (replicate 64 CHR ''a'') OwnSubject halted) of
      None \<Rightarrow> False | Some d1 \<Rightarrow> next_doc (restoreRun sample_env ''operator'' ''run-0'' OwnSubject d1) \<noteq> None" by code_simp
  then obtain d1 d2 where c: "next_doc (quarantineRuns sample_env ''operator'' [''run-0''] (replicate 64 CHR ''a'') OwnSubject halted) = Some d1"
      "next_doc (restoreRun sample_env ''operator'' ''run-0'' OwnSubject d1) = Some d2" by (auto split: option.splits)
  have i: "events_inv halted" "find (is_bundle ''operator'' ''run-0'' OwnSubject) (quarantine halted) = None"
    by (simp_all add: halted_def events_inv_def quarantined_events_def emptyStoreDocument_def)
  show ?thesis using quarantine_roundtrip[OF i c] c by blast
qed

end
