(* ===== verification/Matching.thy ===== *)
theory Matching
  imports Placement
begin

text \<open>
  Placement matching: the normaliser of capability names and the decoder of a declared requirement
  (\<open>placement/normalize.ts\<close>), the predicate that compares a requirement with an advertisement, its
  freshness-aware form (\<open>placement/match.ts\<close>), the union of a workflow's declarations
  (\<open>placement/requirements.ts\<close>) and the choice of a host (\<open>placement/select.ts\<close>).

  Strings hold code units below 256. There \<open>normalize('NFC')\<close> changes nothing (no code point below 256 is a
  combining mark or has another composed form), and \<open>toLowerCase\<close> shifts the two alphabets of that range.
\<close>

section \<open>Names\<close>

definition js_upper :: "char \<Rightarrow> bool" where
  "js_upper c \<longleftrightarrow> is_upper c \<or> 192 \<le> (of_char c :: nat) \<and> (of_char c :: nat) \<le> 222 \<and> (of_char c :: nat) \<noteq> 215"

definition js_lower :: "char \<Rightarrow> char" where
  "js_lower c = (if js_upper c then char_of ((of_char c :: nat) + 32) else c)"

text \<open>\<open>.replace(/-{2,}/g, '-')\<close>\<close>

fun collapse :: "string \<Rightarrow> string" where
  "collapse (a # b # s) = (if a = CHR ''-'' \<and> b = CHR ''-'' then collapse (b # s) else a # collapse (b # s))"
| "collapse s = s"

definition canonical_form :: "string \<Rightarrow> string" where
  "canonical_form raw =
     collapse (map (\<lambda>c. if c = CHR ''_'' then CHR ''-'' else c) (map js_lower (js_trim raw)))"

definition bad_name :: "string \<Rightarrow> decode_error" where
  "bad_name field = (field, ''invalid-capability-name'')"

definition normalizeCapabilityName :: "js \<Rightarrow> decode_error + string" where
  "normalizeCapabilityName raw =
     require (is_str raw) (bad_name ''capability-name'')
    (require (CANONICAL_ID (canonical_form (js_str raw))) (bad_name ''capability-name'')
    (Inr (canonical_form (js_str raw))))"

definition isCanonicalName :: "string \<Rightarrow> bool" where
  "isCanonicalName name \<longleftrightarrow> normalizeCapabilityName (JStr name) = Inr name"

definition assertCanonical :: "string \<Rightarrow> string \<Rightarrow> (decode_error + 'a) \<Rightarrow> decode_error + 'a" where
  "assertCanonical field name k = require (isCanonicalName name) (bad_name field) k"

section \<open>The requirement\<close>

datatype cli = Claude | Codex

fun cli_name :: "cli \<Rightarrow> string" where
  "cli_name Claude = ''claude''"
| "cli_name Codex = ''codex''"

lemma cli_name_inj [simp]: "cli_name a = cli_name b \<longleftrightarrow> a = b"
  by (cases a; cases b) simp_all

text \<open>Requirable CLIs are sorted as the strings they are.\<close>

instantiation cli :: linorder
begin

definition less_eq_cli :: "cli \<Rightarrow> cli \<Rightarrow> bool" where
  "less_eq_cli a b = (cli_name a \<le> cli_name b)"

definition less_cli :: "cli \<Rightarrow> cli \<Rightarrow> bool" where
  "less_cli a b = (cli_name a < cli_name b)"

instance
proof
  fix a b c :: cli
  show "a < b \<longleftrightarrow> a \<le> b \<and> \<not> b \<le> a" by (simp only: less_cli_def less_eq_cli_def less_le_not_le)
  show "a \<le> a" by (simp add: less_eq_cli_def)
  show "a \<le> b \<Longrightarrow> b \<le> c \<Longrightarrow> a \<le> c" by (simp add: less_eq_cli_def)
  show "a \<le> b \<Longrightarrow> b \<le> a \<Longrightarrow> a = b" by (cases a; cases b) (simp_all add: less_eq_cli_def)
  show "a \<le> b \<or> b \<le> a" by (auto simp: less_eq_cli_def)
qed

end

record capability_requirement =
  cr_connectors :: "connector list"
  cr_skills :: "string list"
  cr_filesystemRoots :: "string list"
  cr_pty :: bool
  cr_gpu :: bool
  cr_clis :: "cli list"

definition CAPABILITY_REQUIREMENT_FIELDS :: "string list" where
  "CAPABILITY_REQUIREMENT_FIELDS = [''connectors'', ''skills'', ''filesystemRoots'', ''pty'', ''gpu'', ''clis'']"

text \<open>The first entry equal to the one before it, and a map whose function may throw.\<close>

fun adjacent_dup :: "'a list \<Rightarrow> 'a option" where
  "adjacent_dup (x # y # xs) = (if y = x then Some y else adjacent_dup (y # xs))"
| "adjacent_dup xs = None"

fun sum_map :: "('a \<Rightarrow> 'e + 'b) \<Rightarrow> 'a list \<Rightarrow> 'e + 'b list" where
  "sum_map f [] = Inr []"
| "sum_map f (x # xs) = sum_bind (f x) (\<lambda>y. sum_bind (sum_map f xs) (\<lambda>ys. Inr (y # ys)))"

definition sortedUnique :: "('a :: linorder \<Rightarrow> string) \<Rightarrow> string \<Rightarrow> 'a list \<Rightarrow> nat \<Rightarrow> decode_error + 'a list" where
  "sortedUnique txt field names lim =
     require (length names \<le> lim)
       (field, ''at most '' @ int_str (int lim) @ '' entries, got '' @ int_str (int (length names)))
    (case adjacent_dup (sort names) of
       Some x \<Rightarrow> Inl (field, ''duplicate '' @ json_quote (txt x))
     | None \<Rightarrow> Inr (sort names))"

definition decode_requirement_connector :: "js \<Rightarrow> decode_error + connector" where
  "decode_requirement_connector c =
     require (is_record c) (''connectors'', ''each connector is an object'')
    (exact ''connectors'' c [''server'', ''tools'']
    (require (is_arr (fld c ''tools'')) (''connectors.tools'', ''array required'')
    (sum_bind (normalizeCapabilityName (fld c ''server'')) (\<lambda>server.
     sum_bind (sum_map normalizeCapabilityName (js_arr (fld c ''tools''))) (\<lambda>names.
     sum_bind (sortedUnique id ''connectors.tools'' names MAX_TOOLS_PER_CONNECTOR) (\<lambda>tools.
       Inr \<lparr>cn_server = server, cn_tools = tools\<rparr>))))))"

definition decode_cli :: "js \<Rightarrow> decode_error + cli" where
  "decode_cli c = (if c = JStr ''claude'' then Inr Claude else if c = JStr ''codex'' then Inr Codex
     else Inl (''clis'', ''not requirable '' @ json_stringify c))"

definition decodeCapabilityRequirement :: "js \<Rightarrow> decode_error + capability_requirement" where
  "decodeCapabilityRequirement v =
     require (is_record v) (''capabilityRequirement'', ''object required'')
    (exact ''capabilityRequirement'' v CAPABILITY_REQUIREMENT_FIELDS
    (require (is_arr (fld v ''connectors'')) (''connectors'', ''array required'')
    (require (length (js_arr (fld v ''connectors'')) \<le> MAX_CONNECTORS)
       (''connectors'', ''at most '' @ int_str (int MAX_CONNECTORS) @ '' servers'')
    (sum_bind (sum_map decode_requirement_connector (js_arr (fld v ''connectors''))) (\<lambda>cs.
     let connectors = sort_key cn_server cs in
     case adjacent_dup (map cn_server connectors) of
       Some s \<Rightarrow> Inl (''connectors'', ''duplicate server '' @ json_quote s)
     | None \<Rightarrow>
     require (is_arr (fld v ''skills'')) (''skills'', ''array required'')
    (require (is_arr (fld v ''filesystemRoots'')) (''filesystemRoots'', ''array required'')
    (require (is_bool (fld v ''pty'')) (''pty'', ''boolean required'')
    (require (is_bool (fld v ''gpu'')) (''gpu'', ''boolean required'')
    (require (is_arr (fld v ''clis'')) (''clis'', ''array required'')
    (sum_bind (sum_map decode_cli (js_arr (fld v ''clis''))) (\<lambda>named.
     sum_bind (sortedUnique cli_name ''clis'' named 2) (\<lambda>clis.
     sum_bind (sum_map normalizeCapabilityName (js_arr (fld v ''skills''))) (\<lambda>skillNames.
     sum_bind (sortedUnique id ''skills'' skillNames MAX_SKILLS) (\<lambda>skills.
     sum_bind (sum_map normalizeCapabilityName (js_arr (fld v ''filesystemRoots''))) (\<lambda>rootNames.
     sum_bind (sortedUnique id ''filesystemRoots'' rootNames MAX_FILESYSTEM_ROOTS) (\<lambda>roots.
       Inr \<lparr>cr_connectors = connectors, cr_skills = skills, cr_filesystemRoots = roots,
            cr_pty = (fld v ''pty'' = JBool True), cr_gpu = (fld v ''gpu'' = JBool True),
            cr_clis = clis\<rparr>))))))))))))))))"

definition requirement_js :: "capability_requirement \<Rightarrow> js" where
  "requirement_js r = JObj [(''connectors'', JArr (map connector_js (cr_connectors r))),
     (''skills'', JArr (map JStr (cr_skills r))), (''filesystemRoots'', JArr (map JStr (cr_filesystemRoots r))),
     (''pty'', JBool (cr_pty r)), (''gpu'', JBool (cr_gpu r)),
     (''clis'', JArr (map (JStr \<circ> cli_name) (cr_clis r)))]"

definition capabilityHash :: "(string \<Rightarrow> string) \<Rightarrow> capability_requirement \<Rightarrow> decode_error + string" where
  "capabilityHash sha256Hex r =
     sum_bind (decodeCapabilityRequirement (requirement_js r)) (\<lambda>r'. Inr (sha256Hex (canonicalJson (requirement_js r'))))"

section \<open>Matching\<close>

fun assert_all :: "string \<Rightarrow> string list \<Rightarrow> (decode_error + 'a) \<Rightarrow> decode_error + 'a" where
  "assert_all field [] k = k"
| "assert_all field (s # ss) k = assertCanonical field s (assert_all field ss k)"

fun assert_connectors :: "connector list \<Rightarrow> (decode_error + 'a) \<Rightarrow> decode_error + 'a" where
  "assert_connectors [] k = k"
| "assert_connectors (c # cs) k = assertCanonical ''match.connector'' (cn_server c)
     (assert_all ''match.tool'' (cn_tools c) (assert_connectors cs k))"

text \<open>\<open>new Map(...)\<close> keeps the last entry of a key.\<close>

definition advertised_tools :: "'a host_advertisement_scheme \<Rightarrow> string \<Rightarrow> string list option" where
  "advertised_tools a = map_of (rev (map (\<lambda>c. (cn_server c, cn_tools c)) (ha_connectors a)))"

fun cli_state :: "'a host_advertisement_scheme \<Rightarrow> cli \<Rightarrow> cli_status" where
  "cli_state a Claude = ha_claude a"
| "cli_state a Codex = ha_codex a"

definition offers :: "'a host_advertisement_scheme \<Rightarrow> connector \<Rightarrow> bool" where
  "offers a c = (case advertised_tools a (cn_server c) of
     None \<Rightarrow> False | Some ts \<Rightarrow> list_all (\<lambda>t. t \<in> set ts) (cn_tools c))"

definition match :: "capability_requirement \<Rightarrow> 'a host_advertisement_scheme \<Rightarrow> decode_error + bool" where
  "match r a =
     assert_connectors (cr_connectors r)
    (assert_all ''match.skill'' (cr_skills r)
    (assert_all ''match.root'' (cr_filesystemRoots r)
    (Inr (list_all (offers a) (cr_connectors r)
      \<and> list_all (\<lambda>s. s \<in> set (ha_skills a)) (cr_skills r)
      \<and> list_all (\<lambda>s. s \<in> set (ha_filesystemRoots a)) (cr_filesystemRoots r)
      \<and> \<not> (cr_pty r \<and> \<not> ha_pty a) \<and> \<not> (cr_gpu r \<and> \<not> ha_gpu a)
      \<and> list_all (\<lambda>c. cli_state a c = CliReady) (cr_clis r)))))"

definition matchesFreshAdvertisement ::
  "capability_requirement \<Rightarrow> int \<Rightarrow> 'a host_advertisement_scheme \<Rightarrow> decode_error + bool" where
  "matchesFreshAdvertisement r nowMs a =
     (if isAdvertisementFresh (ha_reportedAt a) nowMs then match r a else Inr False)"

text \<open>\<open>filter\<close> with a predicate that may throw.\<close>

fun sum_filter :: "('a \<Rightarrow> 'e + bool) \<Rightarrow> 'a list \<Rightarrow> 'e + 'a list" where
  "sum_filter p [] = Inr []"
| "sum_filter p (x # xs) = sum_bind (p x) (\<lambda>b. sum_bind (sum_filter p xs) (\<lambda>ys. Inr (if b then x # ys else ys)))"

definition freshMatches ::
  "capability_requirement \<Rightarrow> 'a host_advertisement_scheme list \<Rightarrow> int \<Rightarrow> decode_error + 'a host_advertisement_scheme list" where
  "freshMatches r as nowMs = sum_filter (matchesFreshAdvertisement r nowMs) as"

section \<open>Selection\<close>

definition preferVmOnTie :: "host_kind list \<Rightarrow> host_kind" where
  "preferVmOnTie hs = (if Vm \<in> set hs then Vm else hd hs)"

datatype placement_result = NoCompletePlacement | Placed host_kind

definition selectPlacementHost ::
  "capability_requirement \<Rightarrow> 'a host_advertisement_scheme list \<Rightarrow> int \<Rightarrow> decode_error + placement_result" where
  "selectPlacementHost r as nowMs = sum_bind (freshMatches r as nowMs) (\<lambda>matches.
     if matches = [] then Inr NoCompletePlacement
     else Inr (Placed (preferVmOnTie (map ha_hostId matches))))"

text \<open>\<open>select\<close>: the port that creates the run is a function on the state it changes.\<close>

definition select :: "capability_requirement \<Rightarrow> 'a host_advertisement_scheme list \<Rightarrow> int
    \<Rightarrow> (host_kind \<Rightarrow> 's \<Rightarrow> 'run \<times> 's) \<Rightarrow> 's \<Rightarrow> (decode_error + (host_kind \<times> 'run) option) \<times> 's" where
  "select r as nowMs createRun s = (case selectPlacementHost r as nowMs of
     Inl err \<Rightarrow> (Inl err, s)
   | Inr NoCompletePlacement \<Rightarrow> (Inr None, s)
   | Inr (Placed h) \<Rightarrow> (case createRun h s of (run, s') \<Rightarrow> (Inr (Some (h, run)), s')))"

text \<open>The slice of the composed capabilities the host of a daemon is read from.\<close>

record runtime_capabilities =
  rc_ptyHost :: "host_kind option"
  rc_platform :: string

definition runtimeExecutionHost :: "runtime_capabilities \<Rightarrow> host_kind" where
  "runtimeExecutionHost c = (case rc_ptyHost c of Some h \<Rightarrow> h
     | None \<Rightarrow> if rc_platform c = ''win32'' then Desktop else Vm)"

datatype projection_source = FromPlacement | SelfIdentity

definition projectNeverRunHost :: "capability_requirement \<Rightarrow> 'a host_advertisement_scheme list \<Rightarrow> int
    \<Rightarrow> runtime_capabilities \<Rightarrow> decode_error + (projection_source \<times> host_kind)" where
  "projectNeverRunHost r as nowMs self =
     (let fresh = filter (\<lambda>a. isAdvertisementFresh (ha_reportedAt a) nowMs) as in
      if fresh = [] then Inr (SelfIdentity, runtimeExecutionHost self)
      else sum_bind (sum_filter (match r) fresh) (\<lambda>matches.
        Inr (FromPlacement, preferVmOnTie (map ha_hostId (if matches \<noteq> [] then matches else fresh)))))"

section \<open>The requirement of a workflow\<close>

record workflow_fields =
  wf_skills :: "string list option"
  wf_connectors :: "connector list option"
  wf_filesystemRoots :: "string list option"

record agent_fields =
  af_skills :: "string list"
  af_connectors :: "connector list"
  af_filesystemRoots :: "string list"
  af_runtime :: "string option"

definition add_tools :: "string list \<Rightarrow> string list \<Rightarrow> string list" where
  "add_tools tools added = foldl (\<lambda>ts t. if t \<in> set ts then ts else ts @ [t]) tools added"

fun set_entry :: "string \<Rightarrow> string list \<Rightarrow> (string \<times> string list) list \<Rightarrow> (string \<times> string list) list" where
  "set_entry k v [] = [(k, v)]"
| "set_entry k v ((k', v') # m) = (if k' = k then (k, v) # m else (k', v') # set_entry k v m)"

fun merge_grants :: "connector list \<Rightarrow> (string \<times> string list) list \<Rightarrow> decode_error + (string \<times> string list) list" where
  "merge_grants [] m = Inr m"
| "merge_grants (c # cs) m =
     sum_bind (normalizeCapabilityName (JStr (cn_server c))) (\<lambda>server.
       merge_grants cs (set_entry server
         (add_tools (case map_of m server of None \<Rightarrow> [] | Some ts \<Rightarrow> ts) (cn_tools c)) m))"

definition mergeConnectors :: "connector list list \<Rightarrow> decode_error + connector list" where
  "mergeConnectors grants = sum_bind (merge_grants (concat grants) [])
     (\<lambda>m. Inr (map (\<lambda>(server, tools). \<lparr>cn_server = server, cn_tools = tools\<rparr>) m))"

definition opt_list :: "'a list option \<Rightarrow> 'a list" where
  "opt_list x = (case x of None \<Rightarrow> [] | Some xs \<Rightarrow> xs)"

definition declared_skills :: "workflow_fields \<Rightarrow> agent_fields list \<Rightarrow> string list" where
  "declared_skills w as = opt_list (wf_skills w) @ concat (map af_skills as)"

definition declared_roots :: "workflow_fields \<Rightarrow> agent_fields list \<Rightarrow> string list" where
  "declared_roots w as = opt_list (wf_filesystemRoots w) @ concat (map af_filesystemRoots as)"

definition declared_clis :: "agent_fields list \<Rightarrow> string list" where
  "declared_clis as = uniq (filter (\<lambda>s. s \<in> {''claude'', ''codex''}) (List.map_filter af_runtime as))"

definition computeCapabilityRequirement ::
  "workflow_fields \<Rightarrow> agent_fields list \<Rightarrow> bool \<Rightarrow> bool \<Rightarrow> decode_error + capability_requirement" where
  "computeCapabilityRequirement w as pty gpu =
     sum_bind (mergeConnectors (opt_list (wf_connectors w) # map af_connectors as)) (\<lambda>connectors.
     decodeCapabilityRequirement (JObj [(''connectors'', JArr (map connector_js connectors)),
       (''skills'', JArr (map JStr (declared_skills w as))),
       (''filesystemRoots'', JArr (map JStr (declared_roots w as))),
       (''pty'', JBool pty), (''gpu'', JBool gpu), (''clis'', JArr (map JStr (declared_clis as)))]))"

section \<open>Names that are canonical\<close>

lemma collapse_head: "\<exists>t. collapse (b # s) = b # t"
proof (induction s arbitrary: b)
  case (Cons a s)
  obtain t where "collapse (a # s) = a # t" using Cons.IH[of a] by blast
  then show ?case by (cases "b = CHR ''-'' \<and> a = CHR ''-''") auto
qed simp

lemma collapse_idem: "collapse (collapse s) = collapse s"
proof (induction s rule: collapse.induct)
  case (1 a b s)
  obtain t where "collapse (b # s) = b # t" using collapse_head by blast
  with 1 show ?case by auto
qed simp_all

lemma set_collapse: "set (collapse s) \<subseteq> set s"
  by (induction s rule: collapse.induct) auto

lemma js_trim_none: "list_all (\<lambda>c. \<not> js_space c) s \<Longrightarrow> js_trim s = s"
proof -
  have "dropWhile js_space t = t" if "list_all (\<lambda>c. \<not> js_space c) t" for t
    using that by (cases t) auto
  then show "list_all (\<lambda>c. \<not> js_space c) s \<Longrightarrow> js_trim s = s" by (simp add: js_trim_def list_all_rev)
qed

definition id_char :: "char \<Rightarrow> bool" where
  "id_char c \<longleftrightarrow> lower_digit c \<or> c = CHR ''-''"

lemma id_char_plain: "id_char c \<Longrightarrow> \<not> js_space c \<and> js_lower c = c \<and> c \<noteq> CHR ''_''"
  unfolding id_char_def lower_digit_def is_lower_def is_digit_def is_upper_def js_space_def js_lower_def js_upper_def
  by (elim disjE) auto

lemma CANONICAL_ID_chars: "CANONICAL_ID s \<Longrightarrow> list_all id_char s"
  by (cases s) (auto simp: CANONICAL_ID_def head_tail_def id_char_def list_all_iff)

lemma canonical_form_id:
  assumes "CANONICAL_ID s" shows "canonical_form s = collapse s"
proof -
  have "list_all id_char s" using assms by (rule CANONICAL_ID_chars)
  then have "js_trim s = s" and "map js_lower s = s" and "map (\<lambda>c. if c = CHR ''_'' then CHR ''-'' else c) s = s"
    by (simp_all add: js_trim_none list_all_iff id_char_plain map_idI)
  then show ?thesis by (simp add: canonical_form_def)
qed

text \<open>Normalising is a no-op exactly on the ids without a double dash, and what it returns is canonical.\<close>

lemma isCanonicalName_iff: "isCanonicalName s \<longleftrightarrow> CANONICAL_ID s \<and> collapse s = s"
  by (auto simp: isCanonicalName_def normalizeCapabilityName_def canonical_form_id)

lemma normalize_Inr:
  "normalizeCapabilityName v = Inr s \<longleftrightarrow> is_str v \<and> s = canonical_form (js_str v) \<and> CANONICAL_ID s"
  by (auto simp: normalizeCapabilityName_def)

lemma canonical_form_canonical: "CANONICAL_ID (canonical_form s) \<Longrightarrow> isCanonicalName (canonical_form s)"
  by (simp add: isCanonicalName_iff) (simp add: canonical_form_def collapse_idem)

lemma normalize_canonical: "normalizeCapabilityName v = Inr s \<Longrightarrow> isCanonicalName s"
  by (auto simp: normalize_Inr canonical_form_canonical)

lemma normalize_again: "isCanonicalName s \<Longrightarrow> normalizeCapabilityName (JStr s) = Inr s"
  by (simp add: isCanonicalName_def)

section \<open>Sorted lists without duplicates\<close>

lemma adjacent_dup_None: "sorted xs \<Longrightarrow> adjacent_dup xs = None \<longleftrightarrow> sorted_wrt (<) xs" for xs :: "'a :: linorder list"
proof (induction xs rule: adjacent_dup.induct)
  case (1 x y xs)
  then show ?case by (cases "x = y") (auto dest: order.strict_trans1)
qed simp_all

lemma sum_map_Inr: "sum_map f xs = Inr ys \<longleftrightarrow> list_all2 (\<lambda>x y. f x = Inr y) xs ys"
  by (induction xs arbitrary: ys) (auto simp: list_all2_Cons1)

lemma sum_map_all: "sum_map f xs = Inr ys \<Longrightarrow> (\<And>x y. f x = Inr y \<Longrightarrow> P y) \<Longrightarrow> list_all P ys"
  by (induction xs arbitrary: ys) auto

lemma sum_map_again: "list_all (\<lambda>x. f (g x) = Inr x) xs \<Longrightarrow> sum_map f (map g xs) = Inr xs"
  by (simp add: sum_map_Inr list_all2_conv_all_nth list_all_length)

lemma strict_sort: "sorted_wrt (<) (sort xs) \<longleftrightarrow> distinct xs" for xs :: "'a :: linorder list"
  by (metis distinct_sort sorted_sort strict_sorted_iff)

lemma sortedUnique_Inr:
  "sortedUnique txt field names lim = Inr out \<longleftrightarrow> length names \<le> lim \<and> distinct names \<and> out = sort names"
  using adjacent_dup_None[OF sorted_sort, of names]
  by (auto simp: sortedUnique_def strict_sort split: option.splits)

lemma sortedUnique_again:
  "sorted_wrt (<) names \<Longrightarrow> length names \<le> lim \<Longrightarrow> sortedUnique txt field names lim = Inr names"
  by (simp add: sortedUnique_Inr strict_sorted_iff sort_key_id_if_sorted sorted_sort_id)

definition names_valid :: "nat \<Rightarrow> string list \<Rightarrow> bool" where
  "names_valid lim ns \<longleftrightarrow> list_all isCanonicalName ns \<and> sorted_wrt (<) ns \<and> length ns \<le> lim"

lemma normalized_names:
  assumes "sum_map normalizeCapabilityName vs = Inr names"
  shows "list_all isCanonicalName names" and "names = map (canonical_form \<circ> js_str) vs"
  using assms
  by (auto simp: sum_map_Inr list_all2_conv_all_nth list_all_length normalize_canonical normalize_Inr intro!: nth_equalityI)

lemma names_valid_sorted:
  assumes "sum_map normalizeCapabilityName vs = Inr names" and "sortedUnique txt field names lim = Inr out"
  shows "names_valid lim out"
proof -
  have "out = sort names" and "distinct names" and "length names \<le> lim" using assms(2) by (auto simp: sortedUnique_Inr)
  moreover have "list_all isCanonicalName names" using assms(1) by (rule normalized_names)
  ultimately show ?thesis by (simp add: names_valid_def strict_sort list_all_iff)
qed

lemma names_valid_again:
  assumes "names_valid lim ns"
  shows "sum_map normalizeCapabilityName (map JStr ns) = Inr ns" and "sortedUnique txt field ns lim = Inr ns"
  using assms unfolding names_valid_def
  by (simp_all add: sum_map_again sortedUnique_again list_all_iff normalize_again)

definition requirement_valid :: "capability_requirement \<Rightarrow> bool" where
  "requirement_valid r \<longleftrightarrow>
     list_all (\<lambda>c. isCanonicalName (cn_server c) \<and> names_valid MAX_TOOLS_PER_CONNECTOR (cn_tools c)) (cr_connectors r)
     \<and> sorted_wrt (<) (map cn_server (cr_connectors r)) \<and> length (cr_connectors r) \<le> MAX_CONNECTORS
     \<and> names_valid MAX_SKILLS (cr_skills r) \<and> names_valid MAX_FILESYSTEM_ROOTS (cr_filesystemRoots r)
     \<and> sorted_wrt (<) (cr_clis r) \<and> length (cr_clis r) \<le> 2"

lemma decode_requirement_connector_valid:
  "decode_requirement_connector v = Inr c \<Longrightarrow>
     isCanonicalName (cn_server c) \<and> names_valid MAX_TOOLS_PER_CONNECTOR (cn_tools c)"
  by (auto simp: decode_requirement_connector_def normalize_canonical names_valid_sorted)

lemma decode_requirement_connector_again:
  assumes "isCanonicalName (cn_server c)" and "names_valid MAX_TOOLS_PER_CONNECTOR (cn_tools c)"
  shows "decode_requirement_connector (connector_js c) = Inr c"
proof -
  have "assertExactKeys ''connectors'' (connector_js c) [''server'', ''tools''] = None"
    by (auto simp: assertExactKeys_None connector_js_def)
  moreover have "fld (connector_js c) ''server'' = JStr (cn_server c)"
      "fld (connector_js c) ''tools'' = JArr (map JStr (cn_tools c))" "is_record (connector_js c)"
    by (simp_all add: connector_js_def)
  ultimately show ?thesis using assms
    by (simp add: decode_requirement_connector_def normalize_again names_valid_again)
qed

lemma decode_cli_again: "decode_cli (JStr (cli_name c)) = Inr c"
  by (cases c) (simp_all add: decode_cli_def)

lemma decode_cli_Inr: "decode_cli v = Inr c \<longleftrightarrow> v = JStr (cli_name c)"
  by (cases c) (auto simp: decode_cli_def)

lemma sorted_servers:
  fixes cs :: "connector list"
  assumes "adjacent_dup (map cn_server (sort_key cn_server cs)) = None"
  shows "sorted_wrt (<) (map cn_server (sort_key cn_server cs))"
  using assms adjacent_dup_None[of "map cn_server (sort_key cn_server cs)"] by simp

lemma decodeCapabilityRequirement_parts:
  assumes "decodeCapabilityRequirement v = Inr r"
  obtains cs clis skills roots where
    "sum_map decode_requirement_connector (js_arr (fld v ''connectors'')) = Inr cs"
    "cr_connectors r = sort_key cn_server cs" "length cs \<le> MAX_CONNECTORS"
    "adjacent_dup (map cn_server (sort_key cn_server cs)) = None"
    "sum_map decode_cli (js_arr (fld v ''clis'')) = Inr clis"
    "sortedUnique cli_name ''clis'' clis 2 = Inr (cr_clis r)"
    "sum_map normalizeCapabilityName (js_arr (fld v ''skills'')) = Inr skills"
    "sortedUnique id ''skills'' skills MAX_SKILLS = Inr (cr_skills r)"
    "sum_map normalizeCapabilityName (js_arr (fld v ''filesystemRoots'')) = Inr roots"
    "sortedUnique id ''filesystemRoots'' roots MAX_FILESYSTEM_ROOTS = Inr (cr_filesystemRoots r)"
    "cr_pty r = (fld v ''pty'' = JBool True)" "cr_gpu r = (fld v ''gpu'' = JBool True)"
proof -
  have len: "length cs = length vs" if "sum_map f vs = Inr cs" for f vs and cs :: "connector list"
    using that by (simp add: sum_map_Inr list_all2_lengthD)
  show thesis
    using assms that unfolding decodeCapabilityRequirement_def Let_def
    by (clarsimp split: option.splits) (use len in fastforce)
qed

lemma decodeCapabilityRequirement_valid:
  assumes "decodeCapabilityRequirement v = Inr r" shows "requirement_valid r"
proof (rule decodeCapabilityRequirement_parts[OF assms])
  fix cs clis skills roots
  assume cs: "sum_map decode_requirement_connector (js_arr (fld v ''connectors'')) = Inr cs"
    "cr_connectors r = sort_key cn_server cs" "length cs \<le> MAX_CONNECTORS"
    "adjacent_dup (map cn_server (sort_key cn_server cs)) = None"
    and names: "sum_map normalizeCapabilityName (js_arr (fld v ''skills'')) = Inr skills"
    "sortedUnique id ''skills'' skills MAX_SKILLS = Inr (cr_skills r)"
    "sum_map normalizeCapabilityName (js_arr (fld v ''filesystemRoots'')) = Inr roots"
    "sortedUnique id ''filesystemRoots'' roots MAX_FILESYSTEM_ROOTS = Inr (cr_filesystemRoots r)"
    and clis: "sortedUnique cli_name ''clis'' clis 2 = Inr (cr_clis r)"
  have "list_all (\<lambda>c. isCanonicalName (cn_server c) \<and> names_valid MAX_TOOLS_PER_CONNECTOR (cn_tools c)) cs"
    using cs(1) decode_requirement_connector_valid by (rule sum_map_all)
  then show ?thesis using cs names clis sorted_servers[OF cs(4)]
    by (auto simp: requirement_valid_def list_all_iff sortedUnique_Inr strict_sort intro: names_valid_sorted)
qed

lemma requirement_decodes_again:
  assumes "requirement_valid r" shows "decodeCapabilityRequirement (requirement_js r) = Inr r"
proof -
  have k: "assertExactKeys ''capabilityRequirement'' (requirement_js r) CAPABILITY_REQUIREMENT_FIELDS = None"
    by (simp add: assertExactKeys_None requirement_js_def CAPABILITY_REQUIREMENT_FIELDS_def)
  have flds: "fld (requirement_js r) ''connectors'' = JArr (map connector_js (cr_connectors r))"
      "fld (requirement_js r) ''skills'' = JArr (map JStr (cr_skills r))"
      "fld (requirement_js r) ''filesystemRoots'' = JArr (map JStr (cr_filesystemRoots r))"
      "fld (requirement_js r) ''pty'' = JBool (cr_pty r)" "fld (requirement_js r) ''gpu'' = JBool (cr_gpu r)"
      "fld (requirement_js r) ''clis'' = JArr (map (JStr \<circ> cli_name) (cr_clis r))" "is_record (requirement_js r) = True"
    by (simp_all add: requirement_js_def)
  have cs: "sum_map decode_requirement_connector (map connector_js (cr_connectors r)) = Inr (cr_connectors r)"
    using assms by (intro sum_map_again) (auto simp: requirement_valid_def list_all_iff decode_requirement_connector_again)
  have cl: "sum_map decode_cli (map (JStr \<circ> cli_name) (cr_clis r)) = Inr (cr_clis r)"
    by (intro sum_map_again) (simp add: list_all_iff decode_cli_again)
  have sorted: "sorted_wrt (<) (map cn_server (cr_connectors r))" and valid: "names_valid MAX_SKILLS (cr_skills r)"
      "names_valid MAX_FILESYSTEM_ROOTS (cr_filesystemRoots r)" "sorted_wrt (<) (cr_clis r)" "length (cr_clis r) \<le> 2"
      "length (cr_connectors r) \<le> MAX_CONNECTORS"
    using assms by (auto simp: requirement_valid_def)
  from sorted have sk: "sort_key cn_server (cr_connectors r) = cr_connectors r"
      "adjacent_dup (map cn_server (cr_connectors r)) = None"
    by (auto simp: strict_sorted_iff sort_key_id_if_sorted adjacent_dup_None)
  show ?thesis
    unfolding decodeCapabilityRequirement_def exact_ok[OF k] flds
    using valid by (simp add: cs cl sk names_valid_again sortedUnique_again)
qed

section \<open>What matching promises\<close>

text \<open>
  The abstract reading: a host that carries a requirement has every connector with at least the tools asked
  for, the skills, the roots and the switches, and each required CLI ready.
\<close>

definition satisfies :: "capability_requirement \<Rightarrow> 'a host_advertisement_scheme \<Rightarrow> bool" where
  "satisfies r a \<longleftrightarrow>
     (\<forall>c\<in>set (cr_connectors r). \<exists>c'\<in>set (ha_connectors a). cn_server c' = cn_server c \<and> set (cn_tools c) \<subseteq> set (cn_tools c'))
     \<and> set (cr_skills r) \<subseteq> set (ha_skills a) \<and> set (cr_filesystemRoots r) \<subseteq> set (ha_filesystemRoots a)
     \<and> (cr_pty r \<longrightarrow> ha_pty a) \<and> (cr_gpu r \<longrightarrow> ha_gpu a) \<and> (\<forall>c\<in>set (cr_clis r). cli_state a c = CliReady)"

definition one_entry_per_server :: "'a host_advertisement_scheme \<Rightarrow> bool" where
  "one_entry_per_server a \<longleftrightarrow> distinct (map cn_server (ha_connectors a))"

lemma connectors_ok_bound: "connectors_ok (Some l) cs \<Longrightarrow> distinct (map cn_server cs) \<and> (\<forall>c\<in>set cs. l < cn_server c)"
proof (induction cs arbitrary: l)
  case (Cons c cs)
  then have "l < cn_server c" and "distinct (map cn_server cs) \<and> (\<forall>d\<in>set cs. cn_server c < cn_server d)"
    by (auto simp: ascends_def)
  then show ?case by (auto dest: less_trans)
qed simp

text \<open>Every stored advertisement names a server once.\<close>

lemma valid_one_entry: "advertisement_valid a \<Longrightarrow> one_entry_per_server a"
  unfolding advertisement_valid_def one_entry_per_server_def
  by (cases "ha_connectors a") (auto dest!: connectors_ok_bound)

lemma advertised_tools_Some:
  assumes "one_entry_per_server a"
  shows "advertised_tools a s = Some ts \<longleftrightarrow> (\<exists>c\<in>set (ha_connectors a). cn_server c = s \<and> cn_tools c = ts)"
proof -
  let ?m = "map (\<lambda>c. (cn_server c, cn_tools c)) (ha_connectors a)"
  have "distinct (map fst (rev ?m))" using assms by (simp add: one_entry_per_server_def rev_map[symmetric] comp_def)
  then have "advertised_tools a s = Some ts \<longleftrightarrow> (s, ts) \<in> set (rev ?m)"
    unfolding advertised_tools_def by (rule map_of_eq_Some_iff)
  then show ?thesis by auto
qed

lemma offers_iff:
  assumes "one_entry_per_server a"
  shows "offers a c \<longleftrightarrow> (\<exists>c'\<in>set (ha_connectors a). cn_server c' = cn_server c \<and> set (cn_tools c) \<subseteq> set (cn_tools c'))"
proof (cases "advertised_tools a (cn_server c)")
  case None
  then have "\<forall>c'\<in>set (ha_connectors a). cn_server c' \<noteq> cn_server c"
    using advertised_tools_Some[OF assms, of "cn_server c"] by auto
  with None show ?thesis by (auto simp: offers_def)
next
  case (Some ts)
  then obtain c' where c': "c' \<in> set (ha_connectors a)" "cn_server c' = cn_server c" "cn_tools c' = ts"
    using advertised_tools_Some[OF assms] by blast
  moreover have "cn_tools d = ts" if "d \<in> set (ha_connectors a)" "cn_server d = cn_server c" for d
    using advertised_tools_Some[OF assms, of "cn_server c" "cn_tools d"] Some that by auto
  ultimately show ?thesis using Some by (auto simp: offers_def list_all_iff subset_iff)
qed

lemma assert_all_ok: "list_all isCanonicalName ss \<Longrightarrow> assert_all field ss k = k"
  by (induction ss) (simp_all add: assertCanonical_def)

lemma assert_connectors_ok:
  "list_all (\<lambda>c. isCanonicalName (cn_server c) \<and> list_all isCanonicalName (cn_tools c)) cs \<Longrightarrow> assert_connectors cs k = k"
  by (induction cs) (simp_all add: assertCanonical_def assert_all_ok)

text \<open>A decoded requirement is never refused by the matcher, which decides the abstract reading.\<close>

lemma match_satisfies:
  assumes "requirement_valid r" and "one_entry_per_server a"
  shows "match r a = Inr (satisfies r a)"
proof -
  have "list_all (\<lambda>c. isCanonicalName (cn_server c) \<and> list_all isCanonicalName (cn_tools c)) (cr_connectors r)"
    and "list_all isCanonicalName (cr_skills r)" and "list_all isCanonicalName (cr_filesystemRoots r)"
    using assms(1) by (auto simp: requirement_valid_def names_valid_def list_all_iff)
  then show ?thesis
    by (auto simp: match_def assert_connectors_ok assert_all_ok offers_iff[OF assms(2)] satisfies_def list_all_iff)
qed

lemma sum_filter_pure: "(\<And>x. x \<in> set xs \<Longrightarrow> p x = Inr (q x)) \<Longrightarrow> sum_filter p xs = Inr (filter q xs)"
  by (induction xs) auto

definition carries :: "capability_requirement \<Rightarrow> int \<Rightarrow> 'a host_advertisement_scheme \<Rightarrow> bool" where
  "carries r nowMs a \<longleftrightarrow> isAdvertisementFresh (ha_reportedAt a) nowMs \<and> satisfies r a"

lemma freshMatches_carries:
  assumes "requirement_valid r" and "\<forall>a\<in>set as. one_entry_per_server a"
  shows "freshMatches r as nowMs = Inr (filter (carries r nowMs) as)"
  unfolding freshMatches_def
  by (rule sum_filter_pure) (use assms in \<open>auto simp: matchesFreshAdvertisement_def carries_def match_satisfies\<close>)

lemma preferVm: "hs \<noteq> [] \<Longrightarrow> preferVmOnTie hs = (if Vm \<in> set hs then Vm else Desktop)"
  by (cases hs; cases "hd hs") (auto simp: preferVmOnTie_def)

text \<open>The hosts that could take the run, and the choice among them.\<close>

definition able_hosts :: "capability_requirement \<Rightarrow> int \<Rightarrow> 'a host_advertisement_scheme list \<Rightarrow> host_kind set" where
  "able_hosts r nowMs as = ha_hostId ` {a \<in> set as. carries r nowMs a}"

lemma selectPlacementHost_able:
  assumes "requirement_valid r" and "\<forall>a\<in>set as. one_entry_per_server a"
  shows "selectPlacementHost r as nowMs = Inr (if able_hosts r nowMs as = {} then NoCompletePlacement
     else Placed (if Vm \<in> able_hosts r nowMs as then Vm else Desktop))"
proof -
  let ?ms = "filter (carries r nowMs) as"
  have hosts: "set (map ha_hostId ?ms) = able_hosts r nowMs as" by (simp add: able_hosts_def)
  then have "?ms = [] \<longleftrightarrow> able_hosts r nowMs as = {}" by (metis map_is_Nil_conv set_empty)
  then show ?thesis
    using hosts preferVm[of "map ha_hostId ?ms"]
    by (simp add: selectPlacementHost_def freshMatches_carries[OF assms])
qed

section \<open>What the union promises\<close>

definition declared_grants :: "workflow_fields \<Rightarrow> agent_fields list \<Rightarrow> connector list" where
  "declared_grants w as = opt_list (wf_connectors w) @ concat (map af_connectors as)"

definition granted :: "connector list \<Rightarrow> string \<Rightarrow> string set" where
  "granted cs s = (\<Union>c\<in>{c \<in> set cs. canonical_form (cn_server c) = s}. set (cn_tools c))"

definition entry_tools :: "(string \<times> string list) list \<Rightarrow> string \<Rightarrow> string set" where
  "entry_tools m s = (case map_of m s of None \<Rightarrow> {} | Some ts \<Rightarrow> set ts)"

lemma map_of_set_entry: "map_of (set_entry k v m) = (map_of m)(k \<mapsto> v)"
  by (induction k v m rule: set_entry.induct) (auto simp: fun_eq_iff)

lemma set_add_tools: "set (add_tools ts more) = set ts \<union> set more" for more :: "string list"
  unfolding add_tools_def by (induction more arbitrary: ts) auto

lemma keys_set_entry: "distinct (map fst m) \<Longrightarrow> distinct (map fst (set_entry k v m))"
proof (induction k v m rule: set_entry.induct)
  case (2 k v k' v' m)
  have "fst ` set (set_entry k v m) = insert k (fst ` set m)"
    using map_of_set_entry[of k v m] by (metis dom_fun_upd dom_map_of_conv_image_fst option.distinct(1))
  with 2 show ?case by auto
qed simp

lemma merge_grants_union:
  assumes "merge_grants cs m = Inr m'" and "distinct (map fst m)"
  shows "distinct (map fst m')" and "fst ` set m' = fst ` set m \<union> (canonical_form \<circ> cn_server) ` set cs"
    and "entry_tools m' s = entry_tools m s \<union> granted cs s"
proof -
  have "distinct (map fst m') \<and> fst ` set m' = fst ` set m \<union> (canonical_form \<circ> cn_server) ` set cs
      \<and> (\<forall>s. entry_tools m' s = entry_tools m s \<union> granted cs s)"
    using assms
  proof (induction cs arbitrary: m)
    case (Cons c cs)
    let ?k = "canonical_form (cn_server c)"
    let ?m = "set_entry ?k (add_tools (case map_of m ?k of None \<Rightarrow> [] | Some ts \<Rightarrow> ts) (cn_tools c)) m"
    from Cons.prems(1) have "merge_grants cs ?m = Inr m'" by (auto simp: normalize_Inr)
    then have IH: "distinct (map fst m')" "fst ` set m' = fst ` set ?m \<union> (canonical_form \<circ> cn_server) ` set cs"
        "\<And>s. entry_tools m' s = entry_tools ?m s \<union> granted cs s"
      using Cons.IH[OF _ keys_set_entry[OF Cons.prems(2)]] by blast+
    have "fst ` set ?m = insert ?k (fst ` set m)"
      by (metis dom_fun_upd dom_map_of_conv_image_fst map_of_set_entry option.distinct(1))
    moreover have "entry_tools ?m s = entry_tools m s \<union> (if s = ?k then set (cn_tools c) else {})" for s
      by (auto simp: entry_tools_def map_of_set_entry set_add_tools split: option.splits)
    moreover have "granted (c # cs) s = (if s = ?k then set (cn_tools c) else {}) \<union> granted cs s" for s
      by (auto simp: granted_def)
    ultimately show ?case using IH by auto
  qed (simp add: granted_def)
  then show "distinct (map fst m')" and "fst ` set m' = fst ` set m \<union> (canonical_form \<circ> cn_server) ` set cs"
    and "entry_tools m' s = entry_tools m s \<union> granted cs s" by blast+
qed

lemma merge_grants_names:
  "merge_grants cs m = Inr m' \<Longrightarrow> c \<in> set cs \<Longrightarrow> isCanonicalName (canonical_form (cn_server c))"
  by (induction cs arbitrary: m) (auto simp: normalize_Inr canonical_form_canonical)

lemma mergeConnectors_union:
  assumes "mergeConnectors gs = Inr cs"
  shows "cn_server ` set cs = (canonical_form \<circ> cn_server) ` set (concat gs)"
    and "c \<in> set cs \<Longrightarrow> set (cn_tools c) = granted (concat gs) (cn_server c)"
proof -
  from assms obtain m where m: "merge_grants (concat gs) [] = Inr m"
    and cs: "cs = map (\<lambda>(server, tools). \<lparr>cn_server = server, cn_tools = tools\<rparr>) m"
    by (auto simp: mergeConnectors_def)
  note U = merge_grants_union[OF m]
  have "cn_server ` set cs = fst ` set m" by (force simp: cs)
  then show "cn_server ` set cs = (canonical_form \<circ> cn_server) ` set (concat gs)" using U(2) by simp
  assume "c \<in> set cs"
  then have "(cn_server c, cn_tools c) \<in> set m" by (auto simp: cs)
  then have "map_of m (cn_server c) = Some (cn_tools c)" using U(1) by simp
  then show "set (cn_tools c) = granted (concat gs) (cn_server c)"
    using U(3)[of "cn_server c"] by (simp add: entry_tools_def)
qed

lemma decode_requirement_connector_js:
  assumes "decode_requirement_connector (connector_js c) = Inr c'"
  shows "cn_server c' = canonical_form (cn_server c)" and "set (cn_tools c') = canonical_form ` set (cn_tools c)"
proof -
  have "fld (connector_js c) ''server'' = JStr (cn_server c)"
      "fld (connector_js c) ''tools'' = JArr (map JStr (cn_tools c))"
    by (simp_all add: connector_js_def)
  with assms show "cn_server c' = canonical_form (cn_server c)"
      and "set (cn_tools c') = canonical_form ` set (cn_tools c)"
    by (auto simp: decode_requirement_connector_def normalize_Inr sortedUnique_Inr dest!: normalized_names(2))
qed

lemma normalized_set:
  assumes "sum_map normalizeCapabilityName (map JStr ns) = Inr names" and "sortedUnique txt field names lim = Inr out"
  shows "set out = canonical_form ` set ns" and "distinct (map canonical_form ns)"
  using normalized_names(2)[OF assms(1)] assms(2) by (auto simp: sortedUnique_Inr comp_def)

definition raw_requirement :: "connector list \<Rightarrow> workflow_fields \<Rightarrow> agent_fields list \<Rightarrow> bool \<Rightarrow> bool \<Rightarrow> js" where
  "raw_requirement cs w as pty gpu = JObj [(''connectors'', JArr (map connector_js cs)),
       (''skills'', JArr (map JStr (declared_skills w as))),
       (''filesystemRoots'', JArr (map JStr (declared_roots w as))),
       (''pty'', JBool pty), (''gpu'', JBool gpu), (''clis'', JArr (map JStr (declared_clis as)))]"

lemma raw_requirement_flds:
  "fld (raw_requirement cs w as pty gpu) ''connectors'' = JArr (map connector_js cs)"
  "fld (raw_requirement cs w as pty gpu) ''skills'' = JArr (map JStr (declared_skills w as))"
  "fld (raw_requirement cs w as pty gpu) ''filesystemRoots'' = JArr (map JStr (declared_roots w as))"
  "fld (raw_requirement cs w as pty gpu) ''pty'' = JBool pty" "fld (raw_requirement cs w as pty gpu) ''gpu'' = JBool gpu"
  "fld (raw_requirement cs w as pty gpu) ''clis'' = JArr (map JStr (declared_clis as))"
  by (simp_all add: raw_requirement_def)

lemma computeCapabilityRequirement_raw:
  "computeCapabilityRequirement w as pty gpu = Inr r \<longleftrightarrow> (\<exists>cs. mergeConnectors (opt_list (wf_connectors w) # map af_connectors as) = Inr cs
     \<and> decodeCapabilityRequirement (raw_requirement cs w as pty gpu) = Inr r)"
  by (simp add: computeCapabilityRequirement_def raw_requirement_def)

lemma set_declared_clis: "set (declared_clis as) = {s \<in> {''claude'', ''codex''}. \<exists>a\<in>set as. af_runtime a = Some s}"
proof -
  have "x \<in> set (List.map_filter af_runtime as) \<longleftrightarrow> (\<exists>a\<in>set as. af_runtime a = Some x)" for x
    by (induction as) (auto simp: map_filter_def)
  then show ?thesis by (auto simp: declared_clis_def uniq_def)
qed

lemma decoded_clis:
  assumes "sum_map decode_cli (map JStr ss) = Inr cs" shows "ss = map cli_name cs"
  using assms by (induction ss arbitrary: cs) (auto simp: decode_cli_Inr)

text \<open>The connectors of the decoded requirement, against the grants they were merged from.\<close>

lemma decoded_connectors:
  assumes "mergeConnectors gs = Inr cs" and "sum_map decode_requirement_connector (map connector_js cs) = Inr ds"
  shows "cn_server ` set ds = (canonical_form \<circ> cn_server) ` set (concat gs)"
    and "d \<in> set ds \<Longrightarrow> set (cn_tools d) = canonical_form ` granted (concat gs) (cn_server d)"
proof -
  note M = mergeConnectors_union[OF assms(1)]
  have canonical: "canonical_form (cn_server c) = cn_server c" if c: "c \<in> set cs" for c
  proof -
    obtain g where g: "g \<in> set (concat gs)" "cn_server c = canonical_form (cn_server g)"
    proof -
      have "cn_server c \<in> (canonical_form \<circ> cn_server) ` set (concat gs)" using M(1) c by blast
      then show thesis using that by (metis comp_apply imageE)
    qed
    obtain m where "merge_grants (concat gs) [] = Inr m" using assms(1) by (auto simp: mergeConnectors_def)
    then have "isCanonicalName (cn_server c)" using merge_grants_names g by metis
    then show ?thesis by (simp add: isCanonicalName_iff canonical_form_id)
  qed
  from assms(2) have all2: "list_all2 (\<lambda>c d. decode_requirement_connector (connector_js c) = Inr d) cs ds"
    by (simp add: sum_map_Inr list_all2_map1)
  then have "list_all2 (\<lambda>c d. c \<in> set cs \<and> decode_requirement_connector (connector_js c) = Inr d) cs ds"
    by (auto simp: list_all2_conv_all_nth)
  then have "list_all2 (\<lambda>c d. c \<in> set cs \<and> cn_server d = cn_server c \<and> set (cn_tools d) = canonical_form ` set (cn_tools c)) cs ds"
    by (rule list_all2_mono) (auto dest: decode_requirement_connector_js simp: canonical)
  then have same: "map cn_server ds = map cn_server cs" and each: "d \<in> set ds \<Longrightarrow>
      \<exists>c\<in>set cs. cn_server d = cn_server c \<and> set (cn_tools d) = canonical_form ` set (cn_tools c)" for d
    by (auto simp: list_all2_conv_all_nth in_set_conv_nth intro!: nth_equalityI)
  from same have "cn_server ` set ds = cn_server ` set cs" by (metis set_map)
  then show "cn_server ` set ds = (canonical_form \<circ> cn_server) ` set (concat gs)" using M(1) by simp
  show "d \<in> set ds \<Longrightarrow> set (cn_tools d) = canonical_form ` granted (concat gs) (cn_server d)"
    by (metis each M(2))
qed

lemma select_able:
  assumes "requirement_valid r" and "\<forall>a\<in>set as. one_entry_per_server a"
  shows "select r as nowMs createRun s = (if able_hosts r nowMs as = {} then (Inr None, s)
     else case createRun (if Vm \<in> able_hosts r nowMs as then Vm else Desktop) s of
       (run, s') \<Rightarrow> (Inr (Some (if Vm \<in> able_hosts r nowMs as then Vm else Desktop, run)), s'))"
  by (simp add: select_def selectPlacementHost_able[OF assms])

text \<open>The host shown for an entity that never ran is the one a launch would choose.\<close>

lemma projectNeverRunHost_able:
  assumes "requirement_valid r" and "\<forall>a\<in>set as. one_entry_per_server a" and "able_hosts r nowMs as \<noteq> {}"
  shows "projectNeverRunHost r as nowMs self =
     Inr (FromPlacement, if Vm \<in> able_hosts r nowMs as then Vm else Desktop)"
proof -
  let ?fresh = "filter (\<lambda>a. isAdvertisementFresh (ha_reportedAt a) nowMs) as"
  let ?ms = "filter (satisfies r) ?fresh"
  have hosts: "set (map ha_hostId ?ms) = able_hosts r nowMs as"
    by (auto simp: able_hosts_def carries_def)
  with assms(3) have "?ms \<noteq> []" "?fresh \<noteq> []" by fastforce+
  moreover have "sum_filter (match r) ?fresh = Inr ?ms"
    by (rule sum_filter_pure) (use assms in \<open>auto simp: match_satisfies\<close>)
  ultimately show ?thesis using hosts preferVm[of "map ha_hostId ?ms"]
    by (simp add: projectNeverRunHost_def Let_def)
qed

text \<open>A requirement that exists was computed from declarations that never repeat a name.\<close>

lemma computed_parts:
  assumes "computeCapabilityRequirement w as pty gpu = Inr r"
  obtains cs names roots clis ds where
    "mergeConnectors (opt_list (wf_connectors w) # map af_connectors as) = Inr cs"
    "sum_map decode_requirement_connector (map connector_js cs) = Inr ds" "cr_connectors r = sort_key cn_server ds"
    "sum_map normalizeCapabilityName (map JStr (declared_skills w as)) = Inr names"
    "sortedUnique id ''skills'' names MAX_SKILLS = Inr (cr_skills r)"
    "sum_map normalizeCapabilityName (map JStr (declared_roots w as)) = Inr roots"
    "sortedUnique id ''filesystemRoots'' roots MAX_FILESYSTEM_ROOTS = Inr (cr_filesystemRoots r)"
    "declared_clis as = map cli_name clis" "cr_clis r = sort clis"
proof -
  from assms obtain cs where cs: "mergeConnectors (opt_list (wf_connectors w) # map af_connectors as) = Inr cs"
    and dec: "decodeCapabilityRequirement (raw_requirement cs w as pty gpu) = Inr r"
    by (auto simp: computeCapabilityRequirement_raw)
  show thesis
    by (rule decodeCapabilityRequirement_parts[OF dec])
      (rule that[OF cs], auto simp: raw_requirement_flds sortedUnique_Inr dest: decoded_clis)
qed

end
