(* ===== verification/PlacementClaims.thy ===== *)
theory PlacementClaims
  imports Matching
begin

text \<open>
  The properties of placement matching and selection, over the definitions of \<open>Matching\<close>, each with a
  small concrete case.
\<close>

section \<open>Concrete hosts\<close>

definition sample_requirement_js :: js where
  "sample_requirement_js = JObj [
     (''connectors'', JArr [JObj [(''server'', JStr ''My_Mail''), (''tools'', JArr [JStr ''send'', JStr ''read''])]]),
     (''skills'', JArr [JStr ''Docx'']), (''filesystemRoots'', JArr []), (''pty'', JBool False),
     (''gpu'', JBool False), (''clis'', JArr [JStr ''codex''])]"

definition sample_requirement :: capability_requirement where
  "sample_requirement = \<lparr>cr_connectors = [\<lparr>cn_server = ''my-mail'', cn_tools = [''read'', ''send'']\<rparr>],
     cr_skills = [''docx''], cr_filesystemRoots = [], cr_pty = False, cr_gpu = False, cr_clis = [Codex]\<rparr>"

definition sample_host :: "host_kind \<Rightarrow> string list \<Rightarrow> host_advertisement" where
  "sample_host h tools = \<lparr>ha_hostId = h, ha_daemonVersion = ''1.0'', ha_reportedAt = ''2026-01-01T00:00:00.000Z'',
     ha_connectors = [\<lparr>cn_server = ''my-mail'', cn_tools = tools\<rparr>], ha_skills = [''docx'', ''xlsx''],
     ha_filesystemRoots = [], ha_pty = True, ha_gpu = False, ha_claude = CliMissing, ha_codex = CliReady\<rparr>"

text \<open>Half a minute after the hosts reported.\<close>

definition sample_now :: int where
  "sample_now = (case iso_parse ''2026-01-01T00:00:30.000Z'' of Some n \<Rightarrow> n | None \<Rightarrow> 0)"

lemma sample_decodes: "decodeCapabilityRequirement sample_requirement_js = Inr sample_requirement"
  by code_simp

lemma sample_fresh: "isAdvertisementFresh ''2026-01-01T00:00:00.000Z'' sample_now"
  by code_simp

section \<open>Choosing a host\<close>

text \<open>
  C36. Placement refines its abstract reading. For a decoded requirement and advertisements that name each
  server once, \<open>select\<close> never throws: when no host is fresh and carries the whole requirement it answers
  \<open>no-complete-placement\<close> and creates nothing, and otherwise it creates one run, on the VM when the VM is able
  and on the desktop only when it is the sole able host. The preview of an entity that never ran then shows
  that same host.
\<close>

theorem placement_chooses:
  assumes "decodeCapabilityRequirement v = Inr r" and "\<forall>a\<in>set as. one_entry_per_server a"
  shows "select r as nowMs createRun s =
      (if able_hosts r nowMs as = {} then (Inr None, s)
       else case createRun (if Vm \<in> able_hosts r nowMs as then Vm else Desktop) s of
         (run, s') \<Rightarrow> (Inr (Some (if Vm \<in> able_hosts r nowMs as then Vm else Desktop, run)), s'))
    \<and> (able_hosts r nowMs as \<noteq> {} \<longrightarrow> projectNeverRunHost r as nowMs self =
         Inr (FromPlacement, if Vm \<in> able_hosts r nowMs as then Vm else Desktop))"
proof -
  have "requirement_valid r" using assms(1) by (rule decodeCapabilityRequirement_valid)
  then show ?thesis using select_able projectNeverRunHost_able assms(2) by metis
qed

lemma sample_able:
  "able_hosts sample_requirement sample_now [sample_host Vm [''read''], sample_host Desktop [''read'', ''send'']] = {Desktop}"
proof -
  have "filter (carries sample_requirement sample_now) [sample_host Vm [''read''], sample_host Desktop [''read'', ''send'']]
      = [sample_host Desktop [''read'', ''send'']]"
    using sample_fresh by (simp add: carries_def satisfies_def sample_requirement_def sample_host_def)
  then have "{a \<in> set [sample_host Vm [''read''], sample_host Desktop [''read'', ''send'']]. carries sample_requirement sample_now a}
      = set [sample_host Desktop [''read'', ''send'']]" unfolding set_filter[symmetric] by (rule arg_cong)
  then show ?thesis unfolding able_hosts_def by (simp add: sample_host_def)
qed

theorem placement_chooses_witness:
  "fst (select sample_requirement [sample_host Vm [''read''], sample_host Desktop [''read'', ''send'']] sample_now
     (\<lambda>h n. (n, Suc n)) 0) = Inr (Some (Desktop, 0))"
proof -
  have "\<forall>a\<in>set [sample_host Vm [''read''], sample_host Desktop [''read'', ''send'']]. one_entry_per_server a"
    by (simp add: one_entry_per_server_def sample_host_def)
  from placement_chooses[OF sample_decodes this, of sample_now "\<lambda>h n. (n, Suc n)" 0] show ?thesis
    by (simp add: sample_able)
qed

section \<open>The requirement of a workflow\<close>

text \<open>
  C37. A computed requirement is the union of the declarations: its skills and roots are the canonical forms of
  the ones the workflow and the agents declare, its servers those of the grants, each server with the tools of
  every grant that spells it, its CLIs the requirable runtimes. It is sorted and canonical, so decoding it again
  gives it back and its capability hash is that of the requirement itself.
\<close>

theorem requirement_is_union:
  assumes "computeCapabilityRequirement w as pty gpu = Inr r"
  shows "set (cr_skills r) = canonical_form ` set (declared_skills w as)
    \<and> set (cr_filesystemRoots r) = canonical_form ` set (declared_roots w as)
    \<and> cn_server ` set (cr_connectors r) = (canonical_form \<circ> cn_server) ` set (declared_grants w as)
    \<and> (\<forall>c\<in>set (cr_connectors r). set (cn_tools c) = canonical_form ` granted (declared_grants w as) (cn_server c))
    \<and> (c \<in> set (cr_clis r) \<longleftrightarrow> (\<exists>a\<in>set as. af_runtime a = Some (cli_name c)))
    \<and> decodeCapabilityRequirement (requirement_js r) = Inr r
    \<and> capabilityHash sha r = Inr (sha (canonicalJson (requirement_js r)))"
proof (rule computed_parts[OF assms])
  fix cs names roots clis ds
  assume conn: "mergeConnectors (opt_list (wf_connectors w) # map af_connectors as) = Inr cs"
      "sum_map decode_requirement_connector (map connector_js cs) = Inr ds" "cr_connectors r = sort_key cn_server ds"
    and sk: "sum_map normalizeCapabilityName (map JStr (declared_skills w as)) = Inr names"
      "sortedUnique id ''skills'' names MAX_SKILLS = Inr (cr_skills r)"
    and ro: "sum_map normalizeCapabilityName (map JStr (declared_roots w as)) = Inr roots"
      "sortedUnique id ''filesystemRoots'' roots MAX_FILESYSTEM_ROOTS = Inr (cr_filesystemRoots r)"
    and cl: "declared_clis as = map cli_name clis" "cr_clis r = sort clis"
  have grants: "declared_grants w as = concat (opt_list (wf_connectors w) # map af_connectors as)"
    by (simp add: declared_grants_def)
  have "c \<in> set clis \<longleftrightarrow> cli_name c \<in> set (declared_clis as)"
    by (auto simp: cl(1))
  moreover have "cli_name c \<in> {''claude'', ''codex''}" by (cases c) simp_all
  ultimately have clis: "c \<in> set (cr_clis r) \<longleftrightarrow> (\<exists>a\<in>set as. af_runtime a = Some (cli_name c))"
    by (auto simp: cl(2) set_declared_clis)
  obtain v where "decodeCapabilityRequirement v = Inr r" using assms by (auto simp: computeCapabilityRequirement_raw)
  then have again: "decodeCapabilityRequirement (requirement_js r) = Inr r"
    by (intro requirement_decodes_again decodeCapabilityRequirement_valid)
  show ?thesis
    using normalized_set(1)[OF sk] normalized_set(1)[OF ro] decoded_connectors[OF conn(1,2)] clis again
    by (simp add: grants conn(3) capabilityHash_def)
qed

text \<open>
  C38. The union is not a union of sets. When a name is declared twice - a skill or a root that two assigned
  agents share, or that the workflow repeats - \<open>computeCapabilityRequirement\<close> throws, and with it the launch of
  a workflow whose every declaration is sound.
\<close>

theorem shared_declaration_refused:
  assumes "\<not> distinct (map canonical_form (declared_skills w as)) \<or> \<not> distinct (map canonical_form (declared_roots w as))"
  shows "\<exists>err. computeCapabilityRequirement w as pty gpu = Inl err"
proof (cases "computeCapabilityRequirement w as pty gpu")
  case (Inr r)
  then show ?thesis by (rule computed_parts) (use assms normalized_set(2) in blast)
qed simp

definition sharing_agent :: agent_fields where
  "sharing_agent = \<lparr>af_skills = [''research''], af_connectors = [], af_filesystemRoots = [], af_runtime = Some ''claude''\<rparr>"

theorem requirement_is_union_witness:
  "\<exists>r. computeCapabilityRequirement \<lparr>wf_skills = Some [''Docx''], wf_connectors = None, wf_filesystemRoots = None\<rparr>
       [sharing_agent] False False = Inr r \<and> set (cr_skills r) = canonical_form ` {''Docx'', ''research''}"
proof -
  let ?w = "\<lparr>wf_skills = Some [''Docx''], wf_connectors = None, wf_filesystemRoots = None\<rparr>"
  have ok: "computeCapabilityRequirement ?w [sharing_agent] False False = Inr \<lparr>cr_connectors = [],
      cr_skills = [''docx'', ''research''], cr_filesystemRoots = [], cr_pty = False, cr_gpu = False, cr_clis = [Claude]\<rparr>"
    by code_simp
  from requirement_is_union[OF this] have "set [''docx'', ''research''] = canonical_form ` set (declared_skills ?w [sharing_agent])"
    by simp
  then show ?thesis unfolding ok by (simp add: declared_skills_def opt_list_def sharing_agent_def)
qed

theorem shared_declaration_refused_witness:
  "\<exists>err. computeCapabilityRequirement \<lparr>wf_skills = None, wf_connectors = None, wf_filesystemRoots = None\<rparr>
     [sharing_agent, sharing_agent] False False = Inl err"
  by (rule shared_declaration_refused) code_simp

end
