(* ===== verification/IterationEvidence.thy ===== *)
theory IterationEvidence
  imports IterationSteps
begin

text \<open>
  What an accepted outcome proves of a turn, and what the wall proves of the generations of a stage: the
  lemmas behind the properties of the loops.
\<close>

section \<open>The outcome of a turn\<close>

lemma none_or_Inr [simp]: "none_or x k = Inr y \<longleftrightarrow> x = None \<and> k = Inr y"
  by (simp add: none_or_def split: option.split)

lemma parse_criteria_ids: "parse_criteria n ids vs = Inr cs \<Longrightarrow> map co_criterionId cs = take (length vs) ids"
proof (induction vs arbitrary: n ids cs)
  case (Cons v vs)
  obtain i rest where i: "ids = i # rest"
    using Cons.prems by (cases ids) (auto simp: require_Inr)
  obtain cs' where "parse_criteria (Suc n) rest vs = Inr cs'" "cs = \<lparr>co_criterionId = i, co_verdict = js_str (fld v ''verdict''),
      co_findingIds = strs (fld v ''findingIds'')\<rparr> # cs'"
    using Cons.prems by (auto simp: require_Inr sum_bind_Inr i)
  then show ?case using Cons.IH by (simp add: i)
qed simp

lemma parse_criteria_verdicts:
  "parse_criteria n ids vs = Inr cs \<Longrightarrow> c \<in> set cs \<Longrightarrow> co_verdict c \<in> {''pass'', ''fail'', ''unverified''}"
  by (induction vs arbitrary: n ids cs) (auto simp: require_Inr sum_bind_Inr)

text \<open>The outcome of a turn names the turn, and a verdict that ends the loop carries its evidence.\<close>

lemma parsed_outcome:
  assumes "parseIterationOutcome e v l q current = Inr x"
  shows "oc_requestRef x = iq_requestRef q" and "oc_iterationLoopRef x = iq_iterationLoopRef q"
    and "oc_participantId x = iq_recipientParticipantId q" and "oc_cycle x = iq_cycle q"
    and "isLegalIterationVerdict l q (oc_participantId x) (oc_verdict x)"
    and "oc_verdict x \<noteq> ''fulfilled'' \<Longrightarrow> map co_criterionId (oc_criteria x) = map cr_id (il_criteria l)"
    and "c \<in> set (oc_criteria x) \<Longrightarrow> co_verdict c \<in> {''pass'', ''fail'', ''unverified''}"
    and "verdict_error (oc_verdict x) (oc_criteria x) (oc_findings x) (oc_resolvedFindingRefs x) (oc_positions x)
      (oc_recordedDissent x) current (iq_unresolvedFindingRefs q) = None"
proof -
  have "iteration_outcome_of e (json_value v) l q current = Inr x"
    using assms by (simp add: parseIterationOutcome_def split: if_split_asm)
  note p = this[unfolded iteration_outcome_of_def Let_def]
  obtain resolved cs fs ps ds where cs: "parse_criteria 0 (map cr_id (il_criteria l)) (js_arr (fld (json_value v) ''criteria'')) = Inr cs"
    and n: "js_str (fld (json_value v) ''verdict'') = ''fulfilled'' \<or> length (js_arr (fld (json_value v) ''criteria'')) = length (il_criteria l)"
    and legal: "isLegalIterationVerdict l q (iq_recipientParticipantId q) (js_str (fld (json_value v) ''verdict''))"
    and ok: "verdict_error (js_str (fld (json_value v) ''verdict'')) cs fs resolved ps ds current (iq_unresolvedFindingRefs q) = None"
    and x: "x = \<lparr>oc_requestRef = iq_requestRef q, oc_iterationLoopRef = iq_iterationLoopRef q,
         oc_participantId = iq_recipientParticipantId q, oc_cycle = iq_cycle q, oc_verdict = js_str (fld (json_value v) ''verdict''),
         oc_inputGenerationRefs = iq_inputGenerationRefs q, oc_criteria = cs, oc_findings = fs, oc_resolvedFindingRefs = resolved,
         oc_positions = ps, oc_recordedDissent = ds, oc_summary = js_str (fld (json_value v) ''summary'')\<rparr>"
    using p unfolding require_Inr sum_bind_Inr none_or_Inr criteria_count_ok_def
    by (elim conjE exE) (auto simp: require_Inr sum_bind_Inr split: if_split_asm)
  show "oc_requestRef x = iq_requestRef q" "oc_iterationLoopRef x = iq_iterationLoopRef q"
    "oc_participantId x = iq_recipientParticipantId q" "oc_cycle x = iq_cycle q"
    "isLegalIterationVerdict l q (oc_participantId x) (oc_verdict x)"
    "verdict_error (oc_verdict x) (oc_criteria x) (oc_findings x) (oc_resolvedFindingRefs x) (oc_positions x)
      (oc_recordedDissent x) current (iq_unresolvedFindingRefs q) = None"
    using legal ok by (simp_all add: x)
  show "oc_verdict x \<noteq> ''fulfilled'' \<Longrightarrow> map co_criterionId (oc_criteria x) = map cr_id (il_criteria l)"
    using parse_criteria_ids[OF cs] n by (simp add: x)
  show "c \<in> set (oc_criteria x) \<Longrightarrow> co_verdict c \<in> {''pass'', ''fail'', ''unverified''}"
    using parse_criteria_verdicts[OF cs] by (simp add: x)
qed

lemma terminal_evidence:
  assumes "verdict_error v cs fs resolved ps ds current unresolved = None" and "v \<in> set TERMINAL_VERDICTS"
    and "\<And>c. c \<in> set cs \<Longrightarrow> co_verdict c \<in> {''pass'', ''fail'', ''unverified''}"
  shows "c \<in> set cs \<Longrightarrow> co_verdict c = ''pass''" and "f \<in> set fs \<Longrightarrow> \<not> blocking f"
proof -
  have e: "failed_criteria cs = []" "unverified_criteria cs = []" "\<not> list_ex blocking fs"
    using assms(1,2) by (simp_all add: verdict_error_def Let_def split: if_split_asm)
  show "co_verdict c = ''pass''" if "c \<in> set cs"
    using e(1,2) assms(3)[OF that] that by (auto simp: failed_criteria_def unverified_criteria_def filter_empty_conv)
  show "\<not> blocking f" if "f \<in> set fs" using e(3) that by (auto simp: list_ex_iff)
qed

section \<open>The receipt that passes a loop\<close>

lemma passed_receipt:
  assumes "next_doc (recordIterationReceipt e u x i d) = Some d'" and "find (is_loop u x) (iterationLoops d') = Some l'"
    and "il_state l' = Passed"
  obtains l q oc where "find (is_loop u x) (iterationLoops d) = Some l" and "il_state l = RunningTurn"
    and "parseIterationOutcome e (rc_outcome i) l q [] = Inr oc" and "is_terminal l oc" and "il_completionGate l = None"
    and "find (is_turn_request u (rc_requestRef i)) (iterationRequests d) = Some q"
    and "iterationReceipts d' = iterationReceipts d @ [new_receipt e u l q i oc 0]"
    and "declared l' = declared l" and "il_acceptedGenerationRefs l' = Some (il_activeGenerationRefs l)"
    and "il_lastReceiptRef l' = Some (ir_receiptRef (new_receipt e u l q i oc 0))"
proof (rule recordIterationReceipt_commit[OF assms(1)])
  fix l q oc gated a
  let ?r = "new_receipt e u l q i oc (step_if gated)"
  assume l: "find (is_loop u x) (iterationLoops d) = Some l"
    and q: "find (is_turn_request u (rc_requestRef i)) (iterationRequests d) = Some q"
    and p: "parseIterationOutcome e (rc_outcome i) l q [] = Inr oc"
    and ok: "receipt_lineage_ok d u l q (oc_verdict oc = ''fulfilled'') i"
    and g: "gated = ((is_terminal l oc \<and> il_completionGate l \<noteq> None) \<or> oc_verdict oc = ''parked'')"
    and s: "settle_turn e u q oc (if gated then Some (receipt_gate e d u l i oc) else None) ?r d l = Inr (d', a)"
  have run: "il_state l = RunningTurn" using ok by (simp add: receipt_lineage_ok_def Let_def)
  have x: "il_iterationLoopRef l = x" "il_subject l = u" using is_loopD[OF l] by simp_all
  have st: "il_state l' = receipt_state l oc"
  proof (rule settle_turn_rows[OF s])
    show "\<And>g. (if gated then Some (receipt_gate e d u l i oc) else None) = Some g \<Longrightarrow> hq_response g = None \<and> hq_open g"
      using receipt_gate_open[of e d u l i oc] by (auto split: if_split_asm)
  next
    fix l2 d1
    assume d': "d' = set_loop u (il_iterationLoopRef l) (\<lambda>_. touched_loop (e_stamp e 0) l2)
        (d1\<lparr>iterationReceipts := iterationReceipts d @ [?r]\<rparr>)"
      and d1: "d1 = d\<lparr>stages := stages d1, humanRequests := humanRequests d1\<rparr>"
      and l2: "declared l2 = declared l" "il_state l2 = receipt_state l oc"
    have "is_loop u x (touched_loop (e_stamp e 0) l2)"
      using declared_key[OF l2(1)] x by (simp add: is_loop_def loop_key_def touched_loop_def)
    moreover have "iterationLoops d1 = iterationLoops d" by (subst d1) simp
    ultimately have "l' = touched_loop (e_stamp e 0) l2"
      using assms(2) l by (simp add: d' x set_loop_def find_upd_first_hit)
    then show ?thesis using l2 by (simp add: touched_loop_def)
  qed
  then have t: "oc_verdict oc \<noteq> ''parked''" "is_terminal l oc" "il_completionGate l = None"
    using assms(3) by (auto simp: receipt_state_def split: if_split_asm)
  then have ng: "\<not> gated" using g by simp
  obtain d1 where d1: "decide_stages u (il_runRef l) True (e_stamp e 0) dt_accepted_stage (il_activeGenerationRefs l) d = Inr d1"
    and d': "d' = set_loop u x (\<lambda>_. touched_loop (e_stamp e 0) ((cleared_loop (ended_turn ?r (receipt_state l oc) l))
      \<lparr>il_acceptedGenerationRefs := Some (il_activeGenerationRefs l)\<rparr>)) (d1\<lparr>iterationReceipts := iterationReceipts d1 @ [?r]\<rparr>)"
    using s ng t(2) by (auto simp: settle_turn_def Let_def x(1) sum_bind_Inr)
  let ?l = "touched_loop (e_stamp e 0) ((cleared_loop (ended_turn ?r (receipt_state l oc) l))
      \<lparr>il_acceptedGenerationRefs := Some (il_activeGenerationRefs l)\<rparr>)"
  have f: "iterationLoops d1 = iterationLoops d" "iterationReceipts d1 = iterationReceipts d"
    by (subst conjunct1[OF decide_stages_rows[OF d1]], simp)+
  have "is_loop u x ?l" using x by (simp add: is_loop_def touched_loop_def cleared_loop_def ended_turn_def)
  then have "l' = ?l" using assms(2) l by (simp add: d' f set_loop_def find_upd_first_hit)
  then show thesis
    by (intro that[OF l run p t(2,3) q]) (use ng in \<open>simp_all add: d' f set_loop_def step_if_def touched_loop_def
      cleared_loop_def ended_turn_def, simp add: declared_def\<close>)
qed

section \<open>The generations of a stage\<close>

lemma generations_seen:
  assumes "generations_error e d seen gs = None"
  shows "distinct (map generation_key gs)" and "set (map generation_key gs) \<inter> set (map generation_key seen) = {}"
    and "g \<in> set gs \<Longrightarrow> 1 \<le> sg_generation g"
proof -
  have "distinct (map generation_key gs) \<and> set (map generation_key gs) \<inter> set (map generation_key seen) = {}
      \<and> (\<forall>g\<in>set gs. 1 \<le> sg_generation g)"
    using assms
  proof (induction gs arbitrary: seen)
    case (Cons g gs)
    have ok: "generation_row_ok e d seen g" and n: "generations_error e d (g # seen) gs = None"
      using Cons.prems by (simp_all split: if_split_asm)
    have "generation_key g \<notin> set (map generation_key seen)" "1 \<le> sg_generation g"
      using ok by (auto simp: generation_row_ok_def split: option.splits)
    then show ?case using Cons.IH[OF n] by auto
  qed simp
  then show "distinct (map generation_key gs)" "set (map generation_key gs) \<inter> set (map generation_key seen) = {}"
    "g \<in> set gs \<Longrightarrow> 1 \<le> sg_generation g" by auto
qed

lemma wall_list_None: "first_error xs = None \<longleftrightarrow> (\<forall>x\<in>set xs. x = None)"
  by (induction xs) (auto split: option.splits)

lemma all_walls_None: "all_walls f xs = None \<longleftrightarrow> (\<forall>x\<in>set xs. f x = None)"
  by (auto simp: all_walls_def wall_list_None)

lemma wall_None [simp]: "wall b t = None \<longleftrightarrow> b"
  by (simp add: wall_def)

lemma iterationError_None: "iterationError e d = None \<longleftrightarrow> generations_error e d [] (stageGenerations d) = None
    \<and> (\<forall>g\<in>set (stageGenerations d). predecessor_ok d g) \<and> loops_error e d [] [] (iterationLoops d) = None
    \<and> turns_error e d [] (iterationRequests d) = None \<and> receipts_error e d [] (iterationReceipts d) = None
    \<and> (\<forall>q\<in>set (iterationRequests d). turn_findings_ok d q) \<and> (\<forall>a\<in>set (attempts d). attempt_error d a = None)
    \<and> (\<forall>x\<in>set (generationSupersessions d). supersession_ok d x) \<and> (\<forall>g\<in>set (stageGenerations d). superseded_once d g)
    \<and> (\<forall>l\<in>set (iterationLoops d). loop_gates_error e d l = None) \<and> (\<forall>s\<in>set (stages d). stage_generation_error d s = None)"
  unfolding iterationError_def wall_list_None list.set ball_simps simp_thms all_walls_None wall_None by (rule TrueI)

text \<open>Numbers from 1 that have their predecessors are a segment.\<close>

lemma segment_of_predecessors:
  fixes N :: "int set"
  assumes "finite N" and "\<And>n. n \<in> N \<Longrightarrow> 1 \<le> n" and "\<And>n. n \<in> N \<Longrightarrow> 1 < n \<Longrightarrow> n - 1 \<in> N"
  shows "N = {1..int (card N)}"
proof (cases "N = {}")
  case False
  define m where "m = Max N"
  have m: "m \<in> N" "\<And>n. n \<in> N \<Longrightarrow> n \<le> m" using assms(1) False by (simp_all add: m_def)
  have down: "int k < m \<Longrightarrow> m - int k \<in> N" for k
  proof (induction k)
    case (Suc k)
    then have "m - int k \<in> N" by simp
    moreover have "1 < m - int k" using Suc.prems by simp
    ultimately have "m - int k - 1 \<in> N" by (rule assms(3))
    then show ?case by (simp add: algebra_simps)
  qed (simp add: m)
  have "n \<in> N" if "1 \<le> n" "n \<le> m" for n using down[of "nat (m - n)"] that by simp
  moreover have "1 \<le> n \<and> n \<le> m" if "n \<in> N" for n using assms(2) m(2) that by blast
  ultimately have e: "N = {1..m}" by (meson atLeastAtMost_iff subsetI subset_antisym)
  have "1 \<le> m" using assms(2) m(1) by blast
  then have "int (card N) = m" unfolding e by simp
  then show ?thesis using e by (simp only:)
qed simp

lemma sorted_segment:
  fixes xs :: "int list"
  assumes "distinct xs" and "\<And>n. n \<in> set xs \<Longrightarrow> 1 \<le> n" and "\<And>n. n \<in> set xs \<Longrightarrow> 1 < n \<Longrightarrow> n - 1 \<in> set xs"
  shows "sort xs = [1..int (length xs)]"
proof (rule sorted_distinct_set_unique)
  have "set xs = {1..int (card (set xs))}" by (rule segment_of_predecessors) (use assms in simp_all)
  then show "set (sort xs) = set [1..int (length xs)]" using distinct_card[OF assms(1)] by simp
qed (use assms(1) in simp_all)

lemma stage_generations_gapless:
  assumes "iterationError e d = None"
  shows "let ns = map sg_generation (filter (\<lambda>g. sg_logicalStageRef g = s) (stageGenerations d)) in
    sort ns = [1..int (length ns)]"
  unfolding Let_def
proof (rule sorted_segment)
  let ?gs = "filter (\<lambda>g. sg_logicalStageRef g = s) (stageGenerations d)"
  have w: "generations_error e d [] (stageGenerations d) = None" "\<And>g. g \<in> set (stageGenerations d) \<Longrightarrow> predecessor_ok d g"
    using assms by (simp_all add: iterationError_None)
  note k = generations_seen[OF w(1)]
  have "inj_on generation_key (set (stageGenerations d))" "distinct (stageGenerations d)" using k(1) by (simp_all add: distinct_map)
  then have "inj_on sg_generation (set ?gs)" "distinct ?gs" by (auto simp: inj_on_def generation_key_def)
  then show "distinct (map sg_generation ?gs)" by (simp add: distinct_map)
  show "1 \<le> n" if "n \<in> set (map sg_generation ?gs)" for n using that k(3) by auto
  show "n - 1 \<in> set (map sg_generation ?gs)" if n: "n \<in> set (map sg_generation ?gs)" "1 < n" for n
  proof -
    obtain g where g: "g \<in> set (stageGenerations d)" "sg_logicalStageRef g = s" "sg_generation g = n" using n(1) by auto
    then obtain r p where "generation_by_ref d r = Some p" "sg_logicalStageRef p = s" "sg_generation p = n - 1"
      using w(2)[OF g(1)] n(2) by (auto simp: predecessor_ok_def given_def split: option.splits)
    moreover from this(1) have "p \<in> set (stageGenerations d)"
      by (auto simp: generation_by_ref_def last_by_def dest: find_Some_in)
    ultimately show ?thesis by force
  qed
qed

lemma superseded_by_receipt:
  assumes "iterationError e d = None" and "g \<in> set (stageGenerations d)" and "1 < sg_generation g"
  shows "\<exists>x. filter (\<lambda>x. su_successorGenerationRef x = sg_generationRef g) (generationSupersessions d) = [x]
    \<and> Some (su_predecessorGenerationRef x) = sg_predecessorGenerationRef g \<and> has_receipt d (su_triggerReceiptRef x)"
proof -
  have w: "superseded_once d g" "\<And>x. x \<in> set (generationSupersessions d) \<Longrightarrow> supersession_ok d x"
    using assms(1,2) by (simp_all add: iterationError_None)
  then obtain x where x: "filter (\<lambda>x. su_successorGenerationRef x = sg_generationRef g) (generationSupersessions d) = [x]"
      "Some (su_predecessorGenerationRef x) = sg_predecessorGenerationRef g"
    using assms(3) by (auto simp: superseded_once_def split: list.splits)
  have "x \<in> set (filter (\<lambda>x. su_successorGenerationRef x = sg_generationRef g) (generationSupersessions d))"
    by (simp add: x(1))
  then have "x \<in> set (generationSupersessions d)" by simp
  then have "supersession_ok d x" by (rule w(2))
  then have "has_receipt d (su_triggerReceiptRef x)" by (simp add: supersession_ok_def split: option.splits)
  then show ?thesis using x by blast
qed

end
