(* ===== verification/Drain.thy ===== *)
theory Drain
  imports StoreLoad
begin

text \<open>
  No question is left without a way to answer it: on a document that opens, the open requests of an owner can
  be answered one after the other, those a loop names as its gate apart, which have their own operation. Every
  answer is a method of the store, with its load in front.
\<close>

definition open_rows :: "document \<Rightarrow> nat" where
  "open_rows d = length (filter hq_open (humanRequests d))"

definition unanswered :: "document \<Rightarrow> string \<Rightarrow> string \<Rightarrow> bool" where
  "unanswered d u r \<longleftrightarrow> \<not> loop_names d r
     \<and> (case findHumanRequest d u r OwnSubject of None \<Rightarrow> False | Some q \<Rightarrow> hq_open q)"

definition approval :: "int \<Rightarrow> respond_input" where
  "approval n = \<lparr>rs_expectedRevision = n, rs_decision = ''approved'', rs_idempotencyKey = ''drain'', rs_response = None,
     rs_resolvedBy = None\<rparr>"

text \<open>Requests answered in turn, each at the revision it is asked at.\<close>

fun answers :: "env \<Rightarrow> string \<Rightarrow> document \<Rightarrow> (string \<times> int) list \<Rightarrow> document" where
  "answers e u d [] = d"
| "answers e u d ((r, n) # rs) = answers e u (snd (run_method e (respondHumanRequest e u r (approval n) OwnSubject) d)) rs"

lemma filter_upd_first_fewer:
  "find p xs = Some x \<Longrightarrow> P x \<Longrightarrow> \<not> P (f x) \<Longrightarrow> length (filter P (upd_first p f xs)) < length (filter P xs)"
  by (induction xs) (auto split: if_splits)

section \<open>An answer and the walls\<close>

lemma recovery_unmoved:
  assumes "f = recordHumanResponse u dec k resp rb at"
  shows "validateAuthorized20260731RecoveryDurability e vs cs (upd_first p f qs)
    = validateAuthorized20260731RecoveryDurability e vs cs qs"
proof (induction qs arbitrary: cs)
  case (Cons q qs)
  have "recovery_receipt_ok e cs (f q) = recovery_receipt_ok e cs q"
    by (simp add: assms recordHumanResponse_def recovery_receipt_ok_def split: option.split)
  then show ?case using Cons by (simp add: assms recordHumanResponse_def)
qed simp

lemma find_rev_upd_first:
  assumes "\<And>x. p x \<Longrightarrow> \<not> q x" and "\<And>x. q (f x) = q x"
  shows "find q (rev (upd_first p f xs)) = find q (rev xs)"
  using assms by (induction xs) (auto simp: find_append split: option.splits)

lemma human_by_ref_upd:
  assumes "f = recordHumanResponse u dec k resp rb at" and "r' \<noteq> r"
  shows "human_by_ref (aside d n (upd_first (is_request u r OwnSubject) f (humanRequests d))) r' = human_by_ref d r'"
proof -
  have "hq_requestRef (f x) = hq_requestRef x" for x by (simp add: assms(1) recordHumanResponse_def)
  then show ?thesis using assms(2)
    by (simp add: human_by_ref_def last_by_def, intro find_rev_upd_first) (auto simp: is_request_def)
qed

lemma approve_one:
  assumes "requests_inv d" and "unanswered d u r" and "load_error e d = None"
    and fits: "\<And>n qs. e_docBytes e (aside d n qs) \<le> e_maxBytes e"
  obtains n d' where "snd (run_method e (respondHumanRequest e u r (approval n) OwnSubject) d) = d'"
    and "d' = aside d (documentRevision d') (humanRequests d')" and "open_rows d' < open_rows d"
    and "requests_inv d'" and "load_error e d' = None"
proof -
  obtain q where q: "find (is_request u r OwnSubject) (humanRequests d) = Some q" "hq_open q" "\<not> loop_names d r"
    using assms(2) by (auto simp: unanswered_def findHumanRequest_def split: option.splits)
  have "request_closed q" using assms(1) find_Some_in[OF q(1)] by (simp add: requests_inv_def list_all_iff)
  then have n: "hq_response q = None" using q(2) by (simp add: request_closed_def)
  have g: "\<not> isIterationGateRequest d r" using q(3) by (simp add: isIterationGateRequest_def loop_names_def)
  have k: "validNonEmpty (rs_idempotencyKey (approval (hq_revision q))) MAX_SHORT_TEXT" unfolding approval_def by code_simp
  have m: "map_of HUMAN_DECISIONS (rs_decision (approval (hq_revision q))) = Some HdApproved" unfolding approval_def by code_simp
  define f where "f = recordHumanResponse u HdApproved ''drain'' None None (e_stamp e 0)"
  let ?qs = "upd_first (is_request u r OwnSubject) f (humanRequests d)"
  let ?d = "aside d (documentRevision d + 1) ?qs"
  have "\<exists>a. respondHumanRequest e u r (approval (hq_revision q)) OwnSubject d = Commit (d\<lparr>humanRequests := ?qs\<rparr>) a"
    using q(1,2) n k m g by (simp add: respondHumanRequest_def findHumanRequest_def Let_def approval_def f_def)
  moreover have "bump (d\<lparr>humanRequests := ?qs\<rparr>) = ?d" by (simp add: bump_def)
  ultimately have "snd (run_method e (respondHumanRequest e u r (approval (hq_revision q)) OwnSubject) d) = ?d"
    using fits[where n = "documentRevision d + 1" and qs = ?qs] by (auto simp: run_method_loads[OF assms(3)] save_doc_def)
  moreover have "open_rows ?d < open_rows d"
    using filter_upd_first_fewer[OF q(1), of hq_open f] q(2) by (simp add: open_rows_def f_def recordHumanResponse_def)
  moreover have "requests_inv ?d"
    using assms(1) list_all_upd_first[of request_closed "humanRequests d" "is_request u r OwnSubject" f]
    by (simp add: requests_inv_def f_def recordHumanResponse_def request_closed_def)
  moreover have "load_error e ?d = load_error e d"
  proof (rule load_unmoved)
    fix r' assume "loop_names d r'"
    then have "r' \<noteq> r" using q(3) by blast
    from human_by_ref_upd[OF f_def this]
    show "human_by_ref ?d r' = human_by_ref d r'" .
  qed (rule recovery_unmoved[OF f_def])
  ultimately show thesis using that[of "hq_revision q" ?d] assms(3) by simp
qed

lemma drained:
  assumes "requests_inv d" and "load_error e d = None" and "\<And>n qs. e_docBytes e (aside d n qs) \<le> e_maxBytes e"
  shows "\<exists>rs d'. answers e u d rs = d' \<and> length rs \<le> open_rows d \<and> d' = aside d (documentRevision d') (humanRequests d')
    \<and> load_error e d' = None \<and> (\<forall>r. \<not> unanswered d' u r)"
  using assms
proof (induction "open_rows d" arbitrary: d rule: less_induct)
  case less
  show ?case
  proof (cases "\<exists>r. unanswered d u r")
    case True
    then obtain r where r: "unanswered d u r" by blast
    obtain n d1 where d1: "snd (run_method e (respondHumanRequest e u r (approval n) OwnSubject) d) = d1"
      "d1 = aside d (documentRevision d1) (humanRequests d1)" "open_rows d1 < open_rows d" "requests_inv d1" "load_error e d1 = None"
      by (rule approve_one[OF less.prems(1) r less.prems(2,3)])
    have "aside d1 m qs = aside d m qs" for m qs by (subst d1(2)) simp
    then obtain rs d' where d': "answers e u d1 rs = d'" "length rs \<le> open_rows d1"
        "d' = aside d1 (documentRevision d') (humanRequests d')" "load_error e d' = None" "\<forall>r. \<not> unanswered d' u r"
      using less.hyps[OF d1(3,4,5)] less.prems(3) by metis
    have "answers e u d ((r, n) # rs) = d'" using d1(1) d'(1) by simp
    moreover have "length ((r, n) # rs) \<le> open_rows d" using d'(2) d1(3) by simp
    moreover have "d' = aside d (documentRevision d') (humanRequests d')"
      using d'(3) \<open>\<And>m qs. aside d1 m qs = aside d m qs\<close> by simp
    ultimately show ?thesis using d'(4,5) by blast
  next
    case False
    then show ?thesis using less.prems(2) by (intro exI[of _ "[]"] exI[of _ d]) simp
  qed
qed

end
