(* ===== verification/LoopSamples.thy ===== *)
theory LoopSamples
  imports Samples IterationEvidence Drain
begin

text \<open>
  A run with a review, at the points where the properties of its loop are applied: its creator has built, the
  generation has seeded the loop, and the judge has been asked.
\<close>

definition build_stage :: stored_stage where
  "build_stage = hd sample_stages"

definition check_stage :: stored_stage where
  "check_stage = (last sample_stages)\<lparr>st_workflowProfile := Some ''checker-readonly'',
     st_review := Some \<lparr>rv_subjectStageId = ''build'', rv_maxCreatorReworks = 1,
       rv_criteria = [\<lparr>cr_id = ''works'', cr_description = ''It works''\<rparr>]\<rparr>\<rparr>"

text \<open>The loop the launch derives from such a review: the judge reviews, the creator reworks, two cycles at most.\<close>

definition review_loop :: stored_loop where
  "review_loop = \<lparr>il_iterationLoopRef = ''iteration-loop-4'', il_runRef = ''run-0'', il_iterationGroupId = ''check-iteration'',
     il_goal = Some ''Accept'',
     il_participants = [
       \<lparr>pt_participantId = ''build-manager'', pt_stageRef = ''build'', pt_role = ''manager'', pt_perspective = ''Own'',
         pt_mandate = ''Build'', pt_goal = None\<rparr>,
       \<lparr>pt_participantId = ''check-judge'', pt_stageRef = ''check'', pt_role = ''judge'', pt_perspective = ''Review'',
         pt_mandate = ''Check'', pt_goal = None\<rparr>],
     il_routes = [
       \<lparr>ro_routeId = ''check-to-judge'', ro_senderParticipantId = ''build-manager'', ro_recipientParticipantId = ''check-judge'',
         ro_requestKinds = [''review''], ro_baseResolutionStageIds = [''build'']\<rparr>,
       \<lparr>ro_routeId = ''check-to-manager'', ro_senderParticipantId = ''check-judge'', ro_recipientParticipantId = ''build-manager'',
         ro_requestKinds = [''rework''], ro_baseResolutionStageIds = [''check'']\<rparr>],
     il_seedParticipantId = ''build-manager'', il_seedArtifactIds = [''build-artifact''], il_initialStepId = ''check-review'',
     il_schedule = [
       \<lparr>sp_stepId = ''check-review'', sp_routeId = ''check-to-judge'', sp_after = Some \<lparr>sf_stepId = ''check-rework'',
         sf_participantId = ''build-manager'', sf_verdict = ''fulfilled''\<rparr>, sp_cycle = ''next''\<rparr>,
       \<lparr>sp_stepId = ''check-rework'', sp_routeId = ''check-to-manager'', sp_after = Some \<lparr>sf_stepId = ''check-review'',
         sf_participantId = ''check-judge'', sf_verdict = ''fail''\<rparr>, sp_cycle = ''current''\<rparr>],
     il_artifacts = [''build-artifact''], il_criteria = [\<lparr>cr_id = ''works'', cr_description = ''It works''\<rparr>],
     il_maxCycles = 2, il_cycleUnit = ''Review'',
     il_terminalAuthorities = [\<lparr>ta_participantId = ''check-judge'', ta_verdict = ''pass''\<rparr>], il_completionGate = None,
     il_definitionHash = sample_hash64, il_cyclesUsed = 0, il_state = AwaitingSeed, il_turnOwnerParticipantId = None,
     il_currentStepId = None, il_activeGenerationRefs = [], il_acceptedGenerationRefs = None, il_lastReceiptRef = None,
     il_completionGateRef = None, il_interventionRef = None, il_parkReason = None, il_unresolvedResidue = None,
     il_version = 0, il_createdAt = sample_stamp, il_updatedAt = sample_stamp, il_subject = ''operator'',
     il_advanceOperationKey = None, il_advanceOperationFingerprint = None, il_definition = JObj []\<rparr>"

definition sample_commit :: string where "sample_commit = replicate 40 CHR ''c''"

definition build_attempt :: stored_attempt where
  "build_attempt = \<lparr>at_attemptRef = ''attempt-0'', at_runRef = ''run-0'', at_stageRef = ''stage-2'', at_generation = 1,
     at_predecessorAttemptRef = None, at_runtime = ''claude'', at_model = ''opus'', at_state = ASucceeded,
     at_version = 4, at_managedSessionRef = None, at_logicalGeneration = None, at_baseGenerationRef = None,
     at_baseCommit = None, at_createdAt = sample_stamp, at_updatedAt = sample_stamp, at_rerouteOperationKey = None,
     at_rerouteOperationFingerprint = None, at_subject = ''operator'', at_iterationAdvanceOperationKey = None,
     at_iterationAdvanceOperationFingerprint = None, at_iterationAdvanceReceiptRef = None\<rparr>"

definition creator_built :: document where
  "creator_built = launched_literal\<lparr>attempts := [build_attempt], iterationLoops := [review_loop],
     stages := [build_stage\<lparr>st_canonicalCardRef := Some ''card-1'', st_state := SSucceeded, st_version := 3,
       st_currentAttemptRef := Some ''attempt-0''\<rparr>, check_stage]\<rparr>"

definition generation_1 :: generation_input where
  "generation_1 = \<lparr>gi_expectedStageVersion = 3, gi_expectedAttemptVersion = 4, gi_expectedGeneration = 1,
     gi_operationKey = ''result:run-0:build'', gi_resultHash = sample_hash64, gi_resultCardRef = Some ''card-1'',
     gi_baseCommit = sample_commit, gi_canonicalCommit = sample_commit\<rparr>"

definition build_generation :: stored_generation where
  "build_generation = \<lparr>sg_generationRef = ''generation-0'', sg_runRef = ''run-0'', sg_logicalStageRef = ''stage-2'',
     sg_logicalStageId = ''build'', sg_generation = 1, sg_predecessorGenerationRef = None, sg_attemptRef = ''attempt-0'',
     sg_canonicalResultOperationKey = Some ''result:run-0:build'', sg_resultHash = Some sample_hash64,
     sg_resultCardRef = Some ''card-1'', sg_baseCommit = Some sample_commit, sg_canonicalCommit = Some sample_commit,
     sg_state = GenCommitted, sg_createdAt = sample_stamp, sg_updatedAt = sample_stamp, sg_subject = ''operator'',
     sg_operationFingerprint = sample_hash64\<rparr>"

definition seeded_loop :: stored_loop where
  "seeded_loop = review_loop\<lparr>il_state := AwaitingTurn, il_version := 1, il_cyclesUsed := 1,
     il_turnOwnerParticipantId := Some ''check-judge'', il_currentStepId := Some ''check-review'',
     il_activeGenerationRefs := [''generation-0'']\<rparr>"

definition seeded :: document where
  "seeded = creator_built\<lparr>stageGenerations := [build_generation], iterationLoops := [seeded_loop],
     stages := [build_stage\<lparr>st_canonicalCardRef := Some ''card-1'', st_state := SSucceeded, st_version := 4,
       st_currentAttemptRef := Some ''attempt-0'', st_currentGenerationRef := Some ''generation-0''\<rparr>, check_stage]\<rparr>"

definition first_turn :: turn_input where
  "first_turn = \<lparr>tu_expectedLoopVersion = 1, tu_routeId = ''check-to-judge'', tu_kind = IkReview,
     tu_inputGenerationRefs = [''generation-0''], tu_baseCommit = sample_commit,
     tu_artifactHashes = [(''build-artifact'', sample_hash64)], tu_unresolvedFindingRefs = [], tu_preservedInvariants = [],
     tu_nextAcceptanceCheck = ''Read it'', tu_instructions = ''Judge it'', tu_operationKey = ''ask-1''\<rparr>"

definition judge_turn :: stored_turn_request where
  "judge_turn = \<lparr>iq_requestRef = ''iteration-request-0'', iq_iterationLoopRef = ''iteration-loop-4'', iq_stepId = ''check-review'',
     iq_routeId = ''check-to-judge'', iq_senderParticipantId = ''build-manager'', iq_recipientParticipantId = ''check-judge'',
     iq_kind = IkReview, iq_cycle = 1, iq_inputGenerationRefs = [''generation-0''], iq_baseCommit = sample_commit,
     iq_artifactHashes = [(''build-artifact'', sample_hash64)], iq_criteria = [\<lparr>cr_id = ''works'', cr_description = ''It works''\<rparr>],
     iq_unresolvedFindingRefs = [], iq_preservedInvariants = [], iq_nextAcceptanceCheck = ''Read it'', iq_instructions = ''Judge it'',
     iq_subject = ''operator'', iq_runRef = ''run-0'', iq_operationKey = ''ask-1'', iq_operationFingerprint = sample_hash64\<rparr>"

definition asked :: document where
  "asked = seeded\<lparr>documentRevision := 4, iterationLoops := [running_loop 1 sample_stamp seeded_loop],
     stages := [hd (stages seeded), readied_stage sample_stamp check_stage], iterationRequests := [judge_turn]\<rparr>"

text \<open>The judge has run; its verdict is not in yet.\<close>

definition judged :: document where
  "judged = asked\<lparr>attempts := [build_attempt, build_attempt\<lparr>at_attemptRef := ''attempt-1'', at_stageRef := ''stage-3''\<rparr>],
     stages := [hd (stages asked), (last (stages asked))\<lparr>st_state := SSucceeded, st_currentAttemptRef := Some ''attempt-1''\<rparr>]\<rparr>"

definition pass_outcome :: js where
  "pass_outcome = JObj [(''schema'', JStr ''kb.iteration-outcome/v1''), (''requestRef'', JStr ''iteration-request-0''),
     (''iterationLoopRef'', JStr ''iteration-loop-4''), (''participantId'', JStr ''check-judge''), (''cycle'', JNum 1),
     (''verdict'', JStr ''pass''), (''inputGenerationRefs'', JArr [JStr ''generation-0'']),
     (''criteria'', JArr [JObj [(''criterionId'', JStr ''works''), (''verdict'', JStr ''pass''),
       (''findingIds'', JArr [])]]), (''findings'', JArr []),
     (''positions'', JArr []), (''recordedDissent'', JArr []), (''summary'', JStr ''Good'')]"

definition pass_receipt :: receipt_input where
  "pass_receipt = \<lparr>rc_expectedLoopVersion = 2, rc_requestRef = ''iteration-request-0'', rc_outcome = pass_outcome,
     rc_outputGenerationRefs = [], rc_baseCommit = sample_commit, rc_canonicalCommit = sample_commit,
     rc_participantAttemptRef = ''attempt-1'', rc_operationKey = ''receipt-1''\<rparr>"

text \<open>The judge has asked for a rework, and the creator's second attempt is queued.\<close>

definition rework_attempt :: stored_attempt where
  "rework_attempt = build_attempt\<lparr>at_attemptRef := ''attempt-2'', at_generation := 2, at_predecessorAttemptRef := Some ''attempt-0'',
     at_state := AQueued, at_version := 1, at_logicalGeneration := Some 2, at_baseGenerationRef := Some ''generation-0'',
     at_baseCommit := Some sample_commit\<rparr>"

definition reworking_loop :: stored_loop where
  "reworking_loop = seeded_loop\<lparr>il_state := ReworkQueued, il_turnOwnerParticipantId := Some ''build-manager'',
     il_currentStepId := Some ''check-rework''\<rparr>"

definition reworking :: document where
  "reworking = seeded\<lparr>attempts := [build_attempt, rework_attempt], iterationLoops := [reworking_loop],
     stages := [(hd (stages seeded))\<lparr>st_state := SReady, st_currentAttemptRef := Some ''attempt-2''\<rparr>, check_stage]\<rparr>"

section \<open>A run with a question\<close>

definition questioned :: document where
  "questioned = waiting\<lparr>humanRequests := [sample_request\<lparr>hq_open := True, hq_response := None\<rparr>]\<rparr>"

section \<open>Evaluated\<close>

lemma sample_saves:
  "next_doc (run_op sample_env op d) = Some d1 \<Longrightarrow> does op d = d1 \<or> does op d = bump d1"
  by (cases "run_op sample_env op d") (auto simp: does_def save_doc_def sample_env_def)

lemma judged_inv: "store_inv judged"
proof -
  have "store_inv launched_literal" using reachable_inv[OF launched_reachable] by (simp add: launched_eq)
  then have "core_inv judged" "broker_inv judged" "rest_inv judged"
    by (simp_all add: store_inv_parts core_inv_def events_inv_def quarantined_events_def requests_inv_def runs_inv_def
      broker_inv_def rest_inv_def proposals_inv_def deployments_inv_def deployments_ok_def DeploymentFacts.receipts_of_def
      open_deployments_def pulls_ok_def leases_ok_def judged_def asked_def seeded_def creator_built_def)
  moreover have "stages_inv judged" "loops_inv judged" by code_simp+
  ultimately show ?thesis by (simp add: store_inv_parts)
qed

lemma questioned_inv: "store_inv questioned"
proof -
  have "rest_inv questioned" using store_inv_empty
    by (simp add: store_inv_parts rest_inv_def proposals_inv_def deployments_inv_def deployments_ok_def
      DeploymentFacts.receipts_of_def open_deployments_def pulls_ok_def leases_ok_def questioned_def waiting_def)
  moreover have "core_inv questioned" "broker_inv questioned" "stages_inv questioned" "loops_inv questioned" by code_simp+
  ultimately show ?thesis by (simp add: store_inv_parts)
qed

lemma passed_rows:
  "map_option (\<lambda>d'. map (\<lambda>l. (il_state l, map ta_verdict (il_terminalAuthorities l), is_loop ''operator'' ''iteration-loop-4'' l))
     (iterationLoops d')) (next_doc (recordIterationReceipt sample_env ''operator'' ''iteration-loop-4'' pass_receipt judged))
   = Some [(Passed, [''pass''], True)]"
  by code_simp

lemma first_generation:
  "map_option (\<lambda>d'. map (\<lambda>g. (sg_logicalStageRef g, sg_subject g, sg_runRef g)) (stageGenerations d'))
     (next_doc (recordStageGeneration sample_env ''operator'' ''stage-2'' generation_1 creator_built))
   = Some [(''stage-2'', ''operator'', ''run-0'')]"
  by code_simp

end
