(* ===== verification/IterationClaims.thy ===== *)
theory IterationClaims
  imports LoopSamples
begin

text \<open>
  The properties of iteration loops: the machine a loop follows, the evidence behind a loop that passed, the
  numbering of the generations it works on; and that open questions of a run can always be answered.
\<close>

lemma filter_key_single:
  "distinct (map f xs) \<Longrightarrow> x \<in> set xs \<Longrightarrow> f x = k \<Longrightarrow> filter (\<lambda>y. f y = k) xs = [x]"
  by (induction xs) (auto simp: filter_empty_conv, metis imageI)

text \<open>A committed generation has passed the wall of its run.\<close>

lemma generation_walled:
  assumes "next_doc (recordStageGeneration e u x i d) = Some d'" and "find (is_stage u x) (stages d) = Some s"
    and "loops_inv d"
  shows "iterationError e (iterationBundleForRun d' u (st_runRef s)) = None"
proof (rule recordStageGeneration_commit[OF assms(1)])
  fix t l a
  assume t: "find (is_stage u x) (stages d) = Some t" "iterationLoopForStage d t = Some l"
    and c: "next_doc (commit_generation e u t l (active_request d u t l) a i d) = Some d'"
  have s: "t = s" "st_subject s = u" using t(1) assms(2) find_Some_pred[OF assms(2)] by (simp_all add: is_stage_def)
  have l: "l \<in> set (iterationLoops d)" "il_subject l = u" "il_runRef l = st_runRef s"
    using find_Some_in[OF t(2)[unfolded iterationLoopForStage_def]] find_Some_pred[OF t(2)[unfolded iterationLoopForStage_def]] s
    by simp_all
  obtain m :: "stored_loop \<Rightarrow> stored_receipt option \<Rightarrow> stage_generation change"
    where "next_doc (transitionIterationState e (on_loop u (il_iterationLoopRef l) dt_generation_no_loop
      dt_projection_changed) m d) = Some d'"
    using c unfolding commit_generation_def Let_def committed by (elim conjE) (erule that)
  then show ?thesis
  proof (rule transition_commit)
    fix k b
    assume k: "target_loop d (on_loop u (il_iterationLoopRef l) dt_generation_no_loop dt_projection_changed) = Some k"
      and w: "iterationError e (iterationBundleForRun d' (il_subject k) (il_runRef k)) = None"
    have "find (is_loop u (il_iterationLoopRef l)) (iterationLoops d) = Some k" using k by (simp add: target_simps)
    then have "k = l" using loop_found[OF assms(3) l(1)] l(2) by simp
    then show ?thesis using w l by simp
  qed
qed

text \<open>
  C4. The machine of the loops. Whatever the store does, a loop stays, in the document or in the bundle its
  run was moved to, once and with the same declaration; its state has moved along the edges of the machine
  only, and never out of a final state, and a loop that changed has a greater version.
\<close>

theorem loop_machine:
  assumes "store_inv d" and "later d d'" and "l \<in> set (loop_rows d)"
  shows "\<exists>l'. filter (\<lambda>x. loop_key x = loop_key l) (loop_rows d') = [l'] \<and> declared l' = declared l
    \<and> loop_edge\<^sup>*\<^sup>* (il_state l) (il_state l') \<and> (il_state l' = il_state l \<or> il_state l \<notin> {Passed, Declined, Parked})
    \<and> (l' = l \<or> il_version l < il_version l')"
proof -
  have s: "store_inv d'" "loops_kept d d'" using later_step[OF assms(2,1)] by (simp_all add: op_step_def)
  then obtain l' where l': "l' \<in> set (loop_rows d')" "loop_path l l'" using assms(3) by (auto simp: loops_kept_def)
  have "distinct (map loop_key (loop_rows d'))" using s(1) by (simp add: store_inv_parts loops_inv_def)
  moreover have "loop_key l' = loop_key l" by (rule declared_key) (use l'(2) in \<open>simp add: loop_path_def\<close>)
  ultimately have "filter (\<lambda>x. loop_key x = loop_key l) (loop_rows d') = [l']" using filter_key_single l'(1) by metis
  moreover have "il_state l' = il_state l" if "il_state l \<in> {Passed, Declined, Parked}"
  proof -
    have "loop_edge\<^sup>*\<^sup>* (il_state l) (il_state l')" using l'(2) by (simp add: loop_path_def)
    then show ?thesis using that by (cases rule: converse_rtranclpE) auto
  qed
  ultimately show ?thesis using l'(2) by (auto simp: loop_path_def)
qed

lemma loop_machine_witness:
  "\<exists>d' l'. later judged d' \<and> filter (\<lambda>x. loop_key x = (''operator'', ''iteration-loop-4'')) (loop_rows d') = [l'] \<and> il_state l' = Passed
    \<and> declared l' = declared review_loop"
proof -
  let ?op = "RecordIterationReceipt ''operator'' ''iteration-loop-4'' pass_receipt"
  obtain d1 k where d1: "next_doc (run_op sample_env ?op judged) = Some d1"
    and k: "iterationLoops d1 = [k]" "il_state k = Passed" "is_loop ''operator'' ''iteration-loop-4'' k"
    using passed_rows by (auto simp: map_option_case split: option.splits)
  have l: "later judged (does ?op judged)" by (rule does_later[OF later_refl]) simp
  have k': "k \<in> set (loop_rows (does ?op judged))" "loop_key k = (''operator'', ''iteration-loop-4'')"
    using sample_saves[OF d1] k by (auto simp: loop_rows_def bump_def is_loop_def loop_key_def)
  let ?l = "hd (iterationLoops judged)"
  have row: "?l \<in> set (loop_rows judged)" "loop_key ?l = (''operator'', ''iteration-loop-4'')" "declared ?l = declared review_loop"
    by code_simp+
  obtain l' where l': "filter (\<lambda>x. loop_key x = loop_key ?l) (loop_rows (does ?op judged)) = [l']" "declared l' = declared ?l"
    using loop_machine[OF judged_inv l row(1)] by blast
  have "k \<in> set (filter (\<lambda>x. loop_key x = loop_key ?l) (loop_rows (does ?op judged)))" using k' row(2) by simp
  then have "l' = k" by (simp add: l'(1))
  then show ?thesis using l l' k(2) row(2,3) by auto
qed

text \<open>
  C6. A loop passes on evidence. A receipt after which its loop is passed closes a running turn of a loop that
  declares no completion gate; its verdict is one the loop gives its participant the last word on, every
  authored criterion is answered, in order, with pass, no finding blocks, and what is accepted is what the
  loop was working on.
\<close>

theorem loop_passes_on_evidence:
  assumes "next_doc (recordIterationReceipt e u x i d) = Some d'" and "find (is_loop u x) (iterationLoops d') = Some l'"
    and "il_state l' = Passed" and "list_all (\<lambda>t. ta_verdict t \<in> set TERMINAL_VERDICTS) (il_terminalAuthorities l')"
  shows "\<exists>l r. find (is_loop u x) (iterationLoops d) = Some l \<and> il_state l = RunningTurn \<and> il_completionGate l = None
    \<and> iterationReceipts d' = iterationReceipts d @ [r] \<and> il_lastReceiptRef l' = Some (ir_receiptRef r)
    \<and> is_terminal l r \<and> map co_criterionId (oc_criteria r) = map cr_id (il_criteria l)
    \<and> list_all (\<lambda>c. co_verdict c = ''pass'') (oc_criteria r) \<and> list_ex blocking (oc_findings r) = False
    \<and> il_acceptedGenerationRefs l' = Some (il_activeGenerationRefs l)"
proof (rule passed_receipt[OF assms(1-3)])
  fix l q oc
  assume l: "find (is_loop u x) (iterationLoops d) = Some l" "il_state l = RunningTurn" "il_completionGate l = None"
    and p: "parseIterationOutcome e (rc_outcome i) l q [] = Inr oc" and t: "is_terminal l oc"
    and r: "iterationReceipts d' = iterationReceipts d @ [new_receipt e u l q i oc 0]"
      "il_lastReceiptRef l' = Some (ir_receiptRef (new_receipt e u l q i oc 0))"
    and l': "declared l' = declared l" "il_acceptedGenerationRefs l' = Some (il_activeGenerationRefs l)"
  note o = parsed_outcome[OF p]
  have "il_terminalAuthorities l = il_terminalAuthorities l'" using arg_cong[OF l'(1), of il_terminalAuthorities] by (simp add: declared_def)
  then have v: "oc_verdict oc \<in> set TERMINAL_VERDICTS" using assms(4) t by (auto simp: is_terminal_def list_all_iff list_ex_iff)
  then have nf: "oc_verdict oc \<noteq> ''fulfilled''" by (auto simp: TERMINAL_VERDICTS_def)
  note ev = terminal_evidence[OF o(8) v o(7)]
  show ?thesis
    using l r l'(2) t o(6)[OF nf] ev
    by (intro exI[of _ l] exI[of _ "new_receipt e u l q i oc 0"])
      (auto simp: new_receipt_def iteration_receipt.defs iteration_outcome.defs is_terminal_def list_all_iff list_ex_iff)
qed

lemma loop_passes_on_evidence_witness:
  "\<exists>d' r. next_doc (recordIterationReceipt sample_env ''operator'' ''iteration-loop-4'' pass_receipt judged) = Some d'
    \<and> iterationReceipts d' = iterationReceipts judged @ [r] \<and> list_all (\<lambda>c. co_verdict c = ''pass'') (oc_criteria r)"
proof -
  obtain d' l' where d': "next_doc (recordIterationReceipt sample_env ''operator'' ''iteration-loop-4'' pass_receipt judged) = Some d'"
    and l': "iterationLoops d' = [l']" "il_state l' = Passed" "map ta_verdict (il_terminalAuthorities l') = [''pass'']"
      "is_loop ''operator'' ''iteration-loop-4'' l'"
    using passed_rows by (auto simp: map_option_case split: option.splits)
  have "list_all (\<lambda>t. ta_verdict t \<in> set TERMINAL_VERDICTS) (il_terminalAuthorities l')"
    using l'(3) by (auto simp: TERMINAL_VERDICTS_def)
  then show ?thesis using loop_passes_on_evidence[OF d' _ l'(2)] l'(1,4) d' by auto
qed

text \<open>
  C39. The generations of a stage. After a generation is committed, the generations of every stage of that run
  are numbered from 1 without a gap, and each but the first replaced its predecessor exactly once, on a stored
  receipt.
\<close>

theorem generations_gapless:
  assumes "next_doc (recordStageGeneration e u x i d) = Some d'" and "find (is_stage u x) (stages d) = Some s"
    and "loops_inv d"
  shows "let b = iterationBundleForRun d' u (st_runRef s); gs = (\<lambda>t. filter (\<lambda>g. sg_logicalStageRef g = t) (stageGenerations b))
    in (\<forall>t. sort (map sg_generation (gs t)) = [1..int (length (gs t))])
     \<and> list_all (\<lambda>g. sg_generation g = 1 \<or> (\<exists>y. filter (\<lambda>y. su_successorGenerationRef y = sg_generationRef g)
         (generationSupersessions b) = [y] \<and> Some (su_predecessorGenerationRef y) = sg_predecessorGenerationRef g
         \<and> has_receipt b (su_triggerReceiptRef y))) (stageGenerations b)"
proof -
  let ?b = "iterationBundleForRun d' u (st_runRef s)"
  have w: "iterationError e ?b = None" by (rule generation_walled[OF assms])
  have "generations_error e ?b [] (stageGenerations ?b) = None" using w by (simp add: iterationError_None)
  then have "1 \<le> sg_generation g" if "g \<in> set (stageGenerations ?b)" for g using generations_seen that by blast
  then show ?thesis
    using stage_generations_gapless[OF w] superseded_by_receipt[OF w] unfolding Let_def list_all_iff by (auto simp: order_le_less)
qed

lemma generations_gapless_witness:
  "\<exists>d'. next_doc (recordStageGeneration sample_env ''operator'' ''stage-2'' generation_1 creator_built) = Some d'
    \<and> map sg_generation (stageGenerations d') = [1]"
proof -
  obtain d' g where d': "next_doc (recordStageGeneration sample_env ''operator'' ''stage-2'' generation_1 creator_built) = Some d'"
    and g: "stageGenerations d' = [g]" "sg_logicalStageRef g = ''stage-2''" "sg_subject g = ''operator''" "sg_runRef g = ''run-0''"
    using first_generation by (auto simp: map_option_case split: option.splits)
  have s: "find (is_stage ''operator'' ''stage-2'') (stages creator_built) = Some (hd (stages creator_built))"
    "st_runRef (hd (stages creator_built)) = ''run-0''" "loops_inv creator_built" by code_simp+
  have b: "stageGenerations (iterationBundleForRun d' ''operator'' ''run-0'') = [g]" using g by (simp add: iterationBundleForRun_def)
  have "\<forall>t. sort (map sg_generation (filter (\<lambda>g. sg_logicalStageRef g = t) [g]))
      = [1..int (length (filter (\<lambda>g. sg_logicalStageRef g = t) [g]))]"
    using generations_gapless[OF d' s(1,3)] unfolding Let_def s(2) b by blast
  from spec[OF this, of "''stage-2''"] show ?thesis using d' g(1,2) by simp
qed



text \<open>
  C8. Starting a queued rework makes the store unusable. Where a loop has queued its producer's rework, the store
  lets \<open>transitionAttempt\<close> move that attempt to \<open>starting\<close>; but the wall every load runs admits the producer
  of a queued rework only while it is queued or dead, so from then on every method throws, before it reads its
  arguments, and leaves the document as it is.
\<close>

theorem rework_start_breaks_load:
  assumes "distinct (map at_attemptRef (attempts d))" and "l \<in> set (iterationLoops d)" and "il_state l = ReworkQueued"
    and "owner_attempt d l = Some a"
    and "transitionAttempt e u (at_attemptRef a) n ''starting'' d = Commit d' v"
  shows "\<exists>x. run_method e' (m :: document \<Rightarrow> 'a outcome) (bump d') = (Threw x, bump d')"
proof -
  have "load_error e' (bump d') \<noteq> None"
    using started_rework_refused[OF assms(1-4), of e u n d' e'] assms(5) by (simp add: iterationError_refuses)
  then show ?thesis using run_method_refuses by blast
qed

lemma rework_start_breaks_load_witness:
  "load_error sample_env reworking = None
   \<and> (\<exists>d' v. transitionAttempt sample_env ''operator'' ''attempt-2'' 1 ''starting'' reworking = Commit d' v
      \<and> (\<exists>x. run_method sample_env (respondHumanRequest sample_env ''operator'' ''request-0'' (approval 1) OwnSubject) (bump d')
           = (Threw x, bump d')))"
proof
  show "load_error sample_env reworking = None" by code_simp
  have "case transitionAttempt sample_env ''operator'' ''attempt-2'' 1 ''starting'' reworking of
      Commit _ _ \<Rightarrow> True | _ \<Rightarrow> False" by code_simp
  then obtain d' v where c: "transitionAttempt sample_env ''operator'' ''attempt-2'' 1 ''starting'' reworking = Commit d' v"
    by (auto split: outcome.splits)
  have d: "distinct (map at_attemptRef (attempts reworking))" "reworking_loop \<in> set (iterationLoops reworking)"
      "il_state reworking_loop = ReworkQueued" by (simp_all add: reworking_def reworking_loop_def build_attempt_def rework_attempt_def)
  have "map_option at_attemptRef (owner_attempt reworking reworking_loop) = Some ''attempt-2''" by code_simp
  then obtain a where a: "owner_attempt reworking reworking_loop = Some a" "at_attemptRef a = ''attempt-2''" by auto
  from rework_start_breaks_load[OF d a(1), unfolded a(2), OF c] c
  show "\<exists>d' v. transitionAttempt sample_env ''operator'' ''attempt-2'' 1 ''starting'' reworking = Commit d' v
      \<and> (\<exists>x. run_method sample_env (respondHumanRequest sample_env ''operator'' ''request-0'' (approval 1) OwnSubject) (bump d')
           = (Threw x, bump d'))" by blast
qed

end
