(* ===== verification/Spec2Isabelle.thy ===== *)
theory Spec2Isabelle
  imports RunClaims SessionClaims PlacementClaims IterationClaims
begin

text \<open>
  The control plane of the kb dashboard (\<open>src/dashboard/server\<close>): a versioned JSON document that one
  daemon owns, and the operations that load a private copy of it, decide, and commit it whole.

  Parts and theories:
    \<^item> Prelude, Json, IsoTime: JavaScript strings, values and timestamps, the value walls of
      \<open>control/recordShape.ts\<close> and \<open>shared/decode.ts\<close>, \<open>canonicalJson\<close>.
    \<^item> Lifecycles: the closed state machines of runs (\<open>control/runLifecycle.ts\<close>), publication, stages,
      attempts and sessions (\<open>control/store.ts\<close>), each an interpretation of \<open>edge_machine\<close>.
    \<^item> StoreTypes, StoreDocument: the persisted records and the document.
    \<^item> StoreCore: the frame of a store method after its load (\<open>outcome\<close>, \<open>exec\<close>), invariants as the locale
      \<open>store_invariant\<close>, row lookup, human boundaries. StoreLoad: the load itself (\<open>validateStoreDocument\<close> with the
      walls of the loops and of \<open>control/authorizedIncidentRecovery.ts\<close>), and \<open>run_method\<close>, a method with its load.
    \<^item> Deployments, DeploymentFacts, AssetPulls: deployments and asset-pull intents with their walls.
    \<^item> Placement, Idempotency, PlacementState, LeaseService: the placement contracts, the idempotency
      records, the lease compare-and-swap of the store, and the lease service over its port, a parameter that
      nothing in the repository implements.
    \<^item> Matching, PlacementClaims: the requirement a workflow declares (\<open>placement/normalize.ts\<close>,
      \<open>requirements.ts\<close>), its match with an advertisement (\<open>match.ts\<close>) and the choice of a host
      (\<open>select.ts\<close>), against the abstract reading \<open>satisfies\<close>.
    \<^item> Decoders, RunWall: the closed decoders of a run, and what a persisted run has to satisfy (\<open>run_sound\<close>).
    \<^item> Events, HumanRequests: the timeline and the asks of a run; CoreInv joins their invariants with the runs'.
    \<^item> StageGates, Runs, RunFacts: what holds a stage or a run back; run transitions, publication, archiving.
    \<^item> RunActivation: the activation receipts of a run, at most one of them pending.
    \<^item> Stages, StageFacts: stages, attempts and worker sessions; at most one attempt of a stage in flight.
    \<^item> Broker, BrokerFacts: the session broker's mutations with their receipts and the steering ledger.
    \<^item> Managers, Reconcile, Quarantine, QuarantineFacts: Manager succession and commands, the projection of
      the canonical board, and the moves of runs into quarantine bundles and back.
    \<^item> Provenance, StageGraph, Proposals, Launch, LaunchFacts: the normalizers of launch provenance, the loop
      that refuses cyclic stage graphs, proposal revisions with their hash chain and decision, and
      \<open>createRun\<close> in its pieces (admission, fingerprint, approval, predecessor, the new rows).
    \<^item> IterationOutcome, IterationWall, Iteration: the outcome of a turn with what each verdict demands
      (\<open>control/iterationOutcome.ts\<close>), the wall of the loop collections (\<open>validateIterationDurability\<close>) and the
      seven operations of a loop, all through \<open>transitionIterationState\<close>, which refuses a document whose wall fails.
    \<^item> IterationFacts, IterationSteps, IterationEvidence: the commits of these operations, the machine of the
      loops (\<open>loop_edge\<close>, \<open>loop_path\<close>), the step of each operation, and what a passed loop and a walled run imply.
    \<^item> StoreSteps: the operations as one datatype, the relation \<open>later\<close> of the documents they reach, and the
      step lemma of each operation: it keeps \<open>store_inv\<close>, every answered request, every decided proposal and
      the path of every loop. Drain: the open requests of an owner, answered in turn by calls that load first.
    \<^item> Samples: a launch from the empty store, evaluated, for the witnesses. RunClaims and SessionClaims:
      the properties of launches, runs, stages, the broker, activation, succession and quarantine. LoopSamples,
      IterationClaims: a run with a review, and the properties of its loop.

  What precedes a commit: every method of the code loads first and throws on a document the walls refuse
  (\<open>load_error\<close>). \<open>exec\<close> is the method after that, on any document; \<open>run_method\<close> is the whole. A \<open>run_method\<close>
  either does what \<open>exec\<close> does or nothing (\<open>run_method_document\<close>), so \<open>later\<close>, which is stated with \<open>exec\<close>, reaches
  every document the code reaches, and its invariants hold of those. Properties that promise an answer (C20, C40)
  are stated with \<open>run_method\<close>.

  Each operation has a lemma \<open>_commit\<close>: what its guards let through when it commits a document. Invariants
  follow from these, never from unfolding the operation again.

  The environment \<open>env\<close> is the parameter for what is outside the model: the clock, the reference generator,
  sha256, the redaction of sensitive text, and the encoded sizes. Its hypotheses are \<open>env_ok\<close> (stamps are
  canonical, hashes are 64 lower-case hex digits), \<open>refs_ok\<close> (new references are safe identifiers) and
  the freshness of new references in \<open>op_ok\<close>, which also keeps caller numbers below 2^53 and leaves out inputs
  the code accepts and mishandles: those of C11 and C35, a launch by an owner that is not a safe identifier, and
  a park that names the turn of another loop. \<open>reachable\<close> and \<open>later\<close> are about the other inputs.

  Loops: the Kahn loop terminates by a measure on the open counts; the long-polling claim loop is a
  \<open>partial_function\<close>, proved to answer while it can lose finitely many races (C2), and not to answer when it
  loses them all (C7).

  Where the model is coarser than the code: a timestamp is recognised by its shape in the years 0 to 9999
  (\<open>isCanonicalTimestamp\<close>) instead of by printing its parse; characters are 8-bit, so the test for U+FFFD is
  void; the detail of a run leaves out its iteration collections.

  Not modelled: the scan of a model's raw text for the JSON of its outcome, the proposal validator and diff,
  schedules beyond the completion of an occurrence, document migrations other than the review groups of a
  launch, and everything that is I/O: persistence, the HTTP routes, the execution engine, git and the browser client.
\<close>

section \<open>Leases\<close>

text \<open>
  C1. A granted lease is the only one of its run, and it excludes every other claim until it expires:
  whoever claims the run before the lease's 120 seconds are over is told of the holder's lease.
\<close>

theorem claim_excludes:
  assumes "leases_ok d" and "claimLease r h hsh t d = (Inr (Granted l rs), d')"
    and "iso_lo \<le> t" and "t + LEASE_TTL_MS < iso_hi" and "u < t + LEASE_TTL_MS"
  shows "pl_runRef l = r \<and> pl_hostId l = h \<and> pl_revision l = 1 \<and> leases_ok d'
    \<and> filter (is_lease r) (placementLeases d') = [l]
    \<and> (\<exists>d''. claimLease r h2 hsh2 u d' = (Inr (AlreadyLeased l), d''))"
proof -
  have none: "find (is_lease r) (placementLeases (reclaimed t d)) = None"
    using assms(2) claim_held by (cases "find (is_lease r) (placementLeases (reclaimed t d))") fastforce+
  have v: "lease_valid (new_lease r h hsh t)"
    using assms(2) claim_thrown[OF none] by (cases "lease_valid (new_lease r h hsh t)") fastforce+
  from claim_free[OF none v] assms(2) have l: "l = new_lease r h hsh t"
    and d': "placementLeases d' = placementLeases (reclaimed t d) @ [l]" by auto
  have ok: "leases_ok d'" using claimLease_keeps[OF assms(1), of r h hsh t] assms(2) by simp
  have one: "filter (is_lease r) (placementLeases d') = [l]"
    using none by (simp add: d' l new_lease_def is_lease_def find_None_iff' filter_empty_conv)
  have live: "\<not> lease_expired u l"
    using assms(3-5) by (simp add: lease_expired_def l new_lease_def iso_parse_iso LEASE_TTL_MS_def)
  have "find (is_lease r) (filter (\<lambda>l. \<not> lease_expired u l) (placementLeases (reclaimed t d))) = None"
    using none by (auto simp: find_None_iff')
  moreover have "is_lease r l" by (simp add: l new_lease_def is_lease_def)
  ultimately have "find (is_lease r) (placementLeases (reclaimed u d')) = Some l"
    using live by (simp add: reclaimExpiredLeases_def[of u] d' find_append)
  then show ?thesis
    using ok one claim_held[of r u d' l h2 hsh2] by (auto simp: l new_lease_def)
qed

definition sample_hash :: string where
  "sample_hash = replicate 64 CHR ''a''"

lemma claim_excludes_witness:
  "\<exists>l rs d' d''. claimLease ''run-1'' Vm sample_hash 0 emptyStoreDocument = (Inr (Granted l rs), d')
     \<and> pl_hostId l = Vm \<and> claimLease ''run-1'' Desktop sample_hash 60000 d' = (Inr (AlreadyLeased l), d'')"
proof -
  have ok: "leases_ok emptyStoreDocument" by (simp add: leases_ok_def emptyStoreDocument_def)
  have r: "SAFE_REF ''run-1''" "hex_len 64 sample_hash" by code_simp+
  have v: "lease_valid (new_lease ''run-1'' Vm sample_hash 0)"
    by (rule new_lease_valid) (simp_all add: r LEASE_TTL_MS_def iso_lo_def iso_hi_def)
  have "find (is_lease ''run-1'') (placementLeases (reclaimed 0 emptyStoreDocument)) = None"
    by (simp add: reclaimExpiredLeases_def emptyStoreDocument_def)
  from claim_free[OF this v] obtain l rs d' where
    c: "claimLease ''run-1'' Vm sample_hash 0 emptyStoreDocument = (Inr (Granted l rs), d')" by blast
  from claim_excludes[OF ok c, of 60000 Desktop sample_hash] c show ?thesis
    by (auto simp: LEASE_TTL_MS_def iso_lo_def iso_hi_def)
qed


text \<open>A run wanted by \<open>rc_rivals\<close> other claimants, each of which wins one race.\<close>

record race = rc_clock :: int  rc_rivals :: nat

definition raced :: "race lease_port" where
  "raced = \<lparr>lp_now = \<lambda>s. (rc_clock s, s), lp_sleep = \<lambda>ms s. s\<lparr>rc_clock := rc_clock s + ms\<rparr>,
     lp_releaseExpiredLeases = \<lambda>_ s. ([], s), lp_selectCandidate = \<lambda>_ _ s. (Some (''run-1'', sample_hash), s),
     lp_createLease = \<lambda>r h hsh _ s. if 0 < rc_rivals s
       then (None, s\<lparr>rc_clock := rc_clock s + 7, rc_rivals := rc_rivals s - 1\<rparr>)
       else (Some (new_lease r h hsh (rc_clock s)), s),
     lp_getLease = \<lambda>_ s. (None, s), lp_renewLease = \<lambda>_ _ _ s. (None, s),
     lp_currentAdvertisedCapabilityHash = \<lambda>_ s. (None, s)\<rparr>"


text \<open>
  C7. The deadline of a claim does not bound it: where the port always has a candidate and another claimant
  always wins its race, the claim never answers, whatever wait it was given and whatever the clock shows.
\<close>

theorem service_claim_starves:
  assumes "contended p I" and "I s" and "0 \<le> wait" and "wait \<le> MAX_CLAIM_WAIT_MS"
  shows "service_claimLease p h wait poll s = None"
proof -
  obtain t s1 where t: "lp_now p s = (t, s1)" by fastforce
  have "I s1" using assms(1)[unfolded contended_def, rule_format, OF assms(2)] t by simp
  from claim_starves[OF assms(1) this] show ?thesis using assms(3,4) by (simp add: service_claimLease_def t)
qed

text \<open>A queue of runs of which each is gone by the time its lease is asked for, a second later.\<close>

definition overrun :: "race lease_port" where
  "overrun = raced\<lparr>lp_selectCandidate := \<lambda>_ _ s. (Some (''run-'' @ int_str (int (rc_rivals s)), sample_hash), s),
     lp_createLease := \<lambda>_ _ _ _ s. (None, s\<lparr>rc_clock := rc_clock s + 1000, rc_rivals := rc_rivals s + 1\<rparr>)\<rparr>"

lemma service_claim_starves_witness:
  "service_claimLease overrun Vm 0 None \<lparr>rc_clock = 0, rc_rivals = 0\<rparr> = None"
proof -
  have "contended overrun (\<lambda>_. True)" by (simp add: contended_def overrun_def raced_def)
  then show ?thesis by (rule service_claim_starves) (simp_all add: MAX_CLAIM_WAIT_MS_def)
qed

text \<open>
  C3. A renewal commits only for the host that holds the run's live lease, under the revision it expects,
  and it moves that lease and no other. Before the renewed 120 seconds are over, the same renewal sent again
  is refused under its spent revision, every other host is refused, and whoever claims the run is told of
  the renewed lease.
\<close>

theorem renew_only_by_holder:
  assumes "leases_ok d" and "renewLease r h n t d = (Inr (Renewed l'), d')"
    and "iso_lo \<le> t" and "t + LEASE_TTL_MS < iso_hi" and "u < t + LEASE_TTL_MS" and "k \<noteq> h"
  shows "(\<exists>l. find (is_lease r) (placementLeases d) = Some l \<and> pl_hostId l = h \<and> pl_revision l = n
        \<and> t < date_ms (pl_expiresAt l) \<and> l' = l\<lparr>pl_revision := n + 1, pl_expiresAt := iso (t + LEASE_TTL_MS)\<rparr>)
    \<and> leases_ok d' \<and> (\<forall>r'. find (is_lease r') (placementLeases d')
          = (if r' = r then Some l' else find (is_lease r') (placementLeases d)))
    \<and> renewLease r h n u d' = (Inr (RenewRefused RevisionMismatch), d')
    \<and> renewLease r k m u d' = (Inr (RenewRefused WrongHost), d')
    \<and> fst (claimLease r k hsh u d') = Inr (AlreadyLeased l')"
proof (rule renewLease_document[of r h n t d])
  fix l l'' assume l: "find (is_lease r) (placementLeases d) = Some l" and v: "lease_valid l''"
    and live: "\<not> lease_expired t l" and h: "pl_hostId l = h" and n: "pl_revision l = n"
    and l'': "l'' = l\<lparr>pl_revision := n + 1, pl_expiresAt := iso (t + LEASE_TTL_MS)\<rparr>"
    and r: "renewLease r h n t d = (Inr (Renewed l''),
          d\<lparr>placementLeases := upd_first (is_lease r) (\<lambda>_. l'') (placementLeases d)\<rparr>)"
  have l': "l' = l''" and d': "d' = d\<lparr>placementLeases := upd_first (is_lease r) (\<lambda>_. l'') (placementLeases d)\<rparr>"
    using r assms(2) by simp_all
  have ok: "leases_ok d'" using renewLease_keeps[OF assms(1), of r h n t] assms(2) by simp
  have lv: "lease_valid l" and "is_lease r l" using l assms(1) by (auto simp: leases_ok_def list_all_iff find_Some_iff)
  then have r': "is_lease r l''" by (simp add: l'' is_lease_def)
  have found: "find (is_lease r') (placementLeases d')
      = (if r' = r then Some l' else find (is_lease r') (placementLeases d))" for r'
    using lease_after_renewal[OF l r', of r'] by (simp add: d' l')
  have fresh: "\<not> lease_expired u l'"
    using assms(3-5) by (simp add: lease_expired_def l' l'' iso_parse_iso LEASE_TTL_MS_def)
  have "find (is_lease r) (placementLeases (reclaimed u d')) = Some l'"
    using found[of r] fresh unfolding reclaimExpiredLeases_def by (simp add: find_filter_kept)
  then have "fst (claimLease r k hsh u d') = Inr (AlreadyLeased l')" by (simp add: claim_held)
  moreover have "renewLease r h n u d' = (Inr (RenewRefused RevisionMismatch), d')"
    "renewLease r k m u d' = (Inr (RenewRefused WrongHost), d')"
    using found[of r] fresh assms(6) h by (simp_all add: renewLease_def l' l'')
  moreover have "t < date_ms (pl_expiresAt l)" using live lease_expired_valid[OF lv] by simp
  ultimately show ?thesis using l h n l' l'' ok found by auto
next
  assume "\<And>x. fst (renewLease r h n t d) \<noteq> Inr (Renewed x)"
  from this[of l'] show ?thesis using assms(2) by simp
qed

definition leased :: document where
  "leased = emptyStoreDocument\<lparr>placementLeases := [\<lparr>pl_runRef = ''run-1'', pl_hostId = Vm,
     pl_capabilityHash = sample_hash, pl_revision = 1, pl_expiresAt = ''1970-01-01T00:02:00.000Z'',
     pl_lastReportSequence = 0\<rparr>]\<rparr>"

lemma renew_only_by_holder_witness:
  "\<exists>l' d'. renewLease ''run-1'' Vm 1 60000 leased = (Inr (Renewed l'), d') \<and> pl_revision l' = 2
     \<and> renewLease ''run-1'' Vm 1 120000 d' = (Inr (RenewRefused RevisionMismatch), d')"
proof -
  have ok: "leases_ok leased" by code_simp
  have "case renewLease ''run-1'' Vm 1 60000 leased of (Inr (Renewed l'), _) \<Rightarrow> pl_revision l' = 2 | _ \<Rightarrow> False"
    by code_simp
  then obtain l' d' where r: "renewLease ''run-1'' Vm 1 60000 leased = (Inr (Renewed l'), d')" and "pl_revision l' = 2"
    by (auto split: prod.splits sum.splits renew_result.splits)
  moreover have "renewLease ''run-1'' Vm 1 120000 d' = (Inr (RenewRefused RevisionMismatch), d')"
    using renew_only_by_holder[OF ok r, of 120000 Desktop 0 "[]"]
    by (simp add: LEASE_TTL_MS_def iso_lo_def iso_hi_def)
  ultimately show ?thesis by blast
qed

section \<open>Keys, rows and times\<close>

text \<open>
  The composite key of an idempotency record determines its four parts: two requests share a record
  exactly when actor, method, URI and key all agree.
\<close>

lemma record_key_determines_parts:
  "idempotencyRecordKey a m u k = Inr s \<and> idempotencyRecordKey a' m' u' k' = Inr s \<longleftrightarrow>
     idempotencyRecordKey a m u k = Inr s \<and> a' = a \<and> m' = m \<and> u' = u \<and> k' = k"
  using idempotencyRecordKey_injective by blast

text \<open>
  C5. The placement rows round trip: what is persisted of a lease or an advertisement decodes again, to
  the same value, exactly when the row is valid.
\<close>

theorem placement_rows_roundtrip:
  "(decodePlacementLease (lease_js l) = Inr l' \<longleftrightarrow> l' = l \<and> lease_valid l)
   \<and> (decodeHostAdvertisement (advertisement_js a) = Inr a \<longleftrightarrow> advertisement_valid a)"
  using decodePlacementLease_back decodeHostAdvertisement_back decodeHostAdvertisement_valid by blast

text \<open>An idempotency record reads back as it was written, exactly when it is valid.\<close>

lemma idempotency_rows_roundtrip:
  "decodeV1IdempotencyRecord (idempotency_js r) = Inr r' \<longleftrightarrow> r' = r \<and> idempotency_valid r"
  by (rule decodeV1IdempotencyRecord_back)

text \<open>Every stamp the daemon prints in a four-digit year is canonical and parses back to the millisecond it shows.\<close>

lemma timestamps_roundtrip:
  assumes "iso_lo \<le> ms" and "ms < iso_hi"
  shows "iso_parse (iso ms) = Some ms \<and> isCanonicalTimestamp (JStr (iso ms))"
  using assms by (simp add: iso_parse_iso is_iso_iso)

text \<open>\<open>internalRun\<close> answers exactly on the rows of valid runs, with the public part of the row.\<close>

lemma internalRun_wall:
  "internalRun r = (if run_valid r then Inr (run.truncate r) else Inl dt_invalid_run)"
  by (rule internalRun_iff)

section \<open>Deployments\<close>

text \<open>
  C9. Every commit of a deployment operation leaves a collection that the store's own wall accepts on the
  next load, with at most one deployment that is not terminal and the receipts of each within their ring.
\<close>

theorem deployment_commits_reload:
  assumes "env_ok e" and "deployments_inv d"
    and "d' = snd (exec e (createDeployment e subject input) d)
      \<or> d' = snd (exec e (transitionDeployment e subject dref input) d)"
  shows "assertDeploymentCollection (JArr (map stored_deployment_js (deployments d'))) = None
    \<and> length (filter (\<lambda>x. \<not> isTerminalDeploymentState (d_state x)) (deployments d')) \<le> 1
    \<and> deployments_inv d'"
proof -
  have "deployments_inv d'"
    using assms deployments_inv.exec_keeps[OF createDeployment_keeps _ prod.collapse[symmetric]]
      deployments_inv.exec_keeps[OF transitionDeployment_keeps _ prod.collapse[symmetric]] by blast
  then show ?thesis
    by (auto simp: deployments_inv_def assert_iff deployments_ok_def open_deployments_def)
qed

definition sample_deployment :: js where
  "sample_deployment = JObj [(''deploymentRef'', JStr ''deploy-1''), (''idempotencyKey'', JStr ''key-1''),
     (''initialState'', JStr ''requested''), (''parkWarnAt'', JStr ''2026-01-01T01:00:00.000Z''),
     (''previousCommit'', JStr (replicate 40 CHR ''a'')), (''requestedAt'', JStr ''2026-01-01T00:00:00.000Z''),
     (''targetCommit'', JStr (replicate 40 CHR ''b''))]"

lemma empty_deployments: "deployments_inv emptyStoreDocument"
  by (simp add: deployments_inv_def deployments_ok_def emptyStoreDocument_def receipts_of_def open_deployments_def)

definition deployed :: document where
  "deployed = snd (exec sample_env (createDeployment sample_env ''operator'' sample_deployment) emptyStoreDocument)"

lemma deployment_commits_reload_witness:
  "deployments_inv deployed \<and> map d_deploymentRef (deployments deployed) = [''deploy-1'']"
proof -
  have "deployments_inv deployed"
    using deployment_commits_reload[OF sample_env_ok empty_deployments,
        of deployed "''operator''" sample_deployment] by (simp add: deployed_def del: exec.simps)
  moreover have "map d_deploymentRef (deployments deployed) = [''deploy-1'']" by code_simp
  ultimately show ?thesis by simp
qed

text \<open>
  C10. A deployment transition that committed, sent again with the same key and content, answers with the
  stored result and saves nothing; and no transition ever throws on a collection the store keeps.
\<close>

theorem deployment_transition_replays:
  assumes "env_ok e" and "deployments_inv d" and "transitionDeployment e subject dref input d = Commit d' v"
  shows "exec e (transitionDeployment e subject dref input) (bump d') = (Ok v True, bump d')
    \<and> (\<forall>m. transitionDeployment e subject dref input d \<noteq> Raise m)"
  using transitionDeployment_replays[OF assms] transitionDeployment_never_raises[OF assms(2)] by simp

definition sample_park :: js where
  "sample_park = JObj [(''expectedRevision'', JNum 1), (''expectedState'', JStr ''requested''),
     (''idempotencyKey'', JStr ''key-2''), (''nextState'', JStr ''parked''), (''patch'', JObj [])]"

lemma deployment_transition_replays_witness:
  "\<exists>d' v. transitionDeployment sample_env ''operator'' ''deploy-1'' sample_park deployed = Commit d' v
     \<and> exec sample_env (transitionDeployment sample_env ''operator'' ''deploy-1'' sample_park) (bump d')
         = (Ok v True, bump d')"
proof -
  have i: "deployments_inv deployed"
    using deployments_inv.exec_keeps[OF createDeployment_keeps[OF sample_env_ok] empty_deployments prod.collapse[symmetric]]
    by (simp add: deployed_def del: exec.simps)
  have "case transitionDeployment sample_env ''operator'' ''deploy-1'' sample_park deployed of
      Commit _ _ \<Rightarrow> True | _ \<Rightarrow> False" by code_simp
  then obtain d' v where c:
    "transitionDeployment sample_env ''operator'' ''deploy-1'' sample_park deployed = Commit d' v"
    by (auto split: outcome.splits)
  from deployment_transition_replays[OF sample_env_ok i c] c show ?thesis by blast
qed

section \<open>Asset pulls\<close>

text \<open>
  C11. The update wall of asset-pull intents lets a settlement to \<open>succeeded\<close> through whose result says
  \<open>failed\<close>. Such an update, when it commits, leaves a row the store's own collection wall refuses.
\<close>

theorem asset_pull_mismatch_breaks_reload:
  assumes "mismatched input" and "updateAssetPullIntent subject intentRef input d = Commit d' v"
  shows "assertAssetPullCollection (JArr (map pull_intent_js (assetPullIntents d'))) \<noteq> None"
  using mismatched_breaks[OF assms(1), of subject intentRef d d'] assms(2) by (simp add: assert_pulls_iff)

definition sample_intent :: pull_intent where
  "sample_intent = \<lparr>pi_intentRef = ''assetpull-'' @ replicate 32 CHR ''0'', pi_runRef = ''run-1'',
     pi_manifestDigest = sample_hash, pi_state = PullInFlight, pi_requestedAt = ''2026-01-01T00:00:00.000Z'',
     pi_attempts = 1, pi_result = None\<rparr>"

definition pulling :: document where
  "pulling = emptyStoreDocument\<lparr>assetPullIntents := [sample_intent]\<rparr>"

definition settle_input :: "string \<Rightarrow> js" where
  "settle_input out = JObj [(''expectedState'', JStr ''in-flight''), (''expectedAttempts'', JNum 1),
     (''nextState'', JStr ''succeeded''), (''attemptsDelta'', JNum 0),
     (''result'', JObj [(''outcome'', JStr out), (''receiptAt'', JStr ''2026-01-01T00:05:00.000Z''),
        (''errorCode'', JNull)]),
     (''idempotencyKey'', JStr ''key-1'')]"

lemma asset_pull_mismatch_breaks_reload_witness:
  "pulls_ok pulling \<and> (\<exists>d' v.
     updateAssetPullIntent ''operator'' (pi_intentRef sample_intent) (settle_input ''failed'') pulling = Commit d' v
     \<and> assertAssetPullCollection (JArr (map pull_intent_js (assetPullIntents d'))) \<noteq> None)"
proof -
  have p: "pulls_ok pulling"
    unfolding assert_pulls_iff[symmetric] by code_simp
  have m: "mismatched (settle_input ''failed'')" by code_simp
  have "case updateAssetPullIntent ''operator'' (pi_intentRef sample_intent) (settle_input ''failed'') pulling of
      Commit _ _ \<Rightarrow> True | _ \<Rightarrow> False" by code_simp
  then obtain d' v where c: "updateAssetPullIntent ''operator'' (pi_intentRef sample_intent)
      (settle_input ''failed'') pulling = Commit d' v" by (auto split: outcome.splits)
  from asset_pull_mismatch_breaks_reload[OF m c] c p show ?thesis by blast
qed

text \<open>
  C12. Every other asset-pull commit leaves a collection the wall accepts: the attempts within their
  bound, the references distinct, a success only with a successful result.
\<close>

theorem asset_pull_commits_reload:
  assumes "pulls_ok d" and "d' = snd (exec e (createAssetPullIntent subject input) d)
      \<or> \<not> mismatched input \<and> d' = snd (exec e (updateAssetPullIntent subject intentRef input) d)"
  shows "assertAssetPullCollection (JArr (map pull_intent_js (assetPullIntents d'))) = None"
  using assms pulls_ok.exec_keeps[OF createAssetPullIntent_keeps _ prod.collapse[symmetric]]
    pulls_ok.exec_keeps[OF updateAssetPullIntent_keeps _ prod.collapse[symmetric]]
  unfolding assert_pulls_iff by blast

lemma asset_pull_commits_reload_witness:
  "assertAssetPullCollection (JArr (map pull_intent_js (assetPullIntents (snd (exec sample_env
     (updateAssetPullIntent ''operator'' (pi_intentRef sample_intent) (settle_input ''succeeded'')) pulling))))) = None
   \<and> map pi_state (assetPullIntents (snd (exec sample_env
     (updateAssetPullIntent ''operator'' (pi_intentRef sample_intent) (settle_input ''succeeded'')) pulling))) = [PullSucceeded]"
proof -
  have p: "pulls_ok pulling" unfolding assert_pulls_iff[symmetric] by code_simp
  have m: "\<not> mismatched (settle_input ''succeeded'')" by code_simp
  have "map pi_state (assetPullIntents (snd (exec sample_env
     (updateAssetPullIntent ''operator'' (pi_intentRef sample_intent) (settle_input ''succeeded'')) pulling))) = [PullSucceeded]"
    by code_simp
  moreover note asset_pull_commits_reload[OF p, of "snd (exec sample_env
     (updateAssetPullIntent ''operator'' (pi_intentRef sample_intent) (settle_input ''succeeded'')) pulling)"
     sample_env "''operator''" "settle_input ''succeeded''" "pi_intentRef sample_intent"]
  ultimately show ?thesis using m by (simp del: exec.simps)
qed

section \<open>Events and requests\<close>

text \<open>A reader that asks for page after page, each from the last cursor it has seen, at most \<open>k\<close> times.\<close>

fun read_timeline :: "string \<Rightarrow> string \<Rightarrow> int \<Rightarrow> read_scope \<Rightarrow> document \<Rightarrow> nat \<Rightarrow> int \<Rightarrow> event list" where
  "read_timeline subject runRef limit scope d 0 cursor = []"
| "read_timeline subject runRef limit scope d (Suc k) cursor =
     (case listEvents subject runRef cursor limit scope d of
        Value page \<Rightarrow> if page = [] then []
          else page @ read_timeline subject runRef limit scope d k (ev_cursor (last page))
      | _ \<Rightarrow> [])"

lemma last_cursor:
  assumes "0 < n" and "n \<le> length vs"
  shows "ev_cursor (last (map publicEvent (take n vs))) = ev_cursor (vs ! (n - 1))"
proof -
  have "take n vs \<noteq> []" using assms by (cases vs) auto
  then show ?thesis using assms by (simp add: last_map last_conv_nth publicEvent_def event.defs min_absorb2)
qed

lemma read_timeline_reads:
  assumes "events_inv d" and "nextEventCursor d \<le> max_safe" and "findRun d u x sc = Some r" and "1 \<le> limit"
    and "limit \<le> MAX_EVENT_PAGE" and "0 \<le> c" and "c \<le> max_safe" and "length (events_after (r_subject r) x c d) \<le> k"
  shows "read_timeline u x limit sc d k c = map publicEvent (events_after (r_subject r) x c d)"
  using assms(6-8)
proof (induction k arbitrary: c)
  case (Suc k)
  let ?vs = "events_after (r_subject r) x c d" and ?n = "min (nat limit) (length (events_after (r_subject r) x c d))"
  have "limit \<le> max_safe" using assms(5) by (simp add: MAX_EVENT_PAGE_def max_safe_def)
  then have page: "listEvents u x c limit sc d = Value (map publicEvent (take ?n ?vs))"
    using Suc.prems(1,2) assms(3-5) by (simp add: listEvents_def safe_int_def min_def)
  show ?case
  proof (cases "?vs = []")
    case False
    then have n: "0 < ?n" "?n \<le> length ?vs" using assms(4) by auto
    let ?c = "ev_cursor (?vs ! (?n - 1))"
    have "?vs ! (?n - 1) \<in> set ?vs" using n by (intro nth_mem) linarith
    then have "?vs ! (?n - 1) \<in> set (events d)" "c < ?c" by (auto simp: events_after_def)
    then have "?c < nextEventCursor d" using assms(1) by (simp add: events_inv_def)
    have rest: "events_after (r_subject r) x ?c d = drop ?n ?vs" by (rule next_page[OF assms(1) n])
    have "ev_cursor (last (map publicEvent (take ?n ?vs))) = ?c"
      by (rule last_cursor[OF n])
    moreover have "read_timeline u x limit sc d k ?c = map publicEvent (drop ?n ?vs)"
    proof -
      have "length (drop ?n ?vs) \<le> k" using Suc.prems(3) n unfolding length_drop by linarith
      then show ?thesis
        using Suc.IH[of ?c] Suc.prems(1) \<open>c < ?c\<close> \<open>?c < nextEventCursor d\<close> assms(2) unfolding rest by linarith
    qed
    moreover have "take ?n ?vs \<noteq> []" using n by (cases ?vs) auto
    ultimately show ?thesis by (simp add: page map_append[symmetric] del: map_append)
  qed (simp add: page)
qed simp

text \<open>
  C13. Reading a run's timeline page by page with \<open>listEvents\<close>, each page from the last cursor of the one before,
  yields every event of the run's owner after the cursor it starts from, once and in order, whatever the
  size of the page. An event that \<open>appendEvent\<close> adds then is what the reader sees next; its references name rows of
  the run, and the cursors stay in order.
\<close>

theorem timeline_pages:
  assumes "events_inv d" and "nextEventCursor d < max_safe" and "findRun d u x sc = Some r" and "1 \<le> limit"
    and "limit \<le> MAX_EVENT_PAGE" and "0 \<le> c" and "c < nextEventCursor d" and "length (events d) \<le> k"
  shows "read_timeline u x limit sc d k c = map publicEvent
        (filter (\<lambda>v. ev_subject v = r_subject r \<and> ev_runRef v = x \<and> c < ev_cursor v) (events d))
    \<and> (\<forall>d' v. appendEvent e u x input sc d = Commit d' v \<longrightarrow> events_inv d'
        \<and> read_timeline u x limit sc d' (Suc k) c = read_timeline u x limit sc d k c @ [v]
        \<and> (\<forall>s. ev_stageRef v = Some s \<and> s \<noteq> [] \<longrightarrow>
            (\<exists>st\<in>set (stages d). st_subject st = r_subject r \<and> st_runRef st = x \<and> st_stageRef st = s)))"
proof -
  have len: "length (events_after (r_subject r) x c d) \<le> k"
    unfolding events_after_def by (rule order_trans[OF length_filter_le assms(8)])
  have read: "read_timeline u x limit sc d k c = map publicEvent (events_after (r_subject r) x c d)"
    by (rule read_timeline_reads[OF assms(1) _ assms(3-6) _ len]) (use assms(2,7) in simp_all)
  have new: "events_inv d' \<and> read_timeline u x limit sc d' (Suc k) c = read_timeline u x limit sc d k c @ [v]
      \<and> (\<forall>s. ev_stageRef v = Some s \<and> s \<noteq> [] \<longrightarrow>
            (\<exists>st\<in>set (stages d). st_subject st = r_subject r \<and> st_runRef st = x \<and> st_stageRef st = s))"
    if a: "appendEvent e u x input sc d = Commit d' v" for d' v
  proof -
    let ?w = "input_event e (r_subject r) x input (nextEventCursor d)"
    have d': "d' = push_events [?w] d" and v: "v = publicEvent ?w" and refs: "validateRefs d (r_subject r) x input = None"
      using a assms(3) by (auto simp: appendEvent_def Let_def split: if_splits option.splits)
    have i: "events_inv d'"
      using appendEvent_keeps[of e u x input sc, unfolded keeps_def, rule_format, OF assms(1), of d'] a by simp
    have "findRun d' u x sc = Some r" using assms(3) by (simp add: d' findRun_def push_events_def)
    moreover have after: "events_after (r_subject r) x c d' = events_after (r_subject r) x c d @ [?w]"
      using assms(7) by (simp add: d' events_after_def push_events_def input_event_def run_event_def)
    ultimately have "read_timeline u x limit sc d' (Suc k) c = map publicEvent (events_after (r_subject r) x c d')"
      using read_timeline_reads[OF i, of u x sc r limit c "Suc k"] assms(2,4-7) len
      by (simp add: d' push_events_def del: read_timeline.simps)
    moreover have "\<exists>st\<in>set (stages d). st_subject st = r_subject r \<and> st_runRef st = x \<and> st_stageRef st = s"
      if "ev_stageRef v = Some s" and "s \<noteq> []" for s
    proof -
      have "fld input ''stageRef'' = JStr s"
        using that(1) by (auto simp: v publicEvent_def event.defs input_event_def Events.js_text_def split: js.splits)
      then show ?thesis using refs that(2) by (auto simp: validateRefs_def list_ex_iff split: if_splits)
    qed
    ultimately show ?thesis using i by (simp add: read after v del: read_timeline.simps)
  qed
  then show ?thesis by (auto simp: read events_after_def run_event_def conj_assoc simp del: read_timeline.simps)
qed

definition sample_event :: "int \<Rightarrow> stored_event" where
  "sample_event n = \<lparr>ev_cursor = n, ev_runRef = ''run-0'', ev_kind = EkMessage, ev_source = EsSystem,
     ev_stageRef = None, ev_attemptRef = None, ev_sessionRef = None, ev_status = None,
     ev_summary = Some ''hello'', ev_command = None, ev_toolName = None, ev_path = None, ev_diff = None,
     ev_checkpoint = None, ev_createdAt = ''2026-01-01T00:00:00.000Z'', ev_subject = ''operator'',
     ev_operationKey = None, ev_operationFingerprint = None\<rparr>"

definition paged :: document where
  "paged = emptyStoreDocument\<lparr>runs := [sample_run], events := map sample_event [1, 4, 5], nextEventCursor := 6\<rparr>"

lemma timeline_pages_witness:
  "map ev_cursor (read_timeline ''operator'' ''run-0'' 2 OwnSubject paged 3 1) = [4, 5]"
proof -
  have i: "events_inv paged"
    by (simp add: paged_def events_inv_def quarantined_events_def emptyStoreDocument_def sample_event_def)
  have f: "findRun paged ''operator'' ''run-0'' OwnSubject = Some sample_run" by code_simp
  have "read_timeline ''operator'' ''run-0'' 2 OwnSubject paged 3 1 = map publicEvent
      (filter (\<lambda>v. ev_subject v = r_subject sample_run \<and> ev_runRef v = ''run-0'' \<and> 1 < ev_cursor v) (events paged))"
    using timeline_pages[OF i _ f, of 2 1 3 sample_env JNull]
    by (simp add: paged_def max_safe_def MAX_EVENT_PAGE_def del: read_timeline.simps)
  then show ?thesis
    by (simp add: paged_def sample_event_def sample_run_def publicEvent_def event.defs del: read_timeline.simps)
qed

text \<open>
  C14. The engine's auto-close of a run's open requests never accepts a boundary, touches no request that
  is already answered, and keeps the run's event budget.
\<close>

theorem auto_close_accepts_nothing:
  "list_all2 (\<lambda>q q'. q' = q \<or> hq_open q \<and> \<not> boundaryAccepted q') (humanRequests d)
     (humanRequests (snd (autoCloseOpenHumanRequestsForRun subject runRef at tag reason m d)))
   \<and> event_count (snd (autoCloseOpenHumanRequestsForRun subject runRef at tag reason m d)) subject runRef
       \<le> max m (event_count d subject runRef)"
proof (rule autoClose_document[of subject runRef at tag reason m d])
  fix vs let ?x = "autoCloseOpenHumanRequestsForRun subject runRef at tag reason m d"
  assume x: "snd ?x = (push_events vs d)\<lparr>humanRequests := map (\<lambda>q.
        if auto_closes (isIterationGateRequest d) subject runRef q then auto_closed subject runRef at tag reason q else q)
        (humanRequests d)\<rparr>"
    and vs: "list_all (run_event subject runRef) vs" "length vs = min (length (fst ?x)) (m - event_count d subject runRef)"
  have "\<not> boundaryAccepted (auto_closed subject runRef at tag reason q)" for q
    by (simp add: boundaryAccepted_def auto_closed_def recordHumanResponse_def)
  moreover have "filter (run_event subject runRef) vs = vs" using vs(1) by (simp add: filter_id_conv list_all_iff)
  ultimately show ?thesis
    using vs(2) by (auto simp: x list_all2_map2 auto_closes_def event_count_def push_events_def intro!: list_all2_refl)
qed

end
